(* ===== verification/Prelude.thy ===== *)
theory Prelude
  imports Complex_Main "HOL-Library.Sublist" "HOL-Library.Char_ord" "HOL-Library.List_Lexorder"
begin

text \<open>
  Shared vocabulary of the development: named fact collections, the error-or-value result
  every throwing function returns, the accumulate-or-throw monad of the checkers that push
  messages to a list, and the string operations of JavaScript that the scripts use.  A string
  is the list of bytes of its UTF-8 encoding: equality, prefixes, suffixes and splitting at
  an ASCII character agree with JavaScript's, and \<open>utf16_length\<close> computes \<open>length\<close>.
\<close>

named_theorems res_simps \<open>equations of the result monads\<close>
named_theorems str_simps \<open>equations of the string operations\<close>
named_theorems guard_defs \<open>definitions of the guards a claim unfolds\<close>

section \<open>Results: a thrown error or a value\<close>

definition bindR :: "'e + 'a \<Rightarrow> ('a \<Rightarrow> 'e + 'b) \<Rightarrow> 'e + 'b" where
  "bindR m f = (case m of Inl e \<Rightarrow> Inl e | Inr x \<Rightarrow> f x)"

lemma bindR_simps [simp, res_simps]:
  "bindR (Inl e) f = Inl e"
  "bindR (Inr x) f = f x"
  by (simp_all add: bindR_def)

lemma bindR_Inr_iff: "bindR m f = Inr y \<longleftrightarrow> (\<exists>x. m = Inr x \<and> f x = Inr y)"
  by (cases m) simp_all

lemma bindR_assoc: "bindR (bindR m f) g = bindR m (\<lambda>x. bindR (f x) g)"
  by (cases m) simp_all

text \<open>\<open>if (bad) throw error;\<close>\<close>

definition throw_if :: "bool \<Rightarrow> 'e \<Rightarrow> 'e + unit" where
  "throw_if bad e = (if bad then Inl e else Inr ())"

lemma throw_if_Inr [simp, res_simps]: "throw_if bad e = Inr u \<longleftrightarrow> \<not> bad"
  by (simp add: throw_if_def)

lemma throw_if_Inl [simp, res_simps]: "throw_if bad e = Inl e' \<longleftrightarrow> bad \<and> e' = e"
  by (auto simp: throw_if_def)

lemma bindR_throw_if [simp, res_simps]:
  "bindR (throw_if bad e) f = (if bad then Inl e else f ())"
  by (simp add: throw_if_def)

text \<open>A \<open>for\<close> loop whose body may throw.\<close>

fun each_R :: "('a \<Rightarrow> 'e + unit) \<Rightarrow> 'a list \<Rightarrow> 'e + unit" where
  "each_R f [] = Inr ()"
| "each_R f (x # xs) = bindR (f x) (\<lambda>_. each_R f xs)"

lemma each_R_Inr: "each_R f xs = Inr u \<longleftrightarrow> (\<forall>x \<in> set xs. f x = Inr ())"
  by (induction xs) (auto simp: bindR_Inr_iff)

fun map_R :: "('a \<Rightarrow> 'e + 'b) \<Rightarrow> 'a list \<Rightarrow> 'e + 'b list" where
  "map_R f [] = Inr []"
| "map_R f (x # xs) = bindR (f x) (\<lambda>y. bindR (map_R f xs) (\<lambda>ys. Inr (y # ys)))"

lemma map_R_length: "map_R f xs = Inr ys \<Longrightarrow> length ys = length xs"
  by (induction xs arbitrary: ys) (auto simp: bindR_Inr_iff)

definition is_ok :: "'e + 'a \<Rightarrow> bool" where
  "is_ok m = (case m of Inl _ \<Rightarrow> False | Inr _ \<Rightarrow> True)"

lemma is_ok_simps [simp, res_simps]: "\<not> is_ok (Inl e)" "is_ok (Inr x)"
  by (simp_all add: is_ok_def)

lemma is_ok_iff: "is_ok m \<longleftrightarrow> (\<exists>x. m = Inr x)"
  by (cases m) simp_all

section \<open>Checks: messages pushed so far, and a thrown error or a value\<close>

text \<open>
  A checker of the scripts pushes messages to an \<open>errors\<close> array and may throw; what it
  pushed before it threw stays in the array.
\<close>

type_synonym ('e, 'a) chk = "'e list \<times> ('e + 'a)"

definition bindC :: "('e, 'a) chk \<Rightarrow> ('a \<Rightarrow> ('e, 'b) chk) \<Rightarrow> ('e, 'b) chk" where
  "bindC m f = (case m of
     (es, Inl e) \<Rightarrow> (es, Inl e)
   | (es, Inr x) \<Rightarrow> (case f x of (es', r) \<Rightarrow> (es @ es', r)))"

definition okC :: "'a \<Rightarrow> ('e, 'a) chk" where
  "okC x = ([], Inr x)"

definition liftC :: "'e + 'a \<Rightarrow> ('e, 'a) chk" where
  "liftC r = ([], r)"

definition push_if :: "bool \<Rightarrow> 'e \<Rightarrow> ('e, unit) chk" where
  "push_if bad e = ((if bad then [e] else []), Inr ())"

definition push_all :: "'e list \<Rightarrow> ('e, unit) chk" where
  "push_all es = (es, Inr ())"

fun each_C :: "('a \<Rightarrow> ('e, unit) chk) \<Rightarrow> 'a list \<Rightarrow> ('e, unit) chk" where
  "each_C f [] = okC ()"
| "each_C f (x # xs) = bindC (f x) (\<lambda>_. each_C f xs)"

text \<open>The list the checker returns: the outer \<open>catch\<close> pushes the thrown message.\<close>

definition run_chk :: "('e, 'a) chk \<Rightarrow> 'e list" where
  "run_chk m = fst m @ (case snd m of Inl e \<Rightarrow> [e] | Inr _ \<Rightarrow> [])"

text \<open>A check passes when it pushed nothing and threw nothing.\<close>

definition clean :: "('e, 'a) chk \<Rightarrow> 'a \<Rightarrow> bool" where
  "clean m x \<longleftrightarrow> m = ([], Inr x)"

lemma run_chk_Nil: "run_chk m = [] \<longleftrightarrow> (\<exists>x. clean m x)"
  by (cases m) (auto simp: run_chk_def clean_def split: sum.splits)

lemma clean_bindC [res_simps]: "clean (bindC m f) y \<longleftrightarrow> (\<exists>x. clean m x \<and> clean (f x) y)"
  by (auto simp: bindC_def clean_def split: prod.splits sum.splits)

lemma clean_basic [simp, res_simps]:
  "clean (okC x) y \<longleftrightarrow> x = y"
  "clean (liftC r) y \<longleftrightarrow> r = Inr y"
  "clean (push_if bad e) u \<longleftrightarrow> \<not> bad"
  "clean (push_all es) u \<longleftrightarrow> es = []"
  by (simp_all add: clean_def okC_def liftC_def push_if_def push_all_def)

lemma clean_each_C [res_simps]: "clean (each_C f xs) u \<longleftrightarrow> (\<forall>x \<in> set xs. clean (f x) ())"
  by (induction xs) (auto simp: clean_bindC)

lemma clean_if [res_simps]: "clean (if b then m else m') x \<longleftrightarrow> (if b then clean m x else clean m' x)"
  by simp

lemma run_chk_bindC_subset: "set (fst m) \<subseteq> set (run_chk (bindC m f))"
  by (auto simp: run_chk_def bindC_def split: prod.splits sum.splits)

section \<open>Strings\<close>

fun starts_with :: "string \<Rightarrow> string \<Rightarrow> bool" where
  "starts_with s [] = True"
| "starts_with [] (c # p) = False"
| "starts_with (d # s) (c # p) = (c = d \<and> starts_with s p)"

lemma starts_with_iff: "starts_with s p \<longleftrightarrow> (\<exists>t. s = p @ t)"
  by (induction s p rule: starts_with.induct) auto

lemma starts_with_prefix: "starts_with s p \<longleftrightarrow> prefix p s"
  by (auto simp: starts_with_iff prefix_def)

lemma starts_with_refl [simp]: "starts_with s s"
  by (simp add: starts_with_iff)

lemma starts_with_append [simp]: "starts_with (p @ t) p"
  by (auto simp: starts_with_iff)

definition ends_with :: "string \<Rightarrow> string \<Rightarrow> bool" where
  "ends_with s p = starts_with (rev s) (rev p)"

lemma ends_with_iff: "ends_with s p \<longleftrightarrow> (\<exists>t. s = t @ p)"
proof
  assume "ends_with s p"
  then obtain t where "rev s = rev p @ t"
    by (auto simp: ends_with_def starts_with_iff)
  then have "s = rev t @ p"
    by (metis rev_append rev_rev_ident)
  then show "\<exists>t. s = t @ p" ..
next
  assume "\<exists>t. s = t @ p"
  then show "ends_with s p"
    by (auto simp: ends_with_def)
qed

text \<open>\<open>s.includes(p)\<close>\<close>

fun contains :: "string \<Rightarrow> string \<Rightarrow> bool" where
  "contains [] p = (p = [])"
| "contains (c # s) p = (starts_with (c # s) p \<or> contains s p)"

lemma contains_iff: "contains s p \<longleftrightarrow> (\<exists>u v. s = u @ p @ v)"
proof (induction s)
  case Nil
  then show ?case by simp
next
  case (Cons c s)
  show ?case
  proof
    assume "contains (c # s) p"
    then consider "starts_with (c # s) p" | "contains s p"
      by (auto simp del: starts_with.simps)
    then show "\<exists>u v. c # s = u @ p @ v"
    proof cases
      case 1
      then show ?thesis
        by (metis append_Nil starts_with_iff)
    next
      case 2
      then show ?thesis
        using Cons.IH by (metis append_Cons)
    qed
  next
    assume "\<exists>u v. c # s = u @ p @ v"
    then obtain u v where uv: "c # s = u @ p @ v" by blast
    show "contains (c # s) p"
    proof (cases u)
      case Nil
      with uv have "starts_with (c # s) p"
        by (metis append_Nil starts_with_iff)
      then show ?thesis by simp
    next
      case (Cons d u')
      with uv have "s = u' @ p @ v" by simp
      then show ?thesis
        using Cons.IH by auto
    qed
  qed
qed

text \<open>\<open>s.split(c)\<close> for a one-character separator, and \<open>xs.join(c)\<close>.\<close>

fun split_char :: "char \<Rightarrow> string \<Rightarrow> string list" where
  "split_char c [] = [[]]"
| "split_char c (d # s) =
     (if d = c then [] # split_char c s
      else case split_char c s of [] \<Rightarrow> [[d]] | p # ps \<Rightarrow> (d # p) # ps)"

fun join_char :: "char \<Rightarrow> string list \<Rightarrow> string" where
  "join_char c [] = []"
| "join_char c [p] = p"
| "join_char c (p # q # ps) = p @ [c] @ join_char c (q # ps)"

lemma split_char_nonempty [simp]: "split_char c s \<noteq> []"
  by (induction s) (auto split: list.splits)

lemma join_split_char: "join_char c (split_char c s) = s"
proof (induction s)
  case Nil
  then show ?case by simp
next
  case (Cons d s)
  then show ?case
    by (cases "split_char c s"; cases "tl (split_char c s)") auto
qed

lemma split_char_no_sep: "p \<in> set (split_char c s) \<Longrightarrow> c \<notin> set p"
proof (induction s arbitrary: p)
  case Nil
  then show ?case by simp
next
  case (Cons d s)
  show ?case
  proof (cases "split_char c s")
    case Nil
    then show ?thesis by simp
  next
    case (Cons q qs)
    with Cons.prems Cons.IH show ?thesis
      by (auto split: if_splits)
  qed
qed

lemma split_char_append_sep: "split_char c (s @ c # t) = split_char c s @ split_char c t"
proof (induction s)
  case Nil
  then show ?case by simp
next
  case (Cons d s)
  then show ?case
    by (cases "split_char c s") auto
qed

lemma split_char_id: "c \<notin> set p \<Longrightarrow> split_char c p = [p]"
  by (induction p) auto

lemma split_join_char:
  "ps \<noteq> [] \<Longrightarrow> \<forall>p \<in> set ps. c \<notin> set p \<Longrightarrow> split_char c (join_char c ps) = ps"
  by (induction c ps rule: join_char.induct) (auto simp: split_char_id split_char_append_sep)

text \<open>\<open>s.replaceAll(c, d)\<close> for single characters.\<close>

definition replace_char :: "char \<Rightarrow> char \<Rightarrow> string \<Rightarrow> string" where
  "replace_char c d s = map (\<lambda>x. if x = c then d else x) s"

lemma replace_char_no_old: "c \<noteq> d \<Longrightarrow> c \<notin> set (replace_char c d s)"
  by (auto simp: replace_char_def)

lemma replace_char_id [simp]: "c \<notin> set s \<Longrightarrow> replace_char c d s = s"
  by (induction s) (auto simp: replace_char_def)

subsection \<open>Character classes of the regular expressions\<close>

definition is_digit :: "char \<Rightarrow> bool" where
  "is_digit c \<longleftrightarrow> c \<in> set ''0123456789''"

definition is_hex :: "char \<Rightarrow> bool" where
  "is_hex c \<longleftrightarrow> c \<in> set ''0123456789abcdef''"

definition is_lower_alnum :: "char \<Rightarrow> bool" where
  "is_lower_alnum c \<longleftrightarrow> c \<in> set ''abcdefghijklmnopqrstuvwxyz0123456789''"

text \<open>\<open>/^[0-9a-f]{n}$/\<close>\<close>

definition hex_string :: "nat \<Rightarrow> string \<Rightarrow> bool" where
  "hex_string n s \<longleftrightarrow> length s = n \<and> list_all is_hex s"

subsection \<open>White space and \<open>trim\<close>\<close>

text \<open>
  The white space and line terminators \<open>trim\<close> removes, as the byte strings of their
  UTF-8 encodings: tab to carriage return, space, U+00A0, U+1680, U+2000 to U+200A, U+2028,
  U+2029, U+202F, U+205F, U+3000 and U+FEFF.
\<close>

definition js_spaces :: "string list" where
  "js_spaces = [[CHR 0x09], [CHR 0x0A], [CHR 0x0B], [CHR 0x0C], [CHR 0x0D], [CHR 0x20],
     [CHR 0xC2, CHR 0xA0], [CHR 0xE1, CHR 0x9A, CHR 0x80]] @
     map (\<lambda>c. [CHR 0xE2, CHR 0x80, c])
       [CHR 0x80, CHR 0x81, CHR 0x82, CHR 0x83, CHR 0x84, CHR 0x85, CHR 0x86, CHR 0x87,
        CHR 0x88, CHR 0x89, CHR 0x8A, CHR 0xA8, CHR 0xA9, CHR 0xAF] @
     [[CHR 0xE2, CHR 0x81, CHR 0x9F], [CHR 0xE3, CHR 0x80, CHR 0x80], [CHR 0xEF, CHR 0xBB, CHR 0xBF]]"

text \<open>Drop the tokens of \<open>ws\<close> from the front; every token is non-empty.\<close>

fun strip :: "string list \<Rightarrow> nat \<Rightarrow> string \<Rightarrow> string" where
  "strip ws 0 s = s"
| "strip ws (Suc n) s = (case List.find (\<lambda>w. starts_with s w) ws of
     None \<Rightarrow> s
   | Some w \<Rightarrow> strip ws n (drop (length w) s))"

definition trim_start :: "string \<Rightarrow> string" where
  "trim_start s = strip js_spaces (length s) s"

definition trim_end :: "string \<Rightarrow> string" where
  "trim_end s = rev (strip (map rev js_spaces) (length s) (rev s))"

definition js_trim :: "string \<Rightarrow> string" where
  "js_trim s = trim_end (trim_start s)"

text \<open>ASCII case folding, for the patterns with the \<open>i\<close> flag, and the suffixes a search starts
  a match at.\<close>

definition lower_char :: "char \<Rightarrow> char" where
  "lower_char c = (if c \<in> set ''ABCDEFGHIJKLMNOPQRSTUVWXYZ'' then char_of ((of_char c :: nat) + 32) else c)"

definition contains_ci :: "string \<Rightarrow> string \<Rightarrow> bool" where
  "contains_ci s p = contains (map lower_char s) (map lower_char p)"

definition has_space :: "string \<Rightarrow> bool" where
  "has_space s = list_ex (contains s) js_spaces"

text \<open>A search for a sequence of alternatives, in order and without overlap.\<close>

fun seq_search :: "string list list \<Rightarrow> string \<Rightarrow> bool" where
  "seq_search [] s = True"
| "seq_search (alts # rest) [] = False"
| "seq_search (alts # rest) (c # s) =
     (list_ex (\<lambda>a. a \<noteq> [] \<and> starts_with (c # s) a \<and> seq_search rest (drop (length a) (c # s))) alts
      \<or> seq_search (alts # rest) s)"

text \<open>The number of UTF-16 code units a UTF-8 byte contributes: none for a continuation
  byte, two for the first byte of a four-byte sequence (a surrogate pair), else one.\<close>

definition utf16_units :: "char \<Rightarrow> nat" where
  "utf16_units c = (let n = (of_char c :: nat) in
     if 128 \<le> n \<and> n < 192 then 0 else if 240 \<le> n then 2 else 1)"

definition utf16_length :: "string \<Rightarrow> nat" where
  "utf16_length s = sum_list (map utf16_units s)"

lemma utf16_length_append [simp]: "utf16_length (s @ t) = utf16_length s + utf16_length t"
  by (simp add: utf16_length_def)

lemma utf16_length_bound: "utf16_length s \<le> 2 * length s"
proof (induction s)
  case Nil
  then show ?case by (simp add: utf16_length_def)
next
  case (Cons c s)
  have "utf16_units c \<le> 2" by (simp add: utf16_units_def Let_def)
  with Cons show ?case by (simp add: utf16_length_def)
qed

section \<open>Lists\<close>

text \<open>\<open>[...new Set(xs)]\<close> keeps the first occurrence of every element.\<close>

fun uniq :: "'a list \<Rightarrow> 'a list" where
  "uniq [] = []"
| "uniq (x # xs) = x # filter (\<lambda>y. y \<noteq> x) (uniq xs)"

lemma set_uniq [simp]: "set (uniq xs) = set xs"
  by (induction xs) auto

lemma distinct_uniq [simp]: "distinct (uniq xs)"
  by (induction xs) auto

lemma uniq_distinct: "distinct xs \<Longrightarrow> uniq xs = xs"
proof (induction xs)
  case Nil
  then show ?case by simp
next
  case (Cons x xs)
  then show ?case by (auto intro: filter_True)
qed

text \<open>The first element equal to an earlier one:
  \<open>xs.find((x, i) => xs.indexOf(x) !== i)\<close>.\<close>

fun first_dup :: "'a list \<Rightarrow> 'a list \<Rightarrow> 'a option" where
  "first_dup seen [] = None"
| "first_dup seen (x # xs) = (if x \<in> set seen then Some x else first_dup (x # seen) xs)"

lemma first_dup_None: "first_dup seen xs = None \<longleftrightarrow> distinct xs \<and> set xs \<inter> set seen = {}"
  by (induction xs arbitrary: seen) auto

text \<open>\<open>xs[i]\<close>, \<open>None\<close> for \<open>undefined\<close>.\<close>

fun item :: "'a list \<Rightarrow> nat \<Rightarrow> 'a option" where
  "item [] i = None"
| "item (x # xs) 0 = Some x"
| "item (x # xs) (Suc i) = item xs i"

lemma item_Some: "item xs i = Some x \<longleftrightarrow> i < length xs \<and> xs ! i = x"
  by (induction xs i rule: item.induct) auto

lemma find_Some_iff: "List.find P xs = Some x \<Longrightarrow> x \<in> set xs \<and> P x"
  by (induction xs) (auto split: if_splits)

lemma find_None_iff': "List.find P xs = None \<longleftrightarrow> (\<forall>x \<in> set xs. \<not> P x)"
  by (induction xs) auto

end
