(* ===== verification/Js_Values.thy ===== *)
theory Js_Values
  imports Prelude
begin

text \<open>
  The dynamic values the scripts read from YAML and JSON documents, and the operators of
  JavaScript they apply to them: truthiness, strict equality, nullish coalescing, property
  access (which throws on \<open>undefined\<close> and \<open>null\<close>), optional chaining and string conversion.
  Arrays and objects of two separately parsed documents are never the same object, so strict
  equality of two of them is false.  Numbers are exact rationals: the documents hold small
  integers, and no script computes with them beyond comparison and adding one.
\<close>

section \<open>Values\<close>

datatype jsval =
    JUndef
  | JNull
  | JBool bool
  | JNum rat
  | JStr string
  | JArr "jsval list"
  | JObj "(string \<times> jsval) list"

text \<open>An error: the fixed text of its message and the interpolated values.\<close>

datatype js_error = Err string "jsval list"

type_synonym 'a res = "js_error + 'a"
type_synonym 'a jchk = "(js_error, 'a) chk"

definition type_error :: js_error where
  "type_error = Err ''TypeError'' []"

fun truthy :: "jsval \<Rightarrow> bool" where
  "truthy JUndef = False"
| "truthy JNull = False"
| "truthy (JBool b) = b"
| "truthy (JNum n) = (n \<noteq> 0)"
| "truthy (JStr s) = (s \<noteq> [])"
| "truthy (JArr _) = True"
| "truthy (JObj _) = True"

text \<open>\<open>===\<close>\<close>

fun js_seq :: "jsval \<Rightarrow> jsval \<Rightarrow> bool" where
  "js_seq JUndef JUndef = True"
| "js_seq JNull JNull = True"
| "js_seq (JBool a) (JBool b) = (a = b)"
| "js_seq (JNum a) (JNum b) = (a = b)"
| "js_seq (JStr a) (JStr b) = (a = b)"
| "js_seq _ _ = False"

lemma js_seq_str [simp]: "js_seq v (JStr s) \<longleftrightarrow> v = JStr s" "js_seq (JStr s) v \<longleftrightarrow> v = JStr s"
  by (cases v; auto)+

lemma js_seq_num [simp]: "js_seq v (JNum n) \<longleftrightarrow> v = JNum n"
  by (cases v) auto

lemma js_seq_eq: "js_seq a b \<Longrightarrow> a = b"
  by (cases a; cases b) auto

lemma js_seq_sym: "js_seq a b = js_seq b a"
  by (cases a; cases b) auto

text \<open>\<open>v == null\<close>, \<open>a ?? b\<close>\<close>

definition nullish :: "jsval \<Rightarrow> bool" where
  "nullish v \<longleftrightarrow> v = JUndef \<or> v = JNull"

lemma nullish_simps [simp]:
  "nullish JUndef" "nullish JNull" "\<not> nullish (JBool b)" "\<not> nullish (JNum n)"
  "\<not> nullish (JStr s)" "\<not> nullish (JArr xs)" "\<not> nullish (JObj m)"
  by (simp_all add: nullish_def)

definition coalesce :: "jsval \<Rightarrow> jsval \<Rightarrow> jsval" where
  "coalesce a b = (if nullish a then b else a)"

lemma coalesce_simps [simp]:
  "coalesce JUndef b = b" "coalesce JNull b = b" "coalesce (JBool c) b = JBool c"
  "coalesce (JNum n) b = JNum n" "coalesce (JStr s) b = JStr s"
  "coalesce (JArr xs) b = JArr xs" "coalesce (JObj m) b = JObj m"
  by (simp_all add: coalesce_def)

lemma truthy_not_nullish: "truthy v \<Longrightarrow> \<not> nullish v"
  by (cases v) auto

section \<open>Property access\<close>

text \<open>The property of a value that is neither \<open>undefined\<close> nor \<open>null\<close>; the keys the scripts
  read are own properties of plain objects.\<close>

fun js_field :: "jsval \<Rightarrow> string \<Rightarrow> jsval" where
  "js_field (JObj m) k = (case map_of m k of None \<Rightarrow> JUndef | Some v \<Rightarrow> v)"
| "js_field _ k = JUndef"

text \<open>\<open>v.k\<close>\<close>

definition js_get :: "jsval \<Rightarrow> string \<Rightarrow> jsval res" where
  "js_get v k = (if nullish v then Inl type_error else Inr (js_field v k))"

text \<open>\<open>v?.k\<close>\<close>

definition js_opt :: "jsval \<Rightarrow> string \<Rightarrow> jsval" where
  "js_opt v k = (if nullish v then JUndef else js_field v k)"

lemma js_get_Inr [simp, res_simps]: "js_get v k = Inr x \<longleftrightarrow> \<not> nullish v \<and> x = js_field v k"
  by (auto simp: js_get_def)

lemma js_get_obj [simp]: "js_get (JObj m) k = Inr (js_field (JObj m) k)"
  by (simp add: js_get_def)

lemma js_opt_field: "js_opt v k = js_field v k"
  by (cases v) (simp_all add: js_opt_def)

lemma js_opt_obj [simp]: "js_opt (JObj m) k = js_field (JObj m) k"
  by (simp add: js_opt_def)

text \<open>\<open>Object.prototype.hasOwnProperty.call(v, k)\<close> and \<open>Object.hasOwn(v, k)\<close>: both convert
  \<open>v\<close> to an object first, which throws on \<open>undefined\<close> and \<open>null\<close>.\<close>

fun own_key :: "jsval \<Rightarrow> string \<Rightarrow> bool" where
  "own_key (JObj m) k = (k \<in> fst ` set m)"
| "own_key _ k = False"

definition has_own :: "jsval \<Rightarrow> string \<Rightarrow> bool res" where
  "has_own v k = (if nullish v then Inl type_error else Inr (own_key v k))"

lemma has_own_obj [simp]: "has_own (JObj m) k = Inr (k \<in> fst ` set m)"
  by (simp add: has_own_def)

text \<open>\<open>Object.keys(v)\<close> of an object, in insertion order.\<close>

fun obj_keys :: "jsval \<Rightarrow> string list" where
  "obj_keys (JObj m) = map fst m"
| "obj_keys _ = []"

text \<open>\<open>v && !Array.isArray(v) && typeof v === "object"\<close>\<close>

fun is_plain_object :: "jsval \<Rightarrow> bool" where
  "is_plain_object (JObj m) = True"
| "is_plain_object _ = False"

fun is_array :: "jsval \<Rightarrow> bool" where
  "is_array (JArr xs) = True"
| "is_array _ = False"

fun arr_items :: "jsval \<Rightarrow> jsval list" where
  "arr_items (JArr xs) = xs"
| "arr_items _ = []"

fun is_string :: "jsval \<Rightarrow> bool" where
  "is_string (JStr s) = True"
| "is_string _ = False"

fun is_boolean :: "jsval \<Rightarrow> bool" where
  "is_boolean (JBool b) = True"
| "is_boolean _ = False"

lemma is_string_iff: "is_string v \<longleftrightarrow> (\<exists>s. v = JStr s)"
  by (cases v) auto

lemma is_array_iff: "is_array v \<longleftrightarrow> (\<exists>xs. v = JArr xs)"
  by (cases v) auto

lemma is_plain_object_iff: "is_plain_object v \<longleftrightarrow> (\<exists>m. v = JObj m)"
  by (cases v) auto

text \<open>\<open>for (const x of v ?? [])\<close>: iterating \<open>undefined\<close> and \<open>null\<close> runs no body, an array
  runs it on each item, and a value that is not iterable throws.  A string iterates its
  characters.\<close>

fun js_iter :: "jsval \<Rightarrow> jsval list res" where
  "js_iter JUndef = Inr []"
| "js_iter JNull = Inr []"
| "js_iter (JArr xs) = Inr xs"
| "js_iter (JStr s) = Inr (map (\<lambda>c. JStr [c]) s)"
| "js_iter _ = Inl type_error"

section \<open>Conversion to a string\<close>

fun nat_digits :: "nat \<Rightarrow> nat \<Rightarrow> string" where
  "nat_digits 0 n = []"
| "nat_digits (Suc f) n =
     (if n < 10 then [char_of (48 + n)] else nat_digits f (n div 10) @ [char_of (48 + n mod 10)])"

definition nat_string :: "nat \<Rightarrow> string" where
  "nat_string n = nat_digits (Suc n) n"

text \<open>The decimal digits of an integer below \<open>10 ^ 21\<close>; other numbers print with a point or
  an exponent, for which the placeholder below stands.  No pattern or message of the scripts
  tells two such numbers apart.\<close>

definition num_string :: "rat \<Rightarrow> string" where
  "num_string q = (let i = floor q in
     if of_int i = q \<and> \<bar>i\<bar> < 10 ^ 21
     then (if i < 0 then ''-'' @ nat_string (nat (- i)) else nat_string (nat i))
     else ''<number>'')"

fun js_string :: "jsval \<Rightarrow> string" where
  "js_string JUndef = ''undefined''"
| "js_string JNull = ''null''"
| "js_string (JBool b) = (if b then ''true'' else ''false'')"
| "js_string (JNum n) = num_string n"
| "js_string (JStr s) = s"
| "js_string (JArr xs) = join_char (CHR '','') (map (\<lambda>x. if nullish x then [] else js_string x) xs)"
| "js_string (JObj m) = ''[object Object]''"

text \<open>\<open>re.test(v ?? "")\<close> converts its argument to a string first.\<close>

definition str_or_empty :: "jsval \<Rightarrow> string" where
  "str_or_empty v = js_string (coalesce v (JStr []))"

lemma str_or_empty_simps [simp]:
  "str_or_empty JUndef = []" "str_or_empty JNull = []" "str_or_empty (JStr s) = s"
  by (simp_all add: str_or_empty_def)

text \<open>\<open>String(v ?? "").trim() !== ""\<close>\<close>

definition non_blank :: "jsval \<Rightarrow> bool" where
  "non_blank v \<longleftrightarrow> js_trim (str_or_empty v) \<noteq> []"

end
