(* ===== verification/Paths.thy ===== *)
theory Paths
  imports Js_Values
begin

text \<open>
  Repository paths (scripts/task/lib.mjs, check-task.mjs): the POSIX path functions of Node
  the scripts use (\<open>path.resolve\<close>, \<open>path.posix.normalize\<close>, \<open>path.join\<close>, \<open>path.isAbsolute\<close>, and
  whether \<open>path.posix.extname\<close> is empty), \<open>resolveInside\<close>, which keeps a path inside the
  repository, and \<open>isRepositoryFilePath\<close>.  The contract of \<open>resolveInside\<close> is stated on the
  list of segments of a path.
\<close>

section \<open>The path module of Node\<close>

definition is_absolute :: "string \<Rightarrow> bool" where
  "is_absolute p = starts_with p ''/''"

text \<open>Node's \<open>normalizeString\<close> on the segments: empty and \<open>.\<close> segments vanish, \<open>..\<close> removes
  the segment before it; above the start it is kept when \<open>up\<close>, else dropped.  \<open>acc\<close> is the
  result so far, reversed.\<close>

fun norm_segs :: "bool \<Rightarrow> string list \<Rightarrow> string list \<Rightarrow> string list" where
  "norm_segs up acc [] = rev acc"
| "norm_segs up acc (s # ss) =
     (if s = [] \<or> s = ''.'' then norm_segs up acc ss
      else if s = ''..'' then
        (case acc of
           [] \<Rightarrow> norm_segs up (if up then [''..''] else []) ss
         | a # as \<Rightarrow> if a = ''..'' then norm_segs up (''..'' # acc) ss else norm_segs up as ss)
      else norm_segs up (s # acc) ss)"

definition slash_split :: "string \<Rightarrow> string list" where
  "slash_split p = split_char (CHR ''/'') p"

definition slash_join :: "string list \<Rightarrow> string" where
  "slash_join ps = join_char (CHR ''/'') ps"

definition path_segs :: "string \<Rightarrow> string list" where
  "path_segs p = norm_segs False [] (slash_split p)"

definition abs_path :: "string list \<Rightarrow> string" where
  "abs_path ps = ''/'' @ slash_join ps"

text \<open>\<open>path.resolve(root, p)\<close> for an absolute \<open>rootdir\<close>.\<close>

definition path_resolve :: "string \<Rightarrow> string \<Rightarrow> string" where
  "path_resolve rootdir p = abs_path (path_segs (if is_absolute p then p else rootdir @ ''/'' @ p))"

definition path_resolve1 :: "string \<Rightarrow> string" where
  "path_resolve1 rootdir = abs_path (path_segs rootdir)"

definition posix_normalize :: "string \<Rightarrow> string" where
  "posix_normalize p =
     (if p = [] then ''.''
      else let abs = is_absolute p;
               body = slash_join (norm_segs (\<not> abs) [] (slash_split p));
               trail = ends_with p ''/'' in
        if body = [] then (if abs then ''/'' else if trail then ''./'' else ''.'')
        else (if abs then ''/'' else []) @ body @ (if trail then ''/'' else []))"

text \<open>\<open>path.join(a, b)\<close>: empty arguments are skipped.\<close>

definition path_join :: "string \<Rightarrow> string \<Rightarrow> string" where
  "path_join a b =
     (if a = [] then posix_normalize b
      else if b = [] then posix_normalize a
      else posix_normalize (a @ ''/'' @ b))"

text \<open>Whether \<open>path.posix.extname(p)\<close> is non-empty, for a path without a trailing slash: the
  last segment has a dot after its first character and is not \<open>..\<close>.\<close>

definition has_extname :: "string \<Rightarrow> bool" where
  "has_extname p = (let b = last (slash_split p) in CHR ''.'' \<in> set (tl b) \<and> b \<noteq> ''..'')"

text \<open>\<open>path.dirname\<close>: the text before the last slash that is not trailing.\<close>

definition path_dirname :: "string \<Rightarrow> string" where
  "path_dirname p = (case dropWhile (\<lambda>c. c \<noteq> CHR ''/'') (dropWhile (\<lambda>c. c = CHR ''/'') (rev p)) of
     [] \<Rightarrow> (if is_absolute p then ''/'' else ''.'')
   | _ # r \<Rightarrow> (if r = [] then ''/'' else if rev r = ''/'' then ''//'' else rev r))"

text \<open>\<open>path.relative(from, to)\<close> of absolute paths: up to the common ancestor, then down.\<close>

definition path_relative :: "string \<Rightarrow> string \<Rightarrow> string" where
  "path_relative from' to = (let a = path_segs from'; b = path_segs to;
       c = length (takeWhile (\<lambda>(x, y). x = y) (zip a b)) in
     slash_join (replicate (length a - c) ''..'' @ drop c b))"

definition path_basename :: "string \<Rightarrow> string" where
  "path_basename p = (case rev (filter (\<lambda>s. s \<noteq> []) (slash_split p)) of [] \<Rightarrow> [] | s # _ \<Rightarrow> s)"

section \<open>\<open>resolveInside\<close> and \<open>isRepositoryFilePath\<close>\<close>

text \<open>\<open>path.isAbsolute\<close> throws on a truthy value that is no string.\<close>

definition resolveInside :: "string \<Rightarrow> jsval \<Rightarrow> string \<Rightarrow> string res" where
  "resolveInside rootdir relativePath label =
     (if \<not> truthy relativePath then Inl (Err ''must be a non-empty relative path'' [JStr label])
      else case relativePath of
        JStr rel \<Rightarrow>
          (if is_absolute rel then Inl (Err ''must be a non-empty relative path'' [JStr label])
           else let resolvedRoot = path_resolve1 rootdir;
                    resolved = path_resolve resolvedRoot rel in
             if resolved \<noteq> resolvedRoot \<and> \<not> starts_with resolved (resolvedRoot @ ''/'')
             then Inl (Err ''escapes the repository root'' [JStr label, JStr rel])
             else Inr resolved)
      | _ \<Rightarrow> Inl type_error)"

definition glob_chars :: "char set" where
  "glob_chars = set ''*?[]{}''"

definition isRepositoryFilePath :: "jsval \<Rightarrow> bool" where
  "isRepositoryFilePath value = (case value of
     JStr s \<Rightarrow>
       0 < length s
       \<and> \<not> is_absolute s
       \<and> posix_normalize s = s
       \<and> \<not> ends_with s ''/''
       \<and> has_extname s
       \<and> CHR 0x5C \<notin> set s
       \<and> list_all (\<lambda>c. c \<notin> glob_chars) s
       \<and> ''..'' \<notin> set (slash_split s)
   | _ \<Rightarrow> False)"

section \<open>Segments\<close>

definition clean_seg :: "string \<Rightarrow> bool" where
  "clean_seg s \<longleftrightarrow> s \<noteq> [] \<and> s \<noteq> ''.'' \<and> s \<noteq> ''..'' \<and> CHR ''/'' \<notin> set s"

definition clean_segs :: "string list \<Rightarrow> bool" where
  "clean_segs ss \<longleftrightarrow> (\<forall>s \<in> set ss. clean_seg s)"

lemma clean_segs_simps [simp]:
  "clean_segs []" "clean_segs (s # ss) \<longleftrightarrow> clean_seg s \<and> clean_segs ss"
  "clean_segs (rev ss) = clean_segs ss"
  "clean_segs (ss @ ts) \<longleftrightarrow> clean_segs ss \<and> clean_segs ts"
  by (auto simp: clean_segs_def)

lemma norm_segs_clean:
  "clean_segs acc \<Longrightarrow> \<forall>s \<in> set ss. CHR ''/'' \<notin> set s \<Longrightarrow> clean_segs (norm_segs False acc ss)"
proof (induction "False" acc ss rule: norm_segs.induct)
  case (1 acc)
  then show ?case by simp
next
  case (2 acc s ss)
  show ?case
  proof (cases "s = [] \<or> s = ''.''")
    case True
    with 2 show ?thesis by auto
  next
    case nd: False
    show ?thesis
    proof (cases "s = ''..''")
      case True
      show ?thesis
      proof (cases acc)
        case Nil
        with 2 nd True show ?thesis by auto
      next
        case (Cons a as)
        with 2 have "a \<noteq> ''..''" by (auto simp: clean_seg_def)
        with 2 nd True Cons show ?thesis by auto
      qed
    next
      case False
      with 2 nd show ?thesis by (auto simp: clean_seg_def)
    qed
  qed
qed

lemma slash_split_no_slash: "s \<in> set (slash_split p) \<Longrightarrow> CHR ''/'' \<notin> set s"
  by (simp add: slash_split_def split_char_no_sep)

lemma path_segs_clean [simp]: "clean_segs (path_segs p)"
  unfolding path_segs_def by (rule norm_segs_clean) (auto dest: slash_split_no_slash)

lemma norm_segs_append_clean:
  "clean_segs ss \<Longrightarrow> norm_segs up acc (ss @ ts) = norm_segs up (rev ss @ acc) ts"
  by (induction ss arbitrary: acc) (auto simp: clean_seg_def)

lemma norm_segs_of_clean: "clean_segs ss \<Longrightarrow> norm_segs up acc ss = rev acc @ ss"
  using norm_segs_append_clean [of ss up acc "[]"] by simp

lemma slash_split_join: "ps \<noteq> [] \<Longrightarrow> clean_segs ps \<Longrightarrow> slash_split (slash_join ps) = ps"
  by (auto simp: slash_split_def slash_join_def clean_segs_def clean_seg_def intro: split_join_char)

lemma slash_split_abs_path: "ps \<noteq> [] \<Longrightarrow> clean_segs ps \<Longrightarrow> slash_split (abs_path ps) = [] # ps"
  using slash_split_join [of ps] by (simp add: abs_path_def slash_split_def)

lemma path_segs_abs_path: "clean_segs ps \<Longrightarrow> path_segs (abs_path ps) = ps"
proof (cases ps)
  case Nil
  then show ?thesis by (simp add: path_segs_def abs_path_def slash_split_def slash_join_def)
next
  case (Cons q qs)
  assume c: "clean_segs ps"
  with Cons have "slash_split (abs_path ps) = [] # ps"
    by (intro slash_split_abs_path) auto
  with c show ?thesis by (simp add: path_segs_def norm_segs_of_clean)
qed

lemma abs_path_inj: "clean_segs ps \<Longrightarrow> clean_segs qs \<Longrightarrow> abs_path ps = abs_path qs \<longleftrightarrow> ps = qs"
  using path_segs_abs_path by metis

text \<open>A string prefix ending in a slash is a proper prefix of segments, unless the root is
  \<open>/\<close> itself, whose prefix \<open>//\<close> no resolved path has.\<close>

lemma starts_with_root_iff:
  assumes "clean_segs ss" "clean_segs rs"
  shows "starts_with (abs_path ss) (abs_path rs @ ''/'') \<longleftrightarrow> rs \<noteq> [] \<and> (\<exists>ts. ts \<noteq> [] \<and> ss = rs @ ts)"
proof
  assume "starts_with (abs_path ss) (abs_path rs @ ''/'')"
  then obtain t where t: "abs_path ss = abs_path rs @ CHR ''/'' # t"
    by (auto simp: starts_with_iff)
  have ss: "ss \<noteq> []"
    using t by (auto simp: abs_path_def slash_join_def)
  have rs: "rs \<noteq> []"
  proof
    assume "rs = []"
    with t have "slash_split (abs_path ss) = [] # [] # slash_split t"
      by (simp add: abs_path_def slash_join_def slash_split_def)
    with slash_split_abs_path [OF ss assms(1)] have "ss = [] # slash_split t" by simp
    with assms(1) show False by (simp add: clean_seg_def)
  qed
  have "slash_split (abs_path ss) = slash_split (abs_path rs) @ slash_split t"
    unfolding t slash_split_def by (rule split_char_append_sep)
  with slash_split_abs_path [OF ss assms(1)] slash_split_abs_path [OF rs assms(2)]
  have "ss = rs @ slash_split t" by simp
  with rs show "rs \<noteq> [] \<and> (\<exists>ts. ts \<noteq> [] \<and> ss = rs @ ts)"
    by (auto simp: slash_split_def)
next
  assume "rs \<noteq> [] \<and> (\<exists>ts. ts \<noteq> [] \<and> ss = rs @ ts)"
  then obtain ts where "rs \<noteq> []" "ts \<noteq> []" "ss = rs @ ts" by blast
  moreover have "as \<noteq> [] \<Longrightarrow> bs \<noteq> [] \<Longrightarrow>
      slash_join (as @ bs) = slash_join as @ ''/'' @ slash_join bs" for as bs
    unfolding slash_join_def
    by (induction "CHR ''/''" as rule: join_char.induct) (auto simp: neq_Nil_conv)
  ultimately show "starts_with (abs_path ss) (abs_path rs @ ''/'')"
    by (auto simp: abs_path_def starts_with_iff)
qed

lemma path_segs_resolve1 [simp]: "path_segs (path_resolve1 rootdir) = path_segs rootdir"
  by (simp add: path_resolve1_def path_segs_abs_path)

lemma path_segs_under:
  assumes "clean_segs rs"
  shows "path_segs (abs_path rs @ ''/'' @ rel) = norm_segs False (rev rs) (slash_split rel)"
proof -
  have "slash_split (abs_path rs @ CHR ''/'' # rel) = slash_split (abs_path rs) @ slash_split rel"
    unfolding slash_split_def by (rule split_char_append_sep)
  moreover have "norm_segs False [] (slash_split (abs_path rs) @ xs) = norm_segs False (rev rs) xs" for xs
  proof (cases "rs = []")
    case True
    then show ?thesis by (simp add: abs_path_def slash_join_def slash_split_def)
  next
    case False
    with assms show ?thesis by (simp add: slash_split_abs_path norm_segs_append_clean)
  qed
  ultimately show ?thesis by (simp add: path_segs_def)
qed

lemmas resolve_defs = resolveInside_def path_resolve_def Let_def

lemma resolveInside_cases:
  "resolveInside rootdir (JStr rel) label = Inr p \<longleftrightarrow>
     rel \<noteq> [] \<and> \<not> is_absolute rel
     \<and> p = abs_path (norm_segs False (rev (path_segs rootdir)) (slash_split rel))
     \<and> (let ss = norm_segs False (rev (path_segs rootdir)) (slash_split rel) in
        ss = path_segs rootdir \<or> path_segs rootdir \<noteq> [] \<and> (\<exists>ts. ts \<noteq> [] \<and> ss = path_segs rootdir @ ts))"
proof -
  let ?ss = "norm_segs False (rev (path_segs rootdir)) (slash_split rel)"
  have c: "clean_segs ?ss"
    by (rule norm_segs_clean) (auto dest: slash_split_no_slash)
  have r: "path_segs (path_resolve1 rootdir @ ''/'' @ rel) = ?ss"
    unfolding path_resolve1_def by (rule path_segs_under) simp
  have eq: "(abs_path ?ss \<noteq> path_resolve1 rootdir) \<longleftrightarrow> ?ss \<noteq> path_segs rootdir"
    unfolding path_resolve1_def using c by (simp add: abs_path_inj)
  have sw: "starts_with (abs_path ?ss) (path_resolve1 rootdir @ ''/'') \<longleftrightarrow>
      path_segs rootdir \<noteq> [] \<and> (\<exists>ts. ts \<noteq> [] \<and> ?ss = path_segs rootdir @ ts)"
    unfolding path_resolve1_def by (rule starts_with_root_iff [OF c]) simp
  show ?thesis
    using eq sw r by (auto simp: resolve_defs)
qed

text \<open>What every caller relies on: an accepted path stays inside the root.\<close>

lemma resolveInside_inside:
  assumes "resolveInside rootdir v label = Inr p"
  shows "prefix (path_segs rootdir) (path_segs p)" and "clean_segs (path_segs p)" and "p = abs_path (path_segs p)"
proof -
  obtain rel where v: "v = JStr rel"
    using assms by (cases v) (auto simp: resolveInside_def split: if_splits)
  let ?ss = "norm_segs False (rev (path_segs rootdir)) (slash_split rel)"
  have c: "clean_segs ?ss"
    by (rule norm_segs_clean) (auto dest: slash_split_no_slash)
  have p: "p = abs_path ?ss" and "prefix (path_segs rootdir) ?ss"
    using assms unfolding v resolveInside_cases Let_def by auto
  with c show "prefix (path_segs rootdir) (path_segs p)" and "clean_segs (path_segs p)"
    and "p = abs_path (path_segs p)"
    by (simp_all add: path_segs_abs_path)
qed

text \<open>What a caller gets for a plain relative path: the root's segments and its own.\<close>

lemma resolveInside_plain:
  assumes "clean_segs rel" "rel \<noteq> []" "path_segs rootdir \<noteq> []"
  shows "resolveInside rootdir (JStr (slash_join rel)) label = Inr (abs_path (path_segs rootdir @ rel))"
proof -
  have "slash_split (slash_join rel) = rel"
    using assms by (intro slash_split_join)
  moreover have "slash_join rel \<noteq> [] \<and> \<not> is_absolute (slash_join rel)"
  proof -
    obtain q qs where q: "rel = q # qs" using assms(2) by (cases rel) auto
    then obtain c cs where "q = c # cs" "c \<noteq> CHR ''/''"
      using assms(1) by (cases q) (auto simp: clean_seg_def)
    then show ?thesis
      unfolding q by (cases qs) (auto simp: slash_join_def is_absolute_def)
  qed
  ultimately show ?thesis
    unfolding resolveInside_cases Let_def using assms by (simp add: norm_segs_of_clean)
qed

text \<open>A repository file path is a list of plain segments.\<close>

lemma isRepositoryFilePath_segs:
  assumes "isRepositoryFilePath v"
  shows "\<exists>s. v = JStr s \<and> clean_segs (slash_split s) \<and> s = slash_join (slash_split s)"
proof -
  obtain s where v: "v = JStr s" and n: "posix_normalize s = s" and ne: "s \<noteq> []"
    and rel: "\<not> is_absolute s" and tr: "\<not> ends_with s ''/''" and ext: "has_extname s"
    and dd: "''..'' \<notin> set (slash_split s)"
    using assms by (cases v) (auto simp: isRepositoryFilePath_def)
  let ?ns = "norm_segs True [] (slash_split s)"
  have join: "slash_join (slash_split s) = s"
    by (simp add: slash_join_def slash_split_def join_split_char)
  have body: "slash_join ?ns = s"
  proof (cases "slash_join ?ns = []")
    case True
    with n ne rel tr have "s = ''.''" by (simp add: posix_normalize_def Let_def)
    with ext show ?thesis by (simp add: has_extname_def slash_split_def)
  next
    case False
    with n ne rel tr show ?thesis by (simp add: posix_normalize_def Let_def)
  qed
  have norm_filter: "norm_segs True acc ss = rev acc @ filter (\<lambda>x. x \<noteq> [] \<and> x \<noteq> ''.'') ss"
    if "''..'' \<notin> set ss" for acc ss
    using that by (induction ss arbitrary: acc) auto
  have filt: "?ns = filter (\<lambda>x. x \<noteq> [] \<and> x \<noteq> ''.'') (slash_split s)"
    using norm_filter [OF dd] by simp
  then have ns: "?ns \<noteq> []" using body ne by (auto simp: slash_join_def)
  have "slash_split s = ?ns"
    using arg_cong [OF body, of slash_split] ns filt
    by (metis (no_types, lifting) filter_is_subset in_mono slash_join_def slash_split_def
        slash_split_no_slash split_join_char)
  with filt have "\<forall>x \<in> set (slash_split s). x \<noteq> [] \<and> x \<noteq> ''.''"
    by (metis (mono_tags, lifting) filter_id_conv)
  with dd have "clean_segs (slash_split s)"
    by (auto simp: clean_segs_def clean_seg_def dest: slash_split_no_slash)
  with v join show ?thesis by auto
qed

end
