(* ===== verification/Lib.thy ===== *)
theory Lib
  imports Paths
begin

text \<open>
  The pure helpers of scripts/task/lib.mjs: the identifier checks, the command line parser,
  the front matter of a Markdown document, the task lookup, the template expansion, HTML
  escaping, and the reading of \<open>git worktree list --porcelain\<close>.
\<close>

section \<open>Constants\<close>

definition REQUIRED_TASK_FILES :: "string list" where
  "REQUIRED_TASK_FILES = [''TASK.md'', ''PLAN.md'', ''REVIEW_RESULT.md'', ''QA_PLAN.md'',
     ''QA_RESULT.md'', ''HANDOVER.md'']"

definition TASK_STATUSES :: "string list" where
  "TASK_STATUSES = [''backlog'', ''plan'', ''dev'', ''qa'', ''blocked'', ''done'', ''cancelled'']"

definition POINT_SCALE :: "rat list" where
  "POINT_SCALE = [1, 2, 3, 5, 8, 13]"

section \<open>Identifiers\<close>

text \<open>\<open>/^TASK-\d{4}$/\<close> and \<open>/^[a-z0-9]+(?:-[a-z0-9]+)*$/\<close>\<close>

definition task_id_string :: "string \<Rightarrow> bool" where
  "task_id_string s \<longleftrightarrow> starts_with s ''TASK-'' \<and> length s = 9 \<and> list_all is_digit (drop 5 s)"

definition slug_string :: "string \<Rightarrow> bool" where
  "slug_string s \<longleftrightarrow> list_all (\<lambda>p. p \<noteq> [] \<and> list_all is_lower_alnum p) (split_char (CHR ''-'') s)"

definition assertTaskId :: "jsval \<Rightarrow> unit res" where
  "assertTaskId taskId = throw_if (\<not> task_id_string (str_or_empty taskId))
     (Err ''Invalid task ID'' [coalesce taskId (JStr ''<missing>'')])"

definition assertSlug :: "jsval \<Rightarrow> unit res" where
  "assertSlug slug = throw_if (\<not> slug_string (str_or_empty slug))
     (Err ''Invalid slug'' [coalesce slug (JStr ''<missing>'')])"

section \<open>Command line arguments\<close>

text \<open>\<open>obj[key] = value\<close> on an object kept as its list of own properties.\<close>

fun obj_set :: "string \<Rightarrow> 'v \<Rightarrow> (string \<times> 'v) list \<Rightarrow> (string \<times> 'v) list" where
  "obj_set k v [] = [(k, v)]"
| "obj_set k v ((k', v') # m) = (if k' = k then (k, v) # m else (k', v') # obj_set k v m)"

lemma map_of_obj_set [simp]: "map_of (obj_set k v m) = (map_of m)(k \<mapsto> v)"
  by (induction m) auto

text \<open>The loop of \<open>parseArgs\<close>: an argument that starts with \<open>--\<close> and the value after it.\<close>

fun parse_args_from :: "(string \<times> string) list \<Rightarrow> string list \<Rightarrow> (string \<times> string) list res" where
  "parse_args_from args [] = Inr args"
| "parse_args_from args (argument # rest) =
     (if \<not> starts_with argument ''--'' then Inl (Err ''Unexpected argument'' [JStr argument])
      else let key = replace_char (CHR ''-'') (CHR ''_'') (drop 2 argument) in
        (case rest of
           [] \<Rightarrow> Inl (Err ''Missing value'' [JStr argument])
         | v # rest' \<Rightarrow>
             if v = [] \<or> starts_with v ''--'' then Inl (Err ''Missing value'' [JStr argument])
             else parse_args_from (obj_set key v args) rest'))"

definition parseArgs :: "string list \<Rightarrow> (string \<times> string) list res" where
  "parseArgs argv = parse_args_from [] argv"

text \<open>The value a caller reads as \<open>args.key\<close>.\<close>

definition arg :: "(string \<times> string) list \<Rightarrow> string \<Rightarrow> jsval" where
  "arg args k = (case map_of args k of None \<Rightarrow> JUndef | Some v \<Rightarrow> JStr v)"

fun render_args :: "(string \<times> string) list \<Rightarrow> string list" where
  "render_args [] = []"
| "render_args ((k, v) # kvs) = (''--'' @ replace_char (CHR ''_'') (CHR ''-'') k) # v # render_args kvs"

definition arg_value :: "string \<Rightarrow> bool" where
  "arg_value v \<longleftrightarrow> v \<noteq> [] \<and> \<not> starts_with v ''--''"

lemma replace_char_back:
  "CHR ''-'' \<notin> set k \<Longrightarrow> replace_char (CHR ''-'') (CHR ''_'') (replace_char (CHR ''_'') (CHR ''-'') k) = k"
  by (induction k) (auto simp: replace_char_def)

lemma parse_args_from_render:
  "\<forall>(k, v) \<in> set kvs. CHR ''-'' \<notin> set k \<and> arg_value v \<Longrightarrow>
   \<exists>m. parse_args_from acc (render_args kvs) = Inr m \<and> map_of m = map_of acc ++ map_of (rev kvs)"
proof (induction kvs arbitrary: acc rule: render_args.induct)
  case 1
  then show ?case by simp
next
  case (2 k v kvs)
  from 2 obtain m where "parse_args_from (obj_set k v acc) (render_args kvs) = Inr m"
    and "map_of m = map_of (obj_set k v acc) ++ map_of (rev kvs)"
    by fastforce
  moreover have "map_of (obj_set k v acc) ++ map_of (rev kvs) = map_of acc ++ map_of (rev ((k, v) # kvs))"
    by (auto simp: fun_eq_iff map_add_def split: option.splits)
  ultimately show ?case
    using "2.prems" by (auto simp: arg_value_def Let_def replace_char_back)
qed

lemma parse_args_from_values:
  "parse_args_from acc argv = Inr m \<Longrightarrow> (\<forall>v \<in> ran (map_of acc). arg_value v) \<Longrightarrow>
   v \<in> ran (map_of m) \<Longrightarrow> arg_value v"
proof (induction acc argv rule: parse_args_from.induct)
  case (1 args)
  then show ?case by simp
next
  case (2 args argument rest)
  then obtain w rest' where w: "starts_with argument ''--''" "rest = w # rest'" "arg_value w"
    by (auto simp: Let_def arg_value_def split: if_splits list.splits)
  let ?k = "replace_char (CHR ''-'') (CHR ''_'') (drop 2 argument)"
  have "parse_args_from (obj_set ?k w args) rest' = Inr m"
    using "2.prems"(1) w by (auto simp: Let_def arg_value_def)
  moreover have "\<forall>v \<in> ran (map_of (obj_set ?k w args)). arg_value v"
    using "2.prems"(2) w(3) by (auto simp: ran_def)
  ultimately show ?case
    using "2.IH" [OF _ refl w(2)] w(1,3) "2.prems"(3) unfolding arg_value_def by blast
qed

section \<open>Front matter\<close>

text \<open>The shortest prefix whose remainder satisfies \<open>P\<close>, for a lazy group.\<close>

fun lazy_until :: "(string \<Rightarrow> bool) \<Rightarrow> string \<Rightarrow> string option" where
  "lazy_until P [] = (if P [] then Some [] else None)"
| "lazy_until P (c # s) = (if P (c # s) then Some [] else map_option ((#) c) (lazy_until P s))"

lemma lazy_until_Some:
  "lazy_until P s = Some b \<Longrightarrow> \<exists>t. s = b @ t \<and> P t"
  by (induction s arbitrary: b) (auto split: if_splits)

definition newline :: char where
  "newline = CHR 0x0A"

definition fence :: string where
  "fence = ''---''"

text \<open>\<open>/^---\n([\s\S]*?)\n---\n/\<close> of \<open>parseFrontmatter\<close>\<close>

definition frontmatter_body :: "string \<Rightarrow> string option" where
  "frontmatter_body content =
     (if starts_with content (fence @ [newline])
      then lazy_until (\<lambda>t. starts_with t ([newline] @ fence @ [newline])) (drop 4 content)
      else None)"

text \<open>\<open>/^---\n([\s\S]*?)\n---(?:\n|$)/\<close> of \<open>parseFrontmatterText\<close> in check-task.mjs\<close>

definition frontmatter_text_body :: "string \<Rightarrow> string option" where
  "frontmatter_text_body content =
     (if starts_with content (fence @ [newline])
      then lazy_until (\<lambda>t. starts_with t ([newline] @ fence @ [newline]) \<or> t = [newline] @ fence) (drop 4 content)
      else None)"

lemma starts_with_drop: "starts_with s p \<Longrightarrow> s = p @ drop (length p) s"
  by (auto simp: starts_with_iff)

lemma frontmatter_body_Some:
  assumes "frontmatter_body content = Some b"
  shows "\<exists>rest. content = fence @ [newline] @ b @ [newline] @ fence @ [newline] @ rest"
proof -
  have "starts_with content (fence @ [newline])"
    and l: "lazy_until (\<lambda>t. starts_with t ([newline] @ fence @ [newline])) (drop 4 content) = Some b"
    using assms by (auto simp: frontmatter_body_def split: if_splits)
  then obtain u where u: "content = (fence @ [newline]) @ u"
    unfolding starts_with_iff by blast
  then have d: "drop 4 content = u" by (simp add: fence_def)
  obtain t where t: "u = b @ t" "starts_with t ([newline] @ fence @ [newline])"
    using lazy_until_Some [OF l] unfolding d by blast
  then obtain rest where "t = ([newline] @ fence @ [newline]) @ rest"
    unfolding starts_with_iff by blast
  with u t(1) have "content = fence @ [newline] @ b @ [newline] @ fence @ [newline] @ rest"
    by simp
  then show ?thesis ..
qed

text \<open>A body without a line \<open>---\<close> is read back from the document written around it.\<close>

lemma lazy_until_exact:
  "\<forall>u v. b = u @ v \<longrightarrow> v \<noteq> [] \<longrightarrow> \<not> P (v @ t) \<Longrightarrow> P t \<Longrightarrow> lazy_until P (b @ t) = Some b"
proof (induction b)
  case Nil
  then show ?case by (cases t) auto
next
  case (Cons c b)
  have "\<not> P (c # b @ t)" using Cons.prems(1) by (metis append_Nil append_Cons list.distinct(1))
  moreover have "\<forall>u v. b = u @ v \<longrightarrow> v \<noteq> [] \<longrightarrow> \<not> P (v @ t)"
    using Cons.prems(1) by (metis append_Cons)
  ultimately show ?case using Cons by simp
qed

lemma frontmatter_body_write:
  assumes "\<forall>u v. b = u @ v \<longrightarrow> v \<noteq> [] \<longrightarrow>
    \<not> starts_with (v @ [newline] @ fence @ [newline] @ rest) ([newline] @ fence @ [newline])"
  shows "frontmatter_body (fence @ [newline] @ b @ [newline] @ fence @ [newline] @ rest) = Some b"
proof -
  have "drop 4 (fence @ [newline] @ b @ [newline] @ fence @ [newline] @ rest) =
      b @ [newline] @ fence @ [newline] @ rest"
    by (simp add: fence_def)
  moreover have "starts_with (fence @ [newline] @ u) (fence @ [newline])" for u
    by (metis append.assoc starts_with_append)
  moreover have "starts_with ([newline] @ fence @ [newline] @ rest) ([newline] @ fence @ [newline])"
    by (metis append.assoc starts_with_append)
  ultimately show ?thesis
    unfolding frontmatter_body_def using lazy_until_exact [OF assms] by simp
qed

section \<open>Task lookup\<close>

text \<open>\<open>backlog.tasks?.find((candidate) => candidate.id === taskId)\<close>: a candidate that is
  \<open>undefined\<close> or \<open>null\<close> throws when it is reached, and so does a \<open>tasks\<close> that is no array.\<close>

fun find_by_id :: "jsval list \<Rightarrow> jsval \<Rightarrow> jsval option res" where
  "find_by_id [] taskId = Inr None"
| "find_by_id (c # cs) taskId =
     bindR (js_get c ''id'') (\<lambda>i. if js_seq i taskId then Inr (Some c) else find_by_id cs taskId)"

definition taskById :: "jsval \<Rightarrow> jsval \<Rightarrow> jsval res" where
  "taskById backlog taskId =
     bindR (js_get backlog ''tasks'') (\<lambda>tasks.
       if nullish tasks then Inl (Err ''Task is not registered in backlog.yaml'' [taskId])
       else if \<not> is_array tasks then Inl type_error
       else bindR (find_by_id (arr_items tasks) taskId) (\<lambda>found. case found of
           None \<Rightarrow> Inl (Err ''Task is not registered in backlog.yaml'' [taskId])
         | Some task \<Rightarrow> Inr task))"

lemma find_by_id_Some:
  "find_by_id cs taskId = Inr (Some t) \<Longrightarrow> t \<in> set cs \<and> js_seq (js_field t ''id'') taskId"
  by (induction cs) (auto simp: bindR_Inr_iff split: if_splits)

lemma taskById_Inr:
  assumes "taskById backlog taskId = Inr t"
  shows "\<exists>ts. js_field backlog ''tasks'' = JArr ts \<and> t \<in> set ts \<and> js_field t ''id'' = taskId"
  using assms
  by (auto simp: taskById_def bindR_Inr_iff is_array_iff split: if_splits option.splits
      dest!: find_by_id_Some js_seq_eq)

lemma find_by_id_first:
  "\<forall>c \<in> set cs. \<not> nullish c \<and> js_field c ''id'' \<noteq> taskId \<Longrightarrow> \<not> nullish t \<Longrightarrow>
   js_field t ''id'' = taskId \<Longrightarrow> js_seq taskId taskId \<Longrightarrow>
   find_by_id (cs @ t # ds) taskId = Inr (Some t)"
proof (induction cs)
  case Nil
  then show ?case by (simp add: js_get_def)
next
  case (Cons c cs)
  then have "\<not> js_seq (js_field c ''id'') taskId" by (auto dest: js_seq_eq)
  with Cons show ?case by (simp add: js_get_def)
qed

section \<open>Templates\<close>

definition is_key_char :: "char \<Rightarrow> bool" where
  "is_key_char c \<longleftrightarrow> c \<in> set ''ABCDEFGHIJKLMNOPQRSTUVWXYZ_''"

text \<open>After \<open>{{\<close>: the key and what follows its closing \<open>}}\<close>, when the regular expression
  \<open>/\{\{([A-Z_]+)\}\}/\<close> matches here.\<close>

definition template_hole :: "string \<Rightarrow> (string \<times> string) option" where
  "template_hole s = (let key = takeWhile is_key_char s; rest = dropWhile is_key_char s in
     if key \<noteq> [] \<and> starts_with rest ''}}'' then Some (key, drop 2 rest) else None)"

lemma template_hole_length: "template_hole s = Some (k, r) \<Longrightarrow> length r \<le> length s"
  using length_dropWhile_le [of is_key_char s]
  by (auto simp: template_hole_def Let_def split: if_splits)

function replaceTemplate :: "(string \<times> string) list \<Rightarrow> string \<Rightarrow> string res" where
  "replaceTemplate vals [] = Inr []"
| "replaceTemplate vals (c # s) =
     (case (if starts_with (c # s) ''{{'' then template_hole (drop 1 s) else None) of
        Some (key, rest) \<Rightarrow>
          (case map_of vals key of
             None \<Rightarrow> Inl (Err ''Missing template value'' [JStr key])
           | Some v \<Rightarrow> bindR (replaceTemplate vals rest) (\<lambda>t. Inr (v @ t)))
      | None \<Rightarrow> bindR (replaceTemplate vals s) (\<lambda>t. Inr (c # t)))"
  by pat_completeness auto
termination
  by (relation "measure (\<lambda>(vals, s). length s)")
    (auto split: if_splits dest!: template_hole_length)

datatype piece = Lit string | Hole string

fun unparse :: "piece list \<Rightarrow> string" where
  "unparse [] = []"
| "unparse (Lit s # ps) = s @ unparse ps"
| "unparse (Hole k # ps) = ''{{'' @ k @ ''}}'' @ unparse ps"

fun expand :: "(string \<times> string) list \<Rightarrow> piece list \<Rightarrow> string res" where
  "expand vals [] = Inr []"
| "expand vals (Lit s # ps) = bindR (expand vals ps) (\<lambda>t. Inr (s @ t))"
| "expand vals (Hole k # ps) = (case map_of vals k of
     None \<Rightarrow> Inl (Err ''Missing template value'' [JStr k])
   | Some v \<Rightarrow> bindR (expand vals ps) (\<lambda>t. Inr (v @ t)))"

definition template_piece :: "piece \<Rightarrow> bool" where
  "template_piece p = (case p of
     Lit s \<Rightarrow> CHR ''{'' \<notin> set s
   | Hole k \<Rightarrow> k \<noteq> [] \<and> list_all is_key_char k)"

lemma replaceTemplate_literal:
  "CHR ''{'' \<notin> set s \<Longrightarrow> replaceTemplate vals (s @ t) = bindR (replaceTemplate vals t) (\<lambda>u. Inr (s @ u))"
proof (induction s)
  case Nil
  then show ?case by (cases "replaceTemplate vals t") simp_all
next
  case (Cons c s)
  then show ?case by (cases "replaceTemplate vals t") auto
qed

lemma template_hole_key:
  assumes "k \<noteq> []" "list_all is_key_char k"
  shows "template_hole (k @ ''}}'' @ t) = Some (k, t)"
proof -
  have nk: "\<not> is_key_char (CHR ''}'')" by (simp add: is_key_char_def)
  have "takeWhile is_key_char (k @ ''}}'' @ t) = k"
    using assms nk by (auto simp: list_all_iff takeWhile_append2)
  moreover have "dropWhile is_key_char (k @ ''}}'' @ t) = ''}}'' @ t"
    using assms nk by (auto simp: list_all_iff dropWhile_append2)
  ultimately show ?thesis
    using assms(1) by (simp add: template_hole_def Let_def)
qed

lemma replaceTemplate_unparse:
  "\<forall>p \<in> set ps. template_piece p \<Longrightarrow> replaceTemplate vals (unparse ps) = expand vals ps"
proof (induction vals ps rule: expand.induct)
  case (1 vals)
  then show ?case by simp
next
  case (2 vals s ps)
  then show ?case by (simp add: template_piece_def replaceTemplate_literal)
next
  case (3 vals k ps)
  have "template_hole (k @ ''}}'' @ unparse ps) = Some (k, unparse ps)"
    using 3(2) by (intro template_hole_key) (auto simp: template_piece_def)
  then have "replaceTemplate vals (unparse (Hole k # ps)) = (case map_of vals k of
      None \<Rightarrow> Inl (Err ''Missing template value'' [JStr k])
    | Some v \<Rightarrow> bindR (replaceTemplate vals (unparse ps)) (\<lambda>t. Inr (v @ t)))"
    by simp
  with 3 show ?case by (simp split: option.split)
qed

section \<open>HTML escaping\<close>

definition replace_all_char :: "char \<Rightarrow> string \<Rightarrow> string \<Rightarrow> string" where
  "replace_all_char c r s = concat (map (\<lambda>x. if x = c then r else [x]) s)"

lemma replace_all_char_simps [simp, str_simps]:
  "replace_all_char c r [] = []"
  "replace_all_char c r (x # s) = (if x = c then r else [x]) @ replace_all_char c r s"
  by (simp_all add: replace_all_char_def)

lemma replace_all_char_append [simp, str_simps]:
  "replace_all_char c r (s @ t) = replace_all_char c r s @ replace_all_char c r t"
  by (simp add: replace_all_char_def)

definition escapeHtml :: "jsval \<Rightarrow> string" where
  "escapeHtml value =
     replace_all_char (CHR 0x27) ''&#039;''
       (replace_all_char (CHR 0x22) ''&quot;''
         (replace_all_char (CHR ''>'') ''&gt;''
           (replace_all_char (CHR ''<'') ''&lt;''
             (replace_all_char (CHR ''&'') ''&amp;'' (js_string value)))))"

definition html_char :: "char \<Rightarrow> string" where
  "html_char c =
     (if c = CHR ''&'' then ''&amp;'' else if c = CHR ''<'' then ''&lt;''
      else if c = CHR ''>'' then ''&gt;'' else if c = CHR 0x22 then ''&quot;''
      else if c = CHR 0x27 then ''&#039;'' else [c])"

lemma escapeHtml_map: "escapeHtml v = concat (map html_char (js_string v))"
proof -
  have "replace_all_char (CHR 0x27) ''&#039;'' (replace_all_char (CHR 0x22) ''&quot;''
      (replace_all_char (CHR ''>'') ''&gt;'' (replace_all_char (CHR ''<'') ''&lt;''
        (replace_all_char (CHR ''&'') ''&amp;'' s)))) = concat (map html_char s)" for s
    by (induction s) (auto simp: html_char_def)
  then show ?thesis by (simp add: escapeHtml_def)
qed

lemma html_char_safe: "c \<in> set (html_char d) \<Longrightarrow> c \<notin> {CHR ''<'', CHR ''>'', CHR 0x22, CHR 0x27}"
  by (auto simp: html_char_def split: if_splits)

text \<open>Unescaping: the inverse a browser applies to the five entities.\<close>

fun unescape_html :: "string \<Rightarrow> string" where
  "unescape_html [] = []"
| "unescape_html (c # s) =
     (if starts_with (c # s) ''&amp;'' then CHR ''&'' # unescape_html (drop 4 s)
      else if starts_with (c # s) ''&lt;'' then CHR ''<'' # unescape_html (drop 3 s)
      else if starts_with (c # s) ''&gt;'' then CHR ''>'' # unescape_html (drop 3 s)
      else if starts_with (c # s) ''&quot;'' then CHR 0x22 # unescape_html (drop 5 s)
      else if starts_with (c # s) ''&#039;'' then CHR 0x27 # unescape_html (drop 5 s)
      else c # unescape_html s)"

lemma unescape_html_char: "unescape_html (html_char c @ s) = c # unescape_html s"
  by (simp add: html_char_def)

lemma unescape_escapeHtml: "unescape_html (escapeHtml v) = js_string v"
proof -
  have "unescape_html (concat (map html_char s)) = s" for s
    by (induction s) (simp_all add: unescape_html_char)
  then show ?thesis by (simp add: escapeHtml_map)
qed

section \<open>The registered worktrees\<close>

fun split_str :: "string \<Rightarrow> string \<Rightarrow> string list" where
  "split_str sep [] = [[]]"
| "split_str sep (c # s) =
     (if sep \<noteq> [] \<and> starts_with (c # s) sep then [] # split_str sep (drop (length sep - 1) s)
      else case split_str sep s of [] \<Rightarrow> [[c]] | p # ps \<Rightarrow> (c # p) # ps)"

text \<open>The loop of \<open>findMainWorktree\<close> over the records of \<open>git worktree list --porcelain\<close>.\<close>

fun main_worktree_in :: "string list \<Rightarrow> string option" where
  "main_worktree_in [] = None"
| "main_worktree_in (record # records) =
     (let ls = split_char newline record in
      if ''branch refs/heads/main'' \<notin> set ls then main_worktree_in records
      else case List.find (\<lambda>l. starts_with l ''worktree '') ls of
          None \<Rightarrow> main_worktree_in records
        | Some l \<Rightarrow>
            let location = drop 9 l in
            if location = [] then main_worktree_in records else Some (path_resolve1 location))"

definition findMainWorktree :: "string res \<Rightarrow> string res" where
  "findMainWorktree porcelain = bindR porcelain (\<lambda>out.
     case main_worktree_in (split_str [newline, newline] out) of
       None \<Rightarrow> Inl (Err ''The repository has no registered main worktree'' [])
     | Some location \<Rightarrow> Inr location)"

text \<open>\<open>value.split("\n").filter(Boolean)\<close>\<close>

definition lines_of :: "string \<Rightarrow> string list" where
  "lines_of s = filter (\<lambda>l. l \<noteq> []) (split_char newline s)"

lemma lines_of_nonempty: "l \<in> set (lines_of s) \<Longrightarrow> l \<noteq> []"
  by (simp add: lines_of_def)

lemma lines_of_join:
  "\<forall>l \<in> set ls. l \<noteq> [] \<and> newline \<notin> set l \<Longrightarrow> lines_of (join_char newline ls) = ls"
  by (cases "ls = []") (auto simp: lines_of_def split_join_char)

end
