(* ===== verification/Scope.thy ===== *)
theory Scope
  imports Lib
begin

text \<open>
  Which files a writer may touch.  The main worktree owns the evidence files
  (\<open>isMainManagedPath\<close>, scripts/task/lib.mjs), a Task branch owns the rest.  Three scripts
  check a list of changed files against a list of rules, each with its own rule grammar:
  \<open>matches\<close> (unified-lifecycle.mjs), \<open>matchesAllowed\<close> (work-pre-commit.mjs) and the local
  \<open>matches\<close> of \<open>validateChildOutcome\<close> (agent-routing.mjs).  The locale \<open>scope_rules\<close> states
  what the three share, and the gate's facts are proved once inside it.
\<close>

section \<open>Main-managed paths\<close>

definition MAIN_MANAGED_PATHS :: "string list" where
  "MAIN_MANAGED_PATHS = [''backlog.yaml'', ''project.yaml'', ''tasks/'', ''wiki/'', ''lap30/'',
     ''viewer/index.html'']"

definition managed_covers :: "string \<Rightarrow> string \<Rightarrow> bool" where
  "managed_covers file entry = (if ends_with entry ''/'' then starts_with file entry else file = entry)"

definition isMainManagedPath :: "string \<Rightarrow> bool" where
  "isMainManagedPath file = list_ex (managed_covers file) MAIN_MANAGED_PATHS"

definition sparsePatterns :: "string list" where
  "sparsePatterns = [''/*'', ''!/backlog.yaml'', ''!/project.yaml'', ''!/tasks/'', ''!/wiki/'',
     ''!/lap30/'', ''!/viewer/index.html'']"

section \<open>The three rule grammars\<close>

text \<open>A rule ending in \<open>/\<close> or \<open>-\<close> is a prefix, any other names one file.\<close>

definition lifecycle_covers :: "string \<Rightarrow> string \<Rightarrow> bool" where
  "lifecycle_covers file rule =
     (if ends_with rule ''/'' \<or> ends_with rule ''-'' then starts_with file rule else file = rule)"

definition matches :: "string \<Rightarrow> string list \<Rightarrow> bool" where
  "matches file rules = list_ex (lifecycle_covers file) rules"

text \<open>\<open>rule.slice(0, -2)\<close>\<close>

definition drop_last2 :: "string \<Rightarrow> string" where
  "drop_last2 s = take (length s - 2) s"

definition precommit_covers :: "string \<Rightarrow> string \<Rightarrow> bool" where
  "precommit_covers file rule =
     (if ends_with rule ''/**'' then starts_with file (drop_last2 rule)
      else if ends_with rule ''/'' \<or> ends_with rule ''-'' then starts_with file rule
      else file = rule)"

definition matchesAllowed :: "string list \<Rightarrow> string \<Rightarrow> bool" where
  "matchesAllowed workAllowed file = list_ex (precommit_covers file) workAllowed"

definition child_covers :: "string \<Rightarrow> string \<Rightarrow> bool" where
  "child_covers file rule =
     (if ends_with rule ''/**'' then starts_with file (drop_last2 rule) else file = rule)"

text \<open>\<open>files.filter((file) => !matches(file, rules))\<close>\<close>

definition outside :: "(string \<Rightarrow> string \<Rightarrow> bool) \<Rightarrow> string list \<Rightarrow> string list \<Rightarrow> string list" where
  "outside covers rules files = filter (\<lambda>file. \<not> list_ex (covers file) rules) files"

section \<open>The contract of a rule grammar\<close>

text \<open>
  \<open>stem\<close> is the literal text every file a rule covers starts with; a rule, read as the name
  of a file, covers itself.
\<close>

locale scope_rules =
  fixes covers :: "string \<Rightarrow> string \<Rightarrow> bool"
    and stem :: "string \<Rightarrow> string"
  assumes covers_stem: "covers file rule \<Longrightarrow> prefix (stem rule) file"
    and covers_self: "covers rule rule"
begin

lemma gate_empty: "outside covers rules files = [] \<longleftrightarrow> (\<forall>f \<in> set files. \<exists>r \<in> set rules. covers f r)"
  by (auto simp: outside_def filter_empty_conv list_ex_iff)

lemma gate_mono:
  "set rules \<subseteq> set rules' \<Longrightarrow> outside covers rules files = [] \<Longrightarrow> outside covers rules' files = []"
  unfolding gate_empty by blast

lemma gate_self: "set files \<subseteq> set rules \<Longrightarrow> outside covers rules files = []"
  using covers_self by (auto simp: gate_empty)

lemma gate_append:
  "outside covers rules (files @ files') = [] \<longleftrightarrow>
     outside covers rules files = [] \<and> outside covers rules files' = []"
  by (auto simp: outside_def)

lemma gate_reports: "f \<in> set (outside covers rules files) \<longleftrightarrow> f \<in> set files \<and> (\<forall>r \<in> set rules. \<not> covers f r)"
  by (auto simp: outside_def list_ex_iff)

text \<open>Files that pass the gate lie in any area that every rule stays in.\<close>

lemma gate_area:
  assumes "outside covers rules files = []" "f \<in> set files"
    and "\<And>r. r \<in> set rules \<Longrightarrow> covers f r \<Longrightarrow> area f"
  shows "area f"
  using assms by (auto simp: gate_empty)

lemma gate_prefix:
  assumes "outside covers rules files = []" "f \<in> set files"
  shows "\<exists>r \<in> set rules. prefix (stem r) f"
  using assms covers_stem unfolding gate_empty by blast

text \<open>A file none of whose rules' stems starts it is reported.\<close>

lemma gate_rejects:
  assumes "f \<in> set files" "\<forall>r \<in> set rules. \<not> prefix (stem r) f"
  shows "f \<in> set (outside covers rules files)"
  using assms covers_stem by (auto simp: gate_reports)

end

definition glob_stem :: "string \<Rightarrow> string" where
  "glob_stem rule = (if ends_with rule ''/**'' then drop_last2 rule else rule)"

lemma drop_last2_prefix: "prefix (drop_last2 s) s"
  by (simp add: drop_last2_def take_is_prefix)

lemma starts_with_drop_last2 [simp]: "starts_with s (drop_last2 s)"
  by (simp add: starts_with_prefix drop_last2_prefix)

interpretation managed: scope_rules managed_covers "\<lambda>r. r"
  by unfold_locales (auto simp: managed_covers_def starts_with_prefix split: if_splits)

interpretation lifecycle: scope_rules lifecycle_covers "\<lambda>r. r"
  by unfold_locales (auto simp: lifecycle_covers_def starts_with_prefix split: if_splits)

interpretation precommit: scope_rules precommit_covers glob_stem
  by unfold_locales (auto simp: precommit_covers_def glob_stem_def starts_with_prefix drop_last2_prefix
      split: if_splits)

interpretation child: scope_rules child_covers glob_stem
  by unfold_locales (auto simp: child_covers_def glob_stem_def starts_with_prefix drop_last2_prefix
      split: if_splits)

text \<open>Every rule the lifecycle grammar accepts, the pre-commit grammar accepts too, unless
  it is a glob; so a set of files that passed the launcher's gate passes the hook's.\<close>

lemma lifecycle_covers_precommit:
  "\<not> ends_with rule ''/**'' \<Longrightarrow> lifecycle_covers file rule = precommit_covers file rule"
  by (simp add: lifecycle_covers_def precommit_covers_def)

lemma child_covers_precommit: "child_covers file rule \<Longrightarrow> precommit_covers file rule"
  by (auto simp: child_covers_def precommit_covers_def split: if_splits)

section \<open>The rules of an evidence action\<close>

definition PLANNING_FILES :: "string list" where
  "PLANNING_FILES = [''TASK.md'', ''PLAN.md'', ''QA_PLAN.md'', ''REVIEW_RESULT.md'', ''QA_RESULT.md'',
     ''HANDOVER.md'']"

definition ACTION_FILES :: "(string \<times> string list) list" where
  "ACTION_FILES = [(''task'', [''TASK.md'']), (''plan'', [''PLAN.md'']), (''qa-plan'', [''QA_PLAN.md'']),
     (''review'', [''REVIEW_RESULT.md'']), (''qa-result'', [''QA_RESULT.md'']),
     (''handover'', [''HANDOVER.md''])]"

definition in_task :: "string \<Rightarrow> string \<Rightarrow> string" where
  "in_task taskDir file = taskDir @ ''/'' @ file"

definition BOOTSTRAP_RULES :: "string list" where
  "BOOTSTRAP_RULES = [''backlog.yaml'', ''project.yaml'', ''tasks/'', ''wiki/'', ''lap30/'',
     ''viewer/index.html'']"

definition WIKI_RULES :: "string list" where
  "WIKI_RULES = [''wiki/semantic/'', ''wiki/decisions/'', ''wiki/ingestions/'', ''wiki/index.json'']"

definition rollback_rules :: "string \<Rightarrow> string list" where
  "rollback_rules taskId = [''backlog.yaml'', ''tasks/'' @ taskId @ ''-'']"

text \<open>\<open>action in ACTION_FILES\<close> also holds of the names \<open>Object.prototype\<close> has; their values have
  no \<open>map\<close> method, so the call throws.\<close>

definition PROTOTYPE_KEYS :: "string list" where
  "PROTOTYPE_KEYS = [''constructor'', ''__defineGetter__'', ''__defineSetter__'', ''hasOwnProperty'',
     ''__lookupGetter__'', ''__lookupSetter__'', ''isPrototypeOf'', ''propertyIsEnumerable'',
     ''toString'', ''valueOf'', ''__proto__'', ''toLocaleString'']"

text \<open>The actions that look the task up first, from \<open>planning-gate\<close> on in \<open>allowedFor\<close>.\<close>

definition task_action_rules :: "string \<Rightarrow> string \<Rightarrow> string list res" where
  "task_action_rules action taskDir =
     (if action = ''planning-gate'' then Inr (''backlog.yaml'' # map (in_task taskDir) PLANNING_FILES)
      else case map_of ACTION_FILES action of
        Some files \<Rightarrow> Inr (map (in_task taskDir) files)
      | None \<Rightarrow>
        if action \<in> set PROTOTYPE_KEYS then Inl type_error
        else if action = ''task-start'' then Inr [''backlog.yaml'', taskDir @ ''/'']
        else if action = ''main-transition'' then
          Inr [''backlog.yaml'', in_task taskDir ''TASK.md'', in_task taskDir ''HANDOVER.md'']
        else if action = ''sync'' then Inr [''backlog.yaml'', ''wiki/'', ''viewer/index.html'', ''tasks/'']
        else Inl (Err ''Unknown evidence action'' [JStr action]))"

text \<open>\<open>completionAllowed\<close>: everything but PLAN.md, and the Wiki.\<close>

definition completion_rules :: "string \<Rightarrow> string list" where
  "completion_rules taskDir =
     ''backlog.yaml'' # map (in_task taskDir) (filter (\<lambda>f. f \<noteq> ''PLAN.md'') PLANNING_FILES) @ [''wiki/'']"

section \<open>Evidence rules stay in the main-managed area\<close>

lemma managed_prefix:
  "starts_with f ''tasks/'' \<Longrightarrow> isMainManagedPath f"
  "starts_with f ''wiki/'' \<Longrightarrow> isMainManagedPath f"
  "starts_with f ''lap30/'' \<Longrightarrow> isMainManagedPath f"
  by (simp_all add: isMainManagedPath_def MAIN_MANAGED_PATHS_def managed_covers_def ends_with_def)

lemma managed_file:
  "isMainManagedPath ''backlog.yaml''" "isMainManagedPath ''project.yaml''"
  "isMainManagedPath ''viewer/index.html''"
  by (simp_all add: isMainManagedPath_def MAIN_MANAGED_PATHS_def managed_covers_def ends_with_def)

lemma starts_with_trans: "starts_with s p \<Longrightarrow> starts_with p q \<Longrightarrow> starts_with s q"
  by (auto simp: starts_with_prefix)

lemma starts_with_extend: "starts_with p q \<Longrightarrow> starts_with (p @ t) q"
  by (auto simp: starts_with_iff)

text \<open>A rule that is itself managed, and a prefix rule only when it lies under a managed
  directory, covers managed files only.\<close>

definition managed_rule :: "string \<Rightarrow> bool" where
  "managed_rule r \<longleftrightarrow> starts_with r ''tasks/'' \<or> starts_with r ''wiki/'' \<or> starts_with r ''lap30/''
     \<or> r \<in> {''backlog.yaml'', ''project.yaml'', ''viewer/index.html''}"

lemma managed_rule_area:
  assumes "managed_rule r" "lifecycle_covers f r"
  shows "isMainManagedPath f"
proof -
  have p: "starts_with f r"
    using assms(2) by (simp add: lifecycle.covers_stem starts_with_prefix)
  consider "starts_with r ''tasks/'' \<or> starts_with r ''wiki/'' \<or> starts_with r ''lap30/''"
    | "r \<in> {''backlog.yaml'', ''project.yaml'', ''viewer/index.html''}"
    using assms(1) unfolding managed_rule_def by blast
  then show ?thesis
  proof cases
    case 1
    with starts_with_trans [OF p] show ?thesis using managed_prefix by blast
  next
    case 2
    then have "\<not> ends_with r ''/'' \<and> \<not> ends_with r ''-''"
      by (auto simp: ends_with_def)
    with assms(2) have "f = r" by (simp add: lifecycle_covers_def)
    with 2 managed_file show ?thesis by blast
  qed
qed

lemma managed_rule_gate:
  assumes "\<forall>r \<in> set rules. managed_rule r" "outside lifecycle_covers rules files = []"
  shows "\<forall>f \<in> set files. isMainManagedPath f"
proof
  fix f
  assume "f \<in> set files"
  with assms(2) show "isMainManagedPath f"
    by (rule lifecycle.gate_area) (use assms(1) managed_rule_area in blast)
qed

lemma in_task_managed: "starts_with taskDir ''tasks/'' \<Longrightarrow> managed_rule (in_task taskDir f)"
  by (simp add: in_task_def managed_rule_def starts_with_extend)

lemma map_all_managed:
  "starts_with taskDir ''tasks/'' \<Longrightarrow> \<forall>r \<in> set (map (in_task taskDir) fs). managed_rule r"
  by (simp add: in_task_managed)

lemma managed_rule_literals [simp]:
  "managed_rule ''backlog.yaml''" "managed_rule ''wiki/''" "managed_rule ''viewer/index.html''"
  "managed_rule ''tasks/''" "managed_rule ''lap30/''" "managed_rule ''project.yaml''"
  by (simp_all add: managed_rule_def)

lemma task_action_rules_managed:
  assumes "task_action_rules action taskDir = Inr rules" "starts_with taskDir ''tasks/''"
  shows "\<forall>r \<in> set rules. managed_rule r"
proof -
  have d: "managed_rule (taskDir @ ''/'')" and m: "managed_rule (in_task taskDir f)" for f
    using assms(2) by (simp_all add: managed_rule_def in_task_def starts_with_extend)
  consider "rules = ''backlog.yaml'' # map (in_task taskDir) PLANNING_FILES"
    | fs where "rules = map (in_task taskDir) fs"
    | "rules = [''backlog.yaml'', taskDir @ ''/'']"
    | "rules = [''backlog.yaml'', in_task taskDir ''TASK.md'', in_task taskDir ''HANDOVER.md'']"
    | "rules = [''backlog.yaml'', ''wiki/'', ''viewer/index.html'', ''tasks/'']"
    using assms(1) unfolding task_action_rules_def by (simp split: if_splits option.splits) blast+
  then show ?thesis
    by cases (use d m in simp_all)
qed

lemma other_rules_managed:
  "\<forall>r \<in> set BOOTSTRAP_RULES. managed_rule r"
  "\<forall>r \<in> set WIKI_RULES. managed_rule r"
  "\<forall>r \<in> set (rollback_rules taskId). managed_rule r"
  by (simp_all add: BOOTSTRAP_RULES_def WIKI_RULES_def rollback_rules_def managed_rule_def)

lemma completion_rules_managed:
  "starts_with taskDir ''tasks/'' \<Longrightarrow> \<forall>r \<in> set (completion_rules taskDir). managed_rule r"
  using in_task_managed by (auto simp: completion_rules_def managed_rule_def)

end
