(* ===== verification/Patterns.thy ===== *)
theory Patterns
  imports Scope
begin

text \<open>
  The parts of JavaScript's regular expressions that several scripts use: line terminators and
  the anchors of the \<open>m\<close> flag, the ways white space can be split off, searches on one line, and global
  replacement.
\<close>

section \<open>Lines\<close>

definition terminators :: "string list" where
  "terminators = [[newline], [CHR 0x0D], [CHR 0xE2, CHR 0x80, CHR 0xA8], [CHR 0xE2, CHR 0x80, CHR 0xA9]]"

definition terminator_at :: "string \<Rightarrow> string option" where
  "terminator_at s = List.find (starts_with s) terminators"

fun after_line :: "string \<Rightarrow> string" where
  "after_line [] = []"
| "after_line (c # s) = (if terminator_at (c # s) \<noteq> None then c # s else after_line s)"

text \<open>The part of the current line, and the suffixes at which \<open>^\<close> matches; \<open>past\<close> is what precedes, reversed.\<close>

definition line_part :: "string \<Rightarrow> string" where
  "line_part s = take (length s - length (after_line s)) s"

definition line_start :: "string \<Rightarrow> bool" where
  "line_start past \<longleftrightarrow> past = [] \<or> list_ex (\<lambda>t. starts_with past (rev t)) terminators"

fun line_starts :: "string \<Rightarrow> string \<Rightarrow> string list" where
  "line_starts past [] = (if line_start past then [[]] else [])"
| "line_starts past (c # s) = (if line_start past then [c # s] else []) @ line_starts (c # past) s"

text \<open>\<open>content.split(/\r?\n/)\<close>\<close>

definition drop_cr :: "string \<Rightarrow> string" where
  "drop_cr l = (if ends_with l [CHR 0x0D] then butlast l else l)"

definition split_lines :: "string \<Rightarrow> string list" where
  "split_lines s = (let ls = split_char newline s in map drop_cr (butlast ls) @ [last ls])"

text \<open>The ways to split white space off the front, longest first.\<close>

fun space_splits :: "nat \<Rightarrow> string \<Rightarrow> (string \<times> string) list" where
  "space_splits 0 s = [([], s)]"
| "space_splits (Suc n) s = (case List.find (starts_with s) js_spaces of
     None \<Rightarrow> [([], s)]
   | Some w \<Rightarrow> map (\<lambda>(a, b). (w @ a, b)) (space_splits n (drop (length w) s)) @ [([], s)])"

text \<open>\<open>\s*$\<close> with the \<open>m\<close> flag matches here.\<close>

definition ends_line :: "string \<Rightarrow> bool" where
  "ends_line s \<longleftrightarrow> list_ex (\<lambda>(ws, r). r = [] \<or> terminator_at r \<noteq> None) (space_splits (length s) s)"

text \<open>\<open>/w1.*w2.*w3/i\<close> for lower case words.\<close>

definition words_on_line :: "string list \<Rightarrow> string \<Rightarrow> bool" where
  "words_on_line ws s = list_ex (\<lambda>t. seq_search (map (\<lambda>w. [w]) ws) (line_part t)) (line_starts [] (map lower_char s))"

text \<open>\<open>^key\s*=\s*\<close> here: what follows.\<close>

definition key_value :: "string \<Rightarrow> string \<Rightarrow> string option" where
  "key_value key s = (if \<not> starts_with s key then None
     else case trim_start (drop (length key) s) of
       c # r \<Rightarrow> if c = CHR ''='' then Some (trim_start r) else None
     | [] \<Rightarrow> None)"

section \<open>Global replacement\<close>

text \<open>\<open>s.replace(re, r)\<close> with the \<open>g\<close> flag for a pattern that matches no empty text: \<open>m prev s\<close> is the
  length of the match at \<open>s\<close>, 0 for none, where \<open>prev\<close> is the byte before.\<close>

function replace_matches :: "(char option \<Rightarrow> string \<Rightarrow> nat) \<Rightarrow> string \<Rightarrow> char option \<Rightarrow> string \<Rightarrow> string" where
  "replace_matches m r prev [] = []"
| "replace_matches m r prev (c # s) = (let n = m prev (c # s) in
     if n = 0 then c # replace_matches m r (Some c) s
     else r @ replace_matches m r (Some (last (take n (c # s)))) (drop n (c # s)))"
  by pat_completeness auto
termination by (relation "measure (\<lambda>(m, r, prev, s). length s)") auto

end
