(* ===== verification/Routing.thy ===== *)
theory Routing
  imports Patterns
begin

text \<open>
  Agent routing (scripts/task/agent-routing.mjs and run-explorer-agent.mjs): the role
  contracts, the choice of the DEV profile from an approved plan, the role of an action, the
  bounds on a delegation to the Explorer, the check of what a child process left behind, and
  the command line of the child.
\<close>

section \<open>Role contracts\<close>

record contract =
  profile :: string
  model :: string
  effort :: string
  sandbox :: string

definition mk_contract :: "string \<Rightarrow> string \<Rightarrow> string \<Rightarrow> string \<Rightarrow> contract" where
  "mk_contract p m e s = \<lparr>profile = p, model = m, effort = e, sandbox = s\<rparr>"

definition ROLE_CONTRACTS :: "(string \<times> contract) list" where
  "ROLE_CONTRACTS =
    [(''main'', mk_contract ''sol-high'' ''gpt-5.6-sol'' ''high'' ''workspace-write''),
     (''planner'', mk_contract ''terra-medium'' ''gpt-5.6-terra'' ''medium'' ''workspace-write''),
     (''qa'', mk_contract ''terra-medium'' ''gpt-5.6-terra'' ''medium'' ''workspace-write''),
     (''reviewer'', mk_contract ''terra-medium'' ''gpt-5.6-terra'' ''medium'' ''workspace-write''),
     (''dev-luna'', mk_contract ''luna-xhigh'' ''gpt-5.6-luna'' ''xhigh'' ''workspace-write''),
     (''dev-sol'', mk_contract ''sol-high'' ''gpt-5.6-sol'' ''high'' ''workspace-write''),
     (''explorer'', mk_contract ''luna-medium'' ''gpt-5.6-luna'' ''medium'' ''read-only''),
     (''wiki'', mk_contract ''terra-medium'' ''gpt-5.6-terra'' ''medium'' ''workspace-write'')]"

definition ACTION_ROLES :: "(string \<times> string) list" where
  "ACTION_ROLES = [(''task'', ''main''), (''plan'', ''planner''), (''qa-plan'', ''qa''),
     (''review'', ''reviewer''), (''qa-result'', ''qa''), (''main-transition'', ''main''),
     (''governance'', ''main'')]"

definition MAX_EXPLORER_QUESTION_LENGTH :: nat where
  "MAX_EXPLORER_QUESTION_LENGTH = 500"

definition CODEX_DEFAULT_MAX_THREADS :: rat where
  "CODEX_DEFAULT_MAX_THREADS = 6"

definition CODEX_DEFAULT_MAX_DEPTH :: nat where
  "CODEX_DEFAULT_MAX_DEPTH = 1"

section \<open>The approved DEV profile\<close>

definition promotion_error :: "string \<Rightarrow> js_error" where
  "promotion_error key = Err ''DEV_PROFILE_PROMOTION_MISSING'' [JStr key]"

text \<open>One turn of the loop over the promotions, with the profile reached so far.\<close>

definition promotion_step :: "jsval \<Rightarrow> jsval \<Rightarrow> jsval res" where
  "promotion_step previous promotion =
     bindR (js_get promotion ''from'') (\<lambda>from.
       if from \<noteq> JStr ''luna-xhigh'' \<or> js_field promotion ''to'' \<noteq> JStr ''sol-high''
          \<or> previous \<noteq> JStr ''luna-xhigh''
       then Inl (Err ''DEV_PROFILE_DOWNGRADE_OR_INVALID_PROMOTION'' [])
       else bindR (each_R (\<lambda>key. throw_if (\<not> truthy (js_field promotion key)) (promotion_error key))
                     [''signal'', ''reason'', ''approved_by'', ''approved_at''])
              (\<lambda>_. Inr (JStr ''sol-high'')))"

fun promotion_loop :: "jsval \<Rightarrow> jsval list \<Rightarrow> jsval res" where
  "promotion_loop previous [] = Inr previous"
| "promotion_loop previous (p # ps) =
     bindR (promotion_step previous p) (\<lambda>previous'. promotion_loop previous' ps)"

text \<open>\<open>promotions.length\<close> and \<open>promotions[0]\<close> of an array or a string; any other value has
  no length, and iterating it throws.\<close>

fun js_items :: "jsval \<Rightarrow> jsval list" where
  "js_items (JArr xs) = xs"
| "js_items (JStr s) = map (\<lambda>c. JStr [c]) s"
| "js_items _ = []"

definition validateDevSelection :: "jsval \<Rightarrow> string res" where
  "validateDevSelection plan =
     bindR (js_get plan ''approved_dev_profile'') (\<lambda>prof.
       if prof \<noteq> JStr ''luna-xhigh'' \<and> prof \<noteq> JStr ''sol-high'' then Inl (Err ''DEV_PROFILE_UNKNOWN'' [])
       else let reason = js_field plan ''approved_dev_profile_reason'' in
       if \<not> truthy reason \<or> \<not> is_string reason then Inl (Err ''DEV_PROFILE_REASON_MISSING'' [])
       else let signals = js_field plan ''approved_dev_profile_risk_signals'' in
       if \<not> is_array signals then Inl (Err ''DEV_PROFILE_RISK_SIGNALS_MISSING'' [])
       else if prof = JStr ''luna-xhigh'' \<and> arr_items signals \<noteq> []
       then Inl (Err ''DEV_LUNA_HAS_RISK_SIGNAL'' [])
       else if prof = JStr ''sol-high'' \<and> arr_items signals = []
       then Inl (Err ''DEV_SOL_RISK_SIGNAL_MISSING'' [])
       else let promotions = coalesce (js_field plan ''dev_profile_promotions'') (JArr []) in
       bindR (case js_items promotions of [] \<Rightarrow> Inr prof | p # _ \<Rightarrow> js_get p ''from'') (\<lambda>previous.
       bindR (js_iter promotions) (\<lambda>ps.
       bindR (promotion_loop previous ps) (\<lambda>previous'.
         if ps \<noteq> [] \<and> \<not> js_seq prof previous'
         then Inl (Err ''DEV_PROFILE_PROMOTION_RESULT_MISMATCH'' [])
         else Inr (js_string prof)))))"

text \<open>A single promotion from Luna to Sol that carries its signal, reason and approval.\<close>

definition sound_promotion :: "jsval \<Rightarrow> bool" where
  "sound_promotion p \<longleftrightarrow> js_field p ''from'' = JStr ''luna-xhigh'' \<and> js_field p ''to'' = JStr ''sol-high''
     \<and> (\<forall>key \<in> {''signal'', ''reason'', ''approved_by'', ''approved_at''}. truthy (js_field p key))"

lemma js_field_nullish: "js_field v k = JStr s \<Longrightarrow> \<not> nullish v"
  by (cases v) auto

lemma promotion_step_Inr:
  "promotion_step previous p = Inr q \<longleftrightarrow>
     previous = JStr ''luna-xhigh'' \<and> sound_promotion p \<and> q = JStr ''sol-high''"
  unfolding promotion_step_def sound_promotion_def
  by (auto simp: bindR_Inr_iff each_R_Inr js_field_nullish split: if_splits)

lemma promotion_loop_Inr:
  "promotion_loop previous ps = Inr q \<longleftrightarrow>
     (ps = [] \<and> q = previous) \<or>
     (\<exists>p. ps = [p] \<and> previous = JStr ''luna-xhigh'' \<and> sound_promotion p \<and> q = JStr ''sol-high'')"
proof (cases ps)
  case Nil
  then show ?thesis by auto
next
  case (Cons p ps')
  then show ?thesis
    by (cases ps') (auto simp: bindR_Inr_iff promotion_step_Inr)
qed

text \<open>What the plan must hold for a profile to be accepted.\<close>

definition dev_selection_ok :: "jsval \<Rightarrow> string \<Rightarrow> bool" where
  "dev_selection_ok plan p \<longleftrightarrow>
     js_field plan ''approved_dev_profile'' = JStr p
     \<and> (\<exists>r. js_field plan ''approved_dev_profile_reason'' = JStr r \<and> r \<noteq> [])
     \<and> (\<exists>signals. js_field plan ''approved_dev_profile_risk_signals'' = JArr signals
         \<and> (p = ''luna-xhigh'' \<and> signals = [] \<or> p = ''sol-high'' \<and> signals \<noteq> []))
     \<and> (let pr = coalesce (js_field plan ''dev_profile_promotions'') (JArr []) in
        pr = JArr [] \<or> pr = JStr []
        \<or> p = ''sol-high'' \<and> (\<exists>q. pr = JArr [q] \<and> sound_promotion q))"

lemma single_items_cases:
  "js_iter v = Inr [q] \<Longrightarrow> sound_promotion q \<Longrightarrow> v = JArr [q]"
  by (cases v) (auto simp: sound_promotion_def)

lemma js_iter_Nil: "js_iter (coalesce v (JArr [])) = Inr [] \<longleftrightarrow>
    coalesce v (JArr []) = JArr [] \<or> coalesce v (JArr []) = JStr []"
  by (cases v) auto

lemma js_iter_items: "js_iter v = Inr xs \<Longrightarrow> js_items v = xs"
  by (cases v) auto

lemma validateDevSelection_iff: "validateDevSelection plan = Inr p \<longleftrightarrow> dev_selection_ok plan p"
proof
  assume a: "validateDevSelection plan = Inr p"
  let ?pr = "coalesce (js_field plan ''dev_profile_promotions'') (JArr [])"
  let ?prof = "js_field plan ''approved_dev_profile''"
  from a obtain prev ps prev' where
    prof: "?prof = JStr ''luna-xhigh'' \<or> ?prof = JStr ''sol-high''"
    and reason: "truthy (js_field plan ''approved_dev_profile_reason'')"
      "is_string (js_field plan ''approved_dev_profile_reason'')"
    and sig: "is_array (js_field plan ''approved_dev_profile_risk_signals'')"
      "?prof = JStr ''luna-xhigh'' \<Longrightarrow> arr_items (js_field plan ''approved_dev_profile_risk_signals'') = []"
      "?prof = JStr ''sol-high'' \<Longrightarrow> arr_items (js_field plan ''approved_dev_profile_risk_signals'') \<noteq> []"
    and it: "js_iter ?pr = Inr ps"
    and loop: "promotion_loop prev ps = Inr prev'"
    and res: "ps \<noteq> [] \<longrightarrow> js_seq ?prof prev'" and p: "p = js_string ?prof"
    unfolding validateDevSelection_def Let_def
    by (auto simp: bindR_Inr_iff split: if_splits)
  have pr: "?pr = JArr [] \<or> ?pr = JStr [] \<or> p = ''sol-high'' \<and> (\<exists>q. ?pr = JArr [q] \<and> sound_promotion q)"
    using loop unfolding promotion_loop_Inr
  proof (elim disjE exE conjE)
    assume "ps = []"
    with it have "js_iter ?pr = Inr []" by simp
    then show ?thesis unfolding js_iter_Nil by blast
  next
    fix q
    assume q: "ps = [q]" "sound_promotion q" "prev' = JStr ''sol-high''"
    with it have "?pr = JArr [q]" by (intro single_items_cases) simp_all
    moreover have "?prof = JStr ''sol-high''" using res q by simp
    ultimately show ?thesis using q p by simp
  qed
  show "dev_selection_ok plan p"
    unfolding dev_selection_ok_def Let_def
    using prof reason sig pr p by (auto simp: is_string_iff is_array_iff)
next
  assume "dev_selection_ok plan p"
  then show "validateDevSelection plan = Inr p"
    unfolding dev_selection_ok_def validateDevSelection_def Let_def
    by (auto simp: bindR_def js_get_def js_field_nullish promotion_loop_Inr sound_promotion_def
        promotion_step_def each_R_Inr throw_if_def)
qed

section \<open>Roles and routes\<close>

text \<open>\<open>plan\<close> is the front matter of the plan file, or what reading it threw.\<close>

definition roleForAction :: "string \<Rightarrow> jsval res option \<Rightarrow> string option res" where
  "roleForAction action planFile =
     (if action \<noteq> ''handover'' then Inr (map_of ACTION_ROLES action)
      else case planFile of
        None \<Rightarrow> Inl (Err ''DEV_PLAN_REQUIRED'' [])
      | Some plan \<Rightarrow> bindR plan (\<lambda>pl. bindR (validateDevSelection pl) (\<lambda>p.
          Inr (Some (if p = ''luna-xhigh'' then ''dev-luna'' else ''dev-sol'')))))"

definition assertFixedOverrides :: "contract \<Rightarrow> (string \<times> string) list \<Rightarrow> unit res" where
  "assertFixedOverrides c args =
     each_R (\<lambda>(key, value, fixed). throw_if (truthy value \<and> \<not> js_seq value (JStr fixed))
         (Err ''ROUTING_OVERRIDE_MISMATCH'' [JStr key]))
       [(''profile'', arg args ''profile'', profile c),
        (''model'', arg args ''model'', model c),
        (''effort'', coalesce (arg args ''effort'') (arg args ''model_reasoning_effort''), effort c)]"

text \<open>\<open>contracts\<close> is what \<open>readCanonicalContracts\<close> returned.\<close>

definition resolveFixedRoute ::
  "string \<Rightarrow> jsval res option \<Rightarrow> (string \<times> string) list \<Rightarrow> (string \<times> contract) list res
     \<Rightarrow> (string \<times> contract) res" where
  "resolveFixedRoute action planFile args contracts =
     bindR (roleForAction action planFile) (\<lambda>role. case role of
       None \<Rightarrow> Inl (Err ''ROUTING_ROLE_UNKNOWN'' [JStr action])
     | Some r \<Rightarrow> bindR contracts (\<lambda>cs. case map_of cs r of
         None \<Rightarrow> Inl type_error
       | Some c \<Rightarrow> bindR (assertFixedOverrides c args) (\<lambda>_. Inr (r, c))))"

lemma roleForAction_known:
  "roleForAction action planFile = Inr (Some r) \<Longrightarrow> r \<in> fst ` set ROLE_CONTRACTS"
  by (auto simp: roleForAction_def ROLE_CONTRACTS_def ACTION_ROLES_def bindR_Inr_iff
      split: if_splits option.splits)

definition override_ok :: "jsval \<Rightarrow> string \<Rightarrow> bool" where
  "override_ok v fixed \<longleftrightarrow> \<not> truthy v \<or> v = JStr fixed"

lemma assertFixedOverrides_iff:
  "assertFixedOverrides c args = Inr u \<longleftrightarrow>
     override_ok (arg args ''profile'') (profile c) \<and> override_ok (arg args ''model'') (model c)
     \<and> override_ok (coalesce (arg args ''effort'') (arg args ''model_reasoning_effort'')) (effort c)"
  unfolding assertFixedOverrides_def each_R_Inr by (auto simp: override_ok_def)

definition codexCommand :: "contract \<Rightarrow> string \<Rightarrow> string \<Rightarrow> string list" where
  "codexCommand route cwd prompt = [''exec'', ''-C'', cwd, ''--sandbox'', sandbox route, ''-m'', model route,
     ''-c'', ''model_reasoning_effort='' @ [CHR 0x22] @ effort route @ [CHR 0x22], prompt]"

section \<open>The Explorer\<close>

definition validateExplorerQuestion :: "jsval \<Rightarrow> string res" where
  "validateExplorerQuestion question = (case question of
     JStr q \<Rightarrow>
       (if js_trim q = [] then Inl (Err ''ROUTING_BOUNDED_QUESTION_REQUIRED'' [])
        else if q \<noteq> js_trim q \<or> CHR 0x0D \<in> set q \<or> CHR 0x0A \<in> set q
                \<or> utf16_length q > MAX_EXPLORER_QUESTION_LENGTH
        then Inl (Err ''ROUTING_BOUNDED_QUESTION_INVALID'' [])
        else Inr q)
   | _ \<Rightarrow> Inl (Err ''ROUTING_BOUNDED_QUESTION_REQUIRED'' []))"

text \<open>\<open>chain\<close> is \<open>None\<close> when it is no array; \<open>threads\<close> is the number given.\<close>

definition validateDelegation :: "jsval \<Rightarrow> jsval list \<Rightarrow> jsval \<Rightarrow> bool res" where
  "validateDelegation chain questions threads =
     (let cs = arr_items chain in
      if \<not> is_array chain \<or> length cs < 2 \<or> \<not> js_seq (hd cs) (JStr ''root'')
         \<or> \<not> js_seq (last cs) (JStr ''explorer'')
      then Inl (Err ''ROUTING_DELEGATION_INVALID'' [])
      else if JStr ''explorer'' \<in> set (butlast cs) then Inl (Err ''ROUTING_EXPLORER_SPAWN_FORBIDDEN'' [])
      else if length cs - 1 > CODEX_DEFAULT_MAX_DEPTH then Inl (Err ''ROUTING_MAX_DEPTH_EXCEEDED'' [])
      else if \<not> (case threads of JNum n \<Rightarrow> of_int \<lfloor>n\<rfloor> = n \<and> 1 \<le> n \<and> n \<le> CODEX_DEFAULT_MAX_THREADS
                               | _ \<Rightarrow> False)
      then Inl (Err ''ROUTING_MAX_THREADS_EXCEEDED'' [])
      else case questions of
        [q] \<Rightarrow> bindR (validateExplorerQuestion q) (\<lambda>_. Inr True)
      | _ \<Rightarrow> Inl (Err ''ROUTING_BOUNDED_QUESTION_REQUIRED'' []))"

lemma validateExplorerQuestion_Inr:
  "validateExplorerQuestion v = Inr q \<longleftrightarrow>
     v = JStr q \<and> q \<noteq> [] \<and> js_trim q = q \<and> CHR 0x0D \<notin> set q \<and> CHR 0x0A \<notin> set q \<and> utf16_length q \<le> 500"
  by (cases v) (auto simp: validateExplorerQuestion_def MAX_EXPLORER_QUESTION_LENGTH_def)

lemma two_element: "length xs = 2 \<longleftrightarrow> (\<exists>a b. xs = [a, b])"
  by (cases xs; cases "tl xs") auto

text \<open>The depth bound leaves one shape of chain: the root asks the Explorer directly.\<close>

lemma validateDelegation_chain:
  assumes "validateDelegation chain questions threads = Inr b"
  shows "chain = JArr [JStr ''root'', JStr ''explorer'']"
proof -
  from assms obtain cs where c: "chain = JArr cs" "2 \<le> length cs" "hd cs = JStr ''root''"
    "last cs = JStr ''explorer''" "length cs - 1 \<le> 1"
    by (cases chain) (auto simp: validateDelegation_def CODEX_DEFAULT_MAX_DEPTH_def Let_def
        split: if_splits)
  then have "length cs = 2" by linarith
  with c show ?thesis by (auto simp: two_element)
qed

definition SUPPORTED_ARGS :: "string list" where
  "SUPPORTED_ARGS = [''root'', ''question'', ''dry_run'']"

definition parseExplorerArgs :: "string list \<Rightarrow> (string \<times> string) list res" where
  "parseExplorerArgs argv =
     (if length (filter (\<lambda>a. a = ''--question'') argv) \<noteq> 1
      then Inl (Err ''ROUTING_BOUNDED_QUESTION_REQUIRED'' [])
      else bindR (parseArgs argv) (\<lambda>args.
        let unknown = filter (\<lambda>k. k \<notin> set SUPPORTED_ARGS) (map fst args) in
        if unknown \<noteq> [] then Inl (Err ''EXPLORER_ARGUMENT_UNKNOWN'' (map JStr unknown))
        else bindR (validateExplorerQuestion (arg args ''question'')) (\<lambda>_.
          let dry = arg args ''dry_run'' in
          if truthy dry \<and> dry \<noteq> JStr ''true'' \<and> dry \<noteq> JStr ''false''
          then Inl (Err ''EXPLORER_DRY_RUN_INVALID'' [])
          else Inr args)))"

lemma parseExplorerArgs_Inr:
  assumes "parseExplorerArgs argv = Inr args"
  shows "set (map fst args) \<subseteq> set SUPPORTED_ARGS"
    and "\<exists>q. map_of args ''question'' = Some q \<and> validateExplorerQuestion (JStr q) = Inr q"
  using assms
  by (auto simp: parseExplorerArgs_def bindR_Inr_iff Let_def filter_empty_conv arg_def
      validateExplorerQuestion_Inr split: if_splits option.splits)

section \<open>What the child left behind\<close>

definition validateChildOutcome ::
  "int \<Rightarrow> string \<Rightarrow> string \<Rightarrow> string list \<Rightarrow> string list \<Rightarrow> string list \<Rightarrow> string list res" where
  "validateChildOutcome childExit beforeHead afterHead stagedFiles changedFiles allowedPaths =
     (if childExit \<noteq> 0 then Inl (Err ''WORK_CHILD_FAILED'' [])
      else if beforeHead \<noteq> afterHead then Inl (Err ''WORK_CHILD_COMMIT_FORBIDDEN'' [])
      else if stagedFiles \<noteq> [] then Inl (Err ''WORK_CHILD_STAGE_FORBIDDEN'' [])
      else if changedFiles = [] then Inl (Err ''WORK_NO_CHANGES'' [])
      else let forbidden = outside child_covers allowedPaths changedFiles in
      if forbidden \<noteq> [] then Inl (Err ''WORK_SCOPE_VIOLATION'' (map JStr forbidden))
      else Inr changedFiles)"

lemma validateChildOutcome_Inr:
  "validateChildOutcome ex bh ah staged changed allowed = Inr fs \<longleftrightarrow>
     ex = 0 \<and> bh = ah \<and> staged = [] \<and> changed \<noteq> [] \<and> fs = changed
     \<and> outside child_covers allowed changed = []"
  by (auto simp: validateChildOutcome_def Let_def)

end
