(* ===== verification/View.thy ===== *)
theory View
  imports Routing
begin

text \<open>
  What a checker sees.  The checkers only read: their view of the file system, of git, of
  the YAML parser, of \<open>Date.parse\<close> (whose accepted formats beyond ISO 8601 are implementation
  defined) and of the process environment is a record of functions, an argument of every
  definition.  The helpers of lib.mjs that read through it follow.
\<close>

text \<open>A directory listing says of each entry what it is.\<close>

datatype entry_kind = DirEntry | FileEntry | LinkEntry | OtherEntry

record view =
  vw_exists :: "string \<Rightarrow> bool"
  vw_dir :: "string \<Rightarrow> (string \<times> entry_kind) list res"
  vw_read :: "string \<Rightarrow> string res"
  vw_yaml :: "string \<Rightarrow> jsval res"
  vw_git :: "string \<Rightarrow> string list \<Rightarrow> string res"
  vw_date :: "string \<Rightarrow> rat option"
  vw_realpath :: "string \<Rightarrow> string res"
  vw_ci :: bool

definition readYaml :: "view \<Rightarrow> string \<Rightarrow> jsval res" where
  "readYaml v file = bindR (vw_read v file) (vw_yaml v)"

definition parseFrontmatter :: "view \<Rightarrow> string \<Rightarrow> jsval res" where
  "parseFrontmatter v file = bindR (vw_read v file) (\<lambda>content. case frontmatter_body content of
     None \<Rightarrow> Inl (Err ''missing YAML frontmatter'' [JStr file])
   | Some body \<Rightarrow> vw_yaml v body)"

definition parseFrontmatterText :: "view \<Rightarrow> string \<Rightarrow> string \<Rightarrow> jsval res" where
  "parseFrontmatterText v content label = (case frontmatter_text_body content of
     None \<Rightarrow> Inl (Err ''missing YAML frontmatter'' [JStr label])
   | Some body \<Rightarrow> vw_yaml v body)"

definition repositoryFor :: "view \<Rightarrow> string \<Rightarrow> string res" where
  "repositoryFor v rootdir =
     bindR (readYaml v (path_join rootdir ''project.yaml'')) (\<lambda>project.
     bindR (js_get project ''repository_path'') (\<lambda>configured.
       if configured = JStr ''.'' \<or> \<not> truthy configured then Inr rootdir
       else case configured of JStr p \<Rightarrow> Inr (path_resolve rootdir p) | _ \<Rightarrow> Inl type_error))"

text \<open>\<open>Date.parse(value)\<close>, \<open>None\<close> for NaN.\<close>

definition date_of :: "view \<Rightarrow> jsval \<Rightarrow> rat option" where
  "date_of v x = vw_date v (js_string x)"

definition isTimestamp :: "view \<Rightarrow> jsval \<Rightarrow> bool" where
  "isTimestamp v x = (case x of JStr s \<Rightarrow> js_trim s \<noteq> [] \<and> vw_date v s \<noteq> None | _ \<Rightarrow> False)"

text \<open>\<open>Number(text)\<close> of what \<open>git rev-list --count\<close> prints: an unsigned decimal.\<close>

definition digit_value :: "char \<Rightarrow> nat" where
  "digit_value c = of_char c - 48"

definition count_of :: "string \<Rightarrow> nat option" where
  "count_of s = (if list_all is_digit s then Some (fold (\<lambda>c n. 10 * n + digit_value c) s 0) else None)"

lemma repositoryFor_ok:
  assumes "repositoryFor v rootdir = Inr r"
  shows "r = rootdir \<or> (\<exists>p. r = path_resolve rootdir p)"
  using assms by (auto simp: repositoryFor_def bindR_Inr_iff split: if_splits jsval.splits)

end
