(* ===== verification/Io.thy ===== *)
theory Io
  imports View
begin

text \<open>
  The effects of the lifecycle scripts.  A program is a tree: it returns, throws, or performs
  an operation (starts a process, touches the file system, asks whether a process lives) and
  continues with the operation's response.  Nothing is assumed about the responses: \<open>runs\<close>
  relates a program to every sequence of operations and responses it can produce and to its
  outcome, and \<open>wlp\<close> is the weakest precondition over all of them.  \<open>exec\<close> runs a program
  against a given environment.
\<close>

section \<open>Operations, responses and programs\<close>

datatype op =
    Spawn string "string list" string "(string \<times> string) list"
  | Exists string
  | ReadFile string
  | WriteFile string string
  | Mkdir string bool
  | Rm string
  | Rename string string
  | Realpath string
  | Probe jsval
  | IsFile string
  | IsDir string
  | ReadDir string
  | Unlink string
  | Mode string
  | Chmod string string
  | Stdout string
  | Stderr string

text \<open>\<open>Stdout\<close> and \<open>Stderr\<close> print a text; \<open>Rm\<close> removes a file or a directory with its contents, \<open>Unlink\<close> a file only.  The response of an operation: a process's exit status and output, a text, a truth value, a
  listing, success, or a system error with its code.\<close>

datatype resp =
    RProc "int option" string string
  | RText string
  | RBool bool
  | REntries "(string \<times> entry_kind) list"
  | ROk
  | RErr string

type_synonym event = "op \<times> resp"

datatype 'a io =
    Ret 'a
  | Throw js_error
  | Op op "resp \<Rightarrow> 'a io"

primrec bindI :: "'a io \<Rightarrow> ('a \<Rightarrow> 'b io) \<Rightarrow> 'b io" where
  "bindI (Ret x) f = f x"
| "bindI (Throw e) f = Throw e"
| "bindI (Op p k) f = Op p (\<lambda>r. bindI (k r) f)"

text \<open>\<open>try { m } catch (e) { h(e) }\<close>\<close>

primrec catchI :: "'a io \<Rightarrow> (js_error \<Rightarrow> 'a io) \<Rightarrow> 'a io" where
  "catchI (Ret x) h = Ret x"
| "catchI (Throw e) h = h e"
| "catchI (Op p k) h = Op p (\<lambda>r. catchI (k r) h)"

text \<open>\<open>try { m } finally { f }\<close>: an error of \<open>f\<close> replaces the outcome of \<open>m\<close>.\<close>

primrec finallyI :: "'a io \<Rightarrow> unit io \<Rightarrow> 'a io" where
  "finallyI (Ret x) f = bindI f (\<lambda>_. Ret x)"
| "finallyI (Throw e) f = bindI f (\<lambda>_. Throw e)"
| "finallyI (Op p k) f = Op p (\<lambda>r. finallyI (k r) f)"

text \<open>The outcome of a \<open>try\<close> block as a value, for a handler that looks at the state the block had reached.\<close>

definition tryI :: "'a io \<Rightarrow> 'a res io" where
  "tryI m = catchI (bindI m (\<lambda>x. Ret (Inr x))) (\<lambda>e. Ret (Inl e))"

definition liftI :: "'a res \<Rightarrow> 'a io" where
  "liftI r = (case r of Inl e \<Rightarrow> Throw e | Inr x \<Rightarrow> Ret x)"

definition throw_ifI :: "bool \<Rightarrow> js_error \<Rightarrow> unit io" where
  "throw_ifI bad e = (if bad then Throw e else Ret ())"

fun each_I :: "('a \<Rightarrow> unit io) \<Rightarrow> 'a list \<Rightarrow> unit io" where
  "each_I f [] = Ret ()"
| "each_I f (x # xs) = bindI (f x) (\<lambda>_. each_I f xs)"

fun map_I :: "('a \<Rightarrow> 'b io) \<Rightarrow> 'a list \<Rightarrow> 'b list io" where
  "map_I f [] = Ret []"
| "map_I f (x # xs) = bindI (f x) (\<lambda>y. bindI (map_I f xs) (\<lambda>ys. Ret (y # ys)))"

lemma bindI_assoc: "bindI (bindI m f) g = bindI m (\<lambda>x. bindI (f x) g)"
  by (induction m) auto

lemma bindI_Ret [simp]: "bindI m Ret = m"
  by (induction m) auto

section \<open>Runs\<close>

inductive runs :: "'a io \<Rightarrow> event list \<Rightarrow> js_error + 'a \<Rightarrow> bool" where
  runs_Ret: "runs (Ret x) [] (Inr x)"
| runs_Throw: "runs (Throw e) [] (Inl e)"
| runs_Op: "runs (k r) es out \<Longrightarrow> runs (Op p k) ((p, r) # es) out"

inductive_simps runs_Ret_iff [simp]: "runs (Ret x) es out"
inductive_simps runs_Throw_iff [simp]: "runs (Throw e) es out"
inductive_simps runs_Op_iff [simp]: "runs (Op p k) es out"

lemma runs_liftI [simp]: "runs (liftI r) es out \<longleftrightarrow> es = [] \<and> out = r"
  by (cases r) (auto simp: liftI_def)

lemma runs_throw_ifI [simp]: "runs (throw_ifI bad e) es out \<longleftrightarrow> es = [] \<and> out = (if bad then Inl e else Inr ())"
  by (auto simp: throw_ifI_def)

lemma runs_bindI:
  "runs (bindI m f) es out \<longleftrightarrow>
     (\<exists>e. runs m es (Inl e) \<and> out = Inl e)
     \<or> (\<exists>es1 es2 x. es = es1 @ es2 \<and> runs m es1 (Inr x) \<and> runs (f x) es2 out)"
proof (induction m arbitrary: es)
  case (Op p k)
  have IH: "runs (bindI (k r) f) es out \<longleftrightarrow> (\<exists>e. runs (k r) es (Inl e) \<and> out = Inl e)
     \<or> (\<exists>es1 es2 x. es = es1 @ es2 \<and> runs (k r) es1 (Inr x) \<and> runs (f x) es2 out)" for r es
    by (rule Op.IH) simp
  show ?case (is "?l \<longleftrightarrow> ?r1 \<or> ?r2")
  proof
    assume ?l
    then obtain r es' where es: "es = (p, r) # es'" and "runs (bindI (k r) f) es' out" by auto
    then consider e where "runs (k r) es' (Inl e)" "out = Inl e"
      | es1 es2 x where "es' = es1 @ es2" "runs (k r) es1 (Inr x)" "runs (f x) es2 out"
      unfolding IH by blast
    then show "?r1 \<or> ?r2"
    proof cases
      case 1
      then show ?thesis using es by auto
    next
      case 2
      then have "es = ((p, r) # es1) @ es2" "runs (Op p k) ((p, r) # es1) (Inr x)" using es by auto
      then show ?thesis using 2(3) by blast
    qed
  next
    assume "?r1 \<or> ?r2"
    then show ?l
    proof
      assume ?r1
      then show ?l by (auto simp: IH)
    next
      assume ?r2
      then obtain es1 es2 x r es1' where "es = ((p, r) # es1') @ es2" "runs (k r) es1' (Inr x)" "runs (f x) es2 out"
        by auto
      then show ?l by (auto simp: IH)
    qed
  qed
qed auto

text \<open>The two handlers, in the direction proofs use.\<close>

lemma runs_catchID:
  "runs (catchI m g) es out \<Longrightarrow> (\<exists>x. runs m es (Inr x) \<and> out = Inr x)
     \<or> (\<exists>es1 es2 e. es = es1 @ es2 \<and> runs m es1 (Inl e) \<and> runs (g e) es2 out)"
proof (induction m arbitrary: es)
  case (Op p k)
  from Op.prems obtain r es' where es: "es = (p, r) # es'" and run: "runs (catchI (k r) g) es' out" by auto
  from Op.IH [OF rangeI run] show ?case
  proof
    assume "\<exists>x. runs (k r) es' (Inr x) \<and> out = Inr x"
    then show ?thesis using es by auto
  next
    assume "\<exists>es1 es2 e. es' = es1 @ es2 \<and> runs (k r) es1 (Inl e) \<and> runs (g e) es2 out"
    then obtain es1 es2 e where c: "es = ((p, r) # es1) @ es2" "runs (k r) es1 (Inl e)" "runs (g e) es2 out"
      using es by auto
    then have "runs (Op p k) ((p, r) # es1) (Inl e)" by simp
    then show ?thesis using c by blast
  qed
qed auto

lemma runs_finallyID:
  "runs (finallyI m f) es out \<Longrightarrow> \<exists>es1 es2 out1 out2. es = es1 @ es2 \<and> runs m es1 out1 \<and> runs f es2 out2
     \<and> out = (case out2 of Inl e \<Rightarrow> Inl e | Inr _ \<Rightarrow> out1)"
proof (induction m arbitrary: es)
  case (Ret x)
  then consider e where "runs f es (Inl e)" "out = Inl e" | u where "runs f es (Inr u)" "out = Inr x"
    by (auto simp: runs_bindI)
  then show ?case
  proof cases
    case 1
    then have "es = [] @ es" "runs (Ret x) [] (Inr x)" "out = (case (Inl e :: js_error + unit) of Inl e \<Rightarrow> Inl e | Inr _ \<Rightarrow> Inr x)"
      by simp_all
    then show ?thesis using 1 by blast
  next
    case 2
    then have "es = [] @ es" "runs (Ret x) [] (Inr x)" "out = (case (Inr u :: js_error + unit) of Inl e \<Rightarrow> Inl e | Inr _ \<Rightarrow> Inr x)"
      by simp_all
    then show ?thesis using 2 by blast
  qed
next
  case (Throw err)
  then consider e where "runs f es (Inl e)" "out = Inl e" | u where "runs f es (Inr u)" "out = Inl err"
    by (auto simp: runs_bindI)
  then show ?case
  proof cases
    case 1
    then have "es = [] @ es" "runs (Throw err :: 'a io) [] (Inl err)"
      "out = (case (Inl e :: js_error + unit) of Inl e \<Rightarrow> Inl e | Inr _ \<Rightarrow> Inl err)" by simp_all
    then show ?thesis using 1 by blast
  next
    case 2
    then have "es = [] @ es" "runs (Throw err :: 'a io) [] (Inl err)"
      "out = (case (Inr u :: js_error + unit) of Inl e \<Rightarrow> Inl e | Inr _ \<Rightarrow> Inl err)" by simp_all
    then show ?thesis using 2 by blast
  qed
next
  case (Op p k)
  from Op.prems obtain r es' where es: "es = (p, r) # es'" and run: "runs (finallyI (k r) f) es' out" by auto
  from Op.IH [OF rangeI run] obtain es1 es2 out1 out2 where c: "es' = es1 @ es2" "runs (k r) es1 out1"
    "runs f es2 out2" "out = (case out2 of Inl e \<Rightarrow> Inl e | Inr _ \<Rightarrow> out1)" by blast
  then have "es = ((p, r) # es1) @ es2" "runs (Op p k) ((p, r) # es1) out1" using es by simp_all
  then show ?case using c by blast
qed

lemma runs_bindID_ok: "runs (bindI m f) es (Inr y) \<Longrightarrow>
    \<exists>es1 es2 x. es = es1 @ es2 \<and> runs m es1 (Inr x) \<and> runs (f x) es2 (Inr y)"
  by (auto simp: runs_bindI)

text \<open>One run per behaviour of the environment: a response for each operation, which may
  depend on everything done before.\<close>

type_synonym environment = "event list \<Rightarrow> op \<Rightarrow> resp"

primrec exec :: "environment \<Rightarrow> 'a io \<Rightarrow> event list \<Rightarrow> event list \<times> (js_error + 'a)" where
  "exec env (Ret x) past = ([], Inr x)"
| "exec env (Throw e) past = ([], Inl e)"
| "exec env (Op p k) past = (let r = env past p; out = exec env (k r) (past @ [(p, r)])
     in ((p, r) # fst out, snd out))"

lemma exec_runs: "runs m (fst (exec env m past)) (snd (exec env m past))"
  by (induction m arbitrary: past) (simp_all add: Let_def)

section \<open>Weakest liberal precondition\<close>

text \<open>\<open>wlp m Q past\<close>: whatever the environment answers, \<open>Q\<close> holds of the whole history and the
  outcome of \<open>m\<close> started after \<open>past\<close>.\<close>

primrec wlp :: "'a io \<Rightarrow> (event list \<Rightarrow> js_error + 'a \<Rightarrow> bool) \<Rightarrow> event list \<Rightarrow> bool" where
  "wlp (Ret x) Q past = Q past (Inr x)"
| "wlp (Throw e) Q past = Q past (Inl e)"
| "wlp (Op p k) Q past = (\<forall>r. wlp (k r) Q (past @ [(p, r)]))"

lemma wlp_runs: "wlp m Q past \<longleftrightarrow> (\<forall>es out. runs m es out \<longrightarrow> Q (past @ es) out)"
proof (induction m arbitrary: past)
  case (Op p k)
  show ?case by (simp add: Op.IH) blast
qed auto

lemma wlp_mono: "wlp m Q past \<Longrightarrow> (\<And>h out. Q h out \<Longrightarrow> Q' h out) \<Longrightarrow> wlp m Q' past"
  by (simp add: wlp_runs)

lemma wlp_any: "(\<And>h out. Q h out) \<Longrightarrow> wlp m Q past"
  by (simp add: wlp_runs)

lemma wlp_conj: "wlp m (\<lambda>h out. Q h out \<and> Q' h out) past \<longleftrightarrow> wlp m Q past \<and> wlp m Q' past"
  by (auto simp: wlp_runs)

lemma wlp_bindI: "wlp (bindI m f) Q past =
    wlp m (\<lambda>h out. case out of Inl e \<Rightarrow> Q h (Inl e) | Inr x \<Rightarrow> wlp (f x) Q h) past"
  by (induction m arbitrary: past) auto

lemma wlp_catchI: "wlp (catchI m g) Q past =
    wlp m (\<lambda>h out. case out of Inl e \<Rightarrow> wlp (g e) Q h | Inr x \<Rightarrow> Q h (Inr x)) past"
  by (induction m arbitrary: past) auto

lemma wlp_finallyI: "wlp (finallyI m f) Q past =
    wlp m (\<lambda>h out. wlp f (\<lambda>h' out'. case out' of Inl e \<Rightarrow> Q h' (Inl e) | Inr _ \<Rightarrow> Q h' out) h) past"
proof (induction m arbitrary: past)
  case (Ret x)
  show ?case unfolding finallyI.simps wlp_bindI by (simp cong: sum.case_cong)
next
  case (Throw e)
  show ?case unfolding finallyI.simps wlp_bindI by (simp cong: sum.case_cong)
qed auto

lemma wlp_liftI [simp]: "wlp (liftI r) Q past = Q past r"
  by (cases r) (simp_all add: liftI_def)

lemma wlp_throw_ifI [simp]:
  "wlp (throw_ifI bad e) Q past = (if bad then Q past (Inl e) else Q past (Inr ()))"
  by (simp add: throw_ifI_def)

section \<open>Invariants of histories\<close>

text \<open>\<open>keeps I m\<close>: from any history satisfying \<open>I\<close>, every history \<open>m\<close> reaches satisfies \<open>I\<close>.\<close>

definition keeps :: "(event list \<Rightarrow> bool) \<Rightarrow> 'a io \<Rightarrow> bool" where
  "keeps I m \<longleftrightarrow> (\<forall>past. I past \<longrightarrow> wlp m (\<lambda>h _. I h) past)"

text \<open>\<open>only P m\<close>: every operation \<open>m\<close> can perform satisfies \<open>P\<close>.\<close>

primrec only :: "(op \<Rightarrow> bool) \<Rightarrow> 'a io \<Rightarrow> bool" where
  "only P (Ret x) = True"
| "only P (Throw e) = True"
| "only P (Op p k) = (P p \<and> (\<forall>r. only P (k r)))"

named_theorems only_intros \<open>compositional rules for \<open>only\<close>\<close>

lemma only_wlp: "only P m \<longleftrightarrow> (\<forall>es out. runs m es out \<longrightarrow> (\<forall>e \<in> set es. P (fst e)))"
proof (induction m)
  case (Op p k)
  show ?case
  proof
    assume o: "only P (Op p k)"
    show "\<forall>es out. runs (Op p k) es out \<longrightarrow> (\<forall>e \<in> set es. P (fst e))"
    proof (intro allI impI)
      fix es out
      assume "runs (Op p k) es out"
      then obtain r es' where "es = (p, r) # es'" "runs (k r) es' out" by auto
      with o Op.IH [of "k r"] show "\<forall>e \<in> set es. P (fst e)" by fastforce
    qed
  next
    assume a: "\<forall>es out. runs (Op p k) es out \<longrightarrow> (\<forall>e \<in> set es. P (fst e))"
    have ex: "\<exists>es out. runs (k r) es out" for r using exec_runs by blast
    have "P p" using a ex [of undefined] by fastforce
    moreover have "only P (k r)" for r
      unfolding Op.IH [of "k r", OF rangeI] using a by fastforce
    ultimately show "only P (Op p k)" by simp
  qed
qed auto

lemma only_runs: "only P m \<Longrightarrow> runs m es out \<Longrightarrow> e \<in> set es \<Longrightarrow> P (fst e)"
  unfolding only_wlp by blast

lemma only_bindI [only_intros]: "only P m \<Longrightarrow> (\<And>x. only P (f x)) \<Longrightarrow> only P (bindI m f)"
  by (induction m) auto

lemma only_bindI_result: "only P m \<Longrightarrow> (\<And>es x. runs m es (Inr x) \<Longrightarrow> only P (f x)) \<Longrightarrow> only P (bindI m f)"
proof (induction m)
  case (Op p k)
  have "only P (bindI (k r) f)" for r
    by (rule Op.IH [OF rangeI]) (use Op.prems in \<open>auto intro: runs_Op\<close>)
  then show ?case using Op.prems(1) by simp
qed (auto intro: runs_Ret)

lemma only_catchI [only_intros]: "only P m \<Longrightarrow> (\<And>e. only P (g e)) \<Longrightarrow> only P (catchI m g)"
  by (induction m) auto

lemma only_finallyI [only_intros]: "only P m \<Longrightarrow> only P f \<Longrightarrow> only P (finallyI m f)"
  by (induction m) (auto intro: only_bindI)

lemma only_basic [simp, only_intros]: "only P (liftI r)" "only P (throw_ifI bad e)"
  by (simp_all add: liftI_def throw_ifI_def split: sum.splits)

lemma only_each_I [only_intros]: "(\<And>x. x \<in> set xs \<Longrightarrow> only P (f x)) \<Longrightarrow> only P (each_I f xs)"
  by (induction xs) (auto intro: only_bindI)

lemma only_map_I [only_intros]: "(\<And>x. x \<in> set xs \<Longrightarrow> only P (f x)) \<Longrightarrow> only P (map_I f xs)"
  by (induction xs) (auto intro!: only_bindI)

text \<open>Syntax-directed rules, for \<open>intro\<close>.\<close>

lemma only_leaf: "only P (Ret x)" "only P (Throw e)"
  by simp_all

lemma only_if: "(b \<Longrightarrow> only P m) \<Longrightarrow> (\<not> b \<Longrightarrow> only P m') \<Longrightarrow> only P (if b then m else m')"
  by simp

lemma only_prod: "(\<And>a b. p = (a, b) \<Longrightarrow> only P (f a b)) \<Longrightarrow> only P (case p of (a, b) \<Rightarrow> f a b)"
  by (cases p) simp

lemma only_option: "only P m \<Longrightarrow> (\<And>x. o' = Some x \<Longrightarrow> only P (f x)) \<Longrightarrow>
    only P (case o' of None \<Rightarrow> m | Some x \<Rightarrow> f x)"
  by (cases o') simp_all

lemma only_Op: "P p \<Longrightarrow> (\<And>r. only P (k r)) \<Longrightarrow> only P (Op p k)"
  by simp

lemma only_resp:
  assumes "\<And>a b c. only P (f1 a b c)" "\<And>s. only P (f2 s)" "\<And>b. only P (f3 b)" "\<And>v. only P (f4 v)"
    and "only P m" "\<And>c. only P (f5 c)"
  shows "only P (case r of RProc a b c \<Rightarrow> f1 a b c | RText s \<Rightarrow> f2 s | RBool b \<Rightarrow> f3 b | REntries v \<Rightarrow> f4 v
    | ROk \<Rightarrow> m | RErr c \<Rightarrow> f5 c)"
  using assms by (cases r) simp_all

lemmas only_rules = only_bindI only_catchI only_finallyI only_basic only_each_I only_map_I only_leaf only_if
  only_prod only_option only_resp

lemma only_mono: "only P m \<Longrightarrow> (\<And>p. P p \<Longrightarrow> Q p) \<Longrightarrow> only Q m"
  by (induction m) auto

lemma only_wlpD: "only P m \<Longrightarrow> wlp m (\<lambda>h _. \<exists>es. h = past @ es \<and> (\<forall>e \<in> set es. P (fst e))) past"
  unfolding wlp_runs only_wlp by blast

lemma keepsI_only:
  assumes "only P m" and "\<And>h p r. I h \<Longrightarrow> P p \<Longrightarrow> I (h @ [(p, r)])"
  shows "keeps I m"
  unfolding keeps_def
proof (intro allI impI)
  fix past assume "I past"
  then show "wlp m (\<lambda>h _. I h) past"
    using assms(1) by (induction m arbitrary: past) (auto intro: assms(2))
qed

section \<open>\<open>tryI\<close>\<close>

lemma only_tryI [only_intros]: "only P m \<Longrightarrow> only P (tryI m)"
  unfolding tryI_def by (intro only_rules)

lemma only_sum: "(\<And>e. r = Inl e \<Longrightarrow> only P (f e)) \<Longrightarrow> (\<And>x. r = Inr x \<Longrightarrow> only P (g x)) \<Longrightarrow>
    only P (case r of Inl e \<Rightarrow> f e | Inr x \<Rightarrow> g x)"
  by (cases r) simp_all

lemma runs_tryI:
  assumes "runs (tryI m) es out"
  obtains r where "runs m es r" "out = Inr r"
  using runs_catchID [OF assms [unfolded tryI_def]] by (auto simp: runs_bindI)

end
