(* ===== verification/Host.thy ===== *)
theory Host
  imports Io
begin

text \<open>
  The helpers of lib.mjs and unified-lifecycle.mjs that start processes and touch files:
  \<open>git\<close>, \<open>run\<close>, \<open>output\<close>, \<open>readYaml\<close>, \<open>writeFileAtomic\<close>, \<open>changedFiles\<close> and
  \<open>changedContentDigest\<close>.  The \<open>host\<close> record carries the code that is not the repository's (the
  YAML and JSON libraries, the JSON Schema validator with the issues it finds, SHA-256, \<open>Date.parse\<close>) and the constants of the process; \<open>h_stack\<close> bounds
  the depth of its call stack.
\<close>

record host =
  h_yaml :: "string \<Rightarrow> jsval res"
  h_yaml_text :: "jsval \<Rightarrow> string"
  h_json :: "string \<Rightarrow> jsval res"
  h_json_text :: "jsval \<Rightarrow> string"
  h_json_pretty :: "jsval \<Rightarrow> string"
  h_sha256 :: "string \<Rightarrow> string"
  h_date :: "string \<Rightarrow> rat option"
  h_today :: "jsval \<Rightarrow> string res"
  h_now :: string
  h_pid :: nat
  h_repo_root :: string
  h_stack :: nat
  h_cwd :: string
  h_number :: "string \<Rightarrow> jsval"
  h_schema :: "jsval \<Rightarrow> jsval \<Rightarrow> (string \<times> string) list res"
  h_node :: string

section \<open>Operations\<close>

definition sys_error :: "string \<Rightarrow> js_error" where
  "sys_error code = Err code []"

text \<open>\<open>spawnSync\<close> whose \<open>error\<close> the caller does not look at: a process that did not start has no
  status and no output.\<close>

definition spawn_status :: "string \<Rightarrow> string list \<Rightarrow> string \<Rightarrow> (string \<times> string) list \<Rightarrow> (int option \<times> string \<times> string) io" where
  "spawn_status cmd argv cwd env = Op (Spawn cmd argv cwd env) (\<lambda>r. case r of
     RProc status out err \<Rightarrow> Ret (status, out, err)
   | _ \<Rightarrow> Ret (None, [], []))"

text \<open>\<open>spawnSync\<close> with \<open>if (result.error) throw result.error\<close>.\<close>

definition spawn :: "string \<Rightarrow> string list \<Rightarrow> string \<Rightarrow> (string \<times> string) list \<Rightarrow> (int option \<times> string \<times> string) io" where
  "spawn cmd argv cwd env = Op (Spawn cmd argv cwd env) (\<lambda>r. case r of
     RProc status out err \<Rightarrow> Ret (status, out, err)
   | RErr code \<Rightarrow> Throw (sys_error code)
   | _ \<Rightarrow> Throw type_error)"

definition exists_path :: "string \<Rightarrow> bool io" where
  "exists_path p = Op (Exists p) (\<lambda>r. Ret (r = RBool True))"

definition is_file :: "string \<Rightarrow> bool io" where
  "is_file p = Op (IsFile p) (\<lambda>r. Ret (r = RBool True))"

definition text_response :: "resp \<Rightarrow> string io" where
  "text_response r = (case r of RText s \<Rightarrow> Ret s | RErr code \<Rightarrow> Throw (sys_error code) | _ \<Rightarrow> Throw type_error)"

definition unit_response :: "resp \<Rightarrow> unit io" where
  "unit_response r = (case r of ROk \<Rightarrow> Ret () | RErr code \<Rightarrow> Throw (sys_error code) | _ \<Rightarrow> Throw type_error)"

definition entries_response :: "resp \<Rightarrow> (string \<times> entry_kind) list io" where
  "entries_response r = (case r of REntries es \<Rightarrow> Ret es | RErr code \<Rightarrow> Throw (sys_error code) | _ \<Rightarrow> Throw type_error)"

definition read_file :: "string \<Rightarrow> string io" where
  "read_file p = Op (ReadFile p) text_response"

definition real_path :: "string \<Rightarrow> string io" where
  "real_path p = Op (Realpath p) text_response"

definition write_file :: "string \<Rightarrow> string \<Rightarrow> unit io" where
  "write_file p content = Op (WriteFile p content) unit_response"

definition make_dir :: "string \<Rightarrow> bool \<Rightarrow> unit io" where
  "make_dir p recursive = Op (Mkdir p recursive) unit_response"

definition remove :: "string \<Rightarrow> unit io" where
  "remove p = Op (Rm p) unit_response"

definition unlink_file :: "string \<Rightarrow> unit io" where
  "unlink_file p = Op (Unlink p) unit_response"

definition is_directory :: "string \<Rightarrow> bool io" where
  "is_directory p = Op (IsDir p) (\<lambda>r. Ret (r = RBool True))"

definition read_dir :: "string \<Rightarrow> (string \<times> entry_kind) list io" where
  "read_dir p = Op (ReadDir p) entries_response"

definition file_mode :: "string \<Rightarrow> string io" where
  "file_mode p = Op (Mode p) text_response"

definition change_mode :: "string \<Rightarrow> string \<Rightarrow> unit io" where
  "change_mode p m = Op (Chmod p m) unit_response"

definition rename_file :: "string \<Rightarrow> string \<Rightarrow> unit io" where
  "rename_file p q = Op (Rename p q) unit_response"

text \<open>A write to the standard streams returns whatever becomes of the text.\<close>

definition print_out :: "string \<Rightarrow> unit io" where
  "print_out text = Op (Stdout text) (\<lambda>_. Ret ())"

definition print_err :: "string \<Rightarrow> unit io" where
  "print_err text = Op (Stderr text) (\<lambda>_. Ret ())"

lemmas op_defs = spawn_def exists_path_def is_file_def read_file_def real_path_def write_file_def
  make_dir_def remove_def rename_file_def unlink_file_def is_directory_def read_dir_def file_mode_def
  change_mode_def text_response_def unit_response_def entries_response_def

section \<open>\<open>git\<close>, \<open>run\<close> and \<open>output\<close>\<close>

text \<open>\<open>(stderr || stdout || fallback).trim()\<close>\<close>

definition failure_text :: "string \<Rightarrow> string \<Rightarrow> string \<Rightarrow> string" where
  "failure_text out err fallback = js_trim (if err \<noteq> [] then err else if out \<noteq> [] then out else fallback)"

definition git_env :: "(string \<times> string) list \<Rightarrow> string \<Rightarrow> string list \<Rightarrow> string io" where
  "git_env env dir args = bindI (spawn ''git'' args dir env) (\<lambda>(status, out, err).
     if status \<noteq> Some 0
     then Throw (Err (failure_text out err (''git '' @ join_char (CHR '' '') args @ '' failed'')) [])
     else Ret (js_trim out))"

definition git :: "string \<Rightarrow> string list \<Rightarrow> string io" where
  "git dir args = git_env [] dir args"

definition run_command :: "string \<Rightarrow> string list \<Rightarrow> string \<Rightarrow> string io" where
  "run_command cmd argv cwd = bindI (spawn cmd argv cwd []) (\<lambda>(status, out, err).
     if status \<noteq> Some 0 then Throw (Err (failure_text out err (cmd @ '' failed'')) [])
     else Ret (js_trim out))"

definition output_of :: "string \<Rightarrow> string list \<Rightarrow> string \<Rightarrow> bool \<Rightarrow> (int option \<times> string \<times> string) io" where
  "output_of cmd argv cwd allowFailure = bindI (spawn cmd argv cwd []) (\<lambda>(status, out, err).
     if status \<noteq> Some 0 \<and> \<not> allowFailure then Throw (Err (failure_text out err []) [])
     else Ret (status, out, err))"

definition workRoot :: "host \<Rightarrow> jsval \<Rightarrow> string" where
  "workRoot h explicitRoot = path_resolve (h_cwd h) (if truthy explicitRoot then js_string explicitRoot else h_repo_root h)"

definition read_yaml :: "host \<Rightarrow> string \<Rightarrow> jsval io" where
  "read_yaml h p = bindI (read_file p) (\<lambda>text. liftI (h_yaml h text))"

definition read_frontmatter :: "host \<Rightarrow> string \<Rightarrow> jsval io" where
  "read_frontmatter h p = bindI (read_file p) (\<lambda>content. case frontmatter_body content of
     None \<Rightarrow> Throw (Err ''missing YAML frontmatter'' [JStr p])
   | Some body \<Rightarrow> liftI (h_yaml h body))"

definition writeFileAtomic :: "host \<Rightarrow> string \<Rightarrow> string \<Rightarrow> unit io" where
  "writeFileAtomic h file content = (let temporary = file @ ''.'' @ nat_string (h_pid h) @ ''.tmp'' in
     bindI (write_file temporary content) (\<lambda>_. rename_file temporary file))"

definition writeYaml :: "host \<Rightarrow> string \<Rightarrow> jsval \<Rightarrow> unit io" where
  "writeYaml h file v = writeFileAtomic h file (h_yaml_text h v)"

text \<open>\<open>findMainWorktree(root)\<close> against git.\<close>

definition find_main_worktree :: "string \<Rightarrow> string io" where
  "find_main_worktree rootdir = bindI (git rootdir [''worktree'', ''list'', ''--porcelain''])
     (\<lambda>out. liftI (findMainWorktree (Inr out)))"

section \<open>\<open>changedFiles\<close> and \<open>changedContentDigest\<close>\<close>

text \<open>\<open>[...new Set(xs)].sort()\<close> on path names.\<close>

definition changedFiles :: "string \<Rightarrow> string list io" where
  "changedFiles rootdir =
     bindI (git rootdir [''diff'', ''--name-only'', ''--diff-filter=ACMRD'']) (\<lambda>a.
     bindI (git rootdir [''diff'', ''--cached'', ''--name-only'', ''--diff-filter=ACMRD'']) (\<lambda>b.
     bindI (git rootdir [''ls-files'', ''--others'', ''--exclude-standard'']) (\<lambda>c.
       Ret (sort (uniq (lines_of a @ lines_of b @ lines_of c))))))"

definition nul :: char where
  "nul = CHR 0x00"

definition list_z :: "string \<Rightarrow> string list \<Rightarrow> string list io" where
  "list_z rootdir args = bindI (spawn ''git'' args rootdir []) (\<lambda>(status, out, err).
     if status \<noteq> Some 0 then Throw (Err (failure_text out err ''git path listing failed'') [])
     else Ret (filter (\<lambda>l. l \<noteq> []) (split_char nul out)))"

definition digest_record :: "string \<Rightarrow> string option \<Rightarrow> string" where
  "digest_record file content = file @ [nul] @ (case content of
       Some bytes \<Rightarrow> ''present'' @ [nul] @ bytes
     | None \<Rightarrow> ''deleted'' @ [nul] @ ''DELETED'') @ [newline]"

definition index_content :: "string \<Rightarrow> string \<Rightarrow> string option io" where
  "index_content rootdir file = bindI (spawn_status ''git'' [''show'', '':'' @ file] rootdir []) (\<lambda>(status, out, err).
     Ret (if status = Some 0 then Some out else None))"

definition working_content :: "string \<Rightarrow> string \<Rightarrow> string option io" where
  "working_content rootdir file = (let target = path_resolve rootdir file in
     bindI (exists_path target) (\<lambda>e. if \<not> e then Ret None else
     bindI (is_file target) (\<lambda>f. if \<not> f then Ret None else
     bindI (read_file target) (\<lambda>bytes. Ret (Some bytes)))))"

definition digest_files :: "string \<Rightarrow> bool \<Rightarrow> string list io" where
  "digest_files rootdir cached =
     (if cached then list_z rootdir [''diff'', ''--cached'', ''--name-only'', ''-z'', ''--diff-filter=ACMRD'']
      else bindI (list_z rootdir [''diff'', ''HEAD'', ''--name-only'', ''-z'', ''--diff-filter=ACMRD'']) (\<lambda>a.
           bindI (list_z rootdir [''ls-files'', ''--others'', ''--exclude-standard'', ''-z'']) (\<lambda>b.
           Ret (uniq (a @ b)))))"

definition changedContentDigest :: "host \<Rightarrow> string \<Rightarrow> bool \<Rightarrow> string io" where
  "changedContentDigest h rootdir cached =
     bindI (digest_files rootdir cached) (\<lambda>files.
     bindI (map_I (\<lambda>file. bindI ((if cached then index_content else working_content) rootdir file)
                    (\<lambda>content. Ret (digest_record file content))) (sort files)) (\<lambda>records.
       Ret (h_sha256 h (concat records))))"

section \<open>Reading programs on a view\<close>

text \<open>A program that only reads, run against one state of the repository.\<close>

fun error_code :: "js_error \<Rightarrow> string" where
  "error_code (Err code vs) = code"

definition view_env :: "view \<Rightarrow> environment" where
  "view_env v past p = (case p of
     Exists q \<Rightarrow> RBool (vw_exists v q)
   | ReadFile q \<Rightarrow> (case vw_read v q of Inl e \<Rightarrow> RErr (error_code e) | Inr s \<Rightarrow> RText s)
   | ReadDir q \<Rightarrow> (case vw_dir v q of Inl e \<Rightarrow> RErr (error_code e) | Inr es \<Rightarrow> REntries es)
   | _ \<Rightarrow> RErr ''ENOSYS'')"

definition on_view :: "view \<Rightarrow> 'a io \<Rightarrow> 'a res" where
  "on_view v m = snd (exec (view_env v) m [])"

section \<open>What the helpers can do\<close>

lemma only_spawn [only_intros]: "P (Spawn cmd argv cwd env) \<Longrightarrow> only P (spawn cmd argv cwd env)"
  by (auto simp: spawn_def split: resp.splits)

lemma only_spawn_status [only_intros]: "P (Spawn cmd argv cwd env) \<Longrightarrow> only P (spawn_status cmd argv cwd env)"
  by (auto simp: spawn_status_def split: resp.splits)

lemma only_text [simp, only_intros]: "only P (text_response r)" "only P (unit_response r)" "only P (entries_response r)"
  by (auto simp: op_defs split: resp.splits)

lemma only_files [only_intros]:
  "P (Exists p) \<Longrightarrow> only P (exists_path p)"
  "P (IsFile p) \<Longrightarrow> only P (is_file p)"
  "P (ReadFile p) \<Longrightarrow> only P (read_file p)"
  "P (Realpath p) \<Longrightarrow> only P (real_path p)"
  "P (WriteFile p content) \<Longrightarrow> only P (write_file p content)"
  "P (Mkdir p b) \<Longrightarrow> only P (make_dir p b)"
  "P (Rm p) \<Longrightarrow> only P (remove p)"
  "P (Rename p q) \<Longrightarrow> only P (rename_file p q)"
  "P (Unlink p) \<Longrightarrow> only P (unlink_file p)"
  "P (IsDir p) \<Longrightarrow> only P (is_directory p)"
  "P (ReadDir p) \<Longrightarrow> only P (read_dir p)"
  "P (Mode p) \<Longrightarrow> only P (file_mode p)"
  "P (Chmod p m) \<Longrightarrow> only P (change_mode p m)"
  "P (Stdout t) \<Longrightarrow> only P (print_out t)"
  "P (Stderr t) \<Longrightarrow> only P (print_err t)"
  by (simp_all add: print_out_def print_err_def exists_path_def is_file_def read_file_def real_path_def write_file_def
      make_dir_def remove_def rename_file_def unlink_file_def is_directory_def read_dir_def file_mode_def
      change_mode_def)

lemma only_git_env [only_intros]: "P (Spawn ''git'' args dir env) \<Longrightarrow> only P (git_env env dir args)"
  unfolding git_env_def by (intro only_bindI only_spawn) auto

lemma only_git [only_intros]: "P (Spawn ''git'' args dir []) \<Longrightarrow> only P (git dir args)"
  unfolding git_def by (rule only_git_env)

lemma only_run [only_intros]: "P (Spawn cmd argv cwd []) \<Longrightarrow> only P (run_command cmd argv cwd)"
  unfolding run_command_def by (intro only_bindI only_spawn) auto

lemma only_output [only_intros]: "P (Spawn cmd argv cwd []) \<Longrightarrow> only P (output_of cmd argv cwd allow)"
  unfolding output_of_def by (intro only_bindI only_spawn) auto

text \<open>Operations that read: the ones no helper below needs a permission for.\<close>

definition GIT_READS :: "string list" where
  "GIT_READS = [''diff'', ''ls-files'', ''rev-parse'', ''rev-list'', ''branch'', ''status'', ''worktree'',
     ''show'', ''merge-base'', ''cat-file'', ''ls-remote'', ''show-ref'']"

text \<open>\<open>git branch --show-current\<close> and \<open>git worktree list\<close> read, the other uses of these two
  commands write.\<close>

definition git_reads :: "string list \<Rightarrow> bool" where
  "git_reads args = (case args of [] \<Rightarrow> False
   | c # rest \<Rightarrow> c \<in> set GIT_READS
       \<and> (c = ''branch'' \<longrightarrow> rest = [''--show-current'']) \<and> (c = ''worktree'' \<longrightarrow> rest = [''list'', ''--porcelain'']))"

fun reads :: "op \<Rightarrow> bool" where
  "reads (Spawn cmd argv cwd env) = (cmd = ''git'' \<and> env = [] \<and> git_reads argv)"
| "reads (Exists p) = True"
| "reads (ReadFile p) = True"
| "reads (Realpath p) = True"
| "reads (IsFile p) = True"
| "reads (Mode p) = True"
| "reads (IsDir p) = True"
| "reads (ReadDir p) = True"
| "reads (Probe pid) = True"
| "reads _ = False"

lemma only_read_yaml [only_intros]: "P (ReadFile p) \<Longrightarrow> only P (read_yaml h p)"
  "P (ReadFile p) \<Longrightarrow> only P (read_frontmatter h p)"
  unfolding read_yaml_def read_frontmatter_def
  by (intro only_bindI only_files only_basic; auto split: option.splits)+

lemma reads_git [simp]: "reads (Spawn ''git'' (c # rest) dir []) \<longleftrightarrow> git_reads (c # rest)"
  by simp

lemma only_reads_changedFiles: "only reads (changedFiles rootdir)"
  unfolding changedFiles_def
  by (intro only_bindI only_git) (simp_all add: git_reads_def GIT_READS_def)

lemma only_reads_list_z: "git_reads args \<Longrightarrow> only reads (list_z rootdir args)"
  unfolding list_z_def by (intro only_bindI only_spawn) auto

lemma only_reads_digest: "only reads (changedContentDigest h rootdir cached)"
proof -
  have "only reads (digest_files rootdir cached)"
    unfolding digest_files_def
    by (cases cached) (auto intro!: only_bindI only_reads_list_z simp: git_reads_def GIT_READS_def)
  moreover have "only reads (index_content rootdir f)" for f
    unfolding index_content_def
    by (intro only_bindI only_spawn_status) (auto simp: git_reads_def GIT_READS_def)
  moreover have "only reads (working_content rootdir f)" for f
    unfolding working_content_def Let_def
    by (intro only_bindI only_files) (auto intro!: only_bindI only_files)
  ultimately show ?thesis
    unfolding changedContentDigest_def by (auto intro!: only_bindI only_map_I)
qed

lemma only_reads_find_main: "only reads (find_main_worktree rootdir)"
  unfolding find_main_worktree_def
  by (intro only_bindI only_git) (auto simp: git_reads_def GIT_READS_def)

end
