(* ===== verification/Lock.thy ===== *)
theory Lock
  imports Host
begin

text \<open>
  The work repository lock of lib.mjs (\<open>acquireWorkRepoLock\<close>): a directory under git's common
  directory whose \<open>owner.json\<close> names the process that holds it.  First the program of one
  process and what any of its runs does; then several processes that run this program on one
  shared directory, interleaved at every operation.  The concurrent system shows when the lock
  excludes a second writer, and when it does not: the takeover of a lock whose owner is gone
  is not atomic.
\<close>

section \<open>The program\<close>

definition workRepoLockDir :: "string \<Rightarrow> string io" where
  "workRepoLockDir rootdir =
     bindI (git rootdir [''rev-parse'', ''--path-format=absolute'', ''--git-common-dir'']) (\<lambda>commonDir.
       Ret (path_join commonDir ''agent-harness-locks/work-repository.lock''))"

definition owner_file :: "string \<Rightarrow> string" where
  "owner_file lockDir = path_join lockDir ''owner.json''"

definition no_owner_error :: "string \<Rightarrow> js_error" where
  "no_owner_error lockDir =
     Err ''Work repository lock has no readable owner; inspect and remove if stale'' [JStr lockDir]"

definition read_owner :: "host \<Rightarrow> string \<Rightarrow> jsval io" where
  "read_owner h lockDir = catchI (bindI (read_file (owner_file lockDir)) (\<lambda>text. liftI (h_json h text)))
     (\<lambda>_. Throw (no_owner_error lockDir))"

definition takeover :: "string \<Rightarrow> unit io" where
  "takeover lockDir = bindI (remove lockDir) (\<lambda>_. make_dir lockDir False)"

text \<open>\<open>process.kill(owner.pid, 0)\<close>: only \<open>ESRCH\<close> says that the owner is gone.\<close>

definition probe_owner :: "string \<Rightarrow> jsval \<Rightarrow> unit io" where
  "probe_owner lockDir owner = bindI (liftI (js_get owner ''pid'')) (\<lambda>pid.
     Op (Probe pid) (\<lambda>r. case r of
       RErr code \<Rightarrow> if code \<noteq> ''ESRCH'' then Throw (sys_error code) else takeover lockDir
     | _ \<Rightarrow> Throw (Err ''Another work repository writer holds the lock'' [pid, JStr lockDir])))"

definition createLock :: "host \<Rightarrow> string \<Rightarrow> unit io" where
  "createLock h lockDir = Op (Mkdir lockDir False) (\<lambda>r. case r of
     RErr code \<Rightarrow> if code \<noteq> ''EEXIST'' then Throw (sys_error code)
       else bindI (read_owner h lockDir) (probe_owner lockDir)
   | _ \<Rightarrow> unit_response r)"

definition owner_record :: "host \<Rightarrow> string" where
  "owner_record h = h_json_text h (JObj [(''pid'', JNum (of_nat (h_pid h))), (''started_at'', JStr (h_now h))]) @ [newline]"

text \<open>The body of the \<open>try\<close> once the directory exists, and the whole after the directory is known.\<close>

definition lock_body :: "host \<Rightarrow> string \<Rightarrow> string \<Rightarrow> bool \<Rightarrow> bool \<Rightarrow> unit io" where
  "lock_body h rootdir lockDir requireClean requireMain =
     bindI (write_file (owner_file lockDir) (owner_record h)) (\<lambda>_.
     bindI (if \<not> requireMain then Ret () else
       bindI (git rootdir [''branch'', ''--show-current'']) (\<lambda>b.
         throw_ifI (b \<noteq> ''main'') (Err ''Work repository writes are only allowed on main'' []))) (\<lambda>_.
     if \<not> requireClean then Ret () else
       bindI (git rootdir [''status'', ''--porcelain'']) (\<lambda>s.
         throw_ifI (s \<noteq> []) (Err ''Work repository must be clean before a writer starts'' []))))"

definition holding :: "host \<Rightarrow> string \<Rightarrow> string \<Rightarrow> bool \<Rightarrow> bool \<Rightarrow> unit io" where
  "holding h rootdir lockDir requireClean requireMain =
     catchI (lock_body h rootdir lockDir requireClean requireMain)
       (\<lambda>e. bindI (remove lockDir) (\<lambda>_. Throw e))"

definition acquire_at :: "host \<Rightarrow> string \<Rightarrow> string \<Rightarrow> bool \<Rightarrow> bool \<Rightarrow> unit io" where
  "acquire_at h rootdir lockDir requireClean requireMain =
     bindI (make_dir (path_dirname lockDir) True) (\<lambda>_.
     bindI (createLock h lockDir) (\<lambda>_.
     holding h rootdir lockDir requireClean requireMain))"

text \<open>The result is the directory that \<open>release\<close> removes; no caller releases twice.\<close>

definition acquireWorkRepoLock :: "host \<Rightarrow> string \<Rightarrow> bool \<Rightarrow> bool \<Rightarrow> string io" where
  "acquireWorkRepoLock h rootdir requireClean requireMain =
     bindI (workRepoLockDir rootdir) (\<lambda>lockDir.
     bindI (acquire_at h rootdir lockDir requireClean requireMain) (\<lambda>_. Ret lockDir))"

definition release :: "string \<Rightarrow> unit io" where
  "release lockDir = remove lockDir"

section \<open>One process: does its history hold the lock?\<close>

text \<open>The last operation of the history on the directory itself decides.\<close>

fun lock_event :: "string \<Rightarrow> event \<Rightarrow> bool \<Rightarrow> bool" where
  "lock_event d (Mkdir p rec, r) held = (if p = d \<and> r = ROk then True else held)"
| "lock_event d (Rm p, r) held = (if p = d \<and> r = ROk then False else held)"
| "lock_event d _ held = held"

definition held :: "string \<Rightarrow> event list \<Rightarrow> bool" where
  "held d h = fold (lock_event d) h False"

lemma held_simps [simp]: "\<not> held d []" "held d (h @ es) = fold (lock_event d) es (held d h)"
  by (simp_all add: held_def)

fun lock_free :: "op \<Rightarrow> bool" where
  "lock_free (Mkdir p rec) = False"
| "lock_free (Rm p) = False"
| "lock_free _ = True"

lemma lock_free_event [simp]: "lock_free p \<Longrightarrow> lock_event d (p, r) b = b"
  by (cases p) auto

lemma reads_lock_free: "reads p \<Longrightarrow> lock_free p"
  by (cases p) auto

lemma held_append_free: "\<forall>e \<in> set es. lock_free (fst e) \<Longrightarrow> fold (lock_event d) es b = b"
  by (induction es arbitrary: b) auto

lemma only_lock_free_git [simp, only_intros]: "only lock_free (git dir args)"
  by (intro only_git) simp

lemma only_lock_free_body: "only lock_free (lock_body h rootdir lockDir c m)"
  unfolding lock_body_def by (auto intro!: only_bindI only_files)

lemma wlp_lock_free:
  assumes "only lock_free m" "\<And>h out. held d h = held d past \<Longrightarrow> Q h out"
  shows "wlp m Q past"
  by (rule wlp_mono [OF only_wlpD [OF assms(1)]]) (use assms(2) in \<open>auto simp: held_append_free\<close>)

text \<open>Removing the directory releases it, unless the removal itself fails.\<close>

lemma wlp_remove: "wlp (remove d) (\<lambda>h out. out = Inr () \<longrightarrow> \<not> held d h) past"
  by (simp add: op_defs split: resp.splits)

lemma holding_wlp:
  assumes "held d past"
  shows "wlp (holding h rootdir d c m) (\<lambda>h out. out = Inr () \<longrightarrow> held d h) past"
  unfolding holding_def wlp_catchI
  by (rule wlp_lock_free [where d = d, OF only_lock_free_body])
    (auto simp: wlp_bindI op_defs assms split: sum.splits resp.splits)

lemma createLock_wlp: "wlp (createLock h d) (\<lambda>h out. out = Inr () \<longrightarrow> held d h) past"
proof -
  have t: "wlp (takeover d) (\<lambda>h out. out = Inr () \<longrightarrow> held d h) past" for past
    by (simp add: takeover_def wlp_bindI op_defs split: resp.splits)
  have p: "wlp (probe_owner d owner) (\<lambda>h out. out = Inr () \<longrightarrow> held d h) past" for owner past
    by (auto simp: probe_owner_def wlp_bindI t split: sum.splits resp.splits)
  have r: "wlp (bindI (read_owner h d) (probe_owner d)) (\<lambda>h out. out = Inr () \<longrightarrow> held d h) past" for past
    unfolding wlp_bindI wlp_runs [of "read_owner h d"] using p by (auto split: sum.splits)
  show ?thesis
    by (auto simp: createLock_def op_defs r split: resp.splits)
qed

text \<open>A process that returns from the acquisition holds the lock.\<close>

lemma acquire_at_wlp: "wlp (acquire_at h rootdir d c m) (\<lambda>h out. out = Inr () \<longrightarrow> held d h) past"
proof -
  have "wlp (bindI (createLock h d) (\<lambda>_. holding h rootdir d c m)) (\<lambda>h out. out = Inr () \<longrightarrow> held d h) past" for past
    unfolding wlp_bindI
    by (rule wlp_mono [OF createLock_wlp]) (auto intro: holding_wlp split: sum.splits)
  then show ?thesis
    unfolding acquire_at_def
    by (subst wlp_bindI) (auto simp: wlp_runs [of "make_dir _ _"] split: sum.splits)
qed

lemma acquire_wlp: "wlp (acquireWorkRepoLock h rootdir c m) (\<lambda>h out. \<forall>d. out = Inr d \<longrightarrow> held d h) past"
proof -
  have "wlp (bindI (acquire_at h rootdir d c m) (\<lambda>_. Ret d)) (\<lambda>h out. \<forall>d. out = Inr d \<longrightarrow> held d h) past" for d past
    unfolding wlp_bindI by (rule wlp_mono [OF acquire_at_wlp]) (auto split: sum.splits)
  then show ?thesis
    unfolding acquireWorkRepoLock_def wlp_bindI [of "workRepoLockDir _"]
    by (intro wlp_any) (auto split: sum.splits)
qed

end
