(* ===== verification/Transaction.thy ===== *)
theory Transaction
  imports Lock
begin

text \<open>
  The shape every writer of the work repository has: something is read or prepared, the lock is
  acquired, and a \<open>try\<close> block runs whose \<open>finally\<close> releases it.  The interface
  \<open>locked_transaction\<close> states what the parts promise; its facts hold of each writer by
  interpretation.
\<close>

section \<open>Writes under the lock\<close>

lemma git_reads_simps [simp]:
  "git_reads [''branch'', ''--show-current'']" "git_reads [''worktree'', ''list'', ''--porcelain'']"
  "git_reads (''rev-parse'' # xs)" "git_reads (''status'' # xs)" "git_reads (''diff'' # xs)"
  "git_reads (''ls-files'' # xs)" "git_reads (''show'' # xs)" "git_reads (''merge-base'' # xs)"
  "git_reads (''rev-list'' # xs)" "git_reads (''cat-file'' # xs)" "git_reads (''ls-remote'' # xs)"
  by (simp_all add: git_reads_def GIT_READS_def)

lemmas reads_rules = only_rules only_git only_files only_read_yaml only_output
  only_reads_changedFiles only_reads_digest only_reads_find_main

text \<open>A git command that changes the repository or its remote.\<close>

definition git_write :: "op \<Rightarrow> bool" where
  "git_write p = (case p of Spawn cmd args dir env \<Rightarrow> cmd = ''git'' \<and> \<not> git_reads args | _ \<Rightarrow> False)"

text \<open>From a history in which the lock \<open>d\<close> is held or not, every write happens while it is.\<close>

fun guarded :: "string \<Rightarrow> bool \<Rightarrow> event list \<Rightarrow> bool" where
  "guarded d b [] = True"
| "guarded d b ((p, r) # es) = ((git_write p \<longrightarrow> b) \<and> guarded d (lock_event d (p, r) b) es)"

lemma guarded_append: "guarded d b (xs @ ys) \<longleftrightarrow> guarded d b xs \<and> guarded d (fold (lock_event d) xs b) ys"
proof (induction xs arbitrary: b)
  case (Cons e xs)
  then show ?case by (cases e) (simp del: lock_event.simps)
qed simp

lemma guarded_no_writes: "\<forall>e \<in> set es. \<not> git_write (fst e) \<Longrightarrow> guarded d b es"
proof (induction es arbitrary: b)
  case (Cons e es)
  then show ?case by (cases e) (simp del: lock_event.simps)
qed simp

text \<open>Only the removal of a directory can release a lock that is held.\<close>

fun lock_kept :: "op \<Rightarrow> bool" where
  "lock_kept (Rm p) = False"
| "lock_kept _ = True"

lemma lock_kept_event: "lock_kept p \<Longrightarrow> lock_event d (p, r) True"
  by (cases p) auto

lemma lock_free_kept: "lock_free p \<Longrightarrow> lock_kept p"
  by (cases p) auto

lemma reads_lock_kept: "reads p \<Longrightarrow> lock_kept p"
  by (cases p) auto

lemma guarded_held: "\<forall>e \<in> set es. lock_kept (fst e) \<Longrightarrow> guarded d True es"
proof (induction es)
  case (Cons e es)
  then show ?case by (cases e) (simp add: lock_kept_event del: lock_event.simps)
qed simp

lemma reads_not_write: "reads p \<Longrightarrow> \<not> git_write p"
  by (cases p) (auto simp: git_write_def)

lemma only_no_write_create: "only (\<lambda>p. \<not> git_write p) (createLock h d)"
proof -
  have o: "\<not> git_write (Mkdir a b)" "\<not> git_write (Rm a)" "\<not> git_write (ReadFile a)" "\<not> git_write (Probe v)" for a b v
    by (simp_all add: git_write_def)
  have p: "only (\<lambda>p. \<not> git_write p) (probe_owner d owner)" for owner
    unfolding probe_owner_def takeover_def by (intro only_rules only_Op only_files o)
  have r: "only (\<lambda>p. \<not> git_write p) (read_owner h d)"
    unfolding read_owner_def by (intro only_rules only_files o)
  show ?thesis
    unfolding createLock_def by (intro only_rules only_Op only_text o p r)
qed

lemma only_no_write_holding: "only (\<lambda>p. \<not> git_write p) (holding h rootdir d c m)"
proof -
  have o: "\<not> git_write (Rm a)" "\<not> git_write (WriteFile a b)"
    "\<not> git_write (Spawn ''git'' [''branch'', ''--show-current''] rootdir [])"
    "\<not> git_write (Spawn ''git'' [''status'', ''--porcelain''] rootdir [])" for a b
    by (simp_all add: git_write_def)
  show ?thesis
    unfolding holding_def lock_body_def by (intro only_rules only_files only_git o)
qed

lemma only_reads_lock_dir: "only reads (workRepoLockDir rootdir)"
  unfolding workRepoLockDir_def by (intro only_rules only_git) simp

lemma only_no_write_acquire: "only (\<lambda>p. \<not> git_write p) (acquireWorkRepoLock h rootdir c m)"
proof -
  have "only (\<lambda>p. \<not> git_write p) (acquire_at h rootdir d c m)" for d
    unfolding acquire_at_def
    by (intro only_rules only_files only_no_write_create only_no_write_holding) (simp add: git_write_def)
  then show ?thesis
    unfolding acquireWorkRepoLock_def by (intro only_rules only_mono [OF only_reads_lock_dir reads_not_write])
qed

lemma reads_no_writes: "only reads m \<Longrightarrow> runs m es out \<Longrightarrow> \<forall>e \<in> set es. \<not> git_write (fst e)"
  using only_runs reads_not_write by blast

section \<open>Successful runs\<close>

named_theorems ok_runs \<open>what a run that returns did\<close>

lemma runs_bindI_ok [ok_runs]: "runs (bindI m f) es (Inr y) \<longleftrightarrow>
    (\<exists>es1 es2 x. es = es1 @ es2 \<and> runs m es1 (Inr x) \<and> runs (f x) es2 (Inr y))"
  by (auto simp: runs_bindI)

text \<open>The same, one step at a time: the elimination rules take a successful run of a handler apart.\<close>

lemma runs_bind_okE:
  assumes "runs (bindI m f) es (Inr y)"
  obtains es1 es2 x where "runs m es1 (Inr x)" "runs (f x) es2 (Inr y)" "es = es1 @ es2"
  using assms unfolding runs_bindI_ok by blast

lemma runs_guard_okE:
  assumes "runs (bindI (throw_ifI bad e) f) es (Inr y)"
  obtains "\<not> bad" "runs (f ()) es (Inr y)"
  using assms unfolding runs_bindI_ok by (auto split: if_splits)

lemma runs_lift_okE:
  assumes "runs (bindI (liftI r) f) es (Inr y)"
  obtains x where "r = Inr x" "runs (f x) es (Inr y)"
  using assms unfolding runs_bindI_ok by auto

lemma runs_Ret_okE:
  assumes "runs (Ret x) es (Inr y)"
  obtains "y = x" "es = []"
  using assms by auto

lemma runs_throw_okE:
  assumes "runs (throw_ifI bad e) es (Inr u)"
  obtains "\<not> bad" "es = []"
  using assms by (auto split: if_splits)
lemmas ok_elims = runs_Ret_okE Pair_inject runs_throw_okE runs_guard_okE runs_lift_okE runs_bind_okE

text \<open>A handler that always throws returns nothing.\<close>

lemma runs_rethrow [simp]: "\<not> runs (bindI m (\<lambda>_. Throw e)) es (Inr y)"
  by (simp add: runs_bindI_ok)

lemma runs_catch_rethrow:
  assumes "runs (catchI m g) es (Inr y)" and "\<And>e es. \<not> runs (g e) es (Inr y)"
  shows "runs m es (Inr y)"
  using runs_catchID [OF assms(1)] assms(2) by blast

lemma spawn_runs:
  "runs (spawn cmd args dir env) es out \<Longrightarrow>
     \<exists>r. es = [(Spawn cmd args dir env, r)] \<and> (\<forall>s t u. out = Inr (s, t, u) \<longrightarrow> r = RProc s t u)"
  unfolding spawn_def runs_Op_iff by (elim exE conjE) (rename_tac r es', case_tac r, auto)

lemma spawn_ok [ok_runs]: "runs (spawn cmd args dir env) es (Inr x) \<longleftrightarrow>
    es = [(Spawn cmd args dir env, RProc (fst x) (fst (snd x)) (snd (snd x)))]"
proof
  assume "runs (spawn cmd args dir env) es (Inr x)"
  from spawn_runs [OF this] show "es = [(Spawn cmd args dir env, RProc (fst x) (fst (snd x)) (snd (snd x)))]"
    by (cases x) auto
qed (simp add: spawn_def)

lemma spawn_status_runs_ok:
  assumes "runs (spawn_status cmd args dir env) es (Inr x)"
  shows "\<exists>r. es = [(Spawn cmd args dir env, r)] \<and> (fst x = Some n \<longrightarrow> (\<exists>t u. r = RProc (Some n) t u))"
  using assms unfolding spawn_status_def runs_Op_iff by (elim exE conjE) (rename_tac r es', case_tac r, auto)

lemma git_env_ok:
  assumes "runs (git_env env dir args) es (Inr x)"
  shows "\<exists>t u. es = [(Spawn ''git'' args dir env, RProc (Some 0) t u)] \<and> x = js_trim t"
  using assms unfolding git_env_def
  by (auto simp: runs_bindI dest!: spawn_runs split: if_splits)

lemma git_env_runs_ok [ok_runs]: "runs (git_env env dir args) es (Inr x) \<longleftrightarrow>
    (\<exists>t u. es = [(Spawn ''git'' args dir env, RProc (Some 0) t u)] \<and> x = js_trim t)"
  unfolding git_env_def by (auto simp: ok_runs split: if_splits)

lemma git_runs_ok [ok_runs]: "runs (git dir args) es (Inr x) \<longleftrightarrow>
    (\<exists>t u. es = [(Spawn ''git'' args dir [], RProc (Some 0) t u)] \<and> x = js_trim t)"
  unfolding git_def by (rule git_env_runs_ok)

lemma run_command_ok:
  assumes "runs (run_command cmd args dir) es (Inr x)"
  shows "\<exists>t u. es = [(Spawn cmd args dir [], RProc (Some 0) t u)] \<and> x = js_trim t"
  using assms unfolding run_command_def
  by (auto simp: runs_bindI dest!: spawn_runs split: if_splits)

lemma run_command_runs_ok [ok_runs]: "runs (run_command cmd args dir) es (Inr x) \<longleftrightarrow>
    (\<exists>t u. es = [(Spawn cmd args dir [], RProc (Some 0) t u)] \<and> x = js_trim t)"
  unfolding run_command_def by (auto simp: ok_runs split: if_splits)

lemma output_runs_ok [ok_runs]: "runs (output_of cmd args dir True) es (Inr x) \<longleftrightarrow>
    es = [(Spawn cmd args dir [], RProc (fst x) (fst (snd x)) (snd (snd x)))]"
  unfolding output_of_def by (auto simp: ok_runs)

lemma exists_runs [ok_runs]: "runs (exists_path p) es out \<longleftrightarrow> (\<exists>r. es = [(Exists p, r)] \<and> out = Inr (r = RBool True))"
  by (auto simp: exists_path_def)

lemma unit_response_runs [simp]: "runs (unit_response r) es (Inr u) \<longleftrightarrow> es = [] \<and> r = ROk"
  by (cases r) (auto simp: unit_response_def)

lemma text_response_runs [simp]: "runs (text_response r) es (Inr s) \<longleftrightarrow> es = [] \<and> r = RText s"
  by (cases r) (auto simp: text_response_def)

lemma file_runs_ok [ok_runs]:
  "runs (read_file p) es (Inr s) \<longleftrightarrow> es = [(ReadFile p, RText s)]"
  "runs (write_file p c) es (Inr u) \<longleftrightarrow> es = [(WriteFile p c, ROk)]"
  "runs (make_dir p b) es (Inr u) \<longleftrightarrow> es = [(Mkdir p b, ROk)]"
  "runs (remove p) es (Inr u) \<longleftrightarrow> es = [(Rm p, ROk)]"
  "runs (unlink_file p) es (Inr u) \<longleftrightarrow> es = [(Unlink p, ROk)]"
  "runs (file_mode p) es (Inr s) \<longleftrightarrow> es = [(Mode p, RText s)]"
  "runs (change_mode p m) es (Inr u) \<longleftrightarrow> es = [(Chmod p m, ROk)]"
  "runs (rename_file p q) es (Inr u) \<longleftrightarrow> es = [(Rename p q, ROk)]"
  by (auto simp: read_file_def write_file_def make_dir_def remove_def unlink_file_def file_mode_def change_mode_def rename_file_def)

text \<open>Runs that fail.\<close>

lemma git_env_failed: "runs (git_env env dir args) es (Inl e) \<Longrightarrow>
    \<exists>r. es = [(Spawn ''git'' args dir env, r)] \<and> (\<forall>t u. r \<noteq> RProc (Some 0) t u)"
  unfolding git_env_def runs_bindI spawn_def runs_Op_iff
  by (elim disjE exE conjE) (rename_tac r es', case_tac r, auto split: if_splits)+

lemma output_event: "runs (output_of cmd args dir allow) es out \<Longrightarrow> \<exists>r. es = [(Spawn cmd args dir [], r)]"
  unfolding output_of_def spawn_def runs_bindI runs_Op_iff
  by (elim disjE exE conjE) (rename_tac r es', case_tac r, auto split: if_splits)+

lemma runs_catch_failed:
  assumes "runs (catchI m g) es (Inl e)"
  obtains es1 es2 e' where "es = es1 @ es2" "runs m es1 (Inl e')" "runs (g e') es2 (Inl e)"
  using runs_catchID [OF assms] by auto

lemma runs_bind_first:
  assumes "runs (bindI m f) es out"
  obtains es1 es2 out1 where "es = es1 @ es2" "runs m es1 out1"
  using assms unfolding runs_bindI by (elim disjE exE conjE) (use that [of es "[]"] in auto)

text \<open>A command that succeeded, and what it printed.\<close>

definition ran :: "op \<Rightarrow> event list \<Rightarrow> bool" where
  "ran p es \<longleftrightarrow> (\<exists>t u. (p, RProc (Some 0) t u) \<in> set es)"

definition answered :: "op \<Rightarrow> string \<Rightarrow> event list \<Rightarrow> bool" where
  "answered p out es \<longleftrightarrow> (\<exists>t u. (p, RProc (Some 0) t u) \<in> set es \<and> js_trim t = out)"

lemma ran_simps [simp]: "\<not> ran p []" "ran p (e # es) \<longleftrightarrow> (\<exists>t u. e = (p, RProc (Some 0) t u)) \<or> ran p es"
  "ran p (xs @ ys) \<longleftrightarrow> ran p xs \<or> ran p ys"
  by (auto simp: ran_def)

lemma answered_simps [simp]: "\<not> answered p x []"
  "answered p x (e # es) \<longleftrightarrow> (\<exists>t u. e = (p, RProc (Some 0) t u) \<and> js_trim t = x) \<or> answered p x es"
  "answered p x (xs @ ys) \<longleftrightarrow> answered p x xs \<or> answered p x ys"
  by (auto simp: answered_def)

section \<open>The interface\<close>

text \<open>\<open>entry\<close> runs before the lock is taken, \<open>first\<close> between the acquisition and the \<open>try\<close>, and
  \<open>body\<close> is the \<open>try\<close> block.\<close>

definition transaction :: "host \<Rightarrow> string \<Rightarrow> bool \<Rightarrow> 'a io \<Rightarrow> ('a \<Rightarrow> 'b io) \<Rightarrow> ('a \<Rightarrow> 'b \<Rightarrow> 'c io) \<Rightarrow> 'c io" where
  "transaction h rootdir requireClean entry first body =
     bindI entry (\<lambda>a. bindI (acquireWorkRepoLock h rootdir requireClean True) (\<lambda>lock.
     bindI (first a) (\<lambda>b. finallyI (body a b) (release lock))))"

text \<open>A transaction without an entry: the acquisition failed, or the body ran between it and the release.\<close>

lemma plain_transaction_cases:
  assumes "runs (transaction h rootdir c (Ret ()) (\<lambda>_. Ret ()) (\<lambda>_ _. body)) es out"
  obtains (refused) e where "runs (acquireWorkRepoLock h rootdir c True) es (Inl e)" "out = Inl e"
  | (locked) pre lock mid rel out1 where "runs (acquireWorkRepoLock h rootdir c True) pre (Inr lock)" "runs body mid out1"
      "es = pre @ mid @ [(Rm lock, rel)]" "out = out1 \<or> (\<exists>e. out = Inl e \<and> rel \<noteq> ROk)"
proof -
  from assms consider (f) e where "runs (acquireWorkRepoLock h rootdir c True) es (Inl e)" "out = Inl e"
    | (go) pre lock e2 where "es = pre @ e2" "runs (acquireWorkRepoLock h rootdir c True) pre (Inr lock)"
        "runs (finallyI body (release lock)) e2 out"
    unfolding transaction_def bindI.simps runs_bindI by blast
  then show ?thesis
  proof cases
    case go
    from runs_finallyID [OF go(3)] obtain mid e3 out1 out2 where m: "e2 = mid @ e3" "runs body mid out1"
      "runs (release lock) e3 out2" "out = (case out2 of Inl e \<Rightarrow> Inl e | Inr _ \<Rightarrow> out1)" by blast
    from m(3) obtain rel es' where r: "e3 = (Rm lock, rel) # es'" "runs (unit_response rel) es' out2"
      unfolding release_def remove_def runs_Op_iff by blast
    then have "es' = []" "(\<exists>e. out2 = Inl e) \<longrightarrow> rel \<noteq> ROk" by (cases rel; simp add: unit_response_def)+
    then show ?thesis using locked [OF go(2) m(2), of rel] go(1) m(1,4) r(1) by (auto split: sum.splits)
  qed (rule refused)
qed

text \<open>The acquisition starts no process but git.\<close>

definition git_only :: "op \<Rightarrow> bool" where
  "git_only p = (case p of Spawn cmd args dir env \<Rightarrow> cmd = ''git'' | _ \<Rightarrow> True)"

lemma git_only_simps [simp]: "git_only (Spawn cmd args dir env) \<longleftrightarrow> cmd = ''git''" "git_only (Mkdir a b)" "git_only (Rm a)"
  "git_only (ReadFile a)" "git_only (Probe v)" "git_only (WriteFile a t)" "git_only (Exists a)"
  by (simp_all add: git_only_def)

lemma reads_git_only: "reads p \<Longrightarrow> git_only p"
  by (cases p) (auto simp: git_only_def)

lemma only_git_acquire: "only git_only (acquireWorkRepoLock h rootdir c m)"
proof -
  have p: "only git_only (probe_owner d owner)" for d owner
    unfolding probe_owner_def takeover_def by (intro only_rules only_Op only_files git_only_simps)
  have r: "only git_only (read_owner h d)" for d
    unfolding read_owner_def by (intro only_rules only_files git_only_simps)
  have k: "only git_only (createLock h d)" for d
    unfolding createLock_def by (intro only_rules only_Op only_text git_only_simps p r)
  have "only git_only (holding h rootdir d c m)" for d
    unfolding holding_def lock_body_def by (intro only_rules only_files only_git git_only_simps(2-)) simp_all
  then have "only git_only (acquire_at h rootdir d c m)" for d
    unfolding acquire_at_def by (intro only_rules only_files k git_only_simps)
  then show ?thesis
    unfolding acquireWorkRepoLock_def by (intro only_rules only_mono [OF only_reads_lock_dir reads_git_only])
qed

locale locked_transaction =
  fixes h :: host and rootdir :: string and requireClean :: bool
    and entry :: "'a io" and first :: "'a \<Rightarrow> 'b io" and body :: "'a \<Rightarrow> 'b \<Rightarrow> 'c io"
  assumes entry_quiet: "only (\<lambda>p. \<not> git_write p) entry"
    and first_reads: "only reads (first a)"
    and body_keeps_lock: "only lock_kept (body a b)"
begin

text \<open>A run fails before its \<open>try\<close> block, without a write, or is a run of that block between an
  acquisition and a release.\<close>

lemma transaction_cases:
  assumes "runs (transaction h rootdir requireClean entry first body) es out"
  obtains (early) "\<forall>e \<in> set es. \<not> git_write (fst e)" "\<exists>e. out = Inl e"
  | (whole) pre e0 a b lock mid rel out1 where "es = pre @ mid @ [(Rm lock, rel)]"
      and "\<forall>e \<in> set pre. \<not> git_write (fst e)" and "held lock pre"
      and "runs entry e0 (Inr a)" and "prefix e0 pre" and "\<exists>e1. runs (first a) e1 (Inr b) \<and> suffix e1 pre"
      and "runs (body a b) mid out1" and "out = out1 \<or> (\<exists>e. out = Inl e \<and> rel \<noteq> ROk)"
proof -
  have nw: "\<forall>e \<in> set es. \<not> git_write (fst e)" if "only (\<lambda>p. \<not> git_write p) m" "runs m es x" for es x and m :: "'d io"
    using only_runs [OF that] by blast
  note q = nw [OF entry_quiet] nw [OF only_no_write_acquire] reads_no_writes [OF first_reads]
  from assms consider (f1) e where "runs entry es (Inl e)" "out = Inl e"
    | (go1) e0 a e1 where "es = e0 @ e1" "runs entry e0 (Inr a)"
       "runs (bindI (acquireWorkRepoLock h rootdir requireClean True) (\<lambda>lock.
          bindI (first a) (\<lambda>b. finallyI (body a b) (release lock)))) e1 out"
    unfolding transaction_def runs_bindI [of entry] by blast
  then show ?thesis
  proof cases
    case f1
    then show ?thesis using q(1) early by blast
  next
    case go1
    then consider (f2) e where "runs (acquireWorkRepoLock h rootdir requireClean True) e1 (Inl e)" "out = Inl e"
      | (go2) e2 lock e3 where "e1 = e2 @ e3" "runs (acquireWorkRepoLock h rootdir requireClean True) e2 (Inr lock)"
          "runs (bindI (first a) (\<lambda>b. finallyI (body a b) (release lock))) e3 out"
      unfolding runs_bindI [of "acquireWorkRepoLock _ _ _ _"] by blast
    then show ?thesis
    proof cases
      case f2
      then show ?thesis using go1(1) q(1) [OF go1(2)] q(2) [OF f2(1)] by (intro early) auto
    next
      case go2
      then consider (f3) e where "runs (first a) e3 (Inl e)" "out = Inl e"
        | (go3) e4 b e5 where "e3 = e4 @ e5" "runs (first a) e4 (Inr b)" "runs (finallyI (body a b) (release lock)) e5 out"
        unfolding runs_bindI [of "first a"] by blast
      then show ?thesis
      proof cases
        case f3
        then show ?thesis using go1(1) go2(1) q(1) [OF go1(2)] q(2) [OF go2(2)] q(3) [OF f3(1)] by (intro early) auto
      next
        case go3
        from runs_finallyID [OF go3(3)] obtain mid e6 out1 out2 where m: "e5 = mid @ e6"
          "runs (body a b) mid out1" "runs (release lock) e6 out2"
          "out = (case out2 of Inl e \<Rightarrow> Inl e | Inr _ \<Rightarrow> out1)" by blast
        have unit: "runs (unit_response r) es out2 \<Longrightarrow> es = []" for r es
          by (cases r) (simp_all add: unit_response_def)
        obtain rel where rel: "e6 = [(Rm lock, rel)]" "runs (unit_response rel) [] out2"
          using m(3) unit unfolding release_def remove_def runs_Op_iff by blast
        have o: "out = out1 \<or> (\<exists>e. out = Inl e \<and> rel \<noteq> ROk)"
          using rel(2) m(4) by (cases rel) (auto simp: unit_response_def)
        have "held lock (e0 @ e2)"
          using acquire_wlp [of h rootdir requireClean True e0] go2(2) unfolding wlp_runs by blast
        moreover have "\<forall>e \<in> set e4. lock_free (fst e)"
          using only_runs [OF first_reads go3(2)] reads_lock_free by blast
        ultimately have h: "held lock (e0 @ e2 @ e4)" by (simp add: held_append_free)
        have quiet: "\<forall>e \<in> set (e0 @ e2 @ e4). \<not> git_write (fst e)"
          using q(1) [OF go1(2)] q(2) [OF go2(2)] q(3) [OF go3(2)] by auto
        have es: "es = (e0 @ e2 @ e4) @ mid @ [(Rm lock, rel)]"
          using go1(1) go2(1) go3(1) m(1) rel(1) by simp
        have "prefix e0 (e0 @ e2 @ e4)" "suffix e4 (e0 @ e2 @ e4)" by (simp_all add: suffix_def)
        then show ?thesis using whole [OF es quiet h go1(2) _ _ m(2) o] go3(2) by blast
      qed
    qed
  qed
qed

lemma transaction_guarded:
  assumes "runs (transaction h rootdir requireClean entry first body) es out" and "\<exists>e \<in> set es. git_write (fst e)"
  shows "\<exists>lock r. guarded lock False es \<and> last es = (Rm lock, r)"
  using assms(1)
proof (cases rule: transaction_cases)
  case early
  then show ?thesis using assms(2) by blast
next
  case (whole pre e0 a b lock mid rel out1)
  have free: "\<forall>e \<in> set mid. lock_kept (fst e)"
    using only_runs [OF body_keeps_lock whole(7)] by blast
  have held: "fold (lock_event lock) pre False" using whole(3) by (simp add: held_def)
  have "guarded lock False (pre @ mid @ [(Rm lock, rel)])"
    unfolding guarded_append using guarded_no_writes [OF whole(2)] guarded_held [OF free] held
    by (simp add: git_write_def)
  then show ?thesis using whole(1) by auto
qed

text \<open>The outcome is the block's, unless the release fails.\<close>

lemma transaction_result:
  assumes "runs (transaction h rootdir requireClean entry first body) es (Inr x)"
  obtains pre e0 a b lock mid rel where "es = pre @ mid @ [(Rm lock, rel)]" and "held lock pre"
    and "\<forall>e \<in> set pre. \<not> git_write (fst e)" and "runs entry e0 (Inr a)" and "prefix e0 pre"
    and "\<exists>e1. runs (first a) e1 (Inr b) \<and> suffix e1 pre" and "runs (body a b) mid (Inr x)"
  using assms
proof (cases rule: transaction_cases)
  case (whole pre e0 a b lock mid rel out1)
  then show ?thesis using that [of pre mid lock rel] by auto
qed auto

end

end
