(* ===== verification/Wiki_Index.thy ===== *)
theory Wiki_Index
  imports Transaction
begin

text \<open>
  The Wiki index (scripts/task/wiki-index.mjs): the Markdown files below a directory, the links of
  a page, the index built from the pages, and the command that refreshes and commits it.  The
  recursion over directories ends where the process's call stack does: \<open>markdownFiles\<close> counts its
  depth down from \<open>h_stack\<close> and throws \<open>RangeError\<close> at zero, as the engine does.
\<close>

section \<open>Markdown files\<close>

definition stack_error :: js_error where
  "stack_error = Err ''RangeError'' []"

primrec markdownFiles :: "nat \<Rightarrow> string \<Rightarrow> string list io" where
  "markdownFiles 0 = (\<lambda>directory. Throw stack_error)"
| "markdownFiles (Suc n) = (\<lambda>directory.
     bindI (exists_path directory) (\<lambda>e.
     if \<not> e then Ret []
     else bindI (read_dir directory) (\<lambda>entries.
       bindI (map_I (\<lambda>(name, kind). let target = path_join directory name in
           if kind = DirEntry then markdownFiles n target
           else Ret (if kind = FileEntry \<and> ends_with name ''.md'' then [target] else [])) entries)
         (\<lambda>files. Ret (concat files)))))"

section \<open>Links\<close>

text \<open>\<open>/\[[^\]]+\]\(([^)]+)\)/g\<close>: at a bracket, the text up to the next closing bracket, then a
  parenthesis and the text up to the next closing one; both texts are non-empty.\<close>

definition link_at :: "string \<Rightarrow> (string \<times> string) option" where
  "link_at s = (let r = dropWhile (\<lambda>c. c \<noteq> CHR '']'') (tl s);
       u = tl (tl r); rest = dropWhile (\<lambda>c. c \<noteq> CHR '')'') u; target = takeWhile (\<lambda>c. c \<noteq> CHR '')'') u in
     if starts_with s ''['' \<and> takeWhile (\<lambda>c. c \<noteq> CHR '']'') (tl s) \<noteq> [] \<and> starts_with r ''](''
       \<and> target \<noteq> [] \<and> rest \<noteq> []
     then Some (target, tl rest) else None)"

lemma link_at_shorter: "link_at s = Some (t, r) \<Longrightarrow> length r < length s"
proof -
  assume "link_at s = Some (t, r)"
  then have s: "s \<noteq> []" and r: "r = tl (dropWhile (\<lambda>c. c \<noteq> CHR '')'') (tl (tl (dropWhile (\<lambda>c. c \<noteq> CHR '']'') (tl s)))))"
    by (auto simp: link_at_def Let_def split: if_splits)
  have "length (dropWhile P xs) \<le> length xs" for P and xs :: string
    by (rule length_dropWhile_le)
  note d = this
  have "length r \<le> length (tl s)"
    unfolding r using d [of _ "tl s"] d by (metis diff_le_self length_tl order_trans)
  then show ?thesis using s by (cases s) auto
qed

function links_in :: "string \<Rightarrow> string list" where
  "links_in [] = []"
| "links_in (c # s) = (case link_at (c # s) of
       Some (target, rest) \<Rightarrow> target # links_in rest
     | None \<Rightarrow> links_in s)"
  by pat_completeness auto
termination by (relation "measure length") (auto dest: link_at_shorter)

section \<open>The index\<close>

definition index_page :: "host \<Rightarrow> string \<Rightarrow> string \<Rightarrow> jsval io" where
  "index_page h rootdir file =
     bindI (read_frontmatter h file) (\<lambda>metadata.
     bindI (read_file file) (\<lambda>content.
     bindI (liftI (js_get metadata ''kind'')) (\<lambda>kind.
     Ret (JObj [(''path'', JStr (path_relative rootdir file)), (''kind'', kind),
       (''title'', js_field metadata ''title''), (''decision_id'', js_field metadata ''decision_id''),
       (''status'', js_field metadata ''status''), (''links'', JArr (map JStr (links_in content)))]))))"

definition wiki_files :: "host \<Rightarrow> string \<Rightarrow> string list io" where
  "wiki_files h rootdir = (let wikiRoot = path_join rootdir ''wiki'' in
     bindI (markdownFiles (h_stack h) (path_join wikiRoot ''semantic'')) (\<lambda>a.
     bindI (markdownFiles (h_stack h) (path_join wikiRoot ''decisions'')) (\<lambda>b.
     Ret (sort (a @ b)))))"

definition buildWikiIndex :: "host \<Rightarrow> string \<Rightarrow> jsval io" where
  "buildWikiIndex h rootdir =
     bindI (wiki_files h rootdir) (\<lambda>files.
     bindI (map_I (index_page h rootdir) files) (\<lambda>pages.
     Ret (JObj [(''version'', JNum 1), (''pages'', JArr pages)])))"

definition write_index :: "host \<Rightarrow> string \<Rightarrow> unit io" where
  "write_index h rootdir =
     bindI (buildWikiIndex h rootdir) (\<lambda>index.
     writeFileAtomic h (path_join rootdir ''wiki/index.json'') (h_json_pretty h index @ [newline]))"

text \<open>The command.\<close>

definition refresh_wiki_index :: "host \<Rightarrow> string \<Rightarrow> unit io" where
  "refresh_wiki_index h rootdir =
     bindI (write_index h rootdir) (\<lambda>_.
     bindI (git rootdir [''status'', ''--porcelain'', ''wiki/index.json'']) (\<lambda>st.
     if st = [] then Ret ()
     else bindI (git rootdir [''add'', ''wiki/index.json'']) (\<lambda>_.
       bindI (git rootdir [''commit'', ''-m'', ''wiki: refresh index'']) (\<lambda>_. Ret ()))))"

definition wiki_index_main :: "host \<Rightarrow> string \<Rightarrow> unit io" where
  "wiki_index_main h rootdir = transaction h rootdir True (Ret ()) (\<lambda>_. Ret ()) (\<lambda>_ _. refresh_wiki_index h rootdir)"

section \<open>Facts\<close>

text \<open>Building the index only reads.\<close>

lemma only_reads_markdownFiles: "only reads (markdownFiles n directory)"
proof (induction n arbitrary: directory)
  case (Suc n)
  show ?case
    unfolding markdownFiles.simps Let_def by (intro only_rules only_files Suc) (auto split: prod.splits intro: Suc)
qed simp

lemma only_reads_buildWikiIndex: "only reads (buildWikiIndex h rootdir)"
proof -
  have "only reads (index_page h rootdir f)" for f
    unfolding index_page_def by (intro only_rules only_files only_read_yaml) simp_all
  then show ?thesis
    unfolding buildWikiIndex_def wiki_files_def Let_def by (intro only_rules only_reads_markdownFiles)
qed

lemma only_write_index:
  assumes "\<And>p. reads p \<Longrightarrow> P p"
    and "\<And>text. P (WriteFile (path_join rootdir ''wiki/index.json'' @ ''.'' @ nat_string (h_pid h) @ ''.tmp'') text)"
    and "P (Rename (path_join rootdir ''wiki/index.json'' @ ''.'' @ nat_string (h_pid h) @ ''.tmp'') (path_join rootdir ''wiki/index.json''))"
  shows "only P (write_index h rootdir)"
  unfolding write_index_def writeFileAtomic_def Let_def
  by (intro only_rules only_files only_mono [OF only_reads_buildWikiIndex assms(1)] assms(2,3))

interpretation wiki_index: locked_transaction h rootdir True "Ret ()" "\<lambda>_. Ret ()" "\<lambda>_ _. refresh_wiki_index h rootdir"
  for h rootdir
proof unfold_locales
  show "only lock_kept (refresh_wiki_index h rootdir)" for a b :: unit
    unfolding refresh_wiki_index_def by (intro only_rules only_git only_write_index) (auto intro: reads_lock_kept)
qed simp_all

end
