(* ===== verification/Evidence.thy ===== *)
theory Evidence
  imports Wiki_Index
begin

text \<open>
  \<open>evidenceCommit\<close> of scripts/task/unified-lifecycle.mjs and what it calls: the transaction that
  commits evidence files on the main branch and publishes them.  The flags that its \<open>catch\<close>
  reads (\<open>commitCreated\<close>, \<open>pushed\<close>, the planning branch) are the stage the body has reached:
  everything before the commit, and everything after it.
\<close>

section \<open>Task context\<close>

definition taskContext :: "host \<Rightarrow> string \<Rightarrow> jsval \<Rightarrow> (jsval \<times> jsval \<times> jsval) io" where
  "taskContext h rootdir taskId =
     bindI (liftI (assertTaskId taskId)) (\<lambda>_.
     bindI (read_yaml h (path_join rootdir ''backlog.yaml'')) (\<lambda>backlog.
     bindI (liftI (taskById backlog taskId)) (\<lambda>task.
     Ret (backlog, task, js_field task ''task_dir''))))"

definition bootstrap_manifest :: string where
  "bootstrap_manifest = ''tasks/TASK-0033-unify-work-repository/BOOTSTRAP_MANIFEST.json''"

definition allowedFor :: "host \<Rightarrow> string \<Rightarrow> string \<Rightarrow> jsval \<Rightarrow> string list io" where
  "allowedFor h rootdir action taskId =
     (if action = ''bootstrap'' then
        (if taskId \<noteq> JStr ''TASK-0033'' then Throw (Err ''bootstrap evidence action requires TASK-0033 and its validated manifest'' [])
         else bindI (exists_path (path_join rootdir bootstrap_manifest)) (\<lambda>e.
           if \<not> e then Throw (Err ''bootstrap evidence action requires TASK-0033 and its validated manifest'' [])
           else Ret BOOTSTRAP_RULES))
      else if action = ''task-start-rollback'' then Ret (rollback_rules (js_string taskId))
      else if action = ''wiki'' then Ret WIKI_RULES
      else bindI (taskContext h rootdir taskId) (\<lambda>(backlog, task, taskDir).
        liftI (task_action_rules action (js_string taskDir))))"

text \<open>\<open>path.join(root, taskDir, file)\<close>, which throws when \<open>taskDir\<close> is no string.\<close>

definition task_file :: "string \<Rightarrow> jsval \<Rightarrow> string \<Rightarrow> string io" where
  "task_file rootdir taskDir file = (case taskDir of
     JStr d \<Rightarrow> Ret (path_join rootdir (d @ ''/'' @ file))
   | _ \<Rightarrow> Throw type_error)"

definition task_frontmatter :: "host \<Rightarrow> string \<Rightarrow> jsval \<Rightarrow> string \<Rightarrow> jsval io" where
  "task_frontmatter h rootdir taskDir file = bindI (task_file rootdir taskDir file) (read_frontmatter h)"

section \<open>Planning gate\<close>

definition assigned :: "jsval \<Rightarrow> string \<Rightarrow> jsval" where
  "assigned task role = js_opt (js_field task ''assignees'') role"

definition planning_documents_ok :: "jsval \<Rightarrow> jsval \<Rightarrow> jsval \<Rightarrow> jsval \<Rightarrow> jsval \<Rightarrow> unit res" where
  "planning_documents_ok task taskId plan qaPlan taskFile =
     bindR (js_get plan ''task_id'') (\<lambda>planId.
     bindR (if \<not> js_seq planId taskId then Inr JUndef else js_get qaPlan ''task_id'') (\<lambda>qaId.
     bindR (if \<not> js_seq planId taskId \<or> \<not> js_seq qaId taskId then Inr JUndef else js_get taskFile ''task_id'') (\<lambda>fileId.
     bindR (throw_if (\<not> js_seq planId taskId \<or> \<not> js_seq qaId taskId \<or> \<not> js_seq fileId taskId)
       (Err ''planning-gate task identity mismatch'' [])) (\<lambda>_.
     bindR (throw_if (js_field plan ''status'' \<noteq> JStr ''approved''
         \<or> \<not> js_seq (js_field plan ''approved_by'') (assigned task ''main'')
         \<or> \<not> js_seq (js_field plan ''planner_agent'') (assigned task ''planner''))
       (Err ''planning-gate PLAN approval or role mismatch'' [])) (\<lambda>_.
     bindR (throw_if (js_field qaPlan ''status'' \<noteq> JStr ''approved''
         \<or> \<not> js_seq (js_field qaPlan ''approved_by'') (assigned task ''main'')
         \<or> \<not> js_seq (js_field qaPlan ''qa_agent'') (assigned task ''qa''))
       (Err ''planning-gate QA PLAN approval or role mismatch'' [])) (\<lambda>_.
     bindR (validateDevSelection plan) (\<lambda>_.
     throw_if (js_field task ''status'' \<notin> {JStr ''dev'', JStr ''plan''})
       (Err ''planning-gate backlog status is invalid'' []))))))))"

definition validatePlanningState :: "host \<Rightarrow> string \<Rightarrow> jsval \<Rightarrow> string list \<Rightarrow> unit io" where
  "validatePlanningState h rootdir taskId changed =
     bindI (taskContext h rootdir taskId) (\<lambda>(backlog, task, taskDir).
     let d = js_string taskDir;
         planning = [''backlog.yaml'', in_task d ''TASK.md'', in_task d ''PLAN.md'', in_task d ''QA_PLAN.md''] in
     bindI (throw_ifI (\<not> list_ex (\<lambda>f. f \<in> set planning) changed)
       (Err ''planning-gate requires a non-empty planning subset'' [])) (\<lambda>_.
     bindI (map_I (\<lambda>f. bindI (allowedFor h rootdir ''planning-gate'' taskId) (\<lambda>rules. Ret (matches f rules))) changed) (\<lambda>inside.
     bindI (throw_ifI (\<not> list_all id inside)
       (Err ''planning-gate scope violation'' (map (JStr \<circ> fst) (filter (\<lambda>(f, b). \<not> b) (zip changed inside))))) (\<lambda>_.
     bindI (task_frontmatter h rootdir taskDir ''PLAN.md'') (\<lambda>plan.
     bindI (task_frontmatter h rootdir taskDir ''QA_PLAN.md'') (\<lambda>qaPlan.
     bindI (task_frontmatter h rootdir taskDir ''TASK.md'') (\<lambda>taskFile.
       liftI (planning_documents_ok task taskId plan qaPlan taskFile))))))))"

text \<open>The Task's worktree, which must be there, on the Task's branch and clean; the messages of
  the two callers differ.\<close>

definition task_worktree :: "string \<Rightarrow> jsval \<Rightarrow> jsval \<Rightarrow> string io" where
  "task_worktree rootdir task taskId =
     bindI (liftI (resolveInside rootdir (js_field task ''worktree'') (js_string taskId @ '' worktree''))) (\<lambda>worktree.
     bindI (exists_path worktree) (\<lambda>e.
     bindI (if \<not> e then Ret None else bindI (git worktree [''branch'', ''--show-current'']) (\<lambda>b. Ret (Some b))) (\<lambda>b.
     bindI (throw_ifI (map_option JStr b \<noteq> Some (js_field task ''branch''))
       (Err ''planning-gate requires the recorded Task worktree'' [])) (\<lambda>_.
     Ret worktree))))"

definition fastForwardPlanningWorktree :: "host \<Rightarrow> string \<Rightarrow> jsval \<Rightarrow> string \<Rightarrow> unit io" where
  "fastForwardPlanningWorktree h rootdir taskId commit =
     bindI (taskContext h rootdir taskId) (\<lambda>(backlog, task, taskDir).
     bindI (task_worktree rootdir task taskId) (\<lambda>worktree.
     bindI (git worktree [''status'', ''--porcelain'']) (\<lambda>st.
     bindI (throw_ifI (st \<noteq> []) (Err ''planning worktree must be clean before fast-forward'' [])) (\<lambda>_.
     bindI (git worktree [''merge'', ''--ff-only'', commit]) (\<lambda>_.
     bindI (git worktree [''rev-parse'', ''HEAD'']) (\<lambda>hd'.
     throw_ifI (hd' \<noteq> commit) (Err ''planning worktree did not fast-forward'' []))))))) "

section \<open>Main worktree and validators\<close>

definition assertMain :: "string \<Rightarrow> unit io" where
  "assertMain rootdir =
     bindI (git rootdir [''branch'', ''--show-current'']) (\<lambda>b.
     bindI (throw_ifI (b \<noteq> ''main'') (Err ''Evidence writes require the explicit main worktree'' [])) (\<lambda>_.
     bindI (find_main_worktree rootdir) (\<lambda>registered.
     bindI (real_path registered) (\<lambda>a.
     bindI (real_path rootdir) (\<lambda>b.
     throw_ifI (a \<noteq> b) (Err ''Explicit root is not the registered main worktree'' [JStr rootdir]))))))"

definition OPERATION_SCHEMAS :: "string list" where
  "OPERATION_SCHEMAS = [''backlog'', ''decision'', ''ingestion-receipt'', ''bootstrap-manifest'']"

definition PRE_MERGE_EVIDENCE_ACTIONS :: "string list" where
  "PRE_MERGE_EVIDENCE_ACTIONS = [''handover'', ''review'', ''qa-result'']"

text \<open>\<open>every\<close> stops at the first missing schema.\<close>

fun all_exist :: "string list \<Rightarrow> bool io" where
  "all_exist [] = Ret True"
| "all_exist (p # ps) = bindI (exists_path p) (\<lambda>e. if e then all_exist ps else Ret False)"

definition hasOperationSchemas :: "string \<Rightarrow> bool io" where
  "hasOperationSchemas rootdir =
     all_exist (map (\<lambda>name. path_join rootdir (''schemas/operations/'' @ name @ ''.schema.json'')) OPERATION_SCHEMAS)"

record validation =
  va_mode :: string
  va_validator :: string
  va_schema :: string

definition candidate_binding :: "host \<Rightarrow> string \<Rightarrow> jsval \<Rightarrow> string \<Rightarrow> validation io" where
  "candidate_binding h rootdir taskId candidateRoot =
     bindI (taskContext h rootdir taskId) (\<lambda>(backlog, task, taskDir).
     bindI (task_frontmatter h rootdir taskDir ''HANDOVER.md'') (\<lambda>handover.
     bindI (git candidateRoot [''rev-parse'', ''HEAD'']) (\<lambda>candidate.
     bindI (git candidateRoot [''branch'', ''--show-current'']) (\<lambda>b.
     bindI (throw_ifI (JStr b \<noteq> js_field task ''branch'') (Err ''validator must run from the recorded candidate branch'' [])) (\<lambda>_.
     bindI (git rootdir [''rev-parse'', js_string (js_field task ''branch'')]) (\<lambda>head.
     bindI (throw_ifI (head \<noteq> candidate) (Err ''validator candidate differs from the recorded branch head'' [])) (\<lambda>_.
     bindI (git candidateRoot [''status'', ''--porcelain'']) (\<lambda>st.
     bindI (throw_ifI (st \<noteq> []) (Err ''validator candidate worktree must be clean'' [])) (\<lambda>_.
     bindI (liftI (js_get handover ''candidate_commit'')) (\<lambda>bound.
     bindI (throw_ifI (\<not> hex_string 40 (str_or_empty bound) \<or> bound \<noteq> JStr candidate)
       (Err ''validator candidate is not bound by HANDOVER'' [coalesce bound (JStr ''missing''), JStr candidate])) (\<lambda>_.
     Ret \<lparr>va_mode = ''pre-merge-candidate'', va_validator = candidateRoot, va_schema = candidateRoot\<rparr>)))))))))))"

definition resolveOperationsValidation :: "host \<Rightarrow> string \<Rightarrow> string \<Rightarrow> jsval \<Rightarrow> string \<Rightarrow> validation io" where
  "resolveOperationsValidation h rootdir action taskId candidateRoot =
     bindI (hasOperationSchemas rootdir) (\<lambda>own.
       if own then Ret \<lparr>va_mode = ''main'', va_validator = rootdir, va_schema = rootdir\<rparr>
       else if action \<notin> set PRE_MERGE_EVIDENCE_ACTIONS
       then Throw (Err ''main operations schemas are unavailable for'' [JStr action])
       else bindI (hasOperationSchemas candidateRoot) (\<lambda>theirs.
         if \<not> theirs then Throw (Err ''candidate operations schemas are incomplete'' [])
         else candidate_binding h rootdir taskId candidateRoot))"

definition validator_args :: "string \<Rightarrow> validation \<Rightarrow> string list" where
  "validator_args rootdir va = [path_join (va_validator va) ''scripts/task/validate-work.mjs'',
     ''--work-root'', rootdir, ''--schema-root'', va_schema va]"

definition validateOperations :: "host \<Rightarrow> string \<Rightarrow> string \<Rightarrow> jsval \<Rightarrow> string \<Rightarrow> unit io" where
  "validateOperations h rootdir action taskId candidateRoot =
     bindI (resolveOperationsValidation h rootdir action taskId candidateRoot) (\<lambda>va.
     bindI (run_command (h_node h) (validator_args rootdir va) rootdir) (\<lambda>_. Ret ()))"

definition validateEvidenceAction :: "host \<Rightarrow> string \<Rightarrow> string \<Rightarrow> jsval \<Rightarrow> string \<Rightarrow> unit io" where
  "validateEvidenceAction h rootdir action taskId candidateRoot =
     (if action = ''bootstrap'' then
        bindI (run_command (h_node h) [path_join (h_repo_root h) ''scripts/task/migrate-operations.mjs'',
          ''--mode'', ''verify'', ''--target'', rootdir] rootdir) (\<lambda>_. Ret ())
      else validateOperations h rootdir action taskId candidateRoot)"

section \<open>The transaction\<close>

record ev_result =
  er_commit :: "string option"
  er_pushed :: bool
  er_changed :: "string list"
  er_retries :: "nat option"

text \<open>What the caller asks for.\<close>

record ev_request =
  rq_root :: string
  rq_action :: string
  rq_task :: jsval
  rq_message :: string
  rq_push :: bool
  rq_validate :: bool
  rq_candidate :: string

definition nothing_changed :: ev_result where
  "nothing_changed = \<lparr>er_commit = None, er_pushed = False, er_changed = [], er_retries = None\<rparr>"

fun suffix_error :: "string \<Rightarrow> jsval list \<Rightarrow> js_error \<Rightarrow> js_error" where
  "suffix_error t vs (Err m us) = Err (m @ t) (us @ vs)"

definition scope_gate :: "string \<Rightarrow> string list \<Rightarrow> string list \<Rightarrow> unit io" where
  "scope_gate label rules files = (let forbidden = outside lifecycle_covers rules files in
     throw_ifI (forbidden \<noteq> []) (Err label (map JStr forbidden)))"

text \<open>The planning worktree and the branch head before the transaction.\<close>

definition planning_start :: "host \<Rightarrow> ev_request \<Rightarrow> (string \<times> string) io" where
  "planning_start h q =
     bindI (taskContext h (rq_root q) (rq_task q)) (\<lambda>(backlog, task, taskDir).
     bindI (task_worktree (rq_root q) task (rq_task q)) (\<lambda>worktree.
     bindI (git (rq_root q) [''rev-parse'', js_string (js_field task ''branch'')]) (\<lambda>head.
     bindI (git worktree [''status'', ''--porcelain'']) (\<lambda>st.
     bindI (throw_ifI (st \<noteq> []) (Err ''planning worktree must be clean before planning-gate'' [])) (\<lambda>_.
     Ret (worktree, head))))))"

definition input_gate :: "host \<Rightarrow> ev_request \<Rightarrow> string list \<Rightarrow> string list \<Rightarrow> unit io" where
  "input_gate h q rules inputChanged =
     (if rq_action q = ''planning-gate'' then validatePlanningState h (rq_root q) (rq_task q) inputChanged
      else scope_gate ''Evidence scope violation'' rules inputChanged)"

record staging =
  sg_changed :: "string list"
  sg_planning :: "(string \<times> string) option"
  sg_digest :: "string option"

text \<open>The files to stage: a first listing passes the gate, a second one is taken after the Wiki
  index was refreshed; \<open>None\<close> when nothing changed.\<close>

definition gated_files :: "host \<Rightarrow> ev_request \<Rightarrow> string list \<Rightarrow> string list option io" where
  "gated_files h q rules =
     bindI (changedFiles (rq_root q)) (\<lambda>inputChanged.
     if inputChanged = [] then Ret None else
     bindI (input_gate h q rules inputChanged) (\<lambda>_.
     bindI (if rq_action q = ''wiki'' then write_index h (rq_root q) else Ret ()) (\<lambda>_.
     bindI (changedFiles (rq_root q)) (\<lambda>changed.
     if changed = [] then Ret None else
     bindI (if rq_action q = ''wiki'' then scope_gate ''Evidence scope violation after index generation'' rules changed
            else Ret ()) (\<lambda>_.
     Ret (Some changed))))))"

text \<open>Digest, planning worktree, validation, \<open>git add\<close>.\<close>

definition prepare :: "host \<Rightarrow> ev_request \<Rightarrow> string list \<Rightarrow> staging io" where
  "prepare h q changed =
     bindI (if rq_validate q then bindI (changedContentDigest h (rq_root q) False) (\<lambda>d. Ret (Some d)) else Ret None) (\<lambda>digest.
     bindI (if rq_action q = ''planning-gate'' then bindI (planning_start h q) (\<lambda>p. Ret (Some p)) else Ret None) (\<lambda>planning.
     bindI (if rq_validate q
            then validateOperations h (rq_root q) (if rq_action q = ''planning-gate'' then ''plan'' else rq_action q)
                   (rq_task q) (rq_candidate q)
            else Ret ()) (\<lambda>_.
     bindI (git (rq_root q) ([''add'', ''--''] @ changed)) (\<lambda>_.
     Ret \<lparr>sg_changed = changed, sg_planning = planning, sg_digest = digest\<rparr>))))"

definition stage :: "host \<Rightarrow> ev_request \<Rightarrow> string list \<Rightarrow> staging option io" where
  "stage h q rules = bindI (gated_files h q rules) (\<lambda>files. case files of
     None \<Rightarrow> Ret None
   | Some changed \<Rightarrow> bindI (prepare h q changed) (\<lambda>sg. Ret (Some sg)))"

definition commit_env :: "host \<Rightarrow> ev_request \<Rightarrow> string list \<Rightarrow> string option \<Rightarrow> (string \<times> string) list" where
  "commit_env h q rules digest =
     [(''WORK_REPO_LOCK_HELD'', ''1''), (''WORK_PARENT_COMMIT'', ''1''), (''WORK_ACTION'', rq_action q),
      (''WORK_ALLOWED_PATHS'', h_json_text h (JArr (map JStr rules)))]
     @ (case digest of Some d \<Rightarrow> if d \<noteq> [] then [(''WORK_VALIDATED_DIGEST'', d)] else [] | None \<Rightarrow> [])"

text \<open>Between two pushes: fetch, rebase, validate again.\<close>

definition push_round :: "host \<Rightarrow> ev_request \<Rightarrow> string io" where
  "push_round h q =
     bindI (git (rq_root q) [''fetch'', ''origin'', ''main'']) (\<lambda>_.
     bindI (output_of ''git'' [''rebase'', ''origin/main''] (rq_root q) True) (\<lambda>(rstatus, rout, rerr).
     if rstatus \<noteq> Some 0
     then bindI (output_of ''git'' [''rebase'', ''--abort''] (rq_root q) True) (\<lambda>_.
       Throw (Err ''Evidence rebase conflict; manual reconciliation required'' [JStr (failure_text rout rerr [])]))
     else
       bindI (if rq_validate q
              then validateEvidenceAction h (rq_root q) (rq_action q) (rq_task q) (rq_candidate q)
              else Ret ()) (\<lambda>_.
       git (rq_root q) [''rev-parse'', ''HEAD''])))"

text \<open>The publishing loop: \<open>retry\<close> runs from 0 to 2.\<close>

function push_loop :: "host \<Rightarrow> ev_request \<Rightarrow> string list \<Rightarrow> nat \<Rightarrow> string \<Rightarrow> ev_result io" where
  "push_loop h q changed retry commit =
     bindI (output_of ''git'' [''push'', ''origin'', ''HEAD:main''] (rq_root q) True) (\<lambda>(status, out, err).
     if status = Some 0
     then Ret \<lparr>er_commit = Some commit, er_pushed = True, er_changed = changed, er_retries = Some retry\<rparr>
     else if retry \<ge> 2
     then Throw (Err ''Evidence push retry limit reached'' [JStr (failure_text out err [])])
     else bindI (push_round h q) (\<lambda>commit'. push_loop h q changed (Suc retry) commit'))"
  by pat_completeness auto
termination by (relation "measure (\<lambda>(h, q, changed, retry, commit). 2 - retry)") auto

declare push_loop.simps [simp del]

definition publish :: "host \<Rightarrow> ev_request \<Rightarrow> staging \<Rightarrow> ev_result io" where
  "publish h q sg =
     bindI (git (rq_root q) [''rev-parse'', ''HEAD'']) (\<lambda>commit.
     bindI (if rq_action q = ''planning-gate'' then fastForwardPlanningWorktree h (rq_root q) (rq_task q) commit
            else Ret ()) (\<lambda>_.
     if \<not> rq_push q
     then Ret \<lparr>er_commit = Some commit, er_pushed = False, er_changed = sg_changed sg, er_retries = None\<rparr>
     else push_loop h q (sg_changed sg) 0 commit))"

text \<open>The rollback of a planning commit that was not published.\<close>

definition rollback_planning :: "ev_request \<Rightarrow> staging \<Rightarrow> string \<Rightarrow> unit io" where
  "rollback_planning q sg before =
     (if rq_action q \<noteq> ''planning-gate'' then Ret ()
      else bindI (git (rq_root q) [''rev-parse'', ''HEAD'']) (\<lambda>head.
        if head = before then Ret ()
        else bindI (case sg_planning sg of
               Some (worktree, branchBefore) \<Rightarrow>
                 if worktree \<noteq> [] \<and> branchBefore \<noteq> []
                 then bindI (output_of ''git'' [''reset'', ''--hard'', branchBefore] worktree True) (\<lambda>_. Ret ())
                 else Ret ()
             | None \<Rightarrow> Ret ()) (\<lambda>_.
             bindI (output_of ''git'' [''reset'', ''--mixed'', before] (rq_root q) True) (\<lambda>_. Ret ()))))"

definition transaction_error :: "string \<Rightarrow> js_error \<Rightarrow> js_error" where
  "transaction_error before e = suffix_error ''; transaction_start='' [JStr before] e"

definition evidence_body :: "host \<Rightarrow> ev_request \<Rightarrow> string list \<Rightarrow> string \<Rightarrow> ev_result io" where
  "evidence_body h q rules before =
     bindI (catchI (bindI (stage h q rules) (\<lambda>staged. case staged of
         None \<Rightarrow> Ret None
       | Some sg \<Rightarrow> bindI (git_env (commit_env h q rules (sg_digest sg)) (rq_root q) [''commit'', ''-m'', rq_message q])
           (\<lambda>_. Ret (Some sg))))
       (\<lambda>e. Throw (transaction_error before e))) (\<lambda>staged. case staged of
         None \<Rightarrow> Ret nothing_changed
       | Some sg \<Rightarrow> catchI (publish h q sg) (\<lambda>e.
           bindI (rollback_planning q sg before) (\<lambda>_. Throw (transaction_error before e))))"

definition evidenceCommit :: "host \<Rightarrow> ev_request \<Rightarrow> ev_result io" where
  "evidenceCommit h q =
     bindI (assertMain (rq_root q)) (\<lambda>_.
     bindI (allowedFor h (rq_root q) (rq_action q) (rq_task q)) (\<lambda>rules.
     bindI (acquireWorkRepoLock h (rq_root q) False True) (\<lambda>lock.
     bindI (git (rq_root q) [''rev-parse'', ''HEAD'']) (\<lambda>before.
     finallyI (evidence_body h q rules before) (release lock)))))"

end
