(* ===== verification/Evidence_Props.thy ===== *)
theory Evidence_Props
  imports Evidence
begin

text \<open>
  What every run of \<open>evidenceCommit\<close> does, whatever git and the file system answer: the complete
  list of operations it can perform, the lock held around every write, the order of gate,
  validation, staging, commit and push, the bound on pushes, and the rollback of an unpublished
  planning commit.
\<close>

section \<open>Footprint\<close>

lemma only_reads_taskContext [only_intros]: "only reads (taskContext h rootdir taskId)"
  unfolding taskContext_def by (intro reads_rules) simp_all

lemma only_reads_allowedFor [only_intros]: "only reads (allowedFor h rootdir action taskId)"
  unfolding allowedFor_def by (intro reads_rules only_reads_taskContext) simp_all

lemma only_reads_task_frontmatter [only_intros]: "only reads (task_frontmatter h rootdir d f)"
  unfolding task_frontmatter_def task_file_def by (cases d) (simp_all, intro reads_rules, simp_all)

lemma only_reads_planning_state [only_intros]: "only reads (validatePlanningState h rootdir taskId changed)"
  unfolding validatePlanningState_def Let_def
  by (intro reads_rules only_reads_taskContext only_reads_allowedFor only_reads_task_frontmatter)

lemma only_reads_task_worktree [only_intros]: "only reads (task_worktree rootdir task taskId)"
  unfolding task_worktree_def by (intro reads_rules) simp_all

lemma only_reads_assertMain [only_intros]: "only reads (assertMain rootdir)"
  unfolding assertMain_def by (intro reads_rules) simp_all

lemma only_reads_all_exist: "only reads (all_exist ps)"
  by (induction ps) (auto intro!: reads_rules)

lemma only_reads_resolve [only_intros]: "only reads (resolveOperationsValidation h rootdir action taskId c)"
  unfolding resolveOperationsValidation_def hasOperationSchemas_def candidate_binding_def
  by (intro reads_rules only_reads_all_exist only_reads_taskContext only_reads_task_frontmatter) simp_all

lemma only_reads_planning_start [only_intros]: "only reads (planning_start h q)"
  unfolding planning_start_def by (intro reads_rules only_reads_taskContext only_reads_task_worktree) simp_all

lemma only_reads_input_gate [only_intros]: "only reads (input_gate h q rules files)"
  unfolding input_gate_def scope_gate_def Let_def by (auto intro!: only_reads_planning_state)

text \<open>The operations of the transaction that are not reads.\<close>

definition git_op :: "string list \<Rightarrow> string \<Rightarrow> op \<Rightarrow> bool" where
  "git_op args dir p \<longleftrightarrow> p = Spawn ''git'' args dir []"

definition validator_op :: "host \<Rightarrow> op \<Rightarrow> bool" where
  "validator_op h p \<longleftrightarrow> (\<exists>args dir. p = Spawn (h_node h) args dir [])"

definition index_op :: "host \<Rightarrow> ev_request \<Rightarrow> op \<Rightarrow> bool" where
  "index_op h q p \<longleftrightarrow> (let file = path_join (rq_root q) ''wiki/index.json'';
       temporary = file @ ''.'' @ nat_string (h_pid h) @ ''.tmp'' in
     (\<exists>t. p = WriteFile temporary t) \<or> p = Rename temporary file)"

definition add_op :: "ev_request \<Rightarrow> string list \<Rightarrow> op \<Rightarrow> bool" where
  "add_op q files p \<longleftrightarrow> git_op ([''add'', ''--''] @ files) (rq_root q) p"

definition commit_op :: "host \<Rightarrow> ev_request \<Rightarrow> string list \<Rightarrow> op \<Rightarrow> bool" where
  "commit_op h q rules p \<longleftrightarrow>
     (\<exists>digest. p = Spawn ''git'' [''commit'', ''-m'', rq_message q] (rq_root q) (commit_env h q rules digest))"

definition push_op :: "ev_request \<Rightarrow> op \<Rightarrow> bool" where
  "push_op q p \<longleftrightarrow> git_op [''push'', ''origin'', ''HEAD:main''] (rq_root q) p"

definition sync_op :: "ev_request \<Rightarrow> op \<Rightarrow> bool" where
  "sync_op q p \<longleftrightarrow> git_op [''fetch'', ''origin'', ''main''] (rq_root q) p
     \<or> git_op [''rebase'', ''origin/main''] (rq_root q) p \<or> git_op [''rebase'', ''--abort''] (rq_root q) p"

definition planning_op :: "ev_request \<Rightarrow> op \<Rightarrow> bool" where
  "planning_op q p \<longleftrightarrow> rq_action q = ''planning-gate'' \<and> (\<exists>c dir. git_op [''merge'', ''--ff-only'', c] dir p
     \<or> git_op [''reset'', ''--hard'', c] dir p \<or> git_op [''reset'', ''--mixed'', c] (rq_root q) p)"

lemmas ev_op_defs = git_op_def validator_op_def add_op_def commit_op_def push_op_def sync_op_def planning_op_def

lemma only_validateOperations:
  assumes "\<And>p. reads p \<Longrightarrow> P p" "\<And>p. validator_op h p \<Longrightarrow> P p"
  shows "only P (validateOperations h rootdir action taskId c)"
    and "only P (validateEvidenceAction h rootdir action taskId c)"
proof -
  have r: "only P (resolveOperationsValidation h rootdir action taskId c)"
    by (rule only_mono [OF only_reads_resolve assms(1)])
  have v: "only P (run_command (h_node h) args rootdir)" for args
    by (rule only_run) (simp add: assms(2) validator_op_def)
  show o: "only P (validateOperations h rootdir action taskId c)"
    unfolding validateOperations_def by (auto intro!: only_bindI r v)
  show "only P (validateEvidenceAction h rootdir action taskId c)"
    unfolding validateEvidenceAction_def by (auto intro!: only_bindI o v)
qed

lemma only_refresh_index:
  assumes "\<And>p. reads p \<Longrightarrow> P p" "\<And>p. index_op h q p \<Longrightarrow> P p"
  shows "only P (write_index h (rq_root q))"
  by (rule only_write_index; (erule assms(1) | rule assms(2), simp add: index_op_def Let_def))

lemma only_fast_forward:
  assumes "\<And>p. reads p \<Longrightarrow> P p" "\<And>c dir. P (Spawn ''git'' [''merge'', ''--ff-only'', c] dir [])"
  shows "only P (fastForwardPlanningWorktree h rootdir taskId commit)"
proof -
  have g: "P (Spawn ''git'' [''status'', ''--porcelain''] dir [])" "P (Spawn ''git'' [''rev-parse'', ''HEAD''] dir [])" for dir
    by (rule assms(1), simp)+
  show ?thesis
    unfolding fastForwardPlanningWorktree_def
    by (intro only_rules only_git only_mono [OF only_reads_taskContext assms(1)]
        only_mono [OF only_reads_task_worktree assms(1)] g assms(2))
qed

lemma only_push_round:
  assumes "\<And>p. reads p \<Longrightarrow> P p" and "\<And>p. validator_op h p \<Longrightarrow> P p" "\<And>p. sync_op q p \<Longrightarrow> P p"
  shows "only P (push_round h q)"
proof -
  have ops: "P (Spawn ''git'' [''fetch'', ''origin'', ''main''] (rq_root q) [])"
    "P (Spawn ''git'' [''rebase'', ''origin/main''] (rq_root q) [])"
    "P (Spawn ''git'' [''rebase'', ''--abort''] (rq_root q) [])"
    "P (Spawn ''git'' [''rev-parse'', ''HEAD''] (rq_root q) [])"
    using assms(1,3) by (simp_all add: sync_op_def git_op_def)
  show ?thesis
    unfolding push_round_def
    by (intro only_rules only_git only_output only_validateOperations(2) [OF assms(1,2)] ops)
qed

lemma only_push_loop:
  assumes "\<And>p. reads p \<Longrightarrow> P p" and "\<And>p. validator_op h p \<Longrightarrow> P p"
    and "\<And>p. push_op q p \<Longrightarrow> P p" "\<And>p. sync_op q p \<Longrightarrow> P p"
  shows "only P (push_loop h q changed retry commit)"
proof (induction "2 - retry" arbitrary: retry commit rule: less_induct)
  case less
  have o: "P (Spawn ''git'' [''push'', ''origin'', ''HEAD:main''] (rq_root q) [])"
    using assms(3) by (simp add: push_op_def git_op_def)
  have ih: "only P (push_loop h q changed (Suc retry) c)" if "\<not> 2 \<le> retry" for c
    using that by (intro less) simp
  show ?case
    by (subst push_loop.simps) (intro only_rules only_output only_push_round assms(1,2,4) o ih)
qed

text \<open>Everything \<open>evidence_body\<close> can do.\<close>

definition ev_op :: "host \<Rightarrow> ev_request \<Rightarrow> string list \<Rightarrow> op \<Rightarrow> bool" where
  "ev_op h q rules p \<longleftrightarrow> reads p \<or> validator_op h p \<or> (\<exists>files. add_op q files p) \<or> commit_op h q rules p
     \<or> push_op q p \<or> sync_op q p \<or> planning_op q p \<or> (rq_action q = ''wiki'' \<and> index_op h q p)"

lemma only_stage:
  assumes "\<And>p. reads p \<Longrightarrow> P p" and "\<And>p. validator_op h p \<Longrightarrow> P p" "\<And>files p. add_op q files p \<Longrightarrow> P p"
    and "\<And>p. rq_action q = ''wiki'' \<Longrightarrow> index_op h q p \<Longrightarrow> P p"
  shows "only P (stage h q rules)"
proof -
  note r = only_mono [OF _ assms(1)]
  have i: "only P (write_index h (rq_root q))" if "rq_action q = ''wiki''"
    using only_refresh_index assms(1) assms(4) [OF that] by blast
  have a: "P (Spawn ''git'' ([''add'', ''--''] @ files) (rq_root q) [])" for files
    by (rule assms(3)) (simp add: add_op_def git_op_def)
  have g: "only P (scope_gate l rules' files)" for l rules' files
    by (simp add: scope_gate_def Let_def)
  show ?thesis
    unfolding stage_def gated_files_def prepare_def
    by (intro only_rules r [OF only_reads_changedFiles] r [OF only_reads_input_gate] i g
      r [OF only_reads_digest] r [OF only_reads_planning_start] only_validateOperations(1) [OF assms(1,2)]
      only_git a)
qed

lemma only_publish:
  assumes "\<And>p. reads p \<Longrightarrow> P p" and "\<And>p. validator_op h p \<Longrightarrow> P p"
    and "rq_push q \<Longrightarrow> (\<And>p. push_op q p \<Longrightarrow> P p)" "rq_push q \<Longrightarrow> (\<And>p. sync_op q p \<Longrightarrow> P p)"
    and "\<And>p. planning_op q p \<Longrightarrow> P p"
  shows "only P (publish h q sg)"
proof -
  have f: "only P (fastForwardPlanningWorktree h (rq_root q) t c)" if "rq_action q = ''planning-gate''" for t c
    by (rule only_fast_forward [OF assms(1) assms(5)]) (auto simp: planning_op_def git_op_def that)
  have p: "only P (push_loop h q changed 0 c)" if "\<not> \<not> rq_push q" for changed c
    using only_push_loop assms(1,2) assms(3,4) that by blast
  have r: "P (Spawn ''git'' [''rev-parse'', ''HEAD''] (rq_root q) [])"
    by (rule assms(1)) simp
  show ?thesis
    unfolding publish_def by (intro only_rules only_git f p r)
qed

lemma only_rollback:
  assumes "\<And>p. reads p \<Longrightarrow> P p" and "\<And>p. planning_op q p \<Longrightarrow> P p"
  shows "only P (rollback_planning q sg before)"
proof -
  have r: "P (Spawn ''git'' [''rev-parse'', ''HEAD''] (rq_root q) [])"
    by (rule assms(1)) simp
  have "P (Spawn ''git'' [''reset'', ''--hard'', c] dir [])" "P (Spawn ''git'' [''reset'', ''--mixed'', c] (rq_root q) [])"
    if "\<not> rq_action q \<noteq> ''planning-gate''" for c dir
    using that by (auto intro!: assms(2) simp: planning_op_def git_op_def)
  then show ?thesis
    unfolding rollback_planning_def by (intro only_rules only_git only_output r)
qed

lemma only_evidence_body: "only (ev_op h q rules) (evidence_body h q rules before)"
proof -
  have s: "only (ev_op h q rules) (stage h q rules)"
    by (rule only_stage) (auto simp: ev_op_def)
  have p: "only (ev_op h q rules) (publish h q sg)" for sg
    by (rule only_publish) (auto simp: ev_op_def)
  have r: "only (ev_op h q rules) (rollback_planning q sg before)" for sg
    by (rule only_rollback) (auto simp: ev_op_def)
  have c: "ev_op h q rules (Spawn ''git'' [''commit'', ''-m'', rq_message q] (rq_root q) (commit_env h q rules d))" for d
    by (auto simp: ev_op_def commit_op_def)
  show ?thesis
    unfolding evidence_body_def by (intro only_rules only_git_env s p r c)
qed

section \<open>The lock is held around every write\<close>

lemma ev_op_lock_free: "ev_op h q rules p \<Longrightarrow> lock_free p"
  by (auto simp: ev_op_def ev_op_defs index_op_def Let_def reads_lock_free)

text \<open>What happens before the lock is acquired.\<close>

definition evidence_entry :: "host \<Rightarrow> ev_request \<Rightarrow> string list io" where
  "evidence_entry h q = bindI (assertMain (rq_root q)) (\<lambda>_. allowedFor h (rq_root q) (rq_action q) (rq_task q))"

lemma evidenceCommit_transaction:
  "evidenceCommit h q = transaction h (rq_root q) False (evidence_entry h q)
     (\<lambda>rules. git (rq_root q) [''rev-parse'', ''HEAD'']) (evidence_body h q)"
  by (simp add: evidenceCommit_def transaction_def evidence_entry_def bindI_assoc)

lemma evidence_entry_quiet: "only (\<lambda>p. \<not> git_write p) (evidence_entry h q)"
  unfolding evidence_entry_def
  by (intro only_rules only_mono [OF only_reads_assertMain reads_not_write] only_mono [OF only_reads_allowedFor reads_not_write])

interpretation evidence: locked_transaction h "rq_root q" False "evidence_entry h q"
  "\<lambda>rules. git (rq_root q) [''rev-parse'', ''HEAD'']" "evidence_body h q" for h q
  by unfold_locales
    (rule evidence_entry_quiet, rule only_git, simp, rule only_mono [OF only_evidence_body lock_free_kept [OF ev_op_lock_free]])

lemma evidence_entry_rules: "runs (evidence_entry h q) es (Inr rules) \<Longrightarrow>
     \<exists>es'. runs (allowedFor h (rq_root q) (rq_action q) (rq_task q)) es' (Inr rules)"
  unfolding evidence_entry_def runs_bindI by auto

text \<open>A run of \<open>evidenceCommit\<close> ends before the lock is held, or is a run of the body between
  the acquisition and the release.\<close>

lemma evidence_run_cases:
  assumes "runs (evidenceCommit h q) es out"
  obtains (no_body) "\<forall>e \<in> set es. \<not> git_write (fst e)" "\<exists>e. out = Inl e"
  | (body) pre rules lock before mid rel out1 where "es = pre @ mid @ [(Rm lock, rel)]"
      and "\<forall>e \<in> set pre. \<not> git_write (fst e)" and "held lock pre"
      and "\<exists>es'. runs (allowedFor h (rq_root q) (rq_action q) (rq_task q)) es' (Inr rules)"
      and "runs (evidence_body h q rules before) mid out1"
      and "out = out1 \<or> (\<exists>e. out = Inl e \<and> rel \<noteq> ROk)"
  using assms unfolding evidenceCommit_transaction
proof (cases rule: evidence.transaction_cases)
  case early
  then show ?thesis by (rule no_body)
next
  case (whole pre e0 a b lock mid rel out1)
  show ?thesis by (rule body [OF whole(1-3) evidence_entry_rules [OF whole(4)] whole(7,8)])
qed

lemma evidence_guarded:
  assumes "runs (evidenceCommit h q) es out" and "\<exists>e \<in> set es. git_write (fst e)"
  shows "\<exists>lock r. guarded lock False es \<and> last es = (Rm lock, r)"
  using assms unfolding evidenceCommit_transaction by (rule evidence.transaction_guarded)

section \<open>Pushes\<close>

definition pushes :: "ev_request \<Rightarrow> event list \<Rightarrow> nat" where
  "pushes q es = length (filter (\<lambda>e. push_op q (fst e)) es)"

lemma pushes_simps [simp]: "pushes q [] = 0" "pushes q (xs @ ys) = pushes q xs + pushes q ys"
  "pushes q (e # es) = (if push_op q (fst e) then 1 else 0) + pushes q es"
  by (simp_all add: pushes_def)

lemma pushes_0: "\<forall>e \<in> set es. \<not> push_op q (fst e) \<Longrightarrow> pushes q es = 0"
  by (induction es) simp_all

lemma only_no_push: "only (\<lambda>p. \<not> push_op q p) m \<Longrightarrow> runs m es out \<Longrightarrow> pushes q es = 0"
  using only_runs pushes_0 by blast

lemma no_push_reads: "reads p \<Longrightarrow> \<not> push_op q p"
  by (auto simp: push_op_def git_op_def git_reads_def GIT_READS_def)

lemma no_push_others:
  "h_node h \<noteq> ''git'' \<Longrightarrow> validator_op h p \<Longrightarrow> \<not> push_op q p"
  "add_op q files p \<Longrightarrow> \<not> push_op q p" "index_op h q p \<Longrightarrow> \<not> push_op q p"
  "planning_op q p \<Longrightarrow> \<not> push_op q p" "sync_op q p \<Longrightarrow> \<not> push_op q p"
  by (auto simp: ev_op_defs index_op_def Let_def)

lemma git_not_write_no_push: "\<not> git_write p \<Longrightarrow> \<not> push_op q p"
  by (auto simp: push_op_def git_op_def git_write_def git_reads_def GIT_READS_def)

lemma push_round_no_push: "h_node h \<noteq> ''git'' \<Longrightarrow> only (\<lambda>p. \<not> push_op q p) (push_round h q)"
  by (intro only_push_round no_push_reads no_push_others)

lemma push_event:
  "runs (output_of ''git'' [''push'', ''origin'', ''HEAD:main''] (rq_root q) True) es out \<Longrightarrow>
     \<exists>p r. es = [(p, r)] \<and> push_op q p \<and> (\<forall>s t u. out = Inr (s, t, u) \<longrightarrow> r = RProc s t u)"
proof -
  assume "runs (output_of ''git'' [''push'', ''origin'', ''HEAD:main''] (rq_root q) True) es out"
  then obtain r es' where "es = (Spawn ''git'' [''push'', ''origin'', ''HEAD:main''] (rq_root q) [], r) # es'"
    and "es' = [] \<and> (\<forall>s t u. out = Inr (s, t, u) \<longrightarrow> r = RProc s t u)"
    unfolding output_of_def spawn_def bindI.simps runs_Op_iff
    by (elim exE conjE) (rename_tac r es', case_tac r, auto)
  then show ?thesis by (auto simp: push_op_def git_op_def)
qed

lemma push_loop_cases:
  assumes "runs (push_loop h q changed retry commit) es out"
  obtains (pushed) p t u where "push_op q p" "es = [(p, RProc (Some 0) t u)]"
      "out = Inr \<lparr>er_commit = Some commit, er_pushed = True, er_changed = changed, er_retries = Some retry\<rparr>"
  | (stopped) p r e where "push_op q p" "es = [(p, r)]" "out = Inl e"
  | (failed) p r es1 e where "push_op q p" "retry < 2" "es = (p, r) # es1" "runs (push_round h q) es1 (Inl e)" "out = Inl e"
  | (again) p r es1 es2 c where "push_op q p" "retry < 2" "es = (p, r) # es1 @ es2" "runs (push_round h q) es1 (Inr c)"
      "runs (push_loop h q changed (Suc retry) c) es2 out"
proof -
  let ?push = "output_of ''git'' [''push'', ''origin'', ''HEAD:main''] (rq_root q) True"
  from assms consider (e) e where "runs ?push es (Inl e)" "out = Inl e"
    | (ok) es1 es2 s t u where "es = es1 @ es2" "runs ?push es1 (Inr (s, t, u))"
        "runs (if s = Some 0
           then Ret \<lparr>er_commit = Some commit, er_pushed = True, er_changed = changed, er_retries = Some retry\<rparr>
           else if retry \<ge> 2 then Throw (Err ''Evidence push retry limit reached'' [JStr (failure_text t u [])])
           else bindI (push_round h q) (\<lambda>commit'. push_loop h q changed (Suc retry) commit')) es2 out"
    by (subst (asm) push_loop.simps, unfold runs_bindI [of ?push]) auto
  then show ?thesis
  proof cases
    case e
    then show ?thesis using push_event stopped by metis
  next
    case ok
    from push_event [OF ok(2)] obtain p where p: "es1 = [(p, RProc s t u)]" "push_op q p" by auto
    show ?thesis
    proof (cases "s = Some 0")
      case True
      then show ?thesis using ok p pushed by simp
    next
      case False
      show ?thesis
      proof (cases "retry \<ge> 2")
        case True
        then show ?thesis using False ok p stopped by simp
      next
        case less: False
        with False ok(3) have "runs (bindI (push_round h q) (\<lambda>c. push_loop h q changed (Suc retry) c)) es2 out"
          by simp
        then show ?thesis using p ok(1) less failed again unfolding runs_bindI by auto
      qed
    qed
  qed
qed

text \<open>A published result: its last push succeeded after \<open>retries\<close> failed ones.\<close>

definition published :: "ev_request \<Rightarrow> nat \<Rightarrow> event list \<Rightarrow> ev_result \<Rightarrow> bool" where
  "published q retry es res \<longleftrightarrow> er_pushed res \<and> (\<exists>k p t u. er_retries res = Some k \<and> retry \<le> k
     \<and> pushes q es = k + 1 - retry \<and> push_op q p \<and> last es = (p, RProc (Some 0) t u))"

lemma push_loop_runs:
  assumes "runs (push_loop h q changed retry commit) es out" "retry \<le> 2" "h_node h \<noteq> ''git''"
  shows "pushes q es \<le> 3 - retry \<and> es \<noteq> [] \<and> (\<forall>res. out = Inr res \<longrightarrow> published q retry es res)"
  using assms(1,2)
proof (induction "2 - retry" arbitrary: retry commit es rule: less_induct)
  case less
  note np = only_no_push [OF push_round_no_push [OF assms(3)]]
  from less(2) show ?case
  proof (cases rule: push_loop_cases)
    case (pushed p t u)
    then show ?thesis using less(3) by (auto simp: published_def)
  next
    case (stopped p r e)
    then show ?thesis using less(3) by auto
  next
    case (failed p r es1 e)
    then show ?thesis using np [OF failed(4)] by auto
  next
    case (again p r es1 es2 c)
    have "2 - Suc retry < 2 - retry" "Suc retry \<le> 2" using again(2) by simp_all
    from less(1) [OF this(1) again(5) this(2)]
    have ih: "pushes q es2 \<le> 3 - Suc retry" "es2 \<noteq> []" "\<And>res. out = Inr res \<Longrightarrow> published q (Suc retry) es2 res"
      by blast+
    have n: "pushes q es = 1 + pushes q es2" using again(1,3) np [OF again(4)] by simp
    have "published q retry es res" if "out = Inr res" for res
      using ih(3) [OF that] ih(2) n again(3) unfolding published_def by fastforce
    then show ?thesis using ih(1) n again(2,3) by auto
  qed
qed

section \<open>The stages of the body\<close>

definition commit_step :: "host \<Rightarrow> ev_request \<Rightarrow> string list \<Rightarrow> staging \<Rightarrow> string io" where
  "commit_step h q rules sg =
     git_env (commit_env h q rules (sg_digest sg)) (rq_root q) [''commit'', ''-m'', rq_message q]"

lemma evidence_body_cases:
  assumes "runs (evidence_body h q rules before) es out"
  obtains (nothing) "runs (stage h q rules) es (Inr None)" "out = Inr nothing_changed"
  | (unstaged) e where "runs (stage h q rules) es (Inl e)" "out = Inl (transaction_error before e)"
  | (uncommitted) es1 es2 sg e where "es = es1 @ es2" "runs (stage h q rules) es1 (Inr (Some sg))"
      "runs (commit_step h q rules sg) es2 (Inl e)" "out = Inl (transaction_error before e)"
  | (committed) es1 es2 es3 sg c where "es = es1 @ es2 @ es3" "runs (stage h q rules) es1 (Inr (Some sg))"
      "runs (commit_step h q rules sg) es2 (Inr c)"
      "runs (catchI (publish h q sg) (\<lambda>e. bindI (rollback_planning q sg before) (\<lambda>_. Throw (transaction_error before e)))) es3 out"
proof -
  let ?first = "bindI (stage h q rules) (\<lambda>staged. case staged of
         None \<Rightarrow> Ret None
       | Some sg \<Rightarrow> bindI (commit_step h q rules sg) (\<lambda>_. Ret (Some sg)))"
  let ?wrapped = "catchI ?first (\<lambda>e. Throw (transaction_error before e))"
  have first: "(x = Inr None \<and> runs (stage h q rules) a (Inr None))
      \<or> (\<exists>e. x = Inl e \<and> runs (stage h q rules) a (Inl e))
      \<or> (\<exists>a1 a2 sg e. a = a1 @ a2 \<and> x = Inl e \<and> runs (stage h q rules) a1 (Inr (Some sg)) \<and> runs (commit_step h q rules sg) a2 (Inl e))
      \<or> (\<exists>a1 a2 sg c. a = a1 @ a2 \<and> x = Inr (Some sg) \<and> runs (stage h q rules) a1 (Inr (Some sg)) \<and> runs (commit_step h q rules sg) a2 (Inr c))"
    if "runs ?first a x" for a x
    using that unfolding runs_bindI by (auto split: option.splits simp: runs_bindI)
  have wrapped: "runs ?first a (Inr y)" if "runs ?wrapped a (Inr y)" for a y
    using runs_catchID [OF that] by auto
  have thrown: "\<exists>e. runs ?first a (Inl e) \<and> x = transaction_error before e" if "runs ?wrapped a (Inl x)" for a x
    using runs_catchID [OF that] by auto
  have steps: "(\<exists>e. runs ?wrapped es (Inl e) \<and> out = Inl e)
     \<or> (\<exists>es1 es2 y. es = es1 @ es2 \<and> runs ?wrapped es1 (Inr y) \<and> runs (case y of
           None \<Rightarrow> Ret nothing_changed
         | Some sg \<Rightarrow> catchI (publish h q sg) (\<lambda>e. bindI (rollback_planning q sg before) (\<lambda>_. Throw (transaction_error before e)))) es2 out)"
    using assms unfolding evidence_body_def commit_step_def [symmetric] runs_bindI [of ?wrapped] by blast
  consider (bad) e where "runs ?wrapped es (Inl e)" "out = Inl e"
    | (none) es1 es2 where "es = es1 @ es2" "runs ?wrapped es1 (Inr None)" "runs (Ret nothing_changed) es2 out"
    | (some) es1 es2 sg where "es = es1 @ es2" "runs ?wrapped es1 (Inr (Some sg))"
        "runs (catchI (publish h q sg) (\<lambda>e. bindI (rollback_planning q sg before) (\<lambda>_. Throw (transaction_error before e)))) es2 out"
    apply (rule disjE [OF steps])
     apply blast
    apply (elim exE conjE)
    subgoal for es1 es2 y by (cases y) simp_all
    done
  then show ?thesis
  proof cases
    case bad
    from thrown [OF bad(1)] first bad(2) unstaged uncommitted show ?thesis by blast
  next
    case none
    have "runs (stage h q rules) es1 (Inr None)" using first [OF wrapped [OF none(2)]] by simp
    then have "runs (stage h q rules) es (Inr None)" "out = Inr nothing_changed" using none(1,3) by simp_all
    then show ?thesis by (rule nothing)
  next
    case some
    from first [OF wrapped [OF some(2)]] obtain a1 a2 c where
      "es1 = a1 @ a2" "runs (stage h q rules) a1 (Inr (Some sg))" "runs (commit_step h q rules sg) a2 (Inr c)" by auto
    then show ?thesis using some(1,3) committed [of a1 a2 es2 sg c] by simp
  qed
qed

lemma only_stage_no_push: "h_node h \<noteq> ''git'' \<Longrightarrow> only (\<lambda>p. \<not> push_op q p) (stage h q rules)"
  by (intro only_stage no_push_reads no_push_others)

lemma only_commit_no_push: "only (\<lambda>p. \<not> push_op q p) (commit_step h q rules sg)"
  unfolding commit_step_def by (intro only_git_env) (simp add: push_op_def git_op_def)

lemma only_rollback_no_push: "only (\<lambda>p. \<not> push_op q p) (rollback_planning q sg before)"
  by (intro only_rollback no_push_reads no_push_others)

lemma publish_pushes:
  assumes "runs (publish h q sg) es out" "h_node h \<noteq> ''git''"
  shows "pushes q es \<le> (if rq_push q then 3 else 0)"
    and "out = Inr res \<Longrightarrow> er_pushed res \<Longrightarrow> published q 0 es res"
proof -
  let ?head = "bindI (git (rq_root q) [''rev-parse'', ''HEAD'']) (\<lambda>commit.
     bindI (if rq_action q = ''planning-gate'' then fastForwardPlanningWorktree h (rq_root q) (rq_task q) commit
            else Ret ()) (\<lambda>_. Ret commit))"
  have split: "publish h q sg = bindI ?head (\<lambda>commit. if \<not> rq_push q
     then Ret \<lparr>er_commit = Some commit, er_pushed = False, er_changed = sg_changed sg, er_retries = None\<rparr>
     else push_loop h q (sg_changed sg) 0 commit)"
    unfolding publish_def by (simp add: bindI_assoc)
  have head: "only (\<lambda>p. \<not> push_op q p) ?head"
  proof -
    have o: "\<not> push_op q (Spawn ''git'' [''merge'', ''--ff-only'', c] dir [])"
      "\<not> push_op q (Spawn ''git'' [''rev-parse'', ''HEAD''] (rq_root q) [])" for c dir
      by (simp_all add: push_op_def git_op_def)
    show ?thesis by (intro only_rules only_git only_fast_forward [OF no_push_reads] o)
  qed
  from assms(1) consider (e) e where "runs ?head es (Inl e)" "out = Inl e"
    | (no) es1 commit where "es = es1" "runs ?head es1 (Inr commit)" "\<not> rq_push q"
        "out = Inr \<lparr>er_commit = Some commit, er_pushed = False, er_changed = sg_changed sg, er_retries = None\<rparr>"
    | (yes) es1 es2 commit where "es = es1 @ es2" "runs ?head es1 (Inr commit)" "rq_push q"
        "runs (push_loop h q (sg_changed sg) 0 commit) es2 out"
    unfolding split runs_bindI [of ?head] by (cases "rq_push q") auto
  then have both: "pushes q es \<le> (if rq_push q then 3 else 0)
      \<and> (\<forall>res. out = Inr res \<longrightarrow> er_pushed res \<longrightarrow> published q 0 es res)"
  proof cases
    case yes
    from push_loop_runs [OF yes(4) _ assms(2)]
    have l: "pushes q es2 \<le> 3" "es2 \<noteq> []" "\<And>res. out = Inr res \<Longrightarrow> published q 0 es2 res" by auto
    have n: "pushes q es1 = 0" by (rule only_no_push [OF head yes(2)])
    show ?thesis using l n yes(1,3) unfolding published_def by auto
  qed (use only_no_push [OF head] in simp_all)
  then show "pushes q es \<le> (if rq_push q then 3 else 0)"
    and "out = Inr res \<Longrightarrow> er_pushed res \<Longrightarrow> published q 0 es res" by blast+
qed

lemma body_pushes:
  assumes "runs (evidence_body h q rules before) es out" "h_node h \<noteq> ''git''"
  shows "pushes q es \<le> (if rq_push q then 3 else 0)
     \<and> (\<forall>res. out = Inr res \<longrightarrow> er_pushed res \<longrightarrow> (\<exists>es1 es2. es = es1 @ es2 \<and> pushes q es1 = 0 \<and> published q 0 es2 res))"
  using assms(1)
proof (cases rule: evidence_body_cases)
  case nothing
  then show ?thesis using only_no_push [OF only_stage_no_push [OF assms(2)]] by (simp add: nothing_changed_def)
next
  case unstaged
  then show ?thesis using only_no_push [OF only_stage_no_push [OF assms(2)]] by simp
next
  case uncommitted
  then show ?thesis
    using only_no_push [OF only_stage_no_push [OF assms(2)]] only_no_push [OF only_commit_no_push] by simp
next
  case (committed es1 es2 es3 sg c)
  have n: "pushes q (es1 @ es2) = 0"
    using only_no_push [OF only_stage_no_push [OF assms(2)] committed(2)]
      only_no_push [OF only_commit_no_push committed(3)] by simp
  from runs_catchID [OF committed(4)] show ?thesis
  proof (elim disjE exE conjE)
    fix res
    assume r: "runs (publish h q sg) es3 (Inr res)" "out = Inr res"
    have eq: "pushes q es = pushes q es3" using n committed(1) by simp
    have "\<exists>es1 es2. es = es1 @ es2 \<and> pushes q es1 = 0 \<and> published q 0 es2 res" if "er_pushed res"
    proof (intro exI conjI)
      show "es = (es1 @ es2) @ es3" using committed(1) by simp
    qed (use n publish_pushes(2) [OF r(1) assms(2) refl that] in simp_all)
    then show ?thesis using publish_pushes(1) [OF r(1) assms(2)] r(2) eq by simp
  next
    fix a b e
    assume r: "es3 = a @ b" "runs (publish h q sg) a (Inl e)"
      "runs (bindI (rollback_planning q sg before) (\<lambda>_. Throw (transaction_error before e))) b out"
    have t: "only (\<lambda>p. \<not> push_op q p) (bindI (rollback_planning q sg before) (\<lambda>_. Throw (transaction_error before e)))"
      by (intro only_rules only_rollback_no_push)
    have "out \<noteq> Inr res" for res using r(3) by (auto simp: runs_bindI)
    moreover have "pushes q es = pushes q a"
      using n committed(1) r(1) only_no_push [OF t r(3)] by simp
    ultimately show ?thesis using publish_pushes(1) [OF r(2) assms(2)] by simp
  qed
qed

lemma evidence_pushes:
  assumes "runs (evidenceCommit h q) es out" "h_node h \<noteq> ''git''"
  shows "pushes q es \<le> (if rq_push q then 3 else 0)"
    and "out = Inr res \<Longrightarrow> er_pushed res \<Longrightarrow> (\<exists>k. er_retries res = Some k \<and> pushes q es = k + 1)
      \<and> (\<exists>p t u. push_op q p \<and> (p, RProc (Some 0) t u) \<in> set es)"
proof -
  have "pushes q es \<le> (if rq_push q then 3 else 0) \<and> (\<forall>res. out = Inr res \<longrightarrow> er_pushed res \<longrightarrow>
      (\<exists>k. er_retries res = Some k \<and> pushes q es = k + 1) \<and> (\<exists>p t u. push_op q p \<and> (p, RProc (Some 0) t u) \<in> set es))"
    using assms(1)
  proof (cases rule: evidence_run_cases)
    case no_body
    then show ?thesis using pushes_0 git_not_write_no_push by (metis Inl_Inr_False le0)
  next
    case (body pre rules lock before mid rel out1)
    have n: "pushes q pre = 0" using body(2) git_not_write_no_push pushes_0 by blast
    have r: "\<not> push_op q (Rm lock)" by (simp add: push_op_def git_op_def)
    have eq: "pushes q es = pushes q mid" using body(1) n r by simp
    note b = body_pushes [OF body(5) assms(2)]
    have "(\<exists>k. er_retries res = Some k \<and> pushes q es = k + 1) \<and> (\<exists>p t u. push_op q p \<and> (p, RProc (Some 0) t u) \<in> set es)"
      if "out = Inr res" "er_pushed res" for res
    proof -
      from that(1) body(6) have "out1 = Inr res" by auto
      with b that(2) obtain es1 es2 where s: "mid = es1 @ es2" "pushes q es1 = 0" "published q 0 es2 res" by blast
      obtain k p t u where k: "er_retries res = Some k" "pushes q es2 = k + 1" "push_op q p"
        "last es2 = (p, RProc (Some 0) t u)" using s(3) unfolding published_def by auto
      then have "es2 \<noteq> []" by auto
      then have "last es2 \<in> set es" using s(1) body(1) by simp
      then show ?thesis using k s eq by (metis add_0 pushes_simps(2))
    qed
    then show ?thesis using b eq by simp
  qed
  then show "pushes q es \<le> (if rq_push q then 3 else 0)"
    and "out = Inr res \<Longrightarrow> er_pushed res \<Longrightarrow> (\<exists>k. er_retries res = Some k \<and> pushes q es = k + 1)
      \<and> (\<exists>p t u. push_op q p \<and> (p, RProc (Some 0) t u) \<in> set es)" by blast+
qed

section \<open>Gate, validation and staging come before the commit\<close>

definition validated :: "host \<Rightarrow> ev_request \<Rightarrow> event list \<Rightarrow> bool" where
  "validated h q es \<longleftrightarrow> (\<exists>va t u. (Spawn (h_node h) (validator_args (rq_root q) va) (rq_root q) [], RProc (Some 0) t u) \<in> set es)"

lemma validateOperations_ok:
  "runs (validateOperations h (rq_root q) action taskId c) es (Inr ()) \<Longrightarrow> validated h q es"
  unfolding validateOperations_def validated_def
  by (auto simp: runs_bindI dest!: run_command_ok) blast

lemma scope_gate_ok: "runs (scope_gate label rules files) es (Inr ()) \<longleftrightarrow> es = [] \<and> outside lifecycle_covers rules files = []"
  by (auto simp: scope_gate_def throw_ifI_def Let_def)

lemma gated_files_ok:
  assumes "runs (gated_files h q rules) es (Inr (Some changed))"
  shows "\<exists>l1 gate rest input. es = l1 @ gate @ rest
    \<and> runs (changedFiles (rq_root q)) l1 (Inr input) \<and> runs (input_gate h q rules input) gate (Inr ())
    \<and> (\<exists>l2. runs (changedFiles (rq_root q)) l2 (Inr changed))
    \<and> (rq_action q = ''wiki'' \<longrightarrow> outside lifecycle_covers rules changed = [])"
proof -
  let ?gate2 = "\<lambda>changed. if rq_action q = ''wiki''
    then scope_gate ''Evidence scope violation after index generation'' rules changed else Ret ()"
  let ?tail = "bindI (if rq_action q = ''wiki'' then write_index h (rq_root q) else Ret ()) (\<lambda>_.
     bindI (changedFiles (rq_root q)) (\<lambda>changed. if changed = [] then Ret None else
     bindI (?gate2 changed) (\<lambda>_. Ret (Some changed))))"
  from assms obtain l1 r1 input where 1: "es = l1 @ r1" "runs (changedFiles (rq_root q)) l1 (Inr input)"
    "runs (bindI (input_gate h q rules input) (\<lambda>_. ?tail)) r1 (Inr (Some changed))"
    unfolding gated_files_def runs_bindI [of "changedFiles _"] by (auto split: if_splits)
  from runs_bindID_ok [OF 1(3)] obtain gate r2 where 2: "r1 = gate @ r2"
    "runs (input_gate h q rules input) gate (Inr ())" "runs ?tail r2 (Inr (Some changed))" by auto
  from runs_bindID_ok [OF 2(3)] obtain r3 where 3: "runs (bindI (changedFiles (rq_root q)) (\<lambda>changed. if changed = [] then Ret None else
     bindI (?gate2 changed) (\<lambda>_. Ret (Some changed)))) r3 (Inr (Some changed))" by blast
  from runs_bindID_ok [OF 3] obtain l2 r4 c where 4: "runs (changedFiles (rq_root q)) l2 (Inr c)"
    "runs (bindI (?gate2 c) (\<lambda>_. Ret (Some c))) r4 (Inr (Some changed))" by (auto split: if_splits)
  then have "c = changed" "rq_action q = ''wiki'' \<longrightarrow> outside lifecycle_covers rules changed = []"
    by (auto simp: runs_bindI scope_gate_ok)
  then show ?thesis using 1(1,2) 2(1,2) 4(1) by blast
qed

lemma prepare_ok:
  assumes "runs (prepare h q changed) es (Inr sg)"
  shows "sg_changed sg = changed"
    and "\<exists>pre t u. es = pre @ [(Spawn ''git'' ([''add'', ''--''] @ changed) (rq_root q) [], RProc (Some 0) t u)]"
    and "rq_validate q \<Longrightarrow> sg_digest sg \<noteq> None \<and> validated h q es"
    and "rq_action q = ''planning-gate'' \<Longrightarrow> \<exists>p es'. sg_planning sg = Some p \<and> runs (planning_start h q) es' (Inr p)"
proof -
  let ?dig = "if rq_validate q then bindI (changedContentDigest h (rq_root q) False) (\<lambda>d. Ret (Some d)) else Ret None"
  let ?pln = "if rq_action q = ''planning-gate'' then bindI (planning_start h q) (\<lambda>p. Ret (Some p)) else Ret None"
  let ?val = "if rq_validate q then validateOperations h (rq_root q)
     (if rq_action q = ''planning-gate'' then ''plan'' else rq_action q) (rq_task q) (rq_candidate q) else Ret ()"
  let ?add = "git (rq_root q) ([''add'', ''--''] @ changed)"
  let ?tail = "\<lambda>d p. bindI ?val (\<lambda>_. bindI ?add (\<lambda>_. Ret \<lparr>sg_changed = changed, sg_planning = p, sg_digest = d\<rparr>))"
  from assms have "runs (bindI ?dig (\<lambda>d. bindI ?pln (\<lambda>p. ?tail d p))) es (Inr sg)" unfolding prepare_def .
  from runs_bindID_ok [OF this] obtain e1 r1 d where 1: "es = e1 @ r1" "runs ?dig e1 (Inr d)"
    "runs (bindI ?pln (\<lambda>p. ?tail d p)) r1 (Inr sg)" by blast
  from runs_bindID_ok [OF 1(3)] obtain e2 r2 p where 2: "r1 = e2 @ r2" "runs ?pln e2 (Inr p)" "runs (?tail d p) r2 (Inr sg)"
    by blast
  from runs_bindID_ok [OF 2(3)] obtain e3 r3 where 3: "r2 = e3 @ r3" "runs ?val e3 (Inr ())"
    "runs (bindI ?add (\<lambda>_. Ret \<lparr>sg_changed = changed, sg_planning = p, sg_digest = d\<rparr>)) r3 (Inr sg)" by auto
  from runs_bindID_ok [OF 3(3)] obtain e4 x where 4: "r3 = e4" "runs ?add e4 (Inr x)"
    and sg: "sg = \<lparr>sg_changed = changed, sg_planning = p, sg_digest = d\<rparr>" by auto
  show "sg_changed sg = changed" by (simp add: sg)
  show "\<exists>pre t u. es = pre @ [(Spawn ''git'' ([''add'', ''--''] @ changed) (rq_root q) [], RProc (Some 0) t u)]"
    using git_env_ok [OF 4(2) [unfolded git_def]] 1(1) 2(1) 3(1) 4(1) by (metis append_assoc)
  show "sg_digest sg \<noteq> None \<and> validated h q es" if "rq_validate q"
    using that 1(2) 3(2) validateOperations_ok [of h q] 1(1) 2(1) 3(1) unfolding sg validated_def
    by (fastforce simp: runs_bindI)
  show "\<exists>p es'. sg_planning sg = Some p \<and> runs (planning_start h q) es' (Inr p)" if "rq_action q = ''planning-gate''"
    using that 2(2) by (auto simp: runs_bindI sg)
qed

text \<open>The one commit of a run.\<close>

fun is_commit :: "op \<Rightarrow> bool" where
  "is_commit (Spawn cmd args dir env) = (cmd = ''git'' \<and> (case args of c # _ \<Rightarrow> c = ''commit'' | [] \<Rightarrow> False))"
| "is_commit _ = False"

definition commit_free :: "event list \<Rightarrow> bool" where
  "commit_free es \<longleftrightarrow> (\<forall>e \<in> set es. \<not> is_commit (fst e))"

lemma commit_free_simps [simp]: "commit_free []" "commit_free (xs @ ys) \<longleftrightarrow> commit_free xs \<and> commit_free ys"
  "commit_free (e # es) \<longleftrightarrow> \<not> is_commit (fst e) \<and> commit_free es"
  by (auto simp: commit_free_def)

lemma only_commit_free: "only (\<lambda>p. \<not> is_commit p) m \<Longrightarrow> runs m es out \<Longrightarrow> commit_free es"
  unfolding commit_free_def using only_runs by blast

lemma no_commit_reads: "reads p \<Longrightarrow> \<not> is_commit p"
  by (cases p) (auto simp: git_reads_def GIT_READS_def split: list.splits)

lemma no_commit_others:
  "h_node h \<noteq> ''git'' \<Longrightarrow> validator_op h p \<Longrightarrow> \<not> is_commit p"
  "add_op q files p \<Longrightarrow> \<not> is_commit p" "index_op h q p \<Longrightarrow> \<not> is_commit p"
  "planning_op q p \<Longrightarrow> \<not> is_commit p" "sync_op q p \<Longrightarrow> \<not> is_commit p" "push_op q p \<Longrightarrow> \<not> is_commit p"
  by (auto simp: ev_op_defs index_op_def Let_def)

lemma only_stage_no_commit: "h_node h \<noteq> ''git'' \<Longrightarrow> only (\<lambda>p. \<not> is_commit p) (stage h q rules)"
  by (intro only_stage no_commit_reads no_commit_others)

lemma only_published_no_commit:
  "h_node h \<noteq> ''git'' \<Longrightarrow> only (\<lambda>p. \<not> is_commit p)
     (catchI (publish h q sg) (\<lambda>e. bindI (rollback_planning q sg before) (\<lambda>_. Throw (transaction_error before e))))"
proof -
  assume n: "h_node h \<noteq> ''git''"
  have "only (\<lambda>p. \<not> is_commit p) (publish h q sg)"
    by (rule only_publish) (use no_commit_reads no_commit_others n in blast)+
  moreover have "only (\<lambda>p. \<not> is_commit p) (rollback_planning q sg before)"
    by (rule only_rollback) (use no_commit_reads no_commit_others in blast)+
  ultimately show ?thesis by (intro only_rules)
qed

lemma commit_step_run:
  assumes "runs (commit_step h q rules sg) es out"
  shows "\<exists>r. es = [(Spawn ''git'' [''commit'', ''-m'', rq_message q] (rq_root q) (commit_env h q rules (sg_digest sg)), r)]"
  using assms unfolding commit_step_def git_env_def runs_bindI
  by (auto dest!: spawn_runs split: if_splits)

text \<open>What precedes the commit: a listing inside the rules, the staging, the validation.\<close>

definition gated :: "host \<Rightarrow> ev_request \<Rightarrow> string list \<Rightarrow> staging \<Rightarrow> event list \<Rightarrow> bool" where
  "gated h q rules sg es \<longleftrightarrow>
     (\<exists>a l b input. es = a @ l @ b \<and> runs (changedFiles (rq_root q)) l (Inr input)
        \<and> (rq_action q \<noteq> ''planning-gate'' \<longrightarrow> outside lifecycle_covers rules input = []))
     \<and> (rq_action q = ''wiki'' \<longrightarrow> outside lifecycle_covers rules (sg_changed sg) = [])
     \<and> (\<exists>t u. (Spawn ''git'' ([''add'', ''--''] @ sg_changed sg) (rq_root q) [], RProc (Some 0) t u) \<in> set es)
     \<and> (rq_validate q \<longrightarrow> sg_digest sg \<noteq> None \<and> validated h q es)"

lemma stage_gated:
  assumes "runs (stage h q rules) es (Inr (Some sg))"
  shows "gated h q rules sg es"
proof -
  from assms obtain e1 e2 changed where e: "es = e1 @ e2"
    "runs (gated_files h q rules) e1 (Inr (Some changed))" "runs (prepare h q changed) e2 (Inr sg)"
    unfolding stage_def by (auto simp: runs_bindI split: option.splits)
  note p = prepare_ok [OF e(3)]
  from gated_files_ok [OF e(2)] obtain l1 gate rest input where g: "e1 = l1 @ gate @ rest"
    "runs (changedFiles (rq_root q)) l1 (Inr input)" "runs (input_gate h q rules input) gate (Inr ())"
    "rq_action q = ''wiki'' \<longrightarrow> outside lifecycle_covers rules changed = []" by blast
  have scope: "rq_action q \<noteq> ''planning-gate'' \<longrightarrow> outside lifecycle_covers rules input = []"
    using g(3) by (cases "rq_action q = ''planning-gate''") (simp_all add: input_gate_def scope_gate_ok)
  show ?thesis
    unfolding gated_def
  proof (intro conjI)
    have "es = [] @ l1 @ (gate @ rest @ e2)" using e(1) g(1) by simp
    then show "\<exists>a l b input. es = a @ l @ b \<and> runs (changedFiles (rq_root q)) l (Inr input)
        \<and> (rq_action q \<noteq> ''planning-gate'' \<longrightarrow> outside lifecycle_covers rules input = [])"
      using g(2) scope by blast
    show "rq_action q = ''wiki'' \<longrightarrow> outside lifecycle_covers rules (sg_changed sg) = []"
      using g(4) p(1) by simp
    show "\<exists>t u. (Spawn ''git'' ([''add'', ''--''] @ sg_changed sg) (rq_root q) [], RProc (Some 0) t u) \<in> set es"
      using p(1,2) e(1) by fastforce
    show "rq_validate q \<longrightarrow> sg_digest sg \<noteq> None \<and> validated h q es"
      using p(3) e(1) unfolding validated_def by auto
  qed
qed

lemma gated_extend:
  assumes "gated h q rules sg es"
  shows "gated h q rules sg (pre @ es)"
proof -
  from assms obtain a l b input where l: "es = a @ l @ b" "runs (changedFiles (rq_root q)) l (Inr input)"
    "rq_action q \<noteq> ''planning-gate'' \<longrightarrow> outside lifecycle_covers rules input = []"
    unfolding gated_def by blast
  have eq: "pre @ es = (pre @ a) @ l @ b" using l(1) by simp
  show ?thesis
    unfolding gated_def
  proof (intro conjI)
    show "\<exists>a l b input. pre @ es = a @ l @ b \<and> runs (changedFiles (rq_root q)) l (Inr input)
        \<and> (rq_action q \<noteq> ''planning-gate'' \<longrightarrow> outside lifecycle_covers rules input = [])"
      using eq l(2,3) by blast
    show "\<exists>t u. (Spawn ''git'' ([''add'', ''--''] @ sg_changed sg) (rq_root q) [], RProc (Some 0) t u) \<in> set (pre @ es)"
      using assms unfolding gated_def set_append by blast
    show "rq_validate q \<longrightarrow> sg_digest sg \<noteq> None \<and> validated h q (pre @ es)"
      using assms unfolding gated_def validated_def set_append by blast
  qed (use assms in \<open>unfold gated_def, blast\<close>)
qed

lemma no_write_no_commit: "\<not> git_write p \<Longrightarrow> \<not> is_commit p"
  by (cases p) (auto simp: git_write_def git_reads_def GIT_READS_def split: list.splits)

text \<open>Every run holds at most one commit, and what \<open>gated\<close> says precedes it.\<close>

lemma evidence_commit_gated:
  assumes "runs (evidenceCommit h q) es out" "h_node h \<noteq> ''git''" "\<not> commit_free es"
  shows "\<exists>pre post r rules sg. es = pre @ (Spawn ''git'' [''commit'', ''-m'', rq_message q] (rq_root q)
        (commit_env h q rules (sg_digest sg)), r) # post
     \<and> commit_free pre \<and> commit_free post \<and> gated h q rules sg pre
     \<and> (\<exists>a. runs (allowedFor h (rq_root q) (rq_action q) (rq_task q)) a (Inr rules))"
  using assms(1)
proof (cases rule: evidence_run_cases)
  case no_body
  have "commit_free es" using no_body(1) no_write_no_commit unfolding commit_free_def by blast
  then show ?thesis using assms(3) by blast
next
  case (body pre rules lock before mid rel out1)
  have fp: "commit_free pre" using body(2) no_write_no_commit unfolding commit_free_def by blast
  note fs = only_commit_free [OF only_stage_no_commit [OF assms(2)]]
  obtain al where al: "runs (allowedFor h (rq_root q) (rq_action q) (rq_task q)) al (Inr rules)"
    using body(4) by blast
  have commit: "?thesis" if run: "mid = es1 @ es2 @ es3" "runs (stage h q rules) es1 (Inr (Some sg))"
      "runs (commit_step h q rules sg) es2 x" "commit_free es3" for es1 es2 es3 sg x
  proof -
    obtain r where r: "es2 = [(Spawn ''git'' [''commit'', ''-m'', rq_message q] (rq_root q)
        (commit_env h q rules (sg_digest sg)), r)]"
      using commit_step_run [OF run(3)] by blast
    show ?thesis
    proof (intro exI conjI)
      show "es = (pre @ es1) @ (Spawn ''git'' [''commit'', ''-m'', rq_message q] (rq_root q)
        (commit_env h q rules (sg_digest sg)), r) # (es3 @ [(Rm lock, rel)])"
        using body(1) run(1) r by simp
      show "gated h q rules sg (pre @ es1)" by (rule gated_extend [OF stage_gated [OF run(2)]])
      show "runs (allowedFor h (rq_root q) (rq_action q) (rq_task q)) al (Inr rules)" by (rule al)
      show "commit_free (pre @ es1)" using fp fs [OF run(2)] by simp
      show "commit_free (es3 @ [(Rm lock, rel)])" using run(4) by simp
    qed
  qed
  have none: "commit_free es" if "commit_free mid" using that fp body(1) by simp
  from body(5) show ?thesis
  proof (cases rule: evidence_body_cases)
    case nothing
    then show ?thesis using fs none assms(3) by blast
  next
    case unstaged
    then show ?thesis using fs none assms(3) by blast
  next
    case (uncommitted es1 es2 sg e)
    have "mid = es1 @ es2 @ []" using uncommitted(1) by simp
    from commit [OF this uncommitted(2,3)] show ?thesis by simp
  next
    case (committed es1 es2 es3 sg c)
    from only_commit_free [OF only_published_no_commit [OF assms(2)] this(4)]
    show ?thesis by (rule commit [OF committed(1-3)])
  qed
qed

end
