(* ===== verification/Lock_Race.thy ===== *)
theory Lock_Race
  imports Lock
begin

text \<open>
  Several processes run the acquisition program of Lock on one shared lock directory.  A step
  is one operation of one process, answered by the file system as Node documents it: \<open>mkdir\<close>
  fails with \<open>EEXIST\<close> when the directory is there, \<open>rm\<close> with \<open>force\<close> never fails, and a
  signal 0 to a process that is gone fails with \<open>ESRCH\<close>.  Operations that do not touch the
  lock get any response.
\<close>

section \<open>The shared directory\<close>

text \<open>\<open>None\<close>: no lock directory; \<open>Some None\<close>: without an owner file; else the owner file's text.\<close>

type_synonym lock_dir = "string option option"

definition lock_answer :: "string \<Rightarrow> (jsval \<Rightarrow> bool) \<Rightarrow> op \<Rightarrow> lock_dir \<Rightarrow> (resp \<times> lock_dir) option" where
  "lock_answer d alive p dir = (case p of
     Mkdir q rec \<Rightarrow> (if q \<noteq> d then None
       else if dir = None then Some (ROk, Some None) else Some (RErr ''EEXIST'', dir))
   | Rm q \<Rightarrow> (if q \<noteq> d then None else Some (ROk, None))
   | ReadFile q \<Rightarrow> (if q \<noteq> owner_file d then None
       else (case dir of Some (Some t) \<Rightarrow> Some (RText t, dir) | _ \<Rightarrow> Some (RErr ''ENOENT'', dir)))
   | WriteFile q t \<Rightarrow> (if q \<noteq> owner_file d then None
       else (case dir of Some _ \<Rightarrow> Some (ROk, Some (Some t)) | None \<Rightarrow> Some (RErr ''ENOENT'', dir)))
   | Probe pid \<Rightarrow> Some (if alive pid then ROk else RErr ''ESRCH'', dir)
   | _ \<Rightarrow> None)"

text \<open>An operation the directory does not determine leaves it as it is and may get any
  response but the code of a missing process.\<close>

definition answers :: "string \<Rightarrow> (jsval \<Rightarrow> bool) \<Rightarrow> op \<Rightarrow> lock_dir \<Rightarrow> resp \<Rightarrow> lock_dir \<Rightarrow> bool" where
  "answers d alive p dir r dir' = (case lock_answer d alive p dir of
     Some (r', dir'') \<Rightarrow> r = r' \<and> dir' = dir''
   | None \<Rightarrow> dir' = dir)"

section \<open>The processes\<close>

datatype phase = Idle | Acquire "unit io" | Critical | Release "unit io" | Gone

record lock_sys =
  lk_dir :: lock_dir
  lk_phase :: "nat \<Rightarrow> phase"
  lk_created :: "nat set"

definition is_running :: "phase \<Rightarrow> bool" where
  "is_running ph = (case ph of Idle \<Rightarrow> False | Gone \<Rightarrow> False | _ \<Rightarrow> True)"

definition pid_alive :: "lock_sys \<Rightarrow> jsval \<Rightarrow> bool" where
  "pid_alive s pid = (case pid of
     JNum x \<Rightarrow> (let q = nat \<lfloor>x\<rfloor> in of_nat q = x \<and> is_running (lk_phase s q))
   | _ \<Rightarrow> False)"

definition set_phase :: "nat \<Rightarrow> phase \<Rightarrow> lock_sys \<Rightarrow> lock_sys" where
  "set_phase p ph s = s\<lparr>lk_phase := (lk_phase s)(p := ph)\<rparr>"

definition operate :: "string \<Rightarrow> nat \<Rightarrow> op \<Rightarrow> resp \<Rightarrow> lock_dir \<Rightarrow> lock_sys \<Rightarrow> lock_sys" where
  "operate d p o' r dir' s = s\<lparr>lk_dir := dir',
     lk_created := (if o' = Mkdir d False \<and> r = ROk then insert p (lk_created s) else lk_created s)\<rparr>"

text \<open>What every process runs: its host, the repository and the requirements of the caller.\<close>

record setting =
  st_host :: "nat \<Rightarrow> host"
  st_root :: string
  st_dir :: string
  st_clean :: bool
  st_main :: bool

definition acquirer :: "setting \<Rightarrow> nat \<Rightarrow> unit io" where
  "acquirer g p = acquire_at (st_host g p) (st_root g) (st_dir g) (st_clean g) (st_main g)"

inductive lock_step :: "setting \<Rightarrow> lock_sys \<Rightarrow> lock_sys \<Rightarrow> bool" for g where
  start: "lk_phase s p = Idle \<Longrightarrow> lock_step g s (set_phase p (Acquire (acquirer g p)) s)"
| acquiring: "lk_phase s p = Acquire (Op q k) \<Longrightarrow> answers (st_dir g) (pid_alive s) q (lk_dir s) r dir' \<Longrightarrow>
    lock_step g s (set_phase p (Acquire (k r)) (operate (st_dir g) p q r dir' s))"
| enter: "lk_phase s p = Acquire (Ret ()) \<Longrightarrow> lock_step g s (set_phase p Critical s)"
| refused: "lk_phase s p = Acquire (Throw e) \<Longrightarrow> lock_step g s (set_phase p Gone s)"
| leave: "lk_phase s p = Critical \<Longrightarrow> lock_step g s (set_phase p (Release (release (st_dir g))) s)"
| releasing: "lk_phase s p = Release (Op q k) \<Longrightarrow> answers (st_dir g) (pid_alive s) q (lk_dir s) r dir' \<Longrightarrow>
    lock_step g s (set_phase p (Release (k r)) (operate (st_dir g) p q r dir' s))"
| exit_ok: "lk_phase s p = Release (Ret ()) \<Longrightarrow> lock_step g s (set_phase p Gone s)"
| exit_error: "lk_phase s p = Release (Throw e) \<Longrightarrow> lock_step g s (set_phase p Gone s)"

definition no_lock :: lock_sys where
  "no_lock = \<lparr>lk_dir = None, lk_phase = (\<lambda>p. Idle), lk_created = {}\<rparr>"

inductive lock_reach :: "setting \<Rightarrow> lock_sys \<Rightarrow> bool" for g where
  reach_init: "lock_reach g no_lock"
| reach_step: "lock_reach g s \<Longrightarrow> lock_step g s s' \<Longrightarrow> lock_reach g s'"

text \<open>What the processes rely on of \<open>JSON\<close>: an owner record reads back, and process ids differ.\<close>

definition owner_value :: "host \<Rightarrow> jsval" where
  "owner_value h = JObj [(''pid'', JNum (of_nat (h_pid h))), (''started_at'', JStr (h_now h))]"

definition setting_ok :: "setting \<Rightarrow> bool" where
  "setting_ok g \<longleftrightarrow> (\<forall>p. h_pid (st_host g p) = p)
     \<and> (\<forall>p q. h_json (st_host g p) (owner_record (st_host g q)) = Inr (owner_value (st_host g q)))
     \<and> path_dirname (st_dir g) \<noteq> st_dir g"

section \<open>The protocol a process follows\<close>

definition finished :: "unit io \<Rightarrow> bool" where
  "finished m = (case m of Throw e \<Rightarrow> True | _ \<Rightarrow> False)"

text \<open>After it created the directory: a process writes its record and asks git; it leaves only
  by returning, or by removing the directory and throwing.\<close>

primrec holds :: "setting \<Rightarrow> nat \<Rightarrow> unit io \<Rightarrow> bool" where
  "holds g p (Ret x) = True"
| "holds g p (Throw e) = False"
| "holds g p (Op q k) =
     (if q = Rm (st_dir g) then (\<forall>r. finished (k r))
      else (q = WriteFile (owner_file (st_dir g)) (owner_record (st_host g p)) \<or> (\<exists>a b c e. q = Spawn a b c e))
        \<and> (\<forall>r. holds g p (k r)))"

text \<open>Before it did, in a system whose lock creators \<open>C\<close> all live: it probes creators only.\<close>

definition waiting_op :: "setting \<Rightarrow> op \<Rightarrow> nat set \<Rightarrow> bool" where
  "waiting_op g q C \<longleftrightarrow> q = Mkdir (path_dirname (st_dir g)) True \<or> q = Mkdir (st_dir g) False
     \<or> q = ReadFile (owner_file (st_dir g)) \<or> (\<exists>c \<in> C. q = Probe (JNum (of_nat c)))"

definition live_answer :: "setting \<Rightarrow> op \<Rightarrow> resp \<Rightarrow> nat set \<Rightarrow> bool" where
  "live_answer g q r C \<longleftrightarrow> ((\<exists>pid. q = Probe pid) \<longrightarrow> r \<noteq> RErr ''ESRCH'')
     \<and> (q = ReadFile (owner_file (st_dir g)) \<longrightarrow>
          (\<exists>c \<in> C. r = RText (owner_record (st_host g c))) \<or> (\<exists>code. r = RErr code))
     \<and> (q = Mkdir (st_dir g) False \<longrightarrow> r = ROk \<or> (\<exists>code. r = RErr code))"

primrec waits :: "setting \<Rightarrow> nat \<Rightarrow> unit io \<Rightarrow> nat set \<Rightarrow> bool" where
  "waits g p (Ret x) C = False"
| "waits g p (Throw e) C = True"
| "waits g p (Op q k) C = (waiting_op g q C \<and> (\<forall>r C'. C \<subseteq> C' \<longrightarrow> live_answer g q r C' \<longrightarrow>
     (if q = Mkdir (st_dir g) False \<and> r = ROk then holds g p (k r) else waits g p (k r) C')))"

lemma waiting_op_mono: "waiting_op g q C \<Longrightarrow> C \<subseteq> C' \<Longrightarrow> waiting_op g q C'"
  by (auto simp: waiting_op_def)

lemma waits_mono:
  assumes "waits g p m C" "C \<subseteq> C'"
  shows "waits g p m C'"
proof (cases m)
  case (Op q k)
  have all: "\<forall>r D. C \<subseteq> D \<longrightarrow> live_answer g q r D \<longrightarrow>
     (if q = Mkdir (st_dir g) False \<and> r = ROk then holds g p (k r) else waits g p (k r) D)"
    using assms(1) unfolding Op waits.simps by blast
  have "waiting_op g q C'" using assms waiting_op_mono unfolding Op waits.simps by blast
  moreover have "\<forall>r D. C' \<subseteq> D \<longrightarrow> live_answer g q r D \<longrightarrow>
     (if q = Mkdir (st_dir g) False \<and> r = ROk then holds g p (k r) else waits g p (k r) D)"
    using all subset_trans [OF assms(2)] by blast
  ultimately show ?thesis unfolding Op waits.simps by blast
qed (use assms(1) in simp_all)

lemma finished_iff: "finished m \<longleftrightarrow> (\<exists>e. m = Throw e)"
  by (cases m) (auto simp: finished_def)

lemma waits_Throw_bind: "waits g p (bindI (Throw e) f) C"
  by simp

lemma holds_remove_throw: "holds g p (bindI (remove (st_dir g)) (\<lambda>_. Throw e))"
  by (auto simp: op_defs finished_iff split: resp.splits)

text \<open>A program that only starts processes, with the catch of the acquisition around it.\<close>

primrec spawns :: "'a io \<Rightarrow> bool" where
  "spawns (Ret x) = True"
| "spawns (Throw e) = True"
| "spawns (Op q k) = ((\<exists>a b c e. q = Spawn a b c e) \<and> (\<forall>r. spawns (k r)))"

lemma spawns_only: "spawns m = only (\<lambda>q. \<exists>a b c e. q = Spawn a b c e) m"
  by (induction m) auto

lemma holds_spawns:
  "spawns m \<Longrightarrow> holds g p (catchI m (\<lambda>e. bindI (remove (st_dir g)) (\<lambda>_. Throw e)))"
  by (induction m) (auto simp: holds_remove_throw)

lemma holds_holding: "holds g p (holding (st_host g p) rootdir (st_dir g) c m)"
proof -
  let ?rest = "bindI (if \<not> m then Ret () else
       bindI (git rootdir [''branch'', ''--show-current'']) (\<lambda>b.
         throw_ifI (b \<noteq> ''main'') (Err ''Work repository writes are only allowed on main'' []))) (\<lambda>_.
     if \<not> c then Ret () else
       bindI (git rootdir [''status'', ''--porcelain'']) (\<lambda>s.
         throw_ifI (s \<noteq> []) (Err ''Work repository must be clean before a writer starts'' [])))"
  have rest: "spawns ?rest"
    unfolding spawns_only by (auto intro!: only_bindI only_git)
  have "holds g p (catchI (bindI (unit_response r) (\<lambda>_. ?rest)) (\<lambda>e. bindI (remove (st_dir g)) (\<lambda>_. Throw e)))" for r
    by (cases r) (simp_all add: unit_response_def holds_remove_throw holds_spawns [OF rest] del: bindI.simps(3) catchI.simps(3))
  then show ?thesis
    unfolding holding_def lock_body_def write_file_def by simp
qed

lemma waits_probe:
  assumes "q \<in> C" and that: "h_pid (st_host g q) = q"
  shows "waits g p (bindI (probe_owner d (owner_value (st_host g q))) (\<lambda>_. m)) C"
proof -
  have "js_get (owner_value (st_host g q)) ''pid'' = Inr (JNum (of_nat q))"
    using that by (simp add: owner_value_def)
  then have "probe_owner d (owner_value (st_host g q)) = bindI (Ret (JNum (of_nat q))) (\<lambda>pid.
     Op (Probe pid) (\<lambda>r. case r of
       RErr code \<Rightarrow> if code \<noteq> ''ESRCH'' then Throw (sys_error code) else takeover d
     | _ \<Rightarrow> Throw (Err ''Another work repository writer holds the lock'' [pid, JStr d])))"
    unfolding probe_owner_def by (simp only: liftI_def sum.case)
  then show ?thesis
    using assms(1) by (auto simp: waiting_op_def live_answer_def split: resp.splits)
qed

lemma waits_read_owner:
  assumes ok: "setting_ok g"
  shows "waits g p (bindI (bindI (read_owner (st_host g p) (st_dir g)) (probe_owner (st_dir g))) (\<lambda>_. m)) C"
proof -
  have r: "h_json (st_host g p) (owner_record (st_host g c)) = Inr (owner_value (st_host g c))" for c
    using ok by (simp add: setting_ok_def)
  have pid: "h_pid (st_host g c) = c" for c using ok by (simp add: setting_ok_def)
  have "waits g p (bindI (bindI (catchI (bindI (text_response resp) (\<lambda>text. liftI (h_json (st_host g p) text)))
      (\<lambda>_. Throw (no_owner_error (st_dir g)))) (probe_owner (st_dir g))) (\<lambda>_. m)) C'"
    if "live_answer g (ReadFile (owner_file (st_dir g))) resp C'" for resp C'
    using that r pid by (auto simp: live_answer_def text_response_def liftI_def waits_probe)
  then show ?thesis
    unfolding read_owner_def read_file_def by (simp add: waiting_op_def)
qed

lemma waits_acquirer:
  assumes ok: "setting_ok g"
  shows "waits g p (acquirer g p) C"
proof -
  let ?h = "st_host g p" and ?d = "st_dir g"
  let ?hold = "holding ?h (st_root g) ?d (st_clean g) (st_main g)"
  have create: "waits g p (bindI (createLock ?h ?d) (\<lambda>_. ?hold)) C" for C
    using holds_holding waits_read_owner [OF ok]
    by (auto simp: createLock_def waiting_op_def live_answer_def unit_response_def sys_error_def
        split: resp.splits)
  have "path_dirname ?d \<noteq> ?d" using ok by (simp add: setting_ok_def)
  then show ?thesis
    using create by (auto simp: acquirer_def acquire_at_def make_dir_def waiting_op_def unit_response_def
        split: resp.splits)
qed

section \<open>Mutual exclusion while the creators live\<close>

definition holder :: "setting \<Rightarrow> lock_sys \<Rightarrow> nat \<Rightarrow> bool" where
  "holder g s p \<longleftrightarrow> (case lk_phase s p of
     Acquire m \<Rightarrow> holds g p m | Critical \<Rightarrow> True | Release m \<Rightarrow> \<not> finished m \<and> m \<noteq> Ret () | _ \<Rightarrow> False)"

definition phase_ok :: "setting \<Rightarrow> lock_sys \<Rightarrow> nat \<Rightarrow> bool" where
  "phase_ok g s p \<longleftrightarrow> (case lk_phase s p of
     Acquire m \<Rightarrow> holds g p m \<or> waits g p m (lk_created s)
   | Release m \<Rightarrow> m = release (st_dir g) \<or> m = Ret () \<or> finished m
   | _ \<Rightarrow> True)"

definition lock_inv :: "setting \<Rightarrow> lock_sys \<Rightarrow> bool" where
  "lock_inv g s \<longleftrightarrow> (\<forall>p. phase_ok g s p)
     \<and> (\<forall>p q. holder g s p \<longrightarrow> holder g s q \<longrightarrow> p = q)
     \<and> (\<forall>p. holder g s p \<longrightarrow> lk_dir s \<noteq> None \<and> p \<in> lk_created s)
     \<and> (\<forall>t. lk_dir s = Some (Some t) \<longrightarrow> (\<exists>c \<in> lk_created s. t = owner_record (st_host g c)))
     \<and> (\<forall>p \<in> lk_created s. lk_phase s p \<noteq> Idle)"

lemma lock_inv_update:
  assumes inv: "lock_inv g s"
    and s': "s' = set_phase p ph (s\<lparr>lk_dir := dir', lk_created := C'\<rparr>)"
    and C': "lk_created s \<subseteq> C'" "C' \<subseteq> insert p (lk_created s)"
    and ok: "phase_ok g s' p" and idle: "ph \<noteq> Idle"
    and mine: "holder g s' p \<Longrightarrow> dir' \<noteq> None \<and> p \<in> C' \<and> (\<forall>q. q \<noteq> p \<longrightarrow> \<not> holder g s q)"
    and others: "\<And>q. q \<noteq> p \<Longrightarrow> holder g s q \<Longrightarrow> dir' \<noteq> None"
    and owners: "\<And>t. dir' = Some (Some t) \<Longrightarrow> \<exists>c \<in> C'. t = owner_record (st_host g c)"
  shows "lock_inv g s'"
proof -
  have ph: "lk_phase s' q = (if q = p then ph else lk_phase s q)" for q
    by (simp add: s' set_phase_def)
  have fields: "lk_dir s' = dir'" "lk_created s' = C'"
    by (simp_all add: s' set_phase_def)
  have other: "q \<noteq> p \<Longrightarrow> holder g s' q = holder g s q" for q
    by (simp add: holder_def ph)
  have po: "phase_ok g s' q" if "q \<noteq> p" for q
  proof -
    have "phase_ok g s q" using inv by (simp add: lock_inv_def)
    then show ?thesis
      using that waits_mono [OF _ C'(1)] by (auto simp: phase_ok_def ph fields split: phase.splits)
  qed
  have old: "q = q'" if "holder g s q" "holder g s q'" for q q'
    using inv that unfolding lock_inv_def by blast
  have new: "q = p" if "holder g s' p" "holder g s' q" for q
    using that mine other by blast
  have uniq: "q = q'" if "holder g s' q" "holder g s' q'" for q q'
    using that new old other by metis
  have held: "dir' \<noteq> None \<and> q \<in> C'" if "holder g s' q" for q
  proof (cases "q = p")
    case False
    then have "holder g s q" using that other by simp
    then have "q \<in> lk_created s" using inv unfolding lock_inv_def by blast
    then have "q \<in> C'" using C'(1) by (rule rev_subsetD)
    then show ?thesis using others [OF False \<open>holder g s q\<close>] by (rule conjI [rotated])
  next
    case True
    then have "holder g s' p" using that by simp
    from mine [OF this] True show ?thesis by fast
  qed
  have idles: "\<forall>q \<in> C'. lk_phase s' q \<noteq> Idle"
    using inv C'(2) idle unfolding lock_inv_def ph by auto
  have phases: "phase_ok g s' q" for q
    using po ok by (cases "q = p") simp_all
  show ?thesis
    unfolding lock_inv_def fields
  proof (intro conjI)
    show "\<forall>q q'. holder g s' q \<longrightarrow> holder g s' q' \<longrightarrow> q = q'" using uniq by blast
    show "\<forall>q. holder g s' q \<longrightarrow> dir' \<noteq> None \<and> q \<in> C'" using held by blast
    show "\<forall>t. dir' = Some (Some t) \<longrightarrow> (\<exists>c \<in> C'. t = owner_record (st_host g c))" using owners by blast
    show "\<forall>q. phase_ok g s' q" using phases by blast
    show "\<forall>q \<in> C'. lk_phase s' q \<noteq> Idle" by (rule idles)
  qed
qed

text \<open>The steps of a process in its acquisition, by the protocol it follows.\<close>

lemma holds_step:
  assumes "holds g p (Op q k)" "answers (st_dir g) alive q dir r dir'" "dir \<noteq> None"
  shows "(holds g p (k r) \<and> dir' \<noteq> None
           \<and> (dir' = dir \<or> dir' = Some (Some (owner_record (st_host g p)))))
       \<or> (finished (k r) \<and> dir' = None)"
    and "q \<noteq> Mkdir (st_dir g) False"
  using assms by (auto simp: answers_def lock_answer_def split: if_splits option.splits)

lemma waits_step:
  assumes w: "waits g p (Op q k) C" and a: "answers (st_dir g) alive q dir r dir'"
    and live: "\<And>c. c \<in> C \<Longrightarrow> alive (JNum (of_nat c))"
    and owners: "\<And>t. dir = Some (Some t) \<Longrightarrow> \<exists>c \<in> C. t = owner_record (st_host g c)"
    and dir: "path_dirname (st_dir g) \<noteq> st_dir g"
  shows "(q = Mkdir (st_dir g) False \<and> r = ROk \<and> dir = None \<and> dir' = Some None \<and> holds g p (k r))
       \<or> (\<not> (q = Mkdir (st_dir g) False \<and> r = ROk) \<and> dir' = dir \<and> waits g p (k r) C)"
proof -
  have op: "waiting_op g q C" using w by simp
  have nxt: "live_answer g q r C \<Longrightarrow>
      (if q = Mkdir (st_dir g) False \<and> r = ROk then holds g p (k r) else waits g p (k r) C)"
    using w [unfolded waits.simps] subset_refl by blast
  consider "q = Mkdir (st_dir g) False"
    | "q \<noteq> Mkdir (st_dir g) False" "q = Mkdir (path_dirname (st_dir g)) True"
    | "q = ReadFile (owner_file (st_dir g))" | c where "c \<in> C" "q = Probe (JNum (of_nat c))"
    using op unfolding waiting_op_def by blast
  then show ?thesis
  proof cases
    case 1
    then show ?thesis using a nxt
      by (cases dir) (auto simp: answers_def lock_answer_def live_answer_def)
  next
    case 2
    then show ?thesis using a nxt dir by (auto simp: answers_def lock_answer_def live_answer_def)
  next
    case 3
    then show ?thesis using a nxt owners
      by (auto simp: answers_def lock_answer_def live_answer_def split: option.splits)
  next
    case 4
    then show ?thesis using a nxt live
      by (auto simp: answers_def lock_answer_def live_answer_def)
  qed
qed

lemma not_holder_waits: "lk_phase s p = Acquire (Op q k) \<Longrightarrow> waits g p (Op q k) C \<Longrightarrow> \<not> holder g s p"
  by (auto simp: holder_def waiting_op_def)

lemma lock_inv_acquiring:
  assumes inv: "lock_inv g s" and ph: "lk_phase s p = Acquire (Op q k)"
    and a: "answers (st_dir g) (pid_alive s) q (lk_dir s) r dir'"
    and live: "\<forall>c \<in> lk_created s. lk_phase s c \<noteq> Gone" and ok: "setting_ok g"
  shows "lock_inv g (set_phase p (Acquire (k r)) (operate (st_dir g) p q r dir' s))"
    (is "lock_inv g ?s'")
proof -
  let ?C = "if q = Mkdir (st_dir g) False \<and> r = ROk then insert p (lk_created s) else lk_created s"
  have s': "?s' = set_phase p (Acquire (k r)) (s\<lparr>lk_dir := dir', lk_created := ?C\<rparr>)"
    by (simp add: operate_def)
  have ph': "lk_phase ?s' p = Acquire (k r)" by (simp add: set_phase_def)
  have po: "phase_ok g ?s' p \<longleftrightarrow> holds g p (k r) \<or> waits g p (k r) ?C"
    and ho: "holder g ?s' p \<longleftrightarrow> holds g p (k r)"
    unfolding phase_ok_def holder_def ph' by (simp_all add: set_phase_def operate_def)
  have "phase_ok g s p" using inv by (simp add: lock_inv_def)
  then consider "holds g p (Op q k)" | "waits g p (Op q k) (lk_created s)"
    unfolding phase_ok_def ph by auto
  then show ?thesis
  proof cases
    case 1
    then have h: "holder g s p" by (simp add: holder_def ph)
    then have d: "lk_dir s \<noteq> None" "p \<in> lk_created s" and u: "\<And>q. holder g s q \<Longrightarrow> q = p"
      using inv unfolding lock_inv_def by blast+
    note st = holds_step [OF 1 a d(1)]
    have C: "?C = lk_created s" using st(2) by simp
    have fin: "finished m \<Longrightarrow> waits g p m C \<and> \<not> holds g p m" for m C by (auto simp: finished_iff)
    show ?thesis
    proof (rule lock_inv_update [OF inv s'])
      show "phase_ok g ?s' p" using st(1) fin po by blast
      show "dir' \<noteq> None \<and> p \<in> ?C \<and> (\<forall>q. q \<noteq> p \<longrightarrow> \<not> holder g s q)" if "holder g ?s' p"
        using that st(1) fin ho u d C by metis
      show "dir' \<noteq> None" if "q' \<noteq> p" "holder g s q'" for q' using that u by blast
      show "\<exists>c \<in> ?C. t = owner_record (st_host g c)" if "dir' = Some (Some t)" for t
        using that st(1) d inv C unfolding lock_inv_def by (metis option.distinct(1) option.inject)
    qed (use C in auto)
  next
    case 2
    have alive: "pid_alive s (JNum (of_nat c))" if "c \<in> lk_created s" for c
      using that inv live unfolding lock_inv_def pid_alive_def is_running_def by (auto split: phase.splits)
    have recs: "\<exists>c \<in> lk_created s. t = owner_record (st_host g c)" if "lk_dir s = Some (Some t)" for t
      using inv that unfolding lock_inv_def by blast
    have "path_dirname (st_dir g) \<noteq> st_dir g" using ok by (simp add: setting_ok_def)
    note st = waits_step [OF 2 a alive recs this]
    have nh: "\<not> holder g s p" using not_holder_waits ph 2 by blast
    show ?thesis
    proof (rule lock_inv_update [OF inv s'])
      show "phase_ok g ?s' p" using st po by auto
      show "dir' \<noteq> None \<and> p \<in> ?C \<and> (\<forall>q. q \<noteq> p \<longrightarrow> \<not> holder g s q)" if h: "holder g ?s' p"
      proof -
        have excl: "\<not> (waits g p m C \<and> holds g p m)" for m C
          by (cases m) (auto simp: waiting_op_def split: if_splits)
        have "holds g p (k r)" using h ho by simp
        then have "q = Mkdir (st_dir g) False \<and> r = ROk" "lk_dir s = None" "dir' = Some None"
          using st excl by blast+
        then show ?thesis using inv unfolding lock_inv_def by auto
      qed
      show "dir' \<noteq> None" if "q' \<noteq> p" "holder g s q'" for q'
        using that st inv unfolding lock_inv_def by auto
      show "\<exists>c \<in> ?C. t = owner_record (st_host g c)" if "dir' = Some (Some t)" for t
        using that st recs by auto
    qed auto
  qed
qed

lemma lock_inv_phase:
  assumes inv: "lock_inv g s" and s': "s' = set_phase p ph s" and ph: "ph \<noteq> Idle"
    and ok: "phase_ok g s' p" and mine: "holder g s' p \<Longrightarrow> holder g s p"
  shows "lock_inv g s'"
proof (rule lock_inv_update [OF inv _ _ _ ok ph])
  show "s' = set_phase p ph (s\<lparr>lk_dir := lk_dir s, lk_created := lk_created s\<rparr>)" using s' by simp
qed (use inv mine in \<open>unfold lock_inv_def, blast+\<close>)

lemma set_phase_simps [simp]:
  "lk_phase (set_phase p ph s) q = (if q = p then ph else lk_phase s q)"
  "lk_dir (set_phase p ph s) = lk_dir s" "lk_created (set_phase p ph s) = lk_created s"
  by (simp_all add: set_phase_def)

lemma lock_inv_step:
  assumes "lock_step g s s'" "lock_inv g s" "\<forall>c \<in> lk_created s. lk_phase s c \<noteq> Gone" "setting_ok g"
  shows "lock_inv g s'"
  using assms
proof cases
  case (start p)
  show ?thesis
  proof (rule lock_inv_phase [OF assms(2) start(1)])
    show "phase_ok g s' p" by (simp add: start phase_ok_def waits_acquirer [OF assms(4)])
    show "holder g s' p \<Longrightarrow> holder g s p"
      by (simp add: start holder_def acquirer_def acquire_at_def make_dir_def)
  qed simp
next
  case (acquiring p q k r dir')
  then show ?thesis using lock_inv_acquiring assms(2-4) by simp
next
  case (enter p)
  have "phase_ok g s p" using assms(2) by (simp add: lock_inv_def)
  then have h: "holder g s p" by (simp add: enter phase_ok_def holder_def)
  show ?thesis
    by (rule lock_inv_phase [OF assms(2) enter(1)]) (use h in \<open>simp_all add: enter phase_ok_def holder_def\<close>)
next
  case (refused p e)
  show ?thesis
    by (rule lock_inv_phase [OF assms(2) refused(1)]) (simp_all add: refused phase_ok_def holder_def)
next
  case (leave p)
  show ?thesis
    by (rule lock_inv_phase [OF assms(2) leave(1)])
      (simp_all add: leave phase_ok_def holder_def)
next
  case (releasing p q k r dir')
  have "phase_ok g s p" using assms(2) by (simp add: lock_inv_def)
  then have q: "q = Rm (st_dir g)" "k = unit_response"
    by (simp_all add: releasing phase_ok_def release_def remove_def finished_iff)
  have h: "holder g s p" by (simp add: releasing holder_def finished_iff)
  have r: "r = ROk" "dir' = None" using releasing(3) by (simp_all add: q answers_def lock_answer_def)
  show ?thesis
  proof (rule lock_inv_update [OF assms(2)])
    show "s' = set_phase p (Release (Ret ())) (s\<lparr>lk_dir := None, lk_created := lk_created s\<rparr>)"
      by (simp add: releasing q r operate_def unit_response_def)
    show "phase_ok g s' p" by (simp add: releasing q r phase_ok_def unit_response_def)
    show "q' \<noteq> p \<Longrightarrow> holder g s q' \<Longrightarrow> None \<noteq> None" for q'
      using h assms(2) unfolding lock_inv_def by blast
  qed (auto simp: releasing q r holder_def unit_response_def)
next
  case (exit_ok p)
  show ?thesis
    by (rule lock_inv_phase [OF assms(2) exit_ok(1)]) (simp_all add: exit_ok phase_ok_def holder_def)
next
  case (exit_error p e)
  show ?thesis
    by (rule lock_inv_phase [OF assms(2) exit_error(1)]) (simp_all add: exit_error phase_ok_def holder_def)
qed

lemma lock_step_monotone:
  assumes "lock_step g s s'"
  shows "lk_created s \<subseteq> lk_created s'" and "lk_phase s q = Gone \<Longrightarrow> lk_phase s' q = Gone"
  using assms by (induction rule: lock_step.induct) (auto simp: operate_def)

lemma lock_reach_inv:
  assumes "lock_reach g s" "setting_ok g" "\<forall>c \<in> lk_created s. lk_phase s c \<noteq> Gone"
  shows "lock_inv g s"
  using assms
proof (induction rule: lock_reach.induct)
  case reach_init
  then show ?case by (simp add: lock_inv_def no_lock_def phase_ok_def holder_def)
next
  case (reach_step s s')
  have "\<forall>c \<in> lk_created s. lk_phase s c \<noteq> Gone"
    using reach_step.prems(2) lock_step_monotone [OF reach_step.hyps(2)] by blast
  then show ?case using reach_step lock_inv_step by blast
qed

section \<open>Schedules\<close>

text \<open>An executable run: who moves, and the response of an operation outside the directory.\<close>

datatype move = Start | Do resp | Enter | Leave | Exit

fun move_step :: "setting \<Rightarrow> nat \<Rightarrow> move \<Rightarrow> lock_sys \<Rightarrow> lock_sys option" where
  "move_step g p Start s = (case lk_phase s p of
     Idle \<Rightarrow> Some (set_phase p (Acquire (acquirer g p)) s) | _ \<Rightarrow> None)"
| "move_step g p (Do r0) s = (case lk_phase s p of
     Acquire (Op q k) \<Rightarrow> (case lock_answer (st_dir g) (pid_alive s) q (lk_dir s) of
         Some (r, dir') \<Rightarrow> Some (set_phase p (Acquire (k r)) (operate (st_dir g) p q r dir' s))
       | None \<Rightarrow> Some (set_phase p (Acquire (k r0)) (operate (st_dir g) p q r0 (lk_dir s) s)))
   | Release (Op q k) \<Rightarrow> (case lock_answer (st_dir g) (pid_alive s) q (lk_dir s) of
         Some (r, dir') \<Rightarrow> Some (set_phase p (Release (k r)) (operate (st_dir g) p q r dir' s))
       | None \<Rightarrow> Some (set_phase p (Release (k r0)) (operate (st_dir g) p q r0 (lk_dir s) s)))
   | _ \<Rightarrow> None)"
| "move_step g p Enter s = (case lk_phase s p of Acquire (Ret x) \<Rightarrow> Some (set_phase p Critical s) | _ \<Rightarrow> None)"
| "move_step g p Leave s = (case lk_phase s p of
     Critical \<Rightarrow> Some (set_phase p (Release (release (st_dir g))) s) | _ \<Rightarrow> None)"
| "move_step g p Exit s = (case lk_phase s p of Release (Ret x) \<Rightarrow> Some (set_phase p Gone s) | _ \<Rightarrow> None)"

fun run_schedule :: "setting \<Rightarrow> (nat \<times> move) list \<Rightarrow> lock_sys \<Rightarrow> lock_sys option" where
  "run_schedule g [] s = Some s"
| "run_schedule g ((p, m) # ms) s = (case move_step g p m s of None \<Rightarrow> None | Some s' \<Rightarrow> run_schedule g ms s')"

lemma move_step_lock_step: "move_step g p m s = Some s' \<Longrightarrow> lock_step g s s'"
  by (cases "(g, p, m, s)" rule: move_step.cases)
    (auto split: phase.splits io.splits option.splits intro: lock_step.intros
      intro!: acquiring releasing simp: answers_def)

lemma run_schedule_reach:
  "run_schedule g ms s = Some s' \<Longrightarrow> lock_reach g s \<Longrightarrow> lock_reach g s'"
proof (induction g ms s rule: run_schedule.induct)
  case (2 g p m ms s)
  then show ?case
    by (auto split: option.splits intro: reach_step move_step_lock_step)
qed simp

definition main_branch :: resp where
  "main_branch = RProc (Some 0) ''main'' []"

text \<open>Process 1 reads owner 0; 0 releases and ends; 2 acquires; 1 finds 0 gone and takes over.\<close>

definition race_schedule :: "(nat \<times> move) list" where
  "race_schedule =
     [(0, Start), (0, Do ROk), (0, Do ROk), (0, Do ROk), (0, Do main_branch), (0, Enter),
      (1, Start), (1, Do ROk), (1, Do ROk), (1, Do ROk),
      (0, Leave), (0, Do ROk), (0, Exit),
      (2, Start), (2, Do ROk), (2, Do ROk), (2, Do ROk), (2, Do main_branch), (2, Enter),
      (1, Do ROk), (1, Do ROk), (1, Do ROk), (1, Do ROk), (1, Do main_branch), (1, Enter)]"

lemmas schedule_simps = no_lock_def acquirer_def acquire_at_def createLock_def holding_def lock_body_def
  read_owner_def probe_owner_def takeover_def release_def op_defs git_def git_env_def lock_answer_def
  operate_def pid_alive_def is_running_def main_branch_def throw_ifI_def liftI_def

lemma setting_ok_facts:
  assumes "setting_ok g"
  shows "h_json (st_host g p) (owner_record (st_host g q)) = Inr (owner_value (st_host g q))"
    and "js_get (owner_value (st_host g p)) ''pid'' = Inr (JNum (of_nat p))"
    and "path_dirname (st_dir g) \<noteq> st_dir g" and "st_dir g \<noteq> path_dirname (st_dir g)"
  using assms by (auto simp: setting_ok_def owner_value_def)

lemma trim_main: "js_trim ''main'' = ''main''"
  by code_simp

text \<open>A first process acquires; nothing else happened.\<close>

lemma single_run:
  assumes "setting_ok g" "st_main g" "\<not> st_clean g"
  shows "\<exists>s. run_schedule g (take 6 race_schedule) no_lock = Some s \<and> lk_phase s 0 = Critical \<and> lk_created s = {0}"
  unfolding race_schedule_def
  by (simp add: schedule_simps setting_ok_facts [OF assms(1)] trim_main assms(2,3))

lemma race_run:
  assumes "setting_ok g" "st_main g" "\<not> st_clean g"
  shows "\<exists>s. run_schedule g race_schedule no_lock = Some s \<and> lk_phase s 1 = Critical \<and> lk_phase s 2 = Critical"
  unfolding race_schedule_def
  by (simp add: schedule_simps setting_ok_facts [OF assms(1)] trim_main assms(2,3))

lemma holders_unique:
  assumes "lock_reach g s" "setting_ok g" "\<forall>c \<in> lk_created s. lk_phase s c \<noteq> Gone"
    and "lk_phase s p = Critical" "lk_phase s q = Critical"
  shows "p = q"
proof -
  have "holder g s p" "holder g s q" using assms(4,5) by (simp_all add: holder_def)
  then show ?thesis using lock_reach_inv [OF assms(1-3)] unfolding lock_inv_def by blast
qed

end
