(* ===== verification/Safety_Contract.thy ===== *)
theory Safety_Contract
  imports View
begin

text \<open>
  The safety contract of a Task that changes no product artifact (scripts/task/check-task.mjs):
  the version 2 path declarations of its plan (\<open>validateSafetyContractPlan\<close>) and the evidence
  a done Task needs (\<open>checkSafetyContractDone\<close>).  The task id that prefixes every message is
  left out of the model's messages.
\<close>

section \<open>Constants\<close>

definition CHANGE_CLASSES :: "jsval list" where
  "CHANGE_CLASSES = [JStr ''product'', JStr ''safety_contract'']"

text \<open>\<open>SAFETY_CONTRACT_PATHS.some((pattern) => pattern.test(p))\<close>\<close>

definition safety_contract_path :: "string \<Rightarrow> bool" where
  "safety_contract_path p \<longleftrightarrow> p = ''AGENTS.md'' \<or> starts_with p ''.agents/skills/''
     \<or> starts_with p ''docs/development/'' \<or> p = ''docs/glossary.yml'' \<or> starts_with p ''templates/task/''"

definition SAFETY_CONTRACT_GENERATED_PATHS :: "string list" where
  "SAFETY_CONTRACT_GENERATED_PATHS = [''docs/99-glossary-index.md'']"

definition SAFETY_CONTRACT_V2_FIELDS :: "string list" where
  "SAFETY_CONTRACT_V2_FIELDS = [''safety_contract_planned_paths'', ''safety_contract_generated_paths'']"

definition SAFETY_CHECK_KEYS :: "string list" where
  "SAFETY_CHECK_KEYS = [''process_tests'', ''contract_scope'', ''docs_lint'', ''make_check'']"

text \<open>
  The tokens of \<open>SAFETY_CONTRACT_EXCLUSION\<close>, in the order the pattern asks for them on one
  line.  Its optional groups sit between \<open>[^\n]*\<close> and the last token, so they never decide
  whether it matches.
\<close>

definition EXCLUSION_TOKENS :: "string list list" where
  "EXCLUSION_TOKENS =
    [[[CHR 0xE8, CHR 0xA3, CHR 0xBD, CHR 0xE5, CHR 0x93, CHR 0x81, CHR 0xE3, CHR 0x82, CHR 0xB3, CHR 0xE3, CHR 0x83, CHR 0xBC, CHR 0xE3, CHR 0x83, CHR 0x89]],
     [''test'', [CHR 0xE3, CHR 0x83, CHR 0x86, CHR 0xE3, CHR 0x82, CHR 0xB9, CHR 0xE3, CHR 0x83, CHR 0x88]],
     [''runtime/build'' @ [CHR 0xE8, CHR 0xA8, CHR 0xAD, CHR 0xE5, CHR 0xAE, CHR 0x9A]],
     [''Schema''],
     [[CHR 0xE8, CHR 0xA3, CHR 0xBD, CHR 0xE5, CHR 0x93, CHR 0x81, CHR 0xE4, CHR 0xBE, CHR 0x9D, CHR 0xE5, CHR 0xAD, CHR 0x98]],
     [[CHR 0xE6, CHR 0x8C, CHR 0x99, CHR 0xE5, CHR 0x8B, CHR 0x95]]]"

definition safety_contract_exclusion :: "string \<Rightarrow> bool" where
  "safety_contract_exclusion s = list_ex (seq_search EXCLUSION_TOKENS) (split_char newline s)"

definition LEGACY_EXCLUSION_TEXT :: string where
  "LEGACY_EXCLUSION_TEXT =
     [CHR 0xE8, CHR 0xA3, CHR 0xBD, CHR 0xE5, CHR 0x93, CHR 0x81, CHR 0xE3, CHR 0x82, CHR 0xB3, CHR 0xE3, CHR 0x83, CHR 0xBC, CHR 0xE3, CHR 0x83, CHR 0x89, CHR 0xE3, CHR 0x80, CHR 0x81, CHR 0xE8, CHR 0xA3, CHR 0xBD, CHR 0xE5, CHR 0x93, CHR 0x81] @ ''test'' @ [CHR 0xE3, CHR 0x80, CHR 0x81] @ ''runtime/build'' @ [CHR 0xE8, CHR 0xA8, CHR 0xAD, CHR 0xE5, CHR 0xAE, CHR 0x9A, CHR 0xE3, CHR 0x80, CHR 0x81, CHR 0xE8, CHR 0xA3, CHR 0xBD, CHR 0xE5, CHR 0x93, CHR 0x81] @ ''Schema'' @ [CHR 0xE3, CHR 0x80, CHR 0x81, CHR 0xE8, CHR 0xA3, CHR 0xBD, CHR 0xE5, CHR 0x93, CHR 0x81, CHR 0xE4, CHR 0xBE, CHR 0x9D, CHR 0xE5, CHR 0xAD, CHR 0x98, CHR 0xE3, CHR 0x80, CHR 0x81, CHR 0xE8, CHR 0xA3, CHR 0xBD, CHR 0xE5, CHR 0x93, CHR 0x81, CHR 0xE6, CHR 0x8C, CHR 0x99, CHR 0xE5, CHR 0x8B, CHR 0x95]"

definition legacy_task_0024_exclusion :: "string \<Rightarrow> bool" where
  "legacy_task_0024_exclusion s = contains s LEGACY_EXCLUSION_TEXT"

section \<open>The declared paths\<close>

record plan_contract =
  pc_errors :: "js_error list"
  pc_version :: jsval
  pc_planned :: "jsval list"
  pc_generated :: "jsval list"

definition contract_result :: "js_error list \<Rightarrow> jsval \<Rightarrow> jsval list \<Rightarrow> jsval list \<Rightarrow> plan_contract" where
  "contract_result es ver ps gs = \<lparr>pc_errors = es, pc_version = ver, pc_planned = ps, pc_generated = gs\<rparr>"

text \<open>The first item whose first index is another one (\<open>indexOf\<close> compares with \<open>===\<close>).\<close>

fun duplicate_item :: "jsval list \<Rightarrow> jsval list \<Rightarrow> jsval option" where
  "duplicate_item seen [] = None"
| "duplicate_item seen (x # xs) =
     (if list_ex (\<lambda>s. js_seq s x) seen then Some x else duplicate_item (seen @ [x]) xs)"

definition declared_path_errors :: "string \<Rightarrow> (string \<Rightarrow> bool) \<Rightarrow> jsval list \<Rightarrow> js_error list" where
  "declared_path_errors field allowed paths = concat (map (\<lambda>candidate.
     if \<not> isRepositoryFilePath candidate
     then [Err ''contains an invalid repository file path'' [JStr field, candidate]]
     else if \<not> allowed (js_string candidate)
     then [Err ''contains an unapproved path'' [JStr field, candidate]]
     else []) paths)"

text \<open>One field of version 2: the error when it is no array, and its items.\<close>

definition v2_field :: "jsval \<Rightarrow> string \<Rightarrow> js_error list \<times> jsval list" where
  "v2_field plan field =
     (if \<not> own_key plan field \<or> \<not> is_array (js_field plan field)
      then ([Err ''safety_contract v2 requires an array'' [JStr field]], [])
      else ([], arr_items (js_field plan field)))"

definition v2_contract :: "jsval \<Rightarrow> plan_contract" where
  "v2_contract plan =
     (let planned = v2_field plan ''safety_contract_planned_paths'';
          generated = v2_field plan ''safety_contract_generated_paths'';
          plannedPaths = snd planned; generatedPaths = snd generated in
      contract_result
        (fst planned @ fst generated
         @ declared_path_errors ''safety_contract_planned_paths'' safety_contract_path plannedPaths
         @ declared_path_errors ''safety_contract_generated_paths''
             (\<lambda>p. p \<in> set SAFETY_CONTRACT_GENERATED_PATHS) generatedPaths
         @ (case duplicate_item [] (plannedPaths @ generatedPaths) of
              None \<Rightarrow> []
            | Some d \<Rightarrow> [Err ''safety_contract v2 path declarations contain a duplicate'' [d]]))
        (JNum 2) plannedPaths generatedPaths)"

definition validateSafetyContractPlan :: "jsval \<Rightarrow> jsval \<Rightarrow> plan_contract res" where
  "validateSafetyContractPlan plan changeClass =
     bindR (has_own plan ''safety_contract_version'') (\<lambda>hasVersion.
     let presentV2Fields = filter (own_key plan) SAFETY_CONTRACT_V2_FIELDS in
     if changeClass \<noteq> JStr ''safety_contract'' then
       Inr (contract_result
         (if hasVersion \<or> presentV2Fields \<noteq> []
          then [Err ''safety_contract v2 fields require change_class safety_contract'' []] else [])
         JUndef [] [])
     else if \<not> hasVersion then
       Inr (contract_result
         (if presentV2Fields \<noteq> []
          then [Err ''safety_contract v2 path fields require safety_contract_version: 2'' []] else [])
         JUndef [] [])
     else if js_field plan ''safety_contract_version'' \<noteq> JNum 2 then
       Inr (contract_result
         [Err ''unsupported safety_contract_version'' [js_field plan ''safety_contract_version'']]
         (js_field plan ''safety_contract_version'') [] [])
     else Inr (v2_contract plan))"

lemma contract_result_simps [simp]:
  "pc_errors (contract_result es ver ps gs) = es" "pc_version (contract_result es ver ps gs) = ver"
  "pc_planned (contract_result es ver ps gs) = ps" "pc_generated (contract_result es ver ps gs) = gs"
  by (simp_all add: contract_result_def)

lemma v2_field_ok: "fst (v2_field plan f) = [] \<longleftrightarrow> js_field plan f = JArr (snd (v2_field plan f))"
  by (cases plan; cases "js_field plan f") (auto simp: v2_field_def image_iff split: option.splits dest!: map_of_SomeD)

lemma declared_path_errors_Nil:
  "declared_path_errors field allowed paths = [] \<longleftrightarrow>
     (\<forall>c \<in> set paths. isRepositoryFilePath c \<and> allowed (js_string c))"
  unfolding declared_path_errors_def by (induction paths) simp_all

lemma duplicate_item_None:
  "\<forall>x \<in> set (seen @ xs). is_string x \<Longrightarrow> duplicate_item seen xs = None \<longleftrightarrow>
     distinct xs \<and> set seen \<inter> set xs = {}"
proof (induction seen xs rule: duplicate_item.induct)
  case (1 seen)
  then show ?case by simp
next
  case (2 seen x xs)
  have x: "list_ex (\<lambda>s. js_seq s x) seen \<longleftrightarrow> x \<in> set seen"
    using "2.prems" by (auto simp: list_ex_iff is_string_iff dest: js_seq_eq)
  show ?case
  proof (cases "x \<in> set seen")
    case True
    with x show ?thesis by auto
  next
    case False
    with x "2.IH" "2.prems" show ?thesis by auto
  qed
qed

lemma repository_paths_strings: "\<forall>c \<in> set ps. isRepositoryFilePath c \<Longrightarrow> \<forall>c \<in> set ps. is_string c"
  using isRepositoryFilePath_segs by fastforce

text \<open>A plan of version 2 without errors declares distinct repository files, the planned
  ones inside the contract's directories.\<close>

lemma validateSafetyContractPlan_v2:
  assumes "validateSafetyContractPlan plan changeClass = Inr pc"
    and "pc_version pc = JNum 2" and "pc_errors pc = []"
  shows "changeClass = JStr ''safety_contract''"
    and "distinct (pc_planned pc @ pc_generated pc)"
    and "\<forall>c \<in> set (pc_planned pc). isRepositoryFilePath c \<and> safety_contract_path (js_string c)"
    and "\<forall>c \<in> set (pc_generated pc). isRepositoryFilePath c
           \<and> js_string c \<in> set SAFETY_CONTRACT_GENERATED_PATHS"
    and "js_field plan ''safety_contract_planned_paths'' = JArr (pc_planned pc)"
    and "js_field plan ''safety_contract_generated_paths'' = JArr (pc_generated pc)"
proof -
  obtain hv where hv: "has_own plan ''safety_contract_version'' = Inr hv"
    using assms(1) by (auto simp: validateSafetyContractPlan_def bindR_Inr_iff)
  have both: "changeClass = JStr ''safety_contract'' \<and> pc = v2_contract plan"
    using assms(1,2) unfolding validateSafetyContractPlan_def hv bindR_simps Let_def
    by (auto split: if_splits)
  then show "changeClass = JStr ''safety_contract''" by simp
  from both have pc: "pc = v2_contract plan" by simp
  let ?pl = "v2_field plan ''safety_contract_planned_paths''"
  let ?ge = "v2_field plan ''safety_contract_generated_paths''"
  have ps: "pc_planned pc = snd ?pl" "pc_generated pc = snd ?ge"
    by (simp_all add: pc v2_contract_def Let_def)
  have es: "fst ?pl = []" "fst ?ge = []"
    and pe: "declared_path_errors ''safety_contract_planned_paths'' safety_contract_path (snd ?pl) = []"
    and gg: "declared_path_errors ''safety_contract_generated_paths''
      (\<lambda>p. p \<in> set SAFETY_CONTRACT_GENERATED_PATHS) (snd ?ge) = []"
    and du: "duplicate_item [] (snd ?pl @ snd ?ge) = None"
    using assms(3) by (simp_all add: pc v2_contract_def Let_def split: option.splits)
  show p: "\<forall>c \<in> set (pc_planned pc). isRepositoryFilePath c \<and> safety_contract_path (js_string c)"
    using pe unfolding ps declared_path_errors_Nil .
  show g: "\<forall>c \<in> set (pc_generated pc). isRepositoryFilePath c
      \<and> js_string c \<in> set SAFETY_CONTRACT_GENERATED_PATHS"
    using gg unfolding ps declared_path_errors_Nil .
  have "\<forall>c \<in> set (pc_planned pc @ pc_generated pc). isRepositoryFilePath c"
    using p g by auto
  then have "\<forall>c \<in> set ([] @ pc_planned pc @ pc_generated pc). is_string c"
    unfolding append_Nil by (rule repository_paths_strings)
  from duplicate_item_None [OF this] du show "distinct (pc_planned pc @ pc_generated pc)"
    unfolding ps by simp
  show "js_field plan ''safety_contract_planned_paths'' = JArr (pc_planned pc)"
    and "js_field plan ''safety_contract_generated_paths'' = JArr (pc_generated pc)"
    using es unfolding ps v2_field_ok by simp_all
qed

section \<open>Git evidence of a done Task\<close>

text \<open>\<open>git rev-list --parents -n 1 c\<close>: the commit and its parents.\<close>

definition rev_parents :: "view \<Rightarrow> string \<Rightarrow> string \<Rightarrow> string list res" where
  "rev_parents v repo c = bindR (vw_git v repo [''rev-list'', ''--parents'', ''-n'', ''1'', c])
     (\<lambda>out. Inr (split_char (CHR '' '') out))"

definition first_parent_merges :: "view \<Rightarrow> string \<Rightarrow> string \<Rightarrow> string list res" where
  "first_parent_merges v repo branch =
     bindR (vw_git v repo [''rev-list'', ''--first-parent'', ''--merges'', branch]) (\<lambda>out. Inr (lines_of out))"

definition commit_object :: "string \<Rightarrow> string" where
  "commit_object c = c @ ''^{commit}''"

definition commit_range :: "string \<Rightarrow> string \<Rightarrow> string" where
  "commit_range a b = a @ ''..'' @ b"

text \<open>\<open>MERGE_HEAD\<close>, \<open>None\<close> in the normal committed state.\<close>

definition merge_in_progress :: "view \<Rightarrow> string \<Rightarrow> string option" where
  "merge_in_progress v repo = (case vw_git v repo [''rev-parse'', ''MERGE_HEAD''] of Inl _ \<Rightarrow> None | Inr m \<Rightarrow> Some m)"

text \<open>The first parent of the merge that brought the candidate to the main branch, or that is
  about to.\<close>

definition safety_first_parent :: "view \<Rightarrow> string \<Rightarrow> string \<Rightarrow> string \<Rightarrow> string res" where
  "safety_first_parent v repo branch candidate =
     (case merge_in_progress v repo of
        Some m \<Rightarrow>
          (if has_space m \<or> m \<noteq> candidate then Inl (Err ''MERGE_HEAD is not the HANDOVER candidate'' [])
           else vw_git v repo [''rev-parse'', ''HEAD''])
      | None \<Rightarrow>
          bindR (first_parent_merges v repo branch) (\<lambda>merges.
          bindR (map_R (rev_parents v repo) merges) (\<lambda>all_parents.
            case filter (\<lambda>ps. item ps 2 = Some candidate) all_parents of
              [ps] \<Rightarrow>
                (if length ps \<noteq> 3
                 then Inl (Err ''no unique main exact two-parent no-ff merge has HANDOVER candidate as its second parent'' [])
                 else Inr (ps ! 1))
            | _ \<Rightarrow> Inl (Err ''no unique main exact two-parent no-ff merge has HANDOVER candidate as its second parent'' []))))"

text \<open>One line of \<open>git diff --name-status\<close>: the status and the paths after it.\<close>

definition diff_entry_ok :: "string list \<Rightarrow> bool" where
  "diff_entry_ok entry = (case entry of
     [status, p] \<Rightarrow> status = ''A'' \<or> status = ''M'' \<or> status = ''D''
   | _ \<Rightarrow> False)"

definition entry_path :: "string list \<Rightarrow> string" where
  "entry_path entry = (case item entry 1 of Some p \<Rightarrow> p | None \<Rightarrow> ''undefined'')"

definition entry_status :: "string list \<Rightarrow> string" where
  "entry_status entry = (case entry of s # _ \<Rightarrow> s | [] \<Rightarrow> [])"

text \<open>The status a path has in \<open>new Map(entries)\<close>: its last entry wins.\<close>

definition status_of :: "string list list \<Rightarrow> jsval \<Rightarrow> string" where
  "status_of entries p = (case map_of (rev (map (\<lambda>e. (JStr (entry_path e), entry_status e)) entries)) p of
     None \<Rightarrow> [] | Some s \<Rightarrow> s)"

definition check_changed_entries :: "plan_contract \<Rightarrow> string list list \<Rightarrow> unit res" where
  "check_changed_entries pc entries =
     (if entries = [] \<or> \<not> list_all diff_entry_ok entries
      then Inl (Err ''safety_contract includes a product or unapproved path'' [])
      else if pc_version pc = JNum 2 \<and> pc_errors pc = [] then
        (case List.find (\<lambda>e. JStr (entry_path e) \<notin> set (pc_planned pc @ pc_generated pc)) entries of
           Some e \<Rightarrow> Inl (Err ''safety_contract candidate diff includes an undeclared path'' [JStr (entry_path e)])
         | None \<Rightarrow>
           (case List.find (\<lambda>p. CHR ''A'' \<notin> set (status_of entries p) \<and> CHR ''M'' \<notin> set (status_of entries p))
                   (pc_generated pc) of
              Some p \<Rightarrow> Inl (Err ''declared generated path is missing from the candidate diff'' [p])
            | None \<Rightarrow> Inr ()))
      else throw_if (list_ex (\<lambda>e. \<not> safety_contract_path (entry_path e)) entries)
             (Err ''safety_contract includes a product or unapproved path'' []))"

definition safety_git_evidence :: "view \<Rightarrow> string \<Rightarrow> plan_contract \<Rightarrow> string \<Rightarrow> unit res" where
  "safety_git_evidence v rootdir pc candidate =
     bindR (readYaml v (path_join rootdir ''project.yaml'')) (\<lambda>project.
     bindR (repositoryFor v rootdir) (\<lambda>repo.
     bindR (js_get project ''default_branch'') (\<lambda>db.
     let branch = js_string (coalesce db (JStr ''main'')) in
     bindR (vw_git v repo [''cat-file'', ''-e'', commit_object candidate]) (\<lambda>_.
     bindR (safety_first_parent v repo branch candidate) (\<lambda>firstParent.
     bindR (vw_git v repo [''merge-base'', firstParent, candidate]) (\<lambda>base.
     bindR (vw_git v repo [''rev-list'', ''--count'', commit_range base candidate]) (\<lambda>n.
       if count_of n \<noteq> Some 1
       then Inl (Err ''safety_contract candidate must be one commit after merge-base'' [])
       else bindR (vw_git v repo [''diff'', ''--name-status'', ''--find-renames'', ''--find-copies-harder'', base, candidate])
         (\<lambda>out. check_changed_entries pc (map (split_char (CHR 0x09)) (lines_of out))))))))))"

text \<open>Paths of a diff that passed: declared ones under version 2, contract directories else.\<close>

lemma entry_path_ok: "diff_entry_ok e \<Longrightarrow> \<exists>s p. e = [s, p] \<and> entry_path e = p"
  by (cases e; cases "tl e"; cases "tl (tl e)") (auto simp: diff_entry_ok_def entry_path_def)

lemma check_changed_entries_ok:
  assumes "check_changed_entries pc entries = Inr u" and "e \<in> set entries"
  shows "diff_entry_ok e"
    and "pc_version pc = JNum 2 \<and> pc_errors pc = [] \<Longrightarrow>
           JStr (entry_path e) \<in> set (pc_planned pc @ pc_generated pc)"
    and "\<not> (pc_version pc = JNum 2 \<and> pc_errors pc = []) \<Longrightarrow> safety_contract_path (entry_path e)"
  using assms
  by (auto simp: check_changed_entries_def list_all_iff list_ex_iff find_None_iff' simp del: set_append
      split: if_splits option.splits)

lemma check_changed_entries_generated:
  assumes "check_changed_entries pc entries = Inr u" "pc_version pc = JNum 2" "pc_errors pc = []"
    and "p \<in> set (pc_generated pc)"
  shows "CHR ''A'' \<in> set (status_of entries p) \<or> CHR ''M'' \<in> set (status_of entries p)"
  using assms
  by (auto simp: check_changed_entries_def find_None_iff' split: if_splits option.splits)

section \<open>\<open>checkSafetyContractDone\<close>\<close>

text \<open>\<open>safety_checks\<close> is an object with exactly the four keys, each \<open>"pass"\<close>.\<close>

definition safety_checks_passed :: "jsval \<Rightarrow> bool" where
  "safety_checks_passed checks \<longleftrightarrow>
     (let keys = (if is_plain_object checks then sort (obj_keys checks) else []) in
      length keys = length SAFETY_CHECK_KEYS
      \<and> keys = sort SAFETY_CHECK_KEYS
      \<and> list_all (\<lambda>k. js_field checks k = JStr ''pass'') SAFETY_CHECK_KEYS)"

definition approval_times_inconsistent :: "rat option list \<Rightarrow> bool" where
  "approval_times_inconsistent ts = (case ts of
     [Some a, Some b, Some c] \<Rightarrow> a > c \<or> b > c
   | _ \<Rightarrow> True)"

text \<open>The body up to the candidate check; it throws what reading a document throws.\<close>

definition safety_done_documents ::
  "view \<Rightarrow> jsval \<Rightarrow> jsval \<Rightarrow> string \<Rightarrow> jsval \<Rightarrow> jsval \<Rightarrow> jsval \<Rightarrow> js_error list res" where
  "safety_done_documents v task taskId taskContract plan qaPlan handover =
     bindR (js_get plan ''change_class'') (\<lambda>planClass.
     bindR (if planClass \<noteq> JStr ''safety_contract'' then Inr JUndef else js_get qaPlan ''change_class'') (\<lambda>qaClass.
     bindR (js_get qaPlan ''qa_agent'') (\<lambda>qaAgent.
     bindR (js_get handover ''safety_checks'') (\<lambda>checks.
     let assignees = js_field task ''assignees'';
         main = js_opt assignees ''main'' in
     Inr (
       (if \<not> safety_contract_exclusion taskContract
           \<and> \<not> (taskId = JStr ''TASK-0024'' \<and> legacy_task_0024_exclusion taskContract)
        then [Err ''safety_contract requires an explicit product-artifact exclusion in TASK.md'' []] else [])
       @ (if planClass \<noteq> JStr ''safety_contract'' \<or> qaClass \<noteq> JStr ''safety_contract''
          then [Err ''safety_contract change_class must match in PLAN.md and QA_PLAN.md'' []] else [])
       @ (if \<not> js_seq (js_field plan ''classification_approved_by'') main
             \<or> \<not> non_blank (js_field plan ''classification_approval_reason'')
             \<or> \<not> isTimestamp v (js_field plan ''classification_approved_at'')
          then [Err ''safety_contract classification requires approval by the assigned main Agent'' []] else [])
       @ (if \<not> js_seq qaAgent (js_opt assignees ''qa'') \<or> \<not> js_seq (js_field qaPlan ''approved_by'') main
          then [Err ''safety_contract requires a TASK-first QA PLAN approved by the assigned main Agent'' []] else [])
       @ (if approval_times_inconsistent
               (map (date_of v) [js_field plan ''approved_at'', js_field qaPlan ''approved_at'',
                  js_field plan ''classification_approved_at''])
          then [Err ''safety_contract approval timestamps are inconsistent'' []] else [])
       @ (if \<not> safety_checks_passed checks \<or> \<not> isTimestamp v (js_field handover ''safety_checked_at'')
          then [Err ''safety_contract requires the exact passed safety_checks and checked_at'' []] else []))))))"

definition checkSafetyContractDone ::
  "view \<Rightarrow> string \<Rightarrow> string \<Rightarrow> jsval \<Rightarrow> jsval \<Rightarrow> plan_contract \<Rightarrow> js_error list res" where
  "checkSafetyContractDone v rootdir taskDir task taskId pc =
     bindR (parseFrontmatter v (path_join taskDir ''PLAN.md'')) (\<lambda>plan.
     bindR (parseFrontmatter v (path_join taskDir ''QA_PLAN.md'')) (\<lambda>qaPlan.
     bindR (parseFrontmatter v (path_join taskDir ''HANDOVER.md'')) (\<lambda>handover.
     bindR (vw_read v (path_join taskDir ''TASK.md'')) (\<lambda>taskContract.
     bindR (safety_done_documents v task taskId taskContract plan qaPlan handover) (\<lambda>errors.
     let candidate = js_field handover ''candidate_commit'' in
       if js_field handover ''status'' = JStr ''safety_contract_complete''
          \<and> non_blank (js_field task ''merged_commit'')
       then Inr errors
       else if \<not> hex_string 40 (str_or_empty candidate)
       then Inr (errors @ [Err ''safety_contract done requires HANDOVER candidate_commit'' []])
       else Inr (errors @ (case safety_git_evidence v rootdir pc (js_string candidate) of
           Inr _ \<Rightarrow> []
         | Inl e \<Rightarrow> [Err ''safety_contract Git evidence is invalid'' [JStr (case e of Err m _ \<Rightarrow> m)]])))))))"

lemma safety_checks_passed_keys:
  assumes "safety_checks_passed checks"
  shows "is_plain_object checks" and "set (obj_keys checks) = set SAFETY_CHECK_KEYS"
    and "\<forall>k \<in> set SAFETY_CHECK_KEYS. js_field checks k = JStr ''pass''"
proof -
  show o: "is_plain_object checks"
    using assms by (auto simp: safety_checks_passed_def SAFETY_CHECK_KEYS_def Let_def split: if_splits)
  then have "sort (obj_keys checks) = sort SAFETY_CHECK_KEYS"
    using assms by (simp add: safety_checks_passed_def Let_def)
  then show "set (obj_keys checks) = set SAFETY_CHECK_KEYS"
    by (metis set_sort)
  show "\<forall>k \<in> set SAFETY_CHECK_KEYS. js_field checks k = JStr ''pass''"
    using assms by (simp add: safety_checks_passed_def Let_def list_all_iff)
qed

end
