(* ===== verification/Check_Task.thy ===== *)
theory Check_Task
  imports Safety_Contract
begin

text \<open>
  \<open>checkTask\<close> of scripts/task/check-task.mjs: the gate a Task of the backlog passes before its
  status may be \<open>dev\<close>, \<open>qa\<close> or \<open>done\<close>.  The body is one definition per block of the source,
  in its order: header, required files, plan contract and legacy detection, DEV gate, QA gate
  and done gate.  Messages are pushed in the order of the source, and the outer \<open>catch\<close> ends
  the list with the message of a throw (\<open>run_chk\<close>).  The prefix with the Task's id, which
  every message carries, is left out.
\<close>

section \<open>Legacy completion evidence\<close>

definition LEGACY_COMPLETION_FIELDS :: "string list" where
  "LEGACY_COMPLETION_FIELDS = [''merged_commit'', ''reviewed_commit'', ''tested_commit'',
     ''candidate_tree'', ''managed_path_digest'', ''bootstrap_evidence_commit'',
     ''bootstrap_evidence_digest'', ''merge_tree'']"

definition hasLegacyCompletionBinding :: "jsval \<Rightarrow> jsval \<Rightarrow> jsval \<Rightarrow> jsval \<Rightarrow> bool" where
  "hasLegacyCompletionBinding task review qa handover \<longleftrightarrow>
     list_ex (\<lambda>record. non_blank (js_opt record ''candidate_commit'')) [review, qa]
     \<or> list_ex (\<lambda>record. list_ex (\<lambda>field. non_blank (js_opt record field)) LEGACY_COMPLETION_FIELDS)
         [task, review, qa, handover]"

text \<open>Any throw of the body makes the binding \<open>false\<close>.\<close>

definition committed_evidence :: "view \<Rightarrow> string \<Rightarrow> jsval \<Rightarrow> jsval \<Rightarrow> string \<Rightarrow> jsval res" where
  "committed_evidence v rootdir taskId committedTask filename =
     bindR (vw_git v rootdir [''show'',
       ''HEAD:'' @ js_string (js_field committedTask ''task_dir'') @ ''/'' @ filename])
       (\<lambda>content. parseFrontmatterText v content (js_string taskId @ ''/'' @ filename))"

definition committed_legacy :: "view \<Rightarrow> string \<Rightarrow> jsval \<Rightarrow> bool res" where
  "committed_legacy v rootdir taskId =
     bindR (vw_git v rootdir [''rev-parse'', ''--is-inside-work-tree'']) (\<lambda>inside.
       if inside \<noteq> ''true'' then Inr False
       else bindR (vw_git v rootdir [''show'', ''HEAD:backlog.yaml'']) (\<lambda>text.
       bindR (vw_yaml v text) (\<lambda>committedBacklog.
       bindR (taskById committedBacklog taskId) (\<lambda>committedTask.
       bindR (committed_evidence v rootdir taskId committedTask ''REVIEW_RESULT.md'') (\<lambda>review.
       bindR (committed_evidence v rootdir taskId committedTask ''QA_RESULT.md'') (\<lambda>qa.
       bindR (committed_evidence v rootdir taskId committedTask ''HANDOVER.md'') (\<lambda>handover.
         Inr (hasLegacyCompletionBinding committedTask review qa handover))))))))"

definition committedLegacyCompletionBinding :: "view \<Rightarrow> string \<Rightarrow> jsval \<Rightarrow> bool" where
  "committedLegacyCompletionBinding v rootdir taskId =
     (case committed_legacy v rootdir taskId of Inl _ \<Rightarrow> False | Inr b \<Rightarrow> b)"

section \<open>Header, required files and legacy detection\<close>

definition change_class_of :: "jsval \<Rightarrow> jsval" where
  "change_class_of task = (let declared = js_field task ''change_class'' in
     if declared = JUndef then JStr ''product'' else declared)"

definition effective_phase :: "jsval \<Rightarrow> jsval" where
  "effective_phase task = (if js_field task ''status'' = JStr ''blocked''
     then js_field task ''resume_status'' else js_field task ''status'')"

definition check_header :: "jsval \<Rightarrow> jsval \<Rightarrow> string \<Rightarrow> unit jchk" where
  "check_header task taskId phase = (
     let status = js_field task ''status''; resume = js_field task ''resume_status'' in
     push_all (
       (if change_class_of task \<notin> set CHANGE_CLASSES
        then [Err ''change_class must be product or safety_contract'' []] else [])
       @ (if phase \<noteq> ''full'' \<and> phase \<noteq> ''preflight''
          then [Err ''unsupported check phase'' [JStr phase]] else [])
       @ (if status \<notin> JStr ` set TASK_STATUSES then [Err ''invalid status'' [status]] else [])
       @ (if status = JStr ''blocked'' \<and> resume \<notin> JStr ` {''plan'', ''dev'', ''qa''}
          then [Err ''blocked task requires resume_status plan, dev, or qa'' []] else [])
       @ (if status \<noteq> JStr ''blocked'' \<and> truthy resume
          then [Err ''resume_status is only allowed while blocked'' []] else [])
       @ (if truthy (js_field task ''bootstrap_exception'') \<and> taskId \<noteq> JStr ''TASK-0001''
          then [Err ''bootstrap_exception is reserved for TASK-0001'' []] else [])))"

definition check_required_file :: "view \<Rightarrow> string \<Rightarrow> jsval \<Rightarrow> string \<Rightarrow> unit jchk" where
  "check_required_file v taskDir taskId filename = (let file = path_join taskDir filename in
     if \<not> vw_exists v file then push_all [Err ''missing required file'' [JStr filename]]
     else bindC (liftC (parseFrontmatter v file)) (\<lambda>frontmatter.
          bindC (liftC (js_get frontmatter ''task_id'')) (\<lambda>tid.
          push_if (\<not> js_seq tid taskId) (Err ''mismatched task_id'' [JStr filename]))))"

text \<open>The working and the committed evidence, read inside the inner \<open>try\<close>.\<close>

definition working_legacy :: "view \<Rightarrow> string \<Rightarrow> jsval \<Rightarrow> bool res" where
  "working_legacy v taskDir task =
     bindR (parseFrontmatter v (path_join taskDir ''REVIEW_RESULT.md'')) (\<lambda>review.
     bindR (parseFrontmatter v (path_join taskDir ''QA_RESULT.md'')) (\<lambda>qa.
     bindR (parseFrontmatter v (path_join taskDir ''HANDOVER.md'')) (\<lambda>handover.
       Inr (hasLegacyCompletionBinding task review qa handover))))"

definition check_legacy :: "view \<Rightarrow> string \<Rightarrow> string \<Rightarrow> jsval \<Rightarrow> jsval \<Rightarrow> bool \<Rightarrow> bool jchk" where
  "check_legacy v rootdir taskDir task taskId safetyContract =
     (if safetyContract then okC False
      else if \<not> list_all (\<lambda>f. vw_exists v (path_join taskDir f))
                [''REVIEW_RESULT.md'', ''QA_RESULT.md'', ''HANDOVER.md''] then okC False
      else case working_legacy v taskDir task of
          Inl _ \<Rightarrow> okC False
        | Inr working \<Rightarrow>
            let committed = committedLegacyCompletionBinding v rootdir taskId in
            bindC (push_if (working \<and> \<not> committed)
                (Err ''legacy fields cannot be introduced by current change'' []))
              (\<lambda>_. okC committed))"

text \<open>What the gates after the preflight use.\<close>

record task_context =
  tc_task :: jsval
  tc_id :: jsval
  tc_safety :: bool
  tc_phase :: jsval
  tc_dir :: string
  tc_plan :: plan_contract
  tc_legacy :: bool

definition preflight :: "view \<Rightarrow> string \<Rightarrow> jsval \<Rightarrow> jsval \<Rightarrow> string \<Rightarrow> task_context jchk" where
  "preflight v rootdir backlog taskId phase =
     bindC (liftC (assertTaskId taskId)) (\<lambda>_.
     bindC (liftC (taskById backlog taskId)) (\<lambda>task.
     bindC (check_header task taskId phase) (\<lambda>_.
     bindC (liftC (resolveInside rootdir (js_field task ''task_dir'') (js_string taskId @ '' task_dir''))) (\<lambda>taskDir.
     bindC (each_C (check_required_file v taskDir taskId) REQUIRED_TASK_FILES) (\<lambda>_.
     bindC (liftC (parseFrontmatter v (path_join taskDir ''PLAN.md''))) (\<lambda>plan.
     bindC (liftC (validateSafetyContractPlan plan (change_class_of task))) (\<lambda>pc.
     bindC (push_all (pc_errors pc)) (\<lambda>_.
     let safety = (change_class_of task = JStr ''safety_contract'') in
     bindC (check_legacy v rootdir taskDir task taskId safety) (\<lambda>legacy.
     okC \<lparr>tc_task = task, tc_id = taskId, tc_safety = safety, tc_phase = effective_phase task,
       tc_dir = taskDir, tc_plan = pc, tc_legacy = legacy\<rparr>)))))))))"

section \<open>DEV gate\<close>

definition not_approved :: "jsval \<Rightarrow> bool" where
  "not_approved doc \<longleftrightarrow> js_field doc ''status'' \<noteq> JStr ''approved''
     \<or> \<not> truthy (js_field doc ''approved_by'') \<or> \<not> truthy (js_field doc ''approved_at'')"

definition check_dev_profile :: "jsval \<Rightarrow> jsval \<Rightarrow> js_error list" where
  "check_dev_profile task plan = (case validateDevSelection plan of
     Inl e \<Rightarrow> [e]
   | Inr selected \<Rightarrow>
       (let marker = (if selected = ''luna-xhigh'' then ''luna-xhigh'' else ''sol-high'') in
        if \<not> contains (str_or_empty (js_opt (js_field task ''assignees'') ''dev'')) marker
        then [Err ''assignees.dev must match approved DEV profile'' [JStr selected]] else []))"

text \<open>\<open>^prefix TASK-slug$\<close>\<close>

definition task_slug_path :: "string \<Rightarrow> string \<Rightarrow> string \<Rightarrow> bool" where
  "task_slug_path pre tid s \<longleftrightarrow> (let p = pre @ tid @ ''-'' in
     starts_with s p \<and> slug_string (drop (length p) s))"

text \<open>A record of \<open>git worktree list --porcelain\<close> that registers the branch at the path.\<close>

definition registers :: "view \<Rightarrow> string \<Rightarrow> string \<Rightarrow> string \<Rightarrow> bool" where
  "registers v branch assignedRealpath rec =
     (case List.find (\<lambda>l. starts_with l ''worktree '') (split_char newline rec) of
        None \<Rightarrow> False
      | Some line \<Rightarrow> contains rec (''branch refs/heads/'' @ branch)
          \<and> vw_realpath v (drop 9 line) = Inr assignedRealpath)"

definition check_worktree :: "view \<Rightarrow> string \<Rightarrow> jsval \<Rightarrow> jsval \<Rightarrow> unit res" where
  "check_worktree v rootdir task taskId =
     bindR (readYaml v (path_join rootdir ''project.yaml'')) (\<lambda>_.
     bindR (repositoryFor v rootdir) (\<lambda>repo.
     bindR (resolveInside rootdir (js_field task ''worktree'') (js_string taskId @ '' worktree'')) (\<lambda>assigned.
     bindR (vw_git v repo [''show-ref'', ''--verify'',
         ''refs/heads/'' @ js_string (js_field task ''branch'')]) (\<lambda>_.
     bindR (vw_git v repo [''worktree'', ''list'', ''--porcelain'']) (\<lambda>records.
     bindR (vw_realpath v assigned) (\<lambda>real.
       throw_if (\<not> vw_exists v assigned
         \<or> \<not> list_ex (registers v (js_string (js_field task ''branch'')) real)
              (split_str [newline, newline] records))
         (Err ''missing registered worktree'' [])))))))"

definition check_branch :: "view \<Rightarrow> string \<Rightarrow> jsval \<Rightarrow> jsval \<Rightarrow> js_error list" where
  "check_branch v rootdir task taskId = (
     let validBranch = task_slug_path ''task/'' (js_string taskId) (str_or_empty (js_field task ''branch''));
         validWorktree = task_slug_path ''worktrees/'' (js_string taskId) (str_or_empty (js_field task ''worktree''))
     in (if \<not> validBranch then [Err ''DEV gate requires a task branch'' []] else [])
      @ (if \<not> validWorktree then [Err ''DEV gate requires a task worktree'' []] else [])
      @ (if validBranch \<and> validWorktree \<and> \<not> vw_ci v \<and> \<not> is_ok (check_worktree v rootdir task taskId)
         then [Err ''assigned branch and worktree must exist in the product repository'' []] else []))"

definition DEV_ROLES :: "string list" where
  "DEV_ROLES = [''main'', ''planner'', ''dev'', ''reviewer'', ''qa'']"

definition check_assignees :: "jsval \<Rightarrow> jsval \<Rightarrow> jsval \<Rightarrow> js_error list" where
  "check_assignees assignees plan qaPlan =
     (if \<not> js_seq (js_field plan ''planner_agent'') (js_field assignees ''planner'')
         \<or> \<not> js_seq (js_field plan ''approved_by'') (js_field assignees ''main'')
      then [Err ''PLAN author and approver must match assigned Planner and main Agents'' []] else [])
     @ (if \<not> js_seq (js_field qaPlan ''qa_agent'') (js_field assignees ''qa'')
         \<or> \<not> js_seq (js_field qaPlan ''approved_by'') (js_field assignees ''main'')
      then [Err ''QA PLAN author and approver must match assigned QA and main Agents'' []] else [])
     @ (if js_seq (js_field assignees ''dev'') (js_field assignees ''reviewer'')
      then [Err ''DEV Agent and Reviewer Agent must be different'' []] else [])
     @ (if js_seq (js_field assignees ''dev'') (js_field assignees ''qa'')
      then [Err ''DEV Agent and QA Agent must be different'' []] else [])"

definition dev_gate_body :: "view \<Rightarrow> string \<Rightarrow> task_context \<Rightarrow> jsval \<Rightarrow> jsval \<Rightarrow> js_error list" where
  "dev_gate_body v rootdir c plan qaPlan = (
     let task = tc_task c;
         bootstrap = truthy (js_field task ''bootstrap_exception'');
         assignees = coalesce (js_field task ''assignees'') (JObj []) in
     (if \<not> bootstrap then check_dev_profile task plan else [])
     @ map (\<lambda>role. Err ''DEV gate requires an assignee'' [JStr role])
         (filter (\<lambda>role. \<not> truthy (js_field assignees role)) DEV_ROLES)
     @ (if \<not> bootstrap
        then check_assignees assignees plan qaPlan
          @ (if tc_phase c \<in> {JStr ''dev'', JStr ''qa''} then check_branch v rootdir task (tc_id c) else [])
        else []))"

definition dev_gate :: "view \<Rightarrow> string \<Rightarrow> task_context \<Rightarrow> unit jchk" where
  "dev_gate v rootdir c =
     (if tc_phase c \<notin> {JStr ''dev'', JStr ''qa'', JStr ''done''} then okC ()
      else bindC (liftC (parseFrontmatter v (path_join (tc_dir c) ''PLAN.md''))) (\<lambda>plan.
           bindC (liftC (parseFrontmatter v (path_join (tc_dir c) ''QA_PLAN.md''))) (\<lambda>qaPlan.
           bindC (liftC (js_get plan ''status'')) (\<lambda>_.
           bindC (push_if (not_approved plan) (Err ''DEV gate requires an approved PLAN.md'' [])) (\<lambda>_.
           bindC (liftC (js_get qaPlan ''status'')) (\<lambda>_.
           bindC (push_if (not_approved qaPlan) (Err ''DEV gate requires an approved QA_PLAN.md'' [])) (\<lambda>_.
           push_all (dev_gate_body v rootdir c plan qaPlan))))))))"

section \<open>QA gate\<close>

text \<open>\<open>/(?:DEV|make\s+check)/i\<close>\<close>

definition make_check_at :: "string \<Rightarrow> bool" where
  "make_check_at s \<longleftrightarrow> map lower_char (take 4 s) = ''make''
     \<and> trim_start (drop 4 s) \<noteq> drop 4 s
     \<and> map lower_char (take 5 (trim_start (drop 4 s))) = ''check''"

definition mentions_dev_check :: "string \<Rightarrow> bool" where
  "mentions_dev_check s \<longleftrightarrow> contains_ci s ''dev'' \<or> list_ex make_check_at (suffixes s)"

definition legacy_review :: "view \<Rightarrow> string \<Rightarrow> jsval \<Rightarrow> unit jchk" where
  "legacy_review v rootdir review = (
     let reviewed = js_field review ''reviewed_commit'' in
     bindC (liftC (js_get review ''decision'')) (\<lambda>decision.
     bindC (push_if (decision \<noteq> JStr ''pass'' \<or> js_field review ''make_check'' \<noteq> JStr ''pass'' \<or> \<not> truthy reviewed)
       (Err ''legacy QA gate requires review PASS, make check PASS, and reviewed_commit'' [])) (\<lambda>_.
     push_if (truthy reviewed \<and> \<not> is_ok (bindR (repositoryFor v rootdir)
         (\<lambda>repo. vw_git v repo [''cat-file'', ''-e'', commit_object (js_string reviewed)])))
       (Err ''reviewed_commit is not a product repository commit'' []))))"

definition candidate_review :: "view \<Rightarrow> string \<Rightarrow> jsval \<Rightarrow> unit jchk" where
  "candidate_review v taskDir review =
     bindC (liftC (js_get review ''decision'')) (\<lambda>decision.
     bindC (push_if (decision \<noteq> JStr ''pass'') (Err ''QA gate requires review PASS'' [])) (\<lambda>_.
     bindC (liftC (vw_read v (path_join taskDir ''REVIEW_RESULT.md''))) (\<lambda>text.
     push_if (\<not> contains_ci text ''candidate'' \<or> \<not> mentions_dev_check text)
       (Err ''REVIEW_RESULT must record candidate diff and DEV check audit'' []))))"

definition qa_gate :: "view \<Rightarrow> string \<Rightarrow> task_context \<Rightarrow> unit jchk" where
  "qa_gate v rootdir c =
     (if tc_phase c \<notin> {JStr ''qa'', JStr ''done''} \<or> tc_safety c then okC ()
      else let assignees = js_field (tc_task c) ''assignees'' in
        bindC (liftC (parseFrontmatter v (path_join (tc_dir c) ''REVIEW_RESULT.md''))) (\<lambda>review.
        bindC (liftC (parseFrontmatter v (path_join (tc_dir c) ''QA_RESULT.md''))) (\<lambda>_.
        bindC (liftC (parseFrontmatter v (path_join (tc_dir c) ''HANDOVER.md''))) (\<lambda>_.
        bindC (if tc_legacy c then legacy_review v rootdir review
               else candidate_review v (tc_dir c) review) (\<lambda>_.
        bindC (push_if (\<not> js_seq (js_field review ''reviewer_agent'') (js_opt assignees ''reviewer''))
          (Err ''REVIEW_RESULT reviewer_agent must match assignees.reviewer'' [])) (\<lambda>_.
        bindC (liftC (parseFrontmatter v (path_join (tc_dir c) ''QA_PLAN.md''))) (\<lambda>qaPlan.
        bindC (liftC (js_get qaPlan ''implementation_reviewed_at'')) (\<lambda>reviewed_at.
        bindC (push_if (\<not> truthy reviewed_at \<or> \<not> is_boolean (js_field qaPlan ''expectation_changed''))
          (Err ''QA gate requires the post-implementation QA PLAN review'' [])) (\<lambda>_.
        push_if (truthy (js_field qaPlan ''expectation_changed'')
            \<and> \<not> js_seq (js_field qaPlan ''expectation_change_approved_by'') (js_opt assignees ''main''))
          (Err ''changed QA expectations require approval by the assigned main Agent'' []))))))))))"

section \<open>Done gate\<close>

definition legacy_done_evidence :: "view \<Rightarrow> string \<Rightarrow> jsval \<Rightarrow> jsval \<Rightarrow> jsval \<Rightarrow> unit res" where
  "legacy_done_evidence v rootdir task qa review = (
     let merged = js_field task ''merged_commit''; tested = js_field qa ''tested_commit'' in
     bindR (repositoryFor v rootdir) (\<lambda>repo.
     bindR (readYaml v (path_join rootdir ''project.yaml'')) (\<lambda>project.
     bindR (vw_git v repo [''cat-file'', ''-e'', commit_object (js_string merged)]) (\<lambda>_.
     bindR (js_get project ''default_branch'') (\<lambda>branch.
     bindR (vw_git v repo [''merge-base'', ''--is-ancestor'', js_string merged, js_string branch]) (\<lambda>_.
     bindR (rev_parents v repo (js_string merged)) (\<lambda>ps.
     bindR (if truthy (js_field task ''bootstrap_exception'')
            then throw_if (\<not> js_seq (js_field review ''reviewed_commit'') merged)
                   (Err ''bootstrap merged_commit mismatch'' [])
            else throw_if (case ps of
                   [m, first, second] \<Rightarrow> JStr m \<noteq> merged \<or> first = [] \<or> second = []
                     \<or> JStr second \<noteq> js_field review ''reviewed_commit''
                 | _ \<Rightarrow> True)
                   (Err ''merged_commit is not an exact two-parent no-ff merge of reviewed_commit'' [])) (\<lambda>_.
     if \<not> truthy tested then Inr ()
     else bindR (vw_git v repo [''cat-file'', ''-e'', commit_object (js_string tested)]) (\<lambda>_.
          bindR (vw_git v repo [''merge-base'', ''--is-ancestor'', js_string merged, js_string tested]) (\<lambda>_.
          bindR (vw_git v repo [''merge-base'', ''--is-ancestor'', js_string tested, js_string branch]) (\<lambda>_.
          Inr ())))))))))))"

definition legacy_done :: "view \<Rightarrow> string \<Rightarrow> jsval \<Rightarrow> jsval \<Rightarrow> jsval \<Rightarrow> js_error list" where
  "legacy_done v rootdir task qa review =
     (if \<not> truthy (js_field qa ''qa_agent'')
         \<or> \<not> js_seq (js_field qa ''qa_agent'') (js_opt (js_field task ''assignees'') ''qa'')
         \<or> \<not> truthy (js_field qa ''tested_commit'') \<or> \<not> truthy (js_field qa ''tested_at'')
      then [Err ''legacy done requires QA agent identity, tested_commit, and tested_at'' []] else [])
     @ (if \<not> hex_string 40 (str_or_empty (js_field task ''merged_commit''))
        then [Err ''legacy done requires merged_commit'' []]
        else case legacy_done_evidence v rootdir task qa review of
            Inr _ \<Rightarrow> []
          | Inl e \<Rightarrow> [Err ''legacy done Git evidence is invalid'' [JStr (case e of Err m _ \<Rightarrow> m)]])"

text \<open>Is the merge \<open>c\<close> an exact two-parent merge with the candidate as its second parent?\<close>

definition merge_second :: "string list \<Rightarrow> string option" where
  "merge_second ps = (case ps of [_, _, second] \<Rightarrow> Some second | _ \<Rightarrow> None)"

definition merges_candidate :: "view \<Rightarrow> string \<Rightarrow> jsval \<Rightarrow> string \<Rightarrow> bool res" where
  "merges_candidate v repo candidate c = bindR (rev_parents v repo c) (\<lambda>ps.
     Inr (map_option JStr (merge_second ps) = Some candidate))"

definition pending_merge_ok :: "view \<Rightarrow> string \<Rightarrow> string \<Rightarrow> unit res" where
  "pending_merge_ok v repo candidate =
     bindR (rev_parents v repo ''HEAD'') (\<lambda>headParents.
     bindR (rev_parents v repo candidate) (\<lambda>candidateParents.
       throw_if (hd headParents = []
           \<or> (case candidateParents of [_, p] \<Rightarrow> p \<noteq> hd headParents | _ \<Rightarrow> True))
         (Err ''MERGE_HEAD candidate is not pending a no-ff merge from the current main HEAD'' [])))"

definition candidate_done_evidence :: "view \<Rightarrow> string \<Rightarrow> jsval \<Rightarrow> unit res" where
  "candidate_done_evidence v rootdir candidate =
     bindR (repositoryFor v rootdir) (\<lambda>repo.
     bindR (readYaml v (path_join rootdir ''project.yaml'')) (\<lambda>project.
     bindR (js_get project ''default_branch'') (\<lambda>db.
     let branch = js_string (coalesce db (JStr ''main'')) in
     bindR (vw_git v repo [''cat-file'', ''-e'', commit_object (js_string candidate)]) (\<lambda>_.
       if map_option JStr (merge_in_progress v repo) = Some candidate
       then pending_merge_ok v repo (js_string candidate)
       else bindR (first_parent_merges v repo branch) (\<lambda>merges.
            bindR (map_R (merges_candidate v repo candidate) merges) (\<lambda>matching.
              throw_if (length (filter id matching) \<noteq> 1)
                (Err ''no unique main no-ff merge has HANDOVER candidate as its second parent'' [])))))))"

definition candidate_done :: "view \<Rightarrow> string \<Rightarrow> jsval \<Rightarrow> jsval \<Rightarrow> jsval \<Rightarrow> js_error list" where
  "candidate_done v rootdir task qa handover = (
     let candidate = js_field handover ''candidate_commit'' in
     (if \<not> truthy (js_field qa ''qa_agent'')
         \<or> \<not> js_seq (js_field qa ''qa_agent'') (js_opt (js_field task ''assignees'') ''qa'')
         \<or> \<not> truthy (js_field qa ''tested_at'')
      then [Err ''done requires QA agent identity and tested_at'' []] else [])
     @ (if \<not> hex_string 40 (str_or_empty candidate)
        then [Err ''done requires HANDOVER candidate_commit'' []]
        else case candidate_done_evidence v rootdir candidate of
            Inr _ \<Rightarrow> []
          | Inl e \<Rightarrow> [Err ''done requires a main no-ff merge derived from HANDOVER candidate''
              [JStr (case e of Err m _ \<Rightarrow> m)]]))"

definition done_gate :: "view \<Rightarrow> string \<Rightarrow> task_context \<Rightarrow> unit jchk" where
  "done_gate v rootdir c = (let task = tc_task c in
     if js_field task ''status'' \<noteq> JStr ''done'' then okC ()
     else if tc_safety c
     then bindC (liftC (checkSafetyContractDone v rootdir (tc_dir c) task (tc_id c) (tc_plan c))) push_all
     else bindC (liftC (parseFrontmatter v (path_join (tc_dir c) ''QA_RESULT.md''))) (\<lambda>qa.
          bindC (liftC (parseFrontmatter v (path_join (tc_dir c) ''HANDOVER.md''))) (\<lambda>handover.
          bindC (liftC (parseFrontmatter v (path_join (tc_dir c) ''REVIEW_RESULT.md''))) (\<lambda>review.
          bindC (liftC (js_get qa ''decision'')) (\<lambda>decision.
          bindC (push_if (decision \<notin> {JStr ''pass'', JStr ''accepted_with_bugs''})
            (Err ''done requires QA pass or accepted_with_bugs'' [])) (\<lambda>_.
          bindC (liftC (js_get handover ''status'')) (\<lambda>status.
          bindC (push_if (status \<noteq> JStr ''complete'' \<or> \<not> truthy (js_field handover ''completed_at''))
            (Err ''done requires a complete HANDOVER'' [])) (\<lambda>_.
          push_all (if tc_legacy c then legacy_done v rootdir task qa review
                    else candidate_done v rootdir task qa handover)))))))))"

section \<open>\<open>checkTask\<close> and the driver\<close>

definition checkTask :: "view \<Rightarrow> string \<Rightarrow> jsval \<Rightarrow> jsval \<Rightarrow> string \<Rightarrow> js_error list" where
  "checkTask v rootdir backlog taskId phase = run_chk (
     bindC (preflight v rootdir backlog taskId phase) (\<lambda>c.
       if phase = ''preflight'' then okC ()
       else bindC (dev_gate v rootdir c) (\<lambda>_.
            bindC (qa_gate v rootdir c) (\<lambda>_.
            done_gate v rootdir c))))"

text \<open>The command line: all errors of the selected Tasks, or the number of Tasks validated.\<close>

definition check_task_ids :: "(string \<times> string) list \<Rightarrow> jsval \<Rightarrow> jsval list res" where
  "check_task_ids args backlog =
     (if truthy (arg args ''task'') then Inr [arg args ''task'']
      else bindR (js_get backlog ''tasks'') (\<lambda>tasks. case coalesce tasks (JArr []) of
          JArr ts \<Rightarrow> map_R (\<lambda>t. js_get t ''id'') ts
        | _ \<Rightarrow> Inl type_error))"

definition check_task_main :: "view \<Rightarrow> string \<Rightarrow> string list \<Rightarrow> (js_error list + nat) res" where
  "check_task_main v repoRoot argv =
     bindR (parseArgs argv) (\<lambda>args.
     let rootdir = path_resolve1 (if truthy (arg args ''work_root'') then js_string (arg args ''work_root'') else repoRoot) in
     bindR (readYaml v (path_join rootdir ''backlog.yaml'')) (\<lambda>backlog.
     bindR (check_task_ids args backlog) (\<lambda>taskIds.
     let errors = concat (map (\<lambda>t. checkTask v rootdir backlog t
           (js_string (coalesce (arg args ''phase'') (JStr ''full'')))) taskIds) in
     Inr (if errors \<noteq> [] then Inl errors else Inr (length taskIds)))))"

section \<open>What a Task without errors satisfies\<close>

lemma prefix_run_chk_bindC: "prefix (run_chk (bindC m (\<lambda>_. okC ()))) (run_chk (bindC m f))"
  by (auto simp: run_chk_def bindC_def okC_def split: prod.splits sum.splits)

lemma clean_unit: "clean (m :: unit jchk) u \<longleftrightarrow> clean m ()"
  by simp

lemma checkTask_Nil:
  "checkTask v rootdir backlog taskId ''full'' = [] \<longleftrightarrow>
     (\<exists>c. clean (preflight v rootdir backlog taskId ''full'') c
       \<and> clean (dev_gate v rootdir c) () \<and> clean (qa_gate v rootdir c) () \<and> clean (done_gate v rootdir c) ())"
  by (auto simp: checkTask_def run_chk_Nil clean_bindC)

lemma preflight_clean:
  assumes "clean (preflight v rootdir backlog taskId phase) c"
  shows "tc_id c = taskId" and "taskById backlog taskId = Inr (tc_task c)"
    and "resolveInside rootdir (js_field (tc_task c) ''task_dir'') (js_string taskId @ '' task_dir'') = Inr (tc_dir c)"
    and "tc_safety c \<longleftrightarrow> change_class_of (tc_task c) = JStr ''safety_contract''"
    and "tc_phase c = effective_phase (tc_task c)"
    and "pc_errors (tc_plan c) = []"
    and "\<exists>plan. parseFrontmatter v (path_join (tc_dir c) ''PLAN.md'') = Inr plan
          \<and> validateSafetyContractPlan plan (change_class_of (tc_task c)) = Inr (tc_plan c)"
    and "clean (check_header (tc_task c) taskId phase) ()"
    and "\<forall>f \<in> set REQUIRED_TASK_FILES. clean (check_required_file v (tc_dir c) taskId f) ()"
    and "clean (check_legacy v rootdir (tc_dir c) (tc_task c) taskId (tc_safety c)) (tc_legacy c)"
  using assms unfolding preflight_def Let_def clean_bindC clean_basic clean_each_C by fastforce+

lemma check_header_clean:
  assumes "clean (check_header task taskId phase) u"
  shows "change_class_of task \<in> set CHANGE_CLASSES"
    and "js_field task ''status'' \<in> JStr ` set TASK_STATUSES"
    and "js_field task ''status'' = JStr ''blocked'' \<Longrightarrow> js_field task ''resume_status'' \<in> JStr ` {''plan'', ''dev'', ''qa''}"
    and "js_field task ''status'' \<noteq> JStr ''blocked'' \<Longrightarrow> \<not> truthy (js_field task ''resume_status'')"
    and "truthy (js_field task ''bootstrap_exception'') \<Longrightarrow> taskId = JStr ''TASK-0001''"
  using assms unfolding check_header_def Let_def clean_basic by (simp_all split: if_splits)

lemma check_required_file_clean:
  "clean (check_required_file v taskDir taskId f) u \<longleftrightarrow>
     vw_exists v (path_join taskDir f)
     \<and> (\<exists>doc. parseFrontmatter v (path_join taskDir f) = Inr doc \<and> \<not> nullish doc
          \<and> js_seq (js_field doc ''task_id'') taskId)"
  unfolding check_required_file_def Let_def
  by (auto simp: clean_bindC)

lemma check_legacy_clean:
  assumes "clean (check_legacy v rootdir taskDir task taskId safetyContract) legacy"
  shows "legacy \<Longrightarrow> \<not> safetyContract \<and> committedLegacyCompletionBinding v rootdir taskId"
    and "\<not> safetyContract \<Longrightarrow> working_legacy v taskDir task = Inr True \<Longrightarrow>
         list_all (\<lambda>f. vw_exists v (path_join taskDir f)) [''REVIEW_RESULT.md'', ''QA_RESULT.md'', ''HANDOVER.md''] \<Longrightarrow>
         committedLegacyCompletionBinding v rootdir taskId"
  using assms unfolding check_legacy_def Let_def
  by (auto simp: clean_bindC split: if_splits sum.splits)

text \<open>The approvals the DEV gate establishes.\<close>

definition approved_documents :: "jsval \<Rightarrow> jsval \<Rightarrow> jsval \<Rightarrow> bool" where
  "approved_documents task plan qaPlan \<longleftrightarrow> (
     let a = js_field task ''assignees'' in
     js_field plan ''status'' = JStr ''approved'' \<and> js_field qaPlan ''status'' = JStr ''approved''
     \<and> (\<exists>p. dev_selection_ok plan p)
     \<and> list_all (\<lambda>role. truthy (js_field a role)) DEV_ROLES
     \<and> js_field plan ''planner_agent'' = js_field a ''planner''
     \<and> js_field plan ''approved_by'' = js_field a ''main''
     \<and> js_field qaPlan ''qa_agent'' = js_field a ''qa''
     \<and> js_field qaPlan ''approved_by'' = js_field a ''main''
     \<and> \<not> js_seq (js_field a ''dev'') (js_field a ''reviewer'')
     \<and> \<not> js_seq (js_field a ''dev'') (js_field a ''qa''))"

lemma check_assignees_Nil:
  "check_assignees a plan qaPlan = [] \<longleftrightarrow>
     js_seq (js_field plan ''planner_agent'') (js_field a ''planner'')
     \<and> js_seq (js_field plan ''approved_by'') (js_field a ''main'')
     \<and> js_seq (js_field qaPlan ''qa_agent'') (js_field a ''qa'')
     \<and> js_seq (js_field qaPlan ''approved_by'') (js_field a ''main'')
     \<and> \<not> js_seq (js_field a ''dev'') (js_field a ''reviewer'')
     \<and> \<not> js_seq (js_field a ''dev'') (js_field a ''qa'')"
  unfolding check_assignees_def by auto

lemma check_dev_profile_Nil:
  "check_dev_profile task plan = [] \<Longrightarrow> \<exists>p. dev_selection_ok plan p"
  unfolding check_dev_profile_def using validateDevSelection_iff by (auto split: sum.splits)

lemma dev_gate_body_Nil:
  assumes "dev_gate_body v rootdir c plan qaPlan = []"
    and "\<not> truthy (js_field (tc_task c) ''bootstrap_exception'')"
  shows "check_dev_profile (tc_task c) plan = []"
    and "\<forall>role \<in> set DEV_ROLES. truthy (js_field (js_field (tc_task c) ''assignees'') role)"
    and "check_assignees (js_field (tc_task c) ''assignees'') plan qaPlan = []"
    and "tc_phase c \<in> {JStr ''dev'', JStr ''qa''} \<Longrightarrow> check_branch v rootdir (tc_task c) (tc_id c) = []"
proof -
  let ?a = "coalesce (js_field (tc_task c) ''assignees'') (JObj [])"
  have all: "check_dev_profile (tc_task c) plan = []"
      "\<forall>role \<in> set DEV_ROLES. truthy (js_field ?a role)" "check_assignees ?a plan qaPlan = []"
      "tc_phase c \<in> {JStr ''dev'', JStr ''qa''} \<Longrightarrow> check_branch v rootdir (tc_task c) (tc_id c) = []"
    using assms unfolding dev_gate_body_def Let_def by (simp_all add: filter_empty_conv)
  then have "truthy (js_field ?a ''main'')" by (simp add: DEV_ROLES_def)
  then have a: "?a = js_field (tc_task c) ''assignees''"
    by (cases "js_field (tc_task c) ''assignees''") auto
  show "check_dev_profile (tc_task c) plan = []" by (rule all(1))
  show "\<forall>role \<in> set DEV_ROLES. truthy (js_field (js_field (tc_task c) ''assignees'') role)"
    using all(2) a by simp
  show "check_assignees (js_field (tc_task c) ''assignees'') plan qaPlan = []"
    using all(3) a by simp
  show "check_branch v rootdir (tc_task c) (tc_id c) = []" if "tc_phase c \<in> {JStr ''dev'', JStr ''qa''}"
    using all(4) that .
qed

lemma dev_gate_clean:
  assumes "clean (dev_gate v rootdir c) u" and "tc_phase c \<in> {JStr ''dev'', JStr ''qa'', JStr ''done''}"
  obtains plan qaPlan where "parseFrontmatter v (path_join (tc_dir c) ''PLAN.md'') = Inr plan"
    and "parseFrontmatter v (path_join (tc_dir c) ''QA_PLAN.md'') = Inr qaPlan"
    and "\<not> not_approved plan" and "\<not> not_approved qaPlan"
    and "dev_gate_body v rootdir c plan qaPlan = []"
proof -
  from assms have "\<exists>plan qaPlan. parseFrontmatter v (path_join (tc_dir c) ''PLAN.md'') = Inr plan
    \<and> parseFrontmatter v (path_join (tc_dir c) ''QA_PLAN.md'') = Inr qaPlan
    \<and> \<not> not_approved plan \<and> \<not> not_approved qaPlan \<and> dev_gate_body v rootdir c plan qaPlan = []"
    unfolding dev_gate_def by (auto simp: clean_bindC)
  then show ?thesis using that by blast
qed

lemma dev_gate_approved:
  assumes "clean (dev_gate v rootdir c) u" "tc_phase c \<in> {JStr ''dev'', JStr ''qa'', JStr ''done''}"
    and b: "\<not> truthy (js_field (tc_task c) ''bootstrap_exception'')"
  shows "\<exists>plan qaPlan. parseFrontmatter v (path_join (tc_dir c) ''PLAN.md'') = Inr plan
    \<and> parseFrontmatter v (path_join (tc_dir c) ''QA_PLAN.md'') = Inr qaPlan
    \<and> approved_documents (tc_task c) plan qaPlan"
  using assms(1,2)
proof (rule dev_gate_clean)
  fix plan qaPlan
  assume *: "parseFrontmatter v (path_join (tc_dir c) ''PLAN.md'') = Inr plan"
    "parseFrontmatter v (path_join (tc_dir c) ''QA_PLAN.md'') = Inr qaPlan"
    "\<not> not_approved plan" "\<not> not_approved qaPlan" "dev_gate_body v rootdir c plan qaPlan = []"
  note body = dev_gate_body_Nil [OF *(5) b]
  have "approved_documents (tc_task c) plan qaPlan"
    unfolding approved_documents_def Let_def list_all_iff
    using *(3,4) body(2) body(3) [unfolded check_assignees_Nil] check_dev_profile_Nil [OF body(1)]
    by (auto simp: not_approved_def dest: js_seq_eq)
  with *(1,2) show ?thesis by blast
qed

lemma branch_and_worktree_clean:
  assumes "check_branch v rootdir task taskId = []"
  shows "task_slug_path ''task/'' (js_string taskId) (str_or_empty (js_field task ''branch''))"
    and "task_slug_path ''worktrees/'' (js_string taskId) (str_or_empty (js_field task ''worktree''))"
    and "vw_ci v \<or> is_ok (check_worktree v rootdir task taskId)"
  using assms unfolding check_branch_def Let_def by (simp_all split: if_splits)

lemma qa_gate_candidate:
  assumes "clean (qa_gate v rootdir c) u" "tc_phase c \<in> {JStr ''qa'', JStr ''done''}"
    and "\<not> tc_safety c" "\<not> tc_legacy c"
  shows "\<exists>review text. parseFrontmatter v (path_join (tc_dir c) ''REVIEW_RESULT.md'') = Inr review
    \<and> vw_read v (path_join (tc_dir c) ''REVIEW_RESULT.md'') = Inr text
    \<and> js_field review ''decision'' = JStr ''pass''
    \<and> contains_ci text ''candidate'' \<and> mentions_dev_check text
    \<and> js_seq (js_field review ''reviewer_agent'') (js_opt (js_field (tc_task c) ''assignees'') ''reviewer'')"
  using assms unfolding qa_gate_def Let_def candidate_review_def
  by (auto simp: clean_bindC)

lemma qa_gate_plan_review:
  assumes "clean (qa_gate v rootdir c) u" "tc_phase c \<in> {JStr ''qa'', JStr ''done''}" "\<not> tc_safety c"
  shows "\<exists>qaPlan. parseFrontmatter v (path_join (tc_dir c) ''QA_PLAN.md'') = Inr qaPlan
    \<and> truthy (js_field qaPlan ''implementation_reviewed_at'')
    \<and> is_boolean (js_field qaPlan ''expectation_changed'')
    \<and> (truthy (js_field qaPlan ''expectation_changed'') \<longrightarrow>
         js_seq (js_field qaPlan ''expectation_change_approved_by'')
          (js_opt (js_field (tc_task c) ''assignees'') ''main''))"
  using assms unfolding qa_gate_def Let_def by (auto simp: clean_bindC)

lemma done_gate_product:
  assumes "clean (done_gate v rootdir c) u" "js_field (tc_task c) ''status'' = JStr ''done''" "\<not> tc_safety c"
  shows "\<exists>qa handover review. parseFrontmatter v (path_join (tc_dir c) ''QA_RESULT.md'') = Inr qa
    \<and> parseFrontmatter v (path_join (tc_dir c) ''HANDOVER.md'') = Inr handover
    \<and> parseFrontmatter v (path_join (tc_dir c) ''REVIEW_RESULT.md'') = Inr review
    \<and> js_field qa ''decision'' \<in> {JStr ''pass'', JStr ''accepted_with_bugs''}
    \<and> js_field handover ''status'' = JStr ''complete'' \<and> truthy (js_field handover ''completed_at'')
    \<and> (if tc_legacy c then legacy_done v rootdir (tc_task c) qa review
       else candidate_done v rootdir (tc_task c) qa handover) = []"
  using assms unfolding done_gate_def Let_def by (auto simp: clean_bindC split del: if_split)

lemma done_gate_safety:
  assumes "clean (done_gate v rootdir c) u" "js_field (tc_task c) ''status'' = JStr ''done''" "tc_safety c"
  shows "checkSafetyContractDone v rootdir (tc_dir c) (tc_task c) (tc_id c) (tc_plan c) = Inr []"
  using assms unfolding done_gate_def Let_def by (simp add: clean_bindC)

text \<open>The merges on the first-parent line of the branch that have the candidate as their second
  of exactly two parents.\<close>

definition merge_of_candidate :: "view \<Rightarrow> string \<Rightarrow> string \<Rightarrow> string \<Rightarrow> bool" where
  "merge_of_candidate v repo candidate c \<longleftrightarrow> (case rev_parents v repo c of
     Inr ps \<Rightarrow> merge_second ps = Some candidate | Inl _ \<Rightarrow> False)"

lemma merges_candidate_map:
  assumes "map_R (merges_candidate v repo (JStr candidate)) merges = Inr matching"
  shows "length (filter id matching) = length (filter (merge_of_candidate v repo candidate) merges)"
proof -
  have one: "merges_candidate v repo (JStr candidate) c = Inr b \<Longrightarrow> b = merge_of_candidate v repo candidate c" for c b
    by (auto simp: merges_candidate_def merge_of_candidate_def bindR_Inr_iff)
  show ?thesis using assms
    by (induction merges arbitrary: matching) (auto simp: bindR_Inr_iff dest: one)
qed

lemma candidate_done_Nil:
  assumes "candidate_done v rootdir task qa handover = []"
    and "js_field handover ''candidate_commit'' = JStr candidate"
  obtains repo where "repositoryFor v rootdir = Inr repo" "hex_string 40 candidate"
    and "js_field qa ''qa_agent'' = js_field (js_field task ''assignees'') ''qa''"
    and "(\<exists>branch merges. first_parent_merges v repo branch = Inr merges
            \<and> length (filter (merge_of_candidate v repo candidate) merges) = 1)
       \<or> merge_in_progress v repo = Some candidate \<and> is_ok (pending_merge_ok v repo candidate)"
proof -
  have qa: "js_seq (js_field qa ''qa_agent'') (js_field (js_field task ''assignees'') ''qa'')"
    and hex: "hex_string 40 candidate"
    and ev: "is_ok (candidate_done_evidence v rootdir (JStr candidate))"
    using assms unfolding candidate_done_def Let_def
    by (auto simp: js_opt_field split: if_splits sum.splits)
  from ev obtain repo where repo: "repositoryFor v rootdir = Inr repo"
    by (auto simp: candidate_done_evidence_def is_ok_iff bindR_Inr_iff)
  have "(\<exists>branch merges. first_parent_merges v repo branch = Inr merges
            \<and> length (filter (merge_of_candidate v repo candidate) merges) = 1)
       \<or> merge_in_progress v repo = Some candidate \<and> is_ok (pending_merge_ok v repo candidate)"
  proof (cases "merge_in_progress v repo = Some candidate")
    case True
    then show ?thesis using ev repo
      by (auto simp: candidate_done_evidence_def is_ok_iff bindR_Inr_iff Let_def)
  next
    case False
    then have "map_option JStr (merge_in_progress v repo) \<noteq> Some (JStr candidate)"
      by (cases "merge_in_progress v repo") auto
    then obtain branch merges matching where
      "first_parent_merges v repo branch = Inr merges"
      "map_R (merges_candidate v repo (JStr candidate)) merges = Inr matching"
      "length (filter id matching) = 1"
      using ev repo by (auto simp: candidate_done_evidence_def is_ok_iff bindR_Inr_iff Let_def)
    then show ?thesis using merges_candidate_map by metis
  qed
  then show ?thesis using that repo hex js_seq_eq [OF qa] by blast
qed

lemma map_R_id_False:
  assumes "map_R f xs = Inr bs" and "\<And>x b. f x = Inr b \<Longrightarrow> \<not> b"
  shows "filter id bs = []"
  using assms(1) by (induction xs arbitrary: bs) (auto simp: bindR_Inr_iff dest: assms(2))

lemma candidate_done_string:
  assumes "candidate_done v rootdir task qa handover = []"
  shows "\<exists>c. js_field handover ''candidate_commit'' = JStr c"
proof (rule ccontr)
  let ?cand = "js_field handover ''candidate_commit''"
  assume n: "\<not> ?thesis"
  have ev: "is_ok (candidate_done_evidence v rootdir ?cand)"
    using assms unfolding candidate_done_def Let_def by (auto split: if_splits sum.splits)
  have m: "map_option JStr o' \<noteq> Some ?cand" for o' using n by (cases o') (simp, metis option.map(2) option.inject)
  have mc: "merges_candidate v repo ?cand c = Inr b \<Longrightarrow> \<not> b" for repo c b
    using m by (auto simp: merges_candidate_def bindR_Inr_iff)
  from ev m obtain repo merges matching where
    "map_R (merges_candidate v repo ?cand) merges = Inr matching" "length (filter id matching) = 1"
    by (auto simp: candidate_done_evidence_def is_ok_iff bindR_Inr_iff Let_def)
  then show False using map_R_id_False [OF _ mc] by force
qed

text \<open>The evidence of a finished product Task: QA's decision, a complete handover, and the one
  merge of its candidate into the main branch.\<close>

definition finished_product :: "view \<Rightarrow> string \<Rightarrow> jsval \<Rightarrow> string \<Rightarrow> bool" where
  "finished_product v rootdir task dir \<longleftrightarrow>
     (\<exists>qa handover candidate repo.
        parseFrontmatter v (path_join dir ''QA_RESULT.md'') = Inr qa
        \<and> js_field qa ''decision'' \<in> {JStr ''pass'', JStr ''accepted_with_bugs''}
        \<and> js_field qa ''qa_agent'' = js_field (js_field task ''assignees'') ''qa''
        \<and> parseFrontmatter v (path_join dir ''HANDOVER.md'') = Inr handover
        \<and> js_field handover ''status'' = JStr ''complete''
        \<and> js_field handover ''candidate_commit'' = JStr candidate \<and> hex_string 40 candidate
        \<and> repositoryFor v rootdir = Inr repo
        \<and> ((\<exists>branch merges. first_parent_merges v repo branch = Inr merges
               \<and> length (filter (merge_of_candidate v repo candidate) merges) = 1)
           \<or> merge_in_progress v repo = Some candidate \<and> is_ok (pending_merge_ok v repo candidate)))"

lemma done_gate_finished:
  assumes "clean (done_gate v rootdir c) u" "js_field (tc_task c) ''status'' = JStr ''done''"
    and "\<not> tc_safety c" "\<not> tc_legacy c"
  shows "finished_product v rootdir (tc_task c) (tc_dir c)"
proof -
  from done_gate_product [OF assms(1-3)] assms(4) obtain qa handover where
    d: "parseFrontmatter v (path_join (tc_dir c) ''QA_RESULT.md'') = Inr qa"
    "parseFrontmatter v (path_join (tc_dir c) ''HANDOVER.md'') = Inr handover"
    "js_field qa ''decision'' \<in> {JStr ''pass'', JStr ''accepted_with_bugs''}"
    "js_field handover ''status'' = JStr ''complete''"
    and cd: "candidate_done v rootdir (tc_task c) qa handover = []"
    by (auto split del: if_split)
  from candidate_done_string [OF cd] obtain cand where cand: "js_field handover ''candidate_commit'' = JStr cand" by blast
  show ?thesis
    by (rule candidate_done_Nil [OF cd cand]) (use d cand in \<open>unfold finished_product_def, blast\<close>)
qed

text \<open>The review and the revised QA plan the QA gate asks for.\<close>

definition audited_review :: "view \<Rightarrow> jsval \<Rightarrow> string \<Rightarrow> bool" where
  "audited_review v task dir \<longleftrightarrow>
     (\<exists>review text. parseFrontmatter v (path_join dir ''REVIEW_RESULT.md'') = Inr review
        \<and> vw_read v (path_join dir ''REVIEW_RESULT.md'') = Inr text
        \<and> js_field review ''decision'' = JStr ''pass'' \<and> contains_ci text ''candidate'' \<and> mentions_dev_check text
        \<and> js_field review ''reviewer_agent'' = js_field (js_field task ''assignees'') ''reviewer'')"

lemma qa_gate_audited:
  assumes "clean (qa_gate v rootdir c) u" "tc_phase c \<in> {JStr ''qa'', JStr ''done''}" "\<not> tc_safety c" "\<not> tc_legacy c"
  shows "audited_review v (tc_task c) (tc_dir c)"
  using qa_gate_candidate [OF assms] unfolding audited_review_def by (auto simp: js_opt_field dest: js_seq_eq)

text \<open>The git evidence of a safety contract, as the done gate checks it.\<close>

lemma checkSafetyContractDone_evidence:
  assumes "checkSafetyContractDone v rootdir dir task taskId pc = Inr []"
  obtains plan qaPlan handover body where "parseFrontmatter v (path_join dir ''PLAN.md'') = Inr plan"
    "parseFrontmatter v (path_join dir ''QA_PLAN.md'') = Inr qaPlan"
    "parseFrontmatter v (path_join dir ''HANDOVER.md'') = Inr handover"
    "vw_read v (path_join dir ''TASK.md'') = Inr body"
    "safety_done_documents v task taskId body plan qaPlan handover = Inr []"
    "(js_field handover ''status'' = JStr ''safety_contract_complete'' \<and> non_blank (js_field task ''merged_commit''))
      \<or> is_ok (safety_git_evidence v rootdir pc (js_string (js_field handover ''candidate_commit'')))"
  using assms unfolding checkSafetyContractDone_def Let_def
  by (auto simp: bindR_Inr_iff split: if_splits sum.splits)

lemma safety_git_evidence_entries:
  assumes "safety_git_evidence v rootdir pc candidate = Inr u"
  shows "\<exists>repo base out. repositoryFor v rootdir = Inr repo
     \<and> vw_git v repo [''diff'', ''--name-status'', ''--find-renames'', ''--find-copies-harder'', base, candidate] = Inr out
     \<and> (\<exists>n. vw_git v repo [''rev-list'', ''--count'', commit_range base candidate] = Inr n \<and> count_of n = Some 1)
     \<and> check_changed_entries pc (map (split_char (CHR 0x09)) (lines_of out)) = Inr u"
  using assms unfolding safety_git_evidence_def Let_def
  by (auto simp: bindR_Inr_iff split: if_splits)

end
