(* ===== verification/Demo.thy ===== *)
theory Demo
  imports Evidence_Props Lock_Race Check_Task 
begin

text \<open>
  Concrete inputs at which the properties are applied: a repository whose commands succeed, a
  host, a request to publish, and the documents of a finished Task.
\<close>

section \<open>A repository\<close>

definition ok_text :: "string \<Rightarrow> resp" where
  "ok_text s = RProc (Some 0) s []"

definition demo_git :: "string list \<Rightarrow> string" where
  "demo_git args = (
     if args = [''branch'', ''--show-current''] then ''main''
     else if args = [''worktree'', ''list'', ''--porcelain''] then ''worktree /r'' @ [newline] @ ''branch refs/heads/main''
     else if args = [''rev-parse'', ''--path-format=absolute'', ''--git-common-dir''] then ''/r/.git''
     else if args = [''rev-parse'', ''HEAD''] then ''c0''
     else if take 2 args = [''diff'', ''--name-only''] then ''backlog.yaml''
     else [])"

definition demo_env :: environment where
  "demo_env past p = (case p of
     Spawn cmd args dir env \<Rightarrow> if cmd = ''git'' then ok_text (demo_git args) else ok_text []
   | Exists q \<Rightarrow> RBool True | IsFile q \<Rightarrow> RBool True | ReadFile q \<Rightarrow> RText ''x''
   | Realpath q \<Rightarrow> RText q | ReadDir q \<Rightarrow> REntries [] | _ \<Rightarrow> ROk)"

definition demo_host :: "nat \<Rightarrow> host" where
  "demo_host p = \<lparr>h_yaml = (\<lambda>s. Inr JNull), h_yaml_text = (\<lambda>v. []),
     h_json = (\<lambda>s. Inr (JObj [(''pid'', JNum (of_nat (length s - 1))), (''started_at'', JStr ''now'')])),
     h_json_text = (\<lambda>v. case js_field v ''pid'' of JNum n \<Rightarrow> replicate (nat \<lfloor>n\<rfloor>) CHR ''|'' | _ \<Rightarrow> []),
     h_json_pretty = (\<lambda>v. []), h_sha256 = (\<lambda>s. ''d''), h_date = (\<lambda>s. Some 0), h_today = (\<lambda>z. Inr ''2026-01-01''),
     h_now = ''now'', h_pid = p, h_repo_root = ''/r'', h_stack = 10, h_cwd = ''/r'', h_number = (\<lambda>s. JNull),
     h_schema = (\<lambda>schema v. Inr []), h_node = ''/usr/bin/node''\<rparr>"

definition demo_request :: ev_request where
  "demo_request = \<lparr>rq_root = ''/r'', rq_action = ''task-start-rollback'', rq_task = JStr ''TASK-0001'',
     rq_message = ''m'', rq_push = True, rq_validate = True, rq_candidate = ''/r''\<rparr>"

definition demo_run :: "event list \<times> (js_error + ev_result)" where
  "demo_run = exec demo_env (evidenceCommit (demo_host 1) demo_request) []"

lemma demo_run_runs: "runs (evidenceCommit (demo_host 1) demo_request) (fst demo_run) (snd demo_run)"
  unfolding demo_run_def by (rule exec_runs)

lemma demo_run_result: "snd demo_run =
    Inr \<lparr>er_commit = Some ''c0'', er_pushed = True, er_changed = [''backlog.yaml''], er_retries = Some 0\<rparr>"
  by code_simp

lemma demo_run_writes: "list_ex (\<lambda>e. git_write (fst e)) (fst demo_run)" "list_ex (\<lambda>e. is_commit (fst e)) (fst demo_run)"
  by code_simp+

definition demo_setting :: setting where
  "demo_setting = \<lparr>st_host = demo_host, st_root = ''/r'', st_dir = ''/r/.git/agent-harness-locks/work-repository.lock'',
     st_clean = False, st_main = True\<rparr>"

lemma demo_setting_ok: "setting_ok demo_setting"
proof -
  have "path_dirname ''/r/.git/agent-harness-locks/work-repository.lock'' \<noteq> ''/r/.git/agent-harness-locks/work-repository.lock''"
    by code_simp
  then show ?thesis
    by (simp add: setting_ok_def demo_setting_def demo_host_def owner_record_def owner_value_def)
qed

section \<open>The documents of a Task\<close>

definition demo_candidate :: string where
  "demo_candidate = replicate 40 (CHR ''a'')"

definition strs :: "(string \<times> string) list \<Rightarrow> (string \<times> jsval) list" where
  "strs kvs = map (\<lambda>(k, v). (k, JStr v)) kvs"

definition demo_task :: "string \<Rightarrow> string \<Rightarrow> jsval" where
  "demo_task status cls = JObj (strs [(''id'', ''TASK-0001''), (''status'', status), (''change_class'', cls),
      (''task_dir'', ''t''), (''branch'', ''task/TASK-0001-x''), (''worktree'', ''worktrees/TASK-0001-x'')]
    @ [(''assignees'', JObj (strs [(''main'', ''m''), (''planner'', ''p''), (''dev'', ''dev-sol-high''),
         (''reviewer'', ''r''), (''qa'', ''q'')]))])"

definition demo_backlog :: "string \<Rightarrow> string \<Rightarrow> jsval" where
  "demo_backlog status cls = JObj [(''tasks'', JArr [demo_task status cls])]"

definition demo_plan :: "string \<Rightarrow> jsval" where
  "demo_plan cls = JObj (strs [(''task_id'', ''TASK-0001''), (''status'', ''approved''), (''approved_by'', ''m''),
      (''approved_at'', ''1''), (''planner_agent'', ''p''), (''approved_dev_profile'', ''sol-high''),
      (''approved_dev_profile_reason'', ''because''), (''change_class'', cls), (''classification_approved_by'', ''m''),
      (''classification_approval_reason'', ''docs''), (''classification_approved_at'', ''1'')]
    @ [(''approved_dev_profile_risk_signals'', JArr [JStr ''wide''])]
    @ (if cls = ''product'' then []
       else [(''safety_contract_version'', JNum 2), (''safety_contract_planned_paths'', JArr [JStr ''AGENTS.md'']),
             (''safety_contract_generated_paths'', JArr [])]))"

definition demo_documents :: "string \<Rightarrow> (string \<times> jsval) list" where
  "demo_documents cls = [
     (''TASK.md'', JObj (strs [(''task_id'', ''TASK-0001'')])),
     (''QA_PLAN.md'', JObj (strs [(''task_id'', ''TASK-0001''), (''status'', ''approved''), (''approved_by'', ''m''),
        (''approved_at'', ''1''), (''qa_agent'', ''q''), (''implementation_reviewed_at'', ''1''), (''change_class'', cls)]
        @ [(''expectation_changed'', JBool False)])),
     (''PLAN.md'', demo_plan cls),
     (''REVIEW_RESULT.md'', JObj (strs [(''task_id'', ''TASK-0001''), (''decision'', ''pass''), (''reviewer_agent'', ''r'')])),
     (''QA_RESULT.md'', JObj (strs [(''task_id'', ''TASK-0001''), (''decision'', ''pass''), (''qa_agent'', ''q''), (''tested_at'', ''1'')])),
     (''HANDOVER.md'', JObj (strs [(''task_id'', ''TASK-0001''), (''status'', ''complete''), (''completed_at'', ''1''),
        (''candidate_commit'', demo_candidate), (''safety_checked_at'', ''1'')]
        @ [(''safety_checks'', JObj (map (\<lambda>k. (k, JStr ''pass'')) SAFETY_CHECK_KEYS))]))]"

definition demo_exclusion :: string where
  "demo_exclusion = concat (map hd EXCLUSION_TOKENS)"

text \<open>A document is its name as front matter, then a text; the parser maps the name to the value.\<close>

definition demo_read :: "string \<Rightarrow> string res" where
  "demo_read file = (case List.find (\<lambda>(name, v). file = ''/r/t/'' @ name) (demo_documents ''product'') of
     Some (name, v) \<Rightarrow> Inr (''---'' @ [newline] @ name @ [newline] @ ''---'' @ [newline] @ ''candidate DEV '' @ demo_exclusion)
   | None \<Rightarrow> Inr file)"

definition demo_parse :: "string \<Rightarrow> string \<Rightarrow> jsval res" where
  "demo_parse cls text = (case map_of (demo_documents cls) text of
     Some v \<Rightarrow> Inr v
   | None \<Rightarrow> Inr (JObj (strs [(''default_branch'', ''main''), (''repository_path'', ''.'')])))"

definition demo_view_git :: "string list \<Rightarrow> string res" where
  "demo_view_git args = (
     if args = [''rev-parse'', ''MERGE_HEAD''] then Inl (Err ''none'' [])
     else if args = [''rev-list'', ''--first-parent'', ''--merges'', ''main''] then Inr ''m1''
     else if args = [''rev-list'', ''--parents'', ''-n'', ''1'', ''m1''] then Inr (''m1 p0 '' @ demo_candidate)
     else if take 2 args = [''rev-list'', ''--count''] then Inr ''1''
     else if take 2 args = [''diff'', ''--name-status''] then Inr (''M'' @ [CHR 0x09] @ ''AGENTS.md'')
     else Inr ''x'')"

definition demo_view :: "string \<Rightarrow> view" where
  "demo_view cls = \<lparr>vw_exists = (\<lambda>f. True), vw_dir = (\<lambda>f. Inr []), vw_read = demo_read, vw_yaml = demo_parse cls,
     vw_git = (\<lambda>repo args. demo_view_git args), vw_date = (\<lambda>s. Some 1), vw_realpath = (\<lambda>p. Inr p), vw_ci = True\<rparr>"

text \<open>The blocks of \<open>checkTask\<close>, one evaluation each.\<close>

definition demo_context :: "string \<Rightarrow> string \<Rightarrow> task_context" where
  "demo_context status cls = \<lparr>tc_task = demo_task status cls, tc_id = JStr ''TASK-0001'',
     tc_safety = (cls = ''safety_contract''), tc_phase = JStr status, tc_dir = ''/r/t'',
     tc_plan = (if cls = ''product'' then contract_result [] JUndef [] []
                else contract_result [] (JNum 2) [JStr ''AGENTS.md''] []), tc_legacy = False\<rparr>"

lemma demo_preflight_dev: "preflight (demo_view ''product'') ''/r'' (demo_backlog ''dev'' ''product'') (JStr ''TASK-0001'') ''full''
    = ([], Inr (demo_context ''dev'' ''product''))"
  by code_simp

lemma demo_preflight_done: "preflight (demo_view ''product'') ''/r'' (demo_backlog ''done'' ''product'') (JStr ''TASK-0001'') ''full''
    = ([], Inr (demo_context ''done'' ''product''))"
  by code_simp

lemma demo_preflight_safety:
  "preflight (demo_view ''safety_contract'') ''/r'' (demo_backlog ''done'' ''safety_contract'') (JStr ''TASK-0001'') ''full''
    = ([], Inr (demo_context ''done'' ''safety_contract''))"
  by code_simp

lemma demo_dev_gates:
  "dev_gate (demo_view ''product'') ''/r'' (demo_context ''dev'' ''product'') = ([], Inr ())"
  "dev_gate (demo_view ''product'') ''/r'' (demo_context ''done'' ''product'') = ([], Inr ())"
  "dev_gate (demo_view ''safety_contract'') ''/r'' (demo_context ''done'' ''safety_contract'') = ([], Inr ())"
  by code_simp+

lemma demo_qa_gates:
  "qa_gate (demo_view ''product'') ''/r'' (demo_context ''dev'' ''product'') = ([], Inr ())"
  "qa_gate (demo_view ''product'') ''/r'' (demo_context ''done'' ''product'') = ([], Inr ())"
  "qa_gate (demo_view ''safety_contract'') ''/r'' (demo_context ''done'' ''safety_contract'') = ([], Inr ())"
  by code_simp+

lemma demo_done_gates:
  "done_gate (demo_view ''product'') ''/r'' (demo_context ''dev'' ''product'') = ([], Inr ())"
  "done_gate (demo_view ''product'') ''/r'' (demo_context ''done'' ''product'') = ([], Inr ())"
  by code_simp+

lemma demo_done_gate_safety:
  "done_gate (demo_view ''safety_contract'') ''/r'' (demo_context ''done'' ''safety_contract'') = ([], Inr ())"
  by code_simp

lemmas demo_blocks = demo_preflight_dev demo_preflight_done demo_preflight_safety demo_dev_gates demo_qa_gates
  demo_done_gates demo_done_gate_safety

lemma demo_checks:
  "checkTask (demo_view ''product'') ''/r'' (demo_backlog ''done'' ''product'') (JStr ''TASK-0001'') ''full'' = []"
  "checkTask (demo_view ''product'') ''/r'' (demo_backlog ''dev'' ''product'') (JStr ''TASK-0001'') ''full'' = []"
  "checkTask (demo_view ''safety_contract'') ''/r'' (demo_backlog ''done'' ''safety_contract'') (JStr ''TASK-0001'') ''full'' = []"
  unfolding checkTask_def demo_blocks bindC_def by (simp_all add: demo_blocks run_chk_def)

section \<open>A Task completed under the former rules\<close>

definition demo_legacy_git :: "string list \<Rightarrow> string res" where
  "demo_legacy_git args = (
     if args = [''rev-parse'', ''--is-inside-work-tree''] then Inr ''true''
     else if args = [''show'', ''HEAD:backlog.yaml''] then Inr ''backlog''
     else case args of
         [cmd, object] \<Rightarrow> Inr (''---'' @ [newline] @ drop (length ''HEAD:t/'') object @ [newline] @ ''---'' @ [newline])
       | _ \<Rightarrow> Inl (Err ''none'' []))"

definition demo_legacy_parse :: "string \<Rightarrow> jsval res" where
  "demo_legacy_parse text = (
     if text = ''backlog'' then Inr (demo_backlog ''plan'' ''product'')
     else if text = ''REVIEW_RESULT.md'' then Inr (JObj (strs [(''task_id'', ''TASK-0001''), (''candidate_commit'', demo_candidate)]))
     else demo_parse ''product'' text)"

definition demo_legacy_view :: view where
  "demo_legacy_view = (demo_view ''product'')\<lparr>vw_yaml := demo_legacy_parse, vw_git := (\<lambda>repo args. demo_legacy_git args)\<rparr>"

lemma demo_legacy_check:
  "checkTask demo_legacy_view ''/r'' (demo_backlog ''plan'' ''product'') (JStr ''TASK-0001'') ''full'' = []"
  by code_simp

lemma demo_legacy_working: "working_legacy demo_legacy_view ''/r/t'' (demo_task ''plan'' ''product'') = Inr True"
  by code_simp

end
