(* ===== verification/Candidate.thy ===== *)
theory Candidate
  imports Evidence_Props
begin

text \<open>
  The candidate commit (\<open>candidateCommit\<close>, scripts/task/unified-lifecycle.mjs): the one commit a
  DEV agent's work becomes.  It is made in the Task's worktree while the lock of the work
  repository is held, of product files only, from bytes whose digest was fixed before and
  confirmed after the quality run, and taken back when the branch does not hold exactly one
  commit afterwards.
\<close>

section \<open>The program\<close>

definition diffPaths :: "string \<Rightarrow> string \<Rightarrow> string \<Rightarrow> string list io" where
  "diffPaths rootdir base head = bindI (git rootdir [''diff'', ''--name-only'', base @ ''...'' @ head])
     (\<lambda>out. Ret (lines_of out))"

definition managed_record :: "string \<Rightarrow> string \<Rightarrow> string \<Rightarrow> string io" where
  "managed_record rootdir head file =
     bindI (output_of ''git'' [''rev-parse'', head @ '':'' @ file] rootdir True) (\<lambda>(status, out, err).
       Ret (file @ [nul] @ (if status = Some 0 then js_trim out else ''DELETED'') @ [newline]))"

definition managedDigest :: "host \<Rightarrow> string \<Rightarrow> string \<Rightarrow> string \<Rightarrow> string io" where
  "managedDigest h rootdir base head =
     bindI (diffPaths rootdir base head) (\<lambda>paths.
     bindI (map_I (managed_record rootdir head) (sort (filter (\<lambda>f. \<not> isMainManagedPath f) paths))) (\<lambda>records.
       Ret (h_sha256 h (concat records))))"

definition candidatePaths :: "string \<Rightarrow> jsval \<Rightarrow> string io" where
  "candidatePaths rootdir task = (let tid = js_field task ''id'' in
     bindI (liftI (resolveInside rootdir (js_field task ''worktree'') (js_string tid @ '' candidate worktree''))) (\<lambda>candidateRoot.
     bindI (exists_path candidateRoot) (\<lambda>e.
     bindI (throw_ifI (\<not> e) (Err ''candidate worktree is missing'' [tid])) (\<lambda>_.
     bindI (git candidateRoot [''branch'', ''--show-current'']) (\<lambda>b.
     bindI (throw_ifI (JStr b \<noteq> js_field task ''branch'') (Err ''candidate worktree branch mismatch'' [tid])) (\<lambda>_.
     Ret candidateRoot))))))"

record candidate_request =
  cd_root :: string
  cd_task :: jsval
  cd_candidate :: string
  cd_message :: string

record candidate_result =
  cr_commit :: string
  cr_base :: string
  cr_changed :: "string list"

text \<open>An absent or empty \<open>candidateRoot\<close> means the worktree the backlog records.\<close>

definition candidate_entry :: "host \<Rightarrow> candidate_request \<Rightarrow> (jsval \<times> string) io" where
  "candidate_entry h q =
     bindI (assertMain (cd_root q)) (\<lambda>_.
     bindI (taskContext h (cd_root q) (cd_task q)) (\<lambda>(backlog, task, taskDir).
     bindI (if cd_candidate q \<noteq> [] then Ret (path_resolve (h_cwd h) (cd_candidate q)) else candidatePaths (cd_root q) task) (\<lambda>worktree.
     Ret (task, worktree))))"

text \<open>\<open>rev-list --count base..head\<close>, as a number.\<close>

definition commits_between :: "string \<Rightarrow> string \<Rightarrow> string \<Rightarrow> nat option io" where
  "commits_between rootdir base head =
     bindI (git rootdir [''rev-list'', ''--count'', base @ ''..'' @ head]) (\<lambda>out. Ret (count_of out))"

definition candidate_files :: "string \<Rightarrow> string list io" where
  "candidate_files worktree =
     bindI (changedFiles worktree) (\<lambda>changed.
     bindI (throw_ifI (changed = []) (Err ''candidate commit requires non-empty product changes'' [])) (\<lambda>_.
     let forbidden = filter isMainManagedPath changed in
     bindI (throw_ifI (forbidden \<noteq> []) (Err ''candidate commit contains main-managed paths'' (map JStr forbidden))) (\<lambda>_.
     Ret changed)))"

definition join_lines :: "string list \<Rightarrow> string" where
  "join_lines ss = join_char newline (filter (\<lambda>s. s \<noteq> []) ss)"

text \<open>The one quality run, between two readings of the bytes.\<close>

definition quality_run :: "host \<Rightarrow> string \<Rightarrow> string list \<Rightarrow> string io" where
  "quality_run h worktree changed =
     bindI (changedContentDigest h worktree False) (\<lambda>digest.
     bindI (spawn_status ''make'' [''check''] worktree []) (\<lambda>(status, out, err).
     let diagnostics = js_trim (join_lines [err, out]) in
     bindI (throw_ifI (status \<noteq> Some 0) (Err (if diagnostics = [] then ''make check failed'' else diagnostics) [])) (\<lambda>_.
     bindI (changedFiles worktree) (\<lambda>afterCheck.
     bindI (throw_ifI (join_char nul afterCheck \<noteq> join_char nul changed)
       (Err ''make check changed the candidate working set'' [])) (\<lambda>_.
     bindI (changedContentDigest h worktree False) (\<lambda>digest'.
     bindI (throw_ifI (digest' \<noteq> digest) (Err ''make check changed candidate bytes'' [])) (\<lambda>_.
     Ret digest)))))))"

definition candidate_env :: "host \<Rightarrow> string list \<Rightarrow> string \<Rightarrow> (string \<times> string) list" where
  "candidate_env h changed digest =
     [(''WORK_REPO_LOCK_HELD'', ''1''), (''WORK_PARENT_COMMIT'', ''1''), (''WORK_ACTION'', ''candidate-commit''),
      (''WORK_ALLOWED_PATHS'', h_json_text h (JArr (map JStr changed))), (''WORK_VALIDATED_DIGEST'', digest)]"

text \<open>The commit, and its \<open>catch\<close>: a commit that was created is taken back.\<close>

definition one_commit :: "string \<Rightarrow> string \<Rightarrow> string \<Rightarrow> string list \<Rightarrow> candidate_result io" where
  "one_commit rootdir worktree base changed =
     bindI (git worktree [''rev-parse'', ''HEAD'']) (\<lambda>commit.
     bindI (commits_between rootdir base commit) (\<lambda>n.
     bindI (throw_ifI (n \<noteq> Some 1) (Err ''candidate must be one commit after planning'' [])) (\<lambda>_.
     Ret \<lparr>cr_commit = commit, cr_base = base, cr_changed = changed\<rparr>)))"

definition candidate_publish :: "host \<Rightarrow> candidate_request \<Rightarrow> string \<Rightarrow> string \<Rightarrow> string list \<Rightarrow> string \<Rightarrow> candidate_result io" where
  "candidate_publish h q worktree base changed digest =
     bindI (git_env (candidate_env h changed digest) worktree [''commit'', ''-m'', cd_message q]) (\<lambda>_.
     catchI (one_commit (cd_root q) worktree base changed) (\<lambda>e.
       bindI (output_of ''git'' [''reset'', ''--mixed'', base] worktree True) (\<lambda>_. Throw e)))"

text \<open>Everything up to the staging: the merge base, the files and the digest of the commit.\<close>

definition candidate_stage :: "host \<Rightarrow> candidate_request \<Rightarrow> jsval \<times> string \<Rightarrow> (string \<times> string list \<times> string) io" where
  "candidate_stage h q = (\<lambda>(task, worktree). let branch = js_string (js_field task ''branch'') in
     bindI (git worktree [''branch'', ''--show-current'']) (\<lambda>b.
     bindI (throw_ifI (JStr b \<noteq> js_field task ''branch'') (Err ''candidate commit requires the Task branch'' [])) (\<lambda>_.
     bindI (git (cd_root q) [''merge-base'', ''main'', branch]) (\<lambda>base.
     bindI (commits_between (cd_root q) base branch) (\<lambda>prior.
     bindI (throw_ifI (prior \<noteq> Some 0) (Err ''candidate branch must contain only the planning commit before DEV'' [])) (\<lambda>_.
     bindI (candidate_files worktree) (\<lambda>changed.
     bindI (quality_run h worktree changed) (\<lambda>digest.
     bindI (git worktree ([''add'', ''--''] @ changed)) (\<lambda>_.
     Ret (base, changed, digest))))))))))"

definition candidate_body :: "host \<Rightarrow> candidate_request \<Rightarrow> jsval \<times> string \<Rightarrow> candidate_result io" where
  "candidate_body h q tw =
     bindI (candidate_stage h q tw) (\<lambda>(base, changed, digest). candidate_publish h q (snd tw) base changed digest)"

definition candidateCommit :: "host \<Rightarrow> candidate_request \<Rightarrow> candidate_result io" where
  "candidateCommit h q = transaction h (cd_root q) False (candidate_entry h q) (\<lambda>_. Ret ()) (\<lambda>tw _. candidate_body h q tw)"

end
