(* ===== verification/Candidate_Props.thy ===== *)
theory Candidate_Props
  imports Candidate
begin

text \<open>
  What a run of \<open>candidateCommit\<close> did: it is a transaction under the lock (by interpretation), a
  run that returns committed exactly the files it had checked, between two equal readings of
  their bytes and one quality run, and a run that fails after its commit takes the commit back.
\<close>

section \<open>What the parts can do\<close>

lemma only_reads_diffPaths: "only reads (diffPaths rootdir base head)"
  unfolding diffPaths_def by (intro reads_rules) simp_all

lemma only_reads_commits_between: "only reads (commits_between rootdir base head)"
  unfolding commits_between_def by (intro reads_rules) simp_all

lemma only_reads_candidatePaths: "only reads (candidatePaths rootdir task)"
  unfolding candidatePaths_def Let_def by (intro reads_rules) simp_all

lemma only_reads_candidate_entry: "only reads (candidate_entry h q)"
  unfolding candidate_entry_def
  by (intro reads_rules only_reads_assertMain only_reads_taskContext only_reads_candidatePaths)

lemma only_reads_candidate_files: "only reads (candidate_files worktree)"
  unfolding candidate_files_def Let_def by (intro reads_rules)

lemma only_quality_run:
  assumes "\<And>p. reads p \<Longrightarrow> P p" and "P (Spawn ''make'' [''check''] worktree [])"
  shows "only P (quality_run h worktree changed)"
  unfolding quality_run_def Let_def
  by (intro only_rules only_spawn_status assms only_mono [OF only_reads_digest assms(1)] only_mono [OF only_reads_changedFiles assms(1)])

lemma only_candidate_stage:
  assumes "\<And>p. reads p \<Longrightarrow> P p" and "P (Spawn ''make'' [''check''] (snd tw) [])"
    and "\<And>files. P (Spawn ''git'' ([''add'', ''--''] @ files) (snd tw) [])"
  shows "only P (candidate_stage h q tw)"
proof -
  obtain task worktree where tw: "tw = (task, worktree)" by (cases tw)
  have r: "P (Spawn ''git'' (c # rest) d [])" if "git_reads (c # rest)" for c rest d
    using that by (intro assms(1)) simp
  show ?thesis
    unfolding candidate_stage_def tw Let_def prod.case
    by (intro only_rules only_git only_quality_run only_mono [OF only_reads_commits_between assms(1)]
        only_mono [OF only_reads_candidate_files assms(1)] assms(1,2) assms(2,3) [unfolded tw snd_conv] r) simp_all
qed

lemma only_candidate_publish:
  assumes "\<And>p. reads p \<Longrightarrow> P p" and "P (Spawn ''git'' [''commit'', ''-m'', cd_message q] worktree (candidate_env h changed digest))"
    and "P (Spawn ''git'' [''reset'', ''--mixed'', base] worktree [])"
  shows "only P (candidate_publish h q worktree base changed digest)"
  unfolding candidate_publish_def one_commit_def
  by (intro only_rules only_git only_git_env only_output only_mono [OF only_reads_commits_between assms(1)] assms(2,3))
    (rule assms(1), simp)

interpretation candidate: locked_transaction h "cd_root q" False "candidate_entry h q" "\<lambda>_. Ret ()" "\<lambda>tw _. candidate_body h q tw"
  for h q
proof unfold_locales
  show "only (\<lambda>p. \<not> git_write p) (candidate_entry h q)"
    by (rule only_mono [OF only_reads_candidate_entry reads_not_write])
  show "only lock_kept (candidate_body h q tw)" for tw and b :: unit
    unfolding candidate_body_def
    by (intro only_rules only_candidate_stage [OF reads_lock_kept] only_candidate_publish [OF reads_lock_kept]) simp_all
qed simp

section \<open>A run that returns\<close>

text \<open>One quality run between two readings of the same bytes.\<close>

definition quality_checked :: "host \<Rightarrow> string \<Rightarrow> string list \<Rightarrow> string \<Rightarrow> event list \<Rightarrow> bool" where
  "quality_checked h worktree changed digest es \<longleftrightarrow>
     (\<exists>d1 t u c after d2. es = d1 @ [(Spawn ''make'' [''check''] worktree [], RProc (Some 0) t u)] @ c @ d2
        \<and> runs (changedContentDigest h worktree False) d1 (Inr digest)
        \<and> runs (changedFiles worktree) c (Inr after) \<and> join_char nul after = join_char nul changed
        \<and> runs (changedContentDigest h worktree False) d2 (Inr digest))"

lemma quality_run_ok:
  assumes "runs (quality_run h worktree changed) es (Inr digest)"
  shows "quality_checked h worktree changed digest es"
proof -
  from assms obtain d1 d e1 x c after d2 where q: "runs (changedContentDigest h worktree False) d1 (Inr digest)"
    "runs (spawn_status ''make'' [''check''] worktree []) e1 (Inr x)" "fst x = Some 0"
    "runs (changedFiles worktree) c (Inr after)" "join_char nul after = join_char nul changed"
    "runs (changedContentDigest h worktree False) d2 (Inr digest)" "es = d1 @ e1 @ c @ d2"
    unfolding quality_run_def Let_def case_prod_beta by - (elim ok_elims, rule that, (assumption | simp)+)
  then show ?thesis using spawn_status_runs_ok [OF q(2), of 0] unfolding quality_checked_def by blast
qed

lemma candidate_files_ok:
  "runs (candidate_files worktree) es (Inr changed) \<Longrightarrow>
     runs (changedFiles worktree) es (Inr changed) \<and> changed \<noteq> [] \<and> (\<forall>f \<in> set changed. \<not> isMainManagedPath f)"
  unfolding candidate_files_def Let_def runs_bindI_ok by (auto split: if_splits simp: filter_empty_conv)

lemma commits_between_ok:
  "runs (commits_between rootdir base head) es (Inr n) \<Longrightarrow>
     \<exists>t u. es = [(Spawn ''git'' [''rev-list'', ''--count'', base @ ''..'' @ head] rootdir [], RProc (Some 0) t u)]
       \<and> count_of (js_trim t) = n"
  unfolding commits_between_def by (auto simp: ok_runs)

text \<open>\<open>rev-list --count\<close> answered a number.\<close>

definition counted :: "string \<Rightarrow> string \<Rightarrow> string \<Rightarrow> nat \<Rightarrow> event list \<Rightarrow> bool" where
  "counted rootdir base head n es \<longleftrightarrow>
     (\<exists>out. count_of out = Some n \<and> answered (Spawn ''git'' [''rev-list'', ''--count'', base @ ''..'' @ head] rootdir []) out es)"

lemma commits_counted: "runs (commits_between rootdir base head) es (Inr (Some n)) \<Longrightarrow> counted rootdir base head n es"
  using commits_between_ok [of rootdir base head es] unfolding counted_def by fastforce

lemma counted_append [simp]: "counted r b d n xs \<Longrightarrow> counted r b d n (xs @ ys)" "counted r b d n ys \<Longrightarrow> counted r b d n (xs @ ys)"
  by (auto simp: counted_def)

text \<open>What the staging did.\<close>

definition staged_candidate :: "host \<Rightarrow> candidate_request \<Rightarrow> jsval \<times> string \<Rightarrow> string \<Rightarrow> string list \<Rightarrow> string \<Rightarrow> event list \<Rightarrow> bool" where
  "staged_candidate h q tw base changed digest es \<longleftrightarrow> (let branch = js_string (js_field (fst tw) ''branch'') in
     changed \<noteq> [] \<and> (\<forall>f \<in> set changed. \<not> isMainManagedPath f)
   \<and> js_field (fst tw) ''branch'' = JStr branch
   \<and> (\<exists>a c quality add. es = a @ c @ quality @ [(Spawn ''git'' ([''add'', ''--''] @ changed) (snd tw) [], add)]
        \<and> answered (Spawn ''git'' [''branch'', ''--show-current''] (snd tw) []) branch a
        \<and> answered (Spawn ''git'' [''merge-base'', ''main'', branch] (cd_root q) []) base a
        \<and> counted (cd_root q) base branch 0 a
        \<and> runs (changedFiles (snd tw)) c (Inr changed) \<and> quality_checked h (snd tw) changed digest quality))"

lemma candidate_stage_ok:
  assumes "runs (candidate_stage h q tw) es (Inr (base, changed, digest))"
  shows "staged_candidate h q tw base changed digest es"
proof -
  obtain task worktree where tw: "tw = (task, worktree)" by (cases tw)
  define branch where "branch = js_string (js_field task ''branch'')"
  from assms obtain e1 b e2 e3 c quality e4 x where s:
    "runs (git worktree [''branch'', ''--show-current'']) e1 (Inr b)" "JStr b = js_field task ''branch''"
    "runs (git (cd_root q) [''merge-base'', ''main'', branch]) e2 (Inr base)"
    "runs (commits_between (cd_root q) base branch) e3 (Inr (Some 0))"
    "runs (candidate_files worktree) c (Inr changed)" "runs (quality_run h worktree changed) quality (Inr digest)"
    "runs (git worktree ([''add'', ''--''] @ changed)) e4 (Inr x)"
    "es = e1 @ e2 @ e3 @ c @ quality @ e4"
    unfolding candidate_stage_def tw Let_def prod.case branch_def [symmetric] by - (elim ok_elims, rule that, (assumption | simp)+)
  have "branch = b" using s(2) unfolding branch_def by (simp flip: s(2))
  then have "answered (Spawn ''git'' [''branch'', ''--show-current''] worktree []) branch (e1 @ e2 @ e3)"
    "answered (Spawn ''git'' [''merge-base'', ''main'', branch] (cd_root q) []) base (e1 @ e2 @ e3)"
    "counted (cd_root q) base branch 0 (e1 @ e2 @ e3)"
    using s(1,3) commits_counted [OF s(4)] by (auto simp: ok_runs)
  moreover obtain add where "e4 = [(Spawn ''git'' ([''add'', ''--''] @ changed) worktree [], add)]"
    using s(7) by (auto simp: ok_runs)
  moreover have "es = (e1 @ e2 @ e3) @ c @ quality @ e4" using s(8) by simp
  moreover have "js_field task ''branch'' = JStr branch" using s(2) \<open>branch = b\<close> by simp
  ultimately show ?thesis
    using candidate_files_ok [OF s(5)] quality_run_ok [OF s(6)]
    unfolding staged_candidate_def tw Let_def fst_conv snd_conv branch_def [symmetric] by blast
qed

lemma one_commit_ok:
  assumes "runs (one_commit rootdir worktree base changed) es (Inr res)"
  shows "answered (Spawn ''git'' [''rev-parse'', ''HEAD''] worktree []) (cr_commit res) es"
    and "counted rootdir base (cr_commit res) 1 es" "cr_base res = base" "cr_changed res = changed"
proof -
  from assms obtain e1 commit e2 where s: "runs (git worktree [''rev-parse'', ''HEAD'']) e1 (Inr commit)"
    "runs (commits_between rootdir base commit) e2 (Inr (Some 1))" "res = \<lparr>cr_commit = commit, cr_base = base, cr_changed = changed\<rparr>"
    "es = e1 @ e2"
    unfolding one_commit_def by - (elim ok_elims, rule that, (assumption | simp)+)
  show "answered (Spawn ''git'' [''rev-parse'', ''HEAD''] worktree []) (cr_commit res) es"
    "counted rootdir base (cr_commit res) 1 es" "cr_base res = base" "cr_changed res = changed"
    using s(1,3,4) commits_counted [OF s(2)] by (auto simp: ok_runs)
qed

definition commit_op_of :: "host \<Rightarrow> candidate_request \<Rightarrow> string \<Rightarrow> string list \<Rightarrow> string \<Rightarrow> op" where
  "commit_op_of h q worktree changed digest =
     Spawn ''git'' [''commit'', ''-m'', cd_message q] worktree (candidate_env h changed digest)"

lemma candidate_publish_ok:
  assumes "runs (candidate_publish h q worktree base changed digest) es (Inr res)"
  obtains t u fin where "es = (commit_op_of h q worktree changed digest, RProc (Some 0) t u) # fin"
    and "runs (one_commit (cd_root q) worktree base changed) fin (Inr res)"
proof -
  from assms obtain e1 x fin where s: "runs (git_env (candidate_env h changed digest) worktree [''commit'', ''-m'', cd_message q]) e1 (Inr x)"
    "runs (one_commit (cd_root q) worktree base changed) fin (Inr res)" "es = e1 @ fin"
    unfolding candidate_publish_def by (elim ok_elims) (metis runs_catch_rethrow runs_rethrow)
  then show ?thesis using that unfolding commit_op_of_def by (auto simp: ok_runs)
qed

section \<open>The transaction\<close>

lemma no_commit_event: "commit_free es \<Longrightarrow> (Spawn ''git'' (''commit'' # args) dir env, r) \<notin> set es"
  by (force simp: commit_free_def)

lemma no_write_commit_free: "\<forall>e \<in> set es. \<not> git_write (fst e) \<Longrightarrow> commit_free es"
  using no_write_no_commit by (auto simp: commit_free_def)

lemma only_stage_commit_free: "only (\<lambda>p. \<not> is_commit p) (candidate_stage h q tw)"
  by (intro only_candidate_stage [OF no_commit_reads]) simp_all

lemma only_one_commit_reads: "only reads (one_commit rootdir worktree base changed)"
  unfolding one_commit_def by (intro reads_rules only_reads_commits_between) simp_all

lemma candidate_gated:
  assumes "runs (candidateCommit h q) es (Inr res)"
  obtains pre e0 task worktree staged digest t u fin lock rel
  where "es = pre @ staged @ (commit_op_of h q worktree (cr_changed res) digest, RProc (Some 0) t u) # fin @ [(Rm lock, rel)]"
    and "held lock pre" "runs (candidate_entry h q) e0 (Inr (task, worktree))" "prefix e0 pre"
    and "staged_candidate h q (task, worktree) (cr_base res) (cr_changed res) digest staged"
    and "commit_free pre" "commit_free staged" "commit_free fin"
    and "answered (Spawn ''git'' [''rev-parse'', ''HEAD''] worktree []) (cr_commit res) fin"
    and "counted (cd_root q) (cr_base res) (cr_commit res) 1 fin"
  using assms unfolding candidateCommit_def
proof (rule candidate.transaction_result)
  fix pre e0 tw b lock mid rel
  assume c: "es = pre @ mid @ [(Rm lock, rel)]" "held lock pre" "\<forall>e \<in> set pre. \<not> git_write (fst e)"
    "runs (candidate_entry h q) e0 (Inr tw)" "prefix e0 pre" "runs (candidate_body h q tw) mid (Inr res)"
  obtain task worktree where tw: "tw = (task, worktree)" by (cases tw)
  from c(6) obtain staged base changed digest rest where s: "runs (candidate_stage h q tw) staged (Inr (base, changed, digest))"
    "runs (candidate_publish h q worktree base changed digest) rest (Inr res)" "mid = staged @ rest"
    unfolding candidate_body_def runs_bindI_ok tw by auto
  from s(2) obtain t u fin where p: "rest = (commit_op_of h q worktree changed digest, RProc (Some 0) t u) # fin"
    "runs (one_commit (cd_root q) worktree base changed) fin (Inr res)" by (rule candidate_publish_ok)
  note o = one_commit_ok [OF p(2)]
  have free: "commit_free pre" "commit_free staged" "commit_free fin"
    using c(3) no_write_no_commit only_commit_free [OF only_stage_commit_free s(1)]
      only_commit_free [OF only_mono [OF only_one_commit_reads no_commit_reads] p(2)]
    by (auto simp: commit_free_def)
  show thesis
    by (rule that [OF _ c(2) c(4) [unfolded tw] c(5) _ free o(1) o(2) [folded o(3)]])
      (use c(1) s(3) p(1) o candidate_stage_ok [OF s(1)] in \<open>simp_all add: tw\<close>)
qed

text \<open>A commit that was created is taken back when the run fails.\<close>

lemma publish_failed:
  assumes "runs (candidate_publish h q worktree base changed digest) es (Inl e)"
    and "(commit_op_of h q worktree changed digest, RProc (Some 0) t u) \<in> set es"
  shows "\<exists>r. (Spawn ''git'' [''reset'', ''--mixed'', base] worktree [], r) \<in> set es"
  using assms(1) unfolding candidate_publish_def runs_bindI [of "git_env _ _ _"]
proof (elim disjE exE conjE)
  fix e' assume "runs (git_env (candidate_env h changed digest) worktree [''commit'', ''-m'', cd_message q]) es (Inl e')"
  then show ?thesis using git_env_failed assms(2) unfolding commit_op_of_def by fastforce
next
  fix e1 e2 x
  assume s: "es = e1 @ e2" "runs (catchI (one_commit (cd_root q) worktree base changed)
      (\<lambda>e. bindI (output_of ''git'' [''reset'', ''--mixed'', base] worktree True) (\<lambda>_. Throw e))) e2 (Inl e)"
  from s(2) obtain e3 e4 e' where c: "e2 = e3 @ e4" "runs (one_commit (cd_root q) worktree base changed) e3 (Inl e')"
    "runs (bindI (output_of ''git'' [''reset'', ''--mixed'', base] worktree True) (\<lambda>_. Throw e' :: candidate_result io)) e4 (Inl e)"
    by (rule runs_catch_failed)
  from c(3) obtain e5 e6 out' where "e4 = e5 @ e6"
    "runs (output_of ''git'' [''reset'', ''--mixed'', base] worktree True) e5 out'" by (rule runs_bind_first)
  then show ?thesis using output_event s(1) c(1) by fastforce
qed

lemma candidate_failed:
  assumes run: "runs (candidateCommit h q) es (Inl e)"
    and commit: "(Spawn ''git'' [''commit'', ''-m'', cd_message q] worktree env, RProc (Some 0) t u) \<in> set es"
  shows "(\<exists>base r. (Spawn ''git'' [''reset'', ''--mixed'', base] worktree [], r) \<in> set es)
       \<or> (\<exists>lock r. last es = (Rm lock, r) \<and> r \<noteq> ROk)"
  using run unfolding candidateCommit_def
proof (cases rule: candidate.transaction_cases)
  case early
  then show ?thesis using commit no_commit_event [OF no_write_commit_free] by blast
next
  case (whole pre e0 tw b lock mid rel out1)
  have commit': "(Spawn ''git'' [''commit'', ''-m'', cd_message q] worktree env, RProc (Some 0) t u) \<in> set mid"
    using commit no_commit_event [OF no_write_commit_free [OF whole(2)]] unfolding whole(1) by auto
  show ?thesis
  proof (cases "out1 = Inl e")
    case False
    then have "rel \<noteq> ROk" using whole(8) by auto
    then show ?thesis using whole(1) by auto
  next
    case True
    from whole(7) consider (f) "\<exists>e. runs (candidate_stage h q tw) mid (Inl e)"
      | (go) base changed digest staged rest where "runs (candidate_stage h q tw) staged (Inr (base, changed, digest))"
         "runs (candidate_publish h q (snd tw) base changed digest) rest (Inl e)" "mid = staged @ rest"
      unfolding candidate_body_def runs_bindI [of "candidate_stage _ _ _"] True by auto
    then show ?thesis
    proof cases
      case f
      then show ?thesis using no_commit_event [OF only_commit_free [OF only_stage_commit_free]] commit' by blast
    next
      case go
      have c: "(Spawn ''git'' [''commit'', ''-m'', cd_message q] worktree env, RProc (Some 0) t u) \<in> set rest"
        using no_commit_event [OF only_commit_free [OF only_stage_commit_free go(1)]] commit' unfolding go(3) by auto
      have "only (\<lambda>p. is_commit p \<longrightarrow> p = commit_op_of h q (snd tw) changed digest) (candidate_publish h q (snd tw) base changed digest)"
        by (rule only_candidate_publish) (auto simp: commit_op_of_def dest: no_commit_reads)
      from only_runs [OF this go(2) c] have w: "worktree = snd tw" "env = candidate_env h changed digest"
        by (simp_all add: commit_op_of_def)
      show ?thesis using publish_failed [OF go(2), of t u] c unfolding w commit_op_of_def go(3) whole(1) by auto
    qed
  qed
qed

end
