(* ===== verification/Completion.thy ===== *)
theory Completion
  imports Candidate Check_Task
begin

text \<open>
  The completion gate (\<open>completionGate\<close>, scripts/task/unified-lifecycle.mjs): the merge of a
  reviewed candidate into main together with the Task's evidence.  The bytes of every changed
  file are saved before the merge, and written back when the transaction fails; the publication
  that follows outside the lock is rolled back when the remote did not move.
\<close>

section \<open>Snapshots of files\<close>

datatype file_state = Absent | Present string string

definition snapshot_file :: "string \<Rightarrow> string \<Rightarrow> (string \<times> file_state) io" where
  "snapshot_file rootdir file = (let absolute = path_join rootdir file in
     bindI (exists_path absolute) (\<lambda>e.
     if \<not> e then Ret (file, Absent)
     else bindI (file_mode absolute) (\<lambda>mode.
       bindI (read_file absolute) (\<lambda>bytes. Ret (file, Present mode bytes)))))"

definition snapshotBytes :: "string \<Rightarrow> string list \<Rightarrow> (string \<times> file_state) list io" where
  "snapshotBytes rootdir files = map_I (snapshot_file rootdir) files"

definition restore_file :: "string \<Rightarrow> string \<Rightarrow> file_state \<Rightarrow> unit io" where
  "restore_file rootdir file state = (let absolute = path_join rootdir file in
     case state of
       Absent \<Rightarrow> bindI (exists_path absolute) (\<lambda>e. if e then unlink_file absolute else Ret ())
     | Present mode bytes \<Rightarrow>
         bindI (make_dir (path_dirname absolute) True) (\<lambda>_.
         bindI (write_file absolute bytes) (\<lambda>_. change_mode absolute mode)))"

definition restoreBytes :: "string \<Rightarrow> (string \<times> file_state) list \<Rightarrow> unit io" where
  "restoreBytes rootdir snapshot = each_I (\<lambda>(file, state). restore_file rootdir file state) snapshot"

text \<open>A file git does not track is deleted.\<close>

definition remove_untracked :: "string \<Rightarrow> string \<Rightarrow> unit io" where
  "remove_untracked rootdir file =
     bindI (output_of ''git'' [''ls-files'', ''--error-unmatch'', ''--'', file] rootdir True) (\<lambda>(status, out, err).
     if status = Some 0 then Ret () else unlink_file (path_join rootdir file))"

definition removeUnknownUntracked :: "string \<Rightarrow> (string \<times> file_state) list \<Rightarrow> string list \<Rightarrow> unit io" where
  "removeUnknownUntracked rootdir snapshot allowed =
     bindI (changedFiles rootdir) (\<lambda>files. each_I (\<lambda>file.
       if file \<in> fst ` set snapshot \<or> \<not> matches file allowed then Ret () else remove_untracked rootdir file) files)"

definition restoreMerge :: "string \<Rightarrow> unit io" where
  "restoreMerge rootdir = bindI (output_of ''git'' [''merge'', ''--abort''] rootdir True) (\<lambda>_. Ret ())"

text \<open>The saved index, applied through a temporary patch file.\<close>

definition restore_index :: "host \<Rightarrow> string \<Rightarrow> string \<Rightarrow> unit io" where
  "restore_index h rootdir indexSnapshot =
     (if indexSnapshot = [] then Ret ()
      else let patchFile = path_join rootdir (''.completion-index-'' @ nat_string (h_pid h) @ ''.patch'') in
        bindI (write_file patchFile indexSnapshot) (\<lambda>_.
        finallyI (bindI (output_of ''git'' [''apply'', ''--cached'', patchFile] rootdir True) (\<lambda>_. Ret ())) (unlink_file patchFile)))"

section \<open>The conditions of a completion\<close>

definition completionAllowed :: "host \<Rightarrow> string \<Rightarrow> jsval \<Rightarrow> string list io" where
  "completionAllowed h rootdir taskId = bindI (taskContext h rootdir taskId) (\<lambda>(backlog, task, taskDir).
     Ret (completion_rules (js_string taskDir)))"

definition host_timestamp :: "host \<Rightarrow> jsval \<Rightarrow> bool" where
  "host_timestamp h v = (case v of JStr s \<Rightarrow> js_trim s \<noteq> [] \<and> h_date h s \<noteq> None | _ \<Rightarrow> False)"

definition safety_quality :: "host \<Rightarrow> jsval \<Rightarrow> jsval \<Rightarrow> jsval \<Rightarrow> unit res" where
  "safety_quality h task handover qaPlan =
     bindR (js_get qaPlan ''status'') (\<lambda>status.
     bindR (throw_if (status \<noteq> JStr ''approved'' \<or> \<not> js_seq (js_field qaPlan ''approved_by'') (assigned task ''main''))
       (Err ''safety_contract completion requires the approved QA PLAN from the assigned main Agent'' [])) (\<lambda>_.
     throw_if (\<not> safety_checks_passed (js_field handover ''safety_checks'')
         \<or> \<not> host_timestamp h (js_field handover ''safety_checked_at''))
       (Err ''safety_contract completion requires the exact passed safety_checks and checked_at'' [])))"

definition product_quality :: "host \<Rightarrow> string \<Rightarrow> jsval \<Rightarrow> jsval \<Rightarrow> jsval \<Rightarrow> unit io" where
  "product_quality h rootdir task taskDir qaPlan =
     bindI (task_frontmatter h rootdir taskDir ''REVIEW_RESULT.md'') (\<lambda>review.
     bindI (task_frontmatter h rootdir taskDir ''QA_RESULT.md'') (\<lambda>qa.
     bindI (liftI (js_get review ''decision'')) (\<lambda>decision.
     bindI (throw_ifI (decision \<noteq> JStr ''pass'' \<or> \<not> js_seq (js_field review ''reviewer_agent'') (assigned task ''reviewer''))
       (Err ''completion requires independent REVIEW PASS with reviewer identity'' [])) (\<lambda>_.
     bindI (task_file rootdir taskDir ''REVIEW_RESULT.md'') (\<lambda>file.
     bindI (read_file file) (\<lambda>reviewText.
     bindI (throw_ifI (\<not> contains_ci reviewText ''candidate'' \<or> \<not> mentions_dev_check reviewText)
       (Err ''completion requires REVIEW candidate diff and DEV check audit'' [])) (\<lambda>_.
     bindI (liftI (js_get qa ''decision'')) (\<lambda>qaDecision.
     bindI (throw_ifI (qaDecision \<notin> {JStr ''pass'', JStr ''accepted_with_bugs''}
         \<or> \<not> js_seq (js_field qa ''qa_agent'') (assigned task ''qa''))
       (Err ''completion requires independent QA PASS'' [])) (\<lambda>_.
     bindI (liftI (js_get qaPlan ''status'')) (\<lambda>status.
     throw_ifI (status \<noteq> JStr ''approved'') (Err ''completion requires the approved QA PLAN'' [])))))))))))"

text \<open>The candidate HANDOVER names: a commit that is the head of the Task's branch, one commit
  after the merge base, of product files.\<close>

definition completion_candidate :: "string \<Rightarrow> jsval \<Rightarrow> jsval \<Rightarrow> jsval \<Rightarrow> (string \<times> string list) io" where
  "completion_candidate rootdir task taskDir handover =
     bindI (liftI (js_get handover ''candidate_commit'')) (\<lambda>bound. let candidate = js_string bound in
     bindI (throw_ifI (\<not> hex_string 40 (str_or_empty bound)) (Err ''completion requires a main-side HANDOVER candidate_commit'' [])) (\<lambda>_.
     bindI (git rootdir [''branch'', ''--show-current'']) (\<lambda>b.
     bindI (throw_ifI (b \<noteq> ''main'') (Err ''completion requires main'' [])) (\<lambda>_.
     bindI (output_of ''git'' [''cat-file'', ''-e'', candidate @ ''^{commit}''] rootdir True) (\<lambda>(status, _, _).
     bindI (throw_ifI (status \<noteq> Some 0) (Err ''candidate commit does not exist'' [])) (\<lambda>_.
     bindI (git rootdir [''rev-parse'', js_string (js_field task ''branch'')]) (\<lambda>head.
     bindI (throw_ifI (JStr head \<noteq> bound) (Err ''HANDOVER candidate is not the Task branch head'' [])) (\<lambda>_.
     bindI (git rootdir [''merge-base'', ''main'', candidate]) (\<lambda>base.
     bindI (commits_between rootdir base candidate) (\<lambda>n.
     bindI (throw_ifI (n \<noteq> Some 1) (Err ''candidate must be one commit after merge-base'' [])) (\<lambda>_.
     bindI (diffPaths rootdir base candidate) (\<lambda>product. let forbidden = filter isMainManagedPath product in
     bindI (throw_ifI (forbidden \<noteq> []) (Err ''candidate is not product-only'' (map JStr forbidden))) (\<lambda>_.
     let evidence = in_task (js_string taskDir) ''HANDOVER.md'' in
     bindI (output_of ''git'' [''cat-file'', ''-e'', candidate @ '':'' @ evidence] rootdir True) (\<lambda>(estatus, _, _).
     bindI (if estatus \<noteq> Some 0 then Ret [] else diffPaths rootdir base candidate) (\<lambda>again.
     bindI (throw_ifI (evidence \<in> set again) (Err ''candidate-side HANDOVER is forbidden'' [])) (\<lambda>_.
     Ret (candidate, product)))))))))))))))))"

record completion_request =
  cq_root :: string
  cq_task :: jsval
  cq_message :: string
  cq_validate :: bool
  cq_push :: bool

text \<open>What the checks leave for the transaction.\<close>

record completion =
  cp_candidate :: string
  cp_product :: "string list"
  cp_allowed :: "string list"
  cp_head :: string
  cp_snapshot :: "(string \<times> file_state) list"
  cp_index :: string

definition completion_snapshot :: "host \<Rightarrow> completion_request \<Rightarrow> string \<times> string list \<Rightarrow> completion io" where
  "completion_snapshot h q = (\<lambda>(candidate, product).
     bindI (completionAllowed h (cq_root q) (cq_task q)) (\<lambda>allowed.
     bindI (git (cq_root q) [''rev-parse'', ''HEAD'']) (\<lambda>preHead.
     bindI (changedFiles (cq_root q)) (\<lambda>beforeChanged. let preForbidden = outside lifecycle_covers allowed beforeChanged in
     bindI (throw_ifI (preForbidden \<noteq> []) (Err ''completion evidence scope violation'' (map JStr preForbidden))) (\<lambda>_.
     bindI (snapshotBytes (cq_root q) beforeChanged) (\<lambda>snapshot.
     bindI (output_of ''git'' [''diff'', ''--cached'', ''--binary''] (cq_root q) True) (\<lambda>(_, index, _).
     Ret \<lparr>cp_candidate = candidate, cp_product = product, cp_allowed = allowed, cp_head = preHead,
       cp_snapshot = snapshot, cp_index = index\<rparr>)))))))"

definition completion_quality :: "host \<Rightarrow> string \<Rightarrow> jsval \<Rightarrow> jsval \<Rightarrow> jsval \<Rightarrow> unit io" where
  "completion_quality h rootdir task taskDir handover =
     bindI (task_frontmatter h rootdir taskDir ''QA_PLAN.md'') (\<lambda>qaPlan.
     if js_field task ''change_class'' = JStr ''safety_contract'' then liftI (safety_quality h task handover qaPlan)
     else product_quality h rootdir task taskDir qaPlan)"

definition completion_entry :: "host \<Rightarrow> completion_request \<Rightarrow> completion io" where
  "completion_entry h q =
     bindI (assertMain (cq_root q)) (\<lambda>_.
     bindI (taskContext h (cq_root q) (cq_task q)) (\<lambda>(backlog, task, taskDir).
     bindI (git (cq_root q) [''diff'', ''--cached'', ''--name-only'', ''--diff-filter=ACMRD'']) (\<lambda>out. let stagedBefore = lines_of out in
     bindI (throw_ifI (stagedBefore \<noteq> []) (Err ''completion requires an unstaged quality evidence set'' (map JStr stagedBefore))) (\<lambda>_.
     bindI (task_frontmatter h (cq_root q) taskDir ''HANDOVER.md'') (\<lambda>handover.
     bindI (completion_candidate (cq_root q) task taskDir handover) (\<lambda>cp.
     bindI (completion_quality h (cq_root q) task taskDir handover) (\<lambda>_.
     completion_snapshot h q cp)))))))"

section \<open>The merge\<close>

record completion_result =
  co_commit :: string
  co_candidate :: string
  co_changed :: "string list"
  co_pushed :: bool
  co_retries :: "nat option"
  co_reconciled :: bool

definition completion_env :: "host \<Rightarrow> string list \<Rightarrow> string \<Rightarrow> (string \<times> string) list" where
  "completion_env h allowed digest =
     [(''WORK_REPO_LOCK_HELD'', ''1''), (''WORK_PARENT_COMMIT'', ''1''), (''WORK_ACTION'', ''completion-gate''),
      (''WORK_ALLOWED_PATHS'', h_json_text h (JArr (map JStr allowed))), (''WORK_VALIDATED_DIGEST'', digest)]"

text \<open>The merge without a commit, and the files it leaves changed.\<close>

definition completion_merge :: "completion_request \<Rightarrow> completion \<Rightarrow> string list io" where
  "completion_merge q c =
     bindI (git (cq_root q) [''merge'', ''--no-ff'', ''--no-commit'', cp_candidate c]) (\<lambda>_.
     bindI (git (cq_root q) [''rev-parse'', ''MERGE_HEAD'']) (\<lambda>second.
     bindI (throw_ifI (second \<noteq> cp_candidate c) (Err ''completion merge second parent mismatch'' [])) (\<lambda>_.
     bindI (changedFiles (cq_root q)) (\<lambda>afterChanged.
     let invalid = filter (\<lambda>file. \<not> matches file (cp_allowed c) \<and> file \<notin> set (cp_product c)) afterChanged in
     bindI (throw_ifI (invalid \<noteq> []) (Err ''completion scope violation'' (map JStr invalid))) (\<lambda>_.
     Ret afterChanged)))))"

definition completion_commit :: "host \<Rightarrow> completion_request \<Rightarrow> completion \<Rightarrow> string list \<Rightarrow> completion_result io" where
  "completion_commit h q c afterChanged =
     bindI (changedContentDigest h (cq_root q) False) (\<lambda>digest.
     bindI (if cq_validate q then validateOperations h (cq_root q) ''handover'' (cq_task q) (cq_root q) else Ret ()) (\<lambda>_.
     bindI (git (cq_root q) [''diff'', ''--name-only'', ''--diff-filter=ACMRD'']) (\<lambda>out. let unstaged = lines_of out in
     bindI (if unstaged = [] then Ret [] else git (cq_root q) ([''add'', ''-A'', ''--''] @ unstaged)) (\<lambda>_.
     bindI (git_env (completion_env h (uniq (cp_allowed c @ cp_product c)) digest) (cq_root q) [''commit'', ''-m'', cq_message q]) (\<lambda>_.
     bindI (git (cq_root q) [''rev-parse'', ''HEAD'']) (\<lambda>merge.
     Ret \<lparr>co_commit = merge, co_candidate = cp_candidate c, co_changed = afterChanged, co_pushed = False,
       co_retries = None, co_reconciled = False\<rparr>))))))"

text \<open>The \<open>catch\<close>: abort, write the saved bytes back, drop what the merge added, restore the index.\<close>

definition completion_undo :: "host \<Rightarrow> completion_request \<Rightarrow> completion \<Rightarrow> unit io" where
  "completion_undo h q c =
     bindI (restoreMerge (cq_root q)) (\<lambda>_.
     bindI (restoreBytes (cq_root q) (cp_snapshot c)) (\<lambda>_.
     bindI (removeUnknownUntracked (cq_root q) (cp_snapshot c) (cp_allowed c)) (\<lambda>_.
     bindI (output_of ''git'' [''reset'', ''--mixed'', ''HEAD''] (cq_root q) True) (\<lambda>_.
     restore_index h (cq_root q) (cp_index c)))))"

definition completion_body :: "host \<Rightarrow> completion_request \<Rightarrow> completion \<Rightarrow> completion_result io" where
  "completion_body h q c =
     catchI (bindI (completion_merge q c) (completion_commit h q c))
       (\<lambda>e. bindI (completion_undo h q c) (\<lambda>_. Throw (suffix_error ''; completion transaction aborted'' [] e)))"

section \<open>Publication\<close>

text \<open>\<open>stdout\<close> of \<open>ls-remote\<close>: the first field of its first line.\<close>

definition blank :: "char \<Rightarrow> bool" where
  "blank c \<longleftrightarrow> c \<in> {CHR 0x09, CHR 0x0A, CHR 0x0B, CHR 0x0C, CHR 0x0D, CHR '' ''}"

definition remote_main :: "string \<Rightarrow> string option io" where
  "remote_main rootdir =
     bindI (output_of ''git'' [''ls-remote'', ''origin'', ''refs/heads/main''] rootdir True) (\<lambda>(status, out, err).
     Ret (if status \<noteq> Some 0 then None
          else case lines_of out of [] \<Rightarrow> None | l # _ \<Rightarrow> Some (takeWhile (\<lambda>c. \<not> blank c) l)))"

text \<open>The merged product file goes back to what the head before the merge has.\<close>

definition unmerge_file :: "completion_request \<Rightarrow> string \<Rightarrow> string \<Rightarrow> unit io" where
  "unmerge_file q preHead file = (let absolute = path_join (cq_root q) file in
     bindI (output_of ''git'' [''cat-file'', ''-e'', preHead @ '':'' @ file] (cq_root q) True) (\<lambda>(status, out, err).
     if status = Some 0
     then bindI (output_of ''git'' [''restore'', ''--source'', preHead, ''--worktree'', ''--'', file] (cq_root q) True) (\<lambda>_. Ret ())
     else bindI (exists_path absolute) (\<lambda>e. if e then remove absolute else Ret ())))"

definition unmerge :: "host \<Rightarrow> completion_request \<Rightarrow> completion \<Rightarrow> completion_result \<Rightarrow> unit io" where
  "unmerge h q c res =
     bindI (git (cq_root q) [''rev-parse'', ''HEAD'']) (\<lambda>head.
     bindI (if head \<noteq> co_commit res then Ret True
            else bindI (git (cq_root q) [''status'', ''--porcelain'']) (\<lambda>st. Ret (st \<noteq> []))) (\<lambda>moved.
     bindI (throw_ifI moved
       (Err ''Completion merge push failed; reconciliation required before rollback'' [JStr (co_commit res)])) (\<lambda>_.
     bindI (output_of ''git'' [''reset'', ''--mixed'', cp_head c] (cq_root q) True) (\<lambda>_.
     bindI (each_I (unmerge_file q (cp_head c)) (cp_product c)) (\<lambda>_.
     bindI (restoreBytes (cq_root q) (cp_snapshot c)) (\<lambda>_.
     bindI (changedFiles (cq_root q)) (\<lambda>files.
     bindI (each_I (\<lambda>file. if file \<in> fst ` set (cp_snapshot c) then Ret () else remove_untracked (cq_root q) file) files) (\<lambda>_.
     restore_index h (cq_root q) (cp_index c)))))))))"

definition push_failed :: "string \<Rightarrow> jsval list \<Rightarrow> string \<Rightarrow> js_error" where
  "push_failed text' values diagnostics = Err text' (values @ (if diagnostics = [] then [] else [JStr diagnostics]))"

definition completion_push :: "host \<Rightarrow> completion_request \<Rightarrow> completion \<times> completion_result \<Rightarrow> completion_result io" where
  "completion_push h q = (\<lambda>(c, res).
     bindI (output_of ''git'' [''push'', ''origin'', ''HEAD:main''] (cq_root q) True) (\<lambda>(status, out, err).
     if status = Some 0 then Ret (res\<lparr>co_pushed := True, co_retries := Some 0\<rparr>)
     else let diagnostics = js_trim (join_lines [err, out]) in
       bindI (remote_main (cq_root q)) (\<lambda>remoteHead.
       if remoteHead = Some (co_commit res)
       then Ret (res\<lparr>co_pushed := True, co_retries := Some 0, co_reconciled := True\<rparr>)
       else if remoteHead \<noteq> Some (cp_head c)
       then Throw (push_failed ''Completion merge push failed; reconciliation required''
              [case remoteHead of None \<Rightarrow> JStr ''unknown'' | Some r \<Rightarrow> JStr r, JStr (co_commit res)] diagnostics)
       else bindI (transaction h (cq_root q) False (Ret ()) (\<lambda>_. Ret ()) (\<lambda>_ _. unmerge h q c res)) (\<lambda>_.
         Throw (push_failed ''Completion merge push failed; remote main unchanged; completion can be retried''
           [JStr (cp_head c)] diagnostics)))))"

definition completion_transaction :: "host \<Rightarrow> completion_request \<Rightarrow> (completion \<times> completion_result) io" where
  "completion_transaction h q = transaction h (cq_root q) False (completion_entry h q) (\<lambda>_. Ret ())
     (\<lambda>c _. bindI (completion_body h q c) (\<lambda>res. Ret (c, res)))"

definition completionGate :: "host \<Rightarrow> completion_request \<Rightarrow> completion_result io" where
  "completionGate h q = bindI (completion_transaction h q) (\<lambda>(c, res).
     if cq_push q then completion_push h q (c, res) else Ret res)"

end
