(* ===== verification/Completion_Props.thy ===== *)
theory Completion_Props
  imports Candidate_Props Completion
begin

text \<open>
  What a run of the completion transaction did: the candidate it merged is the one HANDOVER
  names, one commit of product files that passed its gates; the commit holds only that
  candidate's files and the Task's evidence, with the digest of their bytes; a merge that fails
  is aborted.  And what the saved bytes are good for: written back, they restore every file they
  were taken from, whatever happened in between.
\<close>

section \<open>What the parts can do\<close>

lemma only_reads_snapshotBytes: "only reads (snapshotBytes rootdir files)"
proof -
  have "only reads (snapshot_file rootdir f)" for f
    unfolding snapshot_file_def Let_def by (intro reads_rules) simp_all
  then show ?thesis unfolding snapshotBytes_def by (intro reads_rules)
qed

lemma only_reads_completion_quality: "only reads (completion_quality h rootdir task taskDir handover)"
proof -
  have "only reads (task_file rootdir taskDir f)" for f
    unfolding task_file_def by (cases taskDir) simp_all
  then have "only reads (product_quality h rootdir task taskDir qaPlan)" for qaPlan
    unfolding product_quality_def by (intro reads_rules only_reads_task_frontmatter) simp_all
  then show ?thesis
    unfolding completion_quality_def by (intro reads_rules only_reads_task_frontmatter)
qed

lemma only_reads_completion_candidate: "only reads (completion_candidate rootdir task taskDir handover)"
  unfolding completion_candidate_def Let_def
  by (intro reads_rules only_reads_commits_between only_reads_diffPaths) simp_all

lemma only_reads_completion_snapshot: "only reads (completion_snapshot h q cp)"
  unfolding completion_snapshot_def completionAllowed_def Let_def
  by (intro reads_rules only_reads_taskContext only_reads_snapshotBytes) simp_all

lemma only_reads_completion_entry: "only reads (completion_entry h q)"
  unfolding completion_entry_def Let_def
  by (intro reads_rules only_reads_assertMain only_reads_taskContext only_reads_task_frontmatter
      only_reads_completion_candidate only_reads_completion_quality only_reads_completion_snapshot) simp_all

lemma only_restoreBytes:
  assumes "\<And>p. reads p \<Longrightarrow> P p" and "\<And>p. P (Unlink p)" "\<And>p b. P (Mkdir p b)" "\<And>p c. P (WriteFile p c)" "\<And>p m. P (Chmod p m)"
  shows "only P (restoreBytes rootdir snapshot)"
proof -
  have "only P (restore_file rootdir f st)" for f st
    unfolding restore_file_def Let_def
    by (cases st) (auto intro!: only_rules only_files assms(2-5) assms(1))
  then show ?thesis
    unfolding restoreBytes_def by (intro only_rules)
qed

lemma only_restore_index:
  assumes "\<And>p. P (Unlink p)" "\<And>p c. P (WriteFile p c)" "\<And>f. P (Spawn ''git'' [''apply'', ''--cached'', f] rootdir [])"
  shows "only P (restore_index h rootdir index)"
  unfolding restore_index_def Let_def by (intro only_rules only_files only_output assms)

lemma only_removeUnknownUntracked:
  assumes "\<And>p. reads p \<Longrightarrow> P p" and "\<And>p. P (Unlink p)"
  shows "only P (removeUnknownUntracked rootdir snapshot allowed)"
proof -
  have "only P (remove_untracked rootdir f)" for f
    unfolding remove_untracked_def by (intro only_rules only_files only_output assms(2)) (rule assms(1), simp)
  then show ?thesis
    unfolding removeUnknownUntracked_def by (intro only_rules only_mono [OF only_reads_changedFiles assms(1)])
qed

lemma only_completion_undo: "only lock_kept (completion_undo h q c)"
  unfolding completion_undo_def restoreMerge_def
  by (intro only_rules only_output only_restoreBytes only_removeUnknownUntracked only_restore_index) (simp_all add: reads_lock_kept)

lemma only_completion_merge: 
  assumes "\<And>p. reads p \<Longrightarrow> P p" and "P (Spawn ''git'' [''merge'', ''--no-ff'', ''--no-commit'', cp_candidate c] (cq_root q) [])"
  shows "only P (completion_merge q c)"
  unfolding completion_merge_def Let_def
  by (intro only_rules only_git only_mono [OF only_reads_changedFiles assms(1)] assms(2)) (rule assms(1), simp)

lemma only_completion_commit:
  assumes "\<And>p. reads p \<Longrightarrow> P p" and "\<And>p. validator_op h p \<Longrightarrow> P p"
    and "\<And>files. P (Spawn ''git'' ([''add'', ''-A'', ''--''] @ files) (cq_root q) [])"
    and "\<And>digest. P (Spawn ''git'' [''commit'', ''-m'', cq_message q] (cq_root q)
        (completion_env h (uniq (cp_allowed c @ cp_product c)) digest))"
  shows "only P (completion_commit h q c after)"
proof -
  have r: "P (Spawn ''git'' (k # rest) d [])" if "git_reads (k # rest)" for k rest d
    using that by (intro assms(1)) simp
  have v: "only P (validateOperations h r a t cand)" for r a t cand
    by (rule only_validateOperations(1) [OF assms(1,2)])
  show ?thesis
    unfolding completion_commit_def Let_def
    by (intro only_rules only_git only_git_env only_mono [OF only_reads_digest assms(1)] v assms(3,4) r) simp_all
qed

lemma only_completion_body: "only lock_kept (completion_body h q c)"
  unfolding completion_body_def
  by (intro only_rules only_completion_merge [OF reads_lock_kept] only_completion_commit [OF reads_lock_kept] only_completion_undo)
    (auto simp: validator_op_def)

interpretation completing: locked_transaction h "cq_root q" False "completion_entry h q" "\<lambda>_. Ret ()"
  "\<lambda>c _. bindI (completion_body h q c) (\<lambda>res. Ret (c, res))" for h q
proof unfold_locales
  show "only (\<lambda>p. \<not> git_write p) (completion_entry h q)"
    by (rule only_mono [OF only_reads_completion_entry reads_not_write])
  show "only lock_kept (bindI (completion_body h q c) (\<lambda>res. Ret (c, res)))" for c and b :: unit
    by (intro only_rules only_completion_body)
qed simp

section \<open>What a completion starts from\<close>

text \<open>The candidate of a HANDOVER: the head of the Task's branch, one commit of product files.\<close>

definition sound_candidate :: "string \<Rightarrow> jsval \<Rightarrow> jsval \<Rightarrow> string \<Rightarrow> string list \<Rightarrow> event list \<Rightarrow> bool" where
  "sound_candidate rootdir task handover candidate product es \<longleftrightarrow>
     js_field handover ''candidate_commit'' = JStr candidate \<and> hex_string 40 candidate
   \<and> answered (Spawn ''git'' [''rev-parse'', js_string (js_field task ''branch'')] rootdir []) candidate es
   \<and> (\<forall>f \<in> set product. \<not> isMainManagedPath f)
   \<and> (\<exists>base e. counted rootdir base candidate 1 es
        \<and> answered (Spawn ''git'' [''merge-base'', ''main'', candidate] rootdir []) base es
        \<and> runs (diffPaths rootdir base candidate) e (Inr product) \<and> set e \<subseteq> set es)"

lemma answered_mono: "answered p x es \<Longrightarrow> set es \<subseteq> set fs \<Longrightarrow> answered p x fs"
  by (auto simp: answered_def)

lemma counted_mono: "counted r b d n es \<Longrightarrow> set es \<subseteq> set fs \<Longrightarrow> counted r b d n fs"
  unfolding counted_def using answered_mono by blast

lemma sound_candidate_mono: "sound_candidate r t hv c p es \<Longrightarrow> set es \<subseteq> set fs \<Longrightarrow> sound_candidate r t hv c p fs"
  unfolding sound_candidate_def by (meson answered_mono counted_mono order_trans)

lemma completion_candidate_ok:
  assumes "runs (completion_candidate rootdir task taskDir handover) es (Inr (candidate, product))"
  shows "sound_candidate rootdir task handover candidate product es"
proof -
  from assms obtain bound b head base e1 e2 e3 e4 e5 e6 e7 x y n again where s: "js_get handover ''candidate_commit'' = Inr bound"
    "hex_string 40 (str_or_empty bound)" "js_string bound = candidate" "JStr head = bound"
    "runs (git rootdir [''rev-parse'', js_string (js_field task ''branch'')]) e3 (Inr head)"
    "runs (git rootdir [''merge-base'', ''main'', js_string bound]) e4 (Inr base)"
    "runs (commits_between rootdir base (js_string bound)) e5 (Inr (Some 1))"
    "runs (diffPaths rootdir base (js_string bound)) e6 (Inr product)" "filter isMainManagedPath product = []"
    "es = e1 @ e2 @ e3 @ e4 @ e5 @ e6 @ e7"
    unfolding completion_candidate_def Let_def case_prod_beta by - (elim ok_elims, rule that, (assumption | simp)+)
  have c: "bound = JStr candidate" "head = candidate" using s(3,4) by auto
  have f: "js_field handover ''candidate_commit'' = JStr candidate" using s(1) c by simp
  moreover have "hex_string 40 candidate" using s(2) unfolding c by simp
  moreover have "answered (Spawn ''git'' [''rev-parse'', js_string (js_field task ''branch'')] rootdir []) candidate es"
    "answered (Spawn ''git'' [''merge-base'', ''main'', candidate] rootdir []) base es"
    using s(5,6,10) c by (auto simp: ok_runs)
  moreover have "counted rootdir base candidate 1 es"
    by (rule counted_mono [OF commits_counted [OF s(7) [unfolded c js_string.simps]]]) (use s(10) in auto)
  moreover have "\<forall>f \<in> set product. \<not> isMainManagedPath f" using s(9) by (simp add: filter_empty_conv)
  moreover have "set e6 \<subseteq> set es" using s(10) by auto
  ultimately show ?thesis
    using s(8) [unfolded c js_string.simps] unfolding sound_candidate_def by blast
qed

text \<open>The independent verdicts a completion needs.\<close>

definition passed_gates :: "jsval \<Rightarrow> jsval \<Rightarrow> jsval \<Rightarrow> jsval \<Rightarrow> jsval \<Rightarrow> bool" where
  "passed_gates task handover qaPlan review qa \<longleftrightarrow> js_field qaPlan ''status'' = JStr ''approved''
     \<and> (if js_field task ''change_class'' = JStr ''safety_contract''
        then js_seq (js_field qaPlan ''approved_by'') (assigned task ''main'') \<and> safety_checks_passed (js_field handover ''safety_checks'')
        else js_field review ''decision'' = JStr ''pass'' \<and> js_seq (js_field review ''reviewer_agent'') (assigned task ''reviewer'')
           \<and> js_field qa ''decision'' \<in> {JStr ''pass'', JStr ''accepted_with_bugs''} \<and> js_seq (js_field qa ''qa_agent'') (assigned task ''qa''))"

lemma product_quality_ok:
  assumes "runs (product_quality h rootdir task taskDir qaPlan) es (Inr u)"
  obtains review qa where "js_field review ''decision'' = JStr ''pass''" "js_seq (js_field review ''reviewer_agent'') (assigned task ''reviewer'')"
    "js_field qa ''decision'' \<in> {JStr ''pass'', JStr ''accepted_with_bugs''}" "js_seq (js_field qa ''qa_agent'') (assigned task ''qa'')"
    "js_field qaPlan ''status'' = JStr ''approved''"
    "\<exists>e. runs (task_frontmatter h rootdir taskDir ''REVIEW_RESULT.md'') e (Inr review) \<and> set e \<subseteq> set es"
    "\<exists>e. runs (task_frontmatter h rootdir taskDir ''QA_RESULT.md'') e (Inr qa) \<and> set e \<subseteq> set es"
proof -
  from assms obtain review qa decision qaDecision status e1 e2 e3 where s: "runs (task_frontmatter h rootdir taskDir ''REVIEW_RESULT.md'') e1 (Inr review)"
    "runs (task_frontmatter h rootdir taskDir ''QA_RESULT.md'') e2 (Inr qa)"
    "js_get review ''decision'' = Inr decision" "js_get qa ''decision'' = Inr qaDecision" "js_get qaPlan ''status'' = Inr status"
    "\<not> (decision \<noteq> JStr ''pass'' \<or> \<not> js_seq (js_field review ''reviewer_agent'') (assigned task ''reviewer''))"
    "\<not> (qaDecision \<notin> {JStr ''pass'', JStr ''accepted_with_bugs''} \<or> \<not> js_seq (js_field qa ''qa_agent'') (assigned task ''qa''))"
    "\<not> status \<noteq> JStr ''approved''" "es = e1 @ e2 @ e3"
    unfolding product_quality_def by - (elim ok_elims, rule that, (assumption | simp only: append_assoc)+)
  have g: "decision = js_field review ''decision''" "qaDecision = js_field qa ''decision''" "status = js_field qaPlan ''status''"
    using s(3-5) by simp_all
  have "set e1 \<subseteq> set es" "set e2 \<subseteq> set es" using s(9) by auto
  with s(1,2,6-8) show ?thesis unfolding g by (intro that [of review qa]) blast+
qed

definition verdicts :: "host \<Rightarrow> string \<Rightarrow> jsval \<Rightarrow> jsval \<Rightarrow> jsval \<Rightarrow> event list \<Rightarrow> bool" where
  "verdicts h rootdir task taskDir handover es \<longleftrightarrow>
     (\<exists>qaPlan review qa e. runs (task_frontmatter h rootdir taskDir ''QA_PLAN.md'') e (Inr qaPlan) \<and> set e \<subseteq> set es
        \<and> passed_gates task handover qaPlan review qa
        \<and> (js_field task ''change_class'' \<noteq> JStr ''safety_contract'' \<longrightarrow>
             (\<exists>e. runs (task_frontmatter h rootdir taskDir ''REVIEW_RESULT.md'') e (Inr review) \<and> set e \<subseteq> set es)
           \<and> (\<exists>e. runs (task_frontmatter h rootdir taskDir ''QA_RESULT.md'') e (Inr qa) \<and> set e \<subseteq> set es)))"

lemma verdicts_mono: "verdicts h r t d hv es \<Longrightarrow> set es \<subseteq> set fs \<Longrightarrow> verdicts h r t d hv fs"
  unfolding verdicts_def by (meson order_trans)

lemma safety_quality_ok: "safety_quality h task handover qaPlan = Inr u \<Longrightarrow>
    js_field qaPlan ''status'' = JStr ''approved'' \<and> js_seq (js_field qaPlan ''approved_by'') (assigned task ''main'')
    \<and> safety_checks_passed (js_field handover ''safety_checks'')"
  unfolding safety_quality_def by (auto simp: bindR_Inr_iff split: if_splits)

lemma completion_quality_ok:
  assumes "runs (completion_quality h rootdir task taskDir handover) es (Inr u)"
  shows "verdicts h rootdir task taskDir handover es"
proof -
  from assms obtain qaPlan e1 e2 where s: "runs (task_frontmatter h rootdir taskDir ''QA_PLAN.md'') e1 (Inr qaPlan)"
    "runs (if js_field task ''change_class'' = JStr ''safety_contract'' then liftI (safety_quality h task handover qaPlan)
      else product_quality h rootdir task taskDir qaPlan) e2 (Inr u)" "es = e1 @ e2"
    unfolding completion_quality_def by (elim ok_elims)
  show ?thesis
  proof (cases "js_field task ''change_class'' = JStr ''safety_contract''")
    case True
    then show ?thesis using s safety_quality_ok unfolding verdicts_def passed_gates_def by fastforce
  next
    case False
    with s(2) obtain review qa where p: "js_field review ''decision'' = JStr ''pass''" "js_seq (js_field review ''reviewer_agent'') (assigned task ''reviewer'')"
      "js_field qa ''decision'' \<in> {JStr ''pass'', JStr ''accepted_with_bugs''}" "js_seq (js_field qa ''qa_agent'') (assigned task ''qa'')"
      "js_field qaPlan ''status'' = JStr ''approved''"
      "\<exists>e. runs (task_frontmatter h rootdir taskDir ''REVIEW_RESULT.md'') e (Inr review) \<and> set e \<subseteq> set e2"
      "\<exists>e. runs (task_frontmatter h rootdir taskDir ''QA_RESULT.md'') e (Inr qa) \<and> set e \<subseteq> set e2"
      by (simp only: if_False) (erule product_quality_ok, rule that, assumption+)
    then have "passed_gates task handover qaPlan review qa" using False by (simp add: passed_gates_def)
    moreover have "set e1 \<subseteq> set es" "set e2 \<subseteq> set es" using s(3) by auto
    ultimately show ?thesis
      using s(1) p(6,7) unfolding verdicts_def by (intro exI [of _ qaPlan] exI [of _ review] exI [of _ qa] exI [of _ e1]) blast
  qed
qed

text \<open>Everything the transaction starts from.\<close>

definition completion_ready :: "host \<Rightarrow> completion_request \<Rightarrow> completion \<Rightarrow> event list \<Rightarrow> bool" where
  "completion_ready h q c es \<longleftrightarrow>
     (\<exists>backlog task taskDir handover e d.
        runs (taskContext h (cq_root q) (cq_task q)) e (Inr (backlog, task, taskDir)) \<and> set e \<subseteq> set es
      \<and> (\<exists>e'. runs (task_frontmatter h (cq_root q) taskDir ''HANDOVER.md'') e' (Inr handover) \<and> set e' \<subseteq> set es)
      \<and> sound_candidate (cq_root q) task handover (cp_candidate c) (cp_product c) es
      \<and> verdicts h (cq_root q) task taskDir handover es \<and> cp_allowed c = completion_rules d)"

lemma completion_ready_mono:
  assumes "completion_ready h q c es" "set es \<subseteq> set fs"
  shows "completion_ready h q c fs"
  using assms(1) subset_trans [OF _ assms(2)] sound_candidate_mono [OF _ assms(2)] verdicts_mono [OF _ assms(2)]
  unfolding completion_ready_def by meson

lemma completion_snapshot_ok:
  assumes "runs (completion_snapshot h q (candidate, product)) es (Inr c)"
  shows "cp_candidate c = candidate" "cp_product c = product" "\<exists>d. cp_allowed c = completion_rules d"
    and "\<exists>files e. runs (snapshotBytes (cq_root q) files) e (Inr (cp_snapshot c)) \<and> set e \<subseteq> set es"
proof -
  from assms obtain x e1 e2 e3 e4 e5 preHead files snapshot out where s:
    "runs (taskContext h (cq_root q) (cq_task q)) e1 (Inr x)"
    "runs (snapshotBytes (cq_root q) files) e4 (Inr snapshot)"
    "c = \<lparr>cp_candidate = candidate, cp_product = product, cp_allowed = completion_rules (js_string (snd (snd x))),
       cp_head = preHead, cp_snapshot = snapshot, cp_index = out\<rparr>" "es = (e1 @ e2 @ e3) @ e4 @ e5"
    unfolding completion_snapshot_def completionAllowed_def Let_def case_prod_beta fst_conv snd_conv bindI_assoc bindI.simps
    by - (elim ok_elims, rule that, (assumption | simp)+)
  show "cp_candidate c = candidate" "cp_product c = product" "\<exists>d. cp_allowed c = completion_rules d"
    "\<exists>files e. runs (snapshotBytes (cq_root q) files) e (Inr (cp_snapshot c)) \<and> set e \<subseteq> set es"
    using s by auto
qed

lemma completion_entry_ok:
  assumes "runs (completion_entry h q) es (Inr c)"
  shows "completion_ready h q c es"
proof -
  from assms obtain x handover cp e1 e2 e3 e4 e5 e6 where s: "runs (taskContext h (cq_root q) (cq_task q)) e2 (Inr x)"
    "runs (task_frontmatter h (cq_root q) (snd (snd x)) ''HANDOVER.md'') e4 (Inr handover)"
    "runs (completion_candidate (cq_root q) (fst (snd x)) (snd (snd x)) handover) e5 (Inr cp)"
    "runs (bindI (completion_quality h (cq_root q) (fst (snd x)) (snd (snd x)) handover) (\<lambda>_. completion_snapshot h q cp)) e6 (Inr c)"
    "es = e1 @ e2 @ e3 @ e4 @ e5 @ e6"
    unfolding completion_entry_def Let_def case_prod_beta
    by - (erule ok_elims, erule ok_elims, erule ok_elims, erule ok_elims, erule ok_elims, erule ok_elims,
        rule that, (assumption | simp)+)
  from s(4) obtain e7 e8 u where t: "runs (completion_quality h (cq_root q) (fst (snd x)) (snd (snd x)) handover) e7 (Inr u)"
    "runs (completion_snapshot h q cp) e8 (Inr c)" "e6 = e7 @ e8" by (elim ok_elims) 
  obtain backlog task taskDir candidate product where x: "x = (backlog, task, taskDir)" "cp = (candidate, product)"
    by (cases x, cases cp) auto
  note n = completion_snapshot_ok [OF t(2) [unfolded x]]
  have "sound_candidate (cq_root q) task handover (cp_candidate c) (cp_product c) es"
    unfolding n(1,2) by (rule sound_candidate_mono [OF completion_candidate_ok]) (use s(3,5) x in auto)
  moreover have "verdicts h (cq_root q) task taskDir handover es"
    by (rule verdicts_mono [OF completion_quality_ok]) (use t(1,3) s(5) x in auto)
  moreover have "set e2 \<subseteq> set es" "set e4 \<subseteq> set es" using s(5) by auto
  ultimately show ?thesis
    using s(1,2) n(3) unfolding completion_ready_def x fst_conv snd_conv by blast
qed

section \<open>The merge\<close>

text \<open>What precedes the commit: the merge of the candidate, a listing of files that are the
  candidate's or the Task's evidence, the digest of their bytes, and the validation.\<close>

definition merged_in :: "host \<Rightarrow> completion_request \<Rightarrow> completion \<Rightarrow> string list \<Rightarrow> string \<Rightarrow> event list \<Rightarrow> bool" where
  "merged_in h q c changed digest es \<longleftrightarrow>
     ran (Spawn ''git'' [''merge'', ''--no-ff'', ''--no-commit'', cp_candidate c] (cq_root q) []) es
   \<and> answered (Spawn ''git'' [''rev-parse'', ''MERGE_HEAD''] (cq_root q) []) (cp_candidate c) es
   \<and> (\<forall>f \<in> set changed. matches f (cp_allowed c) \<or> f \<in> set (cp_product c))
   \<and> (\<exists>a l d v. es = a @ l @ d @ v \<and> runs (changedFiles (cq_root q)) l (Inr changed)
        \<and> runs (changedContentDigest h (cq_root q) False) d (Inr digest)
        \<and> (cq_validate q \<longrightarrow> (\<exists>e. runs (validateOperations h (cq_root q) ''handover'' (cq_task q) (cq_root q)) e (Inr ()) \<and> set e \<subseteq> set v)))"

lemma completion_merge_ok:
  assumes "runs (completion_merge q c) es (Inr changed)"
  obtains a l where "es = a @ l" "runs (changedFiles (cq_root q)) l (Inr changed)"
    "ran (Spawn ''git'' [''merge'', ''--no-ff'', ''--no-commit'', cp_candidate c] (cq_root q) []) a"
    "answered (Spawn ''git'' [''rev-parse'', ''MERGE_HEAD''] (cq_root q) []) (cp_candidate c) a"
    "\<forall>f \<in> set changed. matches f (cp_allowed c) \<or> f \<in> set (cp_product c)"
proof -
  from assms obtain e1 e2 l x second where s: "runs (git (cq_root q) [''merge'', ''--no-ff'', ''--no-commit'', cp_candidate c]) e1 (Inr x)"
    "runs (git (cq_root q) [''rev-parse'', ''MERGE_HEAD'']) e2 (Inr second)" "second = cp_candidate c"
    "runs (changedFiles (cq_root q)) l (Inr changed)"
    "\<not> filter (\<lambda>file. \<not> matches file (cp_allowed c) \<and> file \<notin> set (cp_product c)) changed \<noteq> []" "es = (e1 @ e2) @ l"
    unfolding completion_merge_def Let_def by - (elim ok_elims, rule that, (assumption | simp)+)
  show ?thesis by (rule that [OF s(6,4)]) (use s(1-3,5) in \<open>auto simp: ok_runs filter_empty_conv ran_def\<close>)
qed

definition completion_commit_op :: "host \<Rightarrow> completion_request \<Rightarrow> completion \<Rightarrow> string \<Rightarrow> op" where
  "completion_commit_op h q c digest = Spawn ''git'' [''commit'', ''-m'', cq_message q] (cq_root q)
     (completion_env h (uniq (cp_allowed c @ cp_product c)) digest)"

lemma completion_commit_ok:
  assumes "runs (completion_commit h q c changed) es (Inr res)"
  obtains d digest v t u fin where "es = d @ v @ (completion_commit_op h q c digest, RProc (Some 0) t u) # fin"
    "runs (changedContentDigest h (cq_root q) False) d (Inr digest)"
    "cq_validate q \<longrightarrow> (\<exists>e. runs (validateOperations h (cq_root q) ''handover'' (cq_task q) (cq_root q)) e (Inr ()) \<and> set e \<subseteq> set v)"
    "answered (Spawn ''git'' [''rev-parse'', ''HEAD''] (cq_root q) []) (co_commit res) fin"
    "co_changed res = changed" "co_candidate res = cp_candidate c"
proof -
  from assms obtain d digest e1 u1 e2 e3 e4 x fin merge where s: "runs (changedContentDigest h (cq_root q) False) d (Inr digest)"
    "runs (if cq_validate q then validateOperations h (cq_root q) ''handover'' (cq_task q) (cq_root q) else Ret ()) e1 (Inr u1)"
    "runs (git_env (completion_env h (uniq (cp_allowed c @ cp_product c)) digest) (cq_root q) [''commit'', ''-m'', cq_message q]) e4 (Inr x)"
    "runs (git (cq_root q) [''rev-parse'', ''HEAD'']) fin (Inr merge)"
    "res = \<lparr>co_commit = merge, co_candidate = cp_candidate c, co_changed = changed, co_pushed = False, co_retries = None, co_reconciled = False\<rparr>"
    "es = d @ (e1 @ e2 @ e3) @ e4 @ fin"
    unfolding completion_commit_def Let_def by - (elim ok_elims, rule that, (assumption | simp)+)
  from s(3) obtain t u where c: "e4 = [(completion_commit_op h q c digest, RProc (Some 0) t u)]"
    unfolding completion_commit_op_def by (auto simp: ok_runs)
  show ?thesis
    by (rule that [of d "e1 @ e2 @ e3" digest t u fin]) (use s c in \<open>auto simp: ok_runs\<close>)
qed

lemma completion_gated:
  assumes "runs (completion_transaction h q) es (Inr (c, res))"
  obtains pre mid digest t u fin lock rel
  where "es = pre @ mid @ (completion_commit_op h q c digest, RProc (Some 0) t u) # fin @ [(Rm lock, rel)]"
    and "held lock pre" "completion_ready h q c pre" "merged_in h q c (co_changed res) digest mid"
    and "answered (Spawn ''git'' [''rev-parse'', ''HEAD''] (cq_root q) []) (co_commit res) fin"
    and "co_candidate res = cp_candidate c"
  using assms unfolding completion_transaction_def
proof (rule completing.transaction_result)
  fix pre e0 c' b lock mid rel
  assume w: "es = pre @ mid @ [(Rm lock, rel)]" "held lock pre" "\<forall>e \<in> set pre. \<not> git_write (fst e)"
    "runs (completion_entry h q) e0 (Inr c')" "prefix e0 pre"
    "runs (bindI (completion_body h q c') (\<lambda>res. Ret (c', res))) mid (Inr (c, res))"
  from w(6) have c: "c' = c" and b: "runs (completion_body h q c) mid (Inr res)" by (auto simp: runs_bindI_ok)
  from b have "runs (bindI (completion_merge q c) (completion_commit h q c)) mid (Inr res)"
    unfolding completion_body_def by (rule runs_catch_rethrow) simp
  then obtain m changed f where s: "runs (completion_merge q c) m (Inr changed)" "runs (completion_commit h q c changed) f (Inr res)" "mid = m @ f"
    by (elim ok_elims)
  from s(1) obtain a l where m: "m = a @ l" "runs (changedFiles (cq_root q)) l (Inr changed)"
    "ran (Spawn ''git'' [''merge'', ''--no-ff'', ''--no-commit'', cp_candidate c] (cq_root q) []) a"
    "answered (Spawn ''git'' [''rev-parse'', ''MERGE_HEAD''] (cq_root q) []) (cp_candidate c) a"
    "\<forall>f \<in> set changed. matches f (cp_allowed c) \<or> f \<in> set (cp_product c)" by (rule completion_merge_ok)
  from s(2) obtain d digest v t u fin where f: "f = d @ v @ (completion_commit_op h q c digest, RProc (Some 0) t u) # fin"
    "runs (changedContentDigest h (cq_root q) False) d (Inr digest)"
    "cq_validate q \<longrightarrow> (\<exists>e. runs (validateOperations h (cq_root q) ''handover'' (cq_task q) (cq_root q)) e (Inr ()) \<and> set e \<subseteq> set v)"
    "answered (Spawn ''git'' [''rev-parse'', ''HEAD''] (cq_root q) []) (co_commit res) fin"
    "co_changed res = changed" "co_candidate res = cp_candidate c" by (rule completion_commit_ok)
  have "merged_in h q c (co_changed res) digest (a @ l @ d @ v)"
    unfolding merged_in_def f(5) using m(2-5) f(2,3)
    by (intro conjI exI [of _ a] exI [of _ l] exI [of _ d] exI [of _ v] refl) simp_all
  moreover have "completion_ready h q c pre"
    by (rule completion_ready_mono [OF completion_entry_ok [OF w(4) [unfolded c]]]) (rule set_mono_prefix [OF w(5)])
  ultimately show thesis
    using that [of pre "a @ l @ d @ v" digest t u fin lock rel] w(1,2) s(3) m(1) f(1,4,6) by simp
qed

text \<open>A transaction that fails after it started the merge aborted it, unless the lock's removal is what failed.\<close>

lemma completion_undo_aborts:
  "runs (completion_undo h q c) es out \<Longrightarrow> \<exists>r. (Spawn ''git'' [''merge'', ''--abort''] (cq_root q) [], r) \<in> set es"
  unfolding completion_undo_def restoreMerge_def bindI_assoc
  by (elim runs_bind_first) (fastforce dest: output_event)

lemma completion_failed:
  assumes run: "runs (completion_transaction h q) es (Inl e)"
    and merge: "(Spawn ''git'' (''merge'' # args) dir env, r) \<in> set es"
  shows "(\<exists>r. (Spawn ''git'' [''merge'', ''--abort''] (cq_root q) [], r) \<in> set es)
       \<or> (\<exists>lock r. last es = (Rm lock, r) \<and> r \<noteq> ROk)"
  using run unfolding completion_transaction_def
proof (cases rule: completing.transaction_cases)
  case early
  then show ?thesis using merge by (force simp: git_write_def git_reads_def GIT_READS_def)
next
  case (whole pre e0 c b lock mid rel out1)
  show ?thesis
  proof (cases "out1 = Inl e")
    case False
    then have "rel \<noteq> ROk" using whole(8) by auto
    then show ?thesis using whole(1) by auto
  next
    case True
    with whole(7) have "runs (completion_body h q c) mid (Inl e)" by (auto simp: runs_bindI)
    then obtain e1 e2 e' where "mid = e1 @ e2" "runs (bindI (completion_undo h q c)
        (\<lambda>_. Throw (suffix_error ''; completion transaction aborted'' [] e') :: completion_result io)) e2 (Inl e)"
      unfolding completion_body_def by (elim runs_catch_failed)
    moreover from this(2) obtain e3 e4 out' where "e2 = e3 @ e4" "runs (completion_undo h q c) e3 out'" by (elim runs_bind_first)
    ultimately show ?thesis using completion_undo_aborts whole(1) by fastforce
  qed
qed

section \<open>Saved bytes\<close>

text \<open>Files by absolute path, with mode and bytes; \<open>dm\<close> is the mode of a file that a write creates.
  A history is faithful when its answers are those of the files it changes.\<close>

type_synonym files = "string \<Rightarrow> (string \<times> string) option"

fun fs_step :: "string \<Rightarrow> op \<Rightarrow> resp \<Rightarrow> files \<Rightarrow> files" where
  "fs_step dm (WriteFile p c) ROk F = F(p \<mapsto> (case F p of Some (m, b) \<Rightarrow> m | None \<Rightarrow> dm, c))"
| "fs_step dm (Chmod p m) ROk F = (case F p of Some (m', b) \<Rightarrow> F(p \<mapsto> (m, b)) | None \<Rightarrow> F)"
| "fs_step dm (Unlink p) ROk F = F(p := None)"
| "fs_step dm p r F = F"

fun fs_answer :: "files \<Rightarrow> op \<Rightarrow> resp \<Rightarrow> bool" where
  "fs_answer F (Exists p) r = (r = RBool (F p \<noteq> None))"
| "fs_answer F (ReadFile p) r = (case F p of Some (m, b) \<Rightarrow> r = RText b | None \<Rightarrow> r = RErr ''ENOENT'')"
| "fs_answer F (Mode p) r = (case F p of Some (m, b) \<Rightarrow> r = RText m | None \<Rightarrow> r = RErr ''ENOENT'')"
| "fs_answer F p r = True"

fun faithful :: "string \<Rightarrow> files \<Rightarrow> event list \<Rightarrow> bool" where
  "faithful dm F [] = True"
| "faithful dm F ((p, r) # es) = (fs_answer F p r \<and> faithful dm (fs_step dm p r F) es)"

fun fs_after :: "string \<Rightarrow> files \<Rightarrow> event list \<Rightarrow> files" where
  "fs_after dm F [] = F"
| "fs_after dm F ((p, r) # es) = fs_after dm (fs_step dm p r F) es"

lemma fs_append [simp]: "fs_after dm F (xs @ ys) = fs_after dm (fs_after dm F xs) ys"
  "faithful dm F (xs @ ys) \<longleftrightarrow> faithful dm F xs \<and> faithful dm (fs_after dm F xs) ys"
  by (induction xs arbitrary: F) auto

definition state_of :: "files \<Rightarrow> string \<Rightarrow> file_state" where
  "state_of F p = (case F p of None \<Rightarrow> Absent | Some (m, b) \<Rightarrow> Present m b)"

fun of_state :: "file_state \<Rightarrow> (string \<times> string) option" where
  "of_state Absent = None"
| "of_state (Present m b) = Some (m, b)"

lemma of_state_of [simp]: "of_state (state_of F p) = F p"
  by (auto simp: state_of_def split: option.splits)

lemma snapshot_file_ok:
  assumes "runs (snapshot_file rootdir f) es (Inr x)" "faithful dm F es"
  shows "x = (f, state_of F (path_join rootdir f))" "fs_after dm F es = F"
  using assms unfolding snapshot_file_def Let_def
  by (auto simp: ok_runs state_of_def split: if_splits option.splits)

lemma snapshotBytes_ok:
  assumes "runs (snapshotBytes rootdir fs) es (Inr snap)" "faithful dm F es"
  shows "snap = map (\<lambda>f. (f, state_of F (path_join rootdir f))) fs \<and> fs_after dm F es = F"
  using assms unfolding snapshotBytes_def
proof (induction fs arbitrary: es snap)
  case (Cons f fs)
  from Cons.prems(1) obtain e1 e2 x ys where s: "runs (snapshot_file rootdir f) e1 (Inr x)"
    "runs (map_I (snapshot_file rootdir) fs) e2 (Inr ys)" "snap = x # ys" "es = e1 @ e2"
    unfolding map_I.simps by - (elim ok_elims, rule that, (assumption | simp)+)
  have f: "faithful dm F e1" using Cons.prems(2) s(4) by simp
  note x = snapshot_file_ok [OF s(1) f]
  have "faithful dm F e2" using Cons.prems(2) s(4) x(2) by simp
  from Cons.IH [OF s(2) this] show ?case using x s(3,4) by simp
qed simp

lemma restore_file_ok:
  assumes "runs (restore_file rootdir f st) es (Inr u)" "faithful dm G es"
  shows "fs_after dm G es = G(path_join rootdir f := of_state st)"
proof (cases st)
  case Absent
  then show ?thesis
    using assms unfolding restore_file_def Let_def
    by (auto simp: ok_runs fun_eq_iff split: if_splits) (metis not_None_eq surj_pair)
next
  case (Present m b)
  from assms(1) show ?thesis
    unfolding restore_file_def Let_def Present by (auto simp: ok_runs)
qed

lemma restoreBytes_ok:
  assumes "runs (restoreBytes rootdir (map (\<lambda>f. (f, st f)) fs)) es (Inr u)" "faithful dm G es"
    and "\<And>f. of_state (st f) = F (path_join rootdir f)"
  shows "fs_after dm G es = (\<lambda>p. if p \<in> path_join rootdir ` set fs then F p else G p)"
  using assms(1,2) unfolding restoreBytes_def
proof (induction fs arbitrary: es G)
  case (Cons f fs)
  from Cons.prems(1) obtain e1 e2 v where s: "runs (restore_file rootdir f (st f)) e1 (Inr v)"
    "runs (each_I (\<lambda>(file, state). restore_file rootdir file state) (map (\<lambda>f. (f, st f)) fs)) e2 (Inr u)" "es = e1 @ e2"
    unfolding list.map each_I.simps prod.case by (elim ok_elims) simp
  have f: "faithful dm G e1" using Cons.prems(2) s(3) by simp
  note x = restore_file_ok [OF s(1) f]
  have "faithful dm (fs_after dm G e1) e2" using Cons.prems(2) s(3) by simp
  from Cons.IH [OF s(2) this]
  have "fs_after dm G es = (\<lambda>p. if p \<in> path_join rootdir ` set fs then F p else fs_after dm G e1 p)" using s(3) by simp
  then show ?case unfolding x assms(3) by (auto simp: fun_eq_iff)
qed simp

text \<open>Restoring what was saved brings every saved file back and touches no other.\<close>

lemma saved_bytes_restore:
  assumes "runs (snapshotBytes rootdir fs) es1 (Inr snap)" "faithful dm F es1"
    and "runs (restoreBytes rootdir snap) es2 (Inr u)" "faithful dm G es2"
  shows "fs_after dm G es2 p = (if p \<in> path_join rootdir ` set fs then F p else G p)"
proof -
  have s: "snap = map (\<lambda>f. (f, state_of F (path_join rootdir f))) fs"
    using snapshotBytes_ok [OF assms(1,2)] by simp
  show ?thesis using restoreBytes_ok [OF assms(3) [unfolded s] assms(4)] by simp
qed

end
