(* ===== verification/Publication.thy ===== *)
theory Publication
  imports Completion
begin

text \<open>
  What surrounds the merge of a candidate (scripts/task/unified-lifecycle.mjs): the check of a
  composite candidate and its pull request, the scope check that CI runs on a pull request and on
  main, the record of a merge, and the synchronisation that ends Tasks and removes their
  worktrees and branches.
\<close>

section \<open>The backlog as a value\<close>

text \<open>\<open>backlog.tasks ?? []\<close>, used as an array.\<close>

definition js_array :: "jsval \<Rightarrow> jsval list res" where
  "js_array v = (case v of JArr xs \<Rightarrow> Inr xs | _ \<Rightarrow> if nullish v then Inr [] else Inl type_error)"

definition backlog_tasks :: "jsval \<Rightarrow> jsval list res" where
  "backlog_tasks backlog = bindR (js_get backlog ''tasks'') js_array"

text \<open>\<open>xs.filter(p)\<close> where \<open>p\<close> reads a property of its argument, and so throws on \<open>null\<close>.\<close>

fun filter_R :: "(jsval \<Rightarrow> bool) \<Rightarrow> jsval list \<Rightarrow> jsval list res" where
  "filter_R p [] = Inr []"
| "filter_R p (x # xs) = (if nullish x then Inl type_error
     else bindR (filter_R p xs) (\<lambda>ys. Inr (if p x then x # ys else ys)))"

fun js_set :: "string \<Rightarrow> jsval \<Rightarrow> jsval \<Rightarrow> jsval" where
  "js_set k v (JObj m) = JObj (obj_set k v m)"
| "js_set k v w = w"

fun js_delete :: "string \<Rightarrow> jsval \<Rightarrow> jsval" where
  "js_delete k (JObj m) = JObj (filter (\<lambda>(k', v). k' \<noteq> k) m)"
| "js_delete k w = w"

text \<open>An update of the task objects of a backlog.\<close>

definition map_tasks :: "(jsval \<Rightarrow> jsval) \<Rightarrow> jsval \<Rightarrow> jsval" where
  "map_tasks f backlog = js_set ''tasks'' (JArr (map f (arr_items (js_field backlog ''tasks'')))) backlog"

text \<open>The object \<open>taskById\<close> returned: the first with the id.\<close>

fun update_first :: "(jsval \<Rightarrow> bool) \<Rightarrow> (jsval \<Rightarrow> jsval) \<Rightarrow> jsval list \<Rightarrow> jsval list" where
  "update_first p f [] = []"
| "update_first p f (x # xs) = (if p x then f x # xs else x # update_first p f xs)"

definition update_task :: "jsval \<Rightarrow> (jsval \<Rightarrow> jsval) \<Rightarrow> jsval \<Rightarrow> jsval" where
  "update_task taskId f backlog =
     js_set ''tasks'' (JArr (update_first (\<lambda>t. js_seq (js_field t ''id'') taskId) f (arr_items (js_field backlog ''tasks'')))) backlog"

section \<open>Composite candidates and pull requests\<close>

record composite =
  cs_task :: jsval
  cs_head :: string
  cs_base :: string
  cs_files :: "string list"

definition independent_passes :: "jsval \<Rightarrow> jsval \<Rightarrow> jsval \<Rightarrow> unit res" where
  "independent_passes task review qa =
     bindR (js_get review ''decision'') (\<lambda>decision.
     bindR (throw_if (decision \<noteq> JStr ''pass'' \<or> \<not> js_seq (js_field review ''reviewer_agent'') (assigned task ''reviewer''))
       (Err ''Independent REVIEW PASS is required'' [])) (\<lambda>_.
     bindR (js_get qa ''decision'') (\<lambda>qaDecision.
     throw_if (qaDecision \<notin> {JStr ''pass'', JStr ''accepted_with_bugs''}
         \<or> \<not> js_seq (js_field qa ''qa_agent'') (assigned task ''qa''))
       (Err ''Independent QA PASS is required'' []))))"

definition assertComposite :: "host \<Rightarrow> string \<Rightarrow> jsval \<Rightarrow> composite io" where
  "assertComposite h rootdir taskId =
     bindI (taskContext h rootdir taskId) (\<lambda>(backlog, task, taskDir).
     bindI (task_frontmatter h rootdir taskDir ''REVIEW_RESULT.md'') (\<lambda>review.
     bindI (task_frontmatter h rootdir taskDir ''QA_RESULT.md'') (\<lambda>qa.
     bindI (task_frontmatter h rootdir taskDir ''HANDOVER.md'') (\<lambda>handover.
     bindI (git rootdir [''rev-parse'', js_string (js_field task ''branch'')]) (\<lambda>head.
     bindI (liftI (js_get handover ''candidate_commit'')) (\<lambda>bound.
     bindI (throw_ifI (bound \<noteq> JStr head) (Err ''HANDOVER candidate does not match the Task branch head'' [])) (\<lambda>_.
     bindI (git rootdir [''merge-base'', ''main'', head]) (\<lambda>base.
     bindI (commits_between rootdir base head) (\<lambda>n.
     bindI (throw_ifI (n \<noteq> Some 1) (Err ''Task branch must contain exactly one candidate commit after planning'' [])) (\<lambda>_.
     bindI (diffPaths rootdir base head) (\<lambda>candidateFiles.
     bindI (throw_ifI (in_task (js_string taskDir) ''HANDOVER.md'' \<in> set candidateFiles) (Err ''candidate-side HANDOVER is forbidden'' [])) (\<lambda>_.
     let forbidden = filter isMainManagedPath candidateFiles in
     bindI (throw_ifI (forbidden \<noteq> []) (Err ''PR contains main-managed paths'' (map JStr forbidden))) (\<lambda>_.
     bindI (liftI (independent_passes task review qa)) (\<lambda>_.
     Ret \<lparr>cs_task = task, cs_head = head, cs_base = base, cs_files = candidateFiles\<rparr>))))))))))))))"

type_synonym args = "(string \<times> string) list"

definition arg_or :: "args \<Rightarrow> string \<Rightarrow> string \<Rightarrow> string" where
  "arg_or args k d = (case map_of args k of None \<Rightarrow> d | Some v \<Rightarrow> v)"

definition repo_slug :: "args \<Rightarrow> string" where
  "repo_slug args = arg_or args ''repo'' ''autotaker/kakesu''"

text \<open>The result is the candidate and the URL of its pull request, none on a dry run.\<close>

definition taskPr :: "host \<Rightarrow> args \<Rightarrow> string \<Rightarrow> (composite \<times> string option) io" where
  "taskPr h args rootdir =
     bindI (assertComposite h rootdir (arg args ''task'')) (\<lambda>candidate.
     if arg args ''dry_run'' = JStr ''true'' then Ret (candidate, None)
     else let branch = js_string (js_field (cs_task candidate) ''branch'') in
       bindI (git rootdir [''push'', ''-u'', ''origin'', branch]) (\<lambda>_.
       bindI (run_command ''gh'' [''pr'', ''create'', ''--repo'', repo_slug args, ''--base'', ''main'', ''--head'', branch, ''--title'',
           js_string (arg args ''task'') @ '': '' @ js_string (js_field (cs_task candidate) ''title''),
           ''--body'', ''Composite candidate '' @ cs_head candidate] rootdir) (\<lambda>url.
       bindI (run_command ''gh'' [''pr'', ''merge'', url, ''--auto'', ''--merge''] rootdir) (\<lambda>_.
       Ret (candidate, Some url)))))"

section \<open>The scope check of CI\<close>

record scope_result =
  sc_files :: "string list"
  sc_merge :: "(jsval \<times> string) option"

text \<open>\<open>/^---\r?\n([\s\S]*?)\r?\n---(?:\r?\n|$)/\<close>\<close>

definition end_of_line :: "string \<Rightarrow> string option" where
  "end_of_line s = (if starts_with s [newline] then Some (drop 1 s)
     else if starts_with s [CHR 0x0D, newline] then Some (drop 2 s) else None)"

definition closes_frontmatter :: "string \<Rightarrow> bool" where
  "closes_frontmatter t = (case end_of_line t of None \<Rightarrow> False
     | Some u \<Rightarrow> starts_with u fence \<and> (drop 3 u = [] \<or> end_of_line (drop 3 u) \<noteq> None))"

definition crlf_frontmatter :: "string \<Rightarrow> string option" where
  "crlf_frontmatter content = (if \<not> starts_with content fence then None
     else case end_of_line (drop 3 content) of None \<Rightarrow> None | Some r \<Rightarrow> lazy_until closes_frontmatter r)"

text \<open>The candidate a Task's HANDOVER binds at the first parent; any throw makes it none.\<close>

definition bound_candidate :: "host \<Rightarrow> string \<Rightarrow> string \<Rightarrow> jsval \<Rightarrow> jsval io" where
  "bound_candidate h rootdir firstParent task = catchI
     (bindI (liftI (js_get task ''task_dir'')) (\<lambda>dir.
      bindI (git rootdir [''show'', firstParent @ '':'' @ js_string dir @ ''/HANDOVER.md'']) (\<lambda>content.
      case crlf_frontmatter content of
        None \<Rightarrow> Ret JNull
      | Some body \<Rightarrow> liftI (bindR (h_yaml h body) (\<lambda>v. js_get v ''candidate_commit'')))))
     (\<lambda>_. Ret JUndef)"

definition no_binding_error :: "string \<Rightarrow> (jsval \<times> jsval) list \<Rightarrow> js_error" where
  "no_binding_error candidate found = Err ''Merge commit is not bound to exactly one Task HANDOVER candidate''
     (JStr candidate # concat (map (\<lambda>(task, b). if truthy b then [js_field task ''id'', b] else []) found))"

definition merge_scope :: "host \<Rightarrow> string \<Rightarrow> string \<Rightarrow> string \<Rightarrow> string \<Rightarrow> (jsval \<times> string) io" where
  "merge_scope h rootdir head firstParent candidate =
     bindI (git rootdir [''show'', firstParent @ '':backlog.yaml'']) (\<lambda>text'.
     bindI (liftI (h_yaml h text')) (\<lambda>backlog.
     bindI (liftI (backlog_tasks backlog)) (\<lambda>tasks.
     bindI (map_I (\<lambda>task. bindI (bound_candidate h rootdir firstParent task) (\<lambda>b. Ret (task, b))) tasks) (\<lambda>found.
     case filter (\<lambda>(task, b). b = JStr candidate) found of
       [(task, b)] \<Rightarrow>
         bindI (git rootdir [''merge-base'', firstParent, candidate]) (\<lambda>base.
         bindI (commits_between rootdir base candidate) (\<lambda>n.
         bindI (throw_ifI (n \<noteq> Some 1) (Err ''Merge candidate must be one commit after planning'' [])) (\<lambda>_.
         bindI (diffPaths rootdir base candidate) (\<lambda>candidateFiles. let dir = js_string (js_field task ''task_dir'') in
         bindI (throw_ifI (in_task dir ''HANDOVER.md'' \<in> set candidateFiles) (Err ''Merge candidate contains candidate-side HANDOVER'' [])) (\<lambda>_.
         let forbidden = filter isMainManagedPath candidateFiles in
         bindI (throw_ifI (forbidden \<noteq> []) (Err ''Merge candidate contains main-managed paths'' (map JStr forbidden))) (\<lambda>_.
         bindI (diffPaths rootdir firstParent head) (\<lambda>merged.
         let changes = filter (\<lambda>file. isMainManagedPath file \<and> \<not> matches file (completion_rules dir)) merged in
         bindI (throw_ifI (changes \<noteq> []) (Err ''Merge commit changes unapproved main-managed paths'' (map JStr changes))) (\<lambda>_.
         Ret (js_field task ''id'', candidate)))))))))
     | _ \<Rightarrow> Throw (no_binding_error candidate found)))))"

definition scope_base :: "args \<Rightarrow> jsval" where
  "scope_base args = (let b = str_or_empty (arg args ''base'') in
     if b \<noteq> [] \<and> list_all (\<lambda>c. c = CHR ''0'') b then JStr (js_string (arg args ''head'') @ ''^'') else arg args ''base'')"

definition scope_files :: "args \<Rightarrow> string \<Rightarrow> string list io" where
  "scope_files args rootdir = (let before = js_string (scope_base args); head = js_string (arg args ''head'') in
     if arg args ''event'' = JStr ''pr'' then diffPaths rootdir before head
     else bindI (git rootdir [''diff'', ''--name-only'', before, head]) (\<lambda>out. Ret (lines_of out)))"

definition scopeCheck :: "host \<Rightarrow> args \<Rightarrow> string \<Rightarrow> scope_result io" where
  "scopeCheck h args rootdir =
     bindI (scope_files args rootdir) (\<lambda>files.
     if arg args ''event'' = JStr ''pr'' then
       (let forbidden = filter isMainManagedPath files in
        bindI (throw_ifI (forbidden \<noteq> []) (Err ''PR scope contains main-managed paths'' (map JStr forbidden)))
          (\<lambda>_. Ret \<lparr>sc_files = files, sc_merge = None\<rparr>))
     else if arg args ''event'' = JStr ''main'' then
       (let head = js_string (arg args ''head''); forbidden = filter (\<lambda>f. \<not> isMainManagedPath f) files in
        bindI (git rootdir [''rev-list'', ''--parents'', ''-n'', ''1'', head]) (\<lambda>out.
        case split_char (CHR '' '') out of
          [_, firstParent, candidate] \<Rightarrow>
            if arg args ''allow_merge'' = JStr ''true''
            then bindI (merge_scope h rootdir head firstParent candidate) (\<lambda>m. Ret \<lparr>sc_files = files, sc_merge = Some m\<rparr>)
            else bindI (throw_ifI (forbidden \<noteq> []) (Err ''Direct main push contains product paths'' (map JStr forbidden)))
              (\<lambda>_. Ret \<lparr>sc_files = files, sc_merge = None\<rparr>)
        | _ \<Rightarrow> bindI (throw_ifI (forbidden \<noteq> []) (Err ''Direct main push contains product paths'' (map JStr forbidden)))
            (\<lambda>_. Ret \<lparr>sc_files = files, sc_merge = None\<rparr>)))
     else Throw (Err ''--event must be pr or main'' []))"

section \<open>Recording a merge\<close>

text \<open>\<open>Number(value)\<close>: plain decimal digits, or what the host's conversion says.\<close>

definition js_number :: "host \<Rightarrow> jsval \<Rightarrow> jsval" where
  "js_number h v = (case v of
     JStr s \<Rightarrow> (case count_of s of Some n \<Rightarrow> JNum (of_nat n) | None \<Rightarrow> h_number h s)
   | _ \<Rightarrow> h_number h (js_string v))"

text \<open>The request \<open>evidenceCommit\<close> gets: validated by default, from this repository's checkout.\<close>

definition evidence_request :: "host \<Rightarrow> string \<Rightarrow> string \<Rightarrow> jsval \<Rightarrow> string \<Rightarrow> bool \<Rightarrow> ev_request" where
  "evidence_request h rootdir action taskId message push =
     \<lparr>rq_root = rootdir, rq_action = action, rq_task = taskId, rq_message = message, rq_push = push,
      rq_validate = True, rq_candidate = h_repo_root h\<rparr>"

definition push_wanted :: "args \<Rightarrow> bool" where
  "push_wanted args \<longleftrightarrow> arg args ''push'' \<noteq> JStr ''false''"

datatype recorded = AlreadyRecorded jsval | Recorded ev_result

definition record_merge :: "jsval \<Rightarrow> jsval \<Rightarrow> jsval \<Rightarrow> jsval" where
  "record_merge merged pr task = js_set ''status'' (JStr ''qa'') (js_set ''merge_pr'' pr (js_set ''merged_commit'' merged task))"

definition postMerge :: "host \<Rightarrow> args \<Rightarrow> string \<Rightarrow> recorded io" where
  "postMerge h args rootdir = (let taskId = arg args ''task''; merged = arg args ''merged_commit'' in
     bindI (liftI (assertTaskId taskId)) (\<lambda>_.
     bindI (taskContext h rootdir taskId) (\<lambda>(backlog, task, taskDir).
     bindI (throw_ifI (\<not> hex_string 40 (str_or_empty merged)) (Err ''--merged-commit must be a full commit SHA'' [])) (\<lambda>_.
     bindI (git rootdir [''merge-base'', ''--is-ancestor'', js_string merged, ''main'']) (\<lambda>_.
     bindI (task_frontmatter h rootdir taskDir ''HANDOVER.md'') (\<lambda>handover.
     bindI (git rootdir [''rev-list'', ''--parents'', ''-n'', ''1'', js_string merged]) (\<lambda>out.
     bindI (case split_char (CHR '' '') out of
         [_, _, second] \<Rightarrow> bindI (liftI (js_get handover ''candidate_commit'')) (\<lambda>c. Ret (c = JStr second))
       | _ \<Rightarrow> Ret False) (\<lambda>recorded.
     bindI (throw_ifI (\<not> recorded) (Err ''Merged commit is not the recorded candidate merge commit'' [])) (\<lambda>_.
     let known = js_field task ''merged_commit'' in
     if truthy known then
       bindI (throw_ifI (\<not> js_seq known merged) (Err ''Task already records a different merged commit'' [])) (\<lambda>_.
       Ret (AlreadyRecorded known))
     else
       bindI (writeYaml h (path_join rootdir ''backlog.yaml'')
         (update_task taskId (record_merge merged (js_number h (arg args ''pr''))) backlog)) (\<lambda>_.
       bindI (evidenceCommit h (evidence_request h rootdir ''main-transition'' taskId
           (''task: record merge '' @ js_string taskId @ '' (#'' @ js_string (arg args ''pr'') @ '')'') (push_wanted args)))
         (\<lambda>res. Ret (Recorded res)))))))))))) "

section \<open>Synchronisation\<close>

datatype synced = FastSync | NothingToClean bool | Cleaned ev_result

definition CI_GREEN :: "string list" where
  "CI_GREEN = [''success'', ''neutral'', ''skipped'']"

definition sync_gate :: "args \<Rightarrow> string \<Rightarrow> unit io" where
  "sync_gate args rootdir =
     bindI (assertMain rootdir) (\<lambda>_.
     bindI (git rootdir [''status'', ''--porcelain'']) (\<lambda>st.
     bindI (throw_ifI (st \<noteq> []) (Err ''sync requires a clean main worktree'' [])) (\<lambda>_.
     bindI (git rootdir [''fetch'', ''--prune'', ''origin'']) (\<lambda>_.
     bindI (git rootdir [''merge'', ''--ff-only'', ''origin/main'']) (\<lambda>_.
     bindI (output_of ''gh'' [''run'', ''list'', ''--repo'', repo_slug args, ''--branch'', ''main'', ''--limit'', ''1'',
         ''--json'', ''conclusion'', ''--jq'', ''.[0].conclusion''] rootdir True) (\<lambda>(status, out, err).
     throw_ifI (status \<noteq> Some 0 \<or> js_trim out \<notin> set CI_GREEN) (Err ''sync stops while main CI is unavailable or red'' [])))))))"

definition newly_done :: "jsval \<Rightarrow> bool" where
  "newly_done task \<longleftrightarrow> truthy (js_field task ''merged_commit'') \<and> js_field task ''status'' = JStr ''qa''"

definition to_clean :: "jsval \<Rightarrow> bool" where
  "to_clean task \<longleftrightarrow> js_field task ''status'' = JStr ''done'' \<and> truthy (js_field task ''branch'')
     \<and> truthy (js_field task ''worktree'')"

definition dirty_error :: "jsval \<Rightarrow> js_error" where
  "dirty_error task = Err ''dirty worktree blocks cleanup'' [js_field task ''id'']"

definition inside_path :: "string \<Rightarrow> jsval \<Rightarrow> string io" where
  "inside_path rootdir v = liftI (resolveInside rootdir v ''path'')"

definition check_finished :: "string \<Rightarrow> jsval \<Rightarrow> unit io" where
  "check_finished rootdir task = (let w = js_field task ''worktree'' in
     if \<not> truthy w then Ret ()
     else bindI (inside_path rootdir w) (\<lambda>worktree.
       bindI (exists_path worktree) (\<lambda>e. if \<not> e then Ret () else
       bindI (git worktree [''status'', ''--porcelain'']) (\<lambda>st. throw_ifI (st \<noteq> []) (dirty_error task)))))"

definition clean_task :: "string \<Rightarrow> jsval \<Rightarrow> unit io" where
  "clean_task rootdir task = (let branch = js_string (js_field task ''branch'') in
     bindI (inside_path rootdir (js_field task ''worktree'')) (\<lambda>worktree.
     bindI (exists_path worktree) (\<lambda>e.
     bindI (if \<not> e then Ret () else bindI (git worktree [''status'', ''--porcelain''])
         (\<lambda>st. throw_ifI (st \<noteq> []) (dirty_error task))) (\<lambda>_.
     bindI (git rootdir [''merge-base'', ''--is-ancestor'', branch, ''main'']) (\<lambda>_.
     bindI (exists_path worktree) (\<lambda>e'.
     bindI (if \<not> e' then Ret [] else git rootdir [''worktree'', ''remove'', worktree]) (\<lambda>_.
     bindI (git rootdir [''branch'', ''-d'', branch]) (\<lambda>_. Ret ()))))))))"

definition task_names :: "jsval list \<Rightarrow> string" where
  "task_names tasks = js_string (JArr (map (\<lambda>t. js_field t ''id'') tasks))"

definition first_id :: "jsval list \<Rightarrow> jsval" where
  "first_id tasks = (case tasks of [] \<Rightarrow> JUndef | t # _ \<Rightarrow> js_field t ''id'')"

definition finish_tasks :: "host \<Rightarrow> args \<Rightarrow> string \<Rightarrow> bool io" where
  "finish_tasks h args rootdir = (let file = path_join rootdir ''backlog.yaml'' in
     bindI (read_yaml h file) (\<lambda>backlog.
     bindI (liftI (bindR (backlog_tasks backlog) (filter_R newly_done))) (\<lambda>newlyDone.
     bindI (each_I (check_finished rootdir) newlyDone) (\<lambda>_.
     if newlyDone = [] then Ret False
     else bindI (writeYaml h file (map_tasks (\<lambda>t. if newly_done t then js_set ''status'' (JStr ''done'') t else t) backlog)) (\<lambda>_.
       bindI (evidenceCommit h (evidence_request h rootdir ''sync'' (first_id newlyDone)
           (''task: complete '' @ task_names newlyDone) (push_wanted args))) (\<lambda>_. Ret True))))))"

definition clean_tasks :: "host \<Rightarrow> args \<Rightarrow> string \<Rightarrow> bool \<Rightarrow> synced io" where
  "clean_tasks h args rootdir finished = (let file = path_join rootdir ''backlog.yaml'' in
     bindI (read_yaml h file) (\<lambda>backlog.
     bindI (liftI (bindR (backlog_tasks backlog) (filter_R to_clean))) (\<lambda>cleanup.
     bindI (each_I (clean_task rootdir) cleanup) (\<lambda>_.
     if cleanup = [] then Ret (NothingToClean (\<not> finished))
     else bindI (writeYaml h file (map_tasks
           (\<lambda>t. if to_clean t then js_delete ''worktree'' (js_delete ''branch'' t) else t) backlog)) (\<lambda>_.
       bindI (evidenceCommit h (evidence_request h rootdir ''sync'' (first_id cleanup)
           (''task: clean '' @ task_names cleanup) (push_wanted args))) (\<lambda>res. Ret (Cleaned res)))))))"

definition syncMain :: "host \<Rightarrow> args \<Rightarrow> string \<Rightarrow> synced io" where
  "syncMain h args rootdir =
     bindI (sync_gate args rootdir) (\<lambda>_.
     if arg args ''fast'' = JStr ''1'' then Ret FastSync
     else bindI (finish_tasks h args rootdir) (clean_tasks h args rootdir))"

end
