(* ===== verification/Publication_Props.thy ===== *)
theory Publication_Props
  imports Completion_Props Publication
begin

text \<open>
  What the scope check of CI lets through, and what synchronisation deletes.
\<close>

section \<open>The scope check\<close>

text \<open>A merge commit that is bound to one Task: the second parent is the candidate the Task's
  HANDOVER names at the first parent; the candidate is one commit of product files; what the merge
  changes among the main-managed files is the Task's evidence.\<close>

definition bound_merge :: "host \<Rightarrow> string \<Rightarrow> string \<Rightarrow> string \<Rightarrow> string \<Rightarrow> jsval \<Rightarrow> event list \<Rightarrow> bool" where
  "bound_merge h rootdir head firstParent candidate task es \<longleftrightarrow>
     (\<exists>e. runs (bound_candidate h rootdir firstParent task) e (Inr (JStr candidate)) \<and> set e \<subseteq> set es)
   \<and> (\<exists>base e files. counted rootdir base candidate 1 es \<and> runs (diffPaths rootdir base candidate) e (Inr files)
        \<and> set e \<subseteq> set es \<and> (\<forall>f \<in> set files. \<not> isMainManagedPath f))
   \<and> (\<exists>e files. runs (diffPaths rootdir firstParent head) e (Inr files) \<and> set e \<subseteq> set es
        \<and> (\<forall>f \<in> set files. isMainManagedPath f \<longrightarrow> matches f (completion_rules (js_string (js_field task ''task_dir'')))))"

lemma map_I_bound:
  assumes "runs (map_I (\<lambda>task. bindI (f task) (\<lambda>b. Ret (task, b))) tasks) es (Inr found)" "(task, b) \<in> set found"
  shows "task \<in> set tasks \<and> (\<exists>e. runs (f task) e (Inr b) \<and> set e \<subseteq> set es)"
  using assms
proof (induction tasks arbitrary: es found)
  case (Cons t ts)
  from Cons.prems(1) obtain e1 b' e2 ys where s: "runs (f t) e1 (Inr b')"
    "runs (map_I (\<lambda>task. bindI (f task) (\<lambda>b. Ret (task, b))) ts) e2 (Inr ys)" "found = (t, b') # ys" "es = e1 @ e2"
    unfolding map_I.simps bindI_assoc bindI.simps by - (elim ok_elims, rule that, (assumption | simp)+)
  show ?case using Cons.IH [OF s(2)] Cons.prems(2) s by auto
qed simp

lemma merge_scope_ok:
  assumes "runs (merge_scope h rootdir head firstParent candidate) es (Inr m)"
  obtains task where "m = (js_field task ''id'', candidate)" "bound_merge h rootdir head firstParent candidate task es"
proof -
  from assms obtain text' backlog tasks found e1 e2 e3 x where s:
    "runs (map_I (\<lambda>task. bindI (bound_candidate h rootdir firstParent task) (\<lambda>b. Ret (task, b))) tasks) e2 (Inr found)"
    "runs (case filter (\<lambda>(task, b). b = JStr candidate) found of
       [(task, b)] \<Rightarrow>
         bindI (git rootdir [''merge-base'', firstParent, candidate]) (\<lambda>base.
         bindI (commits_between rootdir base candidate) (\<lambda>n.
         bindI (throw_ifI (n \<noteq> Some 1) (Err ''Merge candidate must be one commit after planning'' [])) (\<lambda>_.
         bindI (diffPaths rootdir base candidate) (\<lambda>candidateFiles. let dir = js_string (js_field task ''task_dir'') in
         bindI (throw_ifI (in_task dir ''HANDOVER.md'' \<in> set candidateFiles) (Err ''Merge candidate contains candidate-side HANDOVER'' [])) (\<lambda>_.
         let forbidden = filter isMainManagedPath candidateFiles in
         bindI (throw_ifI (forbidden \<noteq> []) (Err ''Merge candidate contains main-managed paths'' (map JStr forbidden))) (\<lambda>_.
         bindI (diffPaths rootdir firstParent head) (\<lambda>merged.
         let changes = filter (\<lambda>file. isMainManagedPath file \<and> \<not> matches file (completion_rules dir)) merged in
         bindI (throw_ifI (changes \<noteq> []) (Err ''Merge commit changes unapproved main-managed paths'' (map JStr changes))) (\<lambda>_.
         Ret (js_field task ''id'', candidate)))))))))
     | _ \<Rightarrow> Throw (no_binding_error candidate found)) e3 (Inr m)" "es = e1 @ e2 @ e3"
    unfolding merge_scope_def by (elim ok_elims) (rule that, assumption+, simp)
  show ?thesis
  proof (cases "filter (\<lambda>(task, b). b = JStr candidate) found")
    case (Cons tb rest)
    obtain task b where tb: "tb = (task, b)" by (cases tb)
    with s(2) Cons have "rest = []" by (cases rest) auto
    have "tb \<in> set (filter (\<lambda>(task, b). b = JStr candidate) found)" unfolding Cons by simp
    then have b: "b = JStr candidate" "(task, b) \<in> set found" unfolding tb by auto
    note bound = map_I_bound [OF s(1) b(2)]
    from s(2) obtain base f1 f2 files f4 merged f3 where t: "runs (commits_between rootdir base candidate) f2 (Inr (Some 1))"
      "runs (diffPaths rootdir base candidate) f3 (Inr files)" "\<not> filter isMainManagedPath files \<noteq> []"
      "runs (diffPaths rootdir firstParent head) f4 (Inr merged)"
      "\<not> filter (\<lambda>file. isMainManagedPath file \<and> \<not> matches file (completion_rules (js_string (js_field task ''task_dir'')))) merged \<noteq> []"
      "m = (js_field task ''id'', candidate)" "e3 = f1 @ f2 @ f3 @ f4"
      unfolding Cons tb \<open>rest = []\<close> list.case prod.case Let_def by - (elim ok_elims, rule that, (assumption | simp)+)
    have "counted rootdir base candidate 1 es"
      by (rule counted_mono [OF commits_counted [OF t(1)]]) (use t(7) s(3) in auto)
    moreover have "set f3 \<subseteq> set es" "set f4 \<subseteq> set es" "set e2 \<subseteq> set es" using t(7) s(3) by auto
    moreover have "\<forall>f \<in> set files. \<not> isMainManagedPath f" using t(3) by (simp add: filter_empty_conv)
    moreover have "\<forall>f \<in> set merged. isMainManagedPath f \<longrightarrow> matches f (completion_rules (js_string (js_field task ''task_dir'')))"
      using t(5) by (auto simp: filter_empty_conv)
    moreover have "\<exists>e. runs (bound_candidate h rootdir firstParent task) e (Inr (JStr candidate)) \<and> set e \<subseteq> set es"
      using bound b(1) \<open>set e2 \<subseteq> set es\<close> by blast
    ultimately have "bound_merge h rootdir head firstParent candidate task es"
      using t(2,4) unfolding bound_merge_def by blast
    with t(6) show ?thesis by (rule that)
  qed (use s(2) in simp)
qed

text \<open>What a scope check that passes has established.\<close>

definition scope_sound :: "host \<Rightarrow> args \<Rightarrow> string \<Rightarrow> scope_result \<Rightarrow> event list \<Rightarrow> bool" where
  "scope_sound h args rootdir res es \<longleftrightarrow>
     (\<exists>e. runs (scope_files args rootdir) e (Inr (sc_files res)) \<and> set e \<subseteq> set es)
   \<and> (case sc_merge res of
        None \<Rightarrow> (arg args ''event'' = JStr ''pr'' \<and> (\<forall>f \<in> set (sc_files res). \<not> isMainManagedPath f))
             \<or> (arg args ''event'' = JStr ''main'' \<and> (\<forall>f \<in> set (sc_files res). isMainManagedPath f))
      | Some (i, candidate) \<Rightarrow> arg args ''event'' = JStr ''main'' \<and> arg args ''allow_merge'' = JStr ''true''
             \<and> (\<exists>task firstParent. i = js_field task ''id''
                  \<and> bound_merge h rootdir (js_string (arg args ''head'')) firstParent candidate task es
                  \<and> (\<exists>out self. answered (Spawn ''git'' [''rev-list'', ''--parents'', ''-n'', ''1'', js_string (arg args ''head'')] rootdir []) out es
                       \<and> split_char (CHR '' '') out = [self, firstParent, candidate])))"

lemma direct_scope_ok:
  assumes "runs (bindI (throw_ifI (forbidden \<noteq> []) x) (\<lambda>_. Ret \<lparr>sc_files = files, sc_merge = None\<rparr>)) es (Inr res)"
  shows "forbidden = []" "res = \<lparr>sc_files = files, sc_merge = None\<rparr>" "es = []"
  using assms by (elim ok_elims; simp)+

lemma bound_merge_mono:
  assumes "bound_merge h r d f c t es" "set es \<subseteq> set fs"
  shows "bound_merge h r d f c t fs"
  using assms(1) subset_trans [OF _ assms(2)] counted_mono [OF _ assms(2)] unfolding bound_merge_def by meson

lemma scopeCheck_ok:
  assumes "runs (scopeCheck h args rootdir) es (Inr res)"
  shows "scope_sound h args rootdir res es"
proof -
  define head where "head = js_string (arg args ''head'')"
  from assms obtain files e1 e2 where f: "runs (scope_files args rootdir) e1 (Inr files)" "es = e1 @ e2"
    and k: "runs (if arg args ''event'' = JStr ''pr'' then
       (let forbidden = filter isMainManagedPath files in
        bindI (throw_ifI (forbidden \<noteq> []) (Err ''PR scope contains main-managed paths'' (map JStr forbidden)))
          (\<lambda>_. Ret \<lparr>sc_files = files, sc_merge = None\<rparr>))
     else if arg args ''event'' = JStr ''main'' then
       (let head = js_string (arg args ''head''); forbidden = filter (\<lambda>f. \<not> isMainManagedPath f) files in
        bindI (git rootdir [''rev-list'', ''--parents'', ''-n'', ''1'', head]) (\<lambda>out.
        case split_char (CHR '' '') out of
          [_, firstParent, candidate] \<Rightarrow>
            if arg args ''allow_merge'' = JStr ''true''
            then bindI (merge_scope h rootdir head firstParent candidate) (\<lambda>m. Ret \<lparr>sc_files = files, sc_merge = Some m\<rparr>)
            else bindI (throw_ifI (forbidden \<noteq> []) (Err ''Direct main push contains product paths'' (map JStr forbidden)))
              (\<lambda>_. Ret \<lparr>sc_files = files, sc_merge = None\<rparr>)
        | _ \<Rightarrow> bindI (throw_ifI (forbidden \<noteq> []) (Err ''Direct main push contains product paths'' (map JStr forbidden)))
            (\<lambda>_. Ret \<lparr>sc_files = files, sc_merge = None\<rparr>)))
     else Throw (Err ''--event must be pr or main'' [])) e2 (Inr res)"
    unfolding scopeCheck_def by (rule runs_bind_okE)
  have listed: "runs (scope_files args rootdir) e1 (Inr files) \<and> set e1 \<subseteq> set es" using f by simp
  consider (pr) "arg args ''event'' = JStr ''pr''" | (main) "arg args ''event'' = JStr ''main''"
    using k by (auto split: if_splits)
  then show ?thesis
  proof cases
    case pr
    note d = direct_scope_ok [OF k [unfolded if_P [OF pr] Let_def]]
    show ?thesis using pr listed d(1,2) unfolding scope_sound_def by (auto simp: filter_empty_conv)
  next
    case main
    have np: "arg args ''event'' \<noteq> JStr ''pr''" using main by simp
    from k obtain out e3 e4 where g: "runs (git rootdir [''rev-list'', ''--parents'', ''-n'', ''1'', head]) e3 (Inr out)" "e2 = e3 @ e4"
      and k2: "runs (case split_char (CHR '' '') out of
          [_, firstParent, candidate] \<Rightarrow>
            if arg args ''allow_merge'' = JStr ''true''
            then bindI (merge_scope h rootdir head firstParent candidate) (\<lambda>m. Ret \<lparr>sc_files = files, sc_merge = Some m\<rparr>)
            else bindI (throw_ifI (filter (\<lambda>f. \<not> isMainManagedPath f) files \<noteq> []) (Err ''Direct main push contains product paths'' (map JStr (filter (\<lambda>f. \<not> isMainManagedPath f) files))))
              (\<lambda>_. Ret \<lparr>sc_files = files, sc_merge = None\<rparr>)
        | _ \<Rightarrow> bindI (throw_ifI (filter (\<lambda>f. \<not> isMainManagedPath f) files \<noteq> []) (Err ''Direct main push contains product paths'' (map JStr (filter (\<lambda>f. \<not> isMainManagedPath f) files))))
            (\<lambda>_. Ret \<lparr>sc_files = files, sc_merge = None\<rparr>)) e4 (Inr res)"
      unfolding if_not_P [OF np] if_P [OF main] Let_def head_def [symmetric] by (rule runs_bind_okE)
    have out: "answered (Spawn ''git'' [''rev-list'', ''--parents'', ''-n'', ''1'', head] rootdir []) out es"
      using g f(2) by (auto simp: ok_runs)
    consider (direct) "runs (bindI (throw_ifI (filter (\<lambda>f. \<not> isMainManagedPath f) files \<noteq> []) (Err ''Direct main push contains product paths'' (map JStr (filter (\<lambda>f. \<not> isMainManagedPath f) files))))
              (\<lambda>_. Ret \<lparr>sc_files = files, sc_merge = None\<rparr>)) e4 (Inr res)"
      | (merge) self firstParent candidate where "split_char (CHR '' '') out = [self, firstParent, candidate]"
         "arg args ''allow_merge'' = JStr ''true''"
         "runs (bindI (merge_scope h rootdir head firstParent candidate) (\<lambda>m. Ret \<lparr>sc_files = files, sc_merge = Some m\<rparr>)) e4 (Inr res)"
      using k2 by (simp only: split: list.splits if_splits)
    then show ?thesis
    proof cases
      case direct
      note d = direct_scope_ok [OF direct]
      show ?thesis using main listed d(1,2) unfolding scope_sound_def by (auto simp: filter_empty_conv)
    next
      case merge
      from merge(3) obtain e5 m where m: "runs (merge_scope h rootdir head firstParent candidate) e5 (Inr m)"
        "res = \<lparr>sc_files = files, sc_merge = Some m\<rparr>" "e4 = e5" by (elim ok_elims) simp
      from m(1) obtain task where t: "m = (js_field task ''id'', candidate)" "bound_merge h rootdir head firstParent candidate task e5"
        by (rule merge_scope_ok)
      have "bound_merge h rootdir head firstParent candidate task es"
        by (rule bound_merge_mono [OF t(2)]) (use f(2) g(2) m(3) in auto)
      then show ?thesis
        using listed main merge(1,2) out m(2) t(1) unfolding scope_sound_def head_def [symmetric] by auto
    qed
  qed
qed

section \<open>Synchronisation\<close>

text \<open>A use of \<open>git branch\<close> that changes branches.\<close>

fun branch_write :: "op \<Rightarrow> bool" where
  "branch_write (Spawn cmd args dir env) = (cmd = ''git'' \<and> (case args of c # rest \<Rightarrow> c = ''branch'' \<and> rest \<noteq> [''--show-current''] | [] \<Rightarrow> False))"
| "branch_write _ = False"

lemma branch_write_git_write: "branch_write p \<Longrightarrow> git_write p"
  by (cases p) (auto simp: git_write_def git_reads_def split: list.splits)

text \<open>Each one deletes a branch that git had confirmed, in this root, to be an ancestor of main.\<close>

definition ancestor_check :: "string \<Rightarrow> string \<Rightarrow> op" where
  "ancestor_check rootdir b = Spawn ''git'' [''merge-base'', ''--is-ancestor'', b, ''main''] rootdir []"

fun safe_deletes :: "string \<Rightarrow> event list \<Rightarrow> event list \<Rightarrow> bool" where
  "safe_deletes rootdir past [] = True"
| "safe_deletes rootdir past (e # es) =
     ((branch_write (fst e) \<longrightarrow> (\<exists>b. fst e = Spawn ''git'' [''branch'', ''-d'', b] rootdir [] \<and> ran (ancestor_check rootdir b) past))
      \<and> safe_deletes rootdir (past @ [e]) es)"

lemma safe_deletes_append: "safe_deletes r past (xs @ ys) \<longleftrightarrow> safe_deletes r past xs \<and> safe_deletes r (past @ xs) ys"
  by (induction xs arbitrary: past) auto

lemma safe_deletes_none: "\<forall>e \<in> set es. \<not> branch_write (fst e) \<Longrightarrow> safe_deletes r past es"
  by (induction es arbitrary: past) auto

lemma safe_deletes_at:
  "safe_deletes r past (pre @ e # post) \<Longrightarrow> branch_write (fst e) \<Longrightarrow>
     \<exists>b. fst e = Spawn ''git'' [''branch'', ''-d'', b] r [] \<and> ran (ancestor_check r b) (past @ pre)"
  unfolding safe_deletes_append by auto

definition safe_io :: "string \<Rightarrow> 'a io \<Rightarrow> bool" where
  "safe_io r m \<longleftrightarrow> (\<forall>past es out. runs m es out \<longrightarrow> safe_deletes r past es)"

lemma safe_ioI: "(\<And>past es out. runs m es out \<Longrightarrow> safe_deletes r past es) \<Longrightarrow> safe_io r m"
  by (auto simp: safe_io_def)

lemma safe_ioD: "safe_io r m \<Longrightarrow> runs m es out \<Longrightarrow> safe_deletes r past es"
  by (auto simp: safe_io_def)

lemma safe_io_only: "only (\<lambda>p. \<not> branch_write p) m \<Longrightarrow> safe_io r m"
  unfolding safe_io_def using safe_deletes_none only_runs by blast

lemma safe_io_bindI:
  assumes m: "safe_io r m" and f: "\<And>x. safe_io r (f x)"
  shows "safe_io r (bindI m f)"
  by (rule safe_ioI) (auto simp: runs_bindI safe_deletes_append intro: safe_ioD [OF m] safe_ioD [OF f])

lemma safe_io_if: "safe_io r m \<Longrightarrow> safe_io r n \<Longrightarrow> safe_io r (if b then m else n)"
  by simp

lemma safe_io_each: "(\<And>x. safe_io r (f x)) \<Longrightarrow> safe_io r (each_I f xs)"
  by (induction xs) (auto intro: safe_io_bindI safe_io_only)

text \<open>Once the check has run, deleting that branch is safe.\<close>

lemma safe_io_checked:
  assumes "\<And>x. only (\<lambda>p. branch_write p \<longrightarrow> p = Spawn ''git'' [''branch'', ''-d'', b] r []) (f x)"
  shows "safe_io r (bindI (git r [''merge-base'', ''--is-ancestor'', b, ''main'']) f)"
proof -
  have after: "safe_deletes r past es" if "\<forall>e \<in> set es. branch_write (fst e) \<longrightarrow> fst e = Spawn ''git'' [''branch'', ''-d'', b] r []"
      "ran (ancestor_check r b) past" for past es
    using that by (induction es arbitrary: past) auto
  have g: "only (\<lambda>p. \<not> branch_write p) (git r [''merge-base'', ''--is-ancestor'', b, ''main''])"
    by (rule only_git) simp
  show ?thesis
  proof (rule safe_ioI)
    fix past es out
    assume "runs (bindI (git r [''merge-base'', ''--is-ancestor'', b, ''main'']) f) es out"
    then consider (failed) e where "runs (git r [''merge-base'', ''--is-ancestor'', b, ''main'']) es (Inl e)"
      | (done') e1 e2 x where "es = e1 @ e2" "runs (git r [''merge-base'', ''--is-ancestor'', b, ''main'']) e1 (Inr x)" "runs (f x) e2 out"
      unfolding runs_bindI by blast
    then show "safe_deletes r past es"
    proof cases
      case failed
      then show ?thesis using safe_ioD [OF safe_io_only [OF g]] by blast
    next
      case done'
      have "ran (ancestor_check r b) (past @ e1)" using done'(2) by (auto simp: ok_runs ancestor_check_def)
      then show ?thesis
        using after only_runs [OF assms done'(3)] safe_ioD [OF safe_io_only [OF g] done'(2)]
        unfolding done'(1) safe_deletes_append by blast
    qed
  qed
qed

lemma no_branch_reads: "reads p \<Longrightarrow> \<not> branch_write p"
  using branch_write_git_write reads_not_write by blast

lemma safe_clean_task: "safe_io rootdir (clean_task rootdir task)"
  unfolding clean_task_def inside_path_def Let_def
  apply (rule safe_io_bindI, rule safe_io_only, simp)
  apply (rule safe_io_bindI, rule safe_io_only, rule only_files, simp)
  apply (rule safe_io_bindI, rule safe_io_only, intro only_rules only_git, simp)
  apply (rule safe_io_checked, intro only_rules only_files only_git, simp_all)
  done

lemma no_branch_evidence:
  assumes "h_node h \<noteq> ''git''"
  shows "only (\<lambda>p. \<not> branch_write p) (evidenceCommit h q)"
proof -
  have w: "only (\<lambda>p. \<not> branch_write p) m" if "only (\<lambda>p. \<not> git_write p) m" for m :: "'a io"
    by (rule only_mono [OF that]) (use branch_write_git_write in blast)
  have b: "ev_op h q rules p \<Longrightarrow> \<not> branch_write p" for rules p
    using assms by (auto simp: ev_op_def ev_op_defs index_op_def Let_def dest: no_branch_reads)
  show ?thesis
    unfolding evidenceCommit_transaction transaction_def release_def
    by (intro only_rules w [OF evidence_entry_quiet] w [OF only_no_write_acquire] only_git only_files
        only_mono [OF only_evidence_body b]) simp_all
qed

lemma safe_syncMain:
  assumes "h_node h \<noteq> ''git''"
  shows "safe_io rootdir (syncMain h args rootdir)"
proof -
  have r: "only (\<lambda>p. \<not> branch_write p) m" if "only reads m" for m :: "'a io"
    by (rule only_mono [OF that no_branch_reads])
  have g: "only (\<lambda>p. \<not> branch_write p) (sync_gate args rootdir)"
    unfolding sync_gate_def by (intro only_rules r [OF only_reads_assertMain] only_git only_output) simp_all
  have c: "only (\<lambda>p. \<not> branch_write p) (check_finished rootdir task)" for task
    unfolding check_finished_def inside_path_def Let_def by (intro only_rules only_git only_files) simp_all
  have y: "only (\<lambda>p. \<not> branch_write p) (writeYaml h f v)" for f v
    unfolding writeYaml_def writeFileAtomic_def Let_def by (intro only_rules only_files) simp_all
  have f: "safe_io rootdir (finish_tasks h args rootdir)"
    unfolding finish_tasks_def Let_def
    by (intro safe_io_only only_rules c y only_read_yaml no_branch_evidence assms) simp_all
  have "safe_io rootdir (clean_tasks h args rootdir b)" for b
    unfolding clean_tasks_def Let_def
    apply (rule safe_io_bindI)
     apply (rule safe_io_only, rule only_read_yaml, simp)
    apply (rule safe_io_bindI)
     apply (rule safe_io_only, simp)
    apply (rule safe_io_bindI)
     apply (rule safe_io_each, rule safe_clean_task)
    apply (intro safe_io_only only_rules y no_branch_evidence assms)
    done
  then show ?thesis
    unfolding syncMain_def by (intro safe_io_bindI [OF safe_io_only [OF g]] safe_io_if safe_io_bindI [OF f]) (simp_all add: safe_io_only)
qed

end
