(* ===== verification/Task_Start.thy ===== *)
theory Task_Start
  imports Publication
begin

text \<open>
  The allocation of a Task (\<open>createSparseWorktree\<close> and \<open>taskStart\<close>, scripts/task/unified-lifecycle.mjs)
  and the command line of the lifecycle script.
\<close>

section \<open>Sparse worktrees\<close>

definition SPARSE_FORBIDDEN :: "string list" where
  "SPARSE_FORBIDDEN = [''backlog.yaml'', ''project.yaml'', ''tasks'', ''wiki'', ''lap30'', ''viewer/index.html'']"

text \<open>\<open>patterns.join("\n")\<close> and a final newline.\<close>

definition sparse_text :: string where
  "sparse_text = join_char newline sparsePatterns @ [newline]"

definition absent_in :: "string \<Rightarrow> string \<Rightarrow> unit io" where
  "absent_in worktree forbidden = bindI (exists_path (path_join worktree forbidden)) (\<lambda>e.
     throw_ifI e (Err ''Sparse worktree contains main-managed path'' [JStr forbidden]))"

text \<open>A path git prints relative to the worktree is resolved by \<open>fs\<close> against the process's directory.\<close>

definition sparse_setup :: "host \<Rightarrow> string \<Rightarrow> unit io" where
  "sparse_setup h worktree =
     bindI (git worktree [''sparse-checkout'', ''init'', ''--no-cone'']) (\<lambda>_.
     bindI (git worktree [''rev-parse'', ''--git-path'', ''info/sparse-checkout'']) (\<lambda>sparseFile.
     bindI (write_file (path_resolve (h_cwd h) sparseFile) sparse_text) (\<lambda>_.
     bindI (git worktree [''read-tree'', ''-mu'', ''HEAD'']) (\<lambda>_.
     each_I (absent_in worktree) SPARSE_FORBIDDEN))))"

definition drop_worktree :: "string \<Rightarrow> string \<Rightarrow> string \<Rightarrow> unit io" where
  "drop_worktree rootdir branch worktree =
     bindI (output_of ''git'' [''worktree'', ''remove'', ''--force'', worktree] rootdir True) (\<lambda>_.
     bindI (output_of ''git'' [''branch'', ''-D'', branch] rootdir True) (\<lambda>_. Ret ()))"

definition createSparseWorktree :: "host \<Rightarrow> string \<Rightarrow> string \<Rightarrow> string \<Rightarrow> unit io" where
  "createSparseWorktree h rootdir branch worktree =
     bindI (git rootdir [''worktree'', ''add'', ''-b'', branch, worktree, ''main'']) (\<lambda>_.
     catchI (sparse_setup h worktree)
       (\<lambda>e. bindI (drop_worktree rootdir branch worktree) (\<lambda>_. Throw e)))"

section \<open>The start of a Task\<close>

record allocation =
  al_dir :: string
  al_relative :: string
  al_branch :: string
  al_worktree :: string
  al_relative_worktree :: string
  al_head :: string
  al_original :: string
  al_backlog :: jsval
  al_epic :: jsval

text \<open>\<open>task.id === id\<close> of some task, and of some epic; \<open>some\<close> stops at the first.\<close>

definition known_id :: "jsval list \<Rightarrow> jsval \<Rightarrow> bool res" where
  "known_id xs i = bindR (find_by_id xs i) (\<lambda>found. Inr (found \<noteq> None))"

text \<open>\<open>backlog.epics?.[0]?.id\<close>\<close>

definition first_epic :: "jsval \<Rightarrow> jsval" where
  "first_epic backlog = (case js_field backlog ''epics'' of JArr (e # _) \<Rightarrow> js_opt e ''id'' | _ \<Rightarrow> JUndef)"

definition known_epic :: "jsval \<Rightarrow> jsval \<Rightarrow> bool res" where
  "known_epic backlog epic = (let epics = js_field backlog ''epics'' in
     if nullish epics then Inr False
     else case epics of JArr xs \<Rightarrow> known_id xs epic | _ \<Rightarrow> Inl type_error)"

definition task_start_gate :: "args \<Rightarrow> string \<Rightarrow> string io" where
  "task_start_gate args rootdir =
     bindI (assertMain rootdir) (\<lambda>_.
     bindI (liftI (assertTaskId (arg args ''id''))) (\<lambda>_.
     bindI (liftI (assertSlug (arg args ''slug''))) (\<lambda>_.
     bindI (throw_ifI (\<not> truthy (arg args ''title'')) (Err ''--title is required'' [])) (\<lambda>_.
     bindI (git rootdir [''status'', ''--porcelain'']) (\<lambda>st.
     bindI (throw_ifI (st \<noteq> []) (Err ''task-start requires a clean main worktree'' [])) (\<lambda>_.
     bindI (git rootdir [''fetch'', ''origin'', ''main'']) (\<lambda>_.
     bindI (git rootdir [''rev-parse'', ''HEAD'']) (\<lambda>here.
     bindI (git rootdir [''rev-parse'', ''origin/main'']) (\<lambda>there.
     bindI (throw_ifI (here \<noteq> there) (Err ''task-start requires current main'' [])) (\<lambda>_.
     git rootdir [''rev-parse'', ''HEAD'']))))))))))"

definition plan_allocation :: "host \<Rightarrow> args \<Rightarrow> string \<Rightarrow> allocation io" where
  "plan_allocation h args rootdir = (let file = path_join rootdir ''backlog.yaml'';
       name = js_string (arg args ''id'') @ ''-'' @ js_string (arg args ''slug'') in
     bindI (task_start_gate args rootdir) (\<lambda>startHead.
     bindI (read_file file) (\<lambda>original.
     bindI (read_yaml h file) (\<lambda>backlog.
     bindI (liftI (bindR (backlog_tasks backlog) (\<lambda>tasks. known_id tasks (arg args ''id'')))) (\<lambda>known.
     bindI (throw_ifI known (Err ''Task already exists'' [arg args ''id''])) (\<lambda>_.
     let epic = coalesce (arg args ''epic'') (first_epic backlog) in
     bindI (liftI (known_epic backlog epic)) (\<lambda>ok.
     bindI (throw_ifI (\<not> ok) (Err ''Unknown epic'' [epic])) (\<lambda>_.
     bindI (inside_path rootdir (JStr (''tasks/'' @ name))) (\<lambda>taskDir.
     bindI (inside_path rootdir (JStr (''worktrees/'' @ name))) (\<lambda>worktree.
     Ret \<lparr>al_dir = taskDir, al_relative = ''tasks/'' @ name, al_branch = ''task/'' @ name, al_worktree = worktree,
       al_relative_worktree = ''worktrees/'' @ name, al_head = startHead, al_original = original,
       al_backlog = backlog, al_epic = epic\<rparr>))))))))))"

definition template_values :: "host \<Rightarrow> args \<Rightarrow> string \<Rightarrow> (string \<times> string) list" where
  "template_values h args today = [(''TASK_ID'', js_string (arg args ''id'')), (''TITLE'', js_string (arg args ''title'')),
     (''TITLE_YAML'', h_json_text h (arg args ''title'')), (''DATE'', today)]"

definition write_template :: "host \<Rightarrow> (string \<times> string) list \<Rightarrow> string \<Rightarrow> string \<Rightarrow> unit io" where
  "write_template h vals taskDir filename =
     bindI (read_file (path_join (path_join (h_repo_root h) ''templates/task'') filename)) (\<lambda>template.
     bindI (liftI (replaceTemplate vals template)) (\<lambda>content.
     write_file (path_join taskDir filename) content))"

definition task_assignees :: "args \<Rightarrow> jsval" where
  "task_assignees args = JObj (map (\<lambda>(k, d). (k, coalesce (arg args k) (JStr d)))
     [(''main'', ''main-agent-sol-high''), (''planner'', ''planner-agent-terra-medium''), (''dev'', ''dev-agent-sol-high''),
      (''reviewer'', ''reviewer-agent-terra-medium''), (''qa'', ''qa-agent-terra-medium'')])"

definition new_task :: "args \<Rightarrow> allocation \<Rightarrow> jsval" where
  "new_task args al = JObj [(''id'', arg args ''id''), (''title'', arg args ''title''),
     (''type'', coalesce (arg args ''type'') (JStr ''feature'')), (''change_class'', JStr ''product''), (''epic'', al_epic al),
     (''status'', JStr ''plan''), (''priority'', coalesce (arg args ''priority'') (JStr ''P2'')), (''estimate_points'', JNum 1),
     (''task_dir'', JStr (al_relative al)), (''depends_on'', JArr []), (''branch'', JStr (al_branch al)),
     (''worktree'', JStr (al_relative_worktree al)), (''assignees'', task_assignees args)]"

text \<open>\<open>backlog.tasks ??= []; backlog.tasks.push(task)\<close>\<close>

definition push_task :: "jsval \<Rightarrow> jsval \<Rightarrow> jsval" where
  "push_task task backlog = js_set ''tasks'' (JArr (arr_items (js_field backlog ''tasks'') @ [task])) backlog"

record started =
  ts_changed :: "string list"
  ts_branch :: string
  ts_worktree :: string

text \<open>The \<open>try\<close> block up to the allocation of the worktree, and after it.\<close>

definition write_task :: "host \<Rightarrow> args \<Rightarrow> string \<Rightarrow> allocation \<Rightarrow> unit io" where
  "write_task h args rootdir al =
     bindI (read_yaml h (path_join rootdir ''project.yaml'')) (\<lambda>project.
     bindI (liftI (bindR (js_get project ''timezone'') (h_today h))) (\<lambda>today.
     bindI (each_I (write_template h (template_values h args today) (al_dir al)) REQUIRED_TASK_FILES) (\<lambda>_.
     bindI (writeYaml h (path_join rootdir ''backlog.yaml'') (push_task (new_task args al) (al_backlog al))) (\<lambda>_.
     createSparseWorktree h rootdir (al_branch al) (al_worktree al)))))"

definition settle_task :: "string \<Rightarrow> allocation \<Rightarrow> started io" where
  "settle_task rootdir al =
     bindI (git (al_worktree al) [''reset'', ''--hard'', ''main'']) (\<lambda>_.
     bindI (changedFiles rootdir) (\<lambda>changed.
     Ret \<lparr>ts_changed = changed, ts_branch = al_branch al, ts_worktree = al_worktree al\<rparr>))"

text \<open>\<open>remote.stdout.trim().split(/\s+/)[0]\<close>\<close>

definition start_remote :: "string \<Rightarrow> string option io" where
  "start_remote rootdir =
     bindI (output_of ''git'' [''ls-remote'', ''origin'', ''refs/heads/main''] rootdir True) (\<lambda>(status, out, err).
     Ret (if status \<noteq> Some 0 then None else Some (takeWhile (\<lambda>c. \<not> blank c) (js_trim out))))"

text \<open>The \<open>catch\<close>; \<open>allocated\<close> says whether the worktree had been made.\<close>

definition undo_start :: "string \<Rightarrow> allocation \<Rightarrow> bool \<Rightarrow> js_error \<Rightarrow> started io" where
  "undo_start rootdir al allocated e = (let file = path_join rootdir ''backlog.yaml'';
       removeAllocation = (if allocated then drop_worktree rootdir (al_branch al) (al_worktree al) else Ret ()) in
     bindI (git rootdir [''rev-parse'', ''HEAD'']) (\<lambda>currentHead.
     if currentHead \<noteq> al_head al then
       bindI (start_remote rootdir) (\<lambda>remoteHead.
       if remoteHead \<noteq> Some (al_head al)
       then Throw (suffix_error ''; publish outcome is not the starting remote, so allocated resources and local evidence were retained for reconciliation'' [] e)
       else bindI removeAllocation (\<lambda>_.
         bindI (git rootdir [''reset'', ''--hard'', al_head al]) (\<lambda>_.
         Throw (suffix_error ''; remote remained unchanged and invocation-created resources were removed (branch, worktree, and local evidence)'' [] e))))
     else
       bindI removeAllocation (\<lambda>_.
       bindI (git rootdir [''reset'', ''--mixed'', al_head al]) (\<lambda>_.
       bindI (exists_path (al_dir al)) (\<lambda>there.
       bindI (if there then remove (al_dir al) else Ret ()) (\<lambda>_.
       bindI (git rootdir [''status'', ''--porcelain'', ''backlog.yaml'']) (\<lambda>st.
       bindI (if st \<noteq> [] then write_file file (al_original al) else Ret ()) (\<lambda>_.
       Throw (suffix_error ''; remote was not published and invocation-created resources were removed'' [] e)))))))))"

definition taskStart :: "host \<Rightarrow> args \<Rightarrow> string \<Rightarrow> started io" where
  "taskStart h args rootdir =
     bindI (plan_allocation h args rootdir) (\<lambda>al.
     bindI (make_dir (path_dirname (al_dir al)) True) (\<lambda>_.
     bindI (make_dir (al_dir al) False) (\<lambda>_.
     bindI (catchI (bindI (write_task h args rootdir al) (\<lambda>_. Ret None))
         (\<lambda>e. bindI (undo_start rootdir al False e) (\<lambda>r. Ret (Some r)))) (\<lambda>done.
     case done of Some r \<Rightarrow> Ret r
     | None \<Rightarrow> catchI (settle_task rootdir al) (undo_start rootdir al True)))))"

section \<open>The command line\<close>

datatype outcome =
    Evidence ev_result
  | Candidate candidate_result
  | Completed completion_result
  | Started started
  | PullRequest "composite \<times> string option"
  | Scope scope_result
  | Merged recorded
  | Synced synced
  | Composite composite

definition lifecycle_root :: "host \<Rightarrow> args \<Rightarrow> string io" where
  "lifecycle_root h args = (case map_of args ''main_root'' of
       Some r \<Rightarrow> Ret (path_resolve (h_cwd h) r)
     | None \<Rightarrow> if arg args ''action'' = JStr ''task-pr'' then Ret (h_repo_root h)
         else find_main_worktree (h_repo_root h))"

definition lifecycle_action :: "host \<Rightarrow> args \<Rightarrow> string \<Rightarrow> string \<Rightarrow> outcome io" where
  "lifecycle_action h args rootdir action = (let taskId = arg args ''task''; t = js_string taskId;
       message = (\<lambda>d. arg_or args ''message'' d);
       evidence = (\<lambda>a m. bindI (evidenceCommit h (evidence_request h rootdir a taskId m (push_wanted args))) (\<lambda>r. Ret (Evidence r))) in
     if action = ''evidence-commit'' then (let a = js_string (arg args ''evidence_action'') in evidence a (message (''task: '' @ a @ '' '' @ t)))
     else if action = ''planning-gate'' then evidence ''planning-gate'' (message (''task: planning '' @ t))
     else if action = ''candidate-commit'' then
       bindI (candidateCommit h \<lparr>cd_root = rootdir, cd_task = taskId, cd_candidate = arg_or args ''candidate_root'' [],
         cd_message = message (''task: candidate '' @ t)\<rparr>) (\<lambda>r. Ret (Candidate r))
     else if action = ''completion-gate'' then
       bindI (completionGate h \<lparr>cq_root = rootdir, cq_task = taskId, cq_message = message (''task: complete '' @ t),
         cq_validate = (arg args ''validate'' \<noteq> JStr ''false''), cq_push = push_wanted args\<rparr>) (\<lambda>r. Ret (Completed r))
     else if action = ''task-start'' then bindI (taskStart h args rootdir) (\<lambda>r. Ret (Started r))
     else if action = ''task-pr'' then bindI (taskPr h args rootdir) (\<lambda>r. Ret (PullRequest r))
     else if action = ''scope-check'' then bindI (scopeCheck h args rootdir) (\<lambda>r. Ret (Scope r))
     else if action = ''post-merge'' then bindI (postMerge h args rootdir) (\<lambda>r. Ret (Merged r))
     else if action = ''sync'' then bindI (syncMain h args rootdir) (\<lambda>r. Ret (Synced r))
     else if action = ''candidate'' then bindI (assertComposite h rootdir taskId) (\<lambda>r. Ret (Composite r))
     else Throw (Err ''Unknown --action'' []))"

definition lifecycle_main :: "host \<Rightarrow> string list \<Rightarrow> outcome io" where
  "lifecycle_main h argv =
     bindI (liftI (parseArgs argv)) (\<lambda>args.
     bindI (lifecycle_root h args) (\<lambda>rootdir.
     lifecycle_action h args rootdir (js_string (arg args ''action''))))"

end
