(* ===== verification/Dependencies.thy ===== *)
theory Dependencies
  imports View
begin

text \<open>
  The search for dependency cycles of scripts/task/validate-work.mjs (\<open>visit\<close>): a depth-first search
  over the Tasks' \<open>depends_on\<close>, with the set of Tasks being visited, the set of visited ones and
  the chain that led to a Task.  The Tasks being visited are those of the chain, since a visit
  removes the Task it added.  The search reports an error exactly when the dependencies have a
  cycle.
\<close>

section \<open>The search\<close>

text \<open>\<open>Set.prototype.has\<close>\<close>

definition js_in :: "jsval \<Rightarrow> jsval list \<Rightarrow> bool" where
  "js_in x xs = list_ex (js_seq x) xs"

definition find_task :: "jsval list \<Rightarrow> jsval \<Rightarrow> jsval option" where
  "find_task tasks taskId = List.find (\<lambda>t. js_seq (js_field t ''id'') taskId) tasks"

text \<open>\<open>task?.depends_on ?? []\<close>, iterated.\<close>

definition depends_on :: "jsval list \<Rightarrow> jsval \<Rightarrow> jsval list res" where
  "depends_on tasks taskId = (case find_task tasks taskId of
     None \<Rightarrow> Inr []
   | Some t \<Rightarrow> js_iter (js_field t ''depends_on''))"

definition cycle_error :: "jsval list \<Rightarrow> js_error" where
  "cycle_error chain = Err ''dependency cycle'' chain"

definition task_id_values :: "jsval list \<Rightarrow> jsval set" where
  "task_id_values tasks = {i \<in> (\<lambda>t. js_field t ''id'') ` set tasks. js_seq i i}"

lemma finite_task_ids [simp]: "finite (task_id_values tasks)"
  by (simp add: task_id_values_def)

lemma js_in_set: "js_in x xs \<Longrightarrow> x \<in> set xs"
  by (auto simp: js_in_def list_ex_iff dest: js_seq_eq)

lemma js_seq_refl: "js_seq a b \<Longrightarrow> js_seq b b"
  by (cases a; cases b) auto

lemma find_task_id:
  assumes "find_task tasks i = Some t"
  shows "i \<in> task_id_values tasks" "js_field t ''id'' = i" "t \<in> set tasks"
proof -
  have t: "t \<in> set tasks" "js_seq (js_field t ''id'') i"
    using assms unfolding find_task_def by (auto dest: find_Some_iff)
  then show "t \<in> set tasks" "js_field t ''id'' = i" by (auto dest: js_seq_eq)
  then show "i \<in> task_id_values tasks" using js_seq_refl [OF t(2)] by (auto simp: task_id_values_def)
qed

function visit :: "jsval list \<Rightarrow> jsval list \<Rightarrow> jsval list \<Rightarrow> jsval list \<Rightarrow> (js_error list \<times> jsval list) res" where
  "visit tasks [] chain visited = Inr ([], visited)"
| "visit tasks (i # todo) chain visited =
     (if js_in i chain then
        bindR (visit tasks todo chain visited) (\<lambda>(es, v). Inr (cycle_error (chain @ [i]) # es, v))
      else if js_in i visited then visit tasks todo chain visited
      else case depends_on tasks i of Inl e \<Rightarrow> Inl e
        | Inr ds \<Rightarrow>
          (case visit tasks ds (chain @ [i]) visited of Inl e \<Rightarrow> Inl e
           | Inr (es, v) \<Rightarrow> bindR (visit tasks todo chain (v @ [i])) (\<lambda>(es', v'). Inr (es @ es', v'))))"
  by pat_completeness auto
termination
proof (relation "measures [\<lambda>(tasks, todo, chain, visited). card (task_id_values tasks - set chain),
    \<lambda>(tasks, todo, chain, visited). length todo]", goal_cases)
  case (4 tasks i todo chain visited ds)
  show ?case
  proof (cases "i \<in> task_id_values tasks")
    case True
    have "i \<notin> set chain"
    proof
      assume "i \<in> set chain"
      moreover have "js_seq i i" using True by (simp add: task_id_values_def)
      ultimately show False using 4(1) by (auto simp: js_in_def list_ex_iff)
    qed
    then have "task_id_values tasks - set (chain @ [i]) \<subset> task_id_values tasks - set chain" using True by auto
    then show ?thesis by (simp add: psubset_card_mono)
  next
    case False
    then have "ds = []" using 4(3) find_task_id(1) by (auto simp: depends_on_def split: option.splits)
    moreover have "task_id_values tasks - set (chain @ [i]) = task_id_values tasks - set chain" using False by auto
    ultimately show ?thesis by simp
  qed
qed auto

declare visit.simps [simp del]

definition dependency_cycles :: "jsval list \<Rightarrow> js_error list res" where
  "dependency_cycles tasks = bindR (visit tasks (map (\<lambda>t. js_field t ''id'') tasks) [] []) (\<lambda>(es, v). Inr es)"

section \<open>The search is exact\<close>

text \<open>The dependency relation; the Tasks' ids and dependencies are strings, as their schema says.\<close>

definition string_graph :: "jsval list \<Rightarrow> bool" where
  "string_graph tasks \<longleftrightarrow> (\<forall>t \<in> set tasks. is_string (js_field t ''id'')
     \<and> (nullish (js_field t ''depends_on'') \<or> (\<exists>ds. js_field t ''depends_on'' = JArr ds \<and> list_all is_string ds)))"

definition edge :: "jsval list \<Rightarrow> (jsval \<times> jsval) set" where
  "edge tasks = {(i, d). \<exists>ds. depends_on tasks i = Inr ds \<and> d \<in> set ds}"

lemma js_in_strings: "is_string x \<Longrightarrow> js_in x xs \<longleftrightarrow> x \<in> set xs"
  by (cases x) (auto simp: js_in_def list_ex_iff)

lemma depends_on_ok:
  assumes "string_graph tasks"
  obtains ds where "depends_on tasks i = Inr ds" "list_all is_string ds"
proof (cases "find_task tasks i")
  case None
  then show ?thesis using that [of "[]"] by (simp add: depends_on_def)
next
  case (Some t)
  from assms find_task_id(3) [OF Some] consider "nullish (js_field t ''depends_on'')"
    | ds where "js_field t ''depends_on'' = JArr ds" "list_all is_string ds"
    unfolding string_graph_def by blast
  then show ?thesis
  proof cases
    case 1
    then have "js_iter (js_field t ''depends_on'') = Inr []" by (auto simp: nullish_def)
    then show ?thesis using that [of "[]"] Some by (simp add: depends_on_def)
  next
    case 2
    then show ?thesis using that [of ds] Some by (simp add: depends_on_def)
  qed
qed

text \<open>The visited list, each entry after its dependencies.\<close>

definition topo :: "jsval list \<Rightarrow> jsval list \<Rightarrow> bool" where
  "topo tasks v \<longleftrightarrow> (\<forall>a i b. v = a @ [i] @ b \<longrightarrow> (\<forall>d. (i, d) \<in> edge tasks \<longrightarrow> d \<in> set a))"

lemma topo_Nil [simp]: "topo tasks []"
  by (simp add: topo_def)

lemma topo_snoc:
  assumes "topo tasks v" "\<forall>d. (i, d) \<in> edge tasks \<longrightarrow> d \<in> set v"
  shows "topo tasks (v @ [i])"
  unfolding topo_def
proof (intro allI impI)
  fix a j b d
  assume v: "v @ [i] = a @ [j] @ b" and e: "(j, d) \<in> edge tasks"
  show "d \<in> set a"
  proof (cases b rule: rev_cases)
    case Nil
    then show ?thesis using v e assms(2) by auto
  next
    case (snoc b' c)
    then have "v = a @ [j] @ b'" using v by (simp flip: append_assoc)
    then show ?thesis using assms(1) e unfolding topo_def by blast
  qed
qed

lemma visit_clean:
  "visit tasks todo chain visited = Inr ([], v) \<Longrightarrow> string_graph tasks \<Longrightarrow> list_all is_string todo \<Longrightarrow>
    topo tasks visited \<Longrightarrow> topo tasks v \<and> prefix visited v \<and> set todo \<subseteq> set v"
proof (induction tasks todo chain visited arbitrary: v rule: visit.induct)
  case (1 tasks chain visited)
  then show ?case by (simp add: visit.simps)
next
  case (2 tasks i todo chain visited)
  note p = "2.prems"
  have i: "is_string i" "list_all is_string todo" using p(3) by simp_all
  have nc: "\<not> js_in i chain" using p(1) by (auto simp: visit.simps bindR_Inr_iff)
  show ?case
  proof (cases "js_in i visited")
    case True
    then show ?thesis using "2.IH"(2) [OF nc True _ p(2) i(2) p(4), of v] p(1) nc js_in_set [OF True]
      by (auto simp: visit.simps prefix_def)
  next
    case False
    obtain ds where ds: "depends_on tasks i = Inr ds" "list_all is_string ds" by (rule depends_on_ok [OF p(2)])
    from p(1) nc False ds obtain v1 where v1: "visit tasks ds (chain @ [i]) visited = Inr ([], v1)"
      "visit tasks todo chain (v1 @ [i]) = Inr ([], v)"
      by (auto simp: visit.simps(2) bindR_Inr_iff split: sum.splits)
    have t1: "topo tasks v1" "prefix visited v1" "set ds \<subseteq> set v1"
      using "2.IH"(3) [OF nc False ds(1) v1(1) p(2) ds(2) p(4)] by blast+
    have "topo tasks (v1 @ [i])"
      by (rule topo_snoc [OF t1(1)]) (use t1(3) ds(1) in \<open>auto simp: edge_def\<close>)
    from "2.IH"(4) [OF nc False ds(1) v1(1) refl v1(2) p(2) i(2) this]
    have "topo tasks v" "prefix (v1 @ [i]) v" "set todo \<subseteq> set v" by blast+
    moreover have "prefix visited (v1 @ [i])" using t1(2) by (simp add: prefix_prefix)
    ultimately show ?thesis using prefix_order.trans [of visited "v1 @ [i]" v] set_mono_prefix [of "v1 @ [i]" v] by auto
  qed
qed

text \<open>The position of the first occurrence decreases along an edge.\<close>

lemma before_first: "x \<notin> set a \<Longrightarrow> takeWhile (\<lambda>y. y \<noteq> x) (a @ x # b) = a"
  by (induction a) auto

lemma topo_step:
  assumes "topo tasks v" "(i, d) \<in> edge tasks" "i \<in> set v"
  shows "d \<in> set v \<and> length (takeWhile (\<lambda>x. x \<noteq> d) v) < length (takeWhile (\<lambda>x. x \<noteq> i) v)"
proof -
  obtain a b where v: "v = a @ i # b" "i \<notin> set a" using split_list_first [OF assms(3)] by blast
  then have d: "d \<in> set a" using assms(1,2) unfolding topo_def by simp
  then obtain a1 a2 where a: "a = a1 @ d # a2" "d \<notin> set a1" using split_list_first by metis
  have "takeWhile (\<lambda>x. x \<noteq> d) v = a1" using before_first [OF a(2), of "a2 @ i # b"] v(1) a(1) by simp
  moreover have "takeWhile (\<lambda>x. x \<noteq> i) v = a" using before_first [OF v(2)] v(1) by simp
  ultimately show ?thesis using a(1) v(1) by simp
qed

lemma topo_acyclic:
  assumes "topo tasks v" "(i, d) \<in> (edge tasks)\<^sup>+" "i \<in> set v"
  shows "d \<in> set v \<and> length (takeWhile (\<lambda>x. x \<noteq> d) v) < length (takeWhile (\<lambda>x. x \<noteq> i) v)"
  using assms(2,3)
proof (induction rule: trancl_induct)
  case (base d)
  then show ?case by (rule topo_step [OF assms(1)])
next
  case (step d e)
  then show ?case using topo_step [OF assms(1) step.hyps(2)] by (meson less_trans)
qed

text \<open>A chain of edges ending in the Task visited next is what an error reports.\<close>

definition edge_path :: "jsval list \<Rightarrow> jsval list \<Rightarrow> bool" where
  "edge_path tasks xs \<longleftrightarrow> successively (\<lambda>a b. (a, b) \<in> edge tasks) xs"

lemma edge_path_snoc: "edge_path tasks (xs @ [i]) \<longleftrightarrow> edge_path tasks xs \<and> (xs \<noteq> [] \<longrightarrow> (last xs, i) \<in> edge tasks)"
  by (auto simp: edge_path_def successively_append_iff)

lemma edge_path_cycle:
  assumes "edge_path tasks (chain @ [i])" "i \<in> set chain"
  shows "(i, i) \<in> (edge tasks)\<^sup>+"
proof -
  obtain a b where c: "chain = a @ i # b" using assms(2) by (meson split_list)
  have p: "successively (\<lambda>a b. (a, b) \<in> edge tasks) (i # b @ [i])"
    using assms(1) c by (simp add: edge_path_def successively_append_iff)
  have "successively (\<lambda>a b. (a, b) \<in> edge tasks) (x # xs @ [y]) \<Longrightarrow> (x, y) \<in> (edge tasks)\<^sup>+" for x xs y
    by (induction xs arbitrary: x) (auto intro: trancl_into_trancl2)
  then show ?thesis using p .
qed

text \<open>A search that reports an error met a cycle.\<close>

lemma visit_reports:
  "visit tasks todo chain visited = Inr (es, v) \<Longrightarrow> es \<noteq> [] \<Longrightarrow> string_graph tasks \<Longrightarrow> list_all is_string todo \<Longrightarrow>
    \<forall>i \<in> set todo. edge_path tasks (chain @ [i]) \<Longrightarrow> \<exists>i. (i, i) \<in> (edge tasks)\<^sup>+"
proof (induction tasks todo chain visited arbitrary: es v rule: visit.induct)
  case (1 tasks chain visited)
  then show ?case by (simp add: visit.simps)
next
  case (2 tasks i todo chain visited)
  note p = "2.prems"
  have i: "is_string i" "list_all is_string todo" "edge_path tasks (chain @ [i])"
    "\<forall>i \<in> set todo. edge_path tasks (chain @ [i])" using p(4,5) by simp_all
  show ?case
  proof (cases "js_in i chain")
    case True
    then show ?thesis using edge_path_cycle [OF i(3) js_in_set] by blast
  next
    case nc: False
    show ?thesis
    proof (cases "js_in i visited")
      case True
      then show ?thesis using "2.IH"(2) [OF nc True _ p(2,3) i(2,4)] p(1) nc by (simp add: visit.simps)
    next
      case False
      obtain ds where ds: "depends_on tasks i = Inr ds" "list_all is_string ds" by (rule depends_on_ok [OF p(3)])
      from p(1) nc False ds obtain e1 v1 e2 where v1: "visit tasks ds (chain @ [i]) visited = Inr (e1, v1)"
        "visit tasks todo chain (v1 @ [i]) = Inr (e2, v)" "es = e1 @ e2"
        by (auto simp: visit.simps(2) bindR_Inr_iff split: sum.splits)
      have d: "\<forall>d \<in> set ds. edge_path tasks ((chain @ [i]) @ [d])"
        using i(3) ds(1) unfolding edge_path_snoc [of tasks "chain @ [i]"] by (auto simp: edge_def)
      show ?thesis
      proof (cases "e1 = []")
        case True
        then show ?thesis using "2.IH"(4) [OF nc False ds(1) v1(1) refl v1(2) _ p(3) i(2,4)] v1(3) p(2) by simp
      next
        case e1: False
        show ?thesis using "2.IH"(3) [OF nc False ds(1) v1(1) e1 p(3) ds(2) d] .
      qed
    qed
  qed
qed

text \<open>With string ids the search does not throw.\<close>

lemma visit_total: "string_graph tasks \<Longrightarrow> list_all is_string todo \<Longrightarrow> \<exists>es v. visit tasks todo chain visited = Inr (es, v)"
proof (induction tasks todo chain visited rule: visit.induct)
  case (1 tasks chain visited)
  then show ?case by (simp add: visit.simps)
next
  case (2 tasks i todo chain visited)
  have t: "list_all is_string todo" using "2.prems"(2) by simp
  show ?case
  proof (cases "js_in i chain \<or> js_in i visited")
    case True
    then show ?thesis using "2.IH"(1,2) "2.prems"(1) t by (fastforce simp: visit.simps(2))
  next
    case False
    then have nc: "\<not> js_in i chain" and nv: "\<not> js_in i visited" by simp_all
    obtain ds where ds: "depends_on tasks i = Inr ds" "list_all is_string ds" by (rule depends_on_ok [OF "2.prems"(1)])
    obtain e1 v1 where v1: "visit tasks ds (chain @ [i]) visited = Inr (e1, v1)"
      using "2.IH"(3) [OF nc nv ds(1) "2.prems"(1) ds(2)] by blast
    obtain e2 v2 where "visit tasks todo chain (v1 @ [i]) = Inr (e2, v2)"
      using "2.IH"(4) [OF nc nv ds(1) v1 refl "2.prems"(1) t] by blast
    then show ?thesis using nc nv ds(1) v1 by (simp add: visit.simps(2))
  qed
qed

lemma dependency_cycles_exact:
  assumes "string_graph tasks"
  shows "\<exists>es. dependency_cycles tasks = Inr es
    \<and> (es = [] \<longleftrightarrow> (\<forall>i \<in> (\<lambda>t. js_field t ''id'') ` set tasks. (i, i) \<notin> (edge tasks)\<^sup>+))"
proof -
  let ?ids = "map (\<lambda>t. js_field t ''id'') tasks"
  have s: "list_all is_string ?ids" using assms by (auto simp: string_graph_def list_all_iff)
  obtain es v where v: "visit tasks ?ids [] [] = Inr (es, v)" using visit_total [OF assms s] by blast
  have "\<exists>i \<in> set ?ids. (i, i) \<in> (edge tasks)\<^sup>+" if "es \<noteq> []"
  proof -
    have "\<forall>i \<in> set ?ids. edge_path tasks ([] @ [i])" by (simp add: edge_path_def)
    from visit_reports [OF v that assms s this] obtain i where c: "(i, i) \<in> (edge tasks)\<^sup>+" by blast
    then obtain d where "(i, d) \<in> edge tasks" by (meson tranclD)
    then have "i \<in> task_id_values tasks"
      using find_task_id(1) [of tasks i] by (auto simp: edge_def depends_on_def split: option.splits)
    then show ?thesis using c by (auto simp: task_id_values_def)
  qed
  moreover have "(i, i) \<notin> (edge tasks)\<^sup>+" if "es = []" "i \<in> set ?ids" for i
    using topo_acyclic [of tasks v i i] visit_clean [of tasks ?ids "[]" "[]" v] v that assms s by auto
  ultimately show ?thesis using v unfolding dependency_cycles_def by fastforce
qed

lemma dependency_cycles_sound:
  "string_graph tasks \<Longrightarrow> dependency_cycles tasks = Inr [] \<Longrightarrow>
     \<forall>i \<in> (\<lambda>t. js_field t ''id'') ` set tasks. (i, i) \<notin> (edge tasks)\<^sup>+"
  using dependency_cycles_exact by fastforce

end
