(* ===== verification/Validate_Work.thy ===== *)
theory Validate_Work
  imports Dependencies Check_Task Evidence
begin

text \<open>
  The operations validator (scripts/task/validate-work.mjs): one run over the repository that
  collects messages and fails when there is one.  It only reads, so it is a check on a view; the
  index it compares with is the one of Wiki_Index, run against the same view.  The blocks of the
  script are the definitions below, in its order.  Sets of ids are lists searched with the sets'
  equality (\<open>js_in\<close>).
\<close>

section \<open>Checks that catch\<close>

definition catchC :: "('e, 'a) chk \<Rightarrow> ('e \<Rightarrow> ('e, 'a) chk) \<Rightarrow> ('e, 'a) chk" where
  "catchC m f = (case m of (es, Inr x) \<Rightarrow> (es, Inr x)
     | (es, Inl e) \<Rightarrow> (case f e of (es', r) \<Rightarrow> (es @ es', r)))"

text \<open>\<open>catch (error) { errors.push(error.message) }\<close>\<close>

definition push_caught :: "('e, unit) chk \<Rightarrow> ('e, unit) chk" where
  "push_caught m = catchC m (\<lambda>e. push_all [e])"

lemma clean_push_caught [simp, res_simps]: "clean (push_caught m) u \<longleftrightarrow> clean m ()"
  by (auto simp: push_caught_def catchC_def clean_def push_all_def split: prod.splits sum.splits)

definition when_C :: "bool \<Rightarrow> ('e, unit) chk \<Rightarrow> ('e, unit) chk" where
  "when_C b m = (if b then m else okC ())"

lemma clean_when [simp, res_simps]: "clean (when_C b m) u \<longleftrightarrow> (b \<longrightarrow> clean m ())"
  by (auto simp: when_C_def)

section \<open>Schemas\<close>

type_synonym schema_cache = "(string \<times> jsval) list"

text \<open>A compiled validator is kept by its file.\<close>

definition load_schema :: "host \<Rightarrow> view \<Rightarrow> schema_cache \<Rightarrow> string \<Rightarrow> (jsval \<times> schema_cache) jchk" where
  "load_schema h v cache file = (case map_of cache file of
       Some s \<Rightarrow> okC (s, cache)
     | None \<Rightarrow> bindC (liftC (bindR (vw_read v file) (h_json h))) (\<lambda>s. okC (s, (file, s) # cache)))"

definition validateSchema :: "host \<Rightarrow> view \<Rightarrow> string \<Rightarrow> schema_cache \<Rightarrow> string \<Rightarrow> jsval \<Rightarrow> string \<Rightarrow> schema_cache jchk" where
  "validateSchema h v schemaRoot cache name x label =
     (let file = path_join schemaRoot (''schemas/operations/'' @ name @ ''.schema.json'') in
      if \<not> vw_exists v file
      then bindC (push_all [Err ''missing'' [JStr (path_relative schemaRoot file)]]) (\<lambda>_. okC cache)
      else bindC (load_schema h v cache file) (\<lambda>(s, cache').
        bindC (liftC (h_schema h s x)) (\<lambda>issues.
        bindC (push_all (map (\<lambda>(instance', message). Err ''schema'' [JStr label, JStr instance', JStr message]) issues))
          (\<lambda>_. okC cache'))))"

section \<open>Project, epics and Tasks\<close>

definition read_or_empty :: "view \<Rightarrow> string \<Rightarrow> jsval res" where
  "read_or_empty v file = (if vw_exists v file then readYaml v file else Inr (JObj []))"

definition err_if :: "bool \<Rightarrow> string \<Rightarrow> jsval list \<Rightarrow> js_error list" where
  "err_if bad m vs = (if bad then [Err m vs] else [])"

lemma err_if_Nil [simp]: "err_if bad m vs = [] \<longleftrightarrow> \<not> bad"
  by (simp add: err_if_def)

definition project_errors :: "view \<Rightarrow> string \<Rightarrow> jsval \<Rightarrow> jsval \<Rightarrow> js_error list" where
  "project_errors v rootdir project backlog =
     err_if (js_field project ''version'' \<noteq> JNum 2) ''project.yaml version must be 2'' []
     @ err_if (js_field backlog ''version'' \<noteq> JNum 1) ''backlog.yaml version must be 1'' []
     @ err_if (js_field project ''default_branch'' \<noteq> JStr ''main'') ''project default_branch must be main'' []
     @ err_if (js_field project ''repository_path'' \<noteq> JStr ''.'' \<or> js_field project ''evidence_root'' \<noteq> JStr ''.'')
         ''project repository_path and evidence_root must be the unified root'' []
     @ err_if (\<not> vw_exists v (path_join rootdir ''.git'')) ''unified root is not a Git worktree'' [JStr rootdir]"

definition check_project :: "view \<Rightarrow> string \<Rightarrow> jsval \<Rightarrow> jsval \<Rightarrow> unit jchk" where
  "check_project v rootdir project backlog =
     bindC (liftC (js_get project ''version'')) (\<lambda>_.
     bindC (push_all (if nullish backlog then err_if (js_field project ''version'' \<noteq> JNum 2) ''project.yaml version must be 2'' [] else [])) (\<lambda>_.
     bindC (liftC (js_get backlog ''version'')) (\<lambda>_.
     push_all (project_errors v rootdir project backlog))))"

text \<open>\<open>/^EPIC-\d{3}$/\<close>, \<open>/^DECISION-\d{4}$/\<close>, \<open>/^\d{4}-\d{2}-\d{2}$/\<close>\<close>

definition numbered :: "string \<Rightarrow> nat \<Rightarrow> string \<Rightarrow> bool" where
  "numbered p n s \<longleftrightarrow> starts_with s p \<and> length s = length p + n \<and> list_all is_digit (drop (length p) s)"

definition date_string :: "string \<Rightarrow> bool" where
  "date_string s \<longleftrightarrow> length s = 10 \<and> list_all is_digit (take 4 s @ take 2 (drop 5 s) @ drop 8 s)
     \<and> s ! 4 = CHR ''-'' \<and> s ! 7 = CHR ''-''"

definition epic_errors :: "jsval list \<Rightarrow> jsval \<Rightarrow> js_error list" where
  "epic_errors seen epic = (let i = js_field epic ''id'' in
     err_if (\<not> numbered ''EPIC-'' 3 (str_or_empty i)) ''invalid epic ID'' [i]
     @ err_if (js_in i seen) ''duplicate epic ID'' [i]
     @ err_if (\<not> truthy (js_field epic ''title'') \<or> \<not> date_string (str_or_empty (js_field epic ''target_start''))
         \<or> \<not> date_string (str_or_empty (js_field epic ''target_end''))) ''title, target_start, and target_end are required'' [i])"

text \<open>The ids met so far are passed on.\<close>

fun check_epics :: "jsval list \<Rightarrow> jsval list \<Rightarrow> jsval list jchk" where
  "check_epics seen [] = okC seen"
| "check_epics seen (epic # epics) = bindC (liftC (js_get epic ''id'')) (\<lambda>i.
     bindC (push_all (epic_errors seen epic)) (\<lambda>_. check_epics (seen @ [i]) epics))"

definition TASK_TYPES :: "string list" where
  "TASK_TYPES = [''feature'', ''bug'', ''chore'', ''research'']"

definition TASK_PRIORITIES :: "string list" where
  "TASK_PRIORITIES = [''P0'', ''P1'', ''P2'', ''P3'']"

definition task_errors :: "jsval list \<Rightarrow> jsval list \<Rightarrow> jsval \<Rightarrow> js_error list" where
  "task_errors epicIds seen task = (let i = js_field task ''id'' in
     err_if (\<not> task_id_string (str_or_empty i)) ''invalid task ID'' [i]
     @ err_if (js_in i seen) ''duplicate task ID'' [i]
     @ err_if (\<not> js_in (js_field task ''epic'') epicIds) ''unknown epic'' [i, js_field task ''epic'']
     @ err_if (js_field task ''status'' \<notin> JStr ` set TASK_STATUSES) ''invalid status'' [i, js_field task ''status'']
     @ err_if (js_field task ''type'' \<notin> JStr ` set TASK_TYPES) ''invalid type'' [i, js_field task ''type'']
     @ err_if (js_field task ''priority'' \<notin> JStr ` set TASK_PRIORITIES) ''invalid priority'' [i, js_field task ''priority'']
     @ err_if (js_field task ''estimate_points'' \<notin> JNum ` set POINT_SCALE) ''invalid estimate_points'' [i, js_field task ''estimate_points'']
     @ err_if (js_field task ''type'' = JStr ''bug'' \<and> \<not> truthy (js_field task ''origin_task'')) ''bug requires origin_task'' [i]
     @ err_if (truthy (js_field task ''bootstrap_exception'') \<and> i \<noteq> JStr ''TASK-0001'') ''bootstrap_exception is reserved for TASK-0001'' [i])"

definition task_dir_check :: "string \<Rightarrow> jsval \<Rightarrow> unit res" where
  "task_dir_check rootdir task = bindR (js_get task ''task_dir'') (\<lambda>dir.
     bindR (resolveInside rootdir dir (js_string (js_field task ''id'') @ '' task_dir'')) (\<lambda>_. Inr ()))"

fun check_tasks :: "string \<Rightarrow> jsval list \<Rightarrow> jsval list \<Rightarrow> jsval list \<Rightarrow> jsval list jchk" where
  "check_tasks rootdir epicIds seen [] = okC seen"
| "check_tasks rootdir epicIds seen (task # tasks) =
     bindC (push_caught (liftC (task_dir_check rootdir task))) (\<lambda>_.
     bindC (liftC (js_get task ''id'')) (\<lambda>i.
     bindC (push_all (task_errors epicIds seen task)) (\<lambda>_. check_tasks rootdir epicIds (seen @ [i]) tasks)))"

definition dependency_errors :: "jsval list \<Rightarrow> jsval \<Rightarrow> jsval \<Rightarrow> js_error list" where
  "dependency_errors taskIds i dependency =
     err_if (\<not> js_in dependency taskIds) ''unknown dependency'' [i, dependency]
     @ err_if (js_seq dependency i) ''task cannot depend on itself'' [i]"

definition check_dependencies :: "view \<Rightarrow> string \<Rightarrow> jsval \<Rightarrow> jsval list \<Rightarrow> jsval \<Rightarrow> unit jchk" where
  "check_dependencies v rootdir backlog taskIds task = (let i = js_field task ''id'' in
     bindC (liftC (js_iter (js_field task ''depends_on''))) (\<lambda>deps.
     bindC (each_C (\<lambda>d. push_all (dependency_errors taskIds i d)) deps) (\<lambda>_.
     push_all (checkTask v rootdir backlog i ''full''))))"

text \<open>\<open>tasks.find\<close> exists on arrays only.\<close>

definition find_needs_array :: "jsval \<Rightarrow> jsval list \<Rightarrow> unit res" where
  "find_needs_array tasks items = throw_if (items \<noteq> [] \<and> \<not> is_array tasks) type_error"

definition check_backlog :: "view \<Rightarrow> string \<Rightarrow> jsval \<Rightarrow> (jsval list \<times> jsval list) jchk" where
  "check_backlog v rootdir backlog =
     bindC (liftC (js_iter (js_field backlog ''epics''))) (\<lambda>epics.
     bindC (check_epics [] epics) (\<lambda>epicIds.
     bindC (liftC (js_iter (js_field backlog ''tasks''))) (\<lambda>tasks.
     bindC (check_tasks rootdir epicIds [] tasks) (\<lambda>taskIds.
     bindC (each_C (check_dependencies v rootdir backlog taskIds) tasks) (\<lambda>_.
     bindC (liftC (find_needs_array (js_field backlog ''tasks'') tasks)) (\<lambda>_.
     bindC (liftC (dependency_cycles tasks)) (\<lambda>cycles.
     bindC (push_all cycles) (\<lambda>_. okC (epics, tasks)))))))))"

section \<open>Wiki pages and Decisions\<close>

definition SEMANTIC_KINDS :: "string list" where
  "SEMANTIC_KINDS = [''concept'', ''schema'', ''script'', ''case-pattern'']"

definition page_path :: "jsval \<Rightarrow> string" where
  "page_path page = js_string (js_field page ''path'')"

definition page_errors :: "jsval \<Rightarrow> js_error list" where
  "page_errors page =
     err_if (\<not> truthy (js_field page ''title'')) ''title is required'' [js_field page ''path'']
     @ err_if (starts_with (page_path page) ''wiki/semantic/'' \<and> js_field page ''kind'' \<notin> JStr ` set SEMANTIC_KINDS)
         ''invalid semantic kind'' [js_field page ''path'', js_field page ''kind'']"

definition decision_errors :: "jsval list \<Rightarrow> jsval \<Rightarrow> js_error list" where
  "decision_errors seen page = (let p = js_field page ''path''; i = js_field page ''decision_id'' in
     err_if (js_field page ''kind'' \<noteq> JStr ''decision'' \<or> \<not> numbered ''DECISION-'' 4 (str_or_empty i)) ''invalid Decision metadata'' [p]
     @ err_if (js_field page ''status'' \<notin> {JStr ''accepted'', JStr ''superseded''}) ''Decision status must be accepted or superseded'' [p]
     @ err_if (js_in i seen) ''duplicate Decision ID'' [p, i])"

text \<open>\<open>{ ...metadata, path }\<close>: of the keys read later, a value that is no plain object gives none.\<close>

definition with_path :: "jsval \<Rightarrow> jsval \<Rightarrow> jsval" where
  "with_path metadata p = JObj (obj_set ''path'' p (case metadata of JObj m \<Rightarrow> m | _ \<Rightarrow> []))"

record wiki_state =
  ws_cache :: schema_cache
  ws_ids :: "jsval list"
  ws_decisions :: "jsval list"

fun check_pages :: "host \<Rightarrow> view \<Rightarrow> string \<Rightarrow> string \<Rightarrow> wiki_state \<Rightarrow> jsval list \<Rightarrow> wiki_state jchk" where
  "check_pages h v rootdir schemaRoot st [] = okC st"
| "check_pages h v rootdir schemaRoot st (page # pages) =
     bindC (push_all (page_errors page)) (\<lambda>_.
     if \<not> starts_with (page_path page) ''wiki/decisions/'' then check_pages h v rootdir schemaRoot st pages
     else bindC (liftC (parseFrontmatter v (path_join rootdir (page_path page)))) (\<lambda>metadata.
       bindC (validateSchema h v schemaRoot (ws_cache st) ''decision'' metadata (page_path page)) (\<lambda>cache.
       bindC (push_all (decision_errors (ws_ids st) page)) (\<lambda>_.
       check_pages h v rootdir schemaRoot
         \<lparr>ws_cache = cache, ws_ids = ws_ids st @ [js_field page ''decision_id''],
          ws_decisions = ws_decisions st @ [with_path metadata (js_field page ''path'')]\<rparr> pages))))"

text \<open>\<open>new Map(...)\<close> keeps the last decision of an id.\<close>

definition decision_by_id :: "jsval list \<Rightarrow> jsval \<Rightarrow> jsval" where
  "decision_by_id decisions i = (case List.find (\<lambda>d. js_seq (js_field d ''decision_id'') i) (rev decisions) of
     None \<Rightarrow> JUndef | Some d \<Rightarrow> d)"

definition supersede_errors :: "jsval list \<Rightarrow> jsval list \<Rightarrow> jsval \<Rightarrow> jsval \<Rightarrow> js_error list" where
  "supersede_errors ids decisions decision superseded = (let p = js_field decision ''path'' in
     err_if (js_seq superseded (js_field decision ''decision_id'')) ''Decision cannot supersede itself'' [p]
     @ err_if (\<not> js_in superseded ids) ''unknown supersedes Decision'' [p, superseded]
     @ err_if (js_field decision ''status'' = JStr ''accepted''
         \<and> js_opt (decision_by_id decisions superseded) ''status'' \<noteq> JStr ''superseded'')
         ''superseded Decision must have status superseded'' [p, superseded])"

definition check_supersedes :: "jsval list \<Rightarrow> jsval list \<Rightarrow> jsval \<Rightarrow> unit jchk" where
  "check_supersedes ids decisions decision =
     bindC (liftC (js_iter (js_field decision ''supersedes''))) (\<lambda>sups.
     each_C (\<lambda>s. push_all (supersede_errors ids decisions decision s)) sups)"

text \<open>\<open>xs?.includes(x)\<close> on an array or a string.\<close>

definition js_includes :: "jsval \<Rightarrow> jsval \<Rightarrow> bool res" where
  "js_includes xs x = (case xs of JArr ys \<Rightarrow> Inr (js_in x ys) | JStr s \<Rightarrow> Inr (contains s (js_string x))
     | _ \<Rightarrow> if nullish xs then Inr False else Inl type_error)"

definition succeeds :: "jsval \<Rightarrow> jsval \<Rightarrow> bool res" where
  "succeeds decision candidate = (if js_field candidate ''status'' \<noteq> JStr ''accepted'' then Inr False
     else js_includes (js_field candidate ''supersedes'') (js_field decision ''decision_id''))"

definition check_successor :: "jsval list \<Rightarrow> jsval \<Rightarrow> unit jchk" where
  "check_successor decisions decision =
     bindC (liftC (map_R (succeeds decision) decisions)) (\<lambda>bs.
     push_if (\<not> list_ex id bs) (Err ''superseded Decision requires an accepted successor'' [js_field decision ''path'']))"

definition check_decisions :: "wiki_state \<Rightarrow> unit jchk" where
  "check_decisions st =
     bindC (each_C (check_supersedes (ws_ids st) (ws_decisions st)) (ws_decisions st)) (\<lambda>_.
     each_C (check_successor (ws_decisions st))
       (filter (\<lambda>d. js_field d ''status'' = JStr ''superseded'') (ws_decisions st)))"

section \<open>Links\<close>

text \<open>\<open>decodeURIComponent\<close>: escaped octets must be the UTF-8 encoding of a character.\<close>

definition hex_digit :: "char \<Rightarrow> nat option" where
  "hex_digit c = (let n = of_char c :: nat in
     if 48 \<le> n \<and> n \<le> 57 then Some (n - 48) else if 65 \<le> n \<and> n \<le> 70 then Some (n - 55)
     else if 97 \<le> n \<and> n \<le> 102 then Some (n - 87) else None)"

definition octet :: "string \<Rightarrow> nat option" where
  "octet s = (case s of [p, a, b] \<Rightarrow> (if p \<noteq> CHR ''%'' then None else case (hex_digit a, hex_digit b) of
       (Some x, Some y) \<Rightarrow> Some (16 * x + y) | _ \<Rightarrow> None)
     | _ \<Rightarrow> None)"

fun octets :: "nat \<Rightarrow> string \<Rightarrow> (nat list \<times> string) option" where
  "octets 0 s = Some ([], s)"
| "octets (Suc n) s = (case octet (take 3 s) of None \<Rightarrow> None
     | Some x \<Rightarrow> map_option (\<lambda>(xs, r). (x # xs, r)) (octets n (drop 3 s)))"

definition utf8_size :: "nat \<Rightarrow> nat" where
  "utf8_size x = (if x < 128 then 1 else if 194 \<le> x \<and> x < 224 then 2 else if 224 \<le> x \<and> x < 240 then 3
     else if 240 \<le> x \<and> x < 245 then 4 else 0)"

definition utf8_ok :: "nat list \<Rightarrow> bool" where
  "utf8_ok xs = (case xs of [] \<Rightarrow> False
     | x # ys \<Rightarrow> list_all (\<lambda>y. 128 \<le> y \<and> y < 192) ys
       \<and> (x = 224 \<longrightarrow> ys ! 0 \<ge> 160) \<and> (x = 237 \<longrightarrow> ys ! 0 < 160) \<and> (x = 240 \<longrightarrow> ys ! 0 \<ge> 144) \<and> (x = 244 \<longrightarrow> ys ! 0 < 144))"

lemma octets_shorter: "octets n s = Some (xs, r) \<Longrightarrow> length r \<le> length s"
  by (induction n arbitrary: s xs) (fastforce split: option.splits)+

definition escaped_char :: "string \<Rightarrow> (string \<times> string) option" where
  "escaped_char s = (case octet (take 3 s) of None \<Rightarrow> None
     | Some x \<Rightarrow> if utf8_size x = 0 then None
         else case octets (utf8_size x - 1) (drop 3 s) of None \<Rightarrow> None
           | Some (ys, r) \<Rightarrow> if utf8_ok (x # ys) then Some (map char_of (x # ys), r) else None)"

lemma escaped_char_shorter: "escaped_char (c # s) = Some (t, r) \<Longrightarrow> length r \<le> length s"
  unfolding escaped_char_def by (auto split: option.splits if_splits dest!: octets_shorter)

function decodeURIComponent :: "string \<Rightarrow> string option" where
  "decodeURIComponent [] = Some []"
| "decodeURIComponent (c # s) = (if c \<noteq> CHR ''%'' then map_option ((#) c) (decodeURIComponent s)
     else case escaped_char (c # s) of None \<Rightarrow> None
       | Some (t, r) \<Rightarrow> map_option ((@) t) (decodeURIComponent r))"
  by pat_completeness auto
termination by (relation "measure length") (auto dest: escaped_char_shorter)

text \<open>\<open>/^[a-z][a-z0-9+.-]*:/i\<close>\<close>

definition has_scheme :: "string \<Rightarrow> bool" where
  "has_scheme link = (let r = dropWhile (\<lambda>c. c \<in> set ''abcdefghijklmnopqrstuvwxyz0123456789+.-'') (map lower_char link) in
     link \<noteq> [] \<and> lower_char (hd link) \<in> set ''abcdefghijklmnopqrstuvwxyz'' \<and> starts_with r '':'')"

definition check_link :: "view \<Rightarrow> string \<Rightarrow> string \<Rightarrow> string \<Rightarrow> unit jchk" where
  "check_link v rootdir file target = (let link = takeWhile (\<lambda>c. c \<noteq> CHR ''#'') target in
     if link = [] \<or> has_scheme link \<or> is_absolute link then okC ()
     else case decodeURIComponent link of
         None \<Rightarrow> liftC (Inl (Err ''URIError'' []))
       | Some p \<Rightarrow> push_if (\<not> vw_exists v (path_resolve (path_dirname file) p))
           (Err ''broken link'' [JStr (path_relative rootdir file), JStr target]))"

definition validateLinks :: "view \<Rightarrow> string \<Rightarrow> string \<Rightarrow> unit jchk" where
  "validateLinks v rootdir file = bindC (liftC (vw_read v file)) (\<lambda>content.
     each_C (check_link v rootdir file) (links_in content))"

definition check_links :: "host \<Rightarrow> view \<Rightarrow> string \<Rightarrow> unit jchk" where
  "check_links h v rootdir =
     bindC (liftC (on_view v (markdownFiles (h_stack h) (path_join rootdir ''tasks'')))) (\<lambda>a.
     bindC (liftC (on_view v (markdownFiles (h_stack h) (path_join rootdir ''wiki'')))) (\<lambda>b.
     each_C (validateLinks v rootdir) (a @ b)))"

definition check_index :: "host \<Rightarrow> view \<Rightarrow> string \<Rightarrow> jsval \<Rightarrow> unit jchk" where
  "check_index h v rootdir wikiIndex = (let file = path_join rootdir ''wiki/index.json'' in
     if \<not> vw_exists v file then push_all [Err ''missing wiki/index.json'' []]
     else bindC (liftC (vw_read v file)) (\<lambda>text'.
       push_if (text' \<noteq> h_json_pretty h wikiIndex @ [newline]) (Err ''wiki/index.json is stale; run make wiki-index'' [])))"

section \<open>Ingestion receipts and the bootstrap manifest\<close>

definition receipt_errors :: "string \<Rightarrow> string \<Rightarrow> jsval \<Rightarrow> js_error list" where
  "receipt_errors entry label receipt =
     err_if (\<not> task_id_string (str_or_empty (js_field receipt ''task_id''))
         \<or> \<not> hex_string 64 (str_or_empty (js_field receipt ''handover_sha256''))) ''invalid task_id or handover_sha256'' [JStr label]
     @ err_if (\<not> is_array (js_field receipt ''updated_pages'') \<or> \<not> is_array (js_field receipt ''created_decisions''))
         ''updated_pages and created_decisions must be arrays'' [JStr label]
     @ err_if (entry \<noteq> js_string (js_field receipt ''task_id'') @ ''.json'') ''filename must match task_id'' [JStr label]"

definition check_receipt_task :: "host \<Rightarrow> view \<Rightarrow> string \<Rightarrow> jsval \<Rightarrow> jsval list \<Rightarrow> string \<Rightarrow> jsval \<Rightarrow> unit jchk" where
  "check_receipt_task h v rootdir rawTasks tasks label receipt =
     bindC (liftC (throw_if (\<not> is_array rawTasks \<and> \<not> nullish rawTasks) type_error)) (\<lambda>_.
     case find_task tasks (js_field receipt ''task_id'') of
       None \<Rightarrow> push_all [Err ''unknown task_id'' [JStr label]]
     | Some task \<Rightarrow> (case js_field task ''task_dir'' of
         JStr dir \<Rightarrow> bindC (liftC (vw_read v (path_join rootdir (dir @ ''/HANDOVER.md'')))) (\<lambda>bytes.
           push_if (js_field receipt ''handover_sha256'' \<noteq> JStr (h_sha256 h bytes))
             (Err ''handover_sha256 does not match HANDOVER.md'' [JStr label]))
       | _ \<Rightarrow> liftC (Inl type_error)))"

definition check_updated_page :: "view \<Rightarrow> string \<Rightarrow> string \<Rightarrow> jsval \<Rightarrow> unit jchk" where
  "check_updated_page v rootdir label page = push_caught
     (bindC (liftC (resolveInside rootdir page (label @ '' updated_pages entry''))) (\<lambda>target.
      if \<not> starts_with target (path_join rootdir ''wiki/semantic'' @ ''/'')
      then push_all [Err ''updated page must be under wiki/semantic'' [JStr label, page]]
      else push_if (\<not> vw_exists v target) (Err ''missing updated page'' [JStr label, page])))"

definition check_receipt :: "host \<Rightarrow> view \<Rightarrow> string \<Rightarrow> string \<Rightarrow> jsval \<Rightarrow> jsval list \<Rightarrow> jsval list \<Rightarrow> schema_cache \<Rightarrow> string \<Rightarrow> jsval \<Rightarrow> schema_cache jchk" where
  "check_receipt h v rootdir schemaRoot rawTasks tasks ids cache entry receipt = (let label = ''wiki/ingestions/'' @ entry in
     bindC (validateSchema h v schemaRoot cache ''ingestion-receipt'' receipt label) (\<lambda>cache'.
     bindC (liftC (js_get receipt ''task_id'')) (\<lambda>_.
     bindC (push_all (receipt_errors entry label receipt)) (\<lambda>_.
     bindC (check_receipt_task h v rootdir rawTasks tasks label receipt) (\<lambda>_.
     bindC (liftC (js_iter (js_field receipt ''updated_pages''))) (\<lambda>pages.
     bindC (each_C (check_updated_page v rootdir label) pages) (\<lambda>_.
     bindC (liftC (js_iter (js_field receipt ''created_decisions''))) (\<lambda>created.
     bindC (each_C (\<lambda>d. push_if (\<not> js_in d ids) (Err ''unknown Decision'' [JStr label, d])) created) (\<lambda>_.
     okC cache')))))))))"

text \<open>A receipt that does not parse is reported and skipped.\<close>

fun check_receipts :: "host \<Rightarrow> view \<Rightarrow> string \<Rightarrow> string \<Rightarrow> jsval \<Rightarrow> jsval list \<Rightarrow> jsval list \<Rightarrow> schema_cache \<Rightarrow> string list \<Rightarrow> schema_cache jchk" where
  "check_receipts h v rootdir schemaRoot rawTasks tasks ids cache [] = okC cache"
| "check_receipts h v rootdir schemaRoot rawTasks tasks ids cache (entry # entries) =
     (if \<not> ends_with entry ''.json'' then check_receipts h v rootdir schemaRoot rawTasks tasks ids cache entries
      else case bindR (vw_read v (path_join (path_join rootdir ''wiki/ingestions'') entry)) (h_json h) of
        Inl e \<Rightarrow> bindC (push_all [suffix_error ''invalid JSON'' [JStr entry] e])
          (\<lambda>_. check_receipts h v rootdir schemaRoot rawTasks tasks ids cache entries)
      | Inr receipt \<Rightarrow> bindC (check_receipt h v rootdir schemaRoot rawTasks tasks ids cache entry receipt)
          (\<lambda>cache'. check_receipts h v rootdir schemaRoot rawTasks tasks ids cache' entries))"

definition check_ingestions :: "host \<Rightarrow> view \<Rightarrow> string \<Rightarrow> string \<Rightarrow> jsval \<Rightarrow> jsval list \<Rightarrow> wiki_state \<Rightarrow> schema_cache jchk" where
  "check_ingestions h v rootdir schemaRoot rawTasks tasks st = (let dir = path_join rootdir ''wiki/ingestions'' in
     if \<not> vw_exists v dir then okC (ws_cache st)
     else bindC (liftC (vw_dir v dir)) (\<lambda>entries.
       check_receipts h v rootdir schemaRoot rawTasks tasks (ws_ids st) (ws_cache st) (map fst entries)))"

text \<open>\<open>const { manifest_sha256, ...body } = manifest\<close>\<close>

definition without :: "string \<Rightarrow> jsval \<Rightarrow> jsval" where
  "without k v = JObj (filter (\<lambda>(k', x). k' \<noteq> k) (case v of JObj m \<Rightarrow> m | _ \<Rightarrow> []))"

definition manifest_digest :: "host \<Rightarrow> jsval \<Rightarrow> string" where
  "manifest_digest h manifest = h_sha256 h (h_json_text h (without ''manifest_sha256'' manifest) @ [newline])"

definition check_manifest :: "host \<Rightarrow> view \<Rightarrow> string \<Rightarrow> string \<Rightarrow> schema_cache \<Rightarrow> unit jchk" where
  "check_manifest h v rootdir schemaRoot cache = (let file = path_join rootdir bootstrap_manifest in
     when_C (vw_exists v file) (push_caught
       (bindC (liftC (bindR (vw_read v file) (h_json h))) (\<lambda>manifest.
        bindC (validateSchema h v schemaRoot cache ''bootstrap-manifest'' manifest ''BOOTSTRAP_MANIFEST.json'') (\<lambda>_.
        bindC (liftC (js_get manifest ''manifest_sha256'')) (\<lambda>recorded.
        push_if (recorded \<noteq> JStr (manifest_digest h manifest)) (Err ''BOOTSTRAP_MANIFEST.json: self-digest mismatch'' [])))))))"

section \<open>The validator\<close>

text \<open>The block of the Wiki: pages, Decisions, links, the stored index.\<close>

definition check_wiki :: "host \<Rightarrow> view \<Rightarrow> string \<Rightarrow> string \<Rightarrow> schema_cache \<Rightarrow> wiki_state jchk" where
  "check_wiki h v rootdir schemaRoot cache =
     bindC (liftC (on_view v (buildWikiIndex h rootdir))) (\<lambda>wikiIndex.
     bindC (check_pages h v rootdir schemaRoot \<lparr>ws_cache = cache, ws_ids = [], ws_decisions = []\<rparr>
         (arr_items (js_field wikiIndex ''pages''))) (\<lambda>st.
     bindC (check_decisions st) (\<lambda>_.
     bindC (check_links h v rootdir) (\<lambda>_.
     bindC (check_index h v rootdir wikiIndex) (\<lambda>_. okC st)))))"

definition validate_work :: "host \<Rightarrow> view \<Rightarrow> string \<Rightarrow> string \<Rightarrow> unit jchk" where
  "validate_work h v rootdir schemaRoot = (let projectFile = path_join rootdir ''project.yaml''; backlogFile = path_join rootdir ''backlog.yaml'' in
     bindC (push_all (err_if (\<not> vw_exists v projectFile) ''missing project.yaml'' []
       @ err_if (\<not> vw_exists v backlogFile) ''missing backlog.yaml'' [])) (\<lambda>_.
     bindC (liftC (read_or_empty v projectFile)) (\<lambda>project.
     bindC (liftC (read_or_empty v backlogFile)) (\<lambda>backlog.
     bindC (validateSchema h v schemaRoot [] ''backlog'' backlog ''backlog.yaml'') (\<lambda>cache.
     bindC (check_project v rootdir project backlog) (\<lambda>_.
     bindC (check_backlog v rootdir backlog) (\<lambda>(epics, tasks).
     bindC (check_wiki h v rootdir schemaRoot cache) (\<lambda>st.
     bindC (check_ingestions h v rootdir schemaRoot (js_field backlog ''tasks'') tasks st) (\<lambda>cache'.
     check_manifest h v rootdir schemaRoot cache')))))))))"

text \<open>The exit status is 0 when the run neither threw nor collected a message.\<close>

definition validate_work_main :: "host \<Rightarrow> view \<Rightarrow> string list \<Rightarrow> bool" where
  "validate_work_main h v argv = (case parseArgs argv of Inl _ \<Rightarrow> False
     | Inr args \<Rightarrow> run_chk (validate_work h v (path_resolve (h_cwd h) (str_or_empty (coalesce (arg args ''work_root'') (JStr (h_repo_root h)))))
         (path_resolve (h_cwd h) (str_or_empty (coalesce (coalesce (arg args ''schema_root'') (arg args ''work_root'')) (JStr (h_repo_root h)))))) = [])"

end
