(* ===== verification/Task_Start_Props.thy ===== *)
theory Task_Start_Props
  imports Publication_Props Task_Start Validate_Work
begin

text \<open>
  The allocation of a Task: the record it appends to the backlog passes the validator's checks of
  a Task, nothing is committed, merged or pushed, and a worktree that was made is removed when the
  start fails.
\<close>

section \<open>The new Task\<close>

lemma find_by_id_js_in:
  "find_by_id xs i = Inr None \<Longrightarrow> \<not> js_in i (map (\<lambda>x. js_field x ''id'') xs)"
  "find_by_id xs i = Inr (Some x) \<Longrightarrow> js_in i (map (\<lambda>x. js_field x ''id'') xs)"
  by (induction xs) (auto simp: js_in_def bindR_Inr_iff js_seq_sym split: if_splits)

lemma known_id_js_in: "known_id xs i = Inr b \<Longrightarrow> js_in i (map (\<lambda>x. js_field x ''id'') xs) \<longleftrightarrow> b"
  unfolding known_id_def by (auto simp: bindR_Inr_iff dest: find_by_id_js_in)

lemma resolveInside_label: "is_ok (resolveInside rootdir (JStr s) label) = is_ok (resolveInside rootdir (JStr s) label')"
  using resolveInside_cases [of rootdir s label] resolveInside_cases [of rootdir s label'] by (auto simp: is_ok_iff)

definition planned :: "args \<Rightarrow> string \<Rightarrow> allocation \<Rightarrow> bool" where
  "planned args rootdir al \<longleftrightarrow> (let name = js_string (arg args ''id'') @ ''-'' @ js_string (arg args ''slug'') in
     task_id_string (str_or_empty (arg args ''id'')) \<and> slug_string (str_or_empty (arg args ''slug''))
   \<and> al_relative al = ''tasks/'' @ name \<and> al_branch al = ''task/'' @ name \<and> al_relative_worktree al = ''worktrees/'' @ name
   \<and> resolveInside rootdir (JStr (''tasks/'' @ name)) ''path'' = Inr (al_dir al)
   \<and> resolveInside rootdir (JStr (''worktrees/'' @ name)) ''path'' = Inr (al_worktree al)
   \<and> bindR (backlog_tasks (al_backlog al)) (\<lambda>tasks. known_id tasks (arg args ''id'')) = Inr False
   \<and> known_epic (al_backlog al) (al_epic al) = Inr True)"

lemma task_start_gate_ok:
  assumes "runs (task_start_gate args rootdir) es (Inr head)"
  shows "task_id_string (str_or_empty (arg args ''id''))" "slug_string (str_or_empty (arg args ''slug''))"
proof -
  from assms have "assertTaskId (arg args ''id'') = Inr ()" "assertSlug (arg args ''slug'') = Inr ()"
    unfolding task_start_gate_def by (auto elim!: ok_elims)
  then show "task_id_string (str_or_empty (arg args ''id''))" "slug_string (str_or_empty (arg args ''slug''))"
    by (simp_all add: assertTaskId_def assertSlug_def)
qed

lemma plan_allocation_ok:
  assumes "runs (plan_allocation h args rootdir) es (Inr al)"
  shows "planned args rootdir al"
proof -
  from assms obtain head e1 e2 original backlog e3 known ok taskDir worktree e4 e5 where s:
    "runs (task_start_gate args rootdir) e1 (Inr head)"
    "bindR (backlog_tasks backlog) (\<lambda>tasks. known_id tasks (arg args ''id'')) = Inr known" "\<not> known"
    "known_epic backlog (coalesce (arg args ''epic'') (first_epic backlog)) = Inr ok" "\<not> \<not> ok"
    "runs (inside_path rootdir (JStr (''tasks/'' @ js_string (arg args ''id'') @ ''-'' @ js_string (arg args ''slug'')))) e4 (Inr taskDir)"
    "runs (inside_path rootdir (JStr (''worktrees/'' @ js_string (arg args ''id'') @ ''-'' @ js_string (arg args ''slug'')))) e5 (Inr worktree)"
    "al = \<lparr>al_dir = taskDir, al_relative = ''tasks/'' @ js_string (arg args ''id'') @ ''-'' @ js_string (arg args ''slug''),
       al_branch = ''task/'' @ js_string (arg args ''id'') @ ''-'' @ js_string (arg args ''slug''), al_worktree = worktree,
       al_relative_worktree = ''worktrees/'' @ js_string (arg args ''id'') @ ''-'' @ js_string (arg args ''slug''), al_head = head, al_original = original,
       al_backlog = backlog, al_epic = coalesce (arg args ''epic'') (first_epic backlog)\<rparr>"
    unfolding plan_allocation_def Let_def by - (elim ok_elims, rule that, assumption+)
  show ?thesis
    using s(2-7) task_start_gate_ok [OF s(1)] unfolding planned_def Let_def s(8) inside_path_def by simp
qed

text \<open>The new record is a Task as the validator wants it.\<close>

lemma new_task_valid:
  assumes plan: "planned args rootdir al" and tasks: "backlog_tasks (al_backlog al) = Inr tasks"
    and epics: "js_field (al_backlog al) ''epics'' = JArr epics"
    and type_ok: "arg args ''type'' \<in> {JUndef, JStr ''feature'', JStr ''chore'', JStr ''research''}"
    and priority: "arg args ''priority'' \<in> insert JUndef (JStr ` set TASK_PRIORITIES)"
  shows "task_errors (map (\<lambda>e. js_field e ''id'') epics) (map (\<lambda>t. js_field t ''id'') tasks) (new_task args al) = []"
    and "is_ok (task_dir_check rootdir (new_task args al))"
proof -
  note p = plan [unfolded planned_def Let_def]
  have "known_id tasks (arg args ''id'') = Inr False" using p tasks by simp
  then have new: "\<not> js_in (arg args ''id'') (map (\<lambda>t. js_field t ''id'') tasks)" using known_id_js_in by blast
  have "known_id epics (al_epic al) = Inr True" using p epics by (simp add: known_epic_def Let_def)
  then have epic: "js_in (al_epic al) (map (\<lambda>e. js_field e ''id'') epics)" using known_id_js_in by blast
  have f: "js_field (new_task args al) ''id'' = arg args ''id''" "js_field (new_task args al) ''epic'' = al_epic al"
    "js_field (new_task args al) ''status'' = JStr ''plan''" "js_field (new_task args al) ''type'' = coalesce (arg args ''type'') (JStr ''feature'')"
    "js_field (new_task args al) ''priority'' = coalesce (arg args ''priority'') (JStr ''P2'')"
    "js_field (new_task args al) ''estimate_points'' = JNum 1" "js_field (new_task args al) ''bootstrap_exception'' = JUndef"
    "js_field (new_task args al) ''task_dir'' = JStr (al_relative al)"
    by (simp_all add: new_task_def)
  have t: "coalesce (arg args ''type'') (JStr ''feature'') \<in> JStr ` set TASK_TYPES"
    "coalesce (arg args ''type'') (JStr ''feature'') \<noteq> JStr ''bug''"
    using type_ok by (auto simp: TASK_TYPES_def)
  have q: "coalesce (arg args ''priority'') (JStr ''P2'') \<in> JStr ` set TASK_PRIORITIES"
    using priority by (auto simp: TASK_PRIORITIES_def)
  show "task_errors (map (\<lambda>e. js_field e ''id'') epics) (map (\<lambda>t. js_field t ''id'') tasks) (new_task args al) = []"
    unfolding task_errors_def Let_def f using new epic t q p
    by (simp add: TASK_STATUSES_def POINT_SCALE_def)
  have "is_ok (resolveInside rootdir (JStr (al_relative al)) ''path'')" using p by simp
  then have "is_ok (resolveInside rootdir (JStr (al_relative al)) (js_string (arg args ''id'') @ '' task_dir''))"
    using resolveInside_label by blast
  then show "is_ok (task_dir_check rootdir (new_task args al))"
    unfolding task_dir_check_def by (auto simp: f is_ok_iff bindR_Inr_iff new_task_def)
qed

section \<open>Nothing is published\<close>

fun publishing :: "op \<Rightarrow> bool" where
  "publishing (Spawn cmd args dir env) = (cmd = ''git'' \<and> (case args of c # _ \<Rightarrow> c \<in> {''commit'', ''push'', ''merge'', ''rebase''} | [] \<Rightarrow> False))"
| "publishing _ = False"

lemma no_publishing_reads: "reads p \<Longrightarrow> \<not> publishing p"
  by (cases p) (auto simp: git_reads_def GIT_READS_def split: list.splits)

lemma only_drop_worktree:
  assumes "P (Spawn ''git'' [''worktree'', ''remove'', ''--force'', worktree] rootdir [])" "P (Spawn ''git'' [''branch'', ''-D'', branch] rootdir [])"
  shows "only P (drop_worktree rootdir branch worktree)"
  unfolding drop_worktree_def by (intro only_rules only_output assms)

lemma only_sparse: "only (\<lambda>p. \<not> publishing p) (createSparseWorktree h rootdir branch worktree)"
  unfolding createSparseWorktree_def sparse_setup_def absent_in_def
  by (intro only_rules only_git only_files only_drop_worktree) simp_all

lemma only_plan: "only (\<lambda>p. \<not> publishing p) (plan_allocation h args rootdir)"
proof -
  have g: "only (\<lambda>p. \<not> publishing p) (task_start_gate args rootdir)"
    unfolding task_start_gate_def
    by (intro only_rules only_git only_mono [OF only_reads_assertMain no_publishing_reads]) simp_all
  show ?thesis
    unfolding plan_allocation_def inside_path_def Let_def
    by (intro only_rules g only_files only_read_yaml) simp_all
qed

lemma only_write_task: "only (\<lambda>p. \<not> publishing p) (write_task h args rootdir al)"
  unfolding write_task_def write_template_def writeYaml_def writeFileAtomic_def Let_def
  by (intro only_rules only_sparse only_files only_read_yaml) simp_all

lemma only_undo_start: "only (\<lambda>p. \<not> publishing p) (undo_start rootdir al allocated e)"
  unfolding undo_start_def start_remote_def Let_def
  by (intro only_rules only_git only_output only_files only_drop_worktree) simp_all

lemma only_settle_task: "only (\<lambda>p. \<not> publishing p) (settle_task rootdir al)"
  unfolding settle_task_def
  by (intro only_rules only_git only_mono [OF only_reads_changedFiles no_publishing_reads]) simp_all

lemma only_taskStart: "only (\<lambda>p. \<not> publishing p) (taskStart h args rootdir)"
  unfolding taskStart_def
  by (intro only_rules only_plan only_files only_write_task only_undo_start only_settle_task) simp_all

section \<open>A start that fails\<close>

text \<open>The operation that makes a worktree, the one that removes it, and a head that could not be
  confirmed to be the starting one.\<close>

fun adds_worktree :: "op \<Rightarrow> bool" where
  "adds_worktree (Spawn cmd args dir env) = (cmd = ''git'' \<and> take 2 args = [''worktree'', ''add''])"
| "adds_worktree _ = False"

definition add_worktree_op :: "string \<Rightarrow> string \<Rightarrow> string \<Rightarrow> op" where
  "add_worktree_op rootdir branch worktree = Spawn ''git'' [''worktree'', ''add'', ''-b'', branch, worktree, ''main''] rootdir []"

definition worktree_removed :: "string \<Rightarrow> string \<Rightarrow> event list \<Rightarrow> bool" where
  "worktree_removed rootdir worktree es \<longleftrightarrow> (\<exists>r. (Spawn ''git'' [''worktree'', ''remove'', ''--force'', worktree] rootdir [], r) \<in> set es)"

definition head_unconfirmed :: "string \<Rightarrow> string \<Rightarrow> event list \<Rightarrow> bool" where
  "head_unconfirmed rootdir head es \<longleftrightarrow> (\<exists>r. (Spawn ''git'' [''rev-parse'', ''HEAD''] rootdir [], r) \<in> set es
     \<and> (\<forall>t u. r = RProc (Some 0) t u \<longrightarrow> js_trim t \<noteq> head))"

lemma removed_append [simp]:
  "worktree_removed r w (xs @ ys) \<longleftrightarrow> worktree_removed r w xs \<or> worktree_removed r w ys"
  "head_unconfirmed r d (xs @ ys) \<longleftrightarrow> head_unconfirmed r d xs \<or> head_unconfirmed r d ys"
  by (auto simp: worktree_removed_def head_unconfirmed_def)

lemma no_adds_reads: "reads p \<Longrightarrow> \<not> adds_worktree p"
  by (cases p) (auto simp: git_reads_def GIT_READS_def split: list.splits)

lemma no_adds_event:
  assumes "only (\<lambda>p. \<not> adds_worktree p) m" "runs m es out"
  shows "(add_worktree_op rootdir branch worktree, r) \<notin> set es"
  using only_runs [OF assms, of "(add_worktree_op rootdir branch worktree, r)"] by (auto simp: add_worktree_op_def)

lemma drop_worktree_removes:
  "runs (bindI (drop_worktree rootdir branch worktree) f) es out \<Longrightarrow> worktree_removed rootdir worktree es"
  unfolding drop_worktree_def bindI_assoc
  by (elim runs_bind_first) (fastforce dest: output_event simp: worktree_removed_def)

lemma no_adds_setup: "only (\<lambda>p. \<not> adds_worktree p) (sparse_setup h worktree)"
  unfolding sparse_setup_def absent_in_def by (intro only_rules only_git only_files) simp_all

lemma no_adds_drop: "only (\<lambda>p. \<not> adds_worktree p) (drop_worktree rootdir branch worktree)"
  by (intro only_drop_worktree) simp_all

text \<open>\<open>createSparseWorktree\<close> removes what it made when it fails.\<close>

lemma createSparse_failed:
  assumes "runs (createSparseWorktree h rootdir branch worktree) es (Inl e)"
    and "(add_worktree_op rootdir b w, RProc (Some 0) t u) \<in> set es"
  shows "worktree_removed rootdir w es"
  using assms(1) unfolding createSparseWorktree_def runs_bindI [of "git _ _"]
proof (elim disjE exE conjE)
  fix e' assume "runs (git rootdir [''worktree'', ''add'', ''-b'', branch, worktree, ''main'']) es (Inl e')"
  then obtain r where "es = [(Spawn ''git'' [''worktree'', ''add'', ''-b'', branch, worktree, ''main''] rootdir [], r)]"
    "\<forall>t u. r \<noteq> RProc (Some 0) t u"
    using git_env_failed unfolding git_def by blast
  then show ?thesis using assms(2) by auto
next
  fix e1 e2 x
  assume s: "es = e1 @ e2" "runs (git rootdir [''worktree'', ''add'', ''-b'', branch, worktree, ''main'']) e1 (Inr x)"
    "runs (catchI (sparse_setup h worktree) (\<lambda>e. bindI (drop_worktree rootdir branch worktree) (\<lambda>_. Throw e))) e2 (Inl e)"
  from s(3) obtain e3 e4 e' where c: "e2 = e3 @ e4" "runs (sparse_setup h worktree) e3 (Inl e')"
    "runs (bindI (drop_worktree rootdir branch worktree) (\<lambda>_. Throw e' :: unit io)) e4 (Inl e)" by (rule runs_catch_failed)
  have o: "only (\<lambda>p. \<not> adds_worktree p) (bindI (drop_worktree rootdir branch worktree) (\<lambda>_. Throw e' :: unit io))"
    by (intro only_rules no_adds_drop)
  have "(add_worktree_op rootdir b w, RProc (Some 0) t u) \<in> set e1"
    using assms(2) no_adds_event [OF no_adds_setup c(2)] no_adds_event [OF o c(3)] unfolding s(1) c(1) by auto
  then have "w = worktree" using s(2) by (auto simp: ok_runs add_worktree_op_def)
  then show ?thesis using drop_worktree_removes [OF c(3)] unfolding s(1) c(1) by simp
qed

lemma no_adds_plan: "only (\<lambda>p. \<not> adds_worktree p) (plan_allocation h args rootdir)"
proof -
  have g: "only (\<lambda>p. \<not> adds_worktree p) (task_start_gate args rootdir)"
    unfolding task_start_gate_def
    by (intro only_rules only_git only_mono [OF only_reads_assertMain no_adds_reads]) simp_all
  show ?thesis
    unfolding plan_allocation_def inside_path_def Let_def
    by (intro only_rules g only_files only_read_yaml) simp_all
qed

lemma no_adds_undo: "only (\<lambda>p. \<not> adds_worktree p) (undo_start rootdir al allocated e)"
  unfolding undo_start_def start_remote_def Let_def
  by (intro only_rules only_git only_output only_files no_adds_drop) simp_all

lemma no_adds_settle: "only (\<lambda>p. \<not> adds_worktree p) (settle_task rootdir al)"
  unfolding settle_task_def
  by (intro only_rules only_git only_mono [OF only_reads_changedFiles no_adds_reads]) simp_all

text \<open>The part of the \<open>try\<close> block before the worktree.\<close>

definition write_documents :: "host \<Rightarrow> args \<Rightarrow> string \<Rightarrow> allocation \<Rightarrow> unit io" where
  "write_documents h args rootdir al =
     bindI (read_yaml h (path_join rootdir ''project.yaml'')) (\<lambda>project.
     bindI (liftI (bindR (js_get project ''timezone'') (h_today h))) (\<lambda>today.
     bindI (each_I (write_template h (template_values h args today) (al_dir al)) REQUIRED_TASK_FILES) (\<lambda>_.
     writeYaml h (path_join rootdir ''backlog.yaml'') (push_task (new_task args al) (al_backlog al)))))"

lemma write_task_split: "write_task h args rootdir al =
    bindI (write_documents h args rootdir al) (\<lambda>_. createSparseWorktree h rootdir (al_branch al) (al_worktree al))"
  by (simp add: write_task_def write_documents_def bindI_assoc)

lemma no_adds_documents: "only (\<lambda>p. \<not> adds_worktree p) (write_documents h args rootdir al)"
  unfolding write_documents_def write_template_def writeYaml_def writeFileAtomic_def Let_def
  by (intro only_rules only_files only_read_yaml) simp_all

lemma write_task_failed:
  assumes "runs (write_task h args rootdir al) es (Inl e)" and "(add_worktree_op rootdir b w, RProc (Some 0) t u) \<in> set es"
  shows "worktree_removed rootdir w es"
  using assms(1) unfolding write_task_split runs_bindI
proof (elim disjE exE conjE)
  fix e' assume "runs (write_documents h args rootdir al) es (Inl e')"
  then show ?thesis using no_adds_event [OF no_adds_documents] assms(2) by blast
next
  fix e1 e2 x
  assume s: "es = e1 @ e2" "runs (write_documents h args rootdir al) e1 (Inr x)"
    "runs (createSparseWorktree h rootdir (al_branch al) (al_worktree al)) e2 (Inl e)"
  then show ?thesis using no_adds_event [OF no_adds_documents s(2)] createSparse_failed [OF s(3)] assms(2) by auto
qed

text \<open>What the \<open>catch\<close> does after the allocation.\<close>

lemma undo_start_removes:
  assumes "runs (undo_start rootdir al True e) es out"
  shows "worktree_removed rootdir (al_worktree al) es \<or> head_unconfirmed rootdir (al_head al) es"
  using assms unfolding undo_start_def Let_def runs_bindI [of "git rootdir [''rev-parse'', ''HEAD'']"]
proof (elim disjE exE conjE)
  fix e' assume "runs (git rootdir [''rev-parse'', ''HEAD'']) es (Inl e')"
  then obtain r where "es = [(Spawn ''git'' [''rev-parse'', ''HEAD''] rootdir [], r)]" "\<forall>t u. r \<noteq> RProc (Some 0) t u"
    using git_env_failed unfolding git_def by blast
  then have "head_unconfirmed rootdir (al_head al) es" by (auto simp: head_unconfirmed_def)
  then show ?thesis by simp
next
  fix e1 e2 x
  assume s: "es = e1 @ e2" "runs (git rootdir [''rev-parse'', ''HEAD'']) e1 (Inr x)"
    and k: "runs (if x \<noteq> al_head al then
       bindI (start_remote rootdir) (\<lambda>remoteHead.
       if remoteHead \<noteq> Some (al_head al)
       then Throw (suffix_error ''; publish outcome is not the starting remote, so allocated resources and local evidence were retained for reconciliation'' [] e)
       else bindI (if True then drop_worktree rootdir (al_branch al) (al_worktree al) else Ret ()) (\<lambda>_.
         bindI (git rootdir [''reset'', ''--hard'', al_head al]) (\<lambda>_.
         Throw (suffix_error ''; remote remained unchanged and invocation-created resources were removed (branch, worktree, and local evidence)'' [] e))))
     else
       bindI (if True then drop_worktree rootdir (al_branch al) (al_worktree al) else Ret ()) (\<lambda>_.
       bindI (git rootdir [''reset'', ''--mixed'', al_head al]) (\<lambda>_.
       bindI (exists_path (al_dir al)) (\<lambda>there.
       bindI (if there then remove (al_dir al) else Ret ()) (\<lambda>_.
       bindI (git rootdir [''status'', ''--porcelain'', ''backlog.yaml'']) (\<lambda>st.
       bindI (if st \<noteq> [] then write_file (path_join rootdir ''backlog.yaml'') (al_original al) else Ret ()) (\<lambda>_.
       Throw (suffix_error ''; remote was not published and invocation-created resources were removed'' [] e)))))))) e2 out"
  show ?thesis
  proof (cases "x = al_head al")
    case True
    then have "worktree_removed rootdir (al_worktree al) e2"
      using k by (simp only: if_True if_False not_True_eq_False simp_thms) (rule drop_worktree_removes)
    then show ?thesis unfolding s(1) by simp
  next
    case False
    then have "head_unconfirmed rootdir (al_head al) e1" using s(2) by (auto simp: ok_runs head_unconfirmed_def)
    then show ?thesis unfolding s(1) by simp
  qed
qed

lemma runs_bind_failed:
  assumes "runs (bindI m f) es (Inl e)"
  obtains (first) "runs m es (Inl e)" | (second) es1 x es2 where "runs m es1 (Inr x)" "runs (f x) es2 (Inl e)" "es = es1 @ es2"
  using assms unfolding runs_bindI by auto

text \<open>The \<open>try\<close> block with its two handlers.\<close>

definition start_body :: "host \<Rightarrow> args \<Rightarrow> string \<Rightarrow> allocation \<Rightarrow> started io" where
  "start_body h args rootdir al =
     bindI (catchI (bindI (write_task h args rootdir al) (\<lambda>_. Ret None))
         (\<lambda>e. bindI (undo_start rootdir al False e) (\<lambda>r. Ret (Some r)))) (\<lambda>done.
     case done of Some r \<Rightarrow> Ret r
     | None \<Rightarrow> catchI (settle_task rootdir al) (undo_start rootdir al True))"

lemma only_write_task_adds:
  "only (\<lambda>p. adds_worktree p \<longrightarrow> p = add_worktree_op rootdir (al_branch al) (al_worktree al)) (write_task h args rootdir al)"
proof -
  have w: "only (\<lambda>p. adds_worktree p \<longrightarrow> p = add_worktree_op rootdir b w) m" if "only (\<lambda>p. \<not> adds_worktree p) m" for b w and m :: "'a io"
    by (rule only_mono [OF that]) simp
  show ?thesis
    unfolding write_task_split createSparseWorktree_def
    by (intro only_rules w [OF no_adds_documents] w [OF no_adds_setup] w [OF no_adds_drop] only_git) (simp add: add_worktree_op_def)
qed

lemma start_body_failed:
  assumes run: "runs (start_body h args rootdir al) es (Inl e)" and add: "(add_worktree_op rootdir b w, RProc (Some 0) t u) \<in> set es"
  shows "worktree_removed rootdir w es \<or> head_unconfirmed rootdir (al_head al) es"
  using run unfolding start_body_def
proof (cases rule: runs_bind_failed)
  case first
  then obtain e1 e2 e' where c: "es = e1 @ e2" "runs (bindI (write_task h args rootdir al) (\<lambda>_. Ret (None :: started option))) e1 (Inl e')"
    "runs (bindI (undo_start rootdir al False e') (\<lambda>r. Ret (Some r))) e2 (Inl e)" by (rule runs_catch_failed)
  have o: "only (\<lambda>p. \<not> adds_worktree p) (bindI (undo_start rootdir al False e') (\<lambda>r. Ret (Some r)))"
    by (intro only_rules no_adds_undo)
  have "runs (write_task h args rootdir al) e1 (Inl e')" using c(2) by (auto simp: runs_bindI)
  moreover have "(add_worktree_op rootdir b w, RProc (Some 0) t u) \<in> set e1"
    using add no_adds_event [OF o c(3)] unfolding c(1) by auto
  ultimately show ?thesis using write_task_failed c(1) by auto
next
  case (second e1 done' e2)
  show ?thesis
  proof (cases done')
    case (Some r)
    then show ?thesis using second(2) by simp
  next
    case None
    with second(2) obtain e3 e4 e' where c: "e2 = e3 @ e4" "runs (settle_task rootdir al) e3 (Inl e')"
      "runs (undo_start rootdir al True e') e4 (Inl e)" by (auto elim: runs_catch_failed)
    have "(add_worktree_op rootdir b w, RProc (Some 0) t u) \<in> set e1"
      using add no_adds_event [OF no_adds_settle c(2)] no_adds_event [OF no_adds_undo c(3)] unfolding second(3) c(1) by auto
    moreover have "only (\<lambda>p. adds_worktree p \<longrightarrow> p = add_worktree_op rootdir (al_branch al) (al_worktree al))
        (catchI (bindI (write_task h args rootdir al) (\<lambda>_. Ret None)) (\<lambda>e. bindI (undo_start rootdir al False e) (\<lambda>r. Ret (Some r))))"
      by (intro only_rules only_write_task_adds only_mono [OF no_adds_undo]) simp
    ultimately have "add_worktree_op rootdir b w = add_worktree_op rootdir (al_branch al) (al_worktree al)"
      using only_runs [OF _ second(1)] by (fastforce simp: add_worktree_op_def)
    then have "w = al_worktree al" by (simp add: add_worktree_op_def)
    then show ?thesis using undo_start_removes [OF c(3)] unfolding second(3) c(1) by auto
  qed
qed

lemma taskStart_failed:
  assumes run: "runs (taskStart h args rootdir) es (Inl e)"
    and add: "(add_worktree_op rootdir b w, RProc (Some 0) t u) \<in> set es"
  obtains p al where "runs (plan_allocation h args rootdir) p (Inr al)" "prefix p es"
    and "worktree_removed rootdir w es \<or> head_unconfirmed rootdir (al_head al) es"
proof -
  have mk: "only (\<lambda>p. \<not> adds_worktree p) (make_dir d r)" for d r by (rule only_files) simp
  from run show thesis
    unfolding taskStart_def start_body_def [symmetric]
  proof (cases rule: runs_bind_failed)
    case first
    then show thesis using no_adds_event [OF no_adds_plan] add by blast
  next
    case plan: (second p al e1)
    from plan(2) show thesis
    proof (cases rule: runs_bind_failed)
      case first
      then show thesis using no_adds_event [OF no_adds_plan plan(1)] no_adds_event [OF mk] add unfolding plan(3) by auto
    next
      case dir: (second e2 x e3)
      from dir(2) show thesis
      proof (cases rule: runs_bind_failed)
        case first
        then show thesis
          using no_adds_event [OF no_adds_plan plan(1)] no_adds_event [OF mk dir(1)] no_adds_event [OF mk] add unfolding plan(3) dir(3) by auto
      next
        case body: (second e4 y e5)
        have "(add_worktree_op rootdir b w, RProc (Some 0) t u) \<in> set e5"
          using no_adds_event [OF no_adds_plan plan(1)] no_adds_event [OF mk dir(1)] no_adds_event [OF mk body(1)] add
          unfolding plan(3) dir(3) body(3) by auto
        from start_body_failed [OF body(2) this] have "worktree_removed rootdir w es \<or> head_unconfirmed rootdir (al_head al) es"
          unfolding plan(3) dir(3) body(3) by auto
        then show thesis using that [OF plan(1)] unfolding plan(3) by simp
      qed
    qed
  qed
qed

end
