(* ===== verification/Commit_Hook.thy ===== *)
theory Commit_Hook
  imports Publication
begin

text \<open>
  The commit hook (scripts/task/work-pre-commit.mjs).  Git runs it with the staged files in the
  index and the environment of the process that commits, so it is the second of two gates: the
  launcher checks the changed files before it stages them, the hook checks what was staged.
  The environment is a function; an unset variable is \<open>None\<close>.
\<close>

section \<open>The environment\<close>

type_synonym process_env = "string \<Rightarrow> string option"

text \<open>A variable that is unset or empty is falsy.\<close>

definition env_set :: "process_env \<Rightarrow> string \<Rightarrow> bool" where
  "env_set env k \<longleftrightarrow> (case env k of None \<Rightarrow> False | Some v \<Rightarrow> v \<noteq> [])"

definition env_text :: "process_env \<Rightarrow> string \<Rightarrow> string" where
  "env_text env k = (case env k of None \<Rightarrow> [] | Some v \<Rightarrow> v)"

definition launcher_parent :: "process_env \<Rightarrow> bool" where
  "launcher_parent env \<longleftrightarrow> env ''WORK_REPO_LOCK_HELD'' = Some ''1'' \<and> env ''WORK_PARENT_COMMIT'' = Some ''1''"

section \<open>The allowed paths of a launcher\<close>

text \<open>\<open>workAllowed.some(rule => ...)\<close>: a rule that is no string has no \<open>endsWith\<close>.\<close>

fun allowed_file :: "jsval list \<Rightarrow> string \<Rightarrow> bool res" where
  "allowed_file [] file = Inr False"
| "allowed_file (JStr rule # rules) file = (if precommit_covers file rule then Inr True else allowed_file rules file)"
| "allowed_file (_ # rules) file = Inl type_error"

definition staged_scope :: "string \<Rightarrow> jsval list \<Rightarrow> string list \<Rightarrow> unit res" where
  "staged_scope label rules staged =
     bindR (map_R (\<lambda>file. bindR (allowed_file rules file) (\<lambda>b. Inr (file, b))) staged) (\<lambda>found.
     let forbidden = map fst (filter (\<lambda>(file, b). \<not> b) found) in
     throw_if (forbidden \<noteq> []) (Err ''Work Agent staged files outside'' (JStr label # map JStr forbidden)))"

definition work_scope :: "host \<Rightarrow> process_env \<Rightarrow> string list \<Rightarrow> unit res" where
  "work_scope h env staged = (let workAction = env_text env ''WORK_ACTION'' in
     bindR (if env_set env ''WORK_ALLOWED_PATHS'' then h_json h (env_text env ''WORK_ALLOWED_PATHS'') else Inr JNull) (\<lambda>workAllowed.
     if \<not> env_set env ''WORK_ACTION'' then Inr ()
     else bindR (throw_if (\<not> launcher_parent env)
         (Err ''Work evidence commits must be created by the lock-owning launcher parent'' [JStr workAction])) (\<lambda>_.
       case workAllowed of
         JArr (r # rs) \<Rightarrow> staged_scope workAction (r # rs) staged
       | _ \<Rightarrow> Inl (Err ''Missing allowed paths'' [JStr workAction]))))"

section \<open>Wiki actions\<close>

fun find_sub :: "string \<Rightarrow> string \<Rightarrow> (string \<times> string) option" where
  "find_sub p [] = (if p = [] then Some ([], []) else None)"
| "find_sub p (c # s) = (if starts_with (c # s) p then Some ([], drop (length p) (c # s))
     else map_option (\<lambda>(a, b). (c # a, b)) (find_sub p s))"

text \<open>The two headings, in UTF-8.\<close>

definition context_heading :: "string \<Rightarrow> string" where
  "context_heading action = (if action = ''context-task''
     then map char_of [35, 35, 32, 233, 150, 162, 233, 128, 163, 227, 130, 179, 227, 131, 179, 227, 131, 134, 227, 130, 173, 227, 130, 185, 227, 131, 136 :: nat]
     else map char_of [35, 35, 32, 233, 150, 162, 233, 128, 163, 87, 105, 107, 105, 227, 129, 168, 229, 136, 164, 230, 150, 173 :: nat])"

definition maskSection :: "string \<Rightarrow> string \<Rightarrow> string \<Rightarrow> string res" where
  "maskSection target heading content = (case find_sub (heading @ [newline]) content of
     None \<Rightarrow> Inl (Err ''missing heading'' [JStr target, JStr heading])
   | Some (pre, body) \<Rightarrow> Inr (pre @ heading @ [newline] @ [newline] @ ''<CONTEXT>'' @ [newline]
       @ (case find_sub ([newline] @ ''## '') body of None \<Rightarrow> [] | Some (_, rest) \<Rightarrow> ''## '' @ rest)))"

definition wiki_file :: "string \<Rightarrow> bool" where
  "wiki_file file \<longleftrightarrow> starts_with file ''wiki/semantic/'' \<or> starts_with file ''wiki/decisions/''
     \<or> starts_with file ''wiki/ingestions/'' \<or> file = ''wiki/index.json''"

definition context_unchanged :: "string \<Rightarrow> string \<Rightarrow> string \<Rightarrow> unit io" where
  "context_unchanged rootdir action target =
     bindI (spawn_status ''git'' [''show'', ''HEAD:'' @ target] rootdir []) (\<lambda>(status, old, _).
     bindI (throw_ifI (status \<noteq> Some 0) (Err ''context action requires an existing evidence file'' [JStr target])) (\<lambda>_.
     bindI (read_file (path_join rootdir target)) (\<lambda>current. let heading = context_heading action in
     bindI (liftI (maskSection target heading old)) (\<lambda>a.
     bindI (liftI (maskSection target heading current)) (\<lambda>b.
     throw_ifI (a \<noteq> b) (Err ''context action may only change its section'' [JStr target, JStr action, JStr heading]))))))"

definition wiki_scope :: "process_env \<Rightarrow> string \<Rightarrow> string list \<Rightarrow> unit io" where
  "wiki_scope env rootdir staged = (let action = env_text env ''WIKI_ACTION''; target = env ''WIKI_TARGET'' in
     if \<not> env_set env ''WIKI_ACTION'' then Ret ()
     else bindI (throw_ifI (\<not> launcher_parent env)
         (Err ''Wiki commits must be created by the lock-owning launcher parent'' [JStr action])) (\<lambda>_.
       let forbidden = filter (\<lambda>file. \<not> (if action = ''ingest'' then wiki_file file else target = Some file)) staged in
       bindI (throw_ifI (forbidden \<noteq> []) (Err ''Wiki Agent staged files outside'' (JStr action # map JStr forbidden))) (\<lambda>_.
       case target of
         Some file \<Rightarrow> if action \<noteq> ''ingest'' \<and> file \<in> set staged then context_unchanged rootdir action file else Ret ()
       | None \<Rightarrow> Ret ())))"

section \<open>Decisions are immutable\<close>

text \<open>\<open>/^(status:\s*).+$/m\<close> at the start of a line: the group, and what follows the line.\<close>

definition status_line :: "string \<Rightarrow> (string \<times> string) option" where
  "status_line s = (if \<not> starts_with s ''status:'' then None
     else case List.find (\<lambda>(ws, r). r \<noteq> [] \<and> terminator_at r = None) (space_splits (length s) (drop 7 s)) of
       None \<Rightarrow> None
     | Some (ws, r) \<Rightarrow> Some (''status:'' @ ws, after_line r))"

text \<open>\<open>start\<close> says whether the text starts a line.\<close>

fun normalize_from :: "bool \<Rightarrow> string \<Rightarrow> string" where
  "normalize_from start [] = []"
| "normalize_from start (c # s) = (case (if start then status_line (c # s) else None) of
     Some (g, rest) \<Rightarrow> g @ ''<STATUS>'' @ rest
   | None \<Rightarrow> (case terminator_at (c # s) of
       Some t \<Rightarrow> t @ normalize_from True (drop (length t - 1) s)
     | None \<Rightarrow> c # normalize_from False s))"

definition normalizeStatus :: "string \<Rightarrow> string" where
  "normalizeStatus s = normalize_from True s"

definition decision_file :: "string \<Rightarrow> bool" where
  "decision_file file \<longleftrightarrow> starts_with file ''wiki/decisions/'' \<and> ends_with file ''.md''"

definition decision_change :: "host \<Rightarrow> string \<Rightarrow> string \<Rightarrow> string \<Rightarrow> string \<Rightarrow> unit io" where
  "decision_change h absolute temporary file old =
     bindI (read_frontmatter h temporary) (\<lambda>oldMetadata.
     bindI (exists_path absolute) (\<lambda>e.
     bindI (throw_ifI (\<not> e) (Err ''existing Decision cannot be deleted'' [JStr file])) (\<lambda>_.
     bindI (read_file absolute) (\<lambda>current.
     bindI (liftI (js_get oldMetadata ''status'')) (\<lambda>oldStatus.
     if oldStatus = JStr ''superseded'' then throw_ifI (old \<noteq> current) (Err ''superseded Decision is immutable'' [JStr file])
     else bindI (throw_ifI (normalizeStatus old \<noteq> normalizeStatus current)
         (Err ''accepted Decision content is immutable; only status may change'' [JStr file])) (\<lambda>_.
       bindI (read_frontmatter h absolute) (\<lambda>metadata.
       bindI (liftI (js_get metadata ''status'')) (\<lambda>status.
       throw_ifI (status \<noteq> JStr ''superseded'')
         (Err ''an accepted Decision may only transition to superseded'' [JStr file])))))))))"

definition check_decision :: "host \<Rightarrow> string \<Rightarrow> string \<Rightarrow> unit io" where
  "check_decision h rootdir file =
     bindI (spawn_status ''git'' [''show'', ''HEAD:'' @ file] rootdir []) (\<lambda>(status, old, _).
     if status \<noteq> Some 0 then Ret ()
     else let temporary = path_join rootdir (''.locks/old-decision-'' @ nat_string (h_pid h) @ ''.md'') in
       bindI (make_dir (path_dirname temporary) True) (\<lambda>_.
       bindI (write_file temporary old) (\<lambda>_.
       finallyI (decision_change h (path_join rootdir file) temporary file old) (unlink_file temporary))))"

section \<open>The digest\<close>

definition supplied_digest :: "process_env \<Rightarrow> string list \<Rightarrow> string option" where
  "supplied_digest env staged = (let d = env_text env ''WORK_VALIDATED_DIGEST'' in
     if launcher_parent env \<and> hex_string 64 d \<and> staged \<noteq> [] then Some d else None)"

definition prevalidated :: "host \<Rightarrow> process_env \<Rightarrow> string \<Rightarrow> string list \<Rightarrow> bool io" where
  "prevalidated h env rootdir staged = (case supplied_digest env staged of
     None \<Rightarrow> Ret False
   | Some d \<Rightarrow> bindI (changedContentDigest h rootdir True) (\<lambda>actual.
       bindI (throw_ifI (actual \<noteq> d) (Err ''validated working bytes differ from the staged content digest'' [])) (\<lambda>_. Ret True)))"

definition full_validation :: "host \<Rightarrow> string \<Rightarrow> unit io" where
  "full_validation h rootdir =
     bindI (exists_path (path_join rootdir ''backlog.yaml'')) (\<lambda>e.
     if \<not> e then Ret ()
     else bindI (spawn_status (h_node h) [path_join (h_repo_root h) ''scripts/task/validate-work.mjs'', ''--work-root'', rootdir] (h_repo_root h) [])
       (\<lambda>(status, _, _). throw_ifI (status \<noteq> Some 0) (Err ''exit 1'' [])))"

section \<open>The hook\<close>

definition hook_files :: "string \<Rightarrow> string list \<Rightarrow> string list io" where
  "hook_files rootdir args = bindI (git rootdir args) (\<lambda>out. Ret (lines_of out))"

definition work_root :: "host \<Rightarrow> args \<Rightarrow> string" where
  "work_root h args = workRoot h (arg args ''work_root'')"

definition hook_checks :: "host \<Rightarrow> process_env \<Rightarrow> string \<Rightarrow> string list \<Rightarrow> string \<Rightarrow> unit io" where
  "hook_checks h env rootdir staged branch =
     bindI (throw_ifI (starts_with branch ''task/'' \<and> env ''WORK_ACTION'' \<noteq> Some ''candidate-commit'')
       (Err ''Task branch commits must be created by candidate-commit launcher'' [JStr (env_text env ''WORK_ACTION'')])) (\<lambda>_.
     bindI (wiki_scope env rootdir staged) (\<lambda>_.
     bindI (each_I (check_decision h rootdir) (filter decision_file staged)) (\<lambda>_.
     bindI (prevalidated h env rootdir staged) (\<lambda>pre.
     bindI (throw_ifI (starts_with branch ''task/'' \<and> \<not> pre)
       (Err ''candidate-commit requires a trusted pre-validation digest'' [])) (\<lambda>_.
     if pre then Ret () else full_validation h rootdir)))))"

definition pre_commit :: "host \<Rightarrow> process_env \<Rightarrow> string \<Rightarrow> unit io" where
  "pre_commit h env rootdir =
     bindI (git rootdir [''rev-parse'', ''--git-dir'']) (\<lambda>dir.
     bindI (exists_path (path_join (path_resolve rootdir dir) ''agent-harness-evidence-frozen'')) (\<lambda>frozen.
     bindI (throw_ifI frozen (Err ''Evidence writes are frozen in the retired repository'' [JStr rootdir])) (\<lambda>_.
     bindI (hook_files rootdir [''diff'', ''--cached'', ''--name-only'', ''--diff-filter=ACMRD'']) (\<lambda>staged.
     bindI (liftI (if env_set env ''WORK_ALLOWED_PATHS'' then bindR (h_json h (env_text env ''WORK_ALLOWED_PATHS'')) (\<lambda>_. Inr ()) else Inr ())) (\<lambda>_.
     bindI (git rootdir [''branch'', ''--show-current'']) (\<lambda>branch.
     bindI (hook_files rootdir [''diff'', ''--name-only'']) (\<lambda>unstaged.
     bindI (hook_files rootdir [''ls-files'', ''--others'', ''--exclude-standard'']) (\<lambda>untracked.
     bindI (throw_ifI (unstaged \<noteq> [] \<or> untracked \<noteq> [])
       (Err ''Commit requires a complete staging set'' (map JStr (unstaged @ untracked)))) (\<lambda>_.
     bindI (liftI (work_scope h env staged)) (\<lambda>_.
     hook_checks h env rootdir staged branch))))))))))"

definition pre_commit_main :: "host \<Rightarrow> process_env \<Rightarrow> string list \<Rightarrow> unit io" where
  "pre_commit_main h env argv = bindI (liftI (parseArgs argv)) (\<lambda>args. pre_commit h env (work_root h args))"

end
