(* ===== verification/Hook_Props.thy ===== *)
theory Hook_Props
  imports Completion_Props Commit_Hook
begin

text \<open>
  What the commit hook guarantees of a commit it lets through: the index is the whole change, its
  files are inside the launcher's rules, on a Task branch its bytes are those the launcher fixed,
  and no recorded Decision changed except to be superseded.
\<close>

section \<open>Runs of the hook\<close>

definition listed :: "string \<Rightarrow> string list \<Rightarrow> string list \<Rightarrow> event list \<Rightarrow> bool" where
  "listed rootdir args files es \<longleftrightarrow> (\<exists>out. answered (Spawn ''git'' args rootdir []) out es \<and> files = lines_of out)"

definition STAGED :: "string list" where
  "STAGED = [''diff'', ''--cached'', ''--name-only'', ''--diff-filter=ACMRD'']"

lemma hook_files_ok: "runs (hook_files rootdir args) es (Inr files) \<Longrightarrow> listed rootdir args files es"
  unfolding hook_files_def listed_def by (auto simp: ok_runs)

lemma pre_commit_ok:
  assumes "runs (pre_commit h env rootdir) es (Inr u)"
  obtains staged branch e where "listed rootdir STAGED staged es"
    and "answered (Spawn ''git'' [''branch'', ''--show-current''] rootdir []) branch es"
    and "listed rootdir [''diff'', ''--name-only''] [] es" "listed rootdir [''ls-files'', ''--others'', ''--exclude-standard''] [] es"
    and "work_scope h env staged = Inr ()" "runs (hook_checks h env rootdir staged branch) e (Inr ())" "set e \<subseteq> set es"
proof -
  from assms obtain staged branch unstaged untracked e1 e2 e3 e4 e5 e6 where s:
    "runs (hook_files rootdir STAGED) e2 (Inr staged)"
    "runs (git rootdir [''branch'', ''--show-current'']) e3 (Inr branch)"
    "runs (hook_files rootdir [''diff'', ''--name-only'']) e4 (Inr unstaged)"
    "runs (hook_files rootdir [''ls-files'', ''--others'', ''--exclude-standard'']) e5 (Inr untracked)"
    "\<not> (unstaged \<noteq> [] \<or> untracked \<noteq> [])"
    "work_scope h env staged = Inr ()" "runs (hook_checks h env rootdir staged branch) e6 (Inr ())"
    "es = e1 @ e2 @ e3 @ e4 @ e5 @ e6"
    unfolding pre_commit_def STAGED_def [symmetric] by - (elim ok_elims, rule that, (assumption | simp)+)
  have l: "listed rootdir args fs es" if "listed rootdir args fs e" "set e \<subseteq> set es" for args fs e
    using that answered_mono unfolding listed_def by blast
  show ?thesis
  proof (rule that)
    show "listed rootdir STAGED staged es" by (rule l [OF hook_files_ok [OF s(1)]]) (use s(8) in auto)
    show "answered (Spawn ''git'' [''branch'', ''--show-current''] rootdir []) branch es"
      using s(2,8) by (auto simp: ok_runs)
    show "listed rootdir [''diff'', ''--name-only''] [] es" "listed rootdir [''ls-files'', ''--others'', ''--exclude-standard''] [] es"
      using l [OF hook_files_ok [OF s(3)]] l [OF hook_files_ok [OF s(4)]] s(5,8) by auto
    show "set e6 \<subseteq> set es" using s(8) by auto
  qed (fact s(6), fact s(7))
qed

section \<open>The launcher's rules\<close>

lemma allowed_file_strings: "allowed_file (map JStr rules) file = Inr (matchesAllowed rules file)"
  by (induction rules) (auto simp: matchesAllowed_def)

lemma staged_scope_ok:
  "staged_scope label rules staged = Inr u \<Longrightarrow> \<forall>f \<in> set staged. allowed_file rules f = Inr True"
proof -
  have m: "map_R (\<lambda>file. bindR (allowed_file rules file) (\<lambda>b. Inr (file, b))) fs = Inr found \<Longrightarrow>
      \<forall>f \<in> set fs. \<exists>b. allowed_file rules f = Inr b \<and> (f, b) \<in> set found" for fs found
    by (induction fs arbitrary: found) (fastforce simp: bindR_Inr_iff)+
  assume "staged_scope label rules staged = Inr u"
  then show ?thesis
    unfolding staged_scope_def Let_def by (fastforce simp: bindR_Inr_iff filter_empty_conv dest: m)
qed

lemma work_scope_ok:
  assumes "work_scope h env staged = Inr u" "env_set env ''WORK_ACTION''"
  obtains rules where "launcher_parent env" "env_set env ''WORK_ALLOWED_PATHS''"
    "h_json h (env_text env ''WORK_ALLOWED_PATHS'') = Inr (JArr rules)" "rules \<noteq> []" "\<forall>f \<in> set staged. allowed_file rules f = Inr True"
proof (cases "env_set env ''WORK_ALLOWED_PATHS''")
  case True
  with assms obtain v where v: "h_json h (env_text env ''WORK_ALLOWED_PATHS'') = Inr v" "launcher_parent env"
    "(case v of JArr (r # rs) \<Rightarrow> staged_scope (env_text env ''WORK_ACTION'') (r # rs) staged
        | _ \<Rightarrow> Inl (Err ''Missing allowed paths'' [JStr (env_text env ''WORK_ACTION'')])) = Inr u"
    unfolding work_scope_def Let_def by (auto simp: bindR_Inr_iff split: if_splits)
  then obtain r rs where "v = JArr (r # rs)" "staged_scope (env_text env ''WORK_ACTION'') (r # rs) staged = Inr u"
    by (auto split: jsval.splits list.splits)
  then show ?thesis using that v(1,2) True staged_scope_ok by blast
next
  case False
  with assms show ?thesis unfolding work_scope_def Let_def by (auto simp: bindR_Inr_iff split: if_splits)
qed

section \<open>The digest\<close>

lemma prevalidated_ok:
  assumes "runs (prevalidated h env rootdir staged) es (Inr True)"
  obtains d where "launcher_parent env" "env ''WORK_VALIDATED_DIGEST'' = Some d" "hex_string 64 d" "staged \<noteq> []"
    "runs (changedContentDigest h rootdir True) es (Inr d)"
proof (cases "supplied_digest env staged")
  case None
  then show ?thesis using assms by (simp add: prevalidated_def)
next
  case (Some d)
  with assms have r: "runs (changedContentDigest h rootdir True) es (Inr d)"
    unfolding prevalidated_def by (auto elim!: ok_elims)
  from Some have l: "launcher_parent env" "hex_string 64 d" "staged \<noteq> []" "d = env_text env ''WORK_VALIDATED_DIGEST''"
    unfolding supplied_digest_def Let_def by (auto split: if_splits)
  have "env ''WORK_VALIDATED_DIGEST'' = Some d"
    using l(2,4) by (cases "env ''WORK_VALIDATED_DIGEST''") (auto simp: env_text_def hex_string_def)
  then show ?thesis using that l r by blast
qed

lemma hook_checks_ok:
  assumes "runs (hook_checks h env rootdir staged branch) es (Inr u)"
  obtains e1 e2 e3 e4 pre where "starts_with branch ''task/'' \<longrightarrow> env ''WORK_ACTION'' = Some ''candidate-commit''"
    and "runs (each_I (check_decision h rootdir) (filter decision_file staged)) e2 (Inr ())"
    and "runs (prevalidated h env rootdir staged) e3 (Inr pre)" "starts_with branch ''task/'' \<longrightarrow> pre"
    and "es = e1 @ e2 @ e3 @ e4"
proof -
  from assms obtain e1 x e2 y e3 e4 pre where s: "\<not> (starts_with branch ''task/'' \<and> env ''WORK_ACTION'' \<noteq> Some ''candidate-commit'')"
    "runs (each_I (check_decision h rootdir) (filter decision_file staged)) e2 (Inr y)"
    "runs (prevalidated h env rootdir staged) e3 (Inr pre)" "\<not> (starts_with branch ''task/'' \<and> \<not> pre)"
    "es = e1 @ e2 @ e3 @ e4"
    unfolding hook_checks_def by - (elim ok_elims, rule that, (assumption | simp)+)
  show ?thesis by (rule that [OF _ _ s(3) _ s(5)]) (use s in auto)
qed

text \<open>A commit on a Task branch is the launcher's, with the bytes whose digest it passes.\<close>

lemma task_branch_commit:
  assumes run: "runs (pre_commit h env rootdir) es (Inr u)"
    and fixed: "\<And>b. answered (Spawn ''git'' [''branch'', ''--show-current''] rootdir []) b es \<Longrightarrow> starts_with b ''task/''"
  obtains staged d rules where "env ''WORK_ACTION'' = Some ''candidate-commit''" "launcher_parent env"
    and "listed rootdir STAGED staged es" "staged \<noteq> []"
    and "h_json h (env_text env ''WORK_ALLOWED_PATHS'') = Inr (JArr rules)" "\<forall>f \<in> set staged. allowed_file rules f = Inr True"
    and "env ''WORK_VALIDATED_DIGEST'' = Some d" "\<exists>e. runs (changedContentDigest h rootdir True) e (Inr d) \<and> set e \<subseteq> set es"
proof -
  from run obtain staged branch e where p: "listed rootdir STAGED staged es"
    "answered (Spawn ''git'' [''branch'', ''--show-current''] rootdir []) branch es"
    "work_scope h env staged = Inr ()" "runs (hook_checks h env rootdir staged branch) e (Inr ())" "set e \<subseteq> set es"
    by (rule pre_commit_ok)
  have b: "starts_with branch ''task/''" by (rule fixed [OF p(2)])
  from p(4) obtain e1 e2 e3 e4 pre where c: "env ''WORK_ACTION'' = Some ''candidate-commit''"
    "runs (prevalidated h env rootdir staged) e3 (Inr pre)" "pre" "e = e1 @ e2 @ e3 @ e4"
    using b by (auto elim: hook_checks_ok)
  from c(2,3) obtain d where d: "launcher_parent env" "env ''WORK_VALIDATED_DIGEST'' = Some d" "staged \<noteq> []"
    "runs (changedContentDigest h rootdir True) e3 (Inr d)" by (auto elim: prevalidated_ok)
  have "env_set env ''WORK_ACTION''" using c(1) by (simp add: env_set_def)
  with p(3) obtain rules where "h_json h (env_text env ''WORK_ALLOWED_PATHS'') = Inr (JArr rules)"
    "\<forall>f \<in> set staged. allowed_file rules f = Inr True" by (rule work_scope_ok)
  moreover have "set e3 \<subseteq> set es" using p(5) c(4) by auto
  ultimately show ?thesis using that c(1) d p(1) by blast
qed

text \<open>The environment of the hook: what the launcher adds over its own.\<close>

definition hook_env :: "process_env \<Rightarrow> (string \<times> string) list \<Rightarrow> process_env" where
  "hook_env base additions k = (case map_of additions k of Some v \<Rightarrow> Some v | None \<Rightarrow> base k)"

lemma candidate_hook_env [simp]:
  "hook_env base (candidate_env h changed digest) ''WORK_ACTION'' = Some ''candidate-commit''"
  "hook_env base (candidate_env h changed digest) ''WORK_ALLOWED_PATHS'' = Some (h_json_text h (JArr (map JStr changed)))"
  "hook_env base (candidate_env h changed digest) ''WORK_VALIDATED_DIGEST'' = Some digest"
  by (simp_all add: hook_env_def candidate_env_def)

lemma candidate_hook:
  assumes run: "runs (pre_commit h (hook_env base (candidate_env h changed digest)) worktree) es (Inr u)"
    and branch: "\<And>b. answered (Spawn ''git'' [''branch'', ''--show-current''] worktree []) b es \<Longrightarrow> starts_with b ''task/''"
    and json: "h_json h (h_json_text h (JArr (map JStr changed))) = Inr (JArr (map JStr changed))"
  shows "\<exists>staged e. listed worktree STAGED staged es \<and> staged \<noteq> [] \<and> (\<forall>f \<in> set staged. matchesAllowed changed f)
     \<and> runs (changedContentDigest h worktree True) e (Inr digest) \<and> set e \<subseteq> set es"
proof -
  obtain staged d rules where a: "listed worktree STAGED staged es" "staged \<noteq> []"
    "h_json h (env_text (hook_env base (candidate_env h changed digest)) ''WORK_ALLOWED_PATHS'') = Inr (JArr rules)"
    "\<forall>f \<in> set staged. allowed_file rules f = Inr True"
    "hook_env base (candidate_env h changed digest) ''WORK_VALIDATED_DIGEST'' = Some d"
    "\<exists>e. runs (changedContentDigest h worktree True) e (Inr d) \<and> set e \<subseteq> set es"
    by (rule task_branch_commit [OF run branch])
  have "rules = map JStr changed" using a(3) json by (simp add: env_text_def)
  then show ?thesis using a(1,2,4,5,6) by (auto simp: allowed_file_strings)
qed

section \<open>Decisions\<close>

lemma decision_change_ok:
  assumes "runs (decision_change h absolute temporary file old) es (Inr u)"
  obtains current where "(ReadFile absolute, RText current) \<in> set es"
    and "old = current \<or> (normalizeStatus old = normalizeStatus current
       \<and> (\<exists>m e. runs (read_frontmatter h absolute) e (Inr m) \<and> set e \<subseteq> set es \<and> js_field m ''status'' = JStr ''superseded''))"
proof -
  from assms obtain e1 e2 e3 e4 m current st where s: "runs (read_file absolute) e3 (Inr current)"
    "runs (if st = JStr ''superseded'' then throw_ifI (old \<noteq> current) (Err ''superseded Decision is immutable'' [JStr file])
     else bindI (throw_ifI (normalizeStatus old \<noteq> normalizeStatus current)
         (Err ''accepted Decision content is immutable; only status may change'' [JStr file])) (\<lambda>_.
       bindI (read_frontmatter h absolute) (\<lambda>metadata.
       bindI (liftI (js_get metadata ''status'')) (\<lambda>status.
       throw_ifI (status \<noteq> JStr ''superseded'')
         (Err ''an accepted Decision may only transition to superseded'' [JStr file]))))) e4 (Inr u)" "es = e1 @ e2 @ e3 @ e4"
    unfolding decision_change_def
    by - (erule ok_elims, erule ok_elims, erule ok_elims, erule ok_elims, erule ok_elims, rule that, (assumption | simp)+)
  have c: "(ReadFile absolute, RText current) \<in> set es" using s(1,3) by (auto simp: ok_runs)
  show ?thesis
  proof (cases "st = JStr ''superseded''")
    case True
    with s(2) have "old = current" by (auto split: if_splits)
    then show ?thesis using that c by blast
  next
    case False
    with s(2) obtain m e5 e6 where "normalizeStatus old = normalizeStatus current" "runs (read_frontmatter h absolute) e5 (Inr m)"
      "js_field m ''status'' = JStr ''superseded''" "e4 = e5 @ e6"
      by (simp only: if_False) (elim ok_elims, auto)
    moreover have "set e4 \<subseteq> set es" using s(3) by auto
    ultimately show ?thesis using that [OF c] by fastforce
  qed
qed

text \<open>A Decision of HEAD is kept, byte for byte or up to the value of its status line, which then
  says \<open>superseded\<close>.\<close>

definition decision_kept :: "host \<Rightarrow> string \<Rightarrow> string \<Rightarrow> event list \<Rightarrow> bool" where
  "decision_kept h rootdir file es \<longleftrightarrow> (let absolute = path_join rootdir file in
     \<exists>r. (Spawn ''git'' [''show'', ''HEAD:'' @ file] rootdir [], r) \<in> set es
       \<and> (\<forall>old err. r = RProc (Some 0) old err \<longrightarrow>
            (\<exists>current. (ReadFile absolute, RText current) \<in> set es
               \<and> (old = current \<or> (normalizeStatus old = normalizeStatus current
                  \<and> (\<exists>m e. runs (read_frontmatter h absolute) e (Inr m) \<and> set e \<subseteq> set es \<and> js_field m ''status'' = JStr ''superseded''))))))"

lemma decision_kept_mono:
  assumes "decision_kept h r f es" "set es \<subseteq> set fs"
  shows "decision_kept h r f fs"
  using assms(1) subset_trans [OF _ assms(2)] subsetD [OF assms(2)] unfolding decision_kept_def Let_def by meson

lemma finally_ok:
  assumes "runs (finallyI m f) es (Inr y)"
  obtains es1 es2 where "runs m es1 (Inr y)" "es = es1 @ es2"
proof -
  from runs_finallyID [OF assms] show ?thesis
  proof (elim exE conjE)
    fix es1 es2 out1 out2
    assume f: "es = es1 @ es2" "runs m es1 out1" "Inr y = (case out2 of Inl e \<Rightarrow> Inl e | Inr _ \<Rightarrow> out1)"
    then have "out1 = Inr y" by (cases out2) auto
    then show ?thesis using f(1,2) that by blast
  qed
qed

lemma check_decision_ok:
  assumes "runs (check_decision h rootdir file) es (Inr u)"
  shows "decision_kept h rootdir file es"
proof -
  define temporary where "temporary = path_join rootdir (''.locks/old-decision-'' @ nat_string (h_pid h) @ ''.md'')"
  from assms obtain e1 x e2 where s: "runs (spawn_status ''git'' [''show'', ''HEAD:'' @ file] rootdir []) e1 (Inr x)" "es = e1 @ e2"
    "runs (if fst x \<noteq> Some 0 then Ret () else
       bindI (make_dir (path_dirname temporary) True) (\<lambda>_.
       bindI (write_file temporary (fst (snd x))) (\<lambda>_.
       finallyI (decision_change h (path_join rootdir file) temporary file (fst (snd x))) (unlink_file temporary)))) e2 (Inr u)"
    unfolding check_decision_def Let_def case_prod_beta temporary_def [symmetric] by (rule runs_bind_okE)
  from s(1) obtain r where r: "e1 = [(Spawn ''git'' [''show'', ''HEAD:'' @ file] rootdir [], r)]"
    "\<forall>old err. r = RProc (Some 0) old err \<longrightarrow> x = (Some 0, old, err)"
    unfolding spawn_status_def runs_Op_iff by (elim exE conjE) (rename_tac r es', case_tac r, auto)
  show ?thesis
  proof (cases "fst x = Some 0")
    case False
    then show ?thesis using r s(2) unfolding decision_kept_def Let_def by fastforce
  next
    case True
    with s(3) obtain e3 e4 e5 where d: "runs (finallyI (decision_change h (path_join rootdir file) temporary file (fst (snd x))) (unlink_file temporary)) e4 (Inr u)"
      "e2 = e3 @ e4"
      by (simp only: simp_thms if_False) (elim ok_elims, auto)
    from d(1) obtain e6 e7 where f: "runs (decision_change h (path_join rootdir file) temporary file (fst (snd x))) e6 (Inr u)" "e4 = e6 @ e7"
      by (rule finally_ok)
    have sub: "set e6 \<subseteq> set es" using s(2) d(2) f(2) by auto
    from f(1) obtain current where c: "(ReadFile (path_join rootdir file), RText current) \<in> set e6"
      "fst (snd x) = current \<or> (normalizeStatus (fst (snd x)) = normalizeStatus current
       \<and> (\<exists>m e. runs (read_frontmatter h (path_join rootdir file)) e (Inr m) \<and> set e \<subseteq> set e6 \<and> js_field m ''status'' = JStr ''superseded''))"
      by (rule decision_change_ok)
    show ?thesis
      unfolding decision_kept_def Let_def
    proof (intro exI [of _ r] conjI allI impI)
      show "(Spawn ''git'' [''show'', ''HEAD:'' @ file] rootdir [], r) \<in> set es" using r(1) s(2) by simp
      fix old err assume "r = RProc (Some 0) old err"
      then have "fst (snd x) = old" using r(2) by simp
      then show "\<exists>current. (ReadFile (path_join rootdir file), RText current) \<in> set es
               \<and> (old = current \<or> (normalizeStatus old = normalizeStatus current
                  \<and> (\<exists>m e. runs (read_frontmatter h (path_join rootdir file)) e (Inr m) \<and> set e \<subseteq> set es \<and> js_field m ''status'' = JStr ''superseded'')))"
        using c sub by (intro exI [of _ current]) blast
    qed
  qed
qed

lemma each_I_ok: "runs (each_I f xs) es (Inr u) \<Longrightarrow> x \<in> set xs \<Longrightarrow> \<exists>e v. runs (f x) e (Inr v) \<and> set e \<subseteq> set es"
proof (induction xs arbitrary: es)
  case (Cons y ys)
  from Cons.prems(1) obtain e1 e2 v where s: "runs (f y) e1 (Inr v)" "runs (each_I f ys) e2 (Inr u)" "es = e1 @ e2"
    unfolding each_I.simps by (elim ok_elims)
  then show ?case using Cons.IH [OF s(2)] Cons.prems(2) by auto
qed simp

lemma decisions_kept:
  assumes "runs (pre_commit h env rootdir) es (Inr u)"
  obtains staged where "listed rootdir STAGED staged es" "\<forall>f \<in> set staged. decision_file f \<longrightarrow> decision_kept h rootdir f es"
proof -
  from assms obtain staged branch e where p: "listed rootdir STAGED staged es"
    "runs (hook_checks h env rootdir staged branch) e (Inr ())" "set e \<subseteq> set es" by (rule pre_commit_ok)
  from p(2) obtain e1 e2 e3 e4 where c: "runs (each_I (check_decision h rootdir) (filter decision_file staged)) e2 (Inr ())" "e = e1 @ e2 @ e3 @ e4"
    by (rule hook_checks_ok)
  have "decision_kept h rootdir f es" if f: "f \<in> set staged" "decision_file f" for f
  proof -
    obtain ed v where "runs (check_decision h rootdir f) ed (Inr v)" "set ed \<subseteq> set e2"
      using each_I_ok [OF c(1), of f] f by auto
    then show ?thesis using check_decision_ok decision_kept_mono p(3) c(2) by fastforce
  qed
  then show ?thesis using that p(1) by blast
qed

section \<open>What the status normalisation forgets\<close>

definition plain_char :: "char \<Rightarrow> bool" where
  "plain_char c \<longleftrightarrow> c \<noteq> newline \<and> c \<noteq> CHR 0x0D \<and> c \<noteq> CHR 0xE2"

text \<open>A document whose first status line is given: the lines before it, its value, the rest.\<close>

definition with_status :: "string list \<Rightarrow> string \<Rightarrow> string \<Rightarrow> string" where
  "with_status ls v post = concat (map (\<lambda>l. l @ [newline]) ls) @ ''status: '' @ v @ newline # post"

definition other_line :: "string \<Rightarrow> bool" where
  "other_line l \<longleftrightarrow> list_all plain_char l \<and> \<not> starts_with l ''status:''"

definition status_value :: "string \<Rightarrow> bool" where
  "status_value v \<longleftrightarrow> v \<noteq> [] \<and> is_lower_alnum (hd v) \<and> list_all plain_char v"

lemma terminator_plain: "plain_char c \<Longrightarrow> terminator_at (c # s) = None"
  by (auto simp: terminator_at_def terminators_def plain_char_def)

lemma terminator_newline: "terminator_at (newline # s) = Some [newline]"
  by (simp add: terminator_at_def terminators_def)

lemma normalize_rest_of_line:
  "list_all plain_char l \<Longrightarrow> normalize_from False (l @ newline # s) = l @ newline # normalize_from True s"
  by (induction l) (simp_all add: terminator_plain terminator_newline)

lemma starts_with_line: "starts_with (l @ c # s) p \<Longrightarrow> c \<notin> set p \<Longrightarrow> starts_with l p"
  by (auto simp: starts_with_iff append_eq_append_conv2 Cons_eq_append_conv)

lemma newline_status: "newline \<notin> set ''status:''"
  by (simp add: newline_def)

lemma status_line_other:
  assumes "other_line l" shows "status_line (l @ newline # s) = None"
proof -
  have "\<not> starts_with (l @ newline # s) ''status:''"
    using assms starts_with_line [OF _ newline_status] unfolding other_line_def by blast
  then show ?thesis by (simp add: status_line_def)
qed

lemma normalize_other_line:
  assumes "other_line l"
  shows "normalize_from True (l @ newline # s) = l @ newline # normalize_from True s"
proof (cases l)
  case Nil
  then show ?thesis using status_line_other [OF assms, of s] by (simp add: terminator_newline)
next
  case (Cons c l')
  then show ?thesis
    using status_line_other [OF assms, of s] assms
    by (simp add: other_line_def terminator_plain normalize_rest_of_line)
qed

lemma space_not_alnum: "list_all (\<lambda>w. w \<noteq> [] \<and> \<not> is_lower_alnum (hd w)) js_spaces"
  by code_simp

lemma starts_with_hd: "starts_with (c # t) w \<Longrightarrow> w \<noteq> [] \<Longrightarrow> hd w = c"
  by (cases w) auto

lemma with_status_Cons: "with_status (l # ls) v post = l @ newline # with_status ls v post"
  by (simp add: with_status_def)

lemma with_status_starts: "starts_with (with_status (l # ls) v post) ''status:'' \<Longrightarrow> starts_with l ''status:''"
  unfolding with_status_Cons using newline_status by (rule starts_with_line [rotated])

lemma with_status_Nil_starts: "starts_with (with_status [] v post) ''status:''"
  by (simp add: with_status_def)

lemma status_line_value:
  assumes "status_value v"
  shows "status_line (''status: '' @ v @ newline # s) = Some (''status: '', newline # s)"
proof -
  obtain c w where v: "v = c # w" using assms by (cases v) (auto simp: status_value_def)
  have c: "is_lower_alnum c" "plain_char c" "list_all plain_char w" using assms v by (auto simp: status_value_def)
  have no: "List.find (starts_with (c # t)) js_spaces = None" for t
    using space_not_alnum starts_with_hd c(1) by (fastforce simp: List.find_None_iff list_all_iff)
  have sp: "space_splits n (c # t) = [([], c # t)]" for n t
    by (cases n) (simp_all add: no)
  have sp1: "List.find (starts_with (CHR '' '' # c # t)) js_spaces = Some '' ''" for t
    by (simp add: js_spaces_def)
  have a: "after_line (w @ newline # s) = newline # s"
    using c(3) by (induction w) (simp_all add: terminator_plain terminator_newline)
  show ?thesis
    unfolding status_line_def v
    by (simp add: sp1 sp terminator_plain c(2) a)
qed

lemma normalizeStatus_with_status:
  assumes "list_all other_line ls" "status_value v"
  shows "normalizeStatus (with_status ls v post) = with_status ls ''<STATUS>'' post"
  using assms(1) unfolding normalizeStatus_def with_status_def
proof (induction ls)
  case Nil
  have "normalize_from True (''status: '' @ v @ newline # post) = ''status: '' @ ''<STATUS>'' @ newline # post"
    using status_line_value [OF assms(2), of post] by simp
  then show ?case by simp
next
  case (Cons l ls)
  then show ?case using normalize_other_line [of l] by simp
qed

text \<open>Two documents are equal up to the status line exactly when they have the same lines before it
  and the same text after it.\<close>

lemma with_status_inj:
  assumes "list_all other_line ls" "list_all other_line ls'"
  shows "with_status ls ''<STATUS>'' post = with_status ls' ''<STATUS>'' post' \<longleftrightarrow> ls = ls' \<and> post = post'"
  using assms
proof (induction ls arbitrary: ls')
  case Nil
  show ?case
  proof (cases ls')
    case (Cons l rest)
    have "with_status [] ''<STATUS>'' post \<noteq> with_status ls' ''<STATUS>'' post'"
      using with_status_Nil_starts [of "''<STATUS>''" post] with_status_starts Nil.prems(2) unfolding Cons
      by (auto simp: other_line_def simp del: starts_with.simps)
    then show ?thesis using Cons by simp
  qed (simp add: with_status_def)
next
  case (Cons l ls)
  note outer = Cons
  show ?case
  proof (cases ls')
    case Nil
    have "with_status [] ''<STATUS>'' post' \<noteq> with_status (l # ls) ''<STATUS>'' post"
      using with_status_Nil_starts [of "''<STATUS>''" post'] with_status_starts outer(2)
      by (auto simp: other_line_def simp del: starts_with.simps)
    then show ?thesis using Nil by simp
  next
    case (Cons l' rest)
    have n: "newline \<notin> set l" "newline \<notin> set l'"
      using outer(2,3) Cons by (auto simp: other_line_def list_all_iff plain_char_def)
    have "(l @ newline # a = l' @ newline # b) = (l = l' \<and> a = b)" for a b
      using n by (auto simp: append_eq_append_conv2 Cons_eq_append_conv append_eq_Cons_conv)
    then have "with_status (l # ls) ''<STATUS>'' post = with_status (l' # rest) ''<STATUS>'' post'
        \<longleftrightarrow> l = l' \<and> with_status ls ''<STATUS>'' post = with_status rest ''<STATUS>'' post'"
      by (simp add: with_status_Cons)
    then show ?thesis using outer(1) [of rest] outer(2,3) Cons by auto
  qed
qed

lemma normalizeStatus_same:
  assumes "list_all other_line ls" "status_value v" "list_all other_line ls'" "status_value v'"
  shows "normalizeStatus (with_status ls v post) = normalizeStatus (with_status ls' v' post') \<longleftrightarrow> ls = ls' \<and> post = post'"
  using assms by (simp add: normalizeStatus_with_status with_status_inj)

end
