(* ===== verification/Lock_Live.thy ===== *)
theory Lock_Live
  imports Lock
begin

text \<open>
  Progress of the lock: a process that finds the directory of an owner that has ended removes it
  and acquires the lock, provided nothing else interferes.
\<close>

text \<open>An environment with the lock of an ended process in place: creating the directory fails until
  it has been removed, the owner's record is readable, and its process does not exist.\<close>

record stale =
  sl_common :: string
  sl_record :: string
  sl_pid :: jsval

definition sl_dir :: "stale \<Rightarrow> string" where
  "sl_dir s = path_join (js_trim (sl_common s)) ''agent-harness-locks/work-repository.lock''"

definition stale_env :: "host \<Rightarrow> string \<Rightarrow> stale \<Rightarrow> environment \<Rightarrow> bool" where
  "stale_env h rootdir s env \<longleftrightarrow> (\<exists>fields. h_json h (sl_record s) = Inr (JObj fields) \<and> js_field (JObj fields) ''pid'' = sl_pid s)
   \<and> (\<forall>past.
       env past (Spawn ''git'' [''rev-parse'', ''--path-format=absolute'', ''--git-common-dir''] rootdir []) = RProc (Some 0) (sl_common s) []
     \<and> env past (Mkdir (path_dirname (sl_dir s)) True) = ROk
     \<and> env past (Mkdir (sl_dir s) False) = (if \<exists>r. (Rm (sl_dir s), r) \<in> set past then ROk else RErr ''EEXIST'')
     \<and> env past (ReadFile (owner_file (sl_dir s))) = RText (sl_record s)
     \<and> env past (Probe (sl_pid s)) = RErr ''ESRCH''
     \<and> env past (Rm (sl_dir s)) = ROk
     \<and> (\<forall>text. env past (WriteFile (owner_file (sl_dir s)) text) = ROk)
     \<and> env past (Spawn ''git'' [''branch'', ''--show-current''] rootdir []) = RProc (Some 0) ''main'' []
     \<and> env past (Spawn ''git'' [''status'', ''--porcelain''] rootdir []) = RProc (Some 0) [] [])"

lemma exec_bindI: "exec env (bindI m f) past = (let (es, out) = exec env m past in
     case out of Inl e \<Rightarrow> (es, Inl e) | Inr x \<Rightarrow> let (es', out') = exec env (f x) (past @ es) in (es @ es', out'))"
  by (induction m arbitrary: past) (auto simp: Let_def split: prod.splits sum.splits)

lemma exec_catchI_ok: "exec env m past = (es, Inr x) \<Longrightarrow> exec env (catchI m g) past = (es, Inr x)"
  by (induction m arbitrary: past es) (auto simp: Let_def prod_eq_iff)

lemma trim_plain: "js_trim ''main'' = ''main''" "js_trim [] = []"
  by code_simp+

lemma stale_lock_acquired:
  assumes "stale_env h rootdir s env"
  shows "snd (exec env (acquireWorkRepoLock h rootdir requireClean True) []) = Inr (sl_dir s)"
proof -
  define d where "d = sl_dir s"
  obtain fields where f: "h_json h (sl_record s) = Inr (JObj fields)" "js_field (JObj fields) ''pid'' = sl_pid s"
    using assms unfolding stale_env_def by blast
  have e: "env past (Spawn ''git'' [''rev-parse'', ''--path-format=absolute'', ''--git-common-dir''] rootdir []) = RProc (Some 0) (sl_common s) []"
    "env past (Mkdir (path_dirname d) True) = ROk"
    "env past (Mkdir d False) = (if \<exists>r. (Rm d, r) \<in> set past then ROk else RErr ''EEXIST'')"
    "env past (ReadFile (owner_file d)) = RText (sl_record s)" "env past (Probe (sl_pid s)) = RErr ''ESRCH''"
    "env past (Rm d) = ROk" "env past (WriteFile (owner_file d) rec') = ROk"
    "env past (Spawn ''git'' [''branch'', ''--show-current''] rootdir []) = RProc (Some 0) ''main'' []"
    "env past (Spawn ''git'' [''status'', ''--porcelain''] rootdir []) = RProc (Some 0) [] []" for past rec'
    using assms unfolding stale_env_def d_def by blast+
  have locate: "\<exists>es. exec env (workRepoLockDir rootdir) past = (es, Inr d)" for past
    unfolding workRepoLockDir_def git_def git_env_def spawn_def d_def sl_dir_def by (simp add: e(1) Let_def)
  have owner: "\<exists>es. exec env (read_owner h d) past = (es, Inr (JObj fields))" for past
    using exec_catchI_ok [of env "bindI (read_file (owner_file d)) (\<lambda>text. liftI (h_json h text))" past]
    unfolding read_owner_def by (simp add: read_file_def text_response_def e(4) f(1) Let_def liftI_def)
  have probe: "\<exists>es. exec env (probe_owner d (JObj fields)) past = (es, Inr ())" for past
    unfolding probe_owner_def takeover_def remove_def make_dir_def unit_response_def js_get_obj f(2)
    by (auto simp: liftI_def e(3,5,6) Let_def)
  have probe': "snd (exec env (probe_owner d (JObj fields)) past) = Inr ()" for past
    using probe [of past] by auto
  have create: "\<exists>es. exec env (createLock h d) past = (es, Inr ())" for past
    using owner [of "past @ [(Mkdir d False, RErr ''EEXIST'')]"] probe'
    by (cases "\<exists>r. (Rm d, r) \<in> set past")
      (auto simp: createLock_def e(3) Let_def unit_response_def exec_bindI case_prod_beta prod_eq_iff)
  have hold: "\<exists>es. exec env (holding h rootdir d requireClean True) past = (es, Inr ())" for past
  proof -
    have "\<exists>es. exec env (lock_body h rootdir d requireClean True) past = (es, Inr ())"
      unfolding lock_body_def write_file_def unit_response_def git_def git_env_def spawn_def throw_ifI_def
      by (cases requireClean) (simp_all add: e(7,8,9) Let_def trim_plain)
    then show ?thesis unfolding holding_def by (elim exE) (rule exI, erule exec_catchI_ok)
  qed
  obtain e1 where 1: "exec env (workRepoLockDir rootdir) [] = (e1, Inr d)" using locate by blast
  have mk: "exec env (make_dir (path_dirname d) True) e1 = ([(Mkdir (path_dirname d) True, ROk)], Inr ())"
    by (simp add: make_dir_def unit_response_def e(2) Let_def)
  obtain e2 where 2: "exec env (createLock h d) (e1 @ [(Mkdir (path_dirname d) True, ROk)]) = (e2, Inr ())" using create by blast
  obtain e3 where 3: "exec env (holding h rootdir d requireClean True) (e1 @ (Mkdir (path_dirname d) True, ROk) # e2) = (e3, Inr ())"
    using hold by blast
  show ?thesis
    unfolding acquireWorkRepoLock_def acquire_at_def by (simp add: exec_bindI 1 mk 2 3 d_def [symmetric])
qed

end
