(* ===== verification/Lifecycle_Demo.thy ===== *)
theory Lifecycle_Demo
  imports Demo Task_Start_Props Hook_Props Lock_Live
begin

text \<open>
  Concrete repositories and runs at which the properties of the lifecycle commands are applied.
  A file's content is its own path as front matter, and the parser maps a path to a document.
\<close>

section \<open>A host and a repository\<close>

definition life_document :: "string \<Rightarrow> jsval \<Rightarrow> string \<Rightarrow> jsval" where
  "life_document text' backlog s = (if contains s ''backlog.yaml'' then backlog
     else case List.find (\<lambda>(name, v). contains s name) (demo_documents ''product'') of
       Some (name, v) \<Rightarrow> v
     | None \<Rightarrow> JObj (strs [(''timezone'', ''UTC''), (''default_branch'', ''main'')]))"

definition life_host :: "jsval \<Rightarrow> host" where
  "life_host backlog = (demo_host 1)\<lparr>h_yaml := (\<lambda>s. Inr (life_document [] backlog s)),
     h_sha256 := (\<lambda>s. replicate 64 (CHR ''a'')), h_json := (\<lambda>s. Inr (JArr [JStr ''src/a.ts''])), h_json_text := (\<lambda>v. ''json'')\<rparr>"

definition life_text :: "string \<Rightarrow> string" where
  "life_text path = ''---'' @ [newline] @ path @ [newline] @ ''---'' @ [newline] @ ''candidate DEV''"

text \<open>The root is \<open>/r\<close>, on main; any other directory is on the Task's branch.\<close>

definition life_git :: "string \<Rightarrow> string list \<Rightarrow> string" where
  "life_git dir args = (
     if args = [''branch'', ''--show-current''] then (if dir = ''/r'' then ''main'' else ''task/TASK-0001-x'')
     else if args = [''worktree'', ''list'', ''--porcelain''] then ''worktree /r'' @ [newline] @ ''branch refs/heads/main''
     else if args = [''rev-parse'', ''--path-format=absolute'', ''--git-common-dir''] then ''/r/.git''
     else if args = [''rev-parse'', ''MERGE_HEAD''] \<or> args = [''rev-parse'', ''task/TASK-0001-x''] then demo_candidate
     else if args = [''rev-parse'', ''HEAD''] \<or> args = [''rev-parse'', ''origin/main''] then ''c0''
     else if args = [''merge-base'', ''main'', demo_candidate] \<or> args = [''merge-base'', ''main'', ''task/TASK-0001-x''] then ''b0''
     else if take 2 args = [''rev-list'', ''--count''] then (if args ! 2 = ''b0..task/TASK-0001-x'' then ''0'' else ''1'')
     else if take 2 args = [''diff'', ''--name-only''] then
       (if dir = ''/r'' \<and> args \<noteq> [''diff'', ''--name-only'', ''b0...'' @ demo_candidate] then ''t/HANDOVER.md'' else ''src/a.ts'')
     else [])"

definition life_env :: environment where
  "life_env past p = (case p of
     Spawn cmd args dir env \<Rightarrow> if cmd = ''git'' then ok_text (life_git dir args) else ok_text []
   | Exists q \<Rightarrow> RBool True | IsFile q \<Rightarrow> RBool True | ReadFile q \<Rightarrow> RText (life_text q)
   | Realpath q \<Rightarrow> RText q | Mode q \<Rightarrow> RText ''644'' | ReadDir q \<Rightarrow> REntries [] | _ \<Rightarrow> ROk)"

definition life_task :: jsval where
  "life_task = demo_task ''plan'' ''product''"

definition life_backlog :: jsval where
  "life_backlog = JObj [(''epics'', JArr [JObj (strs [(''id'', ''EPIC-001'')])]), (''tasks'', JArr [life_task])]"

section \<open>A candidate commit\<close>

definition candidate_req :: candidate_request where
  "candidate_req = \<lparr>cd_root = ''/r'', cd_task = JStr ''TASK-0001'', cd_candidate = ''/w'', cd_message = ''m''\<rparr>"

definition candidate_run :: "event list \<times> (js_error + candidate_result)" where
  "candidate_run = exec life_env (candidateCommit (life_host life_backlog) candidate_req) []"

lemma candidate_run_result: "snd candidate_run = Inr \<lparr>cr_commit = ''c0'', cr_base = ''b0'', cr_changed = [''src/a.ts'']\<rparr>"
  by code_simp

text \<open>The same, with a branch that holds two commits after the commit.\<close>

definition crowded_env :: environment where
  "crowded_env past p = (if p = Spawn ''git'' [''rev-list'', ''--count'', ''b0..c0''] ''/r'' [] then ok_text ''2'' else life_env past p)"

definition crowded_run :: "event list \<times> (js_error + candidate_result)" where
  "crowded_run = exec crowded_env (candidateCommit (life_host life_backlog) candidate_req) []"

definition candidate_commit_event :: event where
  "candidate_commit_event = (Spawn ''git'' [''commit'', ''-m'', ''m''] ''/w''
     (candidate_env (life_host life_backlog) [''src/a.ts''] (replicate 64 (CHR ''a''))), RProc (Some 0) [] [])"

lemma crowded_run_facts:
  "snd crowded_run = Inl (Err ''candidate must be one commit after planning'' []) \<and> candidate_commit_event \<in> set (fst crowded_run)"
  by code_simp

section \<open>A completion\<close>

definition completion_req :: completion_request where
  "completion_req = \<lparr>cq_root = ''/r'', cq_task = JStr ''TASK-0001'', cq_message = ''m'', cq_validate = True, cq_push = False\<rparr>"

definition complete_env :: environment where
  "complete_env past p = (if p = Spawn ''git'' [''diff'', ''--cached'', ''--name-only'', ''--diff-filter=ACMRD''] ''/r'' []
     then ok_text [] else life_env past p)"

definition completion_run :: "event list \<times> (js_error + completion \<times> completion_result)" where
  "completion_run = exec complete_env (completion_transaction (life_host life_backlog) completion_req) []"

lemma completion_run_facts:
  "(case snd completion_run of Inr x \<Rightarrow> True | _ \<Rightarrow> False) \<and> list_ex (\<lambda>e. git_write (fst e)) (fst completion_run)"
  by code_simp

lemma completion_run_result: "\<exists>c res. snd completion_run = Inr (c, res)"
  using completion_run_facts by (auto split: sum.splits)

lemma completion_run_writes: "\<exists>e \<in> set (fst completion_run). git_write (fst e)"
  using completion_run_facts by (simp add: list_ex_iff)

text \<open>A merge whose second parent is another commit.\<close>

definition wrong_env :: environment where
  "wrong_env past p = (if p = Spawn ''git'' [''rev-parse'', ''MERGE_HEAD''] ''/r'' [] then ok_text ''other'' else complete_env past p)"

definition wrong_run :: "event list \<times> (js_error + completion \<times> completion_result)" where
  "wrong_run = exec wrong_env (completion_transaction (life_host life_backlog) completion_req) []"

definition merge_event :: event where
  "merge_event = (Spawn ''git'' [''merge'', ''--no-ff'', ''--no-commit'', demo_candidate] ''/r'' [], RProc (Some 0) [] [])"

lemma wrong_run_facts:
  "snd wrong_run = Inl (Err ''completion merge second parent mismatch; completion transaction aborted'' []) \<and> merge_event \<in> set (fst wrong_run)"
  by code_simp

end
