(* ===== verification/Lifecycle_Runs.thy ===== *)
theory Lifecycle_Runs
  imports Lifecycle_Demo
begin

text \<open>
  Runs of the commit hook, the scope check, the synchronisation and the start of a Task.
\<close>

section \<open>The hook\<close>

text \<open>In the hook's worktree everything is staged.\<close>

definition hook_git :: "string \<Rightarrow> string list \<Rightarrow> string" where
  "hook_git staged args = (
     if args = STAGED then staged
     else if args = [''branch'', ''--show-current''] then (if staged = ''src/a.ts'' then ''task/TASK-0001-x'' else ''main'')
     else if args = [''rev-parse'', ''--git-dir''] then ''/r/.git''
     else if args = [''show'', ''HEAD:wiki/decisions/D.md''] then life_text ''old''
     else [])"

definition hook_environment :: "string \<Rightarrow> environment" where
  "hook_environment staged past p = (case p of
     Spawn cmd args dir env \<Rightarrow> if cmd = ''git'' then ok_text (hook_git staged args) else ok_text []
   | Exists q \<Rightarrow> RBool (ends_with q ''.md'') | ReadFile q \<Rightarrow> RText (life_text ''old'') | _ \<Rightarrow> ROk)"

definition hook_run :: "event list \<times> (js_error + unit)" where
  "hook_run = exec (hook_environment ''src/a.ts'') (pre_commit (life_host life_backlog)
     (hook_env (\<lambda>k. None) (candidate_env (life_host life_backlog) [''src/a.ts''] (replicate 64 (CHR ''a'')))) ''/w'') []"

definition branch_answers :: "event list \<Rightarrow> bool" where
  "branch_answers es = list_all (\<lambda>(p, r). p = Spawn ''git'' [''branch'', ''--show-current''] ''/w'' [] \<longrightarrow> r = ok_text ''task/TASK-0001-x'') es"

lemma hook_run_facts: "snd hook_run = Inr () \<and> branch_answers (fst hook_run)"
  by code_simp

text \<open>A commit on main that leaves a superseded Decision as it is.\<close>

definition superseded_host :: host where
  "superseded_host = (life_host life_backlog)\<lparr>h_yaml := (\<lambda>s. Inr (JObj (strs [(''status'', ''superseded'')])))\<rparr>"

definition decision_run :: "event list \<times> (js_error + unit)" where
  "decision_run = exec (hook_environment ''wiki/decisions/D.md'') (pre_commit superseded_host (\<lambda>k. None) ''/w'') []"

lemma decision_run_result: "snd decision_run = Inr ()"
  by code_simp

section \<open>Scope, synchronisation and start\<close>

definition scope_args :: args where
  "scope_args = [(''event'', ''pr''), (''base'', ''b0''), (''head'', demo_candidate)]"

definition scope_run :: "event list \<times> (js_error + scope_result)" where
  "scope_run = exec life_env (scopeCheck (life_host life_backlog) scope_args ''/r'') []"

lemma scope_run_result: "snd scope_run = Inr \<lparr>sc_files = [''src/a.ts''], sc_merge = None\<rparr>"
  by code_simp

definition sync_backlog :: jsval where
  "sync_backlog = JObj [(''tasks'', JArr [demo_task ''done'' ''product''])]"

definition sync_env :: environment where
  "sync_env past p = (case p of
     Spawn cmd args dir env \<Rightarrow> if cmd = ''gh'' then ok_text ''success''
       else if cmd = ''git'' \<and> take 2 args = [''diff'', ''--name-only''] then ok_text ''backlog.yaml'' else life_env past p
   | _ \<Rightarrow> life_env past p)"

definition sync_run :: "event list \<times> (js_error + synced)" where
  "sync_run = exec sync_env (syncMain (life_host sync_backlog) [] ''/r'') []"

lemma sync_run_facts:
  "(case snd sync_run of Inr (Cleaned r) \<Rightarrow> True | _ \<Rightarrow> False)
   \<and> list_ex (\<lambda>e. branch_write (fst e)) (fst sync_run)"
  by code_simp

definition start_args :: args where
  "start_args = [(''id'', ''TASK-0002''), (''slug'', ''new''), (''title'', ''T'')]"

definition plan_run :: "event list \<times> (js_error + allocation)" where
  "plan_run = exec life_env (plan_allocation (life_host life_backlog) start_args ''/r'') []"

definition start_clean :: environment where
  "start_clean past p = (case p of Exists q \<Rightarrow> RBool False | _ \<Rightarrow> if p = Spawn ''git'' [''rev-parse'', ''HEAD''] ''/r'' [] then ok_text ''c0'' else
     if p = Spawn ''git'' [''read-tree'', ''-mu'', ''HEAD''] ''/r/worktrees/TASK-0002-new'' [] then RProc (Some 1) [] ''no'' else life_env past p)"

definition start_run :: "event list \<times> (js_error + started)" where
  "start_run = exec start_clean (taskStart (life_host life_backlog) start_args ''/r'') []"

lemma plan_run_facts: "(case snd plan_run of Inr al \<Rightarrow> al_backlog al = life_backlog | _ \<Rightarrow> False)"
  by code_simp

lemma start_run_facts: "(case snd start_run of Inl e \<Rightarrow> True | _ \<Rightarrow> False)
   \<and> (add_worktree_op ''/r'' ''task/TASK-0002-new'' ''/r/worktrees/TASK-0002-new'', RProc (Some 0) [] []) \<in> set (fst start_run)"
  by code_simp

end
