(* ===== verification/Validate_Props.thy ===== *)
theory Validate_Props
  imports Validate_Work
begin

text \<open>
  What a repository satisfies that the operations validator accepts: every message list of its
  blocks is empty, and so the ids are unique and well formed, the references between epics,
  Tasks and Decisions resolve, the dependencies have no cycle, every Task passes its gate, and
  the stored Wiki index is the one built from the pages.
\<close>

section \<open>The blocks\<close>

lemma check_epics_clean:
  "clean (check_epics seen epics) ids \<Longrightarrow> ids = seen @ map (\<lambda>e. js_field e ''id'') epics"
  by (induction epics arbitrary: seen) (fastforce simp: clean_bindC)+

text \<open>The messages of a Task that follows the Tasks before it.\<close>

lemma check_tasks_clean:
  "clean (check_tasks rootdir epicIds seen tasks) ids \<Longrightarrow>
     ids = seen @ map (\<lambda>t. js_field t ''id'') tasks
   \<and> (\<forall>a t b. tasks = a @ t # b \<longrightarrow> is_ok (task_dir_check rootdir t)
        \<and> task_errors epicIds (seen @ map (\<lambda>t. js_field t ''id'') a) t = [])"
proof (induction tasks arbitrary: seen)
  case (Cons task tasks)
  from Cons.prems have t: "is_ok (task_dir_check rootdir task)" "task_errors epicIds seen task = []"
    "clean (check_tasks rootdir epicIds (seen @ [js_field task ''id'']) tasks) ids"
    by (auto simp: clean_bindC is_ok_iff)
  have "is_ok (task_dir_check rootdir u) \<and> task_errors epicIds (seen @ map (\<lambda>t. js_field t ''id'') a) u = []"
    if "task # tasks = a @ u # b" for a u b
    using that t Cons.IH [OF t(3)] by (cases a) auto
  then show ?case using Cons.IH [OF t(3)] by simp
qed simp

text \<open>A well-formed Task of the backlog.\<close>

definition sound_task :: "jsval list \<Rightarrow> jsval \<Rightarrow> bool" where
  "sound_task epicIds task \<longleftrightarrow> task_id_string (str_or_empty (js_field task ''id'')) \<and> js_field task ''epic'' \<in> set epicIds
     \<and> js_field task ''status'' \<in> JStr ` set TASK_STATUSES \<and> js_field task ''type'' \<in> JStr ` set TASK_TYPES
     \<and> js_field task ''priority'' \<in> JStr ` set TASK_PRIORITIES \<and> js_field task ''estimate_points'' \<in> JNum ` set POINT_SCALE
     \<and> (js_field task ''type'' = JStr ''bug'' \<longrightarrow> truthy (js_field task ''origin_task''))"

lemma task_errors_sound: "task_errors epicIds seen task = [] \<Longrightarrow> sound_task epicIds task \<and> \<not> js_in (js_field task ''id'') seen"
  unfolding task_errors_def sound_task_def Let_def by (auto dest: js_in_set)

lemma check_tasks_sound:
  assumes "clean (check_tasks rootdir epicIds [] tasks) ids"
  shows "ids = map (\<lambda>t. js_field t ''id'') tasks" "\<forall>t \<in> set tasks. sound_task epicIds t"
    and "\<forall>a t b. tasks = a @ t # b \<longrightarrow> \<not> js_in (js_field t ''id'') (map (\<lambda>t. js_field t ''id'') a)"
proof -
  note c = check_tasks_clean [OF assms]
  show "ids = map (\<lambda>t. js_field t ''id'') tasks" using c by simp
  show "\<forall>t \<in> set tasks. sound_task epicIds t"
  proof
    fix t assume "t \<in> set tasks"
    then obtain a b where "tasks = a @ t # b" by (meson split_list)
    then have "task_errors epicIds ([] @ map (\<lambda>t. js_field t ''id'') a) t = []" using c by blast
    then show "sound_task epicIds t" using task_errors_sound by blast
  qed
  show "\<forall>a t b. tasks = a @ t # b \<longrightarrow> \<not> js_in (js_field t ''id'') (map (\<lambda>t. js_field t ''id'') a)"
    using c task_errors_sound by (metis append_Nil)
qed

text \<open>String ids that never repeat are distinct.\<close>

lemma new_ids_distinct:
  "\<forall>a t b. tasks = a @ t # b \<longrightarrow> \<not> js_in (f t) (map f a) \<Longrightarrow> \<forall>t \<in> set tasks. is_string (f t) \<Longrightarrow> distinct (map f tasks)"
proof (induction tasks rule: rev_induct)
  case (snoc t tasks)
  have "\<not> js_in (f t) (map f tasks)" using snoc.prems(1) by simp
  then have "f t \<notin> set (map f tasks)" using snoc.prems(2) js_in_strings [of "f t"] by simp
  moreover have "distinct (map f tasks)"
  proof (rule snoc.IH)
    show "\<forall>a u b. tasks = a @ u # b \<longrightarrow> \<not> js_in (f u) (map f a)"
      using snoc.prems(1) by (metis append.assoc append_Cons)
  qed (use snoc.prems(2) in simp)
  ultimately show ?case by simp
qed simp

lemma check_dependencies_clean:
  assumes "clean (check_dependencies v rootdir backlog taskIds task) ()"
  shows "checkTask v rootdir backlog (js_field task ''id'') ''full'' = []"
    and "\<exists>ds. js_iter (js_field task ''depends_on'') = Inr ds \<and> (\<forall>d \<in> set ds. d \<in> set taskIds \<and> \<not> js_seq d (js_field task ''id''))"
  using assms unfolding check_dependencies_def Let_def
  by (auto simp: clean_bindC clean_each_C dependency_errors_def dest: js_in_set)

lemma check_backlog_clean:
  assumes "clean (check_backlog v rootdir backlog) (epics, tasks)"
  shows "js_iter (js_field backlog ''epics'') = Inr epics" "js_iter (js_field backlog ''tasks'') = Inr tasks"
    and "\<forall>t \<in> set tasks. sound_task (map (\<lambda>e. js_field e ''id'') epics) t"
    and "\<forall>a t b. tasks = a @ t # b \<longrightarrow> \<not> js_in (js_field t ''id'') (map (\<lambda>t. js_field t ''id'') a)"
    and "\<forall>t \<in> set tasks. checkTask v rootdir backlog (js_field t ''id'') ''full'' = []"
    and "\<forall>t \<in> set tasks. \<exists>ds. js_iter (js_field t ''depends_on'') = Inr ds \<and> set ds \<subseteq> (\<lambda>t. js_field t ''id'') ` set tasks"
    and "dependency_cycles tasks = Inr []"
proof -
  obtain epicIds taskIds where c: "js_iter (js_field backlog ''epics'') = Inr epics" "clean (check_epics [] epics) epicIds"
    "js_iter (js_field backlog ''tasks'') = Inr tasks" "clean (check_tasks rootdir epicIds [] tasks) taskIds"
    "\<forall>t \<in> set tasks. clean (check_dependencies v rootdir backlog taskIds t) ()" "dependency_cycles tasks = Inr []"
    using assms unfolding check_backlog_def by (auto simp: clean_bindC clean_each_C)
  note t = check_tasks_sound [OF c(4)] and e = check_epics_clean [OF c(2)]
  show "js_iter (js_field backlog ''epics'') = Inr epics" "js_iter (js_field backlog ''tasks'') = Inr tasks"
    "dependency_cycles tasks = Inr []" using c by simp_all
  show "\<forall>t \<in> set tasks. sound_task (map (\<lambda>e. js_field e ''id'') epics) t" using t(2) e by simp
  show "\<forall>a t b. tasks = a @ t # b \<longrightarrow> \<not> js_in (js_field t ''id'') (map (\<lambda>t. js_field t ''id'') a)" by (rule t(3))
  show "\<forall>t \<in> set tasks. checkTask v rootdir backlog (js_field t ''id'') ''full'' = []"
    using c(5) check_dependencies_clean(1) by blast
  show "\<forall>t \<in> set tasks. \<exists>ds. js_iter (js_field t ''depends_on'') = Inr ds \<and> set ds \<subseteq> (\<lambda>t. js_field t ''id'') ` set tasks"
    using c(5) check_dependencies_clean(2) t(1) by fastforce
qed

section \<open>Decisions\<close>

text \<open>Every Decision met is recorded; its status is one of the two, and its id is new.\<close>

lemma check_pages_clean:
  "clean (check_pages h v rootdir schemaRoot st pages) st' \<Longrightarrow>
     ws_ids st' = ws_ids st @ map (\<lambda>p. js_field p ''decision_id'') (filter (\<lambda>p. starts_with (page_path p) ''wiki/decisions/'') pages)
   \<and> (\<exists>new. ws_decisions st' = ws_decisions st @ new)"
  by (induction pages arbitrary: st) (auto simp: clean_bindC split: if_splits, fastforce+)

definition superseded_properly :: "jsval list \<Rightarrow> jsval \<Rightarrow> bool" where
  "superseded_properly decisions d \<longleftrightarrow>
     (js_field d ''status'' = JStr ''superseded'' \<longrightarrow>
        (\<exists>s \<in> set decisions. js_field s ''status'' = JStr ''accepted'' \<and> succeeds d s = Inr True))
   \<and> (js_field d ''status'' = JStr ''accepted'' \<longrightarrow>
        (\<forall>sups. js_iter (js_field d ''supersedes'') = Inr sups \<longrightarrow>
           (\<forall>i \<in> set sups. js_field (decision_by_id decisions i) ''status'' = JStr ''superseded'')))"

lemma map_R_True: "map_R f xs = Inr bs \<Longrightarrow> list_ex id bs \<Longrightarrow> \<exists>x \<in> set xs. f x = Inr True"
  by (induction xs arbitrary: bs) (fastforce simp: bindR_Inr_iff)+

lemma check_successor_clean:
  assumes "clean (check_successor decisions d) ()"
  shows "\<exists>s \<in> set decisions. js_field s ''status'' = JStr ''accepted'' \<and> succeeds d s = Inr True"
proof -
  obtain bs where "map_R (succeeds d) decisions = Inr bs" "list_ex id bs"
    using assms unfolding check_successor_def by (auto simp: clean_bindC)
  then obtain s where "s \<in> set decisions" "succeeds d s = Inr True" using map_R_True by blast
  moreover from this have "js_field s ''status'' = JStr ''accepted''" by (auto simp: succeeds_def split: if_splits)
  ultimately show ?thesis by blast
qed

lemma check_decisions_clean:
  assumes "clean (check_decisions st) ()" "d \<in> set (ws_decisions st)"
  shows "superseded_properly (ws_decisions st) d"
proof -
  from assms have s: "clean (check_supersedes (ws_ids st) (ws_decisions st) d) ()"
    and n: "js_field d ''status'' = JStr ''superseded'' \<Longrightarrow> clean (check_successor (ws_decisions st) d) ()"
    unfolding check_decisions_def by (auto simp: clean_bindC clean_each_C)
  from s obtain sups where i: "js_iter (js_field d ''supersedes'') = Inr sups"
    "\<forall>i \<in> set sups. supersede_errors (ws_ids st) (ws_decisions st) d i = []"
    unfolding check_supersedes_def by (auto simp: clean_bindC clean_each_C)
  show ?thesis
    unfolding superseded_properly_def
  proof (intro conjI impI allI ballI)
    assume "js_field d ''status'' = JStr ''superseded''"
    then show "\<exists>s \<in> set (ws_decisions st). js_field s ''status'' = JStr ''accepted'' \<and> succeeds d s = Inr True"
      using n check_successor_clean by blast
  next
    fix sups' k
    assume "js_field d ''status'' = JStr ''accepted''" "js_iter (js_field d ''supersedes'') = Inr sups'" "k \<in> set sups'"
    then show "js_field (decision_by_id (ws_decisions st) k) ''status'' = JStr ''superseded''"
      using i by (auto simp: supersede_errors_def Let_def js_opt_field)
  qed
qed

section \<open>The whole run\<close>

lemma validate_work_clean:
  assumes "run_chk (validate_work h v rootdir schemaRoot) = []"
  obtains backlog epics tasks cache st where "readYaml v (path_join rootdir ''backlog.yaml'') = Inr backlog"
    "clean (check_backlog v rootdir backlog) (epics, tasks)"
    "clean (check_wiki h v rootdir schemaRoot cache) st"
proof -
  from assms obtain u where u: "clean (validate_work h v rootdir schemaRoot) u" by (auto simp: run_chk_Nil)
  then show ?thesis
    unfolding validate_work_def Let_def clean_bindC by (auto simp: read_or_empty_def clean_bindC split: if_splits intro: that)
qed

lemma check_wiki_clean:
  assumes "clean (check_wiki h v rootdir schemaRoot cache) st"
  obtains index where "on_view v (buildWikiIndex h rootdir) = Inr index"
    "vw_read v (path_join rootdir ''wiki/index.json'') = Inr (h_json_pretty h index @ [newline])"
    "\<forall>d \<in> set (ws_decisions st). superseded_properly (ws_decisions st) d"
    "ws_ids st = map (\<lambda>p. js_field p ''decision_id'')
       (filter (\<lambda>p. starts_with (page_path p) ''wiki/decisions/'') (arr_items (js_field index ''pages'')))"
proof -
  from assms obtain index where i: "on_view v (buildWikiIndex h rootdir) = Inr index"
    "clean (check_pages h v rootdir schemaRoot \<lparr>ws_cache = cache, ws_ids = [], ws_decisions = []\<rparr> (arr_items (js_field index ''pages''))) st"
    "clean (check_decisions st) ()" "clean (check_index h v rootdir index) ()"
    unfolding check_wiki_def by (auto simp: clean_bindC)
  have x: "vw_read v (path_join rootdir ''wiki/index.json'') = Inr (h_json_pretty h index @ [newline])"
    using i(4) unfolding check_index_def Let_def by (auto simp: clean_bindC split: if_splits)
  show ?thesis
    by (rule that [OF i(1) x]) (use check_decisions_clean [OF i(3)] check_pages_clean [OF i(2)] in auto)
qed

end
