(* ===== verification/Validate_Demo.thy ===== *)
theory Validate_Demo
  imports Demo Validate_Props
begin

text \<open>
  A repository that the operations validator accepts: a Task in development, two Decisions of
  which one supersedes the other, and a current Wiki index.
\<close>

section \<open>A repository the validator accepts\<close>

definition valid_task :: jsval where
  "valid_task = (case demo_task ''dev'' ''product'' of JObj m \<Rightarrow> JObj (m @ strs [(''epic'', ''EPIC-001''), (''type'', ''feature''),
     (''priority'', ''P1'')] @ [(''estimate_points'', JNum 3), (''depends_on'', JArr [])]) | v \<Rightarrow> v)"

definition valid_backlog :: jsval where
  "valid_backlog = JObj [(''version'', JNum 1), (''epics'', JArr [JObj (strs [(''id'', ''EPIC-001''), (''title'', ''E''),
     (''target_start'', ''2026-01-01''), (''target_end'', ''2026-02-01'')])]), (''tasks'', JArr [valid_task])]"

definition valid_decision :: "string \<Rightarrow> string \<Rightarrow> string list \<Rightarrow> jsval" where
  "valid_decision i status supersedes = JObj (strs [(''kind'', ''decision''), (''title'', ''D''), (''decision_id'', i), (''status'', status)]
     @ [(''supersedes'', JArr (map JStr supersedes))])"

definition valid_yaml :: "string \<Rightarrow> jsval res" where
  "valid_yaml s = (if s = ''/r/backlog.yaml'' then Inr valid_backlog
     else if s = ''/r/project.yaml'' then Inr (JObj ((''version'', JNum 2) # strs [(''default_branch'', ''main''), (''repository_path'', ''.''), (''evidence_root'', ''.'')]))
     else if s = ''/r/wiki/decisions/D1.md'' then Inr (valid_decision ''DECISION-0001'' ''superseded'' [])
     else if s = ''/r/wiki/decisions/D2.md'' then Inr (valid_decision ''DECISION-0002'' ''accepted'' [''DECISION-0001''])
     else demo_parse ''product'' s)"

definition valid_read :: "string \<Rightarrow> string res" where
  "valid_read f = (if f = ''/r/wiki/index.json'' then Inr (''index'' @ [newline])
     else if starts_with f ''/r/wiki/'' then Inr (''---'' @ [newline] @ f @ [newline] @ ''---'' @ [newline])
     else demo_read f)"

definition valid_view :: view where
  "valid_view = (demo_view ''product'')\<lparr>vw_exists := (\<lambda>f. \<not> contains f ''ingestions'' \<and> \<not> contains f ''BOOTSTRAP''),
     vw_dir := (\<lambda>d. Inr (if d = ''/r/wiki/decisions'' then [(''D1.md'', FileEntry), (''D2.md'', FileEntry)] else [])),
     vw_read := valid_read, vw_yaml := valid_yaml\<rparr>"

definition valid_host :: host where
  "valid_host = (demo_host 1)\<lparr>h_json_pretty := (\<lambda>v. ''index''), h_yaml := valid_yaml, h_json := (\<lambda>s. Inr JNull)\<rparr>"

lemma valid_run: "run_chk (validate_work valid_host valid_view ''/r'' ''/r'') = []"
  by code_simp

end
