(* ===== verification/Lifecycle_Theorems.thy ===== *)
theory Lifecycle_Theorems
  imports Lifecycle_Runs Validate_Demo
begin

text \<open>
  The properties of the commands around the evidence transaction: the candidate commit, the
  completion, the scope check, synchronisation, the start of a Task, the commit hook, the lock's
  progress and the operations validator.
\<close>

section \<open>The candidate commit\<close>

lemma candidate_run_runs: "runs (candidateCommit (life_host life_backlog) candidate_req) (fst candidate_run) (snd candidate_run)"
  unfolding candidate_run_def by (rule exec_runs)


text \<open>C26: A run of \<open>candidateCommit\<close> that returns holds the lock of the work repository, made one
  commit, and before it: found the branch without commits after the merge base, listed a non-empty
  set of product files, and read the same digest of their bytes before and after a \<open>make check\<close> that
  succeeded; the commit carries that digest and that list for the hook, and the branch has exactly
  one commit afterwards.\<close>

theorem candidate_commit_is_gated:
  assumes "runs (candidateCommit h q) es (Inr res)"
  shows "\<exists>pre e0 task worktree staged digest t u fin lock rel.
     es = pre @ staged @ (Spawn ''git'' [''commit'', ''-m'', cd_message q] worktree (candidate_env h (cr_changed res) digest),
        RProc (Some 0) t u) # fin @ [(Rm lock, rel)]
     \<and> held lock pre \<and> runs (candidate_entry h q) e0 (Inr (task, worktree)) \<and> prefix e0 pre
     \<and> staged_candidate h q (task, worktree) (cr_base res) (cr_changed res) digest staged
     \<and> commit_free pre \<and> commit_free staged \<and> commit_free fin
     \<and> answered (Spawn ''git'' [''rev-parse'', ''HEAD''] worktree []) (cr_commit res) fin
     \<and> counted (cd_root q) (cr_base res) (cr_commit res) 1 fin"
  using assms by (rule candidate_gated) (unfold commit_op_of_def, blast)

theorem candidate_commit_is_gated_witness:
  "\<exists>pre e0 task worktree staged digest t u fin lock rel.
     fst candidate_run = pre @ staged @ (Spawn ''git'' [''commit'', ''-m'', cd_message candidate_req] worktree
        (candidate_env (life_host life_backlog) [''src/a.ts''] digest), RProc (Some 0) t u) # fin @ [(Rm lock, rel)]
     \<and> held lock pre \<and> runs (candidate_entry (life_host life_backlog) candidate_req) e0 (Inr (task, worktree)) \<and> prefix e0 pre
     \<and> staged_candidate (life_host life_backlog) candidate_req (task, worktree) ''b0'' [''src/a.ts''] digest staged
     \<and> commit_free pre \<and> commit_free staged \<and> commit_free fin
     \<and> answered (Spawn ''git'' [''rev-parse'', ''HEAD''] worktree []) ''c0'' fin
     \<and> counted (cd_root candidate_req) ''b0'' ''c0'' 1 fin"
  using candidate_commit_is_gated [OF candidate_run_runs [unfolded candidate_run_result]] by simp



section \<open>The hook\<close>

lemma hook_run_runs: "runs (pre_commit (life_host life_backlog)
     (hook_env (\<lambda>k. None) (candidate_env (life_host life_backlog) [''src/a.ts''] (replicate 64 (CHR ''a'')))) ''/w'') (fst hook_run) (snd hook_run)"
  unfolding hook_run_def by (rule exec_runs)

lemma hook_run_branch:
  assumes "answered (Spawn ''git'' [''branch'', ''--show-current''] ''/w'' []) b (fst hook_run)"
  shows "starts_with b ''task/''"
proof -
  have t: "js_trim ''task/TASK-0001-x'' = ''task/TASK-0001-x''" by code_simp
  from assms hook_run_facts have "b = ''task/TASK-0001-x''"
    by (auto simp: answered_def branch_answers_def list_all_iff ok_text_def t)
  then show ?thesis by simp
qed

text \<open>C28: The hook of a candidate commit, on a Task branch and in the environment \<open>candidateCommit\<close>
  makes: when it lets the commit through, the index lists files, all of them in the list the launcher
  checked, and the digest of the index is the one the launcher read around its quality run.  JSON is
  assumed to read back what was written.\<close>

theorem candidate_hook_binds:
  assumes "runs (pre_commit h (hook_env base (candidate_env h changed digest)) worktree) es (Inr u)"
    and "\<And>b. answered (Spawn ''git'' [''branch'', ''--show-current''] worktree []) b es \<Longrightarrow> starts_with b ''task/''"
    and "h_json h (h_json_text h (JArr (map JStr changed))) = Inr (JArr (map JStr changed))"
  shows "\<exists>staged e. listed worktree STAGED staged es \<and> staged \<noteq> [] \<and> (\<forall>f \<in> set staged. matchesAllowed changed f)
     \<and> runs (changedContentDigest h worktree True) e (Inr digest) \<and> set e \<subseteq> set es"
  using assms by (rule candidate_hook)

theorem candidate_hook_binds_witness:
  "\<exists>staged e. listed ''/w'' STAGED staged (fst hook_run) \<and> staged \<noteq> [] \<and> (\<forall>f \<in> set staged. matchesAllowed [''src/a.ts''] f)
     \<and> runs (changedContentDigest (life_host life_backlog) ''/w'' True) e (Inr (replicate 64 (CHR ''a''))) \<and> set e \<subseteq> set (fst hook_run)"
proof (rule candidate_hook_binds)
  show "runs (pre_commit (life_host life_backlog)
     (hook_env (\<lambda>k. None) (candidate_env (life_host life_backlog) [''src/a.ts''] (replicate 64 (CHR ''a'')))) ''/w'') (fst hook_run) (Inr ())"
    using hook_run_runs hook_run_facts by simp
  show "h_json (life_host life_backlog) (h_json_text (life_host life_backlog) (JArr (map JStr [''src/a.ts'']))) = Inr (JArr (map JStr [''src/a.ts'']))"
    by (simp add: life_host_def)
qed (rule hook_run_branch)

section \<open>The completion\<close>

lemma completion_run_runs: "runs (completion_transaction (life_host life_backlog) completion_req) (fst completion_run) (snd completion_run)"
  unfolding completion_run_def by (rule exec_runs)

lemma wrong_run_runs: "runs (completion_transaction (life_host life_backlog) completion_req) (fst wrong_run) (snd wrong_run)"
  unfolding wrong_run_def by (rule exec_runs)

text \<open>C29: A completion that returns held the lock and merged the candidate that the Task's HANDOVER
  names: the head of the Task's branch, one commit of product files, with the independent verdicts
  its change class needs; the merge changed only the candidate's files and the Task's evidence; its
  commit carries the digest of those bytes, after a successful validation when that is on.\<close>

theorem completion_is_gated:
  assumes "runs (completion_transaction h q) es (Inr (c, res))"
  shows "\<exists>pre mid digest t u fin lock rel.
     es = pre @ mid @ (completion_commit_op h q c digest, RProc (Some 0) t u) # fin @ [(Rm lock, rel)]
     \<and> held lock pre \<and> completion_ready h q c pre \<and> merged_in h q c (co_changed res) digest mid
     \<and> answered (Spawn ''git'' [''rev-parse'', ''HEAD''] (cq_root q) []) (co_commit res) fin
     \<and> co_candidate res = cp_candidate c"
  using assms by (rule completion_gated) blast

theorem completion_is_gated_witness:
  "\<exists>(c :: completion) (res :: completion_result) pre mid digest t u fin lock rel.
     fst completion_run = pre @ mid @ (completion_commit_op (life_host life_backlog) completion_req c digest, RProc (Some 0) t u) # fin @ [(Rm lock, rel)]
     \<and> held lock pre \<and> completion_ready (life_host life_backlog) completion_req c pre
     \<and> merged_in (life_host life_backlog) completion_req c (co_changed res) digest mid
     \<and> answered (Spawn ''git'' [''rev-parse'', ''HEAD''] (cq_root completion_req) []) (co_commit res) fin
     \<and> co_candidate res = cp_candidate c"
proof -
  obtain c res where "snd completion_run = Inr (c, res)" using completion_run_result by (elim exE)
  show ?thesis
    by (rule exI, rule exI, rule completion_is_gated [OF completion_run_runs [unfolded \<open>snd completion_run = Inr (c, res)\<close>]])
qed

text \<open>C30: The completion transaction changes the repository only while it holds the lock, and a run
  that changed anything ends with the removal of the lock.\<close>

theorem completion_writes_under_lock:
  assumes "runs (completion_transaction h q) es out" and "\<exists>e \<in> set es. git_write (fst e)"
  shows "\<exists>lock r. guarded lock False es \<and> last es = (Rm lock, r)"
  using assms unfolding completion_transaction_def by (rule completing.transaction_guarded)

theorem completion_writes_under_lock_witness:
  "\<exists>lock r. guarded lock False (fst completion_run) \<and> last (fst completion_run) = (Rm lock, r)"
  by (rule completion_writes_under_lock [OF completion_run_runs completion_run_writes])

text \<open>C31: A completion that fails after it called \<open>git merge\<close> has called \<open>git merge --abort\<close>, unless the
  only thing that failed is the removal of the lock.\<close>

theorem completion_failure_aborts:
  assumes "runs (completion_transaction h q) es (Inl e)" and "(Spawn ''git'' (''merge'' # args) dir env, r) \<in> set es"
  shows "(\<exists>r. (Spawn ''git'' [''merge'', ''--abort''] (cq_root q) [], r) \<in> set es)
       \<or> (\<exists>lock r. last es = (Rm lock, r) \<and> r \<noteq> ROk)"
  using assms by (rule completion_failed)

theorem completion_failure_aborts_witness:
  "(\<exists>r. (Spawn ''git'' [''merge'', ''--abort''] (cq_root completion_req) [], r) \<in> set (fst wrong_run))
       \<or> (\<exists>lock r. last (fst wrong_run) = (Rm lock, r) \<and> r \<noteq> ROk)"
proof (rule completion_failure_aborts)
  show "runs (completion_transaction (life_host life_backlog) completion_req) (fst wrong_run)
      (Inl (Err ''completion merge second parent mismatch; completion transaction aborted'' []))"
    using wrong_run_runs wrong_run_facts by simp
  show "(Spawn ''git'' (''merge'' # [''--no-ff'', ''--no-commit'', demo_candidate]) ''/r'' [], RProc (Some 0) [] []) \<in> set (fst wrong_run)"
    using wrong_run_facts by (simp add: merge_event_def)
qed

text \<open>C32: The bytes a completion saved bring its files back: when \<open>snapshotBytes\<close> ran on the files \<open>F\<close> and
  \<open>restoreBytes\<close> of its result succeeds on the files \<open>G\<close>, every saved file has the mode and the bytes it had
  in \<open>F\<close> (or is absent again), and every other file is as in \<open>G\<close>.\<close>

theorem saved_bytes_round_trip:
  assumes "runs (snapshotBytes rootdir fs) es1 (Inr snap)" "faithful dm F es1"
    and "runs (restoreBytes rootdir snap) es2 (Inr u)" "faithful dm G es2"
  shows "fs_after dm G es2 p = (if p \<in> path_join rootdir ` set fs then F p else G p)"
  using assms by (rule saved_bytes_restore)

text \<open>One file is present, one is absent; in between the first was deleted and the second created.\<close>

definition saved_files :: files where
  "saved_files = [''/r/a'' \<mapsto> (''644'', ''x'')]"

definition later_files :: files where
  "later_files = [''/r/b'' \<mapsto> (''755'', ''y'')]"

definition save_events :: "event list" where
  "save_events = [(Exists ''/r/a'', RBool True), (Mode ''/r/a'', RText ''644''), (ReadFile ''/r/a'', RText ''x''), (Exists ''/r/b'', RBool False)]"

definition restore_events :: "event list" where
  "restore_events = [(Mkdir ''/r'' True, ROk), (WriteFile ''/r/a'' ''x'', ROk), (Chmod ''/r/a'' ''644'', ROk),
     (Exists ''/r/b'', RBool True), (Unlink ''/r/b'', ROk)]"

lemma demo_paths: "path_join ''/r'' ''a'' = ''/r/a''" "path_join ''/r'' ''b'' = ''/r/b''" "path_dirname ''/r/a'' = ''/r''"
  by code_simp+

lemma save_runs: "runs (snapshotBytes ''/r'' [''a'', ''b'']) save_events (Inr [(''a'', Present ''644'' ''x''), (''b'', Absent)])"
  by (simp add: snapshotBytes_def snapshot_file_def save_events_def exists_path_def file_mode_def read_file_def text_response_def Let_def demo_paths)

lemma restore_runs: "runs (restoreBytes ''/r'' [(''a'', Present ''644'' ''x''), (''b'', Absent)]) restore_events (Inr ())"
  by (simp add: restoreBytes_def restore_file_def restore_events_def exists_path_def make_dir_def write_file_def change_mode_def
      unlink_file_def unit_response_def Let_def demo_paths)

theorem saved_bytes_round_trip_witness:
  "fs_after ''600'' later_files restore_events ''/r/a'' = Some (''644'', ''x'') \<and> fs_after ''600'' later_files restore_events ''/r/b'' = None"
proof -
  have f: "faithful ''600'' saved_files save_events" "faithful ''600'' later_files restore_events"
    by (simp_all add: saved_files_def later_files_def save_events_def restore_events_def)
  note r = saved_bytes_round_trip [OF save_runs f(1) restore_runs f(2)]
  show ?thesis using r [of "''/r/a''"] r [of "''/r/b''"] by (simp add: demo_paths saved_files_def)
qed

section \<open>Publication\<close>

lemma scope_run_runs: "runs (scopeCheck (life_host life_backlog) scope_args ''/r'') (fst scope_run) (snd scope_run)"
  unfolding scope_run_def by (rule exec_runs)

text \<open>C33: A scope check that passes: on a pull request no changed file is main-managed; on a direct push
  to main every changed file is; on a merge commit, when allowed, the second parent is the candidate
  that a Task's HANDOVER binds at the first parent, one commit of product files, and the
  main-managed files the merge changes are that Task's evidence.\<close>

theorem scope_check_sound:
  assumes "runs (scopeCheck h args rootdir) es (Inr res)"
  shows "scope_sound h args rootdir res es"
  using assms by (rule scopeCheck_ok)

theorem scope_check_sound_witness:
  "scope_sound (life_host life_backlog) scope_args ''/r'' \<lparr>sc_files = [''src/a.ts''], sc_merge = None\<rparr> (fst scope_run)"
  using scope_check_sound [OF scope_run_runs [unfolded scope_run_result]] .

lemma sync_run_runs: "runs (syncMain (life_host sync_backlog) [] ''/r'') (fst sync_run) (snd sync_run)"
  unfolding sync_run_def by (rule exec_runs)

text \<open>C34: The only change \<open>syncMain\<close> makes to branches is \<open>git branch -d\<close> of a branch that git had confirmed,
  earlier in the same run, to be an ancestor of main.\<close>

theorem sync_deletes_only_merged:
  assumes "runs (syncMain h args rootdir) es out" "h_node h \<noteq> ''git''"
    and "es = pre @ e # post" "branch_write (fst e)"
  shows "\<exists>b. fst e = Spawn ''git'' [''branch'', ''-d'', b] rootdir [] \<and> ran (ancestor_check rootdir b) pre"
  using safe_deletes_at [of rootdir "[]" pre e post] safe_ioD [OF safe_syncMain [OF assms(2)] assms(1), of "[]"] assms(3,4) by simp

theorem sync_deletes_only_merged_witness:
  "\<exists>pre e post b. fst sync_run = pre @ e # post \<and> fst e = Spawn ''git'' [''branch'', ''-d'', b] ''/r'' [] \<and> ran (ancestor_check ''/r'' b) pre"
proof -
  obtain e where e: "e \<in> set (fst sync_run)" "branch_write (fst e)" using sync_run_facts by (auto simp: list_ex_iff)
  then obtain pre post where es: "fst sync_run = pre @ e # post" by (meson split_list)
  have "h_node (life_host sync_backlog) \<noteq> ''git''" by (simp add: life_host_def demo_host_def)
  from sync_deletes_only_merged [OF sync_run_runs this es e(2)] es show ?thesis by blast
qed

section \<open>The start of a Task\<close>

lemma plan_run_runs: "runs (plan_allocation (life_host life_backlog) start_args ''/r'') (fst plan_run) (snd plan_run)"
  unfolding plan_run_def by (rule exec_runs)

lemma start_run_runs: "runs (taskStart (life_host life_backlog) start_args ''/r'') (fst start_run) (snd start_run)"
  unfolding start_run_def by (rule exec_runs)

text \<open>C35: The record \<open>taskStart\<close> appends to the backlog is a Task as the operations validator wants it:
  no message of the validator's Task block applies to it, after the Tasks and with the epics of the backlog it
  was planned on, when \<open>--type\<close> and \<open>--priority\<close> are absent or among the validator's values (which
  \<open>taskStart\<close> does not check) and the type is not \<open>bug\<close>; and its directory resolves.\<close>

theorem new_task_is_valid:
  assumes "runs (plan_allocation h args rootdir) es (Inr al)"
    and "backlog_tasks (al_backlog al) = Inr tasks" "js_field (al_backlog al) ''epics'' = JArr epics"
    and "arg args ''type'' \<in> {JUndef, JStr ''feature'', JStr ''chore'', JStr ''research''}"
    and "arg args ''priority'' \<in> insert JUndef (JStr ` set TASK_PRIORITIES)"
  shows "task_errors (map (\<lambda>e. js_field e ''id'') epics) (map (\<lambda>t. js_field t ''id'') tasks) (new_task args al) = []
    \<and> is_ok (task_dir_check rootdir (new_task args al))"
  using new_task_valid [OF plan_allocation_ok [OF assms(1)] assms(2-5)] by simp

theorem new_task_is_valid_witness:
  "\<exists>al. snd plan_run = Inr al \<and> task_errors [JStr ''EPIC-001''] [JStr ''TASK-0001''] (new_task start_args al) = []
    \<and> is_ok (task_dir_check ''/r'' (new_task start_args al))"
proof -
  obtain al where al: "snd plan_run = Inr al" "al_backlog al = life_backlog" using plan_run_facts by (auto split: sum.splits)
  have b: "backlog_tasks (al_backlog al) = Inr [life_task]" "js_field (al_backlog al) ''epics'' = JArr [JObj (strs [(''id'', ''EPIC-001'')])]"
    by (simp_all add: al(2) life_backlog_def backlog_tasks_def js_array_def)
  have a: "arg start_args ''type'' \<in> {JUndef, JStr ''feature'', JStr ''chore'', JStr ''research''}"
    "arg start_args ''priority'' \<in> insert JUndef (JStr ` set TASK_PRIORITIES)"
    by (simp_all add: arg_def start_args_def)
  have "js_field life_task ''id'' = JStr ''TASK-0001''" by (simp add: life_task_def demo_task_def strs_def)
  then show ?thesis
    using new_task_is_valid [OF plan_run_runs [unfolded al(1)] b a] al(1) by (simp add: strs_def)
qed

text \<open>C36: \<open>taskStart\<close> allocates and never publishes: it does not commit, push, merge or rebase.  When it
  fails after git made its worktree, it has asked git to remove that worktree, unless the root's head could not be confirmed
  to be the one it started from.\<close>

theorem failed_start_removes_worktree:
  assumes "runs (taskStart h args rootdir) es out"
  shows "(\<forall>e \<in> set es. \<not> publishing (fst e))
    \<and> (\<forall>e b w t u. out = Inl e \<longrightarrow> (add_worktree_op rootdir b w, RProc (Some 0) t u) \<in> set es \<longrightarrow>
         worktree_removed rootdir w es
         \<or> (\<exists>p al. runs (plan_allocation h args rootdir) p (Inr al) \<and> prefix p es \<and> head_unconfirmed rootdir (al_head al) es))"
  using only_runs [OF only_taskStart assms] assms by (metis taskStart_failed)

theorem failed_start_removes_worktree_witness:
  "list_all (\<lambda>e. \<not> publishing (fst e)) (fst start_run)
   \<and> (worktree_removed ''/r'' ''/r/worktrees/TASK-0002-new'' (fst start_run)
      \<or> (\<exists>p al. runs (plan_allocation (life_host life_backlog) start_args ''/r'') p (Inr al) \<and> prefix p (fst start_run)
           \<and> head_unconfirmed ''/r'' (al_head al) (fst start_run)))"
proof -
  obtain e where "snd start_run = Inl e" using start_run_facts by (auto split: sum.splits)
  then show ?thesis using failed_start_removes_worktree [OF start_run_runs] start_run_facts unfolding list_all_iff by blast
qed

section \<open>Decisions\<close>

lemma decision_run_runs: "runs (pre_commit superseded_host (\<lambda>k. None) ''/w'') (fst decision_run) (Inr ())"
  using exec_runs [of "pre_commit superseded_host (\<lambda>k. None) ''/w''"] decision_run_result unfolding decision_run_def by metis

text \<open>C37: A commit the hook lets through keeps every staged Decision that HEAD has: its bytes are unchanged, or
  they are unchanged up to the status line and the new status is \<open>superseded\<close>.  Equality up to the status line means,
  for documents with a status line, the same lines before it and the same text after it.\<close>

theorem decisions_are_immutable:
  assumes "runs (pre_commit h env rootdir) es (Inr u)"
  shows "(\<exists>staged. listed rootdir STAGED staged es \<and> (\<forall>f \<in> set staged. decision_file f \<longrightarrow> decision_kept h rootdir f es))
    \<and> (\<forall>ls v post ls' v' post'. list_all other_line (ls @ ls') \<longrightarrow> status_value v \<longrightarrow> status_value v' \<longrightarrow>
         (normalizeStatus (with_status ls v post) = normalizeStatus (with_status ls' v' post')) = (ls = ls' \<and> post = post'))"
proof
  obtain staged where "listed rootdir STAGED staged es" "\<forall>f \<in> set staged. decision_file f \<longrightarrow> decision_kept h rootdir f es"
    by (rule decisions_kept [OF assms])
  then show "\<exists>staged. listed rootdir STAGED staged es \<and> (\<forall>f \<in> set staged. decision_file f \<longrightarrow> decision_kept h rootdir f es)" by blast
qed (simp add: normalizeStatus_same)

theorem decisions_are_immutable_witness:
  "(\<exists>staged. listed ''/w'' STAGED staged (fst decision_run)
      \<and> (\<forall>f \<in> set staged. decision_file f \<longrightarrow> decision_kept superseded_host ''/w'' f (fst decision_run)))
   \<and> normalizeStatus (with_status [''id''] ''accepted'' ''x'') = normalizeStatus (with_status [''id''] ''superseded'' ''x'')"
proof -
  have l: "list_all other_line ([''id''] @ [''id''])" "status_value ''accepted''" "status_value ''superseded''"
    by (simp_all add: other_line_def status_value_def plain_char_def newline_def is_lower_alnum_def)
  show ?thesis using decisions_are_immutable [OF decision_run_runs] l by blast
qed

section \<open>The operations validator\<close>



text \<open>C39: The dependency search ends for every backlog whose ids and dependencies are strings, and reports
  a cycle exactly when some Task depends on itself through one or more steps.\<close>

theorem dependency_search_exact:
  assumes "string_graph tasks"
  shows "\<exists>es. dependency_cycles tasks = Inr es
    \<and> (es = [] \<longleftrightarrow> (\<forall>i \<in> (\<lambda>t. js_field t ''id'') ` set tasks. (i, i) \<notin> (edge tasks)\<^sup>+))"
  using assms by (rule dependency_cycles_exact)

definition looping_tasks :: "jsval list" where
  "looping_tasks = [JObj [(''id'', JStr ''A''), (''depends_on'', JArr [JStr ''B''])], JObj [(''id'', JStr ''B''), (''depends_on'', JArr [JStr ''A''])]]"

theorem dependency_search_exact_witness:
  "\<exists>es. dependency_cycles looping_tasks = Inr es
    \<and> (es = [] \<longleftrightarrow> (\<forall>i \<in> (\<lambda>t. js_field t ''id'') ` set looping_tasks. (i, i) \<notin> (edge looping_tasks)\<^sup>+))"
proof (rule dependency_search_exact)
  show "string_graph looping_tasks"
    unfolding string_graph_def looping_tasks_def by (auto simp: depends_on_def find_task_def)
qed

section \<open>Progress of the lock\<close>

text \<open>C40: A process that finds the lock of an ended process, with nothing else interfering, removes it and
  acquires the lock.\<close>

theorem stale_lock_is_taken_over:
  assumes "stale_env h rootdir s env"
  shows "snd (exec env (acquireWorkRepoLock h rootdir requireClean True) []) = Inr (sl_dir s)"
  using assms by (rule stale_lock_acquired)

definition stale_lock :: stale where
  "stale_lock = \<lparr>sl_common = ''/r/.git'', sl_record = ''|||'', sl_pid = JNum 2\<rparr>"

definition stale_environment :: environment where
  "stale_environment past p = (case p of
     Spawn cmd args dir env \<Rightarrow> RProc (Some 0) (if args = [''branch'', ''--show-current''] then ''main''
       else if args = [''status'', ''--porcelain''] then [] else ''/r/.git'') []
   | Mkdir d recursive \<Rightarrow> if recursive \<or> (\<exists>r \<in> set past. fst r = Rm d) then ROk else RErr ''EEXIST''
   | ReadFile q \<Rightarrow> RText ''|||'' | Probe pid \<Rightarrow> RErr ''ESRCH'' | _ \<Rightarrow> ROk)"

theorem stale_lock_is_taken_over_witness:
  "snd (exec stale_environment (acquireWorkRepoLock (demo_host 1) ''/r'' True True) []) = Inr (sl_dir stale_lock)"
proof (rule stale_lock_is_taken_over)
  show "stale_env (demo_host 1) ''/r'' stale_lock stale_environment"
    unfolding stale_env_def stale_environment_def stale_lock_def demo_host_def by auto
qed

end
