(* ===== verification/Routing_Config.thy ===== *)
theory Routing_Config
  imports Lock
begin

text \<open>
  The files behind agent routing (scripts/task/agent-routing.mjs): the strict reader of
  .codex/config.toml, the reader of the role contracts, the adapter generated from them, the
  rollback of a child's work, and the evidence a launch leaves.
\<close>

section \<open>The project configuration\<close>

definition FIXED_KEYS :: "string list" where
  "FIXED_KEYS = [''model'', ''model_reasoning_effort'', ''sandbox_mode'']"

definition PROJECT_CONFIG :: "(string \<times> string) list" where
  "PROJECT_CONFIG = [(''model'', ''gpt-5.6-sol''), (''model_reasoning_effort'', ''high''), (''sandbox_mode'', ''workspace-write'')]"

definition role_entry :: "string \<Rightarrow> string \<Rightarrow> string \<times> (string \<times> string) list" where
  "role_entry role description = (role, [(''description'', description), (''config_file'', ''agents/'' @ role @ ''.toml'')])"

definition PROJECT_ROLE_REGISTRY :: "(string \<times> (string \<times> string) list) list" where
  "PROJECT_ROLE_REGISTRY = [role_entry ''main'' ''Root orchestration and approval using Sol/high.'',
     role_entry ''planner'' ''PLAN authoring using Terra/medium.'',
     role_entry ''qa'' ''QA planning and execution using Terra/medium.'',
     role_entry ''reviewer'' ''Independent review using Terra/medium.'',
     role_entry ''dev-luna'' ''Low-risk DEV implementation using Luna/xhigh.'',
     role_entry ''dev-sol'' ''High or unknown-risk DEV implementation using Sol/high.'',
     role_entry ''explorer'' ''Bounded read-only repository research using Luna/medium.'',
     role_entry ''wiki'' ''Wiki editing only using Terra/medium.'']"

definition PROHIBITED_PROJECT_KEYS :: "string list" where
  "PROHIBITED_PROJECT_KEYS = [''hide_spawn_agent_metadata'', ''tool_namespace'']"

record project_state =
  ps_top :: "(string \<times> string) list"
  ps_registry :: "(string \<times> (string \<times> string) list) list"
  ps_seen :: "string list"
  ps_section :: "string option"

text \<open>\<open>line.match(/^\[([^\]]+)]$/)\<close>, \<open>line.match(/^([A-Za-z0-9_.-]+)\s*=\s*(.+)$/)\<close> of a trimmed line, and
  \<open>rawValue.match(/^"([^"]*)"$/)\<close>: the groups.\<close>

definition section_header :: "string \<Rightarrow> string option" where
  "section_header line = (case line of
     c # r \<Rightarrow> if c = CHR ''['' \<and> r \<noteq> [] \<and> last r = CHR '']'' \<and> butlast r \<noteq> [] \<and> CHR '']'' \<notin> set (butlast r)
       then Some (butlast r) else None
   | [] \<Rightarrow> None)"

definition key_char :: "char \<Rightarrow> bool" where
  "key_char c \<longleftrightarrow> is_lower_alnum c \<or> c \<in> set ''ABCDEFGHIJKLMNOPQRSTUVWXYZ_.-''"

definition assignment :: "string \<Rightarrow> (string \<times> string) option" where
  "assignment line = (let key = takeWhile key_char line in
     if key = [] then None
     else case key_value key line of
       None \<Rightarrow> None
     | Some v \<Rightarrow> if v = [] \<or> after_line v \<noteq> [] then None else Some (key, v))"

definition quoted :: "string \<Rightarrow> string option" where
  "quoted v = (case v of
     c # r \<Rightarrow> if c = CHR 0x22 \<and> r \<noteq> [] \<and> last r = CHR 0x22 \<and> CHR 0x22 \<notin> set (butlast r) then Some (butlast r) else None
   | [] \<Rightarrow> None)"

definition role_of_section :: "string \<Rightarrow> string" where
  "role_of_section section = drop 7 section"

definition open_section :: "string \<Rightarrow> project_state \<Rightarrow> project_state res" where
  "open_section section st =
     (if section = ''features.multi_agent_v2'' then Inl (Err ''ROUTING_PROJECT_FEATURE_FORBIDDEN'' [])
      else if section = ''agents'' then Inl (Err ''ROUTING_PROJECT_AGENTS_HEADER_FORBIDDEN'' [])
      else if \<not> starts_with section ''agents.'' then Inl (Err ''ROUTING_PROJECT_SECTION_UNKNOWN'' [JStr section])
      else if section \<in> set (ps_seen st) then Inl (Err ''ROUTING_PROJECT_SECTION_DUPLICATE'' [JStr section])
      else let role = role_of_section section in
        if role \<notin> fst ` set PROJECT_ROLE_REGISTRY then Inl (Err ''ROUTING_PROJECT_ROLE_UNKNOWN'' [JStr role])
        else Inr (st\<lparr>ps_section := Some section, ps_seen := section # ps_seen st, ps_registry := obj_set role [] (ps_registry st)\<rparr>))"

text \<open>The table a key of the current section belongs to, and the one it is stored in.\<close>

definition expected_table :: "project_state \<Rightarrow> (string \<times> string) list option" where
  "expected_table st = (case ps_section st of
     None \<Rightarrow> Some PROJECT_CONFIG
   | Some s \<Rightarrow> map_of PROJECT_ROLE_REGISTRY (role_of_section s))"

definition destination :: "project_state \<Rightarrow> (string \<times> string) list" where
  "destination st = (case ps_section st of
     None \<Rightarrow> ps_top st
   | Some s \<Rightarrow> (case map_of (ps_registry st) (role_of_section s) of None \<Rightarrow> [] | Some d \<Rightarrow> d))"

definition store_value :: "string \<Rightarrow> string \<Rightarrow> project_state \<Rightarrow> project_state" where
  "store_value key v st = (case ps_section st of
     None \<Rightarrow> st\<lparr>ps_top := obj_set key v (ps_top st)\<rparr>
   | Some s \<Rightarrow> st\<lparr>ps_registry := obj_set (role_of_section s) (obj_set key v (destination st)) (ps_registry st)\<rparr>)"

definition forbidden_key :: "string \<Rightarrow> project_state \<Rightarrow> unit res" where
  "forbidden_key key st =
     (if key \<in> set PROHIBITED_PROJECT_KEYS then Inl (Err ''ROUTING_PROJECT_KEY_FORBIDDEN'' [JStr key])
      else if key = ''features.multi_agent_v2'' \<or> starts_with key ''features.multi_agent_v2.''
      then Inl (Err ''ROUTING_PROJECT_FEATURE_FORBIDDEN'' [])
      else if ps_section st = None \<and> (key = ''agents'' \<or> starts_with key ''agents.'') then
        (if key = ''agents.max_threads'' \<or> key = ''agents.max_depth''
         then Inl (Err ''ROUTING_PROJECT_GLOBAL_OVERRIDE_FORBIDDEN'' [JStr (drop 7 key)])
         else Inl (Err ''ROUTING_PROJECT_KEY_UNKNOWN'' [JStr key]))
      else Inr ())"

definition mismatch_error :: "string \<Rightarrow> project_state \<Rightarrow> js_error" where
  "mismatch_error key st = Err (if key = ''config_file'' then ''ROUTING_PROJECT_ROLE_MAPPING_MISMATCH'' else ''ROUTING_PROJECT_VALUE_MISMATCH'')
     [JStr (case ps_section st of None \<Rightarrow> key | Some s \<Rightarrow> s)]"

definition assign :: "nat \<Rightarrow> string \<Rightarrow> string \<Rightarrow> project_state \<Rightarrow> project_state res" where
  "assign index key rawValue st =
     bindR (forbidden_key key st) (\<lambda>_.
     case expected_table st of None \<Rightarrow> Inl (Err ''ROUTING_PROJECT_KEY_UNKNOWN'' [JStr key]) | Some table \<Rightarrow>
     (case map_of table key of None \<Rightarrow> Inl (Err ''ROUTING_PROJECT_KEY_UNKNOWN'' [JStr key]) | Some fixed \<Rightarrow>
     if key \<in> fst ` set (destination st) then Inl (Err ''ROUTING_PROJECT_KEY_DUPLICATE'' [JStr key])
     else case quoted rawValue of
       None \<Rightarrow> Inl (Err ''ROUTING_PROJECT_CONFIG_INVALID: line'' [JNum (of_nat (index + 1))])
     | Some v \<Rightarrow> if v \<noteq> fixed then Inl (mismatch_error key st) else Inr (store_value key v st)))"

definition project_line :: "nat \<Rightarrow> string \<Rightarrow> project_state \<Rightarrow> project_state res" where
  "project_line index sourceLine st = (let line = js_trim sourceLine in
     if line = [] \<or> starts_with line ''#'' then Inr st
     else case section_header line of
       Some s \<Rightarrow> open_section (js_trim s) st
     | None \<Rightarrow> (case assignment line of
         None \<Rightarrow> Inl (Err ''ROUTING_PROJECT_CONFIG_INVALID: line'' [JNum (of_nat (index + 1))])
       | Some (key, v) \<Rightarrow> assign index key v st))"

fun project_lines :: "nat \<Rightarrow> string list \<Rightarrow> project_state \<Rightarrow> project_state res" where
  "project_lines index [] st = Inr st"
| "project_lines index (l # ls) st = bindR (project_line index l st) (project_lines (index + 1) ls)"

text \<open>The two loops that look for what is missing, and the result.\<close>

definition missing_field :: "string \<Rightarrow> (string \<times> string) list \<Rightarrow> string \<Rightarrow> unit res" where
  "missing_field role d key = throw_if (key \<notin> fst ` set d) (Err ''ROUTING_PROJECT_ROLE_FIELD_MISSING'' [JStr role, JStr key])"

definition missing_role :: "(string \<times> (string \<times> string) list) list \<Rightarrow> string \<times> (string \<times> string) list \<Rightarrow> unit res" where
  "missing_role registry e = (case map_of registry (fst e) of
     None \<Rightarrow> Inl (Err ''ROUTING_PROJECT_ROLE_MISSING'' [JStr (fst e)])
   | Some d \<Rightarrow> each_R (missing_field (fst e) d) (map fst (snd e)))"

definition text_object :: "(string \<times> string) list \<Rightarrow> jsval" where
  "text_object m = JObj (map (\<lambda>(k, v). (k, JStr v)) m)"

definition project_value :: "project_state \<Rightarrow> jsval" where
  "project_value st = JObj
     [(''top_level'', JObj (map (\<lambda>k. (k, case map_of (ps_top st) k of None \<Rightarrow> JUndef | Some v \<Rightarrow> JStr v)) FIXED_KEYS)),
      (''agents'', JObj (map (\<lambda>(role, _). (role, case map_of (ps_registry st) role of None \<Rightarrow> JUndef | Some d \<Rightarrow> text_object d))
         PROJECT_ROLE_REGISTRY))]"

definition project_config :: "string \<Rightarrow> jsval res" where
  "project_config content =
     bindR (project_lines 0 (split_lines content) \<lparr>ps_top = [], ps_registry = [], ps_seen = [], ps_section = None\<rparr>) (\<lambda>st.
     bindR (each_R (\<lambda>key. throw_if (key \<notin> fst ` set (ps_top st)) (Err ''ROUTING_CONFIG_INVALID: missing'' [JStr key])) FIXED_KEYS) (\<lambda>_.
     bindR (each_R (missing_role (ps_registry st)) PROJECT_ROLE_REGISTRY) (\<lambda>_.
     Inr (project_value st))))"

definition readProjectConfig :: "string \<Rightarrow> jsval io" where
  "readProjectConfig productRoot =
     bindI (read_file (path_join (path_join productRoot ''.codex'') ''config.toml'')) (\<lambda>content. liftI (project_config content))"

section \<open>The role contracts\<close>

definition tomlSection :: "string \<Rightarrow> string \<Rightarrow> string option" where
  "tomlSection content name =
     (case dropWhile (\<lambda>l. js_trim l \<noteq> ''['' @ name @ '']'') (split_lines content) of
        [] \<Rightarrow> None
      | _ # rest \<Rightarrow> Some (join_char newline (takeWhile (\<lambda>l. \<not> starts_with (trim_start l) ''['') rest)))"

text \<open>\<open>/^key\s*=\s*"([^"]+)"\s*$/m\<close> and \<open>/^key\s*=\s*digit\s*$/m\<close> at one line start.\<close>

definition quoted_at :: "string \<Rightarrow> string \<Rightarrow> string option" where
  "quoted_at key s = (case key_value key s of
     Some (c # r) \<Rightarrow> if c \<noteq> CHR 0x22 then None
       else let v = takeWhile (\<lambda>c. c \<noteq> CHR 0x22) r; rest = dropWhile (\<lambda>c. c \<noteq> CHR 0x22) r in
         if v = [] \<or> rest = [] \<or> \<not> ends_line (tl rest) then None else Some v
   | _ \<Rightarrow> None)"

definition quotedValue :: "string \<Rightarrow> string \<Rightarrow> string res" where
  "quotedValue content key = (case List.find (\<lambda>s. quoted_at key s \<noteq> None) (line_starts [] content) of
     None \<Rightarrow> Inl (Err ''ROUTING_CONFIG_INVALID: missing'' [JStr key])
   | Some s \<Rightarrow> Inr (the (quoted_at key s)))"

definition digit_line :: "string \<Rightarrow> string \<Rightarrow> string \<Rightarrow> bool" where
  "digit_line key digit content = list_ex (\<lambda>s. case key_value key s of
       Some v \<Rightarrow> starts_with v digit \<and> ends_line (drop (length digit) v)
     | None \<Rightarrow> False) (line_starts [] content)"

definition has_key_line :: "string \<Rightarrow> string \<Rightarrow> bool" where
  "has_key_line key content = list_ex (\<lambda>s. key_value key s \<noteq> None) (line_starts [] content)"

definition role_policy :: "string \<Rightarrow> string \<Rightarrow> unit res" where
  "role_policy role content = (let agents = tomlSection content ''agents'' in
     if role = ''explorer'' then
       (if \<not> contains_ci content ''exactly one bounded'' \<or> \<not> words_on_line [''do not '', ''spawn''] content
        then Inl (Err ''ROUTING_EXPLORER_POLICY_MISSING'' [])
        else throw_if (\<not> digit_line ''max_depth'' ''0'' content \<or> \<not> digit_line ''max_threads'' ''1'' content)
          (Err ''ROUTING_EXPLORER_CHILD_POLICY_MISSING'' []))
     else if role = ''wiki'' then
       (if case agents of None \<Rightarrow> True | Some a \<Rightarrow> \<not> digit_line ''max_threads'' ''1'' a \<or> \<not> digit_line ''max_depth'' ''0'' a
        then Inl (Err ''ROUTING_WIKI_CHILD_POLICY_MISMATCH'' [JStr role])
        else throw_if (\<not> contains_ci content ''editing only'' \<or> \<not> words_on_line [''do not '', ''spawn''] content
            \<or> \<not> words_on_line [''stage'', ''commit'', ''merge''] content \<or> \<not> contains_ci content ''.git'')
          (Err ''ROUTING_WIKI_EDIT_ONLY_POLICY_MISSING'' []))
     else case agents of
       None \<Rightarrow> Inl (Err ''ROUTING_ROLE_THREAD_POLICY_MISMATCH'' [JStr role])
     | Some a \<Rightarrow>
         (if \<not> digit_line ''max_threads'' ''2'' a then Inl (Err ''ROUTING_ROLE_THREAD_POLICY_MISMATCH'' [JStr role])
          else throw_if (has_key_line ''max_depth'' a) (Err ''ROUTING_ROLE_LOCAL_DEPTH_FORBIDDEN'' [JStr role])))"

definition contract_mismatch :: "string \<Rightarrow> contract \<Rightarrow> contract \<Rightarrow> unit res" where
  "contract_mismatch role actual fixed = each_R (\<lambda>(key, a, b). throw_if (a \<noteq> b) (Err ''ROUTING_CONTRACT_MISMATCH'' [JStr role, JStr key]))
     [(''model'', model actual, model fixed), (''effort'', effort actual, effort fixed), (''sandbox'', sandbox actual, sandbox fixed)]"

definition role_contract :: "string \<Rightarrow> contract \<Rightarrow> string \<Rightarrow> contract res" where
  "role_contract role fixed content =
     bindR (quotedValue content ''model'') (\<lambda>m.
     bindR (quotedValue content ''model_reasoning_effort'') (\<lambda>e.
     bindR (quotedValue content ''sandbox_mode'') (\<lambda>s.
     let actual = mk_contract (profile fixed) m e s in
     bindR (quotedValue content ''name'') (\<lambda>name.
     bindR (throw_if (name \<noteq> role) (Err ''ROUTING_ROLE_NAME_MISMATCH'' [JStr role])) (\<lambda>_.
     bindR (contract_mismatch role actual fixed) (\<lambda>_.
     bindR (role_policy role content) (\<lambda>_. Inr actual)))))))"

definition role_file :: "string \<Rightarrow> string \<Rightarrow> string" where
  "role_file productRoot role = path_join (path_join (path_join productRoot ''.codex'') ''agents'') (role @ ''.toml'')"

definition read_role :: "string \<Rightarrow> string \<times> contract \<Rightarrow> (string \<times> contract) io" where
  "read_role productRoot e = (case e of (role, fixed) \<Rightarrow>
     let file = role_file productRoot role in
     bindI (exists_path file) (\<lambda>there.
     bindI (throw_ifI (\<not> there) (Err ''ROUTING_CONFIG_MISSING'' [JStr file])) (\<lambda>_.
     bindI (read_file file) (\<lambda>content.
     bindI (liftI (role_contract role fixed content)) (\<lambda>actual. Ret (role, actual))))))"

definition readCanonicalContracts :: "string \<Rightarrow> (string \<times> contract) list io" where
  "readCanonicalContracts productRoot =
     bindI (readProjectConfig productRoot) (\<lambda>_. map_I (read_role productRoot) ROLE_CONTRACTS)"

definition contract_value :: "contract \<Rightarrow> jsval" where
  "contract_value c = text_object [(''profile'', profile c), (''model'', model c), (''effort'', effort c), (''sandbox'', sandbox c)]"

definition canonicalDigest :: "host \<Rightarrow> string \<Rightarrow> string io" where
  "canonicalDigest h productRoot =
     bindI (readProjectConfig productRoot) (\<lambda>project.
     bindI (readCanonicalContracts productRoot) (\<lambda>roles.
     Ret (h_sha256 h (h_json_text h (JObj [(''project'', project), (''roles'', JObj (map (\<lambda>(r, c). (r, contract_value c)) roles))])))))"

definition assertRoleFilesHaveOnlyKnownContractKeys :: "string \<Rightarrow> unit io" where
  "assertRoleFilesHaveOnlyKnownContractKeys productRoot = each_I (\<lambda>(role, _).
     bindI (read_file (role_file productRoot role)) (\<lambda>content.
     each_I (\<lambda>key. bindI (liftI (quotedValue content key)) (\<lambda>_. Ret ())) FIXED_KEYS)) ROLE_CONTRACTS"

text \<open>\<open>resolveFixedRoute\<close> with the files it reads: the plan for a handover, then the contracts.\<close>

definition plan_for :: "host \<Rightarrow> string \<Rightarrow> string \<Rightarrow> jsval res option io" where
  "plan_for h action planFile = (if action \<noteq> ''handover'' then Ret None
     else if planFile = [] then Ret None
     else bindI (read_frontmatter h planFile) (\<lambda>plan. Ret (Some (Inr plan))))"

definition fixed_route :: "host \<Rightarrow> string \<Rightarrow> string \<Rightarrow> (string \<times> string) list \<Rightarrow> string \<Rightarrow> (string \<times> contract) io" where
  "fixed_route h action planFile args productRoot =
     bindI (plan_for h action planFile) (\<lambda>plan.
     bindI (liftI (roleForAction action plan)) (\<lambda>role.
     bindI (throw_ifI (role = None) (Err ''ROUTING_ROLE_UNKNOWN'' [JStr action])) (\<lambda>_.
     bindI (readCanonicalContracts productRoot) (\<lambda>contracts.
     liftI (resolveFixedRoute action plan args (Inr contracts))))))"

section \<open>The adapter\<close>

definition role_lines :: "string \<Rightarrow> string \<Rightarrow> string list" where
  "role_lines relativeAgents role = [[], ''[agents.'' @ role @ '']'',
     ''description = '' @ [CHR 0x22] @ role @ '' canonical role contract'' @ [CHR 0x22],
     ''config_file = '' @ [CHR 0x22] @ path_join relativeAgents (role @ ''.toml'') @ [CHR 0x22]]"

definition adapter_text :: "host \<Rightarrow> string \<Rightarrow> string \<Rightarrow> string" where
  "adapter_text h digest relativeAgents = join_char newline
     ([''# Generated by make work-config-sync. Do not edit by hand.'',
       ''# canonical_digest = '' @ [CHR 0x22] @ digest @ [CHR 0x22]]
      @ map (\<lambda>(key, v). key @ '' = '' @ h_json_text h (JStr v)) PROJECT_CONFIG
      @ concat (map (\<lambda>(role, _). role_lines relativeAgents role) ROLE_CONTRACTS)) @ [newline]"

definition renderWorkAdapter :: "host \<Rightarrow> string \<Rightarrow> string \<Rightarrow> string io" where
  "renderWorkAdapter h productRoot adapterRoot =
     bindI (readCanonicalContracts productRoot) (\<lambda>_.
     let relativeAgents = path_relative (path_resolve (h_cwd h) (path_join adapterRoot ''.codex''))
       (path_resolve (h_cwd h) (path_join (path_join productRoot ''.codex'') ''agents'')) in
     bindI (canonicalDigest h productRoot) (\<lambda>digest. Ret (adapter_text h digest relativeAgents)))"

record adapter_result =
  ad_target :: string
  ad_digest :: string
  ad_changed :: bool

text \<open>\<open>!fs.existsSync(target) || fs.readFileSync(target) !== expected\<close>\<close>

definition differs :: "string \<Rightarrow> string \<Rightarrow> bool io" where
  "differs target expected = bindI (exists_path target) (\<lambda>there.
     if \<not> there then Ret True else bindI (read_file target) (\<lambda>content. Ret (content \<noteq> expected)))"

definition syncWorkAdapter :: "host \<Rightarrow> string \<Rightarrow> string \<Rightarrow> bool \<Rightarrow> adapter_result io" where
  "syncWorkAdapter h productRoot adapterRoot check =
     (let target = path_join (path_join adapterRoot ''.codex'') ''config.toml'' in
      bindI (renderWorkAdapter h productRoot adapterRoot) (\<lambda>wanted.
      if check then
        bindI (differs target wanted) (\<lambda>drift.
        bindI (throw_ifI drift (Err ''ROUTING_ADAPTER_DRIFT: run make work-config-sync'' [])) (\<lambda>_.
        bindI (canonicalDigest h productRoot) (\<lambda>digest.
        Ret \<lparr>ad_target = target, ad_digest = digest, ad_changed = False\<rparr>)))
      else
        bindI (make_dir (path_dirname target) True) (\<lambda>_.
        bindI (differs target wanted) (\<lambda>changed.
        bindI (if changed then writeFileAtomic h target wanted else Ret ()) (\<lambda>_.
        bindI (canonicalDigest h productRoot) (\<lambda>digest.
        Ret \<lparr>ad_target = target, ad_digest = digest, ad_changed = changed\<rparr>))))))"

section \<open>After the child\<close>

definition rollbackWorkRepository :: "string \<Rightarrow> string \<Rightarrow> unit io" where
  "rollbackWorkRepository rootdir beforeHead =
     bindI (throw_ifI (beforeHead = []) (Err ''WORK_ROLLBACK_HEAD_MISSING'' [])) (\<lambda>_.
     bindI (git rootdir [''reset'', ''--hard'', beforeHead]) (\<lambda>_.
     bindI (git rootdir [''clean'', ''-ffd'']) (\<lambda>_.
     bindI (git rootdir [''rev-parse'', ''HEAD'']) (\<lambda>head.
     bindI (throw_ifI (head \<noteq> beforeHead) (Err ''WORK_ROLLBACK_HEAD_MISMATCH'' [])) (\<lambda>_.
     bindI (git rootdir [''status'', ''--porcelain'']) (\<lambda>status.
     throw_ifI (status \<noteq> []) (Err ''WORK_ROLLBACK_DIRTY'' [JStr (replace_char newline (CHR '','') status)])))))))"

end
