(* ===== verification/Work_Agent.thy ===== *)
theory Work_Agent
  imports Routing_Config Commit_Hook
begin

text \<open>
  The launchers of child agents: the evidence they print (\<open>buildLaunchEvidence\<close>,
  scripts/task/agent-routing.mjs), the writer (scripts/task/run-work-agent.mjs), the Explorer
  (scripts/task/run-explorer-agent.mjs) and the synchronisation of the generated adapter
  (scripts/task/run-work-config-sync.mjs).
\<close>

section \<open>Redaction\<close>

text \<open>The text of an error.  Error values keep the fixed text and the interpolated values of a message apart;
  a message here is the text followed by the values.\<close>

fun message_text :: "js_error \<Rightarrow> string" where
  "message_text (Err m vs) = m @ concat (map (\<lambda>v. '' '' @ js_string v) vs)"

definition alnum :: "char \<Rightarrow> bool" where
  "alnum c \<longleftrightarrow> is_lower_alnum c \<or> c \<in> set ''ABCDEFGHIJKLMNOPQRSTUVWXYZ''"

text \<open>The lengths of the longest run of bytes in a class and of the longest run that is neither white
  space nor a separator.\<close>

definition run_of :: "(char \<Rightarrow> bool) \<Rightarrow> string \<Rightarrow> nat" where
  "run_of P s = length (takeWhile P s)"

fun value_run :: "string \<Rightarrow> nat" where
  "value_run [] = 0"
| "value_run (c # s) = (if c = CHR '','' \<or> c = CHR '';'' \<or> list_ex (starts_with (c # s)) js_spaces then 0 else Suc (value_run s))"

definition ci_prefix :: "string \<Rightarrow> string \<Rightarrow> bool" where
  "ci_prefix p s \<longleftrightarrow> map lower_char (take (length p) s) = p"

definition spaces :: "string \<Rightarrow> nat" where
  "spaces s = length s - length (trim_start s)"

text \<open>\<open>/Bearer\s+[...]+/gi\<close>, \<open>/sk-[...]+/gi\<close>, \<open>/(?:token|secret|api[_-]?key)\s*[=:]\s*[^\s,;]+/gi\<close> and
  \<open>/\b[A-Za-z0-9_-]{32,}\b/g\<close>: the length of a match.\<close>

definition bearer_match :: "(char \<Rightarrow> bool) \<Rightarrow> char option \<Rightarrow> string \<Rightarrow> nat" where
  "bearer_match P prev s = (if \<not> ci_prefix ''bearer'' s then 0
     else let n = spaces (drop 6 s); k = run_of P (drop (6 + n) s) in if n = 0 \<or> k = 0 then 0 else 6 + n + k)"

definition sk_match :: "(char \<Rightarrow> bool) \<Rightarrow> char option \<Rightarrow> string \<Rightarrow> nat" where
  "sk_match P prev s = (if \<not> ci_prefix ''sk-'' s then 0
     else let k = run_of P (drop 3 s) in if k = 0 then 0 else 3 + k)"

definition secret_word :: "string \<Rightarrow> string option" where
  "secret_word s = List.find (\<lambda>w. ci_prefix w s) [''token'', ''secret'', ''api_key'', ''api-key'', ''apikey'']"

definition secret_match :: "char option \<Rightarrow> string \<Rightarrow> nat" where
  "secret_match prev s = (case secret_word s of None \<Rightarrow> 0 | Some w \<Rightarrow>
     let a = length w + spaces (drop (length w) s) in
     (case drop a s of [] \<Rightarrow> 0 | c # r \<Rightarrow>
        if c \<noteq> CHR ''='' \<and> c \<noteq> CHR '':'' then 0
        else let n = spaces r; k = value_run (drop n r) in if k = 0 then 0 else a + 1 + n + k))"

definition word_char :: "char \<Rightarrow> bool" where
  "word_char c \<longleftrightarrow> alnum c \<or> c = CHR ''_''"

definition word_at :: "char option \<Rightarrow> bool" where
  "word_at c = (case c of None \<Rightarrow> False | Some c \<Rightarrow> word_char c)"

definition long_match :: "char option \<Rightarrow> string \<Rightarrow> nat" where
  "long_match prev s = (let m = run_of (\<lambda>c. word_char c \<or> c = CHR ''-'') s in
     if word_at prev = word_at (item s 0) then 0
     else case List.find (\<lambda>k. word_at (item s (k - 1)) \<noteq> word_at (item s k)) (rev [32..<m + 1]) of
       None \<Rightarrow> 0 | Some k \<Rightarrow> k)"

definition blank_match :: "char option \<Rightarrow> string \<Rightarrow> nat" where
  "blank_match prev s = run_of (\<lambda>c. c \<in> {CHR 0x0D, CHR 0x0A, CHR 0x09, CHR '' ''}) s"

text \<open>\<open>s.slice(0, n)\<close> counts UTF-16 units; a pair of surrogates the limit would cut is left out.\<close>

fun utf16_take :: "nat \<Rightarrow> string \<Rightarrow> string" where
  "utf16_take n [] = []"
| "utf16_take n (c # s) = (if utf16_units c \<le> n then c # utf16_take (n - utf16_units c) s else [])"

definition redact :: "(char option \<Rightarrow> string \<Rightarrow> nat) \<Rightarrow> string \<Rightarrow> string" where
  "redact m s = replace_matches m ''[REDACTED]'' None s"

definition redactDiagnostic :: "string \<Rightarrow> nat \<Rightarrow> string" where
  "redactDiagnostic v limit = (let
       bearer = redact (bearer_match (\<lambda>c. alnum c \<or> c \<in> set ''._~+/=-'')) v;
       sk = redact (sk_match (\<lambda>c. alnum c \<or> c \<in> set ''_-'')) bearer;
       secret = redact secret_match sk;
       long = redact long_match secret;
       result = js_trim (replace_matches blank_match '' '' None long) in
     utf16_take limit (if result = [] then ''(no diagnostic)'' else result))"

section \<open>Evidence of a launch\<close>

type_synonym route = "string \<times> contract"

text \<open>\<open>exit\<close> is the child's exit status once it ran.\<close>

definition child_value :: "int option \<Rightarrow> jsval" where
  "child_value exit = (case exit of None \<Rightarrow> JNull | Some n \<Rightarrow> JObj [(''exit_code'', JNum (of_int n))])"

definition buildLaunchEvidence ::
  "host \<Rightarrow> route \<Rightarrow> string \<Rightarrow> string list \<Rightarrow> int option \<Rightarrow> string option \<Rightarrow> js_error option \<Rightarrow> jsval" where
  "buildLaunchEvidence h route cwd allowedPaths childResult commit error = (case route of (role, c) \<Rightarrow>
     JObj [(''event'', JStr ''agent_launch''), (''route'', JStr ''fixed-role''), (''role'', JStr role),
       (''profile'', JStr (profile c)), (''model'', JStr (model c)), (''effort'', JStr (effort c)),
       (''cwd'', JStr (path_resolve (h_cwd h) cwd)), (''sandbox'', JStr (sandbox c)),
       (''write_scope'', JStr (if sandbox c = ''read-only'' then ''none'' else ''allowed-paths'')),
       (''allowed_paths'', JArr (map JStr allowedPaths)), (''stdin'', JStr ''closed''),
       (''child_result'', child_value childResult), (''commit'', (case commit of None \<Rightarrow> JNull | Some x \<Rightarrow> JStr x)),
       (''error'', (case error of None \<Rightarrow> JNull | Some e \<Rightarrow> if message_text e = [] then JNull else JStr (redactDiagnostic (message_text e) 240)))])"

definition emit_json :: "host \<Rightarrow> jsval \<Rightarrow> unit io" where
  "emit_json h v = print_out (h_json_text h v @ [newline])"

section \<open>The writer\<close>

definition SUPPORTED_ACTIONS :: "string list" where
  "SUPPORTED_ACTIONS = [''task'', ''plan'', ''qa-plan'', ''review'', ''qa-result'', ''handover'', ''main-transition'', ''governance'']"

definition allowedByAction :: "string \<Rightarrow> (string \<times> string list) list" where
  "allowedByAction taskDir = (let inTask = map (path_join taskDir) in
    [(''task'', inTask [''TASK.md'']), (''plan'', inTask [''PLAN.md'']), (''qa-plan'', inTask [''QA_PLAN.md'']),
     (''review'', inTask [''REVIEW_RESULT.md'']), (''qa-result'', inTask [''QA_RESULT.md'']), (''handover'', inTask [''HANDOVER.md'']),
     (''main-transition'', ''backlog.yaml'' # inTask [''TASK.md'', ''PLAN.md'', ''QA_PLAN.md'', ''QA_RESULT.md'', ''HANDOVER.md'']),
     (''governance'', [''schemas/**'', ''wiki/SCHEMA.md'', ''wiki/AGENTS.md'', ''.githooks/pre-commit'', ''.codex/**'', ''AGENTS.md'', ''README.md'', ''project.yaml''])])"

record launch =
  ln_root :: string
  ln_action :: string
  ln_task :: jsval
  ln_allowed :: "string list"
  ln_route :: route
  ln_command :: "string list"

definition comma_list :: "string list \<Rightarrow> string" where
  "comma_list xs = concat (case xs of [] \<Rightarrow> [] | x # rest \<Rightarrow> x # map (\<lambda>y. '', '' @ y) rest)"

definition agent_prompt :: "host \<Rightarrow> string \<Rightarrow> jsval \<Rightarrow> string \<Rightarrow> string list \<Rightarrow> string \<Rightarrow> string" where
  "agent_prompt h role task taskDir allowed rootdir =
     ''Act as the '' @ role @ '' Agent for '' @ js_string (js_field task ''id'') @ ''. Read AGENTS.md, '' @ taskDir
     @ ''/TASK.md, approved PLAN/QA evidence, and relevant local Wiki. Update only: '' @ comma_list allowed
     @ ''. Do not stage or commit, invoke another role Agent, change Wiki content or Schema outside the allowlist, or write to .git. ''
     @ ''The launcher parent owns scope validation and commit. For at most one bounded read-only repository question, invoke node ''
     @ h_json_text h (JStr (path_join (path_join (path_join (h_repo_root h) ''scripts'') ''task'') ''run-explorer-agent.mjs''))
     @ '' --root '' @ h_json_text h (JStr rootdir) @ '' --question '' @ [CHR 0x22] @ ''<question>'' @ [CHR 0x22]
     @ ''. Do not use natural-language or custom-agent delegation for Explorer.''"

definition prepare_launch :: "host \<Rightarrow> args \<Rightarrow> launch io" where
  "prepare_launch h args = (let action = js_string (arg args ''action''); rootdir = workRoot h (arg args ''work_root'') in
     bindI (liftI (assertTaskId (arg args ''task''))) (\<lambda>_.
     bindI (throw_ifI (action \<notin> set SUPPORTED_ACTIONS) (Err ''--action must be one of'' (map JStr SUPPORTED_ACTIONS))) (\<lambda>_.
     bindI (read_yaml h (path_join rootdir ''backlog.yaml'')) (\<lambda>backlog.
     bindI (liftI (taskById backlog (arg args ''task''))) (\<lambda>task.
     bindI (throw_ifI (\<not> is_string (js_field task ''task_dir'')) type_error) (\<lambda>_.
     let taskDir = js_string (js_field task ''task_dir''); allowed = the (map_of (allowedByAction taskDir) action) in
     bindI (fixed_route h action (path_join (path_join rootdir taskDir) ''PLAN.md'') args (h_repo_root h)) (\<lambda>route.
     Ret \<lparr>ln_root = rootdir, ln_action = action, ln_task = task, ln_allowed = allowed, ln_route = route,
       ln_command = codexCommand (snd route) rootdir (agent_prompt h (fst route) task taskDir allowed rootdir)\<rparr>)))))))"

text \<open>\<open>[...new Set([...tracked, ...staged, ...untracked])]\<close>\<close>

definition agent_changed :: "string \<Rightarrow> string list io" where
  "agent_changed rootdir =
     bindI (git rootdir [''diff'', ''--name-only'']) (\<lambda>tracked.
     bindI (git rootdir [''diff'', ''--cached'', ''--name-only'']) (\<lambda>staged.
     bindI (git rootdir [''ls-files'', ''--others'', ''--exclude-standard'']) (\<lambda>untracked.
     Ret (uniq (lines_of tracked @ lines_of staged @ lines_of untracked)))))"

definition validate_script :: "host \<Rightarrow> string \<Rightarrow> string list" where
  "validate_script h rootdir = [path_join (path_join (path_join (h_repo_root h) ''scripts'') ''task'') ''validate-work.mjs'', ''--work-root'', rootdir]"

definition validateWork :: "host \<Rightarrow> string \<Rightarrow> unit io" where
  "validateWork h rootdir = bindI (spawn_status (h_node h) (validate_script h rootdir) (h_repo_root h) [])
     (\<lambda>(status, _, _). throw_ifI (status \<noteq> Some 0) (Err ''WORK_VALIDATION_FAILED'' []))"

definition emit_launch :: "host \<Rightarrow> launch \<Rightarrow> int option \<Rightarrow> string option \<Rightarrow> js_error option \<Rightarrow> unit io" where
  "emit_launch h l childResult commit error =
     emit_json h (buildLaunchEvidence h (ln_route l) (ln_root l) (ln_allowed l) childResult commit error)"

definition agent_env :: "host \<Rightarrow> launch \<Rightarrow> (string \<times> string) list" where
  "agent_env h l = [(''WORK_REPO_LOCK_HELD'', ''1''), (''WORK_PARENT_COMMIT'', ''1''), (''WORK_ACTION'', ln_action l),
     (''WORK_ALLOWED_PATHS'', h_json_text h (JArr (map JStr (ln_allowed l))))]"

text \<open>The \<open>try\<close> block in three parts: up to \<open>beforeHead\<close>, the child, and what follows it.\<close>

definition agent_before :: "launch \<Rightarrow> string io" where
  "agent_before l =
     bindI (git (ln_root l) [''config'', ''--get'', ''core.hooksPath'']) (\<lambda>hooks.
     bindI (throw_ifI (hooks \<noteq> ''.githooks'') (Err ''WORK_HOOKS_PATH_INVALID'' [])) (\<lambda>_.
     git (ln_root l) [''rev-parse'', ''HEAD'']))"

definition run_child :: "launch \<Rightarrow> int io" where
  "run_child l = bindI (spawn ''codex'' (ln_command l) (ln_root l) [(''WORK_REPO_LOCK_HELD'', ''1'')])
     (\<lambda>(status, _, _). Ret (case status of None \<Rightarrow> 1 | Some n \<Rightarrow> n))"

definition child_changes :: "launch \<Rightarrow> string \<Rightarrow> int \<Rightarrow> string list io" where
  "child_changes l beforeHead childExit =
     bindI (git (ln_root l) [''branch'', ''--show-current'']) (\<lambda>b.
     bindI (throw_ifI (b \<noteq> ''main'') (Err ''WORK_BRANCH_CHANGED'' [])) (\<lambda>_.
     bindI (git (ln_root l) [''diff'', ''--cached'', ''--name-only'']) (\<lambda>staged.
     bindI (git (ln_root l) [''rev-parse'', ''HEAD'']) (\<lambda>afterHead.
     bindI (agent_changed (ln_root l)) (\<lambda>changed.
     liftI (validateChildOutcome childExit beforeHead afterHead (lines_of staged) changed (ln_allowed l)))))))"

definition agent_commit :: "host \<Rightarrow> launch \<Rightarrow> string \<Rightarrow> int \<Rightarrow> string io" where
  "agent_commit h l beforeHead childExit =
     bindI (child_changes l beforeHead childExit) (\<lambda>changed.
     bindI (git (ln_root l) ([''add'', ''--''] @ changed)) (\<lambda>_.
     bindI (validateWork h (ln_root l)) (\<lambda>_.
     bindI (git_env (agent_env h l) (ln_root l) [''commit'', ''-m'', ln_action l @ '': update '' @ js_string (js_field (ln_task l) ''id'')]) (\<lambda>_.
     bindI (git (ln_root l) [''rev-parse'', ''HEAD'']) (\<lambda>commit.
     bindI (validateWork h (ln_root l)) (\<lambda>_.
     bindI (agent_changed (ln_root l)) (\<lambda>left.
     bindI (throw_ifI (left \<noteq> []) (Err ''WORK_PARENT_LEFT_DIRTY'' [])) (\<lambda>_.
     bindI (emit_launch h l (Some childExit) (Some commit) None) (\<lambda>_. Ret commit)))))))))"

text \<open>The \<open>catch\<close> block: with a head to go back to, the repository is rolled back.\<close>

definition rolled_back :: "string \<Rightarrow> string \<Rightarrow> js_error \<Rightarrow> js_error io" where
  "rolled_back rootdir beforeHead e = (if beforeHead = [] then Ret e
     else bindI (tryI (rollbackWorkRepository rootdir beforeHead)) (\<lambda>r. Ret (case r of
       Inl r \<Rightarrow> suffix_error '';WORK_ROLLBACK_FAILED:'' [JStr (message_text r)] e
     | Inr _ \<Rightarrow> e)))"

definition agent_failed :: "host \<Rightarrow> launch \<Rightarrow> string \<Rightarrow> int option \<Rightarrow> js_error \<Rightarrow> string io" where
  "agent_failed h l beforeHead childResult e =
     bindI (rolled_back (ln_root l) beforeHead e) (\<lambda>failure.
     bindI (emit_launch h l childResult None (Some failure)) (\<lambda>_. Throw failure))"

definition agent_body :: "host \<Rightarrow> launch \<Rightarrow> string io" where
  "agent_body h l =
     bindI (tryI (agent_before l)) (\<lambda>r. case r of Inl e \<Rightarrow> agent_failed h l [] None e | Inr beforeHead \<Rightarrow>
     bindI (tryI (run_child l)) (\<lambda>r. case r of Inl e \<Rightarrow> agent_failed h l beforeHead None e | Inr childExit \<Rightarrow>
     catchI (agent_commit h l beforeHead childExit) (agent_failed h l beforeHead (Some childExit))))"

definition launch_agent :: "host \<Rightarrow> launch \<Rightarrow> string io" where
  "launch_agent h l = transaction h (ln_root l) True (Ret ()) (\<lambda>_. Ret ()) (\<lambda>_ _. agent_body h l)"

definition run_work_agent :: "host \<Rightarrow> string list \<Rightarrow> string option io" where
  "run_work_agent h argv =
     bindI (liftI (parseArgs argv)) (\<lambda>args.
     bindI (prepare_launch h args) (\<lambda>l.
     if arg args ''dry_run'' = JStr ''true'' then bindI (emit_launch h l None None None) (\<lambda>_. Ret None)
     else bindI (launch_agent h l) (\<lambda>commit. Ret (Some commit))))"

end
