(* ===== verification/Work_Agent_Props.thy ===== *)
theory Work_Agent_Props
  imports Work_Agent "HOL-Library.Multiset"
begin

text \<open>
  What the launchers of child agents guarantee: the configuration a route is read from is the
  canonical one, the parent commits only what an obedient child left inside its scope, and a failed
  launch rolls the repository back.
\<close>

section \<open>The configuration is canonical\<close>

lemma obj_set_keys: "fst ` set (obj_set k v m) = insert k (fst ` set m)"
  by (induction k v m rule: obj_set.induct) (auto simp: image_iff)

lemma obj_set_distinct: "distinct (map fst m) \<Longrightarrow> distinct (map fst (obj_set k v m))"
proof (induction m)
  case (Cons e m)
  obtain k' v' where e: "e = (k', v')" by (cases e)
  have "set (map fst (obj_set k v m)) = insert k (fst ` set m)" using obj_set_keys [of k v m] by simp
  then show ?case using Cons e by auto
qed simp

text \<open>A table under construction: no key twice, and every value the expected one.\<close>

definition sub_table :: "(string \<times> string) list \<Rightarrow> (string \<times> string) list \<Rightarrow> bool" where
  "sub_table d table \<longleftrightarrow> distinct (map fst d) \<and> map_of d \<subseteq>\<^sub>m map_of table"

lemma sub_table_Nil [simp]: "sub_table [] table"
  by (simp add: sub_table_def)

lemma sub_table_store: "sub_table d table \<Longrightarrow> map_of table k = Some v \<Longrightarrow> sub_table (obj_set k v d) table"
  by (auto simp: sub_table_def obj_set_distinct map_le_def)

lemma sub_table_complete:
  assumes "sub_table d table" "distinct (map fst table)" "fst ` set table \<subseteq> fst ` set d"
  shows "mset d = mset table" "map_of d = map_of table"
proof -
  have le: "map_of d \<subseteq>\<^sub>m map_of table" and d: "distinct (map fst d)" using assms(1) by (auto simp: sub_table_def)
  have dom: "dom (map_of table) \<subseteq> dom (map_of d)" using assms(3) by (simp add: dom_map_of_conv_image_fst)
  show eq: "map_of d = map_of table"
  proof
    show "map_of d k = map_of table k" for k
      using le dom by (cases "k \<in> dom (map_of d)") (force simp: map_le_def domIff)+
  qed
  have "set d = set table" using map_of_inject_set [OF d assms(2)] eq by simp
  moreover have "distinct d" "distinct table" using d assms(2) by (simp_all add: distinct_map)
  ultimately show "mset d = mset table" by (simp add: set_eq_iff_mset_eq_distinct)
qed

definition canonical_so_far :: "project_state \<Rightarrow> bool" where
  "canonical_so_far st \<longleftrightarrow> sub_table (ps_top st) PROJECT_CONFIG
     \<and> (\<forall>role d. map_of (ps_registry st) role = Some d \<longrightarrow>
          (\<exists>table. map_of PROJECT_ROLE_REGISTRY role = Some table \<and> sub_table d table))"

lemma open_section_canonical:
  assumes "open_section s st = Inr st'" "canonical_so_far st"
  shows "canonical_so_far st'"
proof -
  from assms(1) have st': "st' = st\<lparr>ps_section := Some s, ps_seen := s # ps_seen st, ps_registry := obj_set (role_of_section s) [] (ps_registry st)\<rparr>"
    and "role_of_section s \<in> fst ` set PROJECT_ROLE_REGISTRY"
    by (auto simp: open_section_def Let_def split: if_splits)
  then obtain table where "map_of PROJECT_ROLE_REGISTRY (role_of_section s) = Some table"
    by (metis domD dom_map_of_conv_image_fst)
  then show ?thesis using assms(2) unfolding st' canonical_so_far_def by auto
qed

lemma assign_canonical:
  assumes "assign index key v st = Inr st'" "canonical_so_far st"
  shows "canonical_so_far st'"
proof -
  from assms(1) obtain table x where t: "expected_table st = Some table" "map_of table key = Some x" "st' = store_value key x st"
    unfolding assign_def by (auto simp: bindR_Inr_iff split: option.splits if_splits)
  show ?thesis
  proof (cases "ps_section st")
    case None
    then show ?thesis using t assms(2) by (auto simp: canonical_so_far_def expected_table_def store_value_def sub_table_store)
  next
    case (Some s)
    have "sub_table (destination st) table"
      using t(1) assms(2) Some by (fastforce simp: canonical_so_far_def expected_table_def destination_def split: option.splits)
    from sub_table_store [OF this t(2)] show ?thesis
      using t(1,3) assms(2) Some by (auto simp: canonical_so_far_def expected_table_def store_value_def)
  qed
qed

lemma project_lines_canonical:
  "project_lines index ls st = Inr st' \<Longrightarrow> canonical_so_far st \<Longrightarrow> canonical_so_far st'"
proof (induction ls arbitrary: index st)
  case (Cons l ls)
  then obtain st1 where st1: "project_line index l st = Inr st1" "project_lines (index + 1) ls st1 = Inr st'"
    by (auto simp: bindR_Inr_iff)
  have "canonical_so_far st1"
    using st1(1) Cons.prems(2) open_section_canonical assign_canonical unfolding project_line_def Let_def
    by (auto split: if_splits option.splits)
  then show ?case using Cons.IH st1(2) by blast
qed simp

lemma map_of_table: "(k, x) \<in> set m \<Longrightarrow> map_of (map (\<lambda>(k, _). (k, f k)) m) k = Some (f k)"
  by (induction m) auto

lemma project_config_canonical:
  assumes "project_config content = Inr v"
  shows "js_field v ''top_level'' = text_object PROJECT_CONFIG"
    and "(role, table) \<in> set PROJECT_ROLE_REGISTRY \<Longrightarrow> \<exists>d. js_field (js_field v ''agents'') role = text_object d \<and> mset d = mset table"
proof -
  let ?start = "\<lparr>ps_top = [], ps_registry = [], ps_seen = [], ps_section = None\<rparr>"
  from assms obtain st where p: "project_lines 0 (split_lines content) ?start = Inr st" and st: "v = project_value st"
    "\<forall>k \<in> set FIXED_KEYS. k \<in> fst ` set (ps_top st)" "\<forall>e \<in> set PROJECT_ROLE_REGISTRY. missing_role (ps_registry st) e = Inr ()"
    unfolding project_config_def by (auto simp: bindR_Inr_iff each_R_Inr)
  have "canonical_so_far ?start" by (simp add: canonical_so_far_def)
  note st = project_lines_canonical [OF p this] st
  have "map_of (ps_top st) = map_of PROJECT_CONFIG"
    using st(1,3) by (intro sub_table_complete(2)) (auto simp: canonical_so_far_def PROJECT_CONFIG_def FIXED_KEYS_def)
  then show "js_field v ''top_level'' = text_object PROJECT_CONFIG"
    by (simp add: st(2) project_value_def text_object_def FIXED_KEYS_def PROJECT_CONFIG_def)
  have reg: "distinct (map fst PROJECT_ROLE_REGISTRY)" "\<forall>e \<in> set PROJECT_ROLE_REGISTRY. distinct (map fst (snd e))"
    by (simp_all add: PROJECT_ROLE_REGISTRY_def role_entry_def)
  assume r: "(role, table) \<in> set PROJECT_ROLE_REGISTRY"
  then obtain d where d: "map_of (ps_registry st) role = Some d" "fst ` set table \<subseteq> fst ` set d"
    using st(4) by (fastforce simp: missing_role_def each_R_Inr missing_field_def split: option.splits)
  have "map_of PROJECT_ROLE_REGISTRY role = Some table" using r reg(1) by simp
  then have "sub_table d table" using st(1) d(1) by (fastforce simp: canonical_so_far_def)
  moreover have "distinct (map fst table)" using reg(2) r by fastforce
  ultimately have "mset d = mset table" using d(2) by (intro sub_table_complete(1))
  moreover have "js_field (js_field v ''agents'') role = text_object d"
    unfolding st(2) project_value_def using d(1) by (simp add: map_of_table [OF r] del: map_map)
  ultimately show "\<exists>d. js_field (js_field v ''agents'') role = text_object d \<and> mset d = mset table" by blast
qed

text \<open>Hence the contracts that are read are the built-in ones, and a route is a built-in route.\<close>

lemma role_contract_fixed:
  assumes "role_contract role fixed content = Inr c"
  shows "c = fixed"
proof -
  from assms obtain m e s where "c = mk_contract (profile fixed) m e s" "contract_mismatch role c fixed = Inr ()"
    unfolding role_contract_def Let_def by (auto simp: bindR_Inr_iff simp del: bindR_throw_if)
  then show ?thesis by (cases fixed) (auto simp: contract_mismatch_def mk_contract_def split: if_splits)
qed

lemma read_role_fixed: "runs (read_role root' e) es (Inr x) \<Longrightarrow> x = e"
  unfolding read_role_def case_prod_beta Let_def by (cases e) (auto elim!: ok_elims dest!: sym [THEN role_contract_fixed])

lemma map_I_same:
  assumes "\<And>x es y. x \<in> set xs \<Longrightarrow> runs (f x) es (Inr y) \<Longrightarrow> y = g x"
  shows "runs (map_I f xs) es (Inr ys) \<Longrightarrow> ys = map g xs"
  using assms
proof (induction xs arbitrary: es ys)
  case (Cons x xs)
  from Cons.prems(1) obtain e1 e2 y zs where "runs (f x) e1 (Inr y)" "runs (map_I f xs) e2 (Inr zs)" "ys = y # zs"
    by (auto elim!: ok_elims)
  then show ?case using Cons by auto
qed simp

lemma readCanonicalContracts_fixed:
  assumes "runs (readCanonicalContracts productRoot) es (Inr cs)"
  shows "cs = ROLE_CONTRACTS"
proof -
  from assms obtain e2 where "runs (map_I (read_role productRoot) ROLE_CONTRACTS) e2 (Inr cs)"
    unfolding readCanonicalContracts_def by (auto elim!: runs_bind_okE)
  then have "cs = map id ROLE_CONTRACTS" by (rule map_I_same [rotated]) (simp add: read_role_fixed)
  then show ?thesis by simp
qed

lemma fixed_route_canonical:
  assumes "runs (fixed_route h action planFile args productRoot) es (Inr (role, c))"
  shows "(role, c) \<in> set ROLE_CONTRACTS" and "action \<noteq> ''handover'' \<Longrightarrow> map_of ACTION_ROLES action = Some role"
proof -
  from assms obtain plan where r: "resolveFixedRoute action plan args (Inr ROLE_CONTRACTS) = Inr (role, c)"
    unfolding fixed_route_def by (auto elim!: ok_elims dest: readCanonicalContracts_fixed)
  then show "(role, c) \<in> set ROLE_CONTRACTS"
    unfolding resolveFixedRoute_def by (auto simp: bindR_Inr_iff split: option.splits dest: map_of_SomeD)
  show "map_of ACTION_ROLES action = Some role" if "action \<noteq> ''handover''"
    using r that unfolding resolveFixedRoute_def roleForAction_def by (auto simp: bindR_Inr_iff split: option.splits)
qed

section \<open>The launch is a transaction\<close>

text \<open>A launcher starts processes, prints, and does nothing else under the lock.\<close>

locale launching =
  fixes P :: "op \<Rightarrow> bool"
  assumes spawns: "P (Spawn cmd argv dir env)" and prints: "P (Stdout t)"
begin

lemma only_agent_changed: "only P (agent_changed rootdir)"
  unfolding agent_changed_def by (intro only_rules only_git spawns)

lemma only_rolled_back: "only P (rolled_back rootdir beforeHead e)"
  unfolding rolled_back_def rollbackWorkRepository_def by (intro only_rules only_tryI only_git spawns)

lemma only_emit: "only P (emit_json h v)"
  unfolding emit_json_def by (intro only_files prints)

lemma only_validateWork: "only P (validateWork h rootdir)"
  unfolding validateWork_def by (intro only_rules only_spawn_status spawns)

lemma only_agent_commit: "only P (agent_commit h l beforeHead childExit)"
  unfolding agent_commit_def child_changes_def emit_launch_def
  by (intro only_rules only_git only_git_env only_agent_changed only_validateWork only_emit spawns)

lemma only_agent_failed: "only P (agent_failed h l beforeHead childResult e)"
  unfolding agent_failed_def emit_launch_def by (intro only_rules only_rolled_back only_emit)

lemma only_agent_body: "only P (agent_body h l)"
  unfolding agent_body_def agent_before_def run_child_def
  by (intro only_rules only_sum only_tryI only_git only_spawn only_agent_failed only_agent_commit spawns)

end

interpretation launching lock_kept
  by unfold_locales simp_all

interpretation work_agent: locked_transaction h "ln_root l" True "Ret ()" "\<lambda>_. Ret ()" "\<lambda>_ _. agent_body h l" for h l
  by unfold_locales (simp_all add: only_agent_body)

section \<open>What a successful launch committed\<close>

definition child_op :: "launch \<Rightarrow> op" where
  "child_op l = Spawn ''codex'' (ln_command l) (ln_root l) [(''WORK_REPO_LOCK_HELD'', ''1'')]"

definition agent_commit_op :: "host \<Rightarrow> launch \<Rightarrow> op" where
  "agent_commit_op h l = Spawn ''git'' [''commit'', ''-m'', ln_action l @ '': update '' @ js_string (js_field (ln_task l) ''id'')] (ln_root l) (agent_env h l)"

definition head_op :: "string \<Rightarrow> op" where
  "head_op rootdir = Spawn ''git'' [''rev-parse'', ''HEAD''] rootdir []"

text \<open>The child left the head where it was, staged nothing, and changed only files in its scope.\<close>

definition obedient_child :: "launch \<Rightarrow> string \<Rightarrow> string list \<Rightarrow> event list \<Rightarrow> bool" where
  "obedient_child l head changed es \<longleftrightarrow>
     answered (Spawn ''git'' [''branch'', ''--show-current''] (ln_root l) []) ''main'' es
   \<and> (\<exists>staged. answered (Spawn ''git'' [''diff'', ''--cached'', ''--name-only''] (ln_root l) []) staged es \<and> lines_of staged = [])
   \<and> answered (head_op (ln_root l)) head es
   \<and> (\<exists>e. runs (agent_changed (ln_root l)) e (Inr changed) \<and> suffix e es)
   \<and> changed \<noteq> [] \<and> (\<forall>f \<in> set changed. \<exists>rule \<in> set (ln_allowed l). child_covers f rule)"

definition work_validated :: "host \<Rightarrow> string \<Rightarrow> event list \<Rightarrow> bool" where
  "work_validated h rootdir es \<longleftrightarrow> (\<exists>t u. es = [(Spawn (h_node h) (validate_script h rootdir) (h_repo_root h) [], RProc (Some 0) t u)])"

lemma validateWork_ok: "runs (validateWork h rootdir) es (Inr u) \<Longrightarrow> work_validated h rootdir es"
  unfolding validateWork_def case_prod_beta work_validated_def
  by (auto elim!: runs_bind_okE dest!: spawn_status_runs_ok [where n = 0] split: if_splits)

lemma child_changes_ok:
  assumes "runs (child_changes l head n) es (Inr changed)"
  shows "n = 0" "obedient_child l head changed es"
proof -
  from assms obtain e1 e2 e3 e4 branch staged after chg where es: "es = e1 @ e2 @ e3 @ e4" "branch = ''main''"
    "runs (git (ln_root l) [''branch'', ''--show-current'']) e1 (Inr branch)"
    "runs (git (ln_root l) [''diff'', ''--cached'', ''--name-only'']) e2 (Inr staged)"
    "runs (git (ln_root l) [''rev-parse'', ''HEAD'']) e3 (Inr after)" "runs (agent_changed (ln_root l)) e4 (Inr chg)"
    "validateChildOutcome n head after (lines_of staged) chg (ln_allowed l) = Inr changed"
    unfolding child_changes_def by - (elim ok_elims, rule that, (assumption | simp)+)
  from es(7) have v: "n = 0" "after = head" "lines_of staged = []" "chg = changed" "changed \<noteq> []"
    "outside child_covers (ln_allowed l) changed = []"
    unfolding validateChildOutcome_Inr by simp_all
  note c = es(1) es(3-6) [unfolded es(2) v(2,4)]
  show "n = 0" by (rule v)
  have "\<forall>f \<in> set changed. \<exists>rule \<in> set (ln_allowed l). child_covers f rule"
    using v(6) by (auto simp: outside_def filter_empty_conv list_ex_iff)
  moreover have "suffix e4 es" by (simp add: c(1) suffix_def)
  ultimately show "obedient_child l head changed es"
    unfolding obedient_child_def head_op_def using c(2-5) v(3,5) by (auto simp: c(1) git_runs_ok)
qed

text \<open>What happened under the lock.\<close>

definition agent_committed :: "host \<Rightarrow> launch \<Rightarrow> string \<Rightarrow> event list \<Rightarrow> bool" where
  "agent_committed h l commit es \<longleftrightarrow> (\<exists>a head t1 u1 b changed t2 u2 v1 t3 u3 t4 u4 v2 left out.
     es = a @ [(child_op l, RProc (Some 0) t1 u1)] @ b
       @ [(Spawn ''git'' ([''add'', ''--''] @ changed) (ln_root l) [], RProc (Some 0) t2 u2)] @ v1
       @ [(agent_commit_op h l, RProc (Some 0) t3 u3), (head_op (ln_root l), RProc (Some 0) t4 u4)] @ v2 @ left
       @ [(Stdout (h_json_text h (buildLaunchEvidence h (ln_route l) (ln_root l) (ln_allowed l) (Some 0) (Some commit) None) @ [newline]), out)]
   \<and> answered (head_op (ln_root l)) head a \<and> obedient_child l head changed b
   \<and> work_validated h (ln_root l) v1 \<and> js_trim t4 = commit \<and> work_validated h (ln_root l) v2
   \<and> runs (agent_changed (ln_root l)) left (Inr []))"

lemma agent_failed_throws [simp]: "\<not> runs (agent_failed h l head r e) es (Inr x)"
  unfolding agent_failed_def by (simp add: runs_bindI_ok [of "rolled_back _ _ _"])

lemma agent_before_ok: "runs (agent_before l) es (Inr head) \<Longrightarrow> answered (head_op (ln_root l)) head es"
  unfolding agent_before_def head_op_def by (auto elim!: runs_bind_okE runs_guard_okE simp: git_runs_ok)

lemma run_child_ok:
  assumes "runs (run_child l) es (Inr n)"
  obtains status t u where "es = [(child_op l, RProc status t u)]" "n = (case status of None \<Rightarrow> 1 | Some n \<Rightarrow> n)"
  using assms unfolding run_child_def case_prod_beta child_op_def by (auto elim!: runs_bind_okE simp: spawn_ok)

lemma emit_runs: "runs (emit_json h v) es (Inr u) \<longleftrightarrow> (\<exists>r. es = [(Stdout (h_json_text h v @ [newline]), r)])"
  by (auto simp: emit_json_def print_out_def)

lemma agent_body_stages:
  assumes "runs (agent_body h l) es out"
  obtains (early) e1 e2 e where "es = e1 @ e2" "runs (agent_before l) e1 (Inl e)" "runs (agent_failed h l [] None e) e2 out"
  | (child) e1 head e2 e e3 where "es = e1 @ e2 @ e3" "runs (agent_before l) e1 (Inr head)" "runs (run_child l) e2 (Inl e)"
      "runs (agent_failed h l head None e) e3 out"
  | (after) e1 head e2 n e3 where "es = e1 @ e2 @ e3" "runs (agent_before l) e1 (Inr head)" "runs (run_child l) e2 (Inr n)"
      "runs (catchI (agent_commit h l head n) (agent_failed h l head (Some n))) e3 out"
proof -
  from assms obtain e1 e2 r where r: "es = e1 @ e2" "runs (agent_before l) e1 r"
    "runs (case r of Inl e \<Rightarrow> agent_failed h l [] None e | Inr head \<Rightarrow> bindI (tryI (run_child l)) (\<lambda>r. case r of
       Inl e \<Rightarrow> agent_failed h l head None e
     | Inr n \<Rightarrow> catchI (agent_commit h l head n) (agent_failed h l head (Some n)))) e2 out"
    unfolding agent_body_def runs_bindI [of "tryI (agent_before l)"] by (auto elim!: runs_tryI)
  show ?thesis
  proof (cases r)
    case (Inl e)
    then show ?thesis using r by (intro early) simp_all
  next
    case (Inr head)
    from r(3) [unfolded Inr sum.case] obtain e3 e4 r' where r': "e2 = e3 @ e4" "runs (run_child l) e3 r'"
      "runs (case r' of Inl e \<Rightarrow> agent_failed h l head None e
        | Inr n \<Rightarrow> catchI (agent_commit h l head n) (agent_failed h l head (Some n))) e4 out"
      unfolding runs_bindI [of "tryI (run_child l)"] by (auto elim!: runs_tryI)
    show ?thesis
    proof (cases r')
      case (Inl e)
      then show ?thesis using r(1,2) r' Inr by (intro child [of e1 e3 e4 head e]) simp_all
    next
      case (Inr n)
      then show ?thesis using r(1,2) r' \<open>r = Inr head\<close> by (intro after [of e1 e3 e4 head n]) simp_all
    qed
  qed
qed

lemma agent_body_ok:
  assumes "runs (agent_body h l) es (Inr commit)"
  shows "agent_committed h l commit es"
  using assms
proof (cases rule: agent_body_stages)
  case (after e1 head e2 n e3)
  then have "runs (agent_commit h l head n) e3 (Inr commit)" by (elim runs_catch_rethrow) simp
  then obtain b add v1 co hd v2 left out changed st where c: "e3 = b @ add @ v1 @ co @ hd @ v2 @ left @ out"
    "runs (child_changes l head n) b (Inr changed)" "\<exists>x. runs (git (ln_root l) ([''add'', ''--''] @ changed)) add (Inr x)"
    "\<exists>x. runs (validateWork h (ln_root l)) v1 (Inr x)"
    "\<exists>x. runs (git_env (agent_env h l) (ln_root l) [''commit'', ''-m'', ln_action l @ '': update '' @ js_string (js_field (ln_task l) ''id'')]) co (Inr x)"
    "runs (git (ln_root l) [''rev-parse'', ''HEAD'']) hd (Inr commit)" "\<exists>x. runs (validateWork h (ln_root l)) v2 (Inr x)"
    "runs (agent_changed (ln_root l)) left (Inr st)" "st = []" "\<exists>x. runs (emit_launch h l (Some n) (Some commit) None) out (Inr x)"
    unfolding agent_commit_def by - (elim ok_elims, rule that, (assumption | simp | rule exI)+)
  note k = child_changes_ok [OF c(2)]
  obtain status t u where st: "e2 = [(child_op l, RProc status t u)]" "n = (case status of None \<Rightarrow> 1 | Some n \<Rightarrow> n)"
    by (rule run_child_ok [OF after(3)])
  then have ch: "e2 = [(child_op l, RProc (Some 0) t u)]" using k(1) by (cases status) auto
  have v: "work_validated h (ln_root l) v1" "work_validated h (ln_root l) v2" using c(4,7) by (auto dest: validateWork_ok)
  from c(3) obtain t2 u2 where add: "add = [(Spawn ''git'' ([''add'', ''--''] @ changed) (ln_root l) [], RProc (Some 0) t2 u2)]"
    by (auto simp: git_runs_ok)
  from c(5) obtain t3 u3 where co: "co = [(agent_commit_op h l, RProc (Some 0) t3 u3)]" by (auto simp: git_env_runs_ok agent_commit_op_def)
  from c(6) obtain t4 u4 where hd: "hd = [(head_op (ln_root l), RProc (Some 0) t4 u4)]" "js_trim t4 = commit" by (auto simp: git_runs_ok head_op_def)
  from c(10) k(1) obtain r where out: "out = [(Stdout (h_json_text h (buildLaunchEvidence h (ln_route l) (ln_root l) (ln_allowed l) (Some 0) (Some commit) None) @ [newline]), r)]"
    by (auto simp: emit_launch_def emit_runs)
  have es: "es = e1 @ [(child_op l, RProc (Some 0) t u)] @ b
       @ [(Spawn ''git'' ([''add'', ''--''] @ changed) (ln_root l) [], RProc (Some 0) t2 u2)] @ v1
       @ [(agent_commit_op h l, RProc (Some 0) t3 u3), (head_op (ln_root l), RProc (Some 0) t4 u4)] @ v2 @ left @ out"
    unfolding after(1) ch c(1) add co hd(1) by simp
  note facts = es [unfolded out] agent_before_ok [OF after(2)] k(2) v(1) hd(2) v(2) c(8) [unfolded c(9)]
  show ?thesis unfolding agent_committed_def
    by (rule exI [of _ e1], rule exI [of _ head], rule exI [of _ t], rule exI [of _ u], rule exI [of _ b], rule exI [of _ changed],
      rule exI [of _ t2], rule exI [of _ u2], rule exI [of _ v1], rule exI [of _ t3], rule exI [of _ u3], rule exI [of _ t4],
      rule exI [of _ u4], rule exI [of _ v2], rule exI [of _ left], rule exI [of _ r]) (intro conjI facts)
qed simp_all

section \<open>What a failed launch leaves\<close>

text \<open>Once the child was started, a failure resets the repository to the head before it.\<close>

definition reset_op :: "string \<Rightarrow> string \<Rightarrow> op" where
  "reset_op rootdir head = Spawn ''git'' [''reset'', ''--hard'', head] rootdir []"

lemma rolled_back_resets:
  assumes "runs (rolled_back rootdir head e) es out" "head \<noteq> []"
  shows "\<exists>r. (reset_op rootdir head, r) \<in> set es"
proof -
  from assms obtain e1 e2 out1 where "es = e1 @ e2" "runs (rollbackWorkRepository rootdir head) e1 out1"
    unfolding rolled_back_def by (auto elim!: runs_bind_first runs_tryI)
  moreover from this(2) assms(2) obtain e3 e4 out2 where "e1 = e3 @ e4" "runs (git rootdir [''reset'', ''--hard'', head]) e3 out2"
    unfolding rollbackWorkRepository_def by (auto simp: throw_ifI_def elim!: runs_bind_first)
  moreover from this(2) have "\<exists>r. (reset_op rootdir head, r) \<in> set e3"
    by (cases out2) (auto simp: reset_op_def git_def dest!: git_env_failed git_env_ok)
  ultimately show ?thesis by auto
qed

lemma agent_failed_resets:
  assumes "runs (agent_failed h l head r e) es out" "head \<noteq> []"
  shows "\<exists>r. (reset_op (ln_root l) head, r) \<in> set es"
proof -
  from assms(1) obtain e1 e2 out1 where "es = e1 @ e2" "runs (rolled_back (ln_root l) head e) e1 out1"
    unfolding agent_failed_def by (elim runs_bind_first)
  then show ?thesis using rolled_back_resets assms(2) by fastforce
qed

lemma no_child: "only git_only m \<Longrightarrow> runs m es out \<Longrightarrow> (child_op l, r) \<notin> set es"
  using only_runs [of git_only m es out "(child_op l, r)"] by (auto simp: child_op_def)

lemma agent_body_rolled_back:
  assumes "runs (agent_body h l) es (Inl e)" "(child_op l, r) \<in> set es"
  shows "\<exists>head r. answered (head_op (ln_root l)) head es \<and> (head = [] \<or> (reset_op (ln_root l) head, r) \<in> set es)"
proof -
  have go: ?thesis if "runs (agent_before l) e1 (Inr head)" "es = e1 @ e2 @ e3" "runs (agent_failed h l head x y) e4 out" "suffix e4 e3"
    for e1 head e2 e3 e4 x y out
    using agent_before_ok [OF that(1)] agent_failed_resets [OF that(3)] that(2,4)
    by (cases "head = []") (fastforce simp: suffix_def)+
  from assms(1) show ?thesis
  proof (cases rule: agent_body_stages)
    case (early e1 e2 e')
    have "only git_only (agent_before l)" unfolding agent_before_def by (intro only_rules only_git) simp_all
    then have "(child_op l, r) \<notin> set e1" using early(2) by (rule no_child)
    moreover have "only (\<lambda>p. p \<noteq> child_op l) (agent_failed h l [] None e')"
      unfolding agent_failed_def rolled_back_def emit_launch_def emit_json_def child_op_def by (intro only_rules only_files) simp_all
    ultimately show ?thesis using only_runs [OF _ early(3)] assms(2) early(1) by fastforce
  next
    case (child e1 head e2 e' e3)
    then show ?thesis using go [of e1 head e2 e3] by simp
  next
    case (after e1 head e2 n e3)
    from after(4) obtain e4 e5 e' where "e3 = e4 @ e5" "runs (agent_failed h l head (Some n) e') e5 (Inl e)"
      by (elim runs_catch_failed)
    then show ?thesis using go [OF after(2,1)] by (auto simp: suffix_def)
  qed
qed

lemma launch_rolled_back:
  assumes "runs (launch_agent h l) es (Inl e)" "(child_op l, r) \<in> set es"
  shows "(\<exists>head r. answered (head_op (ln_root l)) head es \<and> (head = [] \<or> (reset_op (ln_root l) head, r) \<in> set es))
       \<or> (\<exists>lock r. last es = (Rm lock, r) \<and> r \<noteq> ROk)"
  using assms(1) unfolding launch_agent_def
proof (cases rule: plain_transaction_cases)
  case (refused e')
  then show ?thesis using no_child [OF only_git_acquire refused(1)] assms(2) by blast
next
  case (locked pre lock mid rel out1)
  have "(child_op l, r) \<notin> set pre" using only_git_acquire locked(1) by (rule no_child)
  then have "(child_op l, r) \<in> set mid" using assms(2) locked(3) by (auto simp: child_op_def)
  then show ?thesis
    using locked(3,4) agent_body_rolled_back [of h l mid e] locked(2) by (auto simp: answered_def)
qed

end
