(* ===== verification/Config_Files.thy ===== *)
theory Config_Files
  imports Routing_Config
begin

text \<open>
  Configuration files the readers of \<open>scripts/task/agent-routing.mjs\<close> accept, written from the constants of that
  file. Their evaluation works on lists of lines: on a text without other terminators the lines and the starts of
  lines are those of the list it was joined from.
\<close>

section \<open>Texts made of lines\<close>

definition plain :: "string \<Rightarrow> bool" where
  "plain l \<longleftrightarrow> list_all (\<lambda>c. c \<notin> {newline, CHR 0x0D, CHR 0xA8, CHR 0xA9, CHR 0xE2}) l"

lemma plain_simps [simp]: "plain []" "plain (c # l) \<longleftrightarrow> c \<notin> {newline, CHR 0x0D, CHR 0xA8, CHR 0xA9, CHR 0xE2} \<and> plain l"
  by (simp_all add: plain_def)

lemma plain_no_newline: "plain l \<Longrightarrow> newline \<notin> set l"
  by (auto simp: plain_def list_all_iff)

lemma line_start_newline [simp]: "line_start (newline # past)"
  by (simp add: line_start_def terminators_def)

lemma line_start_plain [simp]: "c \<notin> {newline, CHR 0x0D, CHR 0xA8, CHR 0xA9, CHR 0xE2} \<Longrightarrow> \<not> line_start (c # past)"
  by (auto simp: line_start_def terminators_def)

lemma line_starts_inside: "plain l \<Longrightarrow> \<not> line_start past \<Longrightarrow> line_starts past l = []"
  by (induction l arbitrary: past) auto

lemma line_starts_up_to:
  "plain l \<Longrightarrow> \<not> line_start past \<Longrightarrow> \<exists>past'. line_starts past (l @ newline # s) = line_starts (newline # past') s"
  by (induction l arbitrary: past) auto

fun tails :: "string list \<Rightarrow> string list" where
  "tails [] = []"
| "tails (l # ls) = join_char newline (l # ls) # tails ls"

lemma line_starts_first:
  assumes "plain l" "line_start past"
  shows "line_starts past l = [l]" "\<exists>past'. line_starts past (l @ newline # s) = (l @ newline # s) # line_starts (newline # past') s"
proof -
  show "line_starts past l = [l]" using assms by (cases l) (auto simp: line_starts_inside)
  show "\<exists>past'. line_starts past (l @ newline # s) = (l @ newline # s) # line_starts (newline # past') s"
  proof (cases l)
    case (Cons c k)
    then obtain past' where "line_starts (c # past) (k @ newline # s) = line_starts (newline # past') s"
      using assms line_starts_up_to [of k "c # past" s] by auto
    then show ?thesis using Cons assms by auto
  qed (use assms in auto)
qed

lemma line_starts_join:
  "list_all plain ls \<Longrightarrow> ls \<noteq> [] \<Longrightarrow> line_start past \<Longrightarrow> line_starts past (join_char newline ls) = tails ls"
proof (induction ls arbitrary: past rule: tails.induct)
  case (2 l ls)
  show ?case
  proof (cases ls)
    case (Cons k ks)
    then obtain past' where "line_starts past (l @ newline # join_char newline ls) =
        (l @ newline # join_char newline ls) # line_starts (newline # past') (join_char newline ls)"
      using line_starts_first(2) 2 by fastforce
    then show ?thesis using 2 Cons by simp
  qed (use 2 line_starts_first(1) in auto)
qed simp

lemma plain_drop_cr: "plain l \<Longrightarrow> drop_cr l = l"
proof -
  assume a: "plain l"
  then have "CHR 0x0D \<notin> set l" by (auto simp: plain_def list_all_iff)
  then show ?thesis by (auto simp: drop_cr_def ends_with_def starts_with_iff)
qed

lemma split_lines_join:
  assumes "list_all plain ls" "ls \<noteq> []"
  shows "split_lines (join_char newline ls) = ls"
proof -
  have "split_char newline (join_char newline ls) = ls" using assms by (intro split_join_char) (auto simp: list_all_iff plain_no_newline)
  moreover have "map drop_cr (butlast ls) = butlast ls"
    using assms by (intro map_idI plain_drop_cr) (auto simp: list_all_iff dest: in_set_butlastD)
  ultimately show ?thesis using assms by (simp add: split_lines_def Let_def)
qed

text \<open>The readers of the role contracts on a list of lines.\<close>

fun find_tail :: "(string \<Rightarrow> bool) \<Rightarrow> string list \<Rightarrow> string option" where
  "find_tail P [] = None"
| "find_tail P (l # ls) = (let s = join_char newline (l # ls) in if P s then Some s else find_tail P ls)"

lemma find_tail: "List.find P (tails ls) = find_tail P ls"
  by (induction ls) (simp_all add: Let_def)

definition value_on_lines :: "string list \<Rightarrow> string \<Rightarrow> string res" where
  "value_on_lines ls key = (case find_tail (\<lambda>s. quoted_at key s \<noteq> None) ls of
     None \<Rightarrow> Inl (Err ''ROUTING_CONFIG_INVALID: missing'' [JStr key])
   | Some s \<Rightarrow> Inr (the (quoted_at key s)))"

definition section_on_lines :: "string list \<Rightarrow> string \<Rightarrow> string option" where
  "section_on_lines ls name =
     (case dropWhile (\<lambda>l. js_trim l \<noteq> ''['' @ name @ '']'') ls of
        [] \<Rightarrow> None
      | _ # rest \<Rightarrow> Some (join_char newline (takeWhile (\<lambda>l. \<not> starts_with (trim_start l) ''['') rest)))"

definition digit_on_lines :: "string \<Rightarrow> string \<Rightarrow> string list \<Rightarrow> bool" where
  "digit_on_lines key digit ls \<longleftrightarrow> find_tail (\<lambda>s. case key_value key s of
       Some v \<Rightarrow> starts_with v digit \<and> ends_line (drop (length digit) v)
     | None \<Rightarrow> False) ls \<noteq> None"

definition words_on_lines :: "string list \<Rightarrow> string list \<Rightarrow> bool" where
  "words_on_lines ws ls \<longleftrightarrow> list_ex (\<lambda>l. seq_search (map (\<lambda>w. [w]) ws) (map lower_char l)) ls"

definition plain_lines :: "string list \<Rightarrow> bool" where
  "plain_lines ls \<longleftrightarrow> ls \<noteq> [] \<and> list_all plain ls"

lemma value_on_lines: "plain_lines ls \<Longrightarrow> quotedValue (join_char newline ls) key = value_on_lines ls key"
  by (simp add: plain_lines_def quotedValue_def value_on_lines_def line_starts_join find_tail line_start_def)

lemma section_on_lines: "plain_lines ls \<Longrightarrow> tomlSection (join_char newline ls) name = section_on_lines ls name"
  by (simp add: plain_lines_def tomlSection_def section_on_lines_def split_lines_join)

lemma find_some: "(List.find P xs \<noteq> None) = list_ex P xs"
  by (induction xs) simp_all

lemma digit_on_lines: "plain_lines ls \<Longrightarrow> digit_line key digit (join_char newline ls) = digit_on_lines key digit ls"
  by (simp add: plain_lines_def digit_line_def digit_on_lines_def line_starts_join line_start_def find_some [symmetric] flip: find_tail del: not_None_eq)

lemma lower_upper:
  "list_all (\<lambda>c. \<forall>d \<in> {c, lower_char c}. d \<notin> {newline, CHR 0x0D, CHR 0xA8, CHR 0xA9, CHR 0xE2}) ''ABCDEFGHIJKLMNOPQRSTUVWXYZ''"
  by code_simp

lemma lower_special:
  "(lower_char c \<in> {newline, CHR 0x0D, CHR 0xA8, CHR 0xA9, CHR 0xE2}) = (c \<in> {newline, CHR 0x0D, CHR 0xA8, CHR 0xA9, CHR 0xE2})"
proof (cases "c \<in> set ''ABCDEFGHIJKLMNOPQRSTUVWXYZ''")
  case True
  then show ?thesis using lower_upper unfolding list_all_iff by blast
qed (simp only: lower_char_def if_False)

lemma lower_plain: "plain (map lower_char l) = plain l"
  by (simp only: plain_def list_all_iff set_map ball_simps lower_special)

lemma lower_join: "map lower_char (join_char newline ls) = join_char newline (map (map lower_char) ls)"
proof -
  have "lower_char newline = newline" by (simp add: lower_char_def newline_def)
  then show ?thesis by (induction newline ls rule: join_char.induct) simp_all
qed

lemma no_terminator: "plain (c # l) \<Longrightarrow> terminator_at (c # r) = None"
  by (auto simp: terminator_at_def terminators_def)

lemma after_plain: "plain l \<Longrightarrow> after_line l = []" "plain l \<Longrightarrow> after_line (l @ newline # s) = newline # s"
  by (induction l) (auto simp: terminator_at_def terminators_def)

lemma line_part_join: "plain l \<Longrightarrow> line_part l = l" "plain l \<Longrightarrow> line_part (l @ newline # s) = l"
  by (simp_all add: line_part_def after_plain)

lemma words_on_tails: "list_all plain ls \<Longrightarrow> list_ex (\<lambda>t. P (line_part t)) (tails ls) = list_ex P ls"
proof (induction ls)
  case (Cons l ls)
  then show ?case by (cases ls) (auto simp: line_part_join)
qed simp

lemma words_on_lines:
  assumes "plain_lines ls"
  shows "words_on_line ws (join_char newline ls) = words_on_lines ws ls"
proof -
  have b: "list_all plain (map (map lower_char) ls)" "map (map lower_char) ls \<noteq> []"
    using assms by (auto simp: plain_lines_def list_all_iff lower_plain)
  have "words_on_line ws (join_char newline ls) = list_ex (seq_search (map (\<lambda>w. [w]) ws)) (map (map lower_char) ls)"
    unfolding words_on_line_def lower_join line_starts_join [OF b, of "[]", unfolded line_start_def, simplified] by (rule words_on_tails [OF b(1)])
  then show ?thesis by (simp add: words_on_lines_def list_ex_iff)
qed

lemma contains_join: "list_ex (\<lambda>l. contains_ci l p) ls \<Longrightarrow> contains_ci (join_char newline ls) p"
proof (induction ls)
  case (Cons l ls)
  then show ?case by (cases ls) (auto simp: contains_ci_def contains_iff, (metis append.assoc append_Cons)+)
qed simp

section \<open>The configuration files\<close>

definition quote_text :: "string \<Rightarrow> string" where
  "quote_text s = [CHR 0x22] @ s @ [CHR 0x22]"

definition setting :: "string \<times> string \<Rightarrow> string" where
  "setting e = fst e @ '' = '' @ quote_text (snd e)"

definition project_text_lines :: "string list" where
  "project_text_lines = map setting PROJECT_CONFIG
     @ concat (map (\<lambda>(role, table). (''[agents.'' @ role @ '']'') # map setting table) PROJECT_ROLE_REGISTRY)"

definition project_text :: string where
  "project_text = join_char newline project_text_lines"

definition policy_lines :: "string \<Rightarrow> string list" where
  "policy_lines role = (if role = ''explorer'' then [''# exactly one bounded'', ''# do not spawn'', ''max_depth = 0'', ''max_threads = 1'']
     else if role = ''wiki'' then [''# editing only'', ''# do not spawn'', ''# stage commit merge .git'', ''[agents]'', ''max_threads = 1'', ''max_depth = 0'']
     else [''[agents]'', ''max_threads = 2''])"

definition contract_lines :: "string \<Rightarrow> contract \<Rightarrow> string list" where
  "contract_lines role c = map setting [(''name'', role), (''model'', model c), (''model_reasoning_effort'', effort c), (''sandbox_mode'', sandbox c)]
     @ policy_lines role"

definition role_text :: "string \<Rightarrow> string" where
  "role_text role = (case map_of ROLE_CONTRACTS role of None \<Rightarrow> [] | Some c \<Rightarrow> join_char newline (contract_lines role c))"

text \<open>The reader accepts these files.\<close>

lemma project_lines_plain: "plain_lines project_text_lines"
  by code_simp

lemma project_text_ok: "is_ok (project_config project_text)"
  unfolding project_config_def project_text_def split_lines_join [OF project_lines_plain [unfolded plain_lines_def, THEN conjunct2]
    project_lines_plain [unfolded plain_lines_def, THEN conjunct1]]
  by code_simp

lemma contract_lines_plain: "list_all (\<lambda>(role, c). plain_lines (contract_lines role c)) ROLE_CONTRACTS"
  by code_simp

lemma contract_values: "list_all (\<lambda>(role, c). let ls = contract_lines role c in
     value_on_lines ls ''model'' = Inr (model c) \<and> value_on_lines ls ''model_reasoning_effort'' = Inr (effort c)
   \<and> value_on_lines ls ''sandbox_mode'' = Inr (sandbox c) \<and> value_on_lines ls ''name'' = Inr role) ROLE_CONTRACTS"
  by code_simp

definition policy_on_lines :: "string \<Rightarrow> string list \<Rightarrow> bool" where
  "policy_on_lines role ls \<longleftrightarrow>
     (if role = ''explorer'' then list_ex (\<lambda>l. contains_ci l ''exactly one bounded'') ls \<and> words_on_lines [''do not '', ''spawn''] ls
        \<and> digit_on_lines ''max_depth'' ''0'' ls \<and> digit_on_lines ''max_threads'' ''1'' ls
      else case section_on_lines ls ''agents'' of None \<Rightarrow> False | Some a \<Rightarrow>
        if role = ''wiki'' then digit_line ''max_threads'' ''1'' a \<and> digit_line ''max_depth'' ''0'' a
          \<and> list_ex (\<lambda>l. contains_ci l ''editing only'') ls \<and> words_on_lines [''do not '', ''spawn''] ls
          \<and> words_on_lines [''stage'', ''commit'', ''merge''] ls \<and> list_ex (\<lambda>l. contains_ci l ''.git'') ls
        else digit_line ''max_threads'' ''2'' a \<and> \<not> has_key_line ''max_depth'' a)"

lemma contract_policies: "list_all (\<lambda>(role, c). policy_on_lines role (contract_lines role c)) ROLE_CONTRACTS"
  by code_simp

lemma policy_on_lines: "plain_lines ls \<Longrightarrow> policy_on_lines role ls \<Longrightarrow> role_policy role (join_char newline ls) = Inr ()"
  by (auto simp: policy_on_lines_def role_policy_def Let_def section_on_lines digit_on_lines words_on_lines contains_join split: if_splits option.splits)

lemma role_text_ok:
  assumes "(role, c) \<in> set ROLE_CONTRACTS"
  shows "role_contract role c (role_text role) = Inr c"
proof -
  have "map_of ROLE_CONTRACTS role = Some c" using assms by (auto simp: ROLE_CONTRACTS_def)
  then have t: "role_text role = join_char newline (contract_lines role c)" by (simp add: role_text_def)
  have p: "plain_lines (contract_lines role c)" using contract_lines_plain assms by (auto simp: list_all_iff)
  have "policy_on_lines role (contract_lines role c)" using contract_policies assms by (auto simp: list_all_iff)
  moreover have "value_on_lines (contract_lines role c) ''model'' = Inr (model c)" "value_on_lines (contract_lines role c) ''model_reasoning_effort'' = Inr (effort c)"
    "value_on_lines (contract_lines role c) ''sandbox_mode'' = Inr (sandbox c)" "value_on_lines (contract_lines role c) ''name'' = Inr role"
    using contract_values assms unfolding list_all_iff Let_def by auto
  ultimately show ?thesis
    by (simp add: role_contract_def Let_def t value_on_lines [OF p] policy_on_lines [OF p] contract_mismatch_def)
       (simp add: mk_contract_def)
qed

end
