(* ===== verification/Config_Texts.thy ===== *)
theory Config_Texts
  imports Demo Work_Agent_Props Config_Files
begin

text \<open>
  The host the runs of the agent tools are shown on, and forward rules to build runs from the runs of their parts.
\<close>

section \<open>The host of the runs\<close>

definition agent_host :: host where
  "agent_host = (demo_host 1)\<lparr>h_yaml := (\<lambda>s. Inr (JObj [])), h_sha256 := (\<lambda>s. ''d''), h_json_text := (\<lambda>v. ''json''), h_repo_root := ''/p''\<rparr>"

section \<open>Runs, built forwards\<close>

lemma runs_bind_intro: "runs m e1 (Inr x) \<Longrightarrow> runs (f x) e2 out \<Longrightarrow> runs (bindI m f) (e1 @ e2) out"
  unfolding runs_bindI by blast

lemma runs_catch_intro: "runs m es (Inr x) \<Longrightarrow> runs (catchI m g) es (Inr x)"
  by (induction m arbitrary: es) auto

lemma runs_catch_fail: "runs m e1 (Inl e) \<Longrightarrow> runs (g e) e2 out \<Longrightarrow> runs (catchI m g) (e1 @ e2) out"
  by (induction m arbitrary: e1) auto

lemma runs_finally_intro: "runs m e1 (Inr x) \<Longrightarrow> runs f e2 (Inr u) \<Longrightarrow> runs (finallyI m f) (e1 @ e2) (Inr x)"
proof (induction m arbitrary: e1)
  case (Ret y)
  then have "runs (bindI f (\<lambda>_. Ret y)) (e2 @ []) (Inr x)" by (intro runs_bind_intro [of f e2 u]) simp_all
  then show ?case using Ret by simp
qed auto

lemma runs_try_intro: "runs m es r \<Longrightarrow> runs (tryI m) es (Inr r)"
proof (cases r)
  case (Inl e)
  assume "runs m es r"
  then have "runs (bindI m (\<lambda>x. Ret (Inr x))) es (Inl e)" using Inl by (auto simp: runs_bindI)
  then have "runs (tryI m) (es @ []) (Inr r)" unfolding tryI_def using Inl by (intro runs_catch_fail) simp_all
  then show ?thesis by simp
next
  case (Inr x)
  assume "runs m es r"
  then have "runs (bindI m (\<lambda>x. Ret (Inr x))) (es @ []) (Inr r)" using Inr by (intro runs_bind_intro [of m es x]) simp_all
  then show ?thesis unfolding tryI_def by (intro runs_catch_intro) simp
qed

lemma runs_map_intro: "(\<And>x. x \<in> set xs \<Longrightarrow> \<exists>es. runs (f x) es (Inr (g x))) \<Longrightarrow> \<exists>es. runs (map_I f xs) es (Inr (map g xs))"
proof (induction xs)
  case (Cons x xs)
  from Cons.prems [of x] obtain e1 where "runs (f x) e1 (Inr (g x))" by auto
  moreover from Cons obtain e2 where "runs (map_I f xs) e2 (Inr (map g xs))" by auto
  ultimately show ?case by (auto simp: runs_bindI_ok)
qed simp

lemma read_role_runs: "e \<in> set ROLE_CONTRACTS \<Longrightarrow> \<exists>es. runs (read_role ''/p'' e) es (Inr (id e))"
proof -
  assume e: "e \<in> set ROLE_CONTRACTS"
  obtain role c where rc: "e = (role, c)" by (cases e)
  have "runs (read_role ''/p'' e) [(Exists (role_file ''/p'' role), RBool True), (ReadFile (role_file ''/p'' role), RText (role_text role))] (Inr (id e))"
    unfolding read_role_def rc Let_def exists_path_def read_file_def
    using role_text_ok [OF e [unfolded rc]] by (simp add: throw_ifI_def text_response_def liftI_def)
  then show ?thesis by blast
qed

lemma project_runs: "\<exists>es v. runs (readProjectConfig ''/p'') es (Inr v)"
proof -
  obtain v where "project_config project_text = Inr v" using project_text_ok by (auto simp: is_ok_def split: sum.splits)
  then have "runs (readProjectConfig ''/p'') [(ReadFile (path_join (path_join ''/p'' ''.codex'') ''config.toml''), RText project_text)] (Inr v)"
    unfolding readProjectConfig_def read_file_def by (simp add: text_response_def)
  then show ?thesis by blast
qed

lemma contracts_run: "\<exists>es. runs (readCanonicalContracts ''/p'') es (Inr ROLE_CONTRACTS)"
proof -
  obtain e1 v where "runs (readProjectConfig ''/p'') e1 (Inr v)" using project_runs by blast
  moreover obtain e2 where "runs (map_I (read_role ''/p'') ROLE_CONTRACTS) e2 (Inr (map id ROLE_CONTRACTS))"
    using runs_map_intro [of ROLE_CONTRACTS "read_role ''/p''" id] read_role_runs by blast
  ultimately show ?thesis unfolding readCanonicalContracts_def by (auto simp: runs_bindI_ok)
qed

end
