(* ===== verification/Config_Sync.thy ===== *)
theory Config_Sync
  imports Work_Agent
begin

text \<open>
  The synchronisation of the generated adapter (scripts/task/run-work-config-sync.mjs): under the lock,
  write .codex/config.toml, check that nothing else changed, commit it, and check that it agrees.
\<close>

definition WORK_CONFIG_ALLOWED_PATHS :: "string list" where
  "WORK_CONFIG_ALLOWED_PATHS = [''.codex/config.toml'']"

definition validateWorkRepository :: "host \<Rightarrow> string \<Rightarrow> unit io" where
  "validateWorkRepository h rootdir = bindI (spawn (h_node h) (validate_script h rootdir) (h_repo_root h) [])
     (\<lambda>(status, _, _). throw_ifI (status \<noteq> Some 0) (Err ''WORK_VALIDATION_FAILED'' []))"

text \<open>\<open>/(?:sk-|Bearer\s+)[A-Za-z0-9._-]+/gi\<close>\<close>

definition concise_match :: "char option \<Rightarrow> string \<Rightarrow> nat" where
  "concise_match prev s = (let P = (\<lambda>c. alnum c \<or> c \<in> set ''._-'') in
     if sk_match P prev s \<noteq> 0 then sk_match P prev s else bearer_match P prev s)"

definition conciseError :: "string \<Rightarrow> string" where
  "conciseError e = redact concise_match (utf16_take 240 e)"

record sync_request =
  sy_product :: string
  sy_root :: string
  sy_mode :: string

definition buildWorkConfigSyncEvidence :: "sync_request \<Rightarrow> adapter_result option \<Rightarrow> string option \<Rightarrow> js_error option \<Rightarrow> jsval" where
  "buildWorkConfigSyncEvidence q result commit error =
     JObj [(''event'', JStr ''work_config_sync''), (''mode'', JStr (sy_mode q)), (''owner'', JStr ''lock-owning-parent''),
       (''target'', JStr (path_join (path_join (sy_root q) ''.codex'') ''config.toml'')),
       (''digest'', (case result of None \<Rightarrow> JNull | Some r \<Rightarrow> JStr (ad_digest r))),
       (''changed'', JBool (case result of None \<Rightarrow> False | Some r \<Rightarrow> ad_changed r)),
       (''commit'', (case commit of None \<Rightarrow> JNull | Some x \<Rightarrow> JStr x)),
       (''error'', (case error of None \<Rightarrow> JNull | Some e \<Rightarrow> if message_text e = [] then JNull else JStr (conciseError (message_text e))))]"

text \<open>\<open>fs.statSync(hook).mode & 0o111\<close> of a mode in octal digits.\<close>

definition executable_mode :: "string \<Rightarrow> bool" where
  "executable_mode m = list_ex (\<lambda>c. c \<in> set ''1357'') (take 3 (rev m))"

definition check_hook :: "string \<Rightarrow> unit io" where
  "check_hook rootdir = (let hook = path_join (path_join rootdir ''.githooks'') ''pre-commit''; bad = Err ''WORK_PRE_COMMIT_HOOK_INVALID'' [] in
     bindI (exists_path hook) (\<lambda>there.
     bindI (throw_ifI (\<not> there) bad) (\<lambda>_.
     bindI (is_file hook) (\<lambda>f.
     bindI (throw_ifI (\<not> f) bad) (\<lambda>_.
     bindI (file_mode hook) (\<lambda>m. throw_ifI (\<not> executable_mode m) bad))))))"

definition sync_env :: "host \<Rightarrow> (string \<times> string) list" where
  "sync_env h = [(''WORK_REPO_LOCK_HELD'', ''1''), (''WORK_PARENT_COMMIT'', ''1''), (''WORK_ACTION'', ''work-config-sync''),
     (''WORK_ALLOWED_PATHS'', h_json_text h (JArr (map JStr WORK_CONFIG_ALLOWED_PATHS)))]"

definition sync_commit :: "host \<Rightarrow> string \<Rightarrow> string io" where
  "sync_commit h rootdir =
     bindI (agent_changed rootdir) (\<lambda>changed.
     bindI (throw_ifI (changed \<noteq> WORK_CONFIG_ALLOWED_PATHS) (Err ''WORK_CONFIG_SCOPE_VIOLATION'' (map JStr changed))) (\<lambda>_.
     bindI (git rootdir ([''add'', ''--''] @ WORK_CONFIG_ALLOWED_PATHS)) (\<lambda>_.
     bindI (validateWorkRepository h rootdir) (\<lambda>_.
     bindI (git_env (sync_env h) rootdir [''commit'', ''-m'', ''governance: sync work adapter'']) (\<lambda>_.
     git rootdir [''rev-parse'', ''HEAD''])))))"

text \<open>The \<open>try\<close> block after \<open>beforeHead\<close>, in the parts between which the handler's evidence differs: the adapter,
  its commit, and the checks.\<close>

definition sync_adapter :: "host \<Rightarrow> sync_request \<Rightarrow> adapter_result io" where
  "sync_adapter h q =
     (if sy_mode q = ''sync'' then
        bindI (git (sy_root q) [''config'', ''--get'', ''core.hooksPath'']) (\<lambda>hooks.
        bindI (throw_ifI (hooks \<noteq> ''.githooks'') (Err ''WORK_HOOKS_PATH_INVALID'' [])) (\<lambda>_.
        bindI (check_hook (sy_root q)) (\<lambda>_.
        syncWorkAdapter h (sy_product q) (sy_root q) False)))
      else syncWorkAdapter h (sy_product q) (sy_root q) True)"

definition sync_rest :: "host \<Rightarrow> sync_request \<Rightarrow> string \<Rightarrow> adapter_result \<Rightarrow> jsval io" where
  "sync_rest h q beforeHead result =
     bindI (if sy_mode q = ''sync'' \<and> ad_changed result then bindI (sync_commit h (sy_root q)) (\<lambda>c. Ret (Some c)) else Ret None) (\<lambda>commit.
     bindI (syncWorkAdapter h (sy_product q) (sy_root q) True) (\<lambda>_.
     bindI (validateWorkRepository h (sy_root q)) (\<lambda>_.
     bindI (git (sy_root q) [''rev-parse'', ''HEAD'']) (\<lambda>head.
     bindI (throw_ifI (head \<noteq> (case commit of None \<Rightarrow> beforeHead | Some c \<Rightarrow> c)) (Err ''WORK_CONFIG_HEAD_CHANGED'' [])) (\<lambda>_.
     bindI (agent_changed (sy_root q)) (\<lambda>left.
     bindI (throw_ifI (left \<noteq> []) (Err ''WORK_PARENT_LEFT_DIRTY'' [])) (\<lambda>_.
     let evidence = buildWorkConfigSyncEvidence q (Some result) commit None in
     bindI (emit_json h evidence) (\<lambda>_. Ret evidence))))))))"

definition sync_failed :: "host \<Rightarrow> sync_request \<Rightarrow> string \<Rightarrow> adapter_result option \<Rightarrow> js_error \<Rightarrow> jsval io" where
  "sync_failed h q beforeHead result e =
     bindI (if sy_mode q = ''sync'' then rolled_back (sy_root q) beforeHead e else Ret e) (\<lambda>failure.
     bindI (emit_json h (buildWorkConfigSyncEvidence q result None (Some failure))) (\<lambda>_. Throw failure))"

definition sync_body :: "host \<Rightarrow> sync_request \<Rightarrow> jsval io" where
  "sync_body h q =
     bindI (tryI (git (sy_root q) [''rev-parse'', ''HEAD''])) (\<lambda>r. case r of Inl e \<Rightarrow> sync_failed h q [] None e | Inr beforeHead \<Rightarrow>
     bindI (tryI (sync_adapter h q)) (\<lambda>r. case r of Inl e \<Rightarrow> sync_failed h q beforeHead None e | Inr result \<Rightarrow>
     catchI (sync_rest h q beforeHead result) (sync_failed h q beforeHead (Some result))))"

text \<open>The lock is acquired inside the \<open>try\<close>: a failure to acquire it is reported and thrown on.\<close>

definition runWorkConfigSync :: "host \<Rightarrow> string \<Rightarrow> string \<Rightarrow> string \<Rightarrow> jsval io" where
  "runWorkConfigSync h productRoot adapterRoot mode =
     bindI (throw_ifI (adapterRoot = []) (Err ''WORK_CONFIG_ROOT_REQUIRED'' [])) (\<lambda>_.
     bindI (throw_ifI (mode \<noteq> ''sync'' \<and> mode \<noteq> ''check'') (Err ''WORK_CONFIG_MODE_INVALID'' [])) (\<lambda>_.
     let q = \<lparr>sy_product = productRoot, sy_root = path_resolve (h_cwd h) adapterRoot, sy_mode = mode\<rparr> in
     bindI (tryI (acquireWorkRepoLock h (sy_root q) True True)) (\<lambda>r. case r of
       Inl e \<Rightarrow> sync_failed h q [] None e
     | Inr lock \<Rightarrow> finallyI (sync_body h q) (release lock))))"

definition run_work_config_sync :: "host \<Rightarrow> string list \<Rightarrow> jsval io" where
  "run_work_config_sync h argv =
     bindI (liftI (parseArgs argv)) (\<lambda>args.
     runWorkConfigSync h (h_repo_root h) (workRoot h (arg args ''work_root'')) (arg_or args ''mode'' ''sync''))"

end
