(* ===== verification/Config_Sync_Props.thy ===== *)
theory Config_Sync_Props
  imports Work_Agent_Props Config_Sync
begin

text \<open>
  What the synchronisation of the adapter did: under the lock, at most one commit, of the adapter
  alone, and at the end the adapter agrees with the canonical contracts; or, after a failure, the
  repository is reset to the head it started from.
\<close>

section \<open>The lock\<close>

context launching
begin

lemma only_sync_failed: "only P (sync_failed h q head r e)"
  unfolding sync_failed_def by (intro only_rules only_rolled_back only_emit)

end

lemma lock_kept_files [simp]: "lock_kept (WriteFile p t)" "lock_kept (Rename p p')" "lock_kept (Mkdir p b)"
  by simp_all

lemma lock_kept_sync: "only lock_kept (sync_body h q)"
proof -
  have r: "only lock_kept (readProjectConfig p)" "only lock_kept (readCanonicalContracts p)" "only lock_kept (canonicalDigest h p)" for p
    unfolding canonicalDigest_def readCanonicalContracts_def readProjectConfig_def read_role_def case_prod_beta Let_def
    by (intro only_rules only_files; simp)+
  have a: "only lock_kept (syncWorkAdapter h p root' c)" for p root' c
    unfolding syncWorkAdapter_def renderWorkAdapter_def differs_def writeFileAtomic_def Let_def
    by (intro only_rules only_files r lock_kept_files) simp_all
  have c: "only lock_kept (sync_commit h root')" for root'
    unfolding sync_commit_def validateWorkRepository_def
    by (intro only_rules only_git only_git_env only_spawn only_agent_changed) simp_all
  show ?thesis
    unfolding sync_body_def sync_adapter_def sync_rest_def check_hook_def validateWorkRepository_def Let_def
    by (intro only_rules only_sum only_tryI only_git only_files only_spawn only_sync_failed only_agent_changed only_emit a c)
      simp_all
qed

interpretation config_sync: locked_transaction h "sy_root q" True "Ret ()" "\<lambda>_. Ret ()" "\<lambda>_ _. sync_body h q" for h q
  by unfold_locales (simp_all add: lock_kept_sync)

text \<open>A run of the synchronisation is a run of that transaction, or it was refused the lock.\<close>

definition sync_request_of :: "host \<Rightarrow> string \<Rightarrow> string \<Rightarrow> string \<Rightarrow> sync_request" where
  "sync_request_of h productRoot adapterRoot mode = \<lparr>sy_product = productRoot, sy_root = path_resolve (h_cwd h) adapterRoot, sy_mode = mode\<rparr>"

lemma sync_failed_throws [simp]: "\<not> runs (sync_failed h q head r e) es (Inr x)"
  unfolding sync_failed_def by (simp add: runs_bindI_ok [of "if _ then _ else _"])

lemma runWorkConfigSync_ok:
  assumes "runs (runWorkConfigSync h productRoot adapterRoot mode) es (Inr ev)"
  shows "runs (transaction h (path_resolve (h_cwd h) adapterRoot) True (Ret ()) (\<lambda>_. Ret ()) (\<lambda>_ _. sync_body h (sync_request_of h productRoot adapterRoot mode))) es (Inr ev)"
    and "mode = ''sync'' \<or> mode = ''check''"
proof -
  let ?q = "sync_request_of h productRoot adapterRoot mode"
  from assms have m: "mode = ''sync'' \<or> mode = ''check''" and r: "runs (bindI (tryI (acquireWorkRepoLock h (sy_root ?q) True True))
      (\<lambda>r. case r of Inl e \<Rightarrow> sync_failed h ?q [] None e | Inr lock \<Rightarrow> finallyI (sync_body h ?q) (release lock))) es (Inr ev)"
    unfolding runWorkConfigSync_def Let_def sync_request_of_def by (auto elim!: runs_guard_okE)
  show "mode = ''sync'' \<or> mode = ''check''" by (rule m)
  from r obtain e1 e2 o1 where a: "es = e1 @ e2" "runs (acquireWorkRepoLock h (sy_root ?q) True True) e1 o1"
    "runs (case o1 of Inl e \<Rightarrow> sync_failed h ?q [] None e | Inr lock \<Rightarrow> finallyI (sync_body h ?q) (release lock)) e2 (Inr ev)"
    by (auto elim!: runs_bind_okE runs_tryI)
  then obtain lock where l: "o1 = Inr lock" by (cases o1) auto
  then show "runs (transaction h (path_resolve (h_cwd h) adapterRoot) True (Ret ()) (\<lambda>_. Ret ()) (\<lambda>_ _. sync_body h ?q)) es (Inr ev)"
    using a unfolding transaction_def bindI.simps runs_bindI_ok sync_request_of_def by auto
qed

section \<open>A run that returns\<close>

definition config_file :: "string \<Rightarrow> string" where
  "config_file rootdir = path_join (path_join rootdir ''.codex'') ''config.toml''"

text \<open>The adapter is what the contracts render to.\<close>

definition adapter_agrees :: "host \<Rightarrow> sync_request \<Rightarrow> event list \<Rightarrow> bool" where
  "adapter_agrees h q es \<longleftrightarrow> (\<exists>e wanted. runs (renderWorkAdapter h (sy_product q) (sy_root q)) e (Inr wanted) \<and> prefix e es
     \<and> (ReadFile (config_file (sy_root q)), RText wanted) \<in> set es)"

lemma differs_ok: "runs (differs target wanted) es (Inr False) \<Longrightarrow> (ReadFile target, RText wanted) \<in> set es"
  unfolding differs_def by (auto elim!: runs_bind_okE simp: file_runs_ok split: if_splits)

lemma sync_check_ok:
  assumes "runs (syncWorkAdapter h (sy_product q) (sy_root q) True) es (Inr r)"
  shows "adapter_agrees h q es"
proof -
  from assms obtain e1 wanted e2 e3 digest where e: "es = e1 @ e2 @ e3" "runs (renderWorkAdapter h (sy_product q) (sy_root q)) e1 (Inr wanted)"
    "runs (differs (path_join (path_join (sy_root q) ''.codex'') ''config.toml'') wanted) e2 (Inr False)"
    "runs (canonicalDigest h (sy_product q)) e3 (Inr digest)"
    unfolding syncWorkAdapter_def Let_def if_True by - (elim ok_elims, rule that, (assumption | simp)+)
  have "(ReadFile (config_file (sy_root q)), RText wanted) \<in> set es" using differs_ok [OF e(3)] by (simp add: e(1) config_file_def)
  moreover have "prefix e1 es" by (simp add: e(1))
  ultimately show ?thesis unfolding adapter_agrees_def using e(2) by blast
qed

definition sync_commit_op :: "host \<Rightarrow> string \<Rightarrow> op" where
  "sync_commit_op h rootdir = Spawn ''git'' [''commit'', ''-m'', ''governance: sync work adapter''] rootdir (sync_env h)"

text \<open>The adapter is the only change; it is staged, validated and committed.\<close>

definition adapter_committed :: "host \<Rightarrow> string \<Rightarrow> string \<Rightarrow> event list \<Rightarrow> bool" where
  "adapter_committed h rootdir commit es \<longleftrightarrow> (\<exists>a t1 u1 v t2 u2 t3 u3.
     es = a @ [(Spawn ''git'' [''add'', ''--'', ''.codex/config.toml''] rootdir [], RProc (Some 0) t1 u1)] @ v
       @ [(sync_commit_op h rootdir, RProc (Some 0) t2 u2), (head_op rootdir, RProc (Some 0) t3 u3)]
   \<and> runs (agent_changed rootdir) a (Inr [''.codex/config.toml'']) \<and> work_validated h rootdir v \<and> js_trim t3 = commit)"

lemma validateWorkRepository_ok: "runs (validateWorkRepository h rootdir) es (Inr u) \<Longrightarrow> work_validated h rootdir es"
  unfolding validateWorkRepository_def case_prod_beta work_validated_def
  by (auto elim!: runs_bind_okE simp: spawn_ok split: if_splits)

lemma sync_commit_ok:
  assumes "runs (sync_commit h rootdir) es (Inr commit)"
  shows "adapter_committed h rootdir commit es"
proof -
  from assms obtain a changed b x v u c y d where e: "es = a @ b @ v @ c @ d" "runs (agent_changed rootdir) a (Inr changed)"
    "changed = WORK_CONFIG_ALLOWED_PATHS" "runs (git rootdir ([''add'', ''--''] @ WORK_CONFIG_ALLOWED_PATHS)) b (Inr x)"
    "runs (validateWorkRepository h rootdir) v (Inr u)"
    "runs (git_env (sync_env h) rootdir [''commit'', ''-m'', ''governance: sync work adapter'']) c (Inr y)"
    "runs (git rootdir [''rev-parse'', ''HEAD'']) d (Inr commit)"
    unfolding sync_commit_def by - (elim ok_elims, rule that, (assumption | simp)+)
  from e(4) obtain t1 u1 where b: "b = [(Spawn ''git'' [''add'', ''--'', ''.codex/config.toml''] rootdir [], RProc (Some 0) t1 u1)]"
    by (auto simp: git_runs_ok WORK_CONFIG_ALLOWED_PATHS_def)
  from e(6) obtain t2 u2 where c: "c = [(sync_commit_op h rootdir, RProc (Some 0) t2 u2)]" by (auto simp: git_env_runs_ok sync_commit_op_def)
  from e(7) obtain t3 u3 where d: "d = [(head_op rootdir, RProc (Some 0) t3 u3)]" "js_trim t3 = commit" by (auto simp: git_runs_ok head_op_def)
  have "es = a @ [(Spawn ''git'' [''add'', ''--'', ''.codex/config.toml''] rootdir [], RProc (Some 0) t1 u1)] @ v
      @ [(sync_commit_op h rootdir, RProc (Some 0) t2 u2), (head_op rootdir, RProc (Some 0) t3 u3)]"
    by (simp add: e(1) b c d(1))
  then show ?thesis unfolding adapter_committed_def
    using validateWorkRepository_ok [OF e(5)] e(2) [unfolded e(3) WORK_CONFIG_ALLOWED_PATHS_def] d(2) by blast
qed

text \<open>What happened between the acquisition of the lock and its release.\<close>

definition config_synced :: "host \<Rightarrow> sync_request \<Rightarrow> event list \<Rightarrow> bool" where
  "config_synced h q es \<longleftrightarrow> (\<exists>head adapter result commit co agree v t u left out.
     es = head @ adapter @ co @ agree @ v @ [(head_op (sy_root q), RProc (Some 0) t u)] @ left @ out
   \<and> runs (sync_adapter h q) adapter (Inr result)
   \<and> (if sy_mode q = ''sync'' \<and> ad_changed result
      then adapter_committed h (sy_root q) commit co else co = [] \<and> answered (head_op (sy_root q)) commit head)
   \<and> adapter_agrees h q agree \<and> work_validated h (sy_root q) v \<and> js_trim t = commit
   \<and> runs (agent_changed (sy_root q)) left (Inr []) \<and> list_all (\<lambda>e. \<exists>t. fst e = Stdout t) out)"

lemma sync_rest_ok:
  assumes "runs (sync_rest h q head result) es (Inr ev)"
  obtains commit co agree r v u hd now left st out where "es = co @ agree @ v @ hd @ left @ out"
    and "runs (if sy_mode q = ''sync'' \<and> ad_changed result then bindI (sync_commit h (sy_root q)) (\<lambda>c. Ret (Some c)) else Ret None) co (Inr commit)"
    and "runs (syncWorkAdapter h (sy_product q) (sy_root q) True) agree (Inr r)" and "runs (validateWorkRepository h (sy_root q)) v (Inr u)"
    and "runs (git (sy_root q) [''rev-parse'', ''HEAD'']) hd (Inr now)" and "now = (case commit of None \<Rightarrow> head | Some c \<Rightarrow> c)"
    and "runs (agent_changed (sy_root q)) left (Inr st)" and "st = []" and "\<exists>v u. runs (emit_json h v) out (Inr u)"
  using assms unfolding sync_rest_def Let_def by - (elim ok_elims, rule that, (assumption | simp | rule exI)+)

lemma sync_body_ok:
  assumes "runs (sync_body h q) es (Inr ev)"
  shows "config_synced h q es"
proof -
  from assms obtain e1 e2 o1 where a: "es = e1 @ e2" "runs (git (sy_root q) [''rev-parse'', ''HEAD'']) e1 o1"
    "runs (case o1 of Inl e \<Rightarrow> sync_failed h q [] None e | Inr head \<Rightarrow> bindI (tryI (sync_adapter h q)) (\<lambda>r. case r of
        Inl e \<Rightarrow> sync_failed h q head None e
      | Inr result \<Rightarrow> catchI (sync_rest h q head result) (sync_failed h q head (Some result)))) e2 (Inr ev)"
    unfolding sync_body_def by (auto elim!: runs_bind_okE runs_tryI)
  then obtain head where head: "o1 = Inr head" by (cases o1) auto
  from a(3) [unfolded head sum.case] obtain e3 e4 o2 where b: "e2 = e3 @ e4" "runs (sync_adapter h q) e3 o2"
    "runs (case o2 of Inl e \<Rightarrow> sync_failed h q head None e
      | Inr result \<Rightarrow> catchI (sync_rest h q head result) (sync_failed h q head (Some result))) e4 (Inr ev)"
    by (auto elim!: runs_bind_okE runs_tryI)
  then obtain result where result: "o2 = Inr result" by (cases o2) auto
  from b(3) [unfolded result sum.case] have "runs (sync_rest h q head result) e4 (Inr ev)" by (elim runs_catch_rethrow) simp
  then show ?thesis
  proof (cases rule: sync_rest_ok)
    case (1 commit co agree r v u hd now left st out)
    from 1(5) obtain t w where hd: "hd = [(head_op (sy_root q), RProc (Some 0) t w)]" "js_trim t = now" by (auto simp: git_runs_ok head_op_def)
    have co: "if sy_mode q = ''sync'' \<and> ad_changed result then adapter_committed h (sy_root q) now co
        else co = [] \<and> answered (head_op (sy_root q)) now e1"
      using 1(2,6) a(2) sync_commit_ok by (auto simp: head git_runs_ok head_op_def elim!: runs_bind_okE)
    have out: "list_all (\<lambda>e. \<exists>t. fst e = Stdout t) out" using 1(9) by (auto simp: emit_runs)
    have es: "es = e1 @ e3 @ co @ agree @ v @ [(head_op (sy_root q), RProc (Some 0) t w)] @ left @ out"
      by (simp add: a(1) b(1) 1(1) hd(1))
    note facts = es b(2) [unfolded result] co sync_check_ok [OF 1(3)] validateWorkRepository_ok [OF 1(4)] hd(2) 1(7) [unfolded 1(8)] out
    show ?thesis unfolding config_synced_def
      by (rule exI [of _ e1], rule exI [of _ e3], rule exI [of _ result], rule exI [of _ now], rule exI [of _ co], rule exI [of _ agree],
        rule exI [of _ v], rule exI [of _ t], rule exI [of _ w], rule exI [of _ left], rule exI [of _ out]) (intro conjI facts)
  qed
qed

lemma config_sync_done:
  assumes "runs (runWorkConfigSync h productRoot adapterRoot mode) es (Inr ev)"
  shows "\<exists>pre lock mid rel. es = pre @ mid @ [(Rm lock, rel)] \<and> held lock pre \<and> (\<forall>e \<in> set pre. \<not> git_write (fst e))
    \<and> config_synced h (sync_request_of h productRoot adapterRoot mode) mid"
proof -
  let ?q = "sync_request_of h productRoot adapterRoot mode"
  have "sy_root ?q = path_resolve (h_cwd h) adapterRoot" by (simp add: sync_request_of_def)
  note t = runWorkConfigSync_ok(1) [OF assms, folded this]
  from t show ?thesis
    by (rule config_sync.transaction_result [where q = ?q]) (use sync_body_ok in blast)
qed

text \<open>A failure after the head was read resets to it, in the mode that writes.\<close>

lemma sync_failed_resets:
  assumes "runs (sync_failed h q head r e) es out" "head \<noteq> []" "sy_mode q = ''sync''"
  shows "\<exists>r. (reset_op (sy_root q) head, r) \<in> set es"
proof -
  from assms(1,3) obtain e1 e2 out1 where "es = e1 @ e2" "runs (rolled_back (sy_root q) head e) e1 out1"
    unfolding sync_failed_def by (auto elim: runs_bind_first)
  then show ?thesis using rolled_back_resets assms(2) by fastforce
qed

end
