(* ===== verification/Task_Tools.thy ===== *)
theory Task_Tools
  imports Task_Start
begin

text \<open>
  The older single-purpose commands: the creation of a Task (scripts/task/create-task.mjs), the
  allocation and release of its worktree (scripts/task/worktree.mjs) and the set-up of a clone
  (scripts/task/init-work.mjs).
\<close>

section \<open>create-task\<close>

record creation =
  cr_root :: string
  cr_args :: args

definition creation_name :: "creation \<Rightarrow> string" where
  "creation_name c = ''tasks/'' @ js_string (arg (cr_args c) ''id'') @ ''-'' @ js_string (arg (cr_args c) ''slug'')"

definition creation_dir :: "creation \<Rightarrow> string" where
  "creation_dir c = path_join (cr_root c) (creation_name c)"

definition create_request :: "host \<Rightarrow> args \<Rightarrow> creation res" where
  "create_request h args =
     bindR (assertTaskId (arg args ''id'')) (\<lambda>_.
     bindR (assertSlug (arg args ''slug'')) (\<lambda>_.
     bindR (throw_if (\<not> truthy (arg args ''title'') \<or> \<not> truthy (arg args ''epic'')) (Err ''--title and --epic are required'' [])) (\<lambda>_.
     Inr \<lparr>cr_root = workRoot h (arg args ''work_root''), cr_args = args\<rparr>)))"

text \<open>\<open>xs?.some((x) => x.id === id)\<close>\<close>

definition some_with_id :: "jsval \<Rightarrow> jsval \<Rightarrow> bool res" where
  "some_with_id xs i = (if nullish xs then Inr False else case xs of JArr ys \<Rightarrow> known_id ys i | _ \<Rightarrow> Inl type_error)"

text \<open>The \<open>try\<close> block up to the assignment of \<open>taskDir\<close>: the backlog and the project.\<close>

definition create_check :: "host \<Rightarrow> creation \<Rightarrow> (jsval \<times> jsval) io" where
  "create_check h c = (let epic = arg (cr_args c) ''epic''; i = arg (cr_args c) ''id'' in
     bindI (read_yaml h (path_join (cr_root c) ''backlog.yaml'')) (\<lambda>backlog.
     bindI (read_yaml h (path_join (cr_root c) ''project.yaml'')) (\<lambda>project.
     bindI (liftI (bindR (js_get backlog ''epics'') (\<lambda>epics. some_with_id epics epic))) (\<lambda>known.
     bindI (throw_ifI (\<not> known) (Err ''Unknown epic'' [epic])) (\<lambda>_.
     bindI (liftI (some_with_id (js_field backlog ''tasks'') i)) (\<lambda>taken.
     bindI (throw_ifI taken (Err ''Task already exists'' [i])) (\<lambda>_. Ret (backlog, project))))))))"

definition created_task :: "creation \<Rightarrow> jsval" where
  "created_task c = (let args = cr_args c; or_text = (\<lambda>k d. if truthy (arg args k) then arg args k else JStr d) in
     JObj [(''id'', arg args ''id''), (''title'', arg args ''title''), (''type'', or_text ''type'' ''feature''),
       (''epic'', arg args ''epic''), (''status'', JStr ''backlog''), (''priority'', or_text ''priority'' ''P2''),
       (''estimate_points'', JNum 1), (''task_dir'', JStr (creation_name c)), (''depends_on'', JArr []), (''assignees'', JObj [])])"

definition create_write :: "host \<Rightarrow> creation \<Rightarrow> jsval \<times> jsval \<Rightarrow> string io" where
  "create_write h c bp = (let taskDir = creation_dir c; backlogFile = path_join (cr_root c) ''backlog.yaml'' in
     bindI (exists_path taskDir) (\<lambda>there.
     bindI (throw_ifI there (Err ''Task directory already exists'' [JStr taskDir])) (\<lambda>_.
     bindI (make_dir (path_dirname taskDir) True) (\<lambda>_.
     bindI (make_dir taskDir False) (\<lambda>_.
     bindI (liftI (bindR (js_get (snd bp) ''timezone'') (\<lambda>z. h_today h (if truthy z then z else JStr ''UTC'')))) (\<lambda>today.
     bindI (each_I (write_template h (template_values h (cr_args c) today) taskDir) REQUIRED_TASK_FILES) (\<lambda>_.
     bindI (writeYaml h backlogFile (push_task (created_task c) (fst bp))) (\<lambda>_.
     bindI (git (cr_root c) [''add'', ''backlog.yaml'', creation_name c]) (\<lambda>_.
     bindI (git (cr_root c) [''commit'', ''-m'', ''task: create '' @ js_string (arg (cr_args c) ''id'')]) (\<lambda>_.
     bindI (print_out (taskDir @ [newline])) (\<lambda>_. Ret taskDir)))))))))))"

definition restore_backlog :: "string \<Rightarrow> unit io" where
  "restore_backlog rootdir = catchI
     (bindI (git rootdir [''status'', ''--porcelain'', ''backlog.yaml'']) (\<lambda>st.
      if st = [] then Ret () else bindI (git rootdir [''restore'', ''--staged'', ''--worktree'', ''backlog.yaml'']) (\<lambda>_. Ret ())))
     (\<lambda>_. Ret ())"

text \<open>The \<open>catch\<close> block: it removes \<open>taskDir\<close>, once assigned, whoever made it.\<close>

definition create_failed :: "string \<Rightarrow> string option \<Rightarrow> js_error \<Rightarrow> string io" where
  "create_failed rootdir taskDir e =
     bindI (case taskDir of None \<Rightarrow> Ret () | Some d \<Rightarrow> bindI (exists_path d) (\<lambda>there. if there then remove d else Ret ())) (\<lambda>_.
     bindI (restore_backlog rootdir) (\<lambda>_. Throw e))"

definition create_body :: "host \<Rightarrow> creation \<Rightarrow> string io" where
  "create_body h c = bindI (tryI (create_check h c)) (\<lambda>r. case r of
     Inl e \<Rightarrow> create_failed (cr_root c) None e
   | Inr bp \<Rightarrow> catchI (create_write h c bp) (create_failed (cr_root c) (Some (creation_dir c))))"

definition create_task :: "host \<Rightarrow> args \<Rightarrow> string io" where
  "create_task h args = bindI (liftI (create_request h args)) (\<lambda>c.
     transaction h (cr_root c) True (Ret ()) (\<lambda>_. Ret ()) (\<lambda>_ _. create_body h c))"

section \<open>worktree\<close>

record worktree_request =
  wt_root :: string
  wt_action :: string
  wt_backlog :: jsval
  wt_project :: jsval
  wt_task :: jsval
  wt_branch :: string
  wt_relative :: string
  wt_path :: string

text \<open>An argument of git has to be a string.\<close>

definition text_arg :: "jsval \<Rightarrow> string res" where
  "text_arg v = (case v of JStr s \<Rightarrow> Inr s | _ \<Rightarrow> Inl type_error)"

definition task_slug :: "string \<Rightarrow> string \<Rightarrow> string" where
  "task_slug i taskDir = (let p = ''tasks/'' @ i @ ''-'' in if starts_with taskDir p then drop (length p) taskDir else taskDir)"

definition worktree_request_of :: "host \<Rightarrow> args \<Rightarrow> worktree_request io" where
  "worktree_request_of h args = (let rootdir = workRoot h (arg args ''work_root''); action = js_string (arg args ''action'') in
     bindI (liftI (assertTaskId (arg args ''task''))) (\<lambda>_.
     bindI (throw_ifI (action \<noteq> ''create'' \<and> action \<noteq> ''remove'') (Err ''--action must be create or remove'' [])) (\<lambda>_.
     bindI (read_yaml h (path_join rootdir ''backlog.yaml'')) (\<lambda>backlog.
     bindI (read_yaml h (path_join rootdir ''project.yaml'')) (\<lambda>project.
     bindI (liftI (taskById backlog (arg args ''task''))) (\<lambda>task.
     bindI (liftI (text_arg (js_field task ''task_dir''))) (\<lambda>taskDir.
     let i = js_string (js_field task ''id''); name = i @ ''-'' @ task_slug i taskDir in
     bindI (liftI (bindR (js_get project ''worktree_root'') (\<lambda>w. if truthy w then text_arg w else Inr ''worktrees''))) (\<lambda>base.
     let relative = path_join base name in
     bindI (liftI (resolveInside rootdir (JStr relative) ''worktree path'')) (\<lambda>absolute.
     Ret \<lparr>wt_root = rootdir, wt_action = action, wt_backlog = backlog, wt_project = project, wt_task = task,
       wt_branch = ''task/'' @ name, wt_relative = relative, wt_path = absolute\<rparr>)))))))))"

definition create_allowed :: "jsval \<Rightarrow> unit res" where
  "create_allowed task = (let i = js_field task ''id''; a = js_field task ''assignees'' in
     bindR (throw_if (js_field task ''status'' \<noteq> JStr ''plan'') (Err ''worktree creation requires status plan'' [i])) (\<lambda>_.
     bindR (throw_if (truthy (js_field task ''branch'') \<or> truthy (js_field task ''worktree'')) (Err ''branch or worktree is already assigned'' [i])) (\<lambda>_.
     bindR (each_R (\<lambda>role. throw_if (\<not> truthy (js_opt a role)) (Err ''missing assignees'' [i, JStr role]))
         [''main'', ''planner'', ''dev'', ''reviewer'', ''qa'']) (\<lambda>_.
     throw_if (js_seq (js_field a ''dev'') (js_field a ''reviewer'') \<or> js_seq (js_field a ''dev'') (js_field a ''qa''))
       (Err ''DEV Agent must differ from Reviewer and QA Agents'' [i])))))"

definition sparse_worktree :: "host \<Rightarrow> string \<Rightarrow> unit io" where
  "sparse_worktree h worktree =
     bindI (git worktree [''sparse-checkout'', ''init'', ''--no-cone'']) (\<lambda>_.
     bindI (git worktree [''rev-parse'', ''--git-path'', ''info/sparse-checkout'']) (\<lambda>file.
     bindI (write_file (path_resolve (h_cwd h) (posix_normalize file)) sparse_text) (\<lambda>_.
     bindI (git worktree [''read-tree'', ''-mu'', ''HEAD'']) (\<lambda>_. Ret ()))))"

definition commit_backlog :: "host \<Rightarrow> worktree_request \<Rightarrow> (jsval \<Rightarrow> jsval) \<Rightarrow> string \<Rightarrow> unit io" where
  "commit_backlog h w change message =
     bindI (writeYaml h (path_join (wt_root w) ''backlog.yaml'') (update_task (js_field (wt_task w) ''id'') change (wt_backlog w))) (\<lambda>_.
     bindI (git (wt_root w) [''add'', ''backlog.yaml'']) (\<lambda>_.
     bindI (git (wt_root w) [''commit'', ''-m'', message @ js_string (js_field (wt_task w) ''id'')]) (\<lambda>_. Ret ())))"

definition add_worktree :: "worktree_request \<Rightarrow> unit io" where
  "add_worktree w =
     bindI (liftI (create_allowed (wt_task w))) (\<lambda>_.
     bindI (liftI (bindR (js_get (wt_project w) ''default_branch'') text_arg)) (\<lambda>main.
     bindI (git (wt_root w) [''worktree'', ''add'', ''-b'', wt_branch w, wt_path w, main]) (\<lambda>_. Ret ())))"

definition allocate :: "host \<Rightarrow> worktree_request \<Rightarrow> unit io" where
  "allocate h w =
     bindI (sparse_worktree h (wt_path w)) (\<lambda>_.
     bindI (commit_backlog h w
       (\<lambda>t. js_set ''status'' (JStr ''dev'') (js_set ''worktree'' (JStr (wt_relative w)) (js_set ''branch'' (JStr (wt_branch w)) t)))
       ''task: allocate worktree '') (\<lambda>_.
     print_out (wt_path w @ [newline])))"

text \<open>The checks of a removal: the assigned path, the branch and its head.\<close>

definition remove_checks :: "worktree_request \<Rightarrow> (string \<times> string) io" where
  "remove_checks w = (let task = wt_task w; i = js_field task ''id''; status = js_field task ''status'' in
     bindI (throw_ifI (status \<noteq> JStr ''done'' \<and> status \<noteq> JStr ''cancelled'') (Err ''worktree removal requires status done or cancelled'' [i])) (\<lambda>_.
     bindI (throw_ifI (\<not> truthy (js_field task ''branch'') \<or> \<not> truthy (js_field task ''worktree'')) (Err ''no branch and worktree are assigned'' [i])) (\<lambda>_.
     bindI (liftI (resolveInside (wt_root w) (js_field task ''worktree'') (js_string i @ '' worktree''))) (\<lambda>assigned.
     bindI (liftI (text_arg (js_field task ''branch''))) (\<lambda>branch.
     bindI (git (wt_root w) [''rev-parse'', branch]) (\<lambda>head.
     bindI (if status = JStr ''done'' then
         bindI (liftI (bindR (js_get (wt_project w) ''default_branch'') text_arg)) (\<lambda>main.
         bindI (git (wt_root w) [''merge-base'', ''--is-ancestor'', branch, main]) (\<lambda>_. Ret ())) else Ret ()) (\<lambda>_.
     bindI (git (wt_root w) [''worktree'', ''remove'', assigned]) (\<lambda>_. Ret (branch, head)))))))))"

definition delete_branch :: "worktree_request \<Rightarrow> string \<Rightarrow> unit io" where
  "delete_branch w branch = bindI (git (wt_root w) [''branch'',
     if js_field (wt_task w) ''status'' = JStr ''cancelled'' then ''-D'' else ''-d'', branch]) (\<lambda>_. Ret ())"

text \<open>The \<open>catch\<close> block: \<open>undo\<close> is what the flags \<open>created\<close>, \<open>removed\<close> and \<open>removedBranch\<close> call for.  Statuses
  of \<open>spawnSync\<close> are ignored, except that a failed restore is printed.\<close>

definition quiet_git :: "string \<Rightarrow> string list \<Rightarrow> unit io" where
  "quiet_git dir argv = bindI (spawn_status ''git'' argv dir []) (\<lambda>_. Ret ())"

definition undo_create :: "worktree_request \<Rightarrow> unit io" where
  "undo_create w = bindI (quiet_git (wt_root w) [''worktree'', ''remove'', ''--force'', wt_path w]) (\<lambda>_.
     quiet_git (wt_root w) [''branch'', ''-d'', wt_branch w])"

definition undo_remove :: "worktree_request \<Rightarrow> string option \<Rightarrow> unit io" where
  "undo_remove w head = bindI (case head of None \<Rightarrow> Ret () | Some b \<Rightarrow> quiet_git (wt_root w) [''branch'', wt_branch w, b]) (\<lambda>_.
     quiet_git (wt_root w) [''worktree'', ''add'', wt_path w, wt_branch w])"

definition worktree_failed :: "worktree_request \<Rightarrow> unit io \<Rightarrow> js_error \<Rightarrow> unit io" where
  "worktree_failed w undo e =
     bindI (git (wt_root w) [''status'', ''--porcelain'', ''backlog.yaml'']) (\<lambda>st.
     bindI (if st = [] then Ret () else
       bindI (spawn_status ''git'' [''restore'', ''--staged'', ''--worktree'', ''backlog.yaml''] (wt_root w) []) (\<lambda>(status, _, err).
       if status \<noteq> Some 0 then print_err err else Ret ())) (\<lambda>_.
     bindI undo (\<lambda>_. Throw e)))"

definition create_worktree :: "host \<Rightarrow> worktree_request \<Rightarrow> unit io" where
  "create_worktree h w = bindI (tryI (add_worktree w)) (\<lambda>r. case r of
     Inl e \<Rightarrow> worktree_failed w (Ret ()) e
   | Inr _ \<Rightarrow> catchI (allocate h w) (worktree_failed w (undo_create w)))"

definition remove_worktree :: "host \<Rightarrow> worktree_request \<Rightarrow> unit io" where
  "remove_worktree h w = bindI (tryI (remove_checks w)) (\<lambda>r. case r of
     Inl e \<Rightarrow> worktree_failed w (Ret ()) e
   | Inr (branch, head) \<Rightarrow> bindI (tryI (delete_branch w branch)) (\<lambda>r. case r of
       Inl e \<Rightarrow> worktree_failed w (undo_remove w None) e
     | Inr _ \<Rightarrow> catchI (commit_backlog h w (\<lambda>t. js_delete ''worktree'' (js_delete ''branch'' t)) ''task: release worktree '')
         (worktree_failed w (undo_remove w (Some head)))))"

definition worktree_body :: "host \<Rightarrow> worktree_request \<Rightarrow> unit io" where
  "worktree_body h w = (if wt_action w = ''create'' then create_worktree h w else remove_worktree h w)"

definition worktree_dry_run :: "host \<Rightarrow> worktree_request \<Rightarrow> unit io" where
  "worktree_dry_run h w = print_out (h_json_pretty h (JObj [(''action'', JStr (wt_action w)), (''task'', js_field (wt_task w) ''id''),
     (''branch'', JStr (wt_branch w)), (''worktree'', JStr (wt_path w))]) @ [newline])"

definition worktree_main :: "host \<Rightarrow> string list \<Rightarrow> unit io" where
  "worktree_main h argv =
     bindI (liftI (parseArgs argv)) (\<lambda>args.
     bindI (worktree_request_of h args) (\<lambda>w.
     if arg args ''dry_run'' = JStr ''true'' then worktree_dry_run h w
     else transaction h (wt_root w) True (Ret ()) (\<lambda>_. Ret ()) (\<lambda>_ _. worktree_body h w)))"

section \<open>init-work\<close>

definition init_work :: "host \<Rightarrow> string list \<Rightarrow> unit io" where
  "init_work h argv =
     bindI (liftI (parseArgs argv)) (\<lambda>args.
     let rootdir = workRoot h (arg args ''work_root''); hook = path_join (path_join rootdir ''.githooks'') ''pre-commit'' in
     bindI (exists_path (path_join rootdir ''.git'')) (\<lambda>repo.
     bindI (throw_ifI (\<not> repo) (Err ''is not a Git repository'' [JStr rootdir])) (\<lambda>_.
     bindI (exists_path hook) (\<lambda>there.
     bindI (throw_ifI (\<not> there) (Err ''is missing'' [JStr hook])) (\<lambda>_.
     bindI (git rootdir [''branch'', ''--show-current'']) (\<lambda>b.
     bindI (throw_ifI (b \<noteq> ''main'') (Err ''Work repository must use main'' [])) (\<lambda>_.
     bindI (change_mode hook ''755'') (\<lambda>_.
     bindI (git rootdir [''config'', ''core.hooksPath'', ''.githooks'']) (\<lambda>_.
     print_out (''Configured '' @ rootdir @ '' with core.hooksPath=.githooks'' @ [newline]))))))))))"

end
