(* ===== verification/Task_Tools_Props.thy ===== *)
theory Task_Tools_Props
  imports Task_Tools Work_Agent_Props
begin

text \<open>
  What the single-purpose commands do when they fail: the worktree command takes its worktree back;
  the creation of a Task removes the Task's directory even when it was there before.
\<close>

section \<open>Runs, one step at a time\<close>

lemma runs_bind_cases:
  assumes "runs (bindI m f) es out"
  obtains (fails) e where "runs m es (Inl e)" "out = Inl e"
  | (goes) e1 e2 x where "es = e1 @ e2" "runs m e1 (Inr x)" "runs (f x) e2 out"
  using assms unfolding runs_bindI by blast

lemma spawn_status_event: "runs (spawn_status cmd args dir env) es out \<Longrightarrow> \<exists>r x. es = [(Spawn cmd args dir env, r)] \<and> out = Inr x"
  unfolding spawn_status_def runs_Op_iff by (elim exE conjE) (rename_tac r es', case_tac r, auto)

section \<open>The worktree command\<close>

lemma only_worktree_failed: "only lock_kept undo \<Longrightarrow> only lock_kept (worktree_failed w undo e)"
  unfolding worktree_failed_def by (intro only_rules only_git only_spawn_status only_files) simp_all

lemma lock_kept_worktree: "only lock_kept (worktree_body h w)"
proof -
  have u: "only lock_kept (undo_create w)" "only lock_kept (undo_remove w head)" for head
    unfolding undo_create_def undo_remove_def quiet_git_def by (intro only_rules only_spawn_status; simp)+
  have c: "only lock_kept (commit_backlog h w f m)" for f m
    unfolding commit_backlog_def writeYaml_def writeFileAtomic_def Let_def by (intro only_rules only_git only_files) simp_all
  show ?thesis
    unfolding worktree_body_def create_worktree_def remove_worktree_def add_worktree_def allocate_def sparse_worktree_def
      remove_checks_def delete_branch_def Let_def
    by (intro only_rules only_sum only_tryI only_git only_files only_worktree_failed u c) simp_all
qed

interpretation worktree: locked_transaction h "wt_root w" True "Ret ()" "\<lambda>_. Ret ()" "\<lambda>_ _. worktree_body h w" for h w
  by unfold_locales (simp_all add: lock_kept_worktree)

definition added_op :: "worktree_request \<Rightarrow> string \<Rightarrow> op" where
  "added_op w main = Spawn ''git'' [''worktree'', ''add'', ''-b'', wt_branch w, wt_path w, main] (wt_root w) []"

definition removal_op :: "worktree_request \<Rightarrow> op" where
  "removal_op w = Spawn ''git'' [''worktree'', ''remove'', ''--force'', wt_path w] (wt_root w) []"

definition status_op :: "string \<Rightarrow> op" where
  "status_op rootdir = Spawn ''git'' [''status'', ''--porcelain'', ''backlog.yaml''] rootdir []"

lemma quiet_git_event: "runs (quiet_git dir args) es out \<Longrightarrow> \<exists>r. es = [(Spawn ''git'' args dir [], r)]"
  unfolding quiet_git_def by (elim runs_bind_cases) (auto dest!: spawn_status_event)

lemma worktree_failed_undoes:
  assumes "runs (worktree_failed w undo e) es out"
  shows "(\<exists>r. (status_op (wt_root w), r) \<in> set es \<and> (\<forall>t u. r \<noteq> RProc (Some 0) t u))
    \<or> (\<exists>e1 e2 o'. es = e1 @ e2 \<and> runs undo e2 o')"
proof -
  let ?restore = "\<lambda>st. if st = [] then Ret () else
     bindI (spawn_status ''git'' [''restore'', ''--staged'', ''--worktree'', ''backlog.yaml''] (wt_root w) []) (\<lambda>(status, _, err).
     if status \<noteq> Some 0 then print_err err else Ret ())"
  have quiet: "\<not> runs (?restore st) x (Inl y)" for st x y
    by (auto elim!: runs_bind_cases dest!: spawn_status_event simp: print_err_def split: if_splits)
  from assms show ?thesis unfolding worktree_failed_def
  proof (cases rule: runs_bind_cases)
    case (fails e')
    then show ?thesis by (auto simp: git_def status_op_def dest!: git_env_failed)
  next
    case (goes e1 e2 st)
    from goes(3) obtain e3 e4 u where "e2 = e3 @ e4" "runs (bindI undo (\<lambda>_. Throw e)) e4 out"
      by (cases rule: runs_bind_cases) (use quiet in blast)+
    moreover from this(2) obtain o' where "runs undo e4 o'" by (cases rule: runs_bind_cases) auto
    ultimately show ?thesis using goes(1) by (metis append_assoc)
  qed
qed

lemma undo_create_removes: "runs (undo_create w) es out \<Longrightarrow> \<exists>r. (removal_op w, r) \<in> set es"
  unfolding undo_create_def removal_op_def by (auto elim!: runs_bind_first dest!: quiet_git_event)

text \<open>A failed allocation asks git to remove the worktree it had made, unless the handler's own check failed.\<close>

lemma create_worktree_undone:
  assumes "runs (create_worktree h w) es (Inl e)" "(added_op w main, RProc (Some 0) t u) \<in> set es"
  shows "(\<exists>r. (removal_op w, r) \<in> set es) \<or> (\<exists>r. (status_op (wt_root w), r) \<in> set es \<and> (\<forall>t u. r \<noteq> RProc (Some 0) t u))"
proof -
  from assms(1) obtain e1 e2 o1 where a: "es = e1 @ e2" "runs (add_worktree w) e1 o1"
    "runs (case o1 of Inl e \<Rightarrow> worktree_failed w (Ret ()) e | Inr _ \<Rightarrow> catchI (allocate h w) (worktree_failed w (undo_create w))) e2 (Inl e)"
    unfolding create_worktree_def runs_bindI [of "tryI _"] by (auto elim!: runs_tryI)
  show ?thesis
  proof (cases o1)
    case (Inr x)
    with a(3) obtain e3 e4 e' where c: "e2 = e3 @ e4" "runs (worktree_failed w (undo_create w) e') e4 (Inl e)"
      by (auto elim!: runs_catch_failed)
    from worktree_failed_undoes [OF c(2)] show ?thesis
    proof (elim disjE exE conjE)
      fix e5 e6 o' assume u: "e4 = e5 @ e6" "runs (undo_create w) e6 o'"
      from undo_create_removes [OF u(2)] obtain r where "(removal_op w, r) \<in> set e6" by blast
      then have "(removal_op w, r) \<in> set es" by (simp add: a(1) c(1) u(1))
      then show ?thesis by blast
    next
      fix r assume r: "(status_op (wt_root w), r) \<in> set e4" "\<forall>t u. r \<noteq> RProc (Some 0) t u"
      then have "(status_op (wt_root w), r) \<in> set es" by (simp add: a(1) c(1))
      then show ?thesis using r(2) by blast
    qed
  next
    case (Inl x)
    have no: "(added_op w main, RProc (Some 0) t u) \<notin> set e1"
    proof
      assume m: "(added_op w main, RProc (Some 0) t u) \<in> set e1"
      from a(2) [unfolded Inl] have "\<exists>m. runs (git (wt_root w) [''worktree'', ''add'', ''-b'', wt_branch w, wt_path w, m]) e1 (Inl x) \<or> e1 = []"
        unfolding add_worktree_def by (auto simp: runs_bindI)
      then show False using m by (auto simp: git_def added_op_def dest!: git_env_failed)
    qed
    have "only (\<lambda>p. p \<noteq> added_op w main) (worktree_failed w (Ret ()) x)"
      unfolding worktree_failed_def added_op_def by (intro only_rules only_git only_spawn_status only_files) simp_all
    from only_runs [OF this a(3) [unfolded Inl sum.case]] have "(added_op w main, RProc (Some 0) t u) \<notin> set e2" by fastforce
    then show ?thesis using no assms(2) a(1) by simp
  qed
qed

section \<open>The creation of a Task\<close>

text \<open>When the Task's directory is there at the start and stays, the command fails, has not made the directory, and
  removes it.\<close>

lemma create_removes_existing:
  assumes "runs (create_body h c) es out" and "\<exists>r. (Exists (creation_dir c), r) \<in> set es"
    and there: "\<forall>r. (Exists (creation_dir c), r) \<in> set es \<longrightarrow> r = RBool True"
  shows "(\<exists>r. (Rm (creation_dir c), r) \<in> set es) \<and> (\<forall>b r. (Mkdir (creation_dir c) b, r) \<notin> set es) \<and> (\<exists>e. out = Inl e)"
proof -
  have nm: "only (\<lambda>p. \<forall>b. p \<noteq> Mkdir (creation_dir c) b) (create_failed (cr_root c) d e)" for d e
    unfolding create_failed_def restore_backlog_def by (intro only_rules only_git only_files) simp_all
  have th: "\<exists>e'. o' = Inl e'" if "runs (create_failed (cr_root c) d e) x o'" for d e x o'
    using that unfolding create_failed_def by (cases o') (auto simp: runs_bindI_ok)
  have check: "only (\<lambda>p. \<exists>q. p = ReadFile q) (create_check h c)"
    unfolding create_check_def Let_def by (intro only_rules only_read_yaml) simp_all
  from assms(1) obtain e1 e2 o1 where a: "es = e1 @ e2" "runs (create_check h c) e1 o1"
    "runs (case o1 of Inl e \<Rightarrow> create_failed (cr_root c) None e
      | Inr bp \<Rightarrow> catchI (create_write h c bp) (create_failed (cr_root c) (Some (creation_dir c)))) e2 out"
    unfolding create_body_def runs_bindI [of "tryI _"] by (auto elim!: runs_tryI)
  have e1: "\<forall>e \<in> set e1. \<exists>q. fst e = ReadFile q" using only_runs [OF check a(2)] by blast
  show ?thesis
  proof (cases o1)
    case (Inl x)
    have "only (\<lambda>p. \<forall>q. p \<noteq> Exists q) (create_failed (cr_root c) None x)"
      unfolding create_failed_def restore_backlog_def option.case by (intro only_rules only_git) simp_all
    from only_runs [OF this a(3) [unfolded Inl sum.case]] show ?thesis using e1 assms(2) a(1) by fastforce
  next
    case (Inr bp)
    from runs_catchID [OF a(3) [unfolded Inr sum.case]] show ?thesis
    proof (elim disjE exE conjE)
      fix y assume w: "runs (create_write h c bp) e2 (Inr y)"
      then obtain r e5 where x: "e2 = (Exists (creation_dir c), r) # e5"
        unfolding create_write_def Let_def exists_path_def by auto
      then have "r = RBool True" using there a(1) by simp
      with w x show ?thesis unfolding create_write_def Let_def exists_path_def by (simp add: throw_ifI_def)
    next
      fix e3 e4 e assume w: "e2 = e3 @ e4" "runs (create_write h c bp) e3 (Inl e)"
        "runs (create_failed (cr_root c) (Some (creation_dir c)) e) e4 out"
      from w(2) obtain r e5 where x: "e3 = (Exists (creation_dir c), r) # e5"
        unfolding create_write_def Let_def exists_path_def by auto
      then have "r = RBool True" using there a(1) w(1) by simp
      with w(2) x have e3: "e3 = [(Exists (creation_dir c), RBool True)]"
        unfolding create_write_def Let_def exists_path_def by (simp add: throw_ifI_def)
      from w(3) obtain r' e6 where f: "e4 = (Exists (creation_dir c), r') # e6"
        unfolding create_failed_def exists_path_def option.case by auto
      then have "r' = RBool True" using there a(1) w(1) by simp
      with w(3) f have "\<exists>r. (Rm (creation_dir c), r) \<in> set e6"
        unfolding create_failed_def exists_path_def option.case remove_def by auto
      moreover have "\<forall>b r. (Mkdir (creation_dir c) b, r) \<notin> set e4" using only_runs [OF nm w(3)] by fastforce
      ultimately show ?thesis using th [OF w(3)] e1 unfolding a(1) w(1) e3 f by fastforce
    qed
  qed
qed

end
