(* ===== verification/Agent_Demo.thy ===== *)
theory Agent_Demo
  imports Config_Texts Config_Sync_Props Task_Tools_Props
begin

text \<open>
  Concrete runs of the launchers and of the single-purpose commands, at which their properties are applied.
\<close>

section \<open>The route of a review\<close>

text \<open>\<open>may m out\<close>: some run of \<open>m\<close> ends with \<open>out\<close>.\<close>

definition may :: "'a io \<Rightarrow> js_error + 'a \<Rightarrow> bool" where
  "may m out \<longleftrightarrow> (\<exists>es. runs m es out)"

lemma mayI: "runs m es out \<Longrightarrow> may m out"
  by (auto simp: may_def)

lemma may_ret: "may (Ret x) (Inr x)"
  by (rule mayI [of _ "[]"]) simp

lemma may_bind: "may m (Inr x) \<Longrightarrow> may (f x) out \<Longrightarrow> may (bindI m f) out"
  unfolding may_def by (blast intro: runs_bind_intro)

lemma may_try: "may m r \<Longrightarrow> may (tryI m) (Inr r)"
  unfolding may_def by (blast intro: runs_try_intro)

lemma may_catch: "may m (Inr x) \<Longrightarrow> may (catchI m g) (Inr x)"
  unfolding may_def by (blast intro: runs_catch_intro)

lemma may_finally: "may m (Inr x) \<Longrightarrow> may f (Inr u) \<Longrightarrow> may (finallyI m f) (Inr x)"
  unfolding may_def by (blast intro: runs_finally_intro)

lemma may_pass: "\<not> b \<Longrightarrow> may (f ()) out \<Longrightarrow> may (bindI (throw_ifI b e) f) out"
  by (simp add: throw_ifI_def)

lemma may_lift: "r = Inr x \<Longrightarrow> may (liftI r) (Inr x)"
  by (simp add: liftI_def may_ret)

lemma may_git: "may (git rootdir args) (Inr (js_trim t))"
  by (rule mayI [of _ "[(Spawn ''git'' args rootdir [], RProc (Some 0) t [])]"]) (simp add: git_runs_ok)

definition reviewer_route :: route where
  "reviewer_route = (''reviewer'', mk_contract ''terra-medium'' ''gpt-5.6-terra'' ''medium'' ''workspace-write'')"

lemma reviewer_route_resolved: "resolveFixedRoute ''review'' None [(''profile'', ''terra-medium'')] (Inr ROLE_CONTRACTS) = Inr reviewer_route"
  by code_simp

lemma route_runs: "may (fixed_route agent_host ''review'' ''/r/PLAN.md'' [(''profile'', ''terra-medium'')] ''/p'') (Inr reviewer_route)"
proof -
  have role: "roleForAction ''review'' None = Inr (Some ''reviewer'')" by code_simp
  have plan: "may (plan_for agent_host ''review'' ''/r/PLAN.md'') (Inr None)" by (simp add: plan_for_def may_ret)
  have contracts: "may (readCanonicalContracts ''/p'') (Inr ROLE_CONTRACTS)" using contracts_run by (simp add: may_def)
  show ?thesis
    unfolding fixed_route_def
    by (rule may_bind [OF plan], rule may_bind [OF may_lift [OF role]], rule may_pass, simp, rule may_bind [OF contracts],
      rule may_lift, rule reviewer_route_resolved)
qed

section \<open>Launches\<close>

definition config_env :: environment where
  "config_env past p = (case p of Exists q \<Rightarrow> RBool True | ReadFile q \<Rightarrow> RText [] | _ \<Rightarrow> ROk)"

definition agent_launch :: launch where
  "agent_launch = \<lparr>ln_root = ''/r'', ln_action = ''review'', ln_task = JObj [(''id'', JStr ''TASK-0001'')], ln_allowed = [''t/REVIEW_RESULT.md''],
     ln_route = (''reviewer'', mk_contract ''terra-medium'' ''gpt-5.6-terra'' ''medium'' ''workspace-write''), ln_command = [''exec'']\<rparr>"

text \<open>The child changes \<open>file\<close>; after the commit nothing is left.\<close>

definition agent_git :: "string \<Rightarrow> bool \<Rightarrow> string list \<Rightarrow> string" where
  "agent_git file committed args = (
     if args = [''branch'', ''--show-current''] then ''main''
     else if args = [''config'', ''--get'', ''core.hooksPath''] then ''.githooks''
     else if args = [''rev-parse'', ''--path-format=absolute'', ''--git-common-dir''] then ''/r/.git''
     else if args = [''rev-parse'', ''HEAD''] then (if committed then ''c1'' else ''c0'')
     else if args = [''diff'', ''--name-only''] then (if committed then [] else file)
     else [])"

definition committed_in :: "event list \<Rightarrow> bool" where
  "committed_in past = list_ex (\<lambda>e. case fst e of Spawn cmd args dir env \<Rightarrow> take 1 args = [''commit''] | _ \<Rightarrow> False) past"

definition child_env :: "int \<Rightarrow> environment" where
  "child_env status past p = (case p of
     Spawn cmd args dir env \<Rightarrow> if cmd = ''git'' then ok_text (agent_git ''t/REVIEW_RESULT.md'' (committed_in past) args)
       else RProc (Some (if cmd = ''codex'' then status else 0)) [] []
   | Exists q \<Rightarrow> RBool True | _ \<Rightarrow> ROk)"

definition agent_run :: "int \<Rightarrow> event list \<times> (js_error + string)" where
  "agent_run status = exec (child_env status) (launch_agent agent_host agent_launch) []"

lemma agent_run_runs: "runs (launch_agent agent_host agent_launch) (fst (agent_run n)) (snd (agent_run n))"
  unfolding agent_run_def by (rule exec_runs)

lemma agent_run_result: "snd (agent_run 0) = Inr ''c1''"
  by code_simp

lemma agent_run_fails: "snd (agent_run 3) = Inl (Err ''WORK_CHILD_FAILED'' [])
    \<and> (child_op agent_launch, RProc (Some 3) [] []) \<in> set (fst (agent_run 3))"
  by code_simp

section \<open>The synchronisation\<close>

lemma trimmed: "js_trim [] = []" "js_trim ''c0'' = ''c0''"
  by code_simp+

text \<open>The adapter is as it should be.\<close>

definition sync_environment :: environment where
  "sync_environment past p = (case p of
     Spawn cmd args dir env \<Rightarrow> if cmd = ''git'' then ok_text (agent_git [] False args) else ok_text []
   | Exists q \<Rightarrow> RBool True | _ \<Rightarrow> ROk)"

lemma sync_acquired: "snd (exec sync_environment (acquireWorkRepoLock agent_host ''/r'' True True) []) = Inr ''/r/.git/agent-harness-locks/work-repository.lock''"
  by code_simp

lemma contracts_may: "may (readCanonicalContracts ''/p'') (Inr ROLE_CONTRACTS)"
  using contracts_run by (simp add: may_def)

lemma digest_may: "may (canonicalDigest agent_host ''/p'') (Inr ''d'')"
proof -
  obtain v where "may (readProjectConfig ''/p'') (Inr v)" using project_runs by (auto simp: may_def)
  then show ?thesis unfolding canonicalDigest_def
    by (rule may_bind) (rule may_bind [OF contracts_may], simp add: agent_host_def may_ret)
qed

definition demo_target :: string where
  "demo_target = path_join (path_join ''/r'' ''.codex'') ''config.toml''"

lemma sync_check_may: "may (syncWorkAdapter agent_host ''/p'' ''/r'' True) (Inr \<lparr>ad_target = demo_target, ad_digest = ''d'', ad_changed = False\<rparr>)"
proof -
  obtain wanted where w: "may (renderWorkAdapter agent_host ''/p'' ''/r'') (Inr wanted)"
  proof
    show "may (renderWorkAdapter agent_host ''/p'' ''/r'') (Inr (adapter_text agent_host ''d''
      (path_relative (path_resolve (h_cwd agent_host) (path_join ''/r'' ''.codex''))
        (path_resolve (h_cwd agent_host) (path_join (path_join ''/p'' ''.codex'') ''agents'')))))"
      unfolding renderWorkAdapter_def Let_def by (rule may_bind [OF contracts_may]) (rule may_bind [OF digest_may may_ret])
  qed
  have "runs (differs demo_target wanted) [(Exists demo_target, RBool True), (ReadFile demo_target, RText wanted)] (Inr False)"
    by (simp add: differs_def exists_path_def read_file_def text_response_def)
  note d = mayI [OF this]
  show ?thesis
    unfolding syncWorkAdapter_def Let_def if_True demo_target_def [symmetric]
    by (rule may_bind [OF w], rule may_bind [OF d], rule may_pass, simp, rule may_bind [OF digest_may may_ret])
qed

lemma agent_changed_empty: "may (agent_changed ''/r'') (Inr [])"
proof -
  have g: "may (git ''/r'' args) (Inr [])" for args
    using may_git [of "''/r''" args "[]"] by (simp add: trimmed)
  have "may (agent_changed ''/r'') (Inr (uniq (lines_of [] @ lines_of [] @ lines_of [])))"
    unfolding agent_changed_def by (rule may_bind [OF g], rule may_bind [OF g], rule may_bind [OF g may_ret])
  then show ?thesis by (simp add: lines_of_def)
qed

lemma config_sync_runs: "\<exists>ev. may (runWorkConfigSync agent_host ''/p'' ''/r'' ''check'') (Inr ev)"
proof -
  let ?q = "\<lparr>sy_product = ''/p'', sy_root = ''/r'', sy_mode = ''check''\<rparr>"
  have root: "path_resolve (h_cwd agent_host) ''/r'' = ''/r''" by code_simp
  obtain lock where acq: "may (acquireWorkRepoLock agent_host ''/r'' True True) (Inr lock)"
    using mayI [OF exec_runs [of "acquireWorkRepoLock agent_host ''/r'' True True" sync_environment "[]"]] sync_acquired by metis
  have head: "may (git ''/r'' [''rev-parse'', ''HEAD'']) (Inr ''c0'')"
    using may_git [of "''/r''" _ "''c0''"] by (simp add: trimmed)
  have valid: "may (validateWorkRepository agent_host ''/r'') (Inr ())"
    by (rule mayI [of _ "[(Spawn (h_node agent_host) (validate_script agent_host ''/r'') (h_repo_root agent_host) [], RProc (Some 0) [] [])]"])
      (simp add: validateWorkRepository_def runs_bindI_ok spawn_ok case_prod_beta)
  have emit: "may (emit_json agent_host v) (Inr ())" for v
    by (rule mayI [of _ "[(Stdout (h_json_text agent_host v @ [newline]), ROk)]"]) (simp add: emit_runs)
  obtain r ev where adapter: "may (sync_adapter agent_host ?q) (Inr r)" and rest: "may (sync_rest agent_host ?q ''c0'' r) (Inr ev)"
  proof
    show "may (sync_adapter agent_host ?q) (Inr \<lparr>ad_target = demo_target, ad_digest = ''d'', ad_changed = False\<rparr>)"
      using sync_check_may by (simp add: sync_adapter_def)
    show "may (sync_rest agent_host ?q ''c0'' \<lparr>ad_target = demo_target, ad_digest = ''d'', ad_changed = False\<rparr>)
      (Inr (buildWorkConfigSyncEvidence ?q (Some \<lparr>ad_target = demo_target, ad_digest = ''d'', ad_changed = False\<rparr>) None None))"
      unfolding sync_rest_def Let_def
      by (rule may_bind [of _ None], simp add: may_ret, rule may_bind, simp, rule sync_check_may, rule may_bind, simp, rule valid,
        rule may_bind, simp, rule head, rule may_pass, simp, rule may_bind, simp, rule agent_changed_empty,
        rule may_pass, simp, rule may_bind, rule emit, rule may_ret)
  qed
  have head': "may (git (sy_root ?q) [''rev-parse'', ''HEAD'']) (Inr ''c0'')" using head by simp
  have body: "may (sync_body agent_host ?q) (Inr ev)"
    unfolding sync_body_def
    by (rule may_bind [OF may_try [OF head']], unfold sum.case, rule may_bind [OF may_try [OF adapter]], unfold sum.case, rule may_catch [OF rest])
  have rel: "may (release lock) (Inr ())"
    by (rule mayI [of _ "[(Rm lock, ROk)]"]) (simp add: release_def file_runs_ok)
  have acq': "may (acquireWorkRepoLock agent_host (sy_root ?q) True True) (Inr lock)" using acq by simp
  have "may (runWorkConfigSync agent_host ''/p'' ''/r'' ''check'') (Inr ev)"
    unfolding runWorkConfigSync_def Let_def root
    by (rule may_pass, simp, rule may_pass, simp, rule may_bind [OF may_try [OF acq']], unfold sum.case, rule may_finally [OF body rel])
  then show ?thesis by blast
qed

section \<open>The single-purpose commands\<close>

definition demo_creation :: creation where
  "demo_creation = \<lparr>cr_root = ''/r'', cr_args = [(''id'', ''TASK-0002''), (''slug'', ''x''), (''title'', ''X''), (''epic'', ''E'')]\<rparr>"

definition creation_host :: host where
  "creation_host = (demo_host 1)\<lparr>h_yaml := (\<lambda>s. Inr (JObj [(''epics'', JArr [JObj [(''id'', JStr ''E'')]]), (''tasks'', JArr [])]))\<rparr>"

definition creation_run :: "event list \<times> (js_error + string)" where
  "creation_run = exec config_env (create_body creation_host demo_creation) []"

definition all_there :: "event list \<Rightarrow> bool" where
  "all_there es = list_all (\<lambda>(p, r). case p of Exists q \<Rightarrow> r = RBool True | _ \<Rightarrow> True) es"

lemma creation_run_facts: "all_there (fst creation_run) \<and> (Exists (creation_dir demo_creation), RBool True) \<in> set (fst creation_run)"
  by code_simp

definition demo_worktree :: worktree_request where
  "demo_worktree = \<lparr>wt_root = ''/r'', wt_action = ''create'', wt_backlog = JObj [(''tasks'', JArr [])],
     wt_project = JObj [(''default_branch'', JStr ''main'')],
     wt_task = JObj [(''id'', JStr ''TASK-0001''), (''status'', JStr ''plan''), (''assignees'', JObj (map (\<lambda>r. (r, JStr r)) [''main'', ''planner'', ''dev'', ''reviewer'', ''qa'']))],
     wt_branch = ''task/TASK-0001-x'', wt_relative = ''worktrees/TASK-0001-x'', wt_path = ''/r/worktrees/TASK-0001-x''\<rparr>"

text \<open>Setting up the sparse checkout fails.\<close>

definition full_disk :: environment where
  "full_disk past p = (case p of Spawn cmd args dir env \<Rightarrow> ok_text [] | WriteFile q t \<Rightarrow> RErr ''ENOSPC'' | _ \<Rightarrow> ROk)"

definition worktree_run :: "event list \<times> (js_error + unit)" where
  "worktree_run = exec full_disk (create_worktree agent_host demo_worktree) []"

lemma worktree_run_facts: "snd worktree_run = Inl (Err ''ENOSPC'' []) \<and> (added_op demo_worktree ''main'', RProc (Some 0) [] []) \<in> set (fst worktree_run)"
  by code_simp

end
