(* ===== verification/Agent_Theorems.thy ===== *)
theory Agent_Theorems
  imports Agent_Demo
begin

text \<open>
  The properties of the launchers (scripts/task/run-work-agent.mjs, run-work-config-sync.mjs) and of the
  single-purpose commands (create-task.mjs, worktree.mjs), each with a run at which it applies.
\<close>

section \<open>Routes and launches\<close>



text \<open>C16: A launch that succeeds was made under the lock, and what it committed is what the child left: the child
  exited with 0, the branch, the index and the head were as before it, every file it changed is covered by a rule of
  the launch, exactly those files were staged, and the validator accepted the repository before the commit and again
  after it, when the work tree is clean.\<close>

theorem agent_commit_is_gated:
  assumes "runs (launch_agent h l) es (Inr commit)"
  shows "\<exists>pre lock mid rel. es = pre @ mid @ [(Rm lock, rel)] \<and> held lock pre \<and> (\<forall>e \<in> set pre. \<not> git_write (fst e))
     \<and> agent_committed h l commit mid"
  using assms unfolding launch_agent_def
  by (rule work_agent.transaction_result) (use agent_body_ok in blast)

theorem agent_commit_is_gated_witness:
  "\<exists>pre lock mid rel. fst (agent_run 0) = pre @ mid @ [(Rm lock, rel)] \<and> held lock pre \<and> (\<forall>e \<in> set pre. \<not> git_write (fst e))
     \<and> agent_committed agent_host agent_launch ''c1'' mid"
  using agent_commit_is_gated [OF agent_run_runs [of 0, unfolded agent_run_result]] .



section \<open>The generated adapter\<close>

text \<open>C19: A synchronisation of the adapter that succeeds was made under the lock; it committed the adapter and
  nothing else when it had changed in sync mode, and nothing otherwise; at the end the adapter agrees with the
  canonical configuration, the validator accepts the repository, the head is that commit, and the work tree is clean.\<close>

theorem config_sync_is_gated:
  assumes "runs (runWorkConfigSync h productRoot adapterRoot mode) es (Inr ev)"
  shows "\<exists>pre lock mid rel. es = pre @ mid @ [(Rm lock, rel)] \<and> held lock pre \<and> (\<forall>e \<in> set pre. \<not> git_write (fst e))
    \<and> config_synced h (sync_request_of h productRoot adapterRoot mode) mid"
  using assms by (rule config_sync_done)

theorem config_sync_is_gated_witness:
  "\<exists>es pre lock mid rel. es = pre @ mid @ [(Rm lock, rel)] \<and> held lock pre \<and> (\<forall>e \<in> set pre. \<not> git_write (fst e))
    \<and> config_synced agent_host (sync_request_of agent_host ''/p'' ''/r'' ''check'') mid"
proof -
  obtain es ev where "runs (runWorkConfigSync agent_host ''/p'' ''/r'' ''check'') es (Inr ev)"
    using config_sync_runs by (auto simp: may_def)
  from config_sync_is_gated [OF this] show ?thesis by blast
qed

section \<open>The single-purpose commands\<close>

text \<open>C25: When the directory of the Task is there already, \<open>create-task\<close> fails, and its clean-up removes
  the directory, which the command had not made.\<close>

theorem create_task_removes_existing_directory:
  assumes "runs (create_body h c) es out" and "\<exists>r. (Exists (creation_dir c), r) \<in> set es"
    and "\<forall>r. (Exists (creation_dir c), r) \<in> set es \<longrightarrow> r = RBool True"
  shows "(\<exists>r. (Rm (creation_dir c), r) \<in> set es) \<and> (\<forall>b r. (Mkdir (creation_dir c) b, r) \<notin> set es) \<and> (\<exists>e. out = Inl e)"
  using assms by (rule create_removes_existing)

theorem create_task_removes_existing_directory_witness:
  "(\<exists>r. (Rm (creation_dir demo_creation), r) \<in> set (fst creation_run))
     \<and> (\<forall>b r. (Mkdir (creation_dir demo_creation) b, r) \<notin> set (fst creation_run)) \<and> (\<exists>e. snd creation_run = Inl e)"
proof (rule create_task_removes_existing_directory)
  show "runs (create_body creation_host demo_creation) (fst creation_run) (snd creation_run)"
    unfolding creation_run_def by (rule exec_runs)
  show "\<exists>r. (Exists (creation_dir demo_creation), r) \<in> set (fst creation_run)" using creation_run_facts by blast
  show "\<forall>r. (Exists (creation_dir demo_creation), r) \<in> set (fst creation_run) \<longrightarrow> r = RBool True"
    using creation_run_facts by (auto simp: all_there_def list_all_iff)
qed

text \<open>C17: When \<open>worktree create\<close> fails after git had made the worktree, it asks git to remove it, unless the
  \<open>git status\<close> of the handler failed too: then the clean-up is skipped.\<close>

theorem failed_allocation_is_undone:
  assumes "runs (create_worktree h w) es (Inl e)" "(added_op w main, RProc (Some 0) t u) \<in> set es"
  shows "(\<exists>r. (removal_op w, r) \<in> set es) \<or> (\<exists>r. (status_op (wt_root w), r) \<in> set es \<and> (\<forall>t u. r \<noteq> RProc (Some 0) t u))"
  using assms by (rule create_worktree_undone)

theorem failed_allocation_is_undone_witness:
  "(\<exists>r. (removal_op demo_worktree, r) \<in> set (fst worktree_run))
    \<or> (\<exists>r. (status_op ''/r'', r) \<in> set (fst worktree_run) \<and> (\<forall>t u. r \<noteq> RProc (Some 0) t u))"
proof -
  have "runs (create_worktree agent_host demo_worktree) (fst worktree_run) (Inl (Err ''ENOSPC'' []))"
    using exec_runs [of "create_worktree agent_host demo_worktree" full_disk "[]"] worktree_run_facts by (simp add: worktree_run_def)
  from failed_allocation_is_undone [OF this conjunct2 [OF worktree_run_facts]] show ?thesis by (simp add: demo_worktree_def)
qed

end
