(* ===== verification/Explorer.thy ===== *)
theory Explorer
  imports Work_Agent
begin

text \<open>
  The Explorer's launcher (scripts/task/run-explorer-agent.mjs): one bounded question, a read-only
  child, evidence on the standard output.
\<close>

definition explorer_prompt :: "host \<Rightarrow> string \<Rightarrow> string" where
  "explorer_prompt h question = join_char (CHR '' '')
     [''Act as the Explorer Agent for one bounded local repository question.'',
      ''Question: '' @ h_json_text h (JStr question),
      ''Use targeted read-only searches and file reads only.'',
      ''Do not browse, edit files, use Git write operations, expand scope, or delegate to another agent.'',
      ''Return only a concise evidence summary with file references. The launcher records the effective execution contract.'']"

record invocation =
  iv_route :: route
  iv_cwd :: string
  iv_command :: "string list"

definition buildExplorerInvocation :: "host \<Rightarrow> string \<Rightarrow> jsval \<Rightarrow> string \<Rightarrow> invocation io" where
  "buildExplorerInvocation h repository question productRoot =
     bindI (liftI (validateExplorerQuestion question)) (\<lambda>q.
     let cwd = path_resolve (h_cwd h) repository in
     bindI (exists_path cwd) (\<lambda>there.
     bindI (if there then is_directory cwd else Ret False) (\<lambda>dir.
     bindI (throw_ifI (\<not> dir) (Err ''EXPLORER_ROOT_INVALID'' [JStr cwd])) (\<lambda>_.
     bindI (readCanonicalContracts productRoot) (\<lambda>contracts.
     case map_of contracts ''explorer'' of None \<Rightarrow> Throw type_error | Some c \<Rightarrow>
       Ret \<lparr>iv_route = (''explorer'', c), iv_cwd = cwd, iv_command = codexCommand c cwd (explorer_prompt h q)\<rparr>)))))"

text \<open>The child's result: its status and output, or the error that kept it from starting.\<close>

definition spawn_result :: "string \<Rightarrow> string list \<Rightarrow> string \<Rightarrow> (int option \<times> string \<times> string \<times> string option) io" where
  "spawn_result cmd argv cwd = Op (Spawn cmd argv cwd []) (\<lambda>r. case r of
     RProc status out err \<Rightarrow> Ret (status, out, err, None)
   | RErr code \<Rightarrow> Ret (None, [], [], Some code)
   | _ \<Rightarrow> Ret (None, [], [], None))"

record exploration =
  ex_exit :: int
  ex_out :: string
  ex_err :: string
  ex_evidence :: jsval

definition int_text :: "int \<Rightarrow> string" where
  "int_text n = num_string (of_int n)"

definition runExplorer :: "host \<Rightarrow> string \<Rightarrow> jsval \<Rightarrow> string \<Rightarrow> exploration io" where
  "runExplorer h repository question productRoot =
     bindI (buildExplorerInvocation h repository question productRoot) (\<lambda>iv.
     bindI (spawn_result ''codex'' (iv_command iv) (iv_cwd iv)) (\<lambda>(status, out, err, failure).
     let exitCode = (case status of None \<Rightarrow> 1 | Some n \<Rightarrow> n);
         error = (case failure of Some e \<Rightarrow> Some (Err e []) | None \<Rightarrow>
           if exitCode = 0 then None else Some (Err (''CODEX_EXIT_'' @ int_text exitCode) [])) in
     Ret \<lparr>ex_exit = exitCode, ex_out = out, ex_err = err,
       ex_evidence = buildLaunchEvidence h (iv_route iv) (iv_cwd iv) [] (Some exitCode) None error\<rparr>))"

text \<open>The command: its exit code, 0 unless the child or the launcher failed.\<close>

definition explorer_launch :: "host \<Rightarrow> string list \<Rightarrow> int io" where
  "explorer_launch h argv =
     bindI (liftI (parseExplorerArgs argv)) (\<lambda>args.
     let repository = path_resolve (h_cwd h) (if truthy (arg args ''root'') then js_string (arg args ''root'') else []) in
     if arg args ''dry_run'' = JStr ''true'' then
       bindI (buildExplorerInvocation h repository (arg args ''question'') (h_repo_root h)) (\<lambda>iv.
       bindI (emit_json h (buildLaunchEvidence h (iv_route iv) (iv_cwd iv) [] None None None)) (\<lambda>_. Ret 0))
     else
       bindI (runExplorer h repository (arg args ''question'') (h_repo_root h)) (\<lambda>x.
       bindI (if ex_out x = [] then Ret () else print_out (ex_out x)) (\<lambda>_.
       bindI (if ex_out x = [] \<or> ends_with (ex_out x) [newline] then Ret () else print_out [newline]) (\<lambda>_.
       bindI (if ex_err x = [] then Ret () else print_err (ex_err x)) (\<lambda>_.
       bindI (emit_json h (ex_evidence x)) (\<lambda>_. Ret (ex_exit x)))))))"

definition explorer_main :: "host \<Rightarrow> string list \<Rightarrow> int io" where
  "explorer_main h argv = catchI (explorer_launch h argv)
     (\<lambda>e. bindI (print_err (message_text e @ [newline])) (\<lambda>_. Ret 1))"

end
