(* ===== verification/Json_Schema.thy ===== *)
theory Json_Schema
  imports Check_Task
begin

text \<open>
  The JSON Schema validator of scripts/validate-tabletop-scenarios.mjs: references, the keywords of the
  repository's schemas, and the messages it collects.  The documents it reads (parsed and cached by path), the
  engine of the schemas' regular expressions, \<open>Date.parse\<close> and \<open>net.isIP\<close> are the fields of a \<open>bench\<close>.  The
  recursion counts its depth down and throws \<open>RangeError\<close> at zero, as the engine does when its stack ends.
  Numbers that bound a value are JSON numbers; a bound of another type compares as \<open>NaN\<close>.
\<close>

section \<open>Documents and references\<close>

record bench =
  tb_root :: string
  tb_docs :: "string \<Rightarrow> jsval res"
  tb_regex :: "string \<Rightarrow> string \<Rightarrow> bool res"
  tb_date :: "string \<Rightarrow> rat option"
  tb_ip :: "string \<Rightarrow> int"
  tb_names :: "string list"
  tb_stack :: nat

definition readJson :: "bench \<Rightarrow> string \<Rightarrow> jsval res" where
  "readJson b file = tb_docs b (path_resolve1 file)"

text \<open>\<open>s.replace(/xy/g, "z")\<close>\<close>

fun replace_pair :: "char \<Rightarrow> char \<Rightarrow> char \<Rightarrow> string \<Rightarrow> string" where
  "replace_pair x y z (c # d # s) = (if c = x \<and> d = y then z # replace_pair x y z s else c # replace_pair x y z (d # s))"
| "replace_pair x y z s = s"

definition pointer_key :: "string \<Rightarrow> string" where
  "pointer_key token = replace_pair (CHR ''~'') (CHR ''0'') (CHR ''~'') (replace_pair (CHR ''~'') (CHR ''1'') (CHR ''/'') token)"

text \<open>\<open>value[key]\<close>: a property of an object, an item of an array.\<close>

definition js_member :: "jsval \<Rightarrow> string \<Rightarrow> jsval res" where
  "js_member v key = (case v of
     JArr xs \<Rightarrow> Inr (if key = ''length'' then JNum (of_nat (length xs))
       else case List.find (\<lambda>(i, x). nat_string i = key) (enumerate 0 xs) of None \<Rightarrow> JUndef | Some (i, x) \<Rightarrow> x)
   | _ \<Rightarrow> js_get v key)"

fun follow :: "jsval \<Rightarrow> string list \<Rightarrow> jsval res" where
  "follow v [] = Inr v"
| "follow v (token # tokens) = bindR (js_member v (pointer_key token)) (\<lambda>x. follow x tokens)"

definition resolvePointer :: "jsval \<Rightarrow> string \<Rightarrow> jsval res" where
  "resolvePointer document fragment =
     (if fragment = [] \<or> fragment = ''#'' then Inr document
      else if \<not> starts_with fragment ''#/'' then Inl (Err ''unsupported fragment'' [JStr fragment])
      else follow document (slash_split (drop 2 fragment)))"

text \<open>\<open>ref.split("#", 2)\<close> and the fragment it stands for.\<close>

definition split_ref :: "string \<Rightarrow> string \<times> string" where
  "split_ref ref = (case split_char (CHR ''#'') ref of
     p # q # _ \<Rightarrow> (p, CHR ''#'' # q) | p # [] \<Rightarrow> (p, []) | [] \<Rightarrow> ([], []))"

definition resolveRef :: "bench \<Rightarrow> jsval \<Rightarrow> string \<Rightarrow> (jsval \<times> string) res" where
  "resolveRef b ref baseFile = (case ref of
     JStr r \<Rightarrow>
       if starts_with r ''urn:'' then Inl (Err ''external URN ref is not resolvable'' [JStr r])
       else (case split_ref r of (filePart, fragment) \<Rightarrow>
         let targetFile = (if filePart = [] then baseFile else path_resolve (path_dirname baseFile) filePart) in
         bindR (readJson b targetFile) (\<lambda>document.
         bindR (resolvePointer document fragment) (\<lambda>schema. Inr (schema, targetFile))))
   | _ \<Rightarrow> Inl type_error)"

section \<open>Types, equality and formats\<close>

fun type_name :: "jsval \<Rightarrow> string" where
  "type_name JUndef = ''undefined''"
| "type_name (JBool x) = ''boolean''"
| "type_name (JNum n) = ''number''"
| "type_name (JStr s) = ''string''"
| "type_name _ = ''object''"

fun is_number :: "jsval \<Rightarrow> bool" where
  "is_number (JNum n) = True"
| "is_number _ = False"

fun is_integer :: "jsval \<Rightarrow> bool" where
  "is_integer (JNum n) = (of_int (floor n) = n)"
| "is_integer _ = False"

definition typeMatches :: "jsval \<Rightarrow> jsval \<Rightarrow> bool" where
  "typeMatches v type =
     (if type = JStr ''null'' then v = JNull
      else if type = JStr ''array'' then is_array v
      else if type = JStr ''object'' then is_plain_object v
      else if type = JStr ''integer'' then is_integer v
      else if type = JStr ''number'' then is_number v
      else type = JStr (type_name v))"

text \<open>What \<open>JSON.stringify\<close> keeps of a value: \<open>undefined\<close> is dropped from objects, \<open>null\<close> in arrays, and no text at
  the top.  Two values have the same text when they agree on it, the order of keys included.\<close>

fun json_kept :: "jsval \<Rightarrow> jsval option" where
  "json_kept JUndef = None"
| "json_kept (JArr xs) = Some (JArr (map (\<lambda>x. case json_kept x of None \<Rightarrow> JNull | Some y \<Rightarrow> y) xs))"
| "json_kept (JObj m) = Some (JObj (concat (map (\<lambda>(k, x). case json_kept x of None \<Rightarrow> [] | Some y \<Rightarrow> [(k, y)]) m)))"
| "json_kept v = Some v"

definition deepEqual :: "jsval \<Rightarrow> jsval \<Rightarrow> bool" where
  "deepEqual v w \<longleftrightarrow> json_kept v = json_kept w"

definition validateFormat :: "bench \<Rightarrow> jsval \<Rightarrow> jsval \<Rightarrow> bool" where
  "validateFormat b v fmt = (case v of
     JStr s \<Rightarrow>
       (if fmt = JStr ''date-time'' then tb_date b s \<noteq> None \<and> contains s ''T''
        else if fmt = JStr ''ipv4'' then tb_ip b s = 4
        else if fmt = JStr ''ipv6'' then tb_ip b s = 6 else True)
   | _ \<Rightarrow> True)"

text \<open>\<open>Object.keys\<close> and \<open>Object.entries\<close> of objects and arrays.\<close>

fun js_entries :: "jsval \<Rightarrow> (string \<times> jsval) list" where
  "js_entries (JObj m) = m"
| "js_entries (JArr xs) = map (\<lambda>(i, x). (nat_string i, x)) (enumerate 0 xs)"
| "js_entries _ = []"

text \<open>\<open>typeof v === "object"\<close> of a value that is not null.\<close>

definition is_object :: "jsval \<Rightarrow> bool" where
  "is_object v \<longleftrightarrow> is_plain_object v \<or> is_array v"

definition stack_overflow :: js_error where
  "stack_overflow = Err ''RangeError'' []"

fun collectProperties :: "nat \<Rightarrow> bench \<Rightarrow> jsval \<Rightarrow> string \<Rightarrow> string list \<Rightarrow> (string list \<times> string list) res"
and collect_children :: "nat \<Rightarrow> bench \<Rightarrow> jsval list \<Rightarrow> string \<Rightarrow> string list \<Rightarrow> (string list \<times> string list) res" where
  "collectProperties 0 b schema baseFile seen = Inl stack_overflow"
| "collectProperties (Suc n) b schema baseFile seen =
     (if \<not> is_object schema then Inr ([], seen)
      else let ref = js_field schema ''$ref'' in
      if truthy ref then
        (let key = baseFile @ ''|'' @ js_string ref in
         if key \<in> set seen then Inr ([], seen)
         else bindR (resolveRef b ref baseFile) (\<lambda>(target, file). collectProperties n b target file (key # seen)))
      else bindR (js_iter (js_field schema ''allOf'')) (\<lambda>children.
           bindR (collect_children n b children baseFile seen) (\<lambda>(keys, seen').
           Inr (map fst (js_entries (js_field schema ''properties'')) @ keys, seen'))))"
| "collect_children n b [] baseFile seen = Inr ([], seen)"
| "collect_children n b (child # children) baseFile seen =
     bindR (collectProperties n b child baseFile seen) (\<lambda>(keys, seen').
     bindR (collect_children n b children baseFile seen') (\<lambda>(more, seen''). Inr (keys @ more, seen'')))"

section \<open>The validator\<close>

text \<open>The list a nested call returns; what it throws goes through.\<close>

definition errors_of :: "('e, unit) chk \<Rightarrow> ('e, 'e list) chk" where
  "errors_of m = (case m of (es, Inl e) \<Rightarrow> ([], Inl e) | (es, Inr _) \<Rightarrow> ([], Inr es))"

fun map_C :: "('a \<Rightarrow> ('e, 'b) chk) \<Rightarrow> 'a list \<Rightarrow> ('e, 'b list) chk" where
  "map_C f [] = okC []"
| "map_C f (x # xs) = bindC (f x) (\<lambda>y. bindC (map_C f xs) (\<lambda>ys. okC (y # ys)))"

definition whenC :: "bool \<Rightarrow> ('e, unit) chk \<Rightarrow> ('e, unit) chk" where
  "whenC c m = (if c then m else okC ())"

definition error_value :: "js_error \<Rightarrow> jsval" where
  "error_value e = (case e of Err t vs \<Rightarrow> JArr (JStr t # vs))"

definition matches_value :: "js_error list list \<Rightarrow> jsval" where
  "matches_value ms = JArr (map (\<lambda>es. JArr (map error_value es)) ms)"

text \<open>\<open>xs.map(\<dots>)\<close> and \<open>xs.some(\<dots>)\<close> of a value that must be an array.\<close>

definition items_of :: "jsval \<Rightarrow> jsval list res" where
  "items_of v = (if is_array v then Inr (arr_items v) else Inl type_error)"

definition number_of :: "jsval \<Rightarrow> rat option" where
  "number_of v = (case v of JNum n \<Rightarrow> Some n | JNull \<Rightarrow> Some 0 | JBool x \<Rightarrow> Some (if x then 1 else 0) | _ \<Rightarrow> None)"

text \<open>\<open>bound !== undefined && n < bound\<close>\<close>

definition below :: "rat \<Rightarrow> jsval \<Rightarrow> bool" where
  "below n bound = (case number_of bound of None \<Rightarrow> False | Some m \<Rightarrow> n < m)"

definition above :: "rat \<Rightarrow> jsval \<Rightarrow> bool" where
  "above n bound = (case number_of bound of None \<Rightarrow> False | Some m \<Rightarrow> n > m)"

definition at_key :: "string \<Rightarrow> string \<Rightarrow> string" where
  "at_key location key = location @ ''.'' @ key"

definition at_index :: "string \<Rightarrow> nat \<Rightarrow> string" where
  "at_index location i = location @ ''['' @ nat_string i @ '']''"

definition check_const :: "jsval \<Rightarrow> jsval \<Rightarrow> string \<Rightarrow> unit jchk" where
  "check_const v schema location =
     bindC (push_if (js_field schema ''const'' \<noteq> JUndef \<and> \<not> deepEqual v (js_field schema ''const''))
       (Err ''must equal const'' [JStr location, js_field schema ''const''])) (\<lambda>_.
     whenC (truthy (js_field schema ''enum''))
       (bindC (liftC (items_of (js_field schema ''enum''))) (\<lambda>candidates.
        push_if (\<not> list_ex (deepEqual v) candidates) (Err ''not in enum'' [JStr location]))))"

definition schema_types :: "jsval \<Rightarrow> jsval list" where
  "schema_types schema = (let t = js_field schema ''type'' in if is_array t then arr_items t else [t])"

definition check_type :: "jsval \<Rightarrow> jsval \<Rightarrow> string \<Rightarrow> unit jchk" where
  "check_type v schema location =
     push_if (truthy (js_field schema ''type'') \<and> \<not> list_ex (typeMatches v) (schema_types schema))
       (Err ''expected type'' (JStr location # schema_types schema))"

definition check_string :: "bench \<Rightarrow> string \<Rightarrow> jsval \<Rightarrow> string \<Rightarrow> unit jchk" where
  "check_string b s schema location =
     bindC (push_if (below (of_nat (utf16_length s)) (js_field schema ''minLength'')) (Err ''shorter than minLength'' [JStr location])) (\<lambda>_.
     bindC (push_if (above (of_nat (utf16_length s)) (js_field schema ''maxLength'')) (Err ''longer than maxLength'' [JStr location])) (\<lambda>_.
     bindC (whenC (truthy (js_field schema ''pattern''))
       (bindC (liftC (tb_regex b (js_string (js_field schema ''pattern'')) s)) (\<lambda>found.
        push_if (\<not> found) (Err ''does not match pattern'' [JStr location, js_field schema ''pattern''])))) (\<lambda>_.
     push_if (truthy (js_field schema ''format'') \<and> \<not> validateFormat b (JStr s) (js_field schema ''format''))
       (Err ''invalid'' [JStr location, js_field schema ''format'']))))"

definition check_number :: "rat \<Rightarrow> jsval \<Rightarrow> string \<Rightarrow> unit jchk" where
  "check_number n schema location =
     bindC (push_if (below n (js_field schema ''minimum'')) (Err ''below minimum'' [JStr location])) (\<lambda>_.
     push_if (above n (js_field schema ''maximum'')) (Err ''above maximum'' [JStr location]))"

definition check_items :: "(jsval \<Rightarrow> jsval \<Rightarrow> string \<Rightarrow> unit jchk) \<Rightarrow> jsval list \<Rightarrow> jsval \<Rightarrow> string \<Rightarrow> unit jchk" where
  "check_items rec xs schema location =
     bindC (push_if (below (of_nat (length xs)) (js_field schema ''minItems'')) (Err ''fewer than minItems'' [JStr location])) (\<lambda>_.
     bindC (push_if (above (of_nat (length xs)) (js_field schema ''maxItems'')) (Err ''more than maxItems'' [JStr location])) (\<lambda>_.
     bindC (push_if (truthy (js_field schema ''uniqueItems'') \<and> \<not> distinct (map json_kept xs)) (Err ''items are not unique'' [JStr location])) (\<lambda>_.
     whenC (truthy (js_field schema ''items''))
       (each_C (\<lambda>(i, x). rec x (js_field schema ''items'') (at_index location i)) (enumerate 0 xs)))))"

definition check_object :: "(jsval \<Rightarrow> jsval \<Rightarrow> string \<Rightarrow> unit jchk) \<Rightarrow> jsval \<Rightarrow> jsval \<Rightarrow> string \<Rightarrow> unit jchk" where
  "check_object rec v schema location =
     (let declared = js_entries (js_field schema ''properties''); extra = js_field schema ''additionalProperties'' in
      bindC (liftC (js_iter (js_field schema ''required''))) (\<lambda>required.
      bindC (each_C (\<lambda>key. push_if (\<not> own_key v (js_string key)) (Err ''required property missing'' [JStr (at_key location (js_string key))])) required) (\<lambda>_.
      bindC (each_C (\<lambda>(key, child). whenC (own_key v key) (rec (js_field v key) child (at_key location key))) declared) (\<lambda>_.
      if extra = JBool False
      then each_C (\<lambda>key. push_if (key \<notin> fst ` set declared) (Err ''additional property'' [JStr (at_key location key)])) (obj_keys v)
      else whenC (is_object extra)
        (each_C (\<lambda>(key, x). whenC (key \<notin> fst ` set declared) (rec x extra (at_key location key))) (js_entries v))))))"

text \<open>\<open>allOf\<close> with the closed world its parts may ask for, \<open>anyOf\<close> and \<open>oneOf\<close>; \<open>rec\<close> validates against a part and
  \<open>quiet\<close> says that unevaluated properties are another part's concern.\<close>

definition check_all :: "(bool \<Rightarrow> jsval \<Rightarrow> unit jchk) \<Rightarrow> string list res \<Rightarrow> bool \<Rightarrow> jsval \<Rightarrow> jsval \<Rightarrow> string \<Rightarrow> unit jchk" where
  "check_all rec allowed quiet v schema location =
     whenC (truthy (js_field schema ''allOf''))
       (bindC (liftC (js_iter (js_field schema ''allOf''))) (\<lambda>children.
        bindC (each_C (rec True) children) (\<lambda>_.
        whenC (\<not> quiet)
          (bindC (liftC (items_of (js_field schema ''allOf''))) (\<lambda>children.
           whenC (list_ex (\<lambda>child. js_field child ''unevaluatedProperties'' = JBool False) children \<and> is_plain_object v)
             (bindC (liftC allowed) (\<lambda>keys.
              each_C (\<lambda>key. push_if (key \<notin> set keys) (Err ''unevaluated property'' [JStr (at_key location key)])) (obj_keys v))))))))"

definition check_some :: "(bool \<Rightarrow> jsval \<Rightarrow> unit jchk) \<Rightarrow> jsval \<Rightarrow> string \<Rightarrow> unit jchk" where
  "check_some rec schema location =
     bindC (whenC (truthy (js_field schema ''anyOf''))
       (bindC (liftC (items_of (js_field schema ''anyOf''))) (\<lambda>children.
        bindC (map_C (\<lambda>child. errors_of (rec False child)) children) (\<lambda>matches.
        push_if (\<not> list_ex (\<lambda>es. es = []) matches) (Err ''does not match anyOf'' [JStr location, matches_value matches]))))) (\<lambda>_.
     whenC (truthy (js_field schema ''oneOf''))
       (bindC (liftC (items_of (js_field schema ''oneOf''))) (\<lambda>children.
        bindC (map_C (\<lambda>child. errors_of (rec False child)) children) (\<lambda>matches.
        let count = length (filter (\<lambda>es. es = []) matches) in
        push_if (count \<noteq> 1) (Err ''expected exactly one oneOf match'' [JStr location, JNum (of_nat count), matches_value matches])))))"

fun validate :: "nat \<Rightarrow> bench \<Rightarrow> jsval \<Rightarrow> jsval \<Rightarrow> string \<Rightarrow> string \<Rightarrow> bool \<Rightarrow> unit jchk" where
  "validate 0 b v schema baseFile location quiet = liftC (Inl stack_overflow)"
| "validate (Suc n) b v schema baseFile location quiet =
     (if schema = JBool True \<or> truthy schema \<and> js_entries schema = [] \<and> \<not> is_string schema then okC ()
      else if schema = JBool False then push_all [Err ''schema is false'' [JStr location]]
      else bindC (liftC (js_get schema ''$ref'')) (\<lambda>ref.
      if truthy ref then
        bindC (liftC (resolveRef b ref baseFile)) (\<lambda>(target, file). validate n b v target file location quiet)
      else
        bindC (check_all (\<lambda>q child. validate n b v child baseFile location q)
          (bindR (collectProperties n b schema baseFile []) (\<lambda>(keys, _). Inr keys)) quiet v schema location) (\<lambda>_.
        bindC (check_some (\<lambda>q child. validate n b v child baseFile location q) schema location) (\<lambda>_.
        bindC (check_const v schema location) (\<lambda>_.
        bindC (check_type v schema location) (\<lambda>_.
        bindC (case v of JStr s \<Rightarrow> check_string b s schema location | _ \<Rightarrow> okC ()) (\<lambda>_.
        bindC (case v of JNum x \<Rightarrow> check_number x schema location | _ \<Rightarrow> okC ()) (\<lambda>_.
        bindC (case v of JArr xs \<Rightarrow> check_items (\<lambda>x child l. validate n b x child baseFile l False) xs schema location | _ \<Rightarrow> okC ()) (\<lambda>_.
        whenC (is_plain_object v) (check_object (\<lambda>x child l. validate n b x child baseFile l False) v schema location))))))))))"

end
