(* ===== verification/Tabletop.thy ===== *)
theory Tabletop
  imports Json_Schema
begin

text \<open>
  The cross-message checks of scripts/validate-tabletop-scenarios.mjs: the envelope of a scenario document, the
  invariants of a scenario's sequence of messages, and the state machines of the entities the messages move.
  Values that are used as the keys of a \<open>Map\<close> or \<open>Set\<close> are compared by strict equality.
\<close>

section \<open>Operators\<close>

text \<open>\<open>for (const x of v)\<close> throws on \<open>undefined\<close> and \<open>null\<close>.\<close>

definition iter_of :: "jsval \<Rightarrow> jsval list res" where
  "iter_of v = (if nullish v then Inl type_error else js_iter v)"

text \<open>\<open>key in v\<close>\<close>

definition key_in :: "string \<Rightarrow> jsval \<Rightarrow> bool res" where
  "key_in key v = (if is_object v then Inr (own_key v key) else Inl type_error)"

definition seen_has :: "jsval \<Rightarrow> jsval list \<Rightarrow> bool" where
  "seen_has v vs = list_ex (js_seq v) vs"

text \<open>\<open>map.get(key)\<close> of a \<open>Map\<close> written from left to right.\<close>

definition get_last :: "jsval \<Rightarrow> (jsval \<times> 'a) list \<Rightarrow> 'a option" where
  "get_last key m = map_option snd (List.find (\<lambda>(k, _). js_seq key k) (rev m))"

text \<open>\<open>v + 1\<close>, \<open>None\<close> for \<open>NaN\<close>.\<close>

definition plus_one :: "jsval \<Rightarrow> jsval option" where
  "plus_one v = (case v of JUndef \<Rightarrow> None | JNull \<Rightarrow> Some (JNum 1) | JBool x \<Rightarrow> Some (JNum (if x then 2 else 1))
     | JNum n \<Rightarrow> Some (JNum (n + 1)) | _ \<Rightarrow> Some (JStr (js_string v @ ''1'')))"

text \<open>A \<open>for\<close> loop that carries state.\<close>

fun fold_C :: "('a \<Rightarrow> 's \<Rightarrow> ('e, 's) chk) \<Rightarrow> 'a list \<Rightarrow> 's \<Rightarrow> ('e, 's) chk" where
  "fold_C f [] s = okC s"
| "fold_C f (x # xs) s = bindC (f x s) (fold_C f xs)"

fun find_R :: "('a \<Rightarrow> 'e + bool) \<Rightarrow> 'a list \<Rightarrow> 'e + 'a option" where
  "find_R P [] = Inr None"
| "find_R P (x # xs) = bindR (P x) (\<lambda>yes. if yes then Inr (Some x) else find_R P xs)"

definition fieldC :: "jsval \<Rightarrow> string \<Rightarrow> jsval jchk" where
  "fieldC v k = liftC (js_get v k)"

section \<open>The envelope\<close>

definition STEP_FIELDS :: "string list" where
  "STEP_FIELDS = [''step_id'', ''from_plane'', ''to_plane'', ''from_component'', ''to_component'', ''message_type'', ''schema_ref'', ''payload'']"

definition not_filled :: "jsval \<Rightarrow> bool" where
  "not_filled v \<longleftrightarrow> \<not> is_array v \<or> arr_items v = []"

definition envelope_step :: "jsval \<Rightarrow> jsval \<Rightarrow> jsval list \<Rightarrow> jsval list jchk" where
  "envelope_step scenario_id step stepIds =
     bindC (fieldC step ''step_id'') (\<lambda>step_id.
     bindC (push_if (seen_has step_id stepIds) (Err ''duplicate step_id'' [scenario_id, step_id])) (\<lambda>_.
     bindC (each_C (\<lambda>key. bindC (liftC (key_in key step)) (\<lambda>there.
       push_if (\<not> there) (Err ''missing'' [scenario_id, step_id, JStr key]))) STEP_FIELDS) (\<lambda>_.
     okC (step_id # stepIds))))"

definition envelope_scenario :: "jsval \<Rightarrow> jsval list \<Rightarrow> jsval list jchk" where
  "envelope_scenario scenario scenarioIds =
     bindC (fieldC scenario ''scenario_id'') (\<lambda>scenario_id.
     bindC (push_if (seen_has scenario_id scenarioIds) (Err ''duplicate scenario_id'' [scenario_id])) (\<lambda>_.
     bindC (push_if (not_filled (js_field scenario ''steps'')) (Err ''steps must be non-empty'' [scenario_id])) (\<lambda>_.
     bindC (liftC (js_iter (js_field scenario ''steps''))) (\<lambda>steps.
     bindC (fold_C (envelope_step scenario_id) steps []) (\<lambda>_.
     okC (scenario_id # scenarioIds))))))"

definition validateScenarioEnvelope :: "jsval \<Rightarrow> unit jchk" where
  "validateScenarioEnvelope document =
     bindC (push_if (js_field document ''schema_version'' \<noteq> JStr ''draft-v0'') (Err ''root.schema_version must be draft-v0'' [])) (\<lambda>_.
     bindC (push_if (not_filled (js_field document ''scenarios'')) (Err ''root.scenarios must be non-empty'' [])) (\<lambda>_.
     bindC (liftC (js_iter (js_field document ''scenarios''))) (\<lambda>scenarios.
     bindC (fold_C envelope_scenario scenarios []) (\<lambda>_. okC ()))))"

section \<open>The payloads of some message types\<close>

definition of_type :: "string \<Rightarrow> jsval list \<Rightarrow> jsval list" where
  "of_type t steps = filter (\<lambda>step. js_field step ''message_type'' = JStr t) steps"

text \<open>\<open>payload[name] ?? payload.refs?.[name]\<close>\<close>

definition ref_field :: "jsval \<Rightarrow> string \<Rightarrow> jsval res" where
  "ref_field payload name = bindR (js_get payload name) (\<lambda>v. Inr (coalesce v (js_opt (js_field payload ''refs'') name)))"

definition step_error :: "jsval \<Rightarrow> jsval \<Rightarrow> string \<Rightarrow> js_error" where
  "step_error scenario step what = Err what [js_field scenario ''scenario_id'', js_field step ''step_id'']"

definition payload_of :: "jsval \<Rightarrow> jsval" where
  "payload_of step = js_field step ''payload''"

definition memory_requests :: "jsval list \<Rightarrow> (jsval \<times> jsval) list res" where
  "memory_requests steps = map_R (\<lambda>step. bindR (ref_field (payload_of step) ''request_id'') (\<lambda>r. Inr (r, payload_of step)))
     (of_type ''MemoryContextRequest'' steps)"

definition check_memory_context :: "jsval \<Rightarrow> (jsval \<times> jsval) list \<Rightarrow> jsval \<Rightarrow> unit jchk" where
  "check_memory_context scenario requests step =
     bindC (liftC (ref_field (payload_of step) ''request_id'')) (\<lambda>r.
     case get_last r requests of
       None \<Rightarrow> push_all [step_error scenario step ''MemoryContext has no matching request_id'']
     | Some request \<Rightarrow>
         if \<not> truthy request then push_all [step_error scenario step ''MemoryContext has no matching request_id'']
         else bindC (liftC (ref_field request ''task_id'')) (\<lambda>wanted.
              bindC (liftC (ref_field (payload_of step) ''task_id'')) (\<lambda>task.
              push_if (\<not> js_seq wanted task) (step_error scenario step ''MemoryContext task_id differs from request''))))"

definition date_value :: "bench \<Rightarrow> jsval \<Rightarrow> rat option" where
  "date_value b v = tb_date b (js_string v)"

text \<open>\<open>a < b\<close> of two times, false for \<open>NaN\<close>.\<close>

definition earlier :: "rat option \<Rightarrow> rat option \<Rightarrow> bool" where
  "earlier x y = (case x of None \<Rightarrow> False | Some a \<Rightarrow> (case y of None \<Rightarrow> False | Some c \<Rightarrow> a < c))"

definition check_transaction :: "bench \<Rightarrow> jsval \<Rightarrow> jsval \<Rightarrow> unit jchk" where
  "check_transaction b scenario step =
     bindC (fieldC (payload_of step) ''completed_at'') (\<lambda>completed.
     push_if (earlier (date_value b completed) (date_value b (js_field (payload_of step) ''started_at'')))
       (step_error scenario step ''transaction completes before it starts''))"

definition check_revision :: "jsval \<Rightarrow> jsval \<Rightarrow> unit jchk" where
  "check_revision scenario step =
     (let p = payload_of step in
      bindC (fieldC p ''new_policy_version'') (\<lambda>new.
      bindC (push_if (case plus_one (js_field p ''previous_policy_version'') of None \<Rightarrow> True | Some v \<Rightarrow> \<not> js_seq new v)
        (step_error scenario step ''policy version is not monotonic by one'')) (\<lambda>_.
      bindC (push_if (\<not> js_seq (js_field p ''base_policy_version'') (js_field p ''previous_policy_version''))
        (step_error scenario step ''base and previous policy versions differ'')) (\<lambda>_.
      push_if (js_field p ''status'' = JStr ''active'' \<and> (\<not> truthy (js_field p ''activation_ack_ref'') \<or> \<not> truthy (js_field p ''activated_at'')))
        (step_error scenario step ''active revision lacks activation ACK/time'')))))"

definition check_completion_output :: "jsval \<Rightarrow> jsval \<Rightarrow> unit jchk" where
  "check_completion_output scenario step =
     (let p = payload_of step in
      bindC (fieldC p ''entity'') (\<lambda>entity.
      push_if (\<not> truthy (js_opt entity ''id'')
          \<and> (\<not> truthy (js_field p ''review_job_id'') \<or> \<not> truthy (js_field p ''task_id'') \<or> \<not> truthy (js_field p ''input_digest'')))
        (step_error scenario step ''completion output lacks correlation fields'')))"

section \<open>The sequence\<close>

text \<open>The transitions of the entities, as the script writes them.\<close>

definition ALLOWED_TRANSITIONS :: "(string \<times> string list) list" where
  "ALLOWED_TRANSITIONS = [
     (''task'', [''null->ready'', ''null->running'', ''ready->running'', ''running->waiting'', ''waiting->running'', ''running->suspended'',
        ''suspended->running'', ''running->reviewing_completion'', ''reviewing_completion->completed'']),
     (''policy-grant'', [''null->pending_activation'', ''pending_activation->active'', ''active->revoked'']),
     (''policy-revision'', [''null->pending_activation'', ''pending_activation->active'', ''active->superseded'']),
     (''async-operation'', [''null->running'', ''running->completed'', ''running->failed'', ''running->cancelled'']),
     (''mailbox-event'', [''null->deliverable'', ''null->delivered'', ''delivered->consumed'']),
     (''memory-request'', [''null->requested'', ''requested->completed'']),
     (''completion-review'', [''null->reviewing'', ''reviewing->accepted'', ''reviewing->rejected'']),
     (''episode-job'', [''null->running'', ''running->completed'']),
     (''task-episode'', [''null->committed'']),
     (''tool-call'', [''null->running'', ''running->completed'', ''running->failed'']),
     (''policy-activation'', [''null->acked'']),
     (''security-incident'', [''null->open'', ''open->remediated'', ''remediated->closed''])]"

definition transition_text :: "jsval \<Rightarrow> jsval \<Rightarrow> string" where
  "transition_text from_state to_state = js_string from_state @ ''->'' @ js_string to_state"

definition allowed_for_kind :: "jsval \<Rightarrow> string list option" where
  "allowed_for_kind kind = (case kind of JStr k \<Rightarrow> map_of ALLOWED_TRANSITIONS k | _ \<Rightarrow> None)"

record sequence_state =
  sq_messages :: "jsval list"
  sq_keys :: "(jsval \<times> jsval option \<times> jsval) list"
  sq_entities :: "string \<Rightarrow> jsval option"
  sq_correlation :: jsval
  sq_time :: "rat option"

text \<open>\<open>previousTime\<close> starts at \<open>-Infinity\<close>, which no time is before; so does \<open>NaN\<close>, hence \<open>None\<close> for both.\<close>

definition sequence_start :: sequence_state where
  "sequence_start = \<lparr>sq_messages = [], sq_keys = [], sq_entities = (\<lambda>_. None), sq_correlation = JNull, sq_time = None\<rparr>"

definition fingerprint :: "jsval \<Rightarrow> jsval option" where
  "fingerprint p = json_kept (JObj [(''task_id'', js_field p ''task_id''), (''workspace_id'', js_field p ''workspace_id''),
     (''entity'', js_field p ''entity''), (''refs'', js_field p ''refs'')])"

definition is_redelivery :: "jsval \<Rightarrow> bool" where
  "is_redelivery p \<longleftrightarrow> (case number_of (js_field p ''delivery_attempt'') of None \<Rightarrow> False | Some n \<Rightarrow> n \<ge> 2)
     \<and> truthy (js_field p ''redelivery_of_message_id'')"

definition check_idempotency :: "jsval \<Rightarrow> jsval \<Rightarrow> sequence_state \<Rightarrow> sequence_state jchk" where
  "check_idempotency scenario step st =
     (let p = payload_of step; key = js_field p ''idempotency_key'' in
      case get_last key (sq_keys st) of
        None \<Rightarrow> okC (st\<lparr>sq_keys := sq_keys st @ [(key, fingerprint p, js_field p ''message_id'')]\<rparr>)
      | Some (prior, message_id) \<Rightarrow>
          bindC (push_if (\<not> is_redelivery p) (step_error scenario step ''reused idempotency_key lacks redelivery metadata'')) (\<lambda>_.
          bindC (push_if (prior \<noteq> fingerprint p) (step_error scenario step ''idempotency key reused with different operation fingerprint'')) (\<lambda>_.
          bindC (push_if (\<not> js_seq (js_field p ''redelivery_of_message_id'') message_id) (step_error scenario step ''redelivery does not reference first delivery'')) (\<lambda>_.
          okC st))))"

definition check_correlation :: "jsval \<Rightarrow> jsval \<Rightarrow> sequence_state \<Rightarrow> sequence_state jchk" where
  "check_correlation scenario step st =
     (let c = js_field (payload_of step) ''correlation_id'' in
      if sq_correlation st = JNull then okC (st\<lparr>sq_correlation := c\<rparr>)
      else bindC (push_if (\<not> js_seq c (sq_correlation st)) (step_error scenario step ''correlation_id leaves scenario chain'')) (\<lambda>_. okC st))"

definition cause_of :: "jsval list \<Rightarrow> jsval \<Rightarrow> jsval option res" where
  "cause_of steps message_id = find_R (\<lambda>candidate. bindR (js_get candidate ''payload'') (\<lambda>p.
     bindR (js_get p ''message_id'') (\<lambda>m. Inr (js_seq m message_id)))) steps"

definition check_cause :: "jsval \<Rightarrow> jsval list \<Rightarrow> jsval \<Rightarrow> unit jchk" where
  "check_cause scenario steps step =
     (let p = payload_of step; cm = js_field p ''causation_message_id'' in
      whenC (truthy cm)
        (bindC (liftC (cause_of steps cm)) (\<lambda>found.
         push_if (case found of None \<Rightarrow> False | Some cause \<Rightarrow> truthy (payload_of cause)
             \<and> \<not> js_seq (js_field (payload_of cause) ''correlation_id'') (js_field p ''correlation_id''))
           (step_error scenario step ''cause belongs to another correlation''))))"

definition entity_key :: "jsval \<Rightarrow> string" where
  "entity_key entity = js_string (js_field entity ''kind'') @ '':'' @ js_string (js_field entity ''id'')"

definition check_entity :: "jsval \<Rightarrow> jsval \<Rightarrow> sequence_state \<Rightarrow> sequence_state jchk" where
  "check_entity scenario step st =
     (let p = payload_of step; entity = js_field p ''entity''; key = entity_key entity;
          from_state = js_field entity ''from_state''; to_state = js_field entity ''to_state'';
          t = transition_text from_state to_state in
      if truthy entity \<and> \<not> is_redelivery p then
        bindC (push_if (case allowed_for_kind (js_field entity ''kind'') of None \<Rightarrow> False | Some ts \<Rightarrow> t \<notin> set ts)
          (Err ''illegal transition'' [js_field scenario ''scenario_id'', js_field step ''step_id'', js_field entity ''kind'', JStr t])) (\<lambda>_.
        bindC (push_if (case sq_entities st key of None \<Rightarrow> False | Some s \<Rightarrow> \<not> js_seq from_state s)
          (Err ''state discontinuity'' [js_field scenario ''scenario_id'', js_field step ''step_id'', JStr key])) (\<lambda>_.
        okC (st\<lparr>sq_entities := (sq_entities st)(key \<mapsto> to_state)\<rparr>)))
      else okC st)"

definition check_time :: "bench \<Rightarrow> jsval \<Rightarrow> jsval \<Rightarrow> sequence_state \<Rightarrow> sequence_state jchk" where
  "check_time b scenario step st =
     (let time = date_value b (js_field (payload_of step) ''occurred_at'') in
      bindC (push_if (earlier time (sq_time st)) (step_error scenario step ''occurred_at is out of order'')) (\<lambda>_.
      okC (st\<lparr>sq_time := time\<rparr>)))"

definition sequence_step :: "bench \<Rightarrow> jsval \<Rightarrow> jsval list \<Rightarrow> jsval \<Rightarrow> sequence_state \<Rightarrow> sequence_state jchk" where
  "sequence_step b scenario steps step st =
     (let p = payload_of step; cm = js_field p ''causation_message_id'' in
      bindC (fieldC p ''message_id'') (\<lambda>message_id.
      if \<not> truthy message_id then okC st else
      bindC (push_if (seen_has message_id (sq_messages st)) (step_error scenario step ''duplicate message_id'')) (\<lambda>_.
      bindC (push_if (truthy cm \<and> \<not> seen_has cm (sq_messages st)) (step_error scenario step ''causation does not reference an earlier message'')) (\<lambda>_.
      bindC (check_idempotency scenario step (st\<lparr>sq_messages := message_id # sq_messages st\<rparr>)) (\<lambda>st.
      bindC (check_correlation scenario step st) (\<lambda>st.
      bindC (check_cause scenario steps step) (\<lambda>_.
      bindC (check_entity scenario step st) (\<lambda>st.
      check_time b scenario step st))))))))"

definition validateSequenceInvariants :: "bench \<Rightarrow> jsval \<Rightarrow> unit jchk" where
  "validateSequenceInvariants b scenario =
     bindC (liftC (bindR (js_get scenario ''steps'') iter_of)) (\<lambda>steps.
     bindC (each_C (\<lambda>step. bindC (fieldC step ''message_type'') (\<lambda>_. okC ())) steps) (\<lambda>_.
     bindC (liftC (memory_requests steps)) (\<lambda>requests.
     bindC (each_C (check_memory_context scenario requests) (of_type ''MemoryContext'' steps)) (\<lambda>_.
     bindC (each_C (check_transaction b scenario) (of_type ''OutboundTransaction'' steps)) (\<lambda>_.
     bindC (each_C (check_revision scenario) (of_type ''PolicyRevision'' steps)) (\<lambda>_.
     bindC (each_C (check_completion_output scenario) (of_type ''CompletionReviewOutput'' steps)) (\<lambda>_.
     bindC (fold_C (sequence_step b scenario steps) steps sequence_start) (\<lambda>_. okC ()))))))))"

end
