(* ===== verification/Tabletop_Mutations.thy ===== *)
theory Tabletop_Mutations
  imports Tabletop
begin

text \<open>
  The \<open>--mutation\<close> options of scripts/validate-tabletop-scenarios.mjs, with which its tests break a document on
  purpose.  The code assigns to parsed documents in place; nothing else refers to the values it changes, so an
  assignment here rebuilds the path to its target.  A read along the path that throws in the code throws here.
\<close>

section \<open>Assignments\<close>

text \<open>\<open>v.k = x\<close> of a module, which is strict: only an object takes it.  (An array takes it as a
  property beside its items, which these values, being JSON, cannot have; it is left as it is.)\<close>

definition js_put :: "string \<Rightarrow> jsval \<Rightarrow> jsval \<Rightarrow> jsval res" where
  "js_put k x v = (case v of JObj m \<Rightarrow> Inr (JObj (obj_set k x m)) | JArr xs \<Rightarrow> Inr v | _ \<Rightarrow> Inl type_error)"

text \<open>\<open>delete v.k\<close>\<close>

definition remove_key :: "string \<Rightarrow> jsval \<Rightarrow> jsval res" where
  "remove_key k v = (case v of JObj m \<Rightarrow> Inr (JObj (filter (\<lambda>e. fst e \<noteq> k) m)) | _ \<Rightarrow> if nullish v then Inl type_error else Inr v)"

text \<open>An assignment below \<open>v.k\<close>, below an item of an array, and below the first item \<open>find\<close> gives, which is
  \<open>undefined\<close> when there is none.\<close>

definition inside :: "string \<Rightarrow> (jsval \<Rightarrow> jsval res) \<Rightarrow> jsval \<Rightarrow> jsval res" where
  "inside k f v = bindR (js_get v k) (\<lambda>x. bindR (f x) (\<lambda>y. js_put k y v))"

definition at_item :: "nat \<Rightarrow> (jsval \<Rightarrow> jsval res) \<Rightarrow> jsval \<Rightarrow> jsval res" where
  "at_item i f v = (case v of
     JArr xs \<Rightarrow> if i < length xs then bindR (f (xs ! i)) (\<lambda>y. Inr (JArr (xs[i := y]))) else bindR (f JUndef) (\<lambda>_. Inr v)
   | _ \<Rightarrow> inside (nat_string i) f v)"

fun at_first :: "(jsval \<Rightarrow> bool res) \<Rightarrow> (jsval \<Rightarrow> jsval res) \<Rightarrow> jsval list \<Rightarrow> jsval list res" where
  "at_first P f [] = bindR (f JUndef) (\<lambda>_. Inr [])"
| "at_first P f (x # xs) = bindR (P x) (\<lambda>found. if found then bindR (f x) (\<lambda>y. Inr (y # xs))
     else bindR (at_first P f xs) (\<lambda>ys. Inr (x # ys)))"

definition at_found :: "(jsval \<Rightarrow> bool res) \<Rightarrow> (jsval \<Rightarrow> jsval res) \<Rightarrow> jsval \<Rightarrow> jsval res" where
  "at_found P f v = bindR (items_of v) (\<lambda>xs. bindR (at_first P f xs) (\<lambda>ys. Inr (JArr ys)))"

definition field_is :: "string \<Rightarrow> string \<Rightarrow> jsval \<Rightarrow> bool res" where
  "field_is k s v = bindR (js_get v k) (\<lambda>x. Inr (x = JStr s))"

fun index_R :: "(jsval \<Rightarrow> bool res) \<Rightarrow> jsval list \<Rightarrow> nat option res" where
  "index_R P [] = Inr None"
| "index_R P (x # xs) = bindR (P x) (\<lambda>found. if found then Inr (Some 0) else bindR (index_R P xs) (\<lambda>i. Inr (map_option Suc i)))"

section \<open>The places the mutations change\<close>

definition first_scenario :: "(jsval \<Rightarrow> jsval res) \<Rightarrow> jsval \<Rightarrow> jsval res" where
  "first_scenario f = inside ''scenarios'' (at_item 0 f)"

definition named_scenario :: "string \<Rightarrow> (jsval \<Rightarrow> jsval res) \<Rightarrow> jsval \<Rightarrow> jsval res" where
  "named_scenario sid f = inside ''scenarios'' (at_found (field_is ''scenario_id'' sid) f)"

definition typed_step :: "string \<Rightarrow> (jsval \<Rightarrow> jsval res) \<Rightarrow> jsval \<Rightarrow> jsval res" where
  "typed_step t f = inside ''steps'' (at_found (field_is ''message_type'' t) f)"

definition in_payload :: "(jsval \<Rightarrow> jsval res) \<Rightarrow> jsval \<Rightarrow> jsval res" where
  "in_payload f = inside ''payload'' f"

definition step_payload :: "jsval \<Rightarrow> nat \<Rightarrow> string \<Rightarrow> jsval res" where
  "step_payload scenario i k = bindR (js_get scenario ''steps'') (\<lambda>steps. bindR (js_member steps (nat_string i)) (\<lambda>step.
     bindR (js_get step ''payload'') (\<lambda>p. js_get p k)))"

text \<open>\<open>[steps[descendant], steps[ancestor]] = [steps[ancestor], steps[descendant]]\<close>: an index of -1 names
  a property of the array that is none of its items.\<close>

definition item_at :: "jsval list \<Rightarrow> nat option \<Rightarrow> jsval" where
  "item_at xs i = (case i of None \<Rightarrow> JUndef | Some n \<Rightarrow> xs ! n)"

definition put_item :: "nat option \<Rightarrow> jsval \<Rightarrow> jsval list \<Rightarrow> jsval list" where
  "put_item i x xs = (case i of None \<Rightarrow> xs | Some n \<Rightarrow> xs[n := x])"

definition swap_steps :: "jsval \<Rightarrow> jsval res" where
  "swap_steps v = bindR (items_of v) (\<lambda>steps.
     bindR (index_R (field_is ''message_type'' ''DescendantTaskSuspended'') steps) (\<lambda>descendant.
     bindR (index_R (field_is ''message_type'' ''AncestorTaskSuspended'') steps) (\<lambda>ancestor.
     Inr (JArr (put_item ancestor (item_at steps descendant) (put_item descendant (item_at steps ancestor) steps))))))"

text \<open>The copy of the delivery, with the fields that make it a redelivery, put after the original.\<close>

definition redelivered :: "jsval \<Rightarrow> jsval res" where
  "redelivered step =
     bindR (js_get step ''step_id'') (\<lambda>sid.
     bindR (js_put ''step_id'' (JStr (js_string sid @ ''-REDLIVERY'')) step)
     (in_payload (\<lambda>p. bindR (js_put ''message_id'' (JStr ''e1-m14-redelivery'') p) (\<lambda>p.
       bindR (js_put ''redelivery_of_message_id'' (JStr ''e1-m14'') p) (\<lambda>p.
       bindR (js_put ''causation_message_id'' (JStr ''e1-m14'') p) (\<lambda>p.
       bindR (js_put ''delivery_attempt'' (JNum 2) p)
         (js_put ''occurred_at'' (JStr ''2026-07-12T01:02:34Z''))))))))"

definition redeliver :: "jsval \<Rightarrow> jsval res" where
  "redeliver v = bindR (items_of v) (\<lambda>steps.
     bindR (index_R (field_is ''message_type'' ''PolicyGrantReady'') steps) (\<lambda>index.
     bindR (redelivered (item_at steps index)) (\<lambda>duplicate.
     let i = (case index of None \<Rightarrow> 0 | Some n \<Rightarrow> n + 1) in
     Inr (JArr (take i steps @ duplicate # drop i steps)))))"

definition localize :: "jsval \<Rightarrow> jsval res" where
  "localize step = bindR (js_get step ''payload'') (\<lambda>p. bindR (js_get p ''task_id'') (\<lambda>t.
     if t = JStr ''task-child-002'' then in_payload (js_put ''local_correlation_id'' (JStr ''local-child-002'')) step
     else if t = JStr ''task-parent-002'' then in_payload (js_put ''local_correlation_id'' (JStr ''local-parent-002'')) step
     else Inr step))"

definition localize_steps :: "jsval \<Rightarrow> jsval res" where
  "localize_steps v = bindR (iter_of v) (\<lambda>steps. bindR (map_R localize steps) (\<lambda>ys. Inr (if is_array v then JArr ys else v)))"

section \<open>The mutations\<close>

definition splice_out :: "nat \<Rightarrow> jsval \<Rightarrow> jsval res" where
  "splice_out i v = bindR (items_of v) (\<lambda>xs. Inr (JArr (take i xs @ drop (i + 1) xs)))"

definition MUTATIONS :: "(string \<times> (jsval \<Rightarrow> jsval res)) list" where
  "MUTATIONS =
    [(''missing-message'', first_scenario (inside ''steps'' (splice_out 5))),
     (''missing-correlation-path'', first_scenario (typed_step ''CompletionReviewOutput'' (in_payload (inside ''refs'' (remove_key ''input_digest''))))),
     (''state-gap'', named_scenario ''E2E-003'' (typed_step ''TaskCompleted'' (in_payload (inside ''entity'' (js_put ''from_state'' (JStr ''running'')))))),
     (''bad-causation'', first_scenario (inside ''steps'' (at_item 1 (in_payload (js_put ''causation_message_id'' (JStr ''missing-message'')))))),
     (''duplicate-idempotency'', first_scenario (\<lambda>scenario. bindR (step_payload scenario 0 ''idempotency_key'') (\<lambda>key.
        inside ''steps'' (at_item 1 (in_payload (js_put ''idempotency_key'' key))) scenario))),
     (''missing-domain'', first_scenario (typed_step ''EgressChallenge'' (in_payload (js_put ''message_id'' (JStr ''unbound-message''))))),
     (''projection-domain-mismatch'', first_scenario (typed_step ''EgressChallenge'' (in_payload (inside ''refs'' (js_put ''challenge_id'' (JStr ''challenge-forged'')))))),
     (''illegal-state'', named_scenario ''E2E-003'' (typed_step ''TaskWaiting'' (in_payload (inside ''entity'' (js_put ''to_state'' (JStr ''teleported'')))))),
     (''wrong-prior-causation'', named_scenario ''E2E-002'' (typed_step ''ParentIntegration'' (in_payload (js_put ''causation_message_id'' (JStr ''e2-m01''))))),
     (''authority-bypasses-control'', named_scenario ''E2E-004'' (typed_step ''IncidentAuthorityRequest'' (js_put ''to_plane'' (JStr ''governance-plane'')))),
     (''incident-cascade-wrong-order'', named_scenario ''E2E-004'' (inside ''steps'' swap_steps)),
     (''idempotent-redelivery'', first_scenario (inside ''steps'' redeliver)),
     (''nested-correlation'', named_scenario ''E2E-002'' (inside ''steps'' localize_steps))]"

text \<open>\<open>process.argv.find((argument) => argument.startsWith("--mutation="))?.slice("--mutation=".length)\<close>; the options that
  are no mutation change nothing.\<close>

definition mutation_argument :: "string list \<Rightarrow> string option" where
  "mutation_argument argv = map_option (drop (length ''--mutation='')) (List.find (\<lambda>a. starts_with a ''--mutation='') argv)"

definition mutate :: "string list \<Rightarrow> jsval \<Rightarrow> jsval res" where
  "mutate argv document = (case mutation_argument argv of None \<Rightarrow> Inr document
   | Some name \<Rightarrow> (case map_of MUTATIONS name of None \<Rightarrow> Inr document | Some f \<Rightarrow> f document))"

lemma mutate_none [simp]: "\<not> list_ex (\<lambda>a. starts_with a ''--mutation='') argv \<Longrightarrow> mutate argv document = Inr document"
proof -
  assume "\<not> list_ex (\<lambda>a. starts_with a ''--mutation='') argv"
  then have "List.find (\<lambda>a. starts_with a ''--mutation='') argv = None" by (auto simp: find_None_iff list_ex_iff)
  then show ?thesis by (simp only: mutate_def mutation_argument_def option.simps)
qed

text \<open>A mutation changes scenarios, and leaves an active document one.\<close>

definition active_shape :: "jsval \<Rightarrow> bool" where
  "active_shape v \<longleftrightarrow> (\<exists>version scenarios. v = JObj [(''schema_version'', version), (''scenarios'', JArr scenarios)])"

lemma inside_scenarios:
  assumes "active_shape v" "inside ''scenarios'' f v = Inr w" "\<And>xs y. f (JArr xs) = Inr y \<Longrightarrow> is_array y"
  shows "active_shape w"
  using assms by (auto simp: active_shape_def inside_def js_put_def bindR_Inr_iff is_array_iff)

lemma first_scenario_shape: "active_shape v \<Longrightarrow> first_scenario f v = Inr w \<Longrightarrow> active_shape w"
  unfolding first_scenario_def by (erule inside_scenarios) (auto simp: at_item_def bindR_Inr_iff split: if_splits)

lemma named_scenario_shape: "active_shape v \<Longrightarrow> named_scenario sid f v = Inr w \<Longrightarrow> active_shape w"
  unfolding named_scenario_def by (erule inside_scenarios) (auto simp: at_found_def bindR_Inr_iff)

lemma mutations_scenarios: "f \<in> snd ` set MUTATIONS \<Longrightarrow> (\<exists>g. f = first_scenario g) \<or> (\<exists>sid g. f = named_scenario sid g)"
  unfolding MUTATIONS_def by auto

lemma mutate_shape:
  assumes "mutate argv v = Inr w" "active_shape v"
  shows "active_shape w"
proof -
  consider "w = v" | name f where "map_of MUTATIONS name = Some f" "f v = Inr w"
    using assms(1) by (cases "mutation_argument argv"; cases "map_of MUTATIONS (the (mutation_argument argv))") (simp_all add: mutate_def)
  then show ?thesis
  proof cases
    case 2
    then have "f \<in> snd ` set MUTATIONS" by (metis map_of_SomeD image_eqI snd_conv)
    from mutations_scenarios [OF this] show ?thesis
    proof (elim disjE exE)
      fix g
      assume "f = first_scenario g"
      with 2(2) show ?thesis by (intro first_scenario_shape [OF assms(2)]) simp
    next
      fix sid g
      assume "f = named_scenario sid g"
      with 2(2) show ?thesis by (intro named_scenario_shape [OF assms(2)]) simp
    qed
  qed (use assms in simp)
qed

end
