(* ===== verification/Tabletop_Main.thy ===== *)
theory Tabletop_Main
  imports Tabletop_Mutations
begin

text \<open>
  The rest of scripts/validate-tabletop-scenarios.mjs: the domain payloads, the check of each scenario against
  them and against its sequence requirement, the rules of the incident scenario, and the script itself.
\<close>

section \<open>The domain payloads\<close>

text \<open>\<open>[value].flatMap(item => item.records ?? [])\<close>\<close>

definition flat_items :: "jsval \<Rightarrow> jsval list" where
  "flat_items v = (if nullish v then [] else if is_array v then arr_items v else [v])"

definition is_payload_file :: "string \<Rightarrow> bool" where
  "is_payload_file name \<longleftrightarrow> starts_with name ''domain-payloads-'' \<and> ends_with name ''.json''
     \<and> length name \<ge> length ''domain-payloads-.json'' \<and> newline \<notin> set name"

definition tabletop_dir :: "bench \<Rightarrow> string" where
  "tabletop_dir b = path_join (tb_root b) ''examples/e2e-tabletop''"

definition domainPayloadDocuments :: "bench \<Rightarrow> jsval list res" where
  "domainPayloadDocuments b = map_R (\<lambda>name. readJson b (path_join (tabletop_dir b) name)) (sort (filter is_payload_file (tb_names b)))"

text \<open>The schema a \<open>schema_ref\<close> names, with its file.\<close>

definition schema_at :: "bench \<Rightarrow> jsval \<Rightarrow> (jsval \<times> string) res" where
  "schema_at b schema_ref = (case schema_ref of
     JStr r \<Rightarrow> (case split_ref r of (filePart, fragment) \<Rightarrow>
       let schemaFile = path_resolve (tb_root b) filePart in
       bindR (readJson b schemaFile) (\<lambda>document.
       bindR (resolvePointer document fragment) (\<lambda>schema. Inr (schema, schemaFile))))
   | _ \<Rightarrow> Inl type_error)"

definition check_payload :: "bench \<Rightarrow> jsval \<Rightarrow> jsval \<Rightarrow> string \<Rightarrow> unit jchk" where
  "check_payload b schema_ref payload location =
     bindC (liftC (schema_at b schema_ref)) (\<lambda>(schema, schemaFile). validate (tb_stack b) b payload schema schemaFile location False)"

text \<open>\<open>canonicalPayloads\<close>, in the order of its writes: the messages bound so far and their payloads.\<close>

type_synonym canon = "(jsval \<times> jsval) list"

definition domain_record :: "bench \<Rightarrow> jsval \<Rightarrow> canon \<Rightarrow> canon jchk" where
  "domain_record b rec bound =
     bindC (fieldC rec ''message_id'') (\<lambda>message_id.
     bindC (push_if (seen_has message_id (map fst bound)) (Err ''duplicate domain payload'' [message_id])) (\<lambda>_.
     bindC (check_payload b (js_field rec ''schema_ref'') (js_field rec ''payload'') (''domain/'' @ js_string message_id)) (\<lambda>_.
     okC (bound @ [(message_id, js_field rec ''payload'')]))))"

definition domain_records :: "bench \<Rightarrow> jsval list \<Rightarrow> canon jchk" where
  "domain_records b documents =
     bindC (liftC (map_R (\<lambda>d. js_get d ''records'') documents)) (\<lambda>records.
     fold_C (domain_record b) (concat (map flat_items records)) [])"

definition domainRequiredTypes :: "string list" where
  "domainRequiredTypes = [
     ''MemoryContextRequest'', ''MemoryContext'', ''TestToolCall'', ''GitHubToolCall'', ''GitHubToolCallRetry'', ''RegistryToolCall'', ''RegistryToolCallRetry'', ''ToolCall'',
     ''TestToolResult'', ''ToolResultAccepted'', ''AsyncOperationRunning'', ''AsyncOperationCompleted'', ''Continuation'', ''ResumeContext'',
     ''EgressAttemptBlocked'', ''EgressAttemptAllowed'', ''EgressChallenge'', ''GrantRequest'', ''GrantDecisionRecord'', ''PolicyGrantPendingActivation'', ''PolicyGrantActive'', ''PolicyActivationAck'', ''OutboundTransaction'',
     ''CompletionReviewInput'', ''CompletionReviewOutput'', ''ChildCompletionReviewInput'', ''ChildCompletionReviewOutput'', ''ParentCompletionReviewInput'', ''ParentCompletionReviewOutput'', ''RemediationCompletionReviewInput'', ''RemediationCompletionReviewOutput'',
     ''EpisodeAgentInput'', ''ChildEpisodeAgentInput'', ''TaskEpisode'', ''ChildTaskEpisode'',
     ''MailboxAsyncCompleted'', ''MailboxChildCompleted'', ''EgressAuditInput'', ''EgressReviewFinding'', ''EvidenceRecord'', ''RemediationTaskCommand'',
     ''DelegateCommand'', ''TaskRunning'', ''TaskWaiting'', ''TaskResumed'', ''TaskReviewingCompletion'', ''TaskCompleted'',
     ''ChildTaskCreated'', ''ChildTaskStarted'', ''ChildTaskReviewingCompletion'', ''ChildTaskCompleted'',
     ''ParentTaskRunning'', ''ParentTaskReviewingCompletion'', ''ParentTaskCompleted'',
     ''RemediationTaskCreated'', ''RemediationTaskReviewingCompletion'', ''RemediationTaskCompleted'',
     ''AsyncCompleted'', ''PolicyGrantReady'', ''ChildWorkspaceCreated'', ''MailboxAsyncConsumed'', ''MailboxChildConsumed'',
     ''PolicyRevisionJob'', ''PolicyAgentRevisionInput'', ''PolicyCandidate'', ''PolicyRegressionResult'', ''PolicyRevisionDecision'', ''GovernanceAuthorityRequest'', ''GovernanceAuthorityDecision'', ''PolicyRevisionPendingActivation'', ''PolicyRevisionActive'',
     ''SecurityIncidentCreated'', ''IncidentEvidencePinned'', ''IncidentRiskAssessed'', ''TemporaryContainmentApplied'', ''ContainmentReleased'', ''SuspendTaskRequested'', ''StopAgentRunRequested'', ''AgentRunStopped'', ''TaskSuspended'', ''IncidentAuthorityRequest'', ''IncidentAuthorityDecision'', ''SecurityIncidentRemediated'', ''TaskResumeAuthorityRequest'', ''TaskResumeAuthorityDecision'', ''ResumeTaskRequested'', ''StartAgentRunRequested'', ''AgentRunStarted'']"

text \<open>The scalar properties of a value, at any depth, in order; \<open>named.get(key)\<close> lists those of one name.\<close>

fun collectNamedValues :: "jsval \<Rightarrow> (string \<times> jsval) list" where
  "collectNamedValues (JArr xs) = concat (map collectNamedValues xs)"
| "collectNamedValues (JObj m) = concat (map (\<lambda>(key, child).
     if child = JNull \<or> is_string child \<or> is_number child \<or> is_boolean child then [(key, child)] else collectNamedValues child) m)"
| "collectNamedValues _ = []"

definition named :: "string \<Rightarrow> (string \<times> jsval) list \<Rightarrow> jsval list" where
  "named key values = map snd (filter (\<lambda>e. fst e = key) values)"

section \<open>A step and its canonical payload\<close>

definition changes_state :: "jsval \<Rightarrow> bool" where
  "changes_state t = list_ex (ends_with (js_string t)) [''AgentRunRequested'', ''AgentRunStopped'', ''AgentRunStarted'', ''TaskSuspended'', ''TaskResumed'']"

definition disagrees :: "jsval list \<Rightarrow> jsval \<Rightarrow> bool" where
  "disagrees candidates v \<longleftrightarrow> candidates \<noteq> [] \<and> \<not> seen_has v candidates"

definition check_canonical :: "jsval \<Rightarrow> jsval \<Rightarrow> jsval \<Rightarrow> unit jchk" where
  "check_canonical scenario step canonical =
     (let values = collectNamedValues canonical; p = payload_of step; entity = js_field p ''entity'' in
      bindC (push_if (disagrees (named ''task_id'' values @ named ''owner_task_id'' values @ named ''source_task_id'' values @ named ''subject_id'' values) (js_field p ''task_id''))
        (step_error scenario step ''sequence task_id disagrees with canonical payload'')) (\<lambda>_.
      bindC (push_if (disagrees (named ''workspace_id'' values) (js_field p ''workspace_id''))
        (step_error scenario step ''sequence workspace_id disagrees with canonical payload'')) (\<lambda>_.
      bindC (each_C (\<lambda>(key, v). push_if (disagrees (named key values) v)
        (Err ''sequence refs disagrees with canonical payload'' [js_field scenario ''scenario_id'', js_field step ''step_id'', JStr key])) (js_entries (js_field p ''refs''))) (\<lambda>_.
      bindC (push_if (disagrees (named ''from_state'' values) (js_opt entity ''from_state'')) (step_error scenario step ''sequence from_state disagrees with canonical payload'')) (\<lambda>_.
      push_if (disagrees (named ''to_state'' values) (js_opt entity ''to_state'')) (step_error scenario step ''sequence to_state disagrees with canonical payload''))))))"

record trace_state =
  tr_planes :: "jsval list"
  tr_used :: "jsval list"
  tr_checked :: nat

definition is_required_type :: "jsval \<Rightarrow> bool" where
  "is_required_type t = (case t of JStr s \<Rightarrow> s \<in> set domainRequiredTypes | _ \<Rightarrow> False)"

definition trace_step :: "bench \<Rightarrow> canon \<Rightarrow> jsval \<Rightarrow> jsval \<Rightarrow> trace_state \<Rightarrow> trace_state jchk" where
  "trace_step b bound scenario step st =
     bindC (fieldC step ''from_plane'') (\<lambda>from_plane.
     bindC (check_payload b (js_field step ''schema_ref'') (payload_of step)
       (js_string (js_field scenario ''scenario_id'') @ ''/'' @ js_string (js_field step ''step_id''))) (\<lambda>_.
     bindC (fieldC (payload_of step) ''redelivery_of_message_id'') (\<lambda>redelivery.
     let message_id = coalesce redelivery (js_field (payload_of step) ''message_id''); t = js_field step ''message_type'';
         st = st\<lparr>tr_planes := js_field step ''to_plane'' # from_plane # tr_planes st, tr_checked := tr_checked st + 1\<rparr> in
     bindC (push_if ((is_required_type t \<or> changes_state t) \<and> \<not> seen_has message_id (map fst bound))
       (Err ''canonical domain payload missing'' [js_field scenario ''scenario_id'', js_field step ''step_id'', t])) (\<lambda>_.
     case get_last message_id bound of
       None \<Rightarrow> okC st
     | Some canonical \<Rightarrow>
         if truthy canonical then bindC (check_canonical scenario step canonical) (\<lambda>_. okC (st\<lparr>tr_used := message_id # tr_used st\<rparr>))
         else okC st))))"

definition ends_withC :: "jsval \<Rightarrow> string \<Rightarrow> bool jchk" where
  "ends_withC v s = (case v of JStr t \<Rightarrow> okC (ends_with t s) | _ \<Rightarrow> liftC (Inl type_error))"

definition check_authority :: "jsval \<Rightarrow> jsval \<Rightarrow> unit jchk" where
  "check_authority scenario step =
     bindC (fieldC step ''message_type'') (\<lambda>t.
     bindC (ends_withC t ''AuthorityRequest'') (\<lambda>request.
     bindC (push_if (request \<and> js_field step ''to_plane'' \<noteq> JStr ''control-plane'') (step_error scenario step ''human Authority Request must enter through control-plane'')) (\<lambda>_.
     bindC (ends_withC t ''AuthorityDecision'') (\<lambda>decision.
     push_if (decision \<and> js_field step ''from_plane'' \<noteq> JStr ''control-plane'') (step_error scenario step ''human Authority Decision must return through control-plane'')))))"

section \<open>The incident scenario\<close>

text \<open>\<open>new Map(steps.map((step, index) => [step.message_type, { step, index }]))\<close>, the last write first.\<close>

definition last_by_type :: "jsval list \<Rightarrow> string \<Rightarrow> (nat \<times> jsval) option" where
  "last_by_type steps t = List.find (\<lambda>(i, step). js_field step ''message_type'' = JStr t) (rev (enumerate 0 steps))"

text \<open>\<open>byType.get(t)?.step.payload\<close> and \<open>byType.get(t)?.index ?? -1\<close>\<close>

definition payload_by_type :: "jsval list \<Rightarrow> string \<Rightarrow> jsval" where
  "payload_by_type steps t = (case last_by_type steps t of None \<Rightarrow> JUndef | Some (i, step) \<Rightarrow> payload_of step)"

definition index_by_type :: "jsval list \<Rightarrow> string \<Rightarrow> int" where
  "index_by_type steps t = (case last_by_type steps t of None \<Rightarrow> -1 | Some (i, step) \<Rightarrow> int i)"

definition in_order :: "int list \<Rightarrow> bool" where
  "in_order order = (case order of [x, y, z] \<Rightarrow> x \<ge> 0 \<and> x < y \<and> y < z | _ \<Rightarrow> False)"

text \<open>\<open>p?.refs.run_id\<close>\<close>

definition run_id_of :: "jsval \<Rightarrow> jsval res" where
  "run_id_of p = (if nullish p then Inr JUndef else js_get (js_field p ''refs'') ''run_id'')"

definition join_differs :: "jsval \<Rightarrow> jsval \<Rightarrow> bool res" where
  "join_differs p q = bindR (run_id_of p) (\<lambda>x. bindR (run_id_of q) (\<lambda>y.
     Inr (\<not> js_seq x y \<or> \<not> js_seq (js_opt p ''task_id'') (js_opt q ''task_id''))))"

definition check_relation :: "jsval list \<Rightarrow> string \<Rightarrow> unit jchk" where
  "check_relation steps relation =
     (let stop = payload_by_type steps (''Stop'' @ relation @ ''AgentRunRequested''); stopped = payload_by_type steps (relation @ ''AgentRunStopped'');
          start = payload_by_type steps (''Start'' @ relation @ ''AgentRunRequested''); started = payload_by_type steps (relation @ ''AgentRunStarted'');
          resumed = payload_by_type steps (relation @ ''TaskResumed'') in
      bindC (liftC (join_differs stop stopped)) (\<lambda>x.
      bindC (push_if x (Err ''E2E-004: stop command/event join mismatch'' [JStr relation])) (\<lambda>_.
      bindC (liftC (join_differs start started)) (\<lambda>x.
      bindC (push_if x (Err ''E2E-004: start command/event join mismatch'' [JStr relation])) (\<lambda>_.
      bindC (liftC (join_differs started resumed)) (\<lambda>x.
      push_if x (Err ''E2E-004: started/resumed join mismatch'' [JStr relation])))))))"

definition scope_tasks :: "jsval \<Rightarrow> string list" where
  "scope_tasks scope = concat (map (\<lambda>(relation, key). if truthy (js_opt scope key) then [relation @ '':'' @ js_string (js_opt scope key)] else [])
     [(''ancestor'', ''ancestor_task_id''), (''source'', ''source_task_id''), (''descendant'', ''descendant_task_id'')])"

definition target_tasks :: "jsval \<Rightarrow> string list res" where
  "target_tasks containment = (let targets = js_opt containment ''task_targets'' in
     bindR (if nullish targets then Inr [] else items_of targets) (\<lambda>items.
     map_R (\<lambda>t. bindR (js_get t ''relation'') (\<lambda>r. Inr (js_string r @ '':'' @ js_string (js_field t ''task_id'')))) items))"

definition suspends_sibling :: "jsval \<Rightarrow> bool" where
  "suspends_sibling step \<longleftrightarrow> js_field (payload_of step) ''task_id'' = JStr ''task-004-sibling''
     \<and> js_opt (js_field (payload_of step) ''entity'') ''to_state'' = JStr ''suspended''"

definition check_incident :: "canon \<Rightarrow> jsval list \<Rightarrow> unit jchk" where
  "check_incident bound steps =
     (let scope = js_opt (payload_by_type steps ''IncidentTaskScopeExpanded'') ''refs'';
          containment = (case get_last (JStr ''e4i-m06'') bound of None \<Rightarrow> JUndef | Some p \<Rightarrow> p) in
      bindC (liftC (target_tasks containment)) (\<lambda>wanted.
      bindC (push_if (sort (scope_tasks scope) \<noteq> sort wanted) (Err ''E2E-004: expanded task containment set disagrees with canonical targets'' [])) (\<lambda>_.
      bindC (push_if (\<not> js_seq (js_opt scope ''task_graph_revision'') (js_opt containment ''task_graph_revision''))
        (Err ''E2E-004: task graph revision disagrees with containment snapshot'' [])) (\<lambda>_.
      bindC (push_if (\<not> in_order (map (index_by_type steps) [''DescendantTaskSuspended'', ''SourceTaskSuspended'', ''AncestorTaskSuspended'']))
        (Err ''E2E-004: tasks must suspend descendant -> source -> ancestor'' [])) (\<lambda>_.
      bindC (push_if (\<not> in_order (map (index_by_type steps) [''AncestorTaskResumed'', ''SourceTaskResumed'', ''DescendantTaskResumed'']))
        (Err ''E2E-004: tasks must resume ancestor -> source -> descendant'' [])) (\<lambda>_.
      bindC (push_if (last_by_type steps ''SiblingTaskContinues'' = None \<or> list_ex suspends_sibling steps)
        (Err ''E2E-004: sibling branch must remain outside containment'' [])) (\<lambda>_.
      each_C (check_relation steps) [''Ancestor'', ''Descendant''])))))))"

section \<open>The sequence requirement\<close>

text \<open>The first step of each type with its index; a later one must be its redelivery.\<close>

definition index_step :: "jsval \<Rightarrow> nat \<times> jsval \<Rightarrow> (jsval \<times> nat \<times> jsval) list \<Rightarrow> (jsval \<times> nat \<times> jsval) list jchk" where
  "index_step scenario e firsts =
     (let step = snd e; t = js_field step ''message_type'' in
      case get_last t firsts of
        None \<Rightarrow> okC (firsts @ [(t, e)])
      | Some (i, first) \<Rightarrow>
          bindC (fieldC (payload_of step) ''redelivery_of_message_id'') (\<lambda>r.
          bindC (push_if (\<not> js_seq r (js_field (payload_of first) ''message_id''))
            (Err ''duplicate message type; requirement matching would be ambiguous'' [js_field scenario ''scenario_id'', t])) (\<lambda>_.
          okC firsts)))"

definition order_step :: "jsval \<Rightarrow> (jsval \<times> nat \<times> jsval) list \<Rightarrow> jsval \<Rightarrow> int \<Rightarrow> int jchk" where
  "order_step scenario firsts t previousIndex = (case get_last t firsts of
     None \<Rightarrow> bindC (push_all [Err ''required message missing'' [js_field scenario ''scenario_id'', t]]) (\<lambda>_. okC previousIndex)
   | Some (i, step) \<Rightarrow>
       if int i \<le> previousIndex then bindC (push_all [Err ''required message is out of order'' [js_field scenario ''scenario_id'', t]]) (\<lambda>_. okC previousIndex)
       else okC (int i))"

text \<open>\<open>dotted.split(".").reduce((current, key) => current?.[key], value)\<close>\<close>

fun read_keys :: "jsval \<Rightarrow> string list \<Rightarrow> jsval" where
  "read_keys v [] = v"
| "read_keys v (key # keys) = read_keys (if nullish v then JUndef else case js_member v key of Inl e \<Rightarrow> JUndef | Inr x \<Rightarrow> x) keys"

definition readPath :: "jsval \<Rightarrow> jsval \<Rightarrow> jsval res" where
  "readPath v dotted = (case dotted of JStr d \<Rightarrow> Inr (read_keys v (split_char (CHR ''.'') d)) | _ \<Rightarrow> Inl type_error)"

definition first_payload :: "(jsval \<times> nat \<times> jsval) list \<Rightarrow> jsval \<Rightarrow> jsval" where
  "first_payload firsts t = (case get_last t firsts of None \<Rightarrow> JUndef | Some (i, step) \<Rightarrow> payload_of step)"

definition check_required_correlation :: "jsval \<Rightarrow> (jsval \<times> nat \<times> jsval) list \<Rightarrow> jsval \<Rightarrow> unit jchk" where
  "check_required_correlation scenario firsts correlation =
     bindC (fieldC correlation ''left_type'') (\<lambda>left_type.
     let right_type = js_field correlation ''right_type''; left = first_payload firsts left_type; right = first_payload firsts right_type;
         left_path = js_field correlation ''left_path''; right_path = js_field correlation ''right_path''; sid = js_field scenario ''scenario_id'' in
     whenC (truthy left \<and> truthy right)
       (bindC (liftC (readPath left left_path)) (\<lambda>leftValue.
        bindC (liftC (readPath right right_path)) (\<lambda>rightValue.
        bindC (push_if (leftValue = JUndef) (Err ''correlation path missing'' [sid, left_type, left_path])) (\<lambda>_.
        bindC (push_if (rightValue = JUndef) (Err ''correlation path missing'' [sid, right_type, right_path])) (\<lambda>_.
        push_if (leftValue \<noteq> JUndef \<and> rightValue \<noteq> JUndef \<and> \<not> js_seq leftValue rightValue)
          (Err ''correlation mismatch'' [sid, left_type, left_path, right_type, right_path])))))))"

definition check_required_causation :: "jsval \<Rightarrow> (jsval \<times> nat \<times> jsval) list \<Rightarrow> jsval \<Rightarrow> unit jchk" where
  "check_required_causation scenario firsts causation =
     bindC (fieldC causation ''cause_type'') (\<lambda>cause_type.
     let effect_type = js_field causation ''effect_type''; cause = first_payload firsts cause_type; effect = first_payload firsts effect_type in
     push_if (truthy cause \<and> truthy effect \<and> \<not> js_seq (js_field effect ''causation_message_id'') (js_field cause ''message_id''))
       (Err ''causation mismatch'' [js_field scenario ''scenario_id'', cause_type, effect_type]))"

definition check_requirement :: "jsval \<Rightarrow> jsval list \<Rightarrow> jsval \<Rightarrow> unit jchk" where
  "check_requirement scenario steps requirement =
     bindC (fold_C (index_step scenario) (enumerate 0 steps) []) (\<lambda>firsts.
     bindC (liftC (iter_of (js_field requirement ''ordered_message_types''))) (\<lambda>types.
     bindC (fold_C (order_step scenario firsts) types (-1)) (\<lambda>_.
     bindC (liftC (iter_of (js_field requirement ''correlations''))) (\<lambda>correlations.
     bindC (each_C (check_required_correlation scenario firsts) correlations) (\<lambda>_.
     bindC (liftC (iter_of (js_field requirement ''causations''))) (\<lambda>causations.
     each_C (check_required_causation scenario firsts) causations))))))"

section \<open>The script\<close>

definition check_planes :: "jsval \<Rightarrow> jsval list \<Rightarrow> unit jchk" where
  "check_planes scenario planes = each_C (\<lambda>plane. push_if (\<not> seen_has (JStr plane) planes)
     (Err ''does not cross'' [js_field scenario ''scenario_id'', JStr plane])) [''control-plane'', ''execution-plane'', ''governance-plane'', ''memory-plane'']"

definition requirement_of :: "jsval list \<Rightarrow> jsval \<Rightarrow> jsval option res" where
  "requirement_of requirements scenario_id = find_R (\<lambda>item. bindR (js_get item ''scenario_id'') (\<lambda>r. Inr (js_seq r scenario_id))) requirements"

definition check_scenario :: "bench \<Rightarrow> canon \<Rightarrow> jsval list \<Rightarrow> jsval \<Rightarrow> trace_state \<Rightarrow> trace_state jchk" where
  "check_scenario b bound requirements scenario st =
     bindC (liftC (bindR (js_get scenario ''steps'') js_iter)) (\<lambda>steps.
     bindC (fold_C (trace_step b bound scenario) steps (st\<lparr>tr_planes := []\<rparr>)) (\<lambda>st.
     bindC (liftC (iter_of (js_field scenario ''steps''))) (\<lambda>_.
     bindC (each_C (check_authority scenario) steps) (\<lambda>_.
     bindC (whenC (js_field scenario ''scenario_id'' = JStr ''E2E-004'')
       (bindC (liftC (items_of (js_field scenario ''steps''))) (check_incident bound))) (\<lambda>_.
     bindC (check_planes scenario (tr_planes st)) (\<lambda>_.
     bindC (validateSequenceInvariants b scenario) (\<lambda>_.
     bindC (liftC (requirement_of requirements (js_field scenario ''scenario_id''))) (\<lambda>requirement.
     bindC (case requirement of
         None \<Rightarrow> push_all [Err ''sequence requirement missing'' [js_field scenario ''scenario_id'']]
       | Some r \<Rightarrow> if \<not> truthy r then push_all [Err ''sequence requirement missing'' [js_field scenario ''scenario_id'']]
           else bindC (liftC (items_of (js_field scenario ''steps''))) (\<lambda>steps. check_requirement scenario steps r)) (\<lambda>_.
     okC st)))))))))"

definition scenarioPaths :: "bench \<Rightarrow> string list \<Rightarrow> string list" where
  "scenarioPaths b argv = (case List.find (\<lambda>a. \<not> starts_with a ''--'') argv of
     Some a \<Rightarrow> if a \<noteq> [] then [path_resolve (tb_root b) a] else map (path_join (tb_root b))
       [''examples/e2e-tabletop/executable-scenarios.json'', ''examples/e2e-tabletop/executable-scenario-002.json'', ''examples/e2e-tabletop/executable-scenario-004-incident.json'']
   | None \<Rightarrow> map (path_join (tb_root b))
       [''examples/e2e-tabletop/executable-scenarios.json'', ''examples/e2e-tabletop/executable-scenario-002.json'', ''examples/e2e-tabletop/executable-scenario-004-incident.json''])"

text \<open>The active scenarios, in order; a second scenario of the same id throws.\<close>

definition add_scenario :: "jsval \<Rightarrow> (jsval \<times> jsval) list \<Rightarrow> (jsval \<times> jsval) list jchk" where
  "add_scenario scenario m =
     bindC (fieldC scenario ''scenario_id'') (\<lambda>sid.
     if seen_has sid (map fst m) then liftC (Inl (Err ''duplicate active scenario_id'' [sid])) else okC (m @ [(sid, scenario)]))"

definition active_document :: "jsval list \<Rightarrow> jsval jchk" where
  "active_document documents =
     bindC (fold_C (\<lambda>item m. bindC (fieldC item ''scenarios'') (\<lambda>ss. bindC (liftC (js_iter ss)) (\<lambda>xs. fold_C add_scenario xs m))) documents []) (\<lambda>m.
     okC (JObj [(''schema_version'', (case documents of [] \<Rightarrow> JUndef | d # _ \<Rightarrow> js_opt d ''schema_version'')), (''scenarios'', JArr (map snd m))]))"

definition requirements_of :: "jsval \<Rightarrow> jsval list res" where
  "requirements_of document = bindR (js_get document ''requirements'') (\<lambda>r. if nullish r then Inr [] else items_of r)"

definition validate_tabletop :: "bench \<Rightarrow> string list \<Rightarrow> trace_state jchk" where
  "validate_tabletop b argv =
     bindC (liftC (map_R (readJson b) (scenarioPaths b argv))) (\<lambda>documents.
     bindC (active_document documents) (\<lambda>active.
     bindC (liftC (mutate argv active)) (\<lambda>document.
     let scenarios = arr_items (js_field document ''scenarios''); partial = ''--partial'' \<in> set argv in
     bindC (validateScenarioEnvelope document) (\<lambda>_.
     bindC (liftC (readJson b (path_join (tb_root b) ''examples/e2e-tabletop/sequence-requirements.json''))) (\<lambda>requirementDocument.
     bindC (liftC (domainPayloadDocuments b)) (\<lambda>payloads.
     let schemaFile = path_join (tb_root b) ''schemas/draft-v0/common/sequence-invariant.schema.json'' in
     bindC (liftC (readJson b schemaFile)) (\<lambda>requirementSchema.
     bindC (liftC (requirements_of requirementDocument)) (\<lambda>requirements.
     bindC (each_C (\<lambda>(i, r). validate (tb_stack b) b r requirementSchema schemaFile (''requirements['' @ nat_string i @ '']'') False) (enumerate 0 requirements)) (\<lambda>_.
     bindC (domain_records b payloads) (\<lambda>bound.
     bindC (whenC (\<not> partial) (each_C (\<lambda>r. bindC (fieldC r ''scenario_id'') (\<lambda>sid.
       push_if (\<not> seen_has sid (map (\<lambda>s. js_field s ''scenario_id'') scenarios)) (Err ''required scenario missing'' [sid]))) requirements)) (\<lambda>_.
     bindC (fold_C (check_scenario b bound requirements) scenarios \<lparr>tr_planes = [], tr_used = [], tr_checked = 0\<rparr>) (\<lambda>st.
     bindC (whenC (\<not> partial) (each_C (\<lambda>message_id. push_if (\<not> seen_has message_id (tr_used st))
       (Err ''payload is not used by any active trace'' [message_id])) (uniq (map fst bound)))) (\<lambda>_.
     okC st)))))))))))))"

end
