(* ===== verification/Tabletop_Props.thy ===== *)
theory Tabletop_Props
  imports Tabletop_Main "HOL-Library.Multiset"
begin

text \<open>
  What the tabletop validator's acceptance means: the entities of an accepted sequence follow their state
  machines, its messages are identified, caused and ordered, and a scenario fulfils its sequence requirement.
\<close>

section \<open>Loops of a check that passes\<close>

lemma clean_fold_C_Cons [res_simps]: "clean (fold_C f (x # xs) s) s' \<longleftrightarrow> (\<exists>s1. clean (f x s) s1 \<and> clean (fold_C f xs s1) s')"
  by (simp add: clean_bindC)

lemma clean_fold_C_invariant:
  assumes "clean (fold_C f xs s) s'" "I [] s"
    and "\<And>ys x zs st st'. xs = ys @ x # zs \<Longrightarrow> I ys st \<Longrightarrow> clean (f x st) st' \<Longrightarrow> I (ys @ [x]) st'"
  shows "I xs s'"
proof -
  have "I (ys @ zs) s'" if "clean (fold_C f zs st) s'" "I ys st" "xs = ys @ zs" for ys zs st
    using that
  proof (induction zs arbitrary: ys st)
    case (Cons z zs)
    then obtain st1 where "clean (f z st) st1" "clean (fold_C f zs st1) s'" by (auto simp: clean_bindC)
    then show ?case using Cons.IH [of st1 "ys @ [z]"] Cons.prems assms(3) by simp
  qed simp
  from this [of xs s "[]"] show ?thesis using assms(1,2) by simp
qed

lemma clean_whenC [res_simps]: "clean (whenC c m) u \<longleftrightarrow> (c \<longrightarrow> clean m u)"
  by (auto simp: whenC_def)

lemma clean_fieldC [res_simps]: "clean (fieldC v k) x \<longleftrightarrow> \<not> nullish v \<and> x = js_field v k"
  by (auto simp: fieldC_def)

lemma ex_unit: "(Ex :: (unit \<Rightarrow> bool) \<Rightarrow> bool) P \<longleftrightarrow> P ()"
  by auto

section \<open>The entities\<close>

text \<open>The move a message makes: the entity's key and kind, and the states.\<close>

type_synonym entity_move = "string \<times> jsval \<times> jsval \<times> jsval"

definition moves_entity :: "jsval \<Rightarrow> bool" where
  "moves_entity step \<longleftrightarrow> truthy (js_field (payload_of step) ''message_id'') \<and> truthy (js_field (payload_of step) ''entity'')
     \<and> \<not> is_redelivery (payload_of step)"

definition move_of :: "jsval \<Rightarrow> entity_move" where
  "move_of step = (let entity = js_field (payload_of step) ''entity'' in
     (entity_key entity, js_field entity ''kind'', js_field entity ''from_state'', js_field entity ''to_state''))"

definition history :: "string \<Rightarrow> jsval list \<Rightarrow> (jsval \<times> jsval \<times> jsval) list" where
  "history key steps = map snd (filter (\<lambda>m. fst m = key) (map move_of (filter moves_entity steps)))"

text \<open>A transition of the machine of its kind; a kind without a machine may do anything.\<close>

definition legal :: "jsval \<Rightarrow> jsval \<Rightarrow> jsval \<Rightarrow> bool" where
  "legal kind from_state to_state \<longleftrightarrow>
     (case allowed_for_kind kind of None \<Rightarrow> True | Some ts \<Rightarrow> transition_text from_state to_state \<in> set ts)"

text \<open>A move continues a history: it starts where the last move ended.\<close>

fun continues :: "jsval option \<Rightarrow> jsval \<Rightarrow> bool" where
  "continues None f = True"
| "continues (Some c) f = js_seq f c"

lemma continues_case: "(case s of None \<Rightarrow> True | Some c \<Rightarrow> js_seq f c) = continues s f"
  by (cases s) simp_all

text \<open>The paths of an entity: every move is legal and starts where the one before it ended.\<close>

inductive path :: "jsval option \<Rightarrow> (jsval \<times> jsval \<times> jsval) list \<Rightarrow> jsval option \<Rightarrow> bool" where
  stay: "path s [] s"
| move: "path s ms s' \<Longrightarrow> legal kind from_state to_state \<Longrightarrow> continues s' from_state
    \<Longrightarrow> path s (ms @ [(kind, from_state, to_state)]) (Some to_state)"

lemma check_entity_clean:
  assumes "clean (check_entity scenario step st) st'" "truthy (js_field (payload_of step) ''message_id'')"
  shows "moves_entity step \<Longrightarrow> move_of step = (key, kind, f, t) \<Longrightarrow>
      legal kind f t \<and> continues (sq_entities st key) f \<and> sq_entities st' = (sq_entities st)(key \<mapsto> t)"
    and "\<not> moves_entity step \<Longrightarrow> st' = st"
  using assms unfolding check_entity_def moves_entity_def move_of_def legal_def Let_def continues_case [symmetric]
  by (auto simp: clean_bindC split: if_splits option.splits)

lemma sequence_step_stages:
  assumes "clean (sequence_step b scenario steps step st) st'"
  obtains (silent) "\<not> truthy (js_field (payload_of step) ''message_id'')" "st' = st"
  | (sent) st1 st2 st3 where "truthy (js_field (payload_of step) ''message_id'')"
      "\<not> seen_has (js_field (payload_of step) ''message_id'') (sq_messages st)"
      "truthy (js_field (payload_of step) ''causation_message_id'') \<Longrightarrow> seen_has (js_field (payload_of step) ''causation_message_id'') (sq_messages st)"
      "clean (check_idempotency scenario step (st\<lparr>sq_messages := js_field (payload_of step) ''message_id'' # sq_messages st\<rparr>)) st1"
      "clean (check_correlation scenario step st1) st2" "clean (check_entity scenario step st2) st3" "clean (check_time b scenario step st3) st'"
  using assms unfolding sequence_step_def Let_def
  by (auto simp: clean_bindC clean_fieldC split: if_splits)

lemma check_idempotency_keeps:
  assumes "clean (check_idempotency scenario step st) st'"
  shows "sq_entities st' = sq_entities st" "sq_messages st' = sq_messages st" "sq_time st' = sq_time st" "sq_correlation st' = sq_correlation st"
  using assms unfolding check_idempotency_def Let_def by (auto simp: clean_bindC split: option.splits)

lemma check_correlation_keeps:
  assumes "clean (check_correlation scenario step st) st'"
  shows "sq_entities st' = sq_entities st" "sq_messages st' = sq_messages st" "sq_time st' = sq_time st" "sq_keys st' = sq_keys st"
  using assms unfolding check_correlation_def Let_def by (auto simp: clean_bindC split: if_splits)

lemma check_entity_keeps:
  assumes "clean (check_entity scenario step st) st'"
  shows "sq_messages st' = sq_messages st" "sq_time st' = sq_time st" "sq_keys st' = sq_keys st" "sq_correlation st' = sq_correlation st"
  using assms unfolding check_entity_def Let_def by (auto simp: clean_bindC split: if_splits)

lemma check_time_keeps:
  assumes "clean (check_time b scenario step st) st'"
  shows "sq_entities st' = sq_entities st" "sq_messages st' = sq_messages st" "sq_keys st' = sq_keys st" "sq_correlation st' = sq_correlation st"
  using assms unfolding check_time_def Let_def by (auto simp: clean_bindC)

lemmas keeps = check_idempotency_keeps check_correlation_keeps check_entity_keeps check_time_keeps

lemma sequence_step_entities:
  assumes "clean (sequence_step b scenario steps step st) st'"
  shows "moves_entity step \<Longrightarrow> move_of step = (key, kind, f, t) \<Longrightarrow>
      legal kind f t \<and> continues (sq_entities st key) f \<and> sq_entities st' = (sq_entities st)(key \<mapsto> t)"
    and "\<not> moves_entity step \<Longrightarrow> sq_entities st' = sq_entities st"
proof -
  show "legal kind f t \<and> continues (sq_entities st key) f \<and> sq_entities st' = (sq_entities st)(key \<mapsto> t)"
    if m: "moves_entity step" "move_of step = (key, kind, f, t)"
    using assms
  proof (cases rule: sequence_step_stages)
    case silent
    then show ?thesis using m by (simp add: moves_entity_def)
  next
    case (sent st1 st2 st3)
    have "sq_entities st2 = sq_entities st" "sq_entities st' = sq_entities st3"
      using keeps(1) [OF sent(4)] keeps(5) [OF sent(5)] check_time_keeps(1) [OF sent(7)] by simp_all
    then show ?thesis using check_entity_clean(1) [OF sent(6,1) m] by simp
  qed
  show "sq_entities st' = sq_entities st" if m: "\<not> moves_entity step"
    using assms
  proof (cases rule: sequence_step_stages)
    case (sent st1 st2 st3)
    then show ?thesis
      using keeps(1) [OF sent(4)] keeps(5) [OF sent(5)] check_time_keeps(1) [OF sent(7)] check_entity_clean(2) [OF sent(6,1) m] by simp
  qed simp
qed

lemma history_snoc: "history key (steps @ [step]) = history key steps @
    (if moves_entity step \<and> fst (move_of step) = key then [snd (move_of step)] else [])"
  by (simp add: history_def)

lemma entities_follow_paths:
  assumes "clean (fold_C (sequence_step b scenario steps) xs sequence_start) st'"
  shows "path None (history key xs) (sq_entities st' key)"
  using assms
proof (rule clean_fold_C_invariant [where I = "\<lambda>ys st. path None (history key ys) (sq_entities st key)"])
  show "path None (history key []) (sq_entities sequence_start key)" by (simp add: history_def sequence_start_def path.stay)
next
  fix ys x zs st st1
  assume I: "path None (history key ys) (sq_entities st key)" and c: "clean (sequence_step b scenario steps x st) st1"
  obtain k kind f t where m: "move_of x = (k, kind, f, t)" by (cases "move_of x")
  show "path None (history key (ys @ [x])) (sq_entities st1 key)"
  proof (cases "moves_entity x")
    case True
    note s = sequence_step_entities(1) [OF c True m]
    show ?thesis
      using I s path.move [OF I, of kind f t] by (cases "k = key") (simp_all add: history_snoc m True)
  next
    case False
    then show ?thesis using I sequence_step_entities(2) [OF c False] by (simp add: history_snoc)
  qed
qed

lemma validateSequenceInvariants_clean:
  assumes "clean (validateSequenceInvariants b scenario) ()"
  obtains steps st requests where "bindR (js_get scenario ''steps'') iter_of = Inr steps"
    "clean (fold_C (sequence_step b scenario steps) steps sequence_start) st" "memory_requests steps = Inr requests"
    "\<forall>step \<in> set (of_type ''MemoryContext'' steps). clean (check_memory_context scenario requests step) ()"
    "\<forall>step \<in> set (of_type ''OutboundTransaction'' steps). clean (check_transaction b scenario step) ()"
    "\<forall>step \<in> set (of_type ''PolicyRevision'' steps). clean (check_revision scenario step) ()"
  using assms unfolding validateSequenceInvariants_def by (auto simp: clean_bindC clean_each_C)

text \<open>The paths of the machines.\<close>

lemma path_legal: "path s ms s' \<Longrightarrow> m \<in> set ms \<Longrightarrow> legal (fst m) (fst (snd m)) (snd (snd m))"
  by (induction rule: path.induct) auto

lemma path_last: "path s (ms @ [(k, f, t)]) s' \<Longrightarrow> s' = Some t \<and> (\<exists>s1. path s ms s1 \<and> continues s1 f)"
  by (erule path.cases) auto

lemma path_prefix: "path s (ms @ ns) s' \<Longrightarrow> \<exists>s1. path s ms s1"
proof (induction ns arbitrary: s' rule: rev_induct)
  case (snoc n ns)
  obtain k f t where "n = (k, f, t)" by (cases n)
  then have "path s ((ms @ ns) @ [(k, f, t)]) s'" using snoc.prems by simp
  from path_last [OF this] show ?case using snoc.IH by blast
qed auto

lemma path_adjacent:
  assumes "path s (ms @ (k1, f1, t1) # (k2, f2, t2) # ns) s'"
  shows "js_seq f2 t1"
proof -
  have "path s (((ms @ [(k1, f1, t1)]) @ [(k2, f2, t2)]) @ ns) s'" using assms by simp
  from path_prefix [OF this] obtain s1 where "path s ((ms @ [(k1, f1, t1)]) @ [(k2, f2, t2)]) s1" by blast
  from path_last [OF this] obtain s2 where "path s (ms @ [(k1, f1, t1)]) s2" "continues s2 f2" by blast
  with path_last [OF this(1)] show ?thesis by simp
qed

text \<open>The machine of Tasks: \<open>completed\<close> is reached from \<open>reviewing_completion\<close> and is its last state.\<close>

lemma legal_completed: "legal (JStr ''task'') f (JStr ''completed'') \<Longrightarrow> js_string f = ''reviewing_completion''"
  by (auto simp: legal_def allowed_for_kind_def ALLOWED_TRANSITIONS_def transition_text_def append_eq_append_conv2 Cons_eq_append_conv)

lemma legal_from_completed: "\<not> legal (JStr ''task'') (JStr ''completed'') t"
  by (simp add: legal_def allowed_for_kind_def ALLOWED_TRANSITIONS_def transition_text_def)

lemma completed_last:
  assumes "path None (ms @ (JStr ''task'', f, JStr ''completed'') # ns) s"
  shows "js_string f = ''reviewing_completion'' \<and> (ms \<noteq> [] \<longrightarrow> js_seq f (snd (snd (last ms))))
     \<and> (ns \<noteq> [] \<longrightarrow> fst (hd ns) \<noteq> JStr ''task'')"
proof (intro conjI impI)
  show "js_string f = ''reviewing_completion''" using path_legal [OF assms] legal_completed by force
  show "js_seq f (snd (snd (last ms)))" if ne: "ms \<noteq> []"
  proof -
    obtain ms1 k1 f1 t1 where "ms = ms1 @ [(k1, f1, t1)]" using ne by (cases ms rule: rev_cases) auto
    with assms path_adjacent [of None ms1 k1 f1 t1 "JStr ''task''" f "JStr ''completed''" ns s] show ?thesis by simp
  qed
  show "fst (hd ns) \<noteq> JStr ''task''" if ne: "ns \<noteq> []"
  proof
    assume "fst (hd ns) = JStr ''task''"
    then obtain g t ns1 where n: "ns = (JStr ''task'', g, t) # ns1" using ne by (cases ns) auto
    have "js_seq g (JStr ''completed'')"
      using assms path_adjacent [of None ms "JStr ''task''" f "JStr ''completed''" "JStr ''task''" g t ns1 s] by (simp add: n)
    then have "g = JStr ''completed''" by (rule js_seq_eq)
    then show False using path_legal [OF assms, of "(JStr ''task'', g, t)"] legal_from_completed by (simp add: n)
  qed
qed

section \<open>The messages\<close>

abbreviation pay :: "string \<Rightarrow> jsval \<Rightarrow> jsval" where
  "pay k p \<equiv> js_field p k"

definition sent :: "jsval list \<Rightarrow> jsval list" where
  "sent steps = filter (\<lambda>p. truthy (pay ''message_id'' p)) (map payload_of steps)"

text \<open>What a message owes to those before it: a new id, a cause among them, the correlation they have, a time that
  is not before the last one's, and for a used idempotency key the same operation, marked as the redelivery of a
  message with that key.\<close>

definition follows :: "bench \<Rightarrow> jsval list \<Rightarrow> jsval \<Rightarrow> bool" where
  "follows b ps p \<longleftrightarrow> \<not> seen_has (pay ''message_id'' p) (map (pay ''message_id'') ps)
   \<and> (truthy (pay ''causation_message_id'' p) \<longrightarrow> seen_has (pay ''causation_message_id'' p) (map (pay ''message_id'') ps))
   \<and> (\<forall>q \<in> set ps. pay ''correlation_id'' q \<noteq> JNull \<longrightarrow> js_seq (pay ''correlation_id'' p) (pay ''correlation_id'' q))
   \<and> (\<forall>q \<in> set ps. js_seq (pay ''idempotency_key'' p) (pay ''idempotency_key'' q) \<longrightarrow>
        is_redelivery p \<and> fingerprint p = fingerprint q
        \<and> (\<exists>r \<in> set ps. js_seq (pay ''idempotency_key'' p) (pay ''idempotency_key'' r) \<and> js_seq (pay ''redelivery_of_message_id'' p) (pay ''message_id'' r)))
   \<and> (ps \<noteq> [] \<longrightarrow> \<not> earlier (date_value b (pay ''occurred_at'' p)) (date_value b (pay ''occurred_at'' (last ps))))"

fun well_sequenced :: "bench \<Rightarrow> jsval list \<Rightarrow> jsval list \<Rightarrow> bool" where
  "well_sequenced b ps [] = True"
| "well_sequenced b ps (p # qs) = (follows b ps p \<and> well_sequenced b (ps @ [p]) qs)"

lemma well_sequenced_append: "well_sequenced b ps (qs @ rs) \<longleftrightarrow> well_sequenced b ps qs \<and> well_sequenced b (ps @ qs) rs"
  by (induction qs arbitrary: ps) auto

text \<open>What the state of the loop says of the messages so far.\<close>

definition remembers :: "bench \<Rightarrow> jsval list \<Rightarrow> sequence_state \<Rightarrow> bool" where
  "remembers b ps st \<longleftrightarrow> sq_messages st = rev (map (pay ''message_id'') ps)
   \<and> (\<forall>q \<in> set ps. pay ''correlation_id'' q \<noteq> JNull \<longrightarrow> sq_correlation st = pay ''correlation_id'' q)
   \<and> (\<forall>q \<in> set ps. \<forall>k. js_seq k (pay ''idempotency_key'' q) \<longrightarrow> (\<exists>m. get_last k (sq_keys st) = Some (fingerprint q, m)))
   \<and> (\<forall>k f m. get_last k (sq_keys st) = Some (f, m) \<longrightarrow> (\<exists>r \<in> set ps. js_seq k (pay ''idempotency_key'' r) \<and> m = pay ''message_id'' r))
   \<and> (ps \<noteq> [] \<longrightarrow> sq_time st = date_value b (pay ''occurred_at'' (last ps)))"

lemma get_last_snoc: "get_last k (m @ [(k', x)]) = (if js_seq k k' then Some x else get_last k m)"
  by (simp add: get_last_def)

lemma seen_has_rev [simp]: "seen_has v (rev vs) = seen_has v vs"
  by (simp add: seen_has_def list_ex_iff)

lemma check_idempotency_clean:
  assumes "clean (check_idempotency scenario step st) st'"
  shows "case get_last (pay ''idempotency_key'' (payload_of step)) (sq_keys st) of
      None \<Rightarrow> sq_keys st' = sq_keys st @ [(pay ''idempotency_key'' (payload_of step), fingerprint (payload_of step), pay ''message_id'' (payload_of step))]
    | Some (f, m) \<Rightarrow> sq_keys st' = sq_keys st \<and> is_redelivery (payload_of step) \<and> f = fingerprint (payload_of step)
        \<and> js_seq (pay ''redelivery_of_message_id'' (payload_of step)) m"
  using assms unfolding check_idempotency_def Let_def by (auto simp: clean_bindC split: option.splits)

lemma check_correlation_clean:
  assumes "clean (check_correlation scenario step st) st'"
  shows "sq_correlation st' = (if sq_correlation st = JNull then pay ''correlation_id'' (payload_of step) else sq_correlation st)"
    and "sq_correlation st \<noteq> JNull \<Longrightarrow> js_seq (pay ''correlation_id'' (payload_of step)) (sq_correlation st)"
  using assms unfolding check_correlation_def Let_def by (auto simp: clean_bindC split: if_splits)

lemma check_time_clean:
  assumes "clean (check_time b scenario step st) st'"
  shows "sq_time st' = date_value b (pay ''occurred_at'' (payload_of step))" "\<not> earlier (sq_time st') (sq_time st)"
  using assms unfolding check_time_def Let_def by (auto simp: clean_bindC)

lemma keys_remembered:
  assumes old: "\<forall>q \<in> set ps. \<forall>k. js_seq k (pay ''idempotency_key'' q) \<longrightarrow> (\<exists>m. get_last k keys = Some (fingerprint q, m))"
    "\<forall>k f m. get_last k keys = Some (f, m) \<longrightarrow> (\<exists>r \<in> set ps. js_seq k (pay ''idempotency_key'' r) \<and> m = pay ''message_id'' r)"
    and new: "case get_last (pay ''idempotency_key'' p) keys of
      None \<Rightarrow> keys' = keys @ [(pay ''idempotency_key'' p, fingerprint p, pay ''message_id'' p)]
    | Some (f, m) \<Rightarrow> keys' = keys \<and> is_redelivery p \<and> f = fingerprint p \<and> js_seq (pay ''redelivery_of_message_id'' p) m"
  shows "\<forall>q \<in> set (ps @ [p]). \<forall>k. js_seq k (pay ''idempotency_key'' q) \<longrightarrow> (\<exists>m. get_last k keys' = Some (fingerprint q, m))"
    and "\<forall>k f m. get_last k keys' = Some (f, m) \<longrightarrow> (\<exists>r \<in> set (ps @ [p]). js_seq k (pay ''idempotency_key'' r) \<and> m = pay ''message_id'' r)"
    and "\<forall>q \<in> set ps. js_seq (pay ''idempotency_key'' p) (pay ''idempotency_key'' q) \<longrightarrow> is_redelivery p \<and> fingerprint p = fingerprint q
      \<and> (\<exists>r \<in> set ps. js_seq (pay ''idempotency_key'' p) (pay ''idempotency_key'' r) \<and> js_seq (pay ''redelivery_of_message_id'' p) (pay ''message_id'' r))"
proof -
  let ?k = "pay ''idempotency_key'' p"
  have eq: "k = ?k" if "js_seq k ?k" for k using js_seq_eq [OF that] .
  show "\<forall>q \<in> set (ps @ [p]). \<forall>k. js_seq k (pay ''idempotency_key'' q) \<longrightarrow> (\<exists>m. get_last k keys' = Some (fingerprint q, m))"
  proof (cases "get_last ?k keys")
    case None
    then have "keys' = keys @ [(?k, fingerprint p, pay ''message_id'' p)]" using new by simp
    then show ?thesis using old(1) None eq by (fastforce simp: get_last_snoc)
  next
    case (Some fm)
    then show ?thesis using new old(1) eq by (auto split: prod.splits)
  qed
  show "\<forall>k f m. get_last k keys' = Some (f, m) \<longrightarrow> (\<exists>r \<in> set (ps @ [p]). js_seq k (pay ''idempotency_key'' r) \<and> m = pay ''message_id'' r)"
    using new old(2) by (cases "get_last ?k keys") (auto simp: get_last_snoc split: prod.splits if_splits)
  show "\<forall>q \<in> set ps. js_seq ?k (pay ''idempotency_key'' q) \<longrightarrow> is_redelivery p \<and> fingerprint p = fingerprint q
      \<and> (\<exists>r \<in> set ps. js_seq ?k (pay ''idempotency_key'' r) \<and> js_seq (pay ''redelivery_of_message_id'' p) (pay ''message_id'' r))"
  proof (intro ballI impI)
    fix q assume q: "q \<in> set ps" "js_seq ?k (pay ''idempotency_key'' q)"
    then obtain m where m: "get_last ?k keys = Some (fingerprint q, m)" using old(1) by blast
    from old(2) m obtain r where "r \<in> set ps" "js_seq ?k (pay ''idempotency_key'' r)" "m = pay ''message_id'' r" by blast
    then show "is_redelivery p \<and> fingerprint p = fingerprint q
      \<and> (\<exists>r \<in> set ps. js_seq ?k (pay ''idempotency_key'' r) \<and> js_seq (pay ''redelivery_of_message_id'' p) (pay ''message_id'' r))"
      using new m by auto
  qed
qed

lemma sequence_step_follows:
  assumes "clean (sequence_step b scenario steps step st) st'" "remembers b ps st"
  shows "remembers b (ps @ sent [step]) st' \<and> well_sequenced b ps (sent [step])"
  using assms(1)
proof (cases rule: sequence_step_stages)
  case silent
  then show ?thesis using assms(2) by (simp add: sent_def)
next
  case (sent st1 st2 st3)
  let ?p = "payload_of step"
  note r = assms(2) [unfolded remembers_def]
  have one: "sent [step] = [?p]" using sent(1) by (simp add: sent_def)
  have m: "sq_messages st' = pay ''message_id'' ?p # sq_messages st" "sq_correlation st1 = sq_correlation st" "sq_correlation st' = sq_correlation st2"
    "sq_keys st' = sq_keys st1" "sq_time st3 = sq_time st"
    using check_correlation_keeps [OF sent(5)] check_entity_keeps [OF sent(6)] check_time_keeps [OF sent(7)]
      check_idempotency_keeps [OF sent(4)] by simp_all
  note c = check_correlation_clean [OF sent(5), unfolded m(2)]
  have keq: "sq_keys (st\<lparr>sq_messages := x\<rparr>) = sq_keys st" for x by simp
  have k': "case get_last (pay ''idempotency_key'' ?p) (sq_keys st) of
      None \<Rightarrow> sq_keys st1 = sq_keys st @ [(pay ''idempotency_key'' ?p, fingerprint ?p, pay ''message_id'' ?p)]
    | Some (f, m) \<Rightarrow> sq_keys st1 = sq_keys st \<and> is_redelivery ?p \<and> f = fingerprint ?p \<and> js_seq (pay ''redelivery_of_message_id'' ?p) m"
    using check_idempotency_clean [OF sent(4)] unfolding keq .
  note keys = r [THEN conjunct2, THEN conjunct2, THEN conjunct1] r [THEN conjunct2, THEN conjunct2, THEN conjunct2, THEN conjunct1]
  note k = keys_remembered [OF keys k']
  note t = check_time_clean [OF sent(7), unfolded m(5)]
  have corr: "js_seq (pay ''correlation_id'' ?p) (pay ''correlation_id'' q)" if "q \<in> set ps" "pay ''correlation_id'' q \<noteq> JNull" for q
    using r that c(2) by metis
  have "follows b ps ?p"
    unfolding follows_def using r sent(2,3) corr k(3) t by auto
  moreover have "remembers b (ps @ [?p]) st'"
    unfolding remembers_def m(4)
  proof (intro conjI)
    show "sq_messages st' = rev (map (pay ''message_id'') (ps @ [?p]))" using r m(1) by simp
    show "\<forall>q \<in> set (ps @ [?p]). pay ''correlation_id'' q \<noteq> JNull \<longrightarrow> sq_correlation st' = pay ''correlation_id'' q"
      unfolding m(3) c(1) using r js_seq_eq [OF c(2)] by auto
    show "ps @ [?p] \<noteq> [] \<longrightarrow> sq_time st' = date_value b (pay ''occurred_at'' (last (ps @ [?p])))" using t(1) by simp
  qed (rule k(1), rule k(2))
  ultimately show ?thesis unfolding one by simp
qed

lemma messages_follow:
  assumes "clean (fold_C (sequence_step b scenario steps) xs sequence_start) st'"
  shows "well_sequenced b [] (sent xs)"
proof -
  have "remembers b (sent xs) st' \<and> well_sequenced b [] (sent xs)"
    using assms
  proof (rule clean_fold_C_invariant [where I = "\<lambda>ys st. remembers b (sent ys) st \<and> well_sequenced b [] (sent ys)"])
    show "remembers b (sent []) sequence_start \<and> well_sequenced b [] (sent [])"
      by (simp add: remembers_def sent_def sequence_start_def get_last_def)
  next
    fix ys x zs st st1
    assume I: "remembers b (sent ys) st \<and> well_sequenced b [] (sent ys)" and c: "clean (sequence_step b scenario steps x st) st1"
    have "sent (ys @ [x]) = sent ys @ sent [x]" by (simp add: sent_def)
    then show "remembers b (sent (ys @ [x])) st1 \<and> well_sequenced b [] (sent (ys @ [x]))"
      using sequence_step_follows [OF c] I by (simp add: well_sequenced_append)
  qed
  then show ?thesis ..
qed

section \<open>The sequence requirement\<close>

text \<open>The first step of a type, with its index.\<close>

definition first_of :: "jsval list \<Rightarrow> jsval \<Rightarrow> (nat \<times> jsval) option" where
  "first_of steps t = List.find (\<lambda>(i, step). js_seq t (pay ''message_type'' step)) (enumerate 0 steps)"

lemma find_append: "List.find P (xs @ ys) = (case List.find P xs of None \<Rightarrow> List.find P ys | Some x \<Rightarrow> Some x)"
  by (induction xs) auto

lemma index_step_first:
  assumes "clean (index_step scenario (i, x) firsts) firsts'"
    and "\<forall>t. get_last t firsts = List.find (\<lambda>(i, step). js_seq t (pay ''message_type'' step)) ys"
  shows "get_last t firsts' = List.find (\<lambda>(i, step). js_seq t (pay ''message_type'' step)) (ys @ [(i, x)])"
proof (cases "get_last (pay ''message_type'' x) firsts")
  case None
  then have "firsts' = firsts @ [(pay ''message_type'' x, i, x)]" using assms(1) by (simp add: index_step_def Let_def)
  moreover have "get_last t firsts = None" if "js_seq t (pay ''message_type'' x)" using js_seq_eq [OF that] None by simp
  ultimately show ?thesis using assms(2) [THEN spec, of t] by (auto simp: get_last_snoc find_append split: option.splits)
next
  case (Some y)
  then have "firsts' = firsts" using assms(1) by (auto simp: index_step_def Let_def clean_bindC split: prod.splits)
  moreover have "get_last t firsts \<noteq> None" if "js_seq t (pay ''message_type'' x)" using js_seq_eq [OF that] Some by simp
  ultimately show ?thesis using assms(2) [THEN spec, of t] by (auto simp: find_append split: option.splits)
qed

lemma firsts_are_first:
  assumes "clean (fold_C (index_step scenario) (enumerate 0 steps) []) firsts"
  shows "get_last t firsts = first_of steps t"
proof -
  have "\<forall>t. get_last t firsts = List.find (\<lambda>(i, step). js_seq t (pay ''message_type'' step)) (enumerate 0 steps)"
    using assms
  proof (rule clean_fold_C_invariant)
    show "\<forall>t. get_last t [] = List.find (\<lambda>(i, step). js_seq t (pay ''message_type'' step)) []" by (simp add: get_last_def)
  next
    fix ys x zs st st'
    assume "\<forall>t. get_last t st = List.find (\<lambda>(i, step). js_seq t (pay ''message_type'' step)) ys" "clean (index_step scenario x st) st'"
    then show "\<forall>t. get_last t st' = List.find (\<lambda>(i, step). js_seq t (pay ''message_type'' step)) (ys @ [x])"
      using index_step_first by (cases x) blast
  qed
  then show ?thesis by (simp add: first_of_def)
qed

lemma first_of_Some:
  assumes "first_of steps t = Some (i, step)"
  shows "i < length steps" "steps ! i = step" "pay ''message_type'' step = t"
proof -
  from find_Some_iff [OF assms [unfolded first_of_def]]
  have "(i, step) \<in> set (enumerate 0 steps)" "js_seq t (pay ''message_type'' step)" by auto
  then show "i < length steps" "steps ! i = step" "pay ''message_type'' step = t"
    using js_seq_eq by (auto simp: in_set_enumerate_eq)
qed

text \<open>The required types are a subsequence of the types of the steps.\<close>

lemma subseq_at:
  assumes "k \<le> i" "i < length xs" "subseq ys (drop (Suc i) xs)"
  shows "subseq (xs ! i # ys) (drop k xs)"
proof -
  have "drop k xs = take (i - k) (drop k xs) @ xs ! i # drop (Suc i) xs"
    using assms(1,2) by (metis Cons_nth_drop_Suc append_take_drop_id drop_drop le_add_diff_inverse2)
  moreover have "subseq (xs ! i # ys) (xs ! i # drop (Suc i) xs)" using assms(3) by simp
  ultimately show ?thesis by (metis subseq_drop_many)
qed

lemma order_step_subseq:
  assumes "clean (fold_C (order_step scenario firsts) types previous) last'" "-1 \<le> previous" "\<forall>t. get_last t firsts = first_of steps t"
  shows "subseq types (drop (nat (previous + 1)) (map (pay ''message_type'') steps))"
  using assms
proof (induction types arbitrary: previous)
  case (Cons t types)
  from Cons.prems(1) obtain next' where n: "clean (order_step scenario firsts t previous) next'"
    "clean (fold_C (order_step scenario firsts) types next') last'" by (auto simp: clean_bindC)
  then obtain i step where i: "first_of steps t = Some (i, step)" "previous < int i" "next' = int i"
    using Cons.prems(3) unfolding order_step_def by (auto simp: clean_bindC split: option.splits if_splits)
  note f = first_of_Some [OF i(1)]
  have "subseq types (drop (Suc i) (map (pay ''message_type'') steps))"
    using Cons.IH [OF n(2)] Cons.prems(3) i(3) by (simp add: nat_add_distrib)
  then show ?case using subseq_at [of "nat (previous + 1)" i "map (pay ''message_type'') steps" types] f i(2) by simp
qed simp

definition joins :: "jsval list \<Rightarrow> jsval \<Rightarrow> bool" where
  "joins steps correlation \<longleftrightarrow> (\<forall>i left j right. first_of steps (pay ''left_type'' correlation) = Some (i, left)
       \<and> first_of steps (pay ''right_type'' correlation) = Some (j, right) \<and> truthy (payload_of left) \<and> truthy (payload_of right)
     \<longrightarrow> (\<exists>v. readPath (payload_of left) (pay ''left_path'' correlation) = Inr v
       \<and> readPath (payload_of right) (pay ''right_path'' correlation) = Inr v \<and> v \<noteq> JUndef))"

definition causes :: "jsval list \<Rightarrow> jsval \<Rightarrow> bool" where
  "causes steps causation \<longleftrightarrow> (\<forall>i cause j effect. first_of steps (pay ''cause_type'' causation) = Some (i, cause)
       \<and> first_of steps (pay ''effect_type'' causation) = Some (j, effect) \<and> truthy (payload_of cause) \<and> truthy (payload_of effect)
     \<longrightarrow> js_seq (pay ''causation_message_id'' (payload_of effect)) (pay ''message_id'' (payload_of cause)))"

definition fulfils :: "jsval list \<Rightarrow> jsval \<Rightarrow> bool" where
  "fulfils steps requirement \<longleftrightarrow> (\<exists>types correlations causations.
     iter_of (pay ''ordered_message_types'' requirement) = Inr types \<and> iter_of (pay ''correlations'' requirement) = Inr correlations
   \<and> iter_of (pay ''causations'' requirement) = Inr causations
   \<and> subseq types (map (pay ''message_type'') steps) \<and> list_all (joins steps) correlations \<and> list_all (causes steps) causations)"

lemma requirement_fulfilled:
  assumes "clean (check_requirement scenario steps requirement) ()"
  shows "fulfils steps requirement"
proof -
  from assms obtain firsts types correlations causations last' where r: "clean (fold_C (index_step scenario) (enumerate 0 steps) []) firsts"
    "iter_of (pay ''ordered_message_types'' requirement) = Inr types" "clean (fold_C (order_step scenario firsts) types (-1)) last'"
    "iter_of (pay ''correlations'' requirement) = Inr correlations" "\<forall>c \<in> set correlations. clean (check_required_correlation scenario firsts c) ()"
    "iter_of (pay ''causations'' requirement) = Inr causations" "\<forall>c \<in> set causations. clean (check_required_causation scenario firsts c) ()"
    unfolding check_requirement_def by (auto simp: clean_bindC clean_each_C)
  have first: "\<forall>t. get_last t firsts = first_of steps t" using firsts_are_first [OF r(1)] by blast
  have "subseq types (map (pay ''message_type'') steps)" using order_step_subseq [OF r(3) _ first] by simp
  moreover have "list_all (joins steps) correlations"
    unfolding list_all_iff joins_def
    using r(5) first unfolding check_required_correlation_def first_payload_def Let_def
    by (fastforce simp: clean_bindC clean_whenC clean_fieldC dest: js_seq_eq)
  moreover have "list_all (causes steps) causations"
    unfolding list_all_iff causes_def
    using r(7) first unfolding check_required_causation_def first_payload_def Let_def
    by (fastforce simp: clean_bindC clean_fieldC)
  ultimately show ?thesis unfolding fulfils_def using r(2,4,6) by blast
qed

section \<open>Payloads\<close>

definition message_of :: "jsval \<Rightarrow> jsval" where
  "message_of step = coalesce (pay ''redelivery_of_message_id'' (payload_of step)) (pay ''message_id'' (payload_of step))"

text \<open>A payload agrees with the canonical one of its message where they name the same things.\<close>

definition agrees :: "jsval \<Rightarrow> jsval \<Rightarrow> bool" where
  "agrees canonical p \<longleftrightarrow> (let values = collectNamedValues canonical in
     \<not> disagrees (named ''task_id'' values @ named ''owner_task_id'' values @ named ''source_task_id'' values @ named ''subject_id'' values) (pay ''task_id'' p)
   \<and> \<not> disagrees (named ''workspace_id'' values) (pay ''workspace_id'' p)
   \<and> list_all (\<lambda>(key, v). \<not> disagrees (named key values) v) (js_entries (pay ''refs'' p))
   \<and> \<not> disagrees (named ''from_state'' values) (js_opt (pay ''entity'' p) ''from_state'')
   \<and> \<not> disagrees (named ''to_state'' values) (js_opt (pay ''entity'' p) ''to_state''))"

definition conforms :: "bench \<Rightarrow> canon \<Rightarrow> jsval \<Rightarrow> bool" where
  "conforms b bound step \<longleftrightarrow>
     (\<exists>schema file location. schema_at b (pay ''schema_ref'' step) = Inr (schema, file)
        \<and> clean (validate (tb_stack b) b (payload_of step) schema file location False) ())
   \<and> (is_required_type (pay ''message_type'' step) \<or> changes_state (pay ''message_type'' step) \<longrightarrow> seen_has (message_of step) (map fst bound))
   \<and> (\<forall>canonical. get_last (message_of step) bound = Some canonical \<longrightarrow> truthy canonical \<longrightarrow> agrees canonical (payload_of step))"

lemma check_canonical_agrees: "clean (check_canonical scenario step canonical) () \<Longrightarrow> agrees canonical (payload_of step)"
  unfolding check_canonical_def agrees_def Let_def list_all_iff by (simp add: clean_bindC clean_each_C) fastforce

lemma trace_step_clean:
  assumes "clean (trace_step b bound scenario step st) st'"
  shows "conforms b bound step" "set (tr_planes st') = {pay ''from_plane'' step, pay ''to_plane'' step} \<union> set (tr_planes st)"
proof -
  from assms obtain schema base where c: "schema_at b (pay ''schema_ref'' step) = Inr (schema, base)"
    "clean (validate (tb_stack b) b (payload_of step) schema base
       (js_string (js_field scenario ''scenario_id'') @ ''/'' @ js_string (js_field step ''step_id'')) False) ()"
    "is_required_type (pay ''message_type'' step) \<or> changes_state (pay ''message_type'' step) \<longrightarrow> seen_has (message_of step) (map fst bound)"
    "case get_last (message_of step) bound of None \<Rightarrow> True | Some canonical \<Rightarrow> truthy canonical \<longrightarrow> clean (check_canonical scenario step canonical) ()"
    "tr_planes st' = pay ''to_plane'' step # pay ''from_plane'' step # tr_planes st"
    unfolding trace_step_def check_payload_def message_of_def Let_def
    by (auto simp: clean_bindC clean_fieldC split: option.splits if_splits)
  then show "conforms b bound step"
    unfolding conforms_def using check_canonical_agrees by (auto split: option.splits)
  show "set (tr_planes st') = {pay ''from_plane'' step, pay ''to_plane'' step} \<union> set (tr_planes st)" using c(5) by auto
qed

lemma trace_clean:
  assumes "clean (fold_C (trace_step b bound scenario) steps st) st'" "tr_planes st = []"
  shows "(\<forall>step \<in> set steps. conforms b bound step)
     \<and> set (tr_planes st') = (pay ''from_plane'') ` set steps \<union> (pay ''to_plane'') ` set steps"
  using assms(1)
proof (rule clean_fold_C_invariant [where I = "\<lambda>ys st. (\<forall>step \<in> set ys. conforms b bound step)
    \<and> set (tr_planes st) = (pay ''from_plane'') ` set ys \<union> (pay ''to_plane'') ` set ys"])
  fix ys x zs st1 st2
  assume "(\<forall>step \<in> set ys. conforms b bound step) \<and> set (tr_planes st1) = (pay ''from_plane'') ` set ys \<union> (pay ''to_plane'') ` set ys"
    "clean (trace_step b bound scenario x st1) st2"
  then show "(\<forall>step \<in> set (ys @ [x]). conforms b bound step)
      \<and> set (tr_planes st2) = (pay ''from_plane'') ` set (ys @ [x]) \<union> (pay ''to_plane'') ` set (ys @ [x])"
    using trace_step_clean [of b bound scenario x st1 st2] by auto
qed (use assms(2) in simp)

section \<open>The incident\<close>

lemma last_by_type_Some:
  assumes "last_by_type steps t = Some (i, step)"
  shows "i < length steps" "steps ! i = step" "pay ''message_type'' step = JStr t"
proof -
  from find_Some_iff [OF assms [unfolded last_by_type_def]]
  show "i < length steps" "steps ! i = step" "pay ''message_type'' step = JStr t" by (auto simp: in_set_enumerate_eq)
qed

lemma in_order_subseq:
  assumes "in_order (map (index_by_type steps) [x, y, z])"
  shows "subseq (map JStr [x, y, z]) (map (pay ''message_type'') steps)"
proof -
  let ?ts = "map (pay ''message_type'') steps"
  have ord: "0 \<le> index_by_type steps x" "index_by_type steps x < index_by_type steps y" "index_by_type steps y < index_by_type steps z"
    using assms by (simp_all add: in_order_def)
  have at: "nat (index_by_type steps t) < length ?ts \<and> ?ts ! nat (index_by_type steps t) = JStr t" if "0 \<le> index_by_type steps t" for t
    using that last_by_type_Some [of steps t] by (auto simp: index_by_type_def split: option.splits)
  let ?i = "nat (index_by_type steps x)" and ?j = "nat (index_by_type steps y)" and ?k = "nat (index_by_type steps z)"
  have ijk: "?i < ?j" "?j < ?k" using ord by auto
  have "subseq [?ts ! ?k] (drop (Suc ?j) ?ts)" using subseq_at [of "Suc ?j" ?k ?ts "[]"] at [of z] ijk ord by (simp del: nth_map)
  then have "subseq [?ts ! ?j, ?ts ! ?k] (drop (Suc ?i) ?ts)" using subseq_at [of "Suc ?i" ?j ?ts] at [of y] ijk ord by (simp del: nth_map)
  then have "subseq [?ts ! ?i, ?ts ! ?j, ?ts ! ?k] (drop 0 ?ts)" using subseq_at [of 0 ?i ?ts] at [of x] ijk ord by (simp del: nth_map)
  then show ?thesis using at [of x] at [of y] at [of z] ord by (simp del: nth_map)
qed

text \<open>The Tasks the scope names are the canonical targets; they are suspended from the leaf up and resumed from the
  root down, and the sibling is never suspended.\<close>

definition contained :: "canon \<Rightarrow> jsval list \<Rightarrow> bool" where
  "contained bound steps \<longleftrightarrow>
     subseq (map JStr [''DescendantTaskSuspended'', ''SourceTaskSuspended'', ''AncestorTaskSuspended'']) (map (pay ''message_type'') steps)
   \<and> subseq (map JStr [''AncestorTaskResumed'', ''SourceTaskResumed'', ''DescendantTaskResumed'']) (map (pay ''message_type'') steps)
   \<and> list_all (\<lambda>step. \<not> suspends_sibling step) steps
   \<and> (\<exists>wanted. target_tasks (case get_last (JStr ''e4i-m06'') bound of None \<Rightarrow> JUndef | Some p \<Rightarrow> p) = Inr wanted
       \<and> mset (scope_tasks (js_opt (payload_by_type steps ''IncidentTaskScopeExpanded'') ''refs'')) = mset wanted)"

lemma check_incident_contained:
  assumes "clean (check_incident bound steps) ()"
  shows "contained bound steps"
proof -
  from assms obtain wanted where w: "target_tasks (case get_last (JStr ''e4i-m06'') bound of None \<Rightarrow> JUndef | Some p \<Rightarrow> p) = Inr wanted"
    "sort (scope_tasks (js_opt (payload_by_type steps ''IncidentTaskScopeExpanded'') ''refs'')) = sort wanted"
    "in_order (map (index_by_type steps) [''DescendantTaskSuspended'', ''SourceTaskSuspended'', ''AncestorTaskSuspended''])"
    "in_order (map (index_by_type steps) [''AncestorTaskResumed'', ''SourceTaskResumed'', ''DescendantTaskResumed''])"
    "\<not> list_ex suspends_sibling steps"
    unfolding check_incident_def Let_def by (auto simp: clean_bindC)
  have "mset (scope_tasks (js_opt (payload_by_type steps ''IncidentTaskScopeExpanded'') ''refs'')) = mset wanted"
    by (metis mset_sort w(2))
  then show ?thesis
    unfolding contained_def using w(1,5) in_order_subseq [OF w(3)] in_order_subseq [OF w(4)] by (auto simp: list_all_iff list_ex_iff)
qed

section \<open>A scenario, and the whole script\<close>

definition accepted_scenario :: "bench \<Rightarrow> canon \<Rightarrow> jsval list \<Rightarrow> jsval \<Rightarrow> jsval list \<Rightarrow> bool" where
  "accepted_scenario b bound requirements scenario steps \<longleftrightarrow> js_field scenario ''steps'' = JArr steps
   \<and> list_all (conforms b bound) steps
   \<and> well_sequenced b [] (sent steps) \<and> (\<forall>key. \<exists>s. path None (history key steps) s)
   \<and> (\<exists>r \<in> set requirements. pay ''scenario_id'' r = pay ''scenario_id'' scenario \<and> fulfils steps r)
   \<and> (\<forall>plane \<in> set [''control-plane'', ''execution-plane'', ''governance-plane'', ''memory-plane''].
        list_ex (\<lambda>step. pay ''from_plane'' step = JStr plane \<or> pay ''to_plane'' step = JStr plane) steps)
   \<and> (pay ''scenario_id'' scenario = JStr ''E2E-004'' \<longrightarrow> contained bound steps)"

lemma find_R_Some: "find_R P xs = Inr (Some x) \<Longrightarrow> x \<in> set xs \<and> P x = Inr True"
  by (induction xs) (auto simp: bindR_Inr_iff split: if_splits)

lemma iter_of_array: "iter_of (JArr xs) = Inr xs"
  by (simp add: iter_of_def)

lemma check_scenario_accepted:
  assumes "clean (check_scenario b bound requirements scenario st) st'"
  shows "\<exists>steps. accepted_scenario b bound requirements scenario steps"
proof -
  from assms obtain steps st1 found where c0: "bindR (js_get scenario ''steps'') js_iter = Inr steps"
    "clean (fold_C (trace_step b bound scenario) steps (st\<lparr>tr_planes := []\<rparr>)) st1"
    "pay ''scenario_id'' scenario = JStr ''E2E-004'' \<longrightarrow> clean (bindC (liftC (items_of (js_field scenario ''steps''))) (check_incident bound)) ()"
    "clean (check_planes scenario (tr_planes st1)) ()" "clean (validateSequenceInvariants b scenario) ()"
    "requirement_of requirements (js_field scenario ''scenario_id'') = Inr found"
    "clean (case found of None \<Rightarrow> push_all [Err ''sequence requirement missing'' [js_field scenario ''scenario_id'']]
      | Some r \<Rightarrow> if \<not> truthy r then push_all [Err ''sequence requirement missing'' [js_field scenario ''scenario_id'']]
          else bindC (liftC (items_of (js_field scenario ''steps''))) (\<lambda>steps. check_requirement scenario steps r)) ()"
    unfolding check_scenario_def by (simp add: clean_bindC clean_whenC ex_unit del: bindR_simps) blast
  obtain r where found: "found = Some r" using c0(7) by (cases found) simp_all
  then obtain steps' where items: "items_of (js_field scenario ''steps'') = Inr steps'" "clean (check_requirement scenario steps' r) ()"
    using c0(7) by (auto simp: clean_bindC split: if_splits)
  note c = c0(1-6) [unfolded found] items
  from c(7) have arr: "js_field scenario ''steps'' = JArr steps'" by (cases "js_field scenario ''steps''") (auto simp: items_of_def)
  have steps: "steps' = steps" using c(1) arr by (simp add: bindR_Inr_iff)
  note arr = arr [unfolded steps]
  obtain steps2 st2 requests where v: "bindR (js_get scenario ''steps'') iter_of = Inr steps2"
    "clean (fold_C (sequence_step b scenario steps2) steps2 sequence_start) st2"
    by (rule validateSequenceInvariants_clean [OF c(5)])
  have "steps2 = steps" using v(1) arr by (simp add: bindR_Inr_iff iter_of_array)
  note seq = v(2) [unfolded this]
  have planes: "list_ex (\<lambda>step. pay ''from_plane'' step = JStr plane \<or> pay ''to_plane'' step = JStr plane) steps"
    if "plane \<in> set [''control-plane'', ''execution-plane'', ''governance-plane'', ''memory-plane'']" for plane
  proof -
    have "seen_has (JStr plane) (tr_planes st1)" using c(4) that unfolding check_planes_def clean_each_C clean_basic by blast
    then have "JStr plane \<in> set (tr_planes st1)" by (simp add: seen_has_def list_ex_iff)
    then show ?thesis using trace_clean [OF c(2)] by (auto simp: list_ex_iff)
  qed
  have req: "r \<in> set requirements" "pay ''scenario_id'' r = pay ''scenario_id'' scenario"
    using find_R_Some [OF c(6) [unfolded requirement_of_def]] by (auto simp: bindR_Inr_iff dest: js_seq_eq)
  have incident: "pay ''scenario_id'' scenario = JStr ''E2E-004'' \<longrightarrow> contained bound steps"
    using c(3) check_incident_contained by (simp add: clean_bindC arr items_of_def)
  have "accepted_scenario b bound requirements scenario steps"
    unfolding accepted_scenario_def list_all_iff
    using arr trace_clean [OF c(2)] messages_follow [OF seq] entities_follow_paths [OF seq] req requirement_fulfilled [OF c(8)] planes incident
    unfolding steps by auto
  then show ?thesis by blast
qed

text \<open>What holds when the script finds no failure: every active scenario is accepted against the canonical
  payloads, and outside a partial run every required scenario is there and every canonical payload is used.\<close>

definition accepted_bench :: "bench \<Rightarrow> string list \<Rightarrow> bool" where
  "accepted_bench b argv \<longleftrightarrow> (\<exists>documents active scenarios bound requirements.
     map_R (readJson b) (scenarioPaths b argv) = Inr documents
   \<and> clean (active_document documents) active
   \<and> mutate argv active = Inr (JObj [(''schema_version'', JStr ''draft-v0''), (''scenarios'', JArr scenarios)])
   \<and> scenarios \<noteq> []
   \<and> list_all (\<lambda>scenario. \<exists>steps. steps \<noteq> [] \<and> accepted_scenario b bound requirements scenario steps) scenarios
   \<and> (''--partial'' \<notin> set argv \<longrightarrow>
        list_all (\<lambda>r. seen_has (pay ''scenario_id'' r) (map (pay ''scenario_id'') scenarios)) requirements))"

lemma envelope_clean:
  assumes "clean (validateScenarioEnvelope (JObj [(''schema_version'', version), (''scenarios'', JArr scenarios)])) ()"
  shows "version = JStr ''draft-v0''" "scenarios \<noteq> []" "scenario \<in> set scenarios \<Longrightarrow> \<not> not_filled (js_field scenario ''steps'')"
proof -
  from assms obtain ids where e: "version = JStr ''draft-v0''" "scenarios \<noteq> []" "clean (fold_C envelope_scenario scenarios []) ids"
    unfolding validateScenarioEnvelope_def by (auto simp: clean_bindC not_filled_def)
  then show "version = JStr ''draft-v0''" "scenarios \<noteq> []" by simp_all
  have "\<forall>scenario \<in> set scenarios. \<not> not_filled (js_field scenario ''steps'')"
    using e(3)
  proof (rule clean_fold_C_invariant)
    fix ys x zs st st'
    assume "\<forall>scenario \<in> set ys. \<not> not_filled (js_field scenario ''steps'')" "clean (envelope_scenario x st) st'"
    then show "\<forall>scenario \<in> set (ys @ [x]). \<not> not_filled (js_field scenario ''steps'')"
      unfolding envelope_scenario_def by (auto simp: clean_bindC)
  qed simp
  then show "scenario \<in> set scenarios \<Longrightarrow> \<not> not_filled (js_field scenario ''steps'')" by blast
qed

lemma validate_tabletop_accepts:
  assumes "clean (validate_tabletop b argv) st"
  shows "accepted_bench b argv"
proof -
  from assms obtain documents active document requirements bound st1 where v: "map_R (readJson b) (scenarioPaths b argv) = Inr documents"
    "clean (active_document documents) active \<and> mutate argv active = Inr document" "clean (validateScenarioEnvelope document) ()"
    "''--partial'' \<notin> set argv \<longrightarrow> (\<forall>r \<in> set requirements. seen_has (pay ''scenario_id'' r) (map (pay ''scenario_id'') (arr_items (js_field document ''scenarios''))))"
    "clean (fold_C (check_scenario b bound requirements) (arr_items (js_field document ''scenarios'')) \<lparr>tr_planes = [], tr_used = [], tr_checked = 0\<rparr>) st1"
    unfolding validate_tabletop_def Let_def
    by (simp add: clean_bindC clean_whenC clean_each_C clean_fieldC ex_unit del: bindR_simps) blast
  from v(2) have "active_shape active" unfolding active_document_def active_shape_def by (auto simp: clean_bindC)
  with v(2) mutate_shape obtain version scenarios where doc: "document = JObj [(''schema_version'', version), (''scenarios'', JArr scenarios)]"
    unfolding active_shape_def by blast
  have items: "arr_items (js_field document ''scenarios'') = scenarios" by (simp add: doc)
  note e = envelope_clean [OF v(3) [unfolded doc]]
  have "\<forall>scenario \<in> set scenarios. \<exists>steps. accepted_scenario b bound requirements scenario steps"
    using v(5) [unfolded items]
  proof (rule clean_fold_C_invariant)
    fix ys x zs st st'
    assume "\<forall>scenario \<in> set ys. \<exists>steps. accepted_scenario b bound requirements scenario steps" "clean (check_scenario b bound requirements x st) st'"
    then show "\<forall>scenario \<in> set (ys @ [x]). \<exists>steps. accepted_scenario b bound requirements scenario steps"
      using check_scenario_accepted [of b bound requirements x st st'] by auto
  qed simp
  then have acc: "list_all (\<lambda>scenario. \<exists>steps. steps \<noteq> [] \<and> accepted_scenario b bound requirements scenario steps) scenarios"
    unfolding list_all_iff using e(3) by (fastforce simp: accepted_scenario_def not_filled_def)
  show ?thesis
    unfolding accepted_bench_def
    by (rule exI [of _ documents], rule exI [of _ active], rule exI [of _ scenarios], rule exI [of _ bound], rule exI [of _ requirements])
      (use v(1,2,4) acc e(1,2) in \<open>simp add: doc list_all_iff\<close>)
qed

end
