(* ===== verification/Json_Schema_Props.thy ===== *)
theory Json_Schema_Props
  imports Json_Schema
begin

text \<open>
  The depth of the validator's recursion: more depth changes nothing once a check has returned, and a schema
  without references needs no more depth than its size.
\<close>

named_theorems mono_rules \<open>the order of checks under the operations that build them\<close>
named_theorems calm_rules \<open>checks that do not exhaust the stack\<close>

section \<open>More depth\<close>

text \<open>A check refines another when it exhausted the stack, or agrees with it.\<close>

definition chk_le :: "(js_error, 'a) chk \<Rightarrow> (js_error, 'a) chk \<Rightarrow> bool" where
  "chk_le m m' \<longleftrightarrow> snd m = Inl stack_overflow \<or> m = m'"

definition res_le :: "'a res \<Rightarrow> 'a res \<Rightarrow> bool" where
  "res_le r r' \<longleftrightarrow> r = Inl stack_overflow \<or> r = r'"

lemma chk_le_refl [mono_rules]: "chk_le m m"
  by (simp add: chk_le_def)

lemma res_le_refl: "res_le r r"
  by (simp add: res_le_def)

lemma chk_le_bind [mono_rules]: "chk_le m m' \<Longrightarrow> (\<And>x. chk_le (f x) (g x)) \<Longrightarrow> chk_le (bindC m f) (bindC m' g)"
  unfolding chk_le_def bindC_def by (cases m) (auto split: prod.splits sum.splits simp: prod_eq_iff; metis fst_conv snd_conv)

lemma res_le_bind: "res_le r r' \<Longrightarrow> (\<And>x. res_le (f x) (g x)) \<Longrightarrow> res_le (bindR r f) (bindR r' g)"
  unfolding res_le_def by (elim disjE; cases r; auto) (metis bindR_simps(2))+

lemma res_le_if: "res_le r r' \<Longrightarrow> res_le s s' \<Longrightarrow> res_le (if c then r else s) (if c then r' else s')"
  by simp

lemma res_le_pair: "(\<And>x y. res_le (f x y) (g x y)) \<Longrightarrow> res_le (case e of (x, y) \<Rightarrow> f x y) (case e of (x, y) \<Rightarrow> g x y)"
  by (cases e) simp

lemmas res_rules = res_le_refl res_le_bind res_le_if res_le_pair

lemma chk_le_if [mono_rules]: "chk_le m m' \<Longrightarrow> chk_le k k' \<Longrightarrow> chk_le (if c then m else k) (if c then m' else k')"
  by simp

lemma chk_le_pair [mono_rules]: "(\<And>x y. chk_le (f x y) (g x y)) \<Longrightarrow> chk_le (case e of (x, y) \<Rightarrow> f x y) (case e of (x, y) \<Rightarrow> g x y)"
  by (cases e) simp

lemma chk_le_lift [mono_rules]: "res_le r r' \<Longrightarrow> chk_le (liftC r) (liftC r')"
  by (auto simp: chk_le_def res_le_def liftC_def)

lemma chk_le_each [mono_rules]: "(\<And>x. chk_le (f x) (g x)) \<Longrightarrow> chk_le (each_C f xs) (each_C g xs)"
  by (induction xs) (auto intro!: mono_rules)

lemma chk_le_map [mono_rules]: "(\<And>x. chk_le (f x) (g x)) \<Longrightarrow> chk_le (map_C f xs) (map_C g xs)"
  by (induction xs) (auto intro!: mono_rules)

lemma chk_le_errors [mono_rules]: "chk_le m m' \<Longrightarrow> chk_le (errors_of m) (errors_of m')"
  by (cases m) (auto simp: chk_le_def errors_of_def)

lemma chk_le_when [mono_rules]: "chk_le m m' \<Longrightarrow> chk_le (whenC c m) (whenC c m')"
  by (simp add: whenC_def chk_le_refl)

lemma chk_le_items: "(\<And>x s l. chk_le (rec x s l) (rec' x s l)) \<Longrightarrow> chk_le (check_items rec xs schema location) (check_items rec' xs schema location)"
  unfolding check_items_def by (intro mono_rules) (auto split: prod.splits)

lemma chk_le_object:
  assumes "\<And>x s l. chk_le (rec x s l) (rec' x s l)"
  shows "chk_le (check_object rec v schema location) (check_object rec' v schema location)"
  unfolding check_object_def Let_def by (intro mono_rules res_le_refl assms)

lemma chk_le_all:
  assumes "\<And>q s. chk_le (rec q s) (rec' q s)" "res_le keys keys'"
  shows "chk_le (check_all rec keys quiet v schema location) (check_all rec' keys' quiet v schema location)"
  unfolding check_all_def using assms by (intro mono_rules res_le_refl)

lemma chk_le_some: "(\<And>q s. chk_le (rec q s) (rec' q s)) \<Longrightarrow> chk_le (check_some rec schema location) (check_some rec' schema location)"
  unfolding check_some_def Let_def by (intro mono_rules res_le_refl)

lemma children_le:
  assumes "\<And>schema seen. res_le (collectProperties n b schema baseFile seen) (collectProperties (Suc n) b schema baseFile seen)"
  shows "res_le (collect_children n b children baseFile seen) (collect_children (Suc n) b children baseFile seen)"
proof (induction children arbitrary: seen)
  case (Cons c cs)
  show ?case unfolding collect_children.simps(2) by (intro res_rules assms Cons.IH)
qed (simp add: res_le_refl)

lemma collect_le: "res_le (collectProperties n b schema baseFile seen) (collectProperties (Suc n) b schema baseFile seen)"
proof (induction n arbitrary: schema baseFile seen)
  case (Suc n)
  show ?case
    unfolding collectProperties.simps(2) [of n b schema baseFile seen] collectProperties.simps(2) [of "Suc n" b schema baseFile seen] Let_def
    by (intro res_rules children_le Suc.IH)
qed (simp add: res_le_def)

lemma validate_le: "chk_le (validate n b v schema baseFile location quiet) (validate (Suc n) b v schema baseFile location quiet)"
proof (induction n arbitrary: v schema baseFile location quiet)
  case 0
  then show ?case by (simp add: chk_le_def liftC_def)
next
  case (Suc n)
  have keys: "res_le (bindR (collectProperties n b schema baseFile []) (\<lambda>(keys, _). Inr keys))
      (bindR (collectProperties (Suc n) b schema baseFile []) (\<lambda>(keys, _). Inr keys))"
    by (intro res_le_bind collect_le res_le_refl)
  have items: "chk_le (case v of JArr xs \<Rightarrow> check_items (\<lambda>x child l. validate n b x child baseFile l False) xs schema location | _ \<Rightarrow> okC ())
      (case v of JArr xs \<Rightarrow> check_items (\<lambda>x child l. validate (Suc n) b x child baseFile l False) xs schema location | _ \<Rightarrow> okC ())"
    by (cases v) (simp_all only: jsval.case chk_le_refl chk_le_items Suc.IH)
  show ?case
    unfolding validate.simps(2) [of n b v schema baseFile location quiet] validate.simps(2) [of "Suc n" b v schema baseFile location quiet]
    by (intro mono_rules res_le_refl items keys chk_le_all chk_le_some chk_le_object Suc.IH)
qed

lemma validate_deeper:
  assumes "snd (validate n b v schema baseFile location quiet) \<noteq> Inl stack_overflow" "n \<le> m"
  shows "validate m b v schema baseFile location quiet = validate n b v schema baseFile location quiet"
  using assms(2)
proof (induction rule: dec_induct)
  case (step k)
  then show ?case using validate_le [of k b v schema baseFile location quiet] assms(1) by (simp add: chk_le_def)
qed simp

section \<open>Enough depth\<close>

definition calm :: "(js_error, 'a) chk \<Rightarrow> bool" where
  "calm m \<longleftrightarrow> snd m \<noteq> Inl stack_overflow"

lemma calm_ok [calm_rules]: "calm (okC x)" "calm (push_if c e)" "calm (push_all es)"
  by (simp_all add: calm_def okC_def push_if_def push_all_def)

lemma calm_lift: "r \<noteq> Inl stack_overflow \<Longrightarrow> calm (liftC r)"
  by (simp add: calm_def liftC_def)

lemma calm_bind [calm_rules]: "calm m \<Longrightarrow> (\<And>x. calm (f x)) \<Longrightarrow> calm (bindC m f)"
  unfolding calm_def bindC_def by (cases m) (auto split: prod.splits sum.splits; metis snd_conv)

lemma calm_from: "r \<noteq> Inl stack_overflow \<Longrightarrow> (\<And>x. r = Inr x \<Longrightarrow> calm (f x)) \<Longrightarrow> calm (bindC (liftC r) f)"
  by (cases r) (auto simp: calm_def bindC_def liftC_def split: prod.splits)

lemma calm_each: "(\<And>x. x \<in> set xs \<Longrightarrow> calm (f x)) \<Longrightarrow> calm (each_C f xs)"
  by (induction xs) (auto intro!: calm_rules)

lemma calm_map: "(\<And>x. x \<in> set xs \<Longrightarrow> calm (f x)) \<Longrightarrow> calm (map_C f xs)"
  by (induction xs) (auto intro!: calm_rules)

lemma calm_errors [calm_rules]: "calm m \<Longrightarrow> calm (errors_of m)"
  by (cases m) (auto simp: calm_def errors_of_def split: sum.splits)

lemma calm_when: "(c \<Longrightarrow> calm m) \<Longrightarrow> calm (whenC c m)"
  by (simp add: whenC_def calm_ok)

text \<open>A value without references, and its size.\<close>

fun ref_free :: "jsval \<Rightarrow> bool" where
  "ref_free (JArr xs) = list_all ref_free xs"
| "ref_free (JObj m) = (\<not> truthy (js_field (JObj m) ''$ref'') \<and> list_all (\<lambda>(k, x). ref_free x) m)"
| "ref_free _ = True"

fun weight :: "jsval \<Rightarrow> nat" where
  "weight (JArr xs) = Suc (sum_list (map weight xs))"
| "weight (JObj m) = Suc (sum_list (map (\<lambda>(k, x). weight x) m))"
| "weight v = 1"

lemma weight_item: "x \<in> set xs \<Longrightarrow> weight x < weight (JArr xs)"
  by (induction xs) auto

lemma weight_entry: "(k, x) \<in> set m \<Longrightarrow> weight x < weight (JObj m)"
  by (induction m) auto

definition small :: "nat \<Rightarrow> jsval \<Rightarrow> bool" where
  "small n v \<longleftrightarrow> ref_free v \<and> weight v < n"

lemma small_field: "small (Suc n) v \<Longrightarrow> js_field v k \<noteq> JUndef \<Longrightarrow> small n (js_field v k)"
  by (cases v) (auto simp: small_def list_all_iff split: option.splits dest!: map_of_SomeD dest: weight_entry)

lemma small_item: "small (Suc n) (JArr xs) \<Longrightarrow> x \<in> set xs \<Longrightarrow> small n x"
  by (auto simp: small_def list_all_iff dest: weight_item)

lemma small_entry: "small (Suc n) v \<Longrightarrow> (k, x) \<in> set (js_entries v) \<Longrightarrow> small n x"
proof (cases v)
  case (JArr xs)
  assume "small (Suc n) v" "(k, x) \<in> set (js_entries v)"
  moreover from this JArr have "x \<in> set xs" by (auto simp: in_set_enumerate_eq)
  ultimately show ?thesis using JArr small_item by blast
qed (auto simp: small_def list_all_iff dest: weight_entry)

lemma small_iter: "small (Suc n) v \<Longrightarrow> js_iter v = Inr xs \<Longrightarrow> x \<in> set xs \<Longrightarrow> small (Suc n) x"
  by (cases v) (auto simp: small_def list_all_iff dest: weight_item)

lemma small_items: "small (Suc n) v \<Longrightarrow> items_of v = Inr xs \<Longrightarrow> x \<in> set xs \<Longrightarrow> small n x"
  by (cases v) (auto simp: items_of_def intro: small_item)

lemma small_mono: "small n v \<Longrightarrow> n \<le> m \<Longrightarrow> small m v"
  by (simp add: small_def)

lemma js_iter_calm: "js_iter v \<noteq> Inl stack_overflow" "items_of v \<noteq> Inl stack_overflow" "js_get v k \<noteq> Inl stack_overflow"
  by (cases v; simp add: items_of_def js_get_def type_error_def stack_overflow_def)+

definition regex_calm :: "bench \<Rightarrow> bool" where
  "regex_calm b \<longleftrightarrow> (\<forall>p s. tb_regex b p s \<noteq> Inl stack_overflow)"

lemma small_no_ref: "small n v \<Longrightarrow> \<not> truthy (js_field v ''$ref'')"
  by (cases v) (auto simp: small_def)

lemma children_calm:
  assumes "\<And>c seen. c \<in> set children \<Longrightarrow> collectProperties n b c baseFile seen \<noteq> Inl stack_overflow"
  shows "collect_children n b children baseFile seen \<noteq> Inl stack_overflow"
  using assms
proof (induction children arbitrary: seen)
  case (Cons c cs)
  have "collectProperties n b c baseFile seen \<noteq> Inl stack_overflow" "collect_children n b cs baseFile s \<noteq> Inl stack_overflow" for s
    using Cons by simp_all
  then show ?case by (auto simp: bindR_def split: sum.splits prod.splits)
qed simp

lemma collect_calm: "small (Suc n) schema \<Longrightarrow> 0 < n \<Longrightarrow> collectProperties n b schema baseFile seen \<noteq> Inl stack_overflow"
proof (induction n arbitrary: schema seen)
  case (Suc n)
  have "collect_children n b children baseFile seen \<noteq> Inl stack_overflow" if "js_iter (js_field schema ''allOf'') = Inr children" for children
  proof (rule children_calm)
    fix c seen assume c: "c \<in> set children"
    show "collectProperties n b c baseFile seen \<noteq> Inl stack_overflow"
    proof (cases "js_field schema ''allOf''")
      case (JArr xs)
      then have "small (Suc n) (JArr xs)" using small_field [OF Suc.prems(1), of "''allOf''"] by simp
      then have "small n c" using c that JArr by (auto intro: small_item)
      then show ?thesis using Suc.IH [of c seen] small_mono [of n c "Suc n"] by (simp add: small_def)
    next
      case (JStr s)
      then have "small (Suc n) (JStr s)" using small_field [OF Suc.prems(1), of "''allOf''"] by simp
      then have "0 < n" by (auto simp: small_def)
      moreover have "\<not> is_object c" using c that JStr by (auto simp: is_object_def)
      ultimately show ?thesis by (cases n) simp_all
    qed (use that c in simp_all)
  qed
  moreover have "js_iter (js_field schema ''allOf'') \<noteq> Inl stack_overflow" by (rule js_iter_calm)
  ultimately show ?case using small_no_ref [OF Suc.prems(1)]
    by (cases "js_iter (js_field schema ''allOf'')") (auto simp: Let_def bindR_def split: sum.splits)
qed simp

lemma small_child: "small n v \<Longrightarrow> js_iter v = Inr xs \<Longrightarrow> x \<in> set xs \<Longrightarrow> small n x"
  by (cases n) (auto simp: small_def [of 0] intro: small_iter)

lemma items_of_iter: "items_of v = Inr xs \<Longrightarrow> js_iter v = Inr xs"
  by (cases v) (auto simp: items_of_def)

lemma truthy_defined: "truthy v \<Longrightarrow> v \<noteq> JUndef"
  by auto

lemma object_defined: "is_object v \<Longrightarrow> v \<noteq> JUndef"
  by (auto simp: is_object_def)

lemma calm_if: "(c \<Longrightarrow> calm m) \<Longrightarrow> (\<not> c \<Longrightarrow> calm k) \<Longrightarrow> calm (if c then m else k)"
  by simp

lemma calm_pair: "(\<And>x y. e = (x, y) \<Longrightarrow> calm (f x y)) \<Longrightarrow> calm (case e of (x, y) \<Rightarrow> f x y)"
  by (cases e) simp

lemma validate_calm:
  assumes regex: "regex_calm b"
  shows "small n schema \<Longrightarrow> calm (validate n b v schema baseFile location quiet)"
proof (induction n arbitrary: v schema location quiet)
  case (Suc n)
  note field = small_field [OF Suc.prems]
  have child: "calm (validate n b w c baseFile l q)" if "truthy (js_field schema k)" "js_iter (js_field schema k) = Inr cs" "c \<in> set cs" for k cs c w l q
    using Suc.IH [OF small_child [OF field [OF truthy_defined [OF that(1)]] that(2,3)]] .
  have keys: "bindR (collectProperties n b schema baseFile []) (\<lambda>(keys, _). Inr keys) \<noteq> Inl stack_overflow" if "truthy (js_field schema ''allOf'')"
  proof -
    have "0 < n" using field [OF truthy_defined [OF that]] by (auto simp: small_def)
    from collect_calm [OF Suc.prems this] show ?thesis by (auto simp: bindR_def split: sum.splits prod.splits)
  qed
  have all: "calm (check_all (\<lambda>q child. validate n b v child baseFile location q)
      (bindR (collectProperties n b schema baseFile []) (\<lambda>(keys, _). Inr keys)) quiet v schema location)"
    unfolding check_all_def by (intro calm_when calm_from calm_bind calm_each js_iter_calm keys calm_ok) (rule child, assumption+)
  have some: "calm (check_some (\<lambda>q child. validate n b v child baseFile location q) schema location)"
    unfolding check_some_def Let_def
    by (intro calm_when calm_from calm_bind calm_map calm_errors js_iter_calm calm_ok; rule child, assumption, erule items_of_iter, assumption)
  have items: "calm (check_items (\<lambda>x child l. validate n b x child baseFile l False) xs schema location)" for xs
    unfolding check_items_def
    by (intro calm_when calm_bind calm_each calm_pair calm_ok) (rule Suc.IH, rule field, erule truthy_defined)
  have entry: "calm (validate n b w c baseFile l q)" if "(k, c) \<in> set (js_entries (js_field schema ''properties''))" for k c w l q
  proof -
    have "js_field schema ''properties'' \<noteq> JUndef" using that by auto
    then have "small n (js_field schema ''properties'')" by (rule field)
    then have "small n c" using that by (cases n) (auto simp: small_def [of 0] dest: small_entry intro: small_mono)
    then show ?thesis by (rule Suc.IH)
  qed
  have object: "calm (check_object (\<lambda>x child l. validate n b x child baseFile l False) v schema location)"
    unfolding check_object_def Let_def
  proof (intro calm_from js_iter_calm calm_bind calm_each calm_pair calm_when calm_ok)
    fix e k c assume "e \<in> set (js_entries (js_field schema ''properties''))" "e = (k, c)"
    then show "calm (validate n b (js_field v k) c baseFile (at_key location k) False)" by (intro entry) simp
  next
    show "calm (if js_field schema ''additionalProperties'' = JBool False
      then each_C (\<lambda>key. push_if (key \<notin> fst ` set (js_entries (js_field schema ''properties''))) (Err ''additional property'' [JStr (at_key location key)])) (obj_keys v)
      else whenC (is_object (js_field schema ''additionalProperties''))
        (each_C (\<lambda>(key, x). whenC (key \<notin> fst ` set (js_entries (js_field schema ''properties'')))
          (validate n b x (js_field schema ''additionalProperties'') baseFile (at_key location key) False)) (js_entries v)))"
      by (intro calm_if calm_each calm_pair calm_when calm_ok) (rule Suc.IH, rule field, erule object_defined)
  qed
  have string: "calm (check_string b s schema location)" for s
    unfolding check_string_def using regex by (intro calm_rules calm_when calm_from) (simp_all add: regex_calm_def)
  have number: "calm (check_number x schema location)" for x
    unfolding check_number_def by (intro calm_rules)
  have const: "calm (check_const v schema location)"
    unfolding check_const_def by (intro calm_rules calm_when calm_from js_iter_calm)
  have type: "calm (check_type v schema location)"
    unfolding check_type_def by (rule calm_ok)
  have parts: "calm (case v of JStr s \<Rightarrow> check_string b s schema location | _ \<Rightarrow> okC ())"
    "calm (case v of JNum x \<Rightarrow> check_number x schema location | _ \<Rightarrow> okC ())"
    "calm (case v of JArr xs \<Rightarrow> check_items (\<lambda>x child l. validate n b x child baseFile l False) xs schema location | _ \<Rightarrow> okC ())"
    by (cases v; simp add: calm_ok string number items)+
  have get: "js_get schema ''$ref'' = Inr r \<Longrightarrow> \<not> truthy r" for r using small_no_ref [OF Suc.prems] by simp
  show ?case
    unfolding validate.simps(2) [of n b v schema baseFile location quiet]
    by (intro calm_if calm_ok calm_from js_iter_calm) ((drule get, erule notE, assumption)+, intro calm_bind calm_when all some const type parts object)
qed (simp add: small_def)

end
