(* ===== verification/Tabletop_Demo.thy ===== *)
theory Tabletop_Demo
  imports Tabletop_Props Json_Schema_Props
begin

text \<open>
  Documents at which the theorems about the tabletop validator apply: a scenario in which a Task is created, runs
  and is completed after its review, a scenario that is accepted although it should not be, and a schema.
\<close>

section \<open>A bench with one scenario\<close>

definition demo_message :: "string \<Rightarrow> string \<Rightarrow> jsval \<Rightarrow> jsval \<Rightarrow> jsval \<Rightarrow> (string \<times> jsval) list \<Rightarrow> jsval" where
  "demo_message i t cause from_state to_state extra = JObj ([(''message_id'', JStr (''m'' @ i)), (''causation_message_id'', cause), (''correlation_id'', JStr ''c1''),
     (''idempotency_key'', JStr (''k'' @ i)), (''occurred_at'', JStr t),
     (''entity'', JObj [(''kind'', JStr ''task''), (''id'', JStr ''t1''), (''from_state'', from_state), (''to_state'', to_state)])] @ extra)"

definition demo_step :: "string \<Rightarrow> string \<Rightarrow> string \<Rightarrow> string \<Rightarrow> jsval \<Rightarrow> jsval" where
  "demo_step i from_plane to_plane t payload = JObj [(''step_id'', JStr (''s'' @ i)), (''from_plane'', JStr from_plane), (''to_plane'', JStr to_plane),
     (''from_component'', JStr ''a''), (''to_component'', JStr ''b''), (''message_type'', JStr t), (''schema_ref'', JStr ''schema.json#/any''), (''payload'', payload)]"

definition demo_steps :: "jsval list" where
  "demo_steps = [
     demo_step ''1'' ''control-plane'' ''execution-plane'' ''Started'' (demo_message ''1'' ''01'' JNull JNull (JStr ''running'') []),
     demo_step ''2'' ''governance-plane'' ''memory-plane'' ''Reviewing'' (demo_message ''2'' ''02'' (JStr ''m1'') (JStr ''running'') (JStr ''reviewing_completion'') []),
     demo_step ''3'' ''execution-plane'' ''control-plane'' ''Completed'' (demo_message ''3'' ''03'' (JStr ''m2'') (JStr ''reviewing_completion'') (JStr ''completed'') [])]"

definition scenario_with :: "jsval list \<Rightarrow> jsval" where
  "scenario_with steps = JObj [(''scenario_id'', JStr ''E2E-9''), (''steps'', JArr steps)]"

definition demo_requirements :: "jsval" where
  "demo_requirements = JObj [(''requirements'', JArr [JObj [(''scenario_id'', JStr ''E2E-9''), (''ordered_message_types'', JArr [JStr ''Started'', JStr ''Completed'']),
     (''correlations'', JArr []), (''causations'', JArr [JObj [(''cause_type'', JStr ''Started''), (''effect_type'', JStr ''Reviewing'')]])]])]"

definition tabletop_documents :: "jsval list \<Rightarrow> string \<Rightarrow> jsval res" where
  "tabletop_documents steps file = (
     if file = ''/t/s.json'' then Inr (JObj [(''schema_version'', JStr ''draft-v0''), (''scenarios'', JArr [scenario_with steps])])
     else if file = ''/t/examples/e2e-tabletop/sequence-requirements.json'' then Inr demo_requirements
     else if file = ''/t/schemas/draft-v0/common/sequence-invariant.schema.json'' then Inr (JObj [(''type'', JStr ''object'')])
     else if file = ''/t/schema.json'' then Inr (JObj [(''any'', JObj [(''type'', JStr ''object''), (''required'', JArr [JStr ''message_id''])])])
     else Inl (Err ''ENOENT'' []))"

text \<open>The times of the scenarios are two digits.\<close>

definition demo_date :: "string \<Rightarrow> rat option" where
  "demo_date t = (if t = ''01'' then Some 1 else if t = ''02'' then Some 2 else if t = ''03'' then Some 3 else None)"

definition demo_bench :: "jsval list \<Rightarrow> bench" where
  "demo_bench steps = \<lparr>tb_root = ''/t'', tb_docs = tabletop_documents steps, tb_regex = (\<lambda>_ _. Inr True), tb_date = demo_date,
     tb_ip = (\<lambda>_. 0), tb_names = [], tb_stack = 5\<rparr>"

definition demo_trace :: trace_state where
  "demo_trace = \<lparr>tr_planes = map JStr [''control-plane'', ''execution-plane'', ''memory-plane'', ''governance-plane'', ''execution-plane'', ''control-plane''],
     tr_used = [], tr_checked = 3\<rparr>"

lemma demo_bench_clean: "clean (validate_tabletop (demo_bench demo_steps) [''s.json'']) demo_trace"
  by code_simp

lemma demo_sequence_clean: "clean (validateSequenceInvariants (demo_bench demo_steps) (scenario_with demo_steps)) ()"
  by code_simp

lemma demo_history: "history ''task:t1'' demo_steps =
    [(JStr ''task'', JNull, JStr ''running''), (JStr ''task'', JStr ''running'', JStr ''reviewing_completion'')]
    @ (JStr ''task'', JStr ''reviewing_completion'', JStr ''completed'') # []"
  by code_simp

section \<open>A scenario that claims a redelivery\<close>

text \<open>Its last message completes a Task that was only started; it has a fresh id and a fresh idempotency key, and says
  that it is the second delivery of a message nobody sent.\<close>

definition forged_steps :: "jsval list" where
  "forged_steps = [
     demo_step ''1'' ''control-plane'' ''execution-plane'' ''Started'' (demo_message ''1'' ''01'' JNull JNull (JStr ''running'') []),
     demo_step ''2'' ''governance-plane'' ''memory-plane'' ''Completed'' (demo_message ''2'' ''02'' (JStr ''m1'') (JStr ''running'') (JStr ''completed'')
       [(''delivery_attempt'', JNum 2), (''redelivery_of_message_id'', JStr ''m0'')])]"

definition unforged_steps :: "jsval list" where
  "unforged_steps = [
     demo_step ''1'' ''control-plane'' ''execution-plane'' ''Started'' (demo_message ''1'' ''01'' JNull JNull (JStr ''running'') []),
     demo_step ''2'' ''governance-plane'' ''memory-plane'' ''Completed'' (demo_message ''2'' ''02'' (JStr ''m1'') (JStr ''running'') (JStr ''completed'') [])]"

lemma forged_run: "clean (validate_tabletop (demo_bench forged_steps) [''s.json'', ''--partial''])
    \<lparr>tr_planes = map JStr [''memory-plane'', ''governance-plane'', ''execution-plane'', ''control-plane''], tr_used = [], tr_checked = 2\<rparr>"
  by code_simp

lemma unforged_run: "fst (validate_tabletop (demo_bench unforged_steps) [''s.json'', ''--partial'']) \<noteq> []"
  by code_simp

section \<open>A schema\<close>

text \<open>Objects with a list of at most two unique texts under \<open>names\<close>, and nothing else.\<close>

definition demo_schema :: jsval where
  "demo_schema = JObj [(''type'', JStr ''object''), (''required'', JArr [JStr ''names'']), (''additionalProperties'', JBool False),
     (''properties'', JObj [(''names'', JObj [(''type'', JStr ''array''), (''maxItems'', JNum 2), (''uniqueItems'', JBool True),
        (''items'', JObj [(''type'', JStr ''string'')])])])]"

end
