(* ===== verification/Domain_Types.thy ===== *)
theory Domain_Types
  imports Js_Values "HOL-Library.Word"
begin

text \<open>
  The logical types of the design (schemas/domain-types.ts): agents and their runs, Tasks, operations, completion
  reviews, evidence and episodes.  An interface is a record, a union of literals is a datatype with a constructor
  for each, a union of objects is a datatype with a constructor for each of its tags.  The names are the source's,
  fields and literals prefixed by their type.  An optional or nullable field is an option; a number is rational; a
  field with a single literal as its type is of type unit.
\<close>

datatype AgentLevel = AgentLevel_L1 | AgentLevel_L2 | AgentLevel_L3

datatype AgentStatus = AgentStatus_idle | AgentStatus_assigned | AgentStatus_retired

record Agent =
  Agent_agentId :: string
  Agent_profileId :: string
  Agent_level :: AgentLevel
  Agent_status :: AgentStatus
  Agent_currentTaskId :: "string option"

datatype TaskStatus = TaskStatus_ready
  | TaskStatus_running
  | TaskStatus_waiting
  | TaskStatus_suspended
  | TaskStatus_reviewing_completion
  | TaskStatus_completed
  | TaskStatus_cancelled

record TaskContract =
  TaskContract_objective :: string
  TaskContract_acceptance :: string
  TaskContract_instructions :: "string option"
  TaskContract_version :: rat

datatype TaskDependency = TaskDependency_required | TaskDependency_optional

record Task =
  Task_taskId :: string
  Task_parentTaskId :: "string option"
  Task_ownerAgentId :: string
  Task_workspaceId :: string
  Task_contract :: TaskContract
  Task_status :: TaskStatus
  Task_dependency :: TaskDependency
  Task_version :: rat
  Task_createdAt :: string
  Task_startedAt :: "string option"
  Task_endedAt :: "string option"

datatype TaskEventActorKind = TaskEventActorKind_work_agent
  | TaskEventActorKind_harness
  | TaskEventActorKind_authority
  | TaskEventActorKind_internal_component

record TaskEvent =
  TaskEvent_eventId :: string
  TaskEvent_taskId :: string
  TaskEvent_actorKind :: TaskEventActorKind
  TaskEvent_actorRef :: string
  TaskEvent_eventType :: string
  TaskEvent_payloadRef :: string
  TaskEvent_createdAt :: string

datatype WorkspaceMode = WorkspaceMode_fork | WorkspaceMode_shared_readonly | WorkspaceMode_empty

datatype WorkspaceStatus = WorkspaceStatus_active | WorkspaceStatus_frozen | WorkspaceStatus_archived | WorkspaceStatus_destroyed

record Workspace =
  Workspace_workspaceId :: string
  Workspace_taskId :: string
  Workspace_sourceWorkspaceId :: "string option"
  Workspace_mode :: WorkspaceMode
  Workspace_storageRef :: string
  Workspace_status :: WorkspaceStatus

datatype AgentRunStatus = AgentRunStatus_running | AgentRunStatus_stopped | AgentRunStatus_failed | AgentRunStatus_completed

datatype AgentRunStopReason = AgentRunStopReason_waiting | AgentRunStopReason_compacted | AgentRunStopReason_shutdown

record AgentRun =
  AgentRun_runId :: string
  AgentRun_agentId :: string
  AgentRun_taskId :: string
  AgentRun_status :: AgentRunStatus
  AgentRun_previousResponseId :: "string option"
  AgentRun_continuationId :: "string option"
  AgentRun_resumeCursorId :: "string option"
  AgentRun_stopReason :: "AgentRunStopReason option"
  AgentRun_normalStepCount :: rat
  AgentRun_lastProgressRefreshStep :: rat
  AgentRun_startedAt :: string
  AgentRun_endedAt :: "string option"

datatype AgentRunStepKind = AgentRunStepKind_normal | AgentRunStepKind_progress_maintenance

datatype AgentRunStepStatus = AgentRunStepStatus_running | AgentRunStepStatus_completed | AgentRunStepStatus_failed

record AgentRunStep =
  AgentRunStep_stepId :: string
  AgentRunStep_runId :: string
  AgentRunStep_sequence :: rat
  AgentRunStep_assignmentEventSequence :: rat
  AgentRunStep_kind :: AgentRunStepKind
  AgentRunStep_responseId :: "string option"
  AgentRunStep_status :: AgentRunStepStatus
  AgentRunStep_requestContextDigest :: string
  AgentRunStep_contractVersion :: rat
  AgentRunStep_taskVersion :: rat
  AgentRunStep_progressVersion :: rat
  AgentRunStep_startedAt :: string
  AgentRunStep_endedAt :: "string option"

datatype AgentRunItemRetentionClass = AgentRunItemRetentionClass_long | AgentRunItemRetentionClass_policy | AgentRunItemRetentionClass_short

record AgentRunItem =
  AgentRunItem_itemId :: string
  AgentRunItem_stepId :: string
  AgentRunItem_outputIndex :: rat
  AgentRunItem_type :: string
  AgentRunItem_status :: "string option"
  AgentRunItem_rawDigest :: string
  AgentRunItem_contentRef :: "string option"
  AgentRunItem_retentionClass :: AgentRunItemRetentionClass

datatype AgentResourceKind = AgentResourceKind_process
  | AgentResourceKind_server
  | AgentResourceKind_worktree
  | AgentResourceKind_temporary_directory

datatype AgentResourceLifetime = AgentResourceLifetime_run | AgentResourceLifetime_assignment | AgentResourceLifetime_agent

datatype AgentResourceCleanupPolicy = AgentResourceCleanupPolicy_stop | AgentResourceCleanupPolicy_delete | AgentResourceCleanupPolicy_retain

datatype AgentResourceStatus = AgentResourceStatus_active
  | AgentResourceStatus_cleanup_pending
  | AgentResourceStatus_cleaning
  | AgentResourceStatus_released
  | AgentResourceStatus_needs_operator

record AgentResource =
  AgentResource_resourceId :: string
  AgentResource_agentId :: string
  AgentResource_assignmentId :: "string option"
  AgentResource_runId :: "string option"
  AgentResource_kind :: AgentResourceKind
  AgentResource_resourceRef :: string
  AgentResource_lifetime :: AgentResourceLifetime
  AgentResource_cleanupPolicy :: AgentResourceCleanupPolicy
  AgentResource_status :: AgentResourceStatus

record ResumeCursor =
  ResumeCursor_cursorId :: string
  ResumeCursor_taskId :: string
  ResumeCursor_agentId :: string
  ResumeCursor_sourceRunId :: string
  ResumeCursor_contractVersion :: rat
  ResumeCursor_taskVersion :: rat
  ResumeCursor_progressVersion :: rat
  ResumeCursor_workspaceSnapshotRef :: string
  ResumeCursor_lastConsumedMailboxSequence :: rat
  ResumeCursor_lastObservedTaskEventSequence :: rat
  ResumeCursor_lastObservedAgentRunEventSequence :: rat
  ResumeCursor_createdAt :: string

datatype ProgressItemStatus = ProgressItemStatus_pending
  | ProgressItemStatus_in_progress
  | ProgressItemStatus_completed
  | ProgressItemStatus_blocked
  | ProgressItemStatus_cancelled

record ProgressItem =
  ProgressItem_itemId :: string
  ProgressItem_description :: string
  ProgressItem_status :: ProgressItemStatus
  ProgressItem_evidenceRefs :: "string list"
  ProgressItem_blocker :: "string option"

record TaskProgress =
  TaskProgress_taskId :: string
  TaskProgress_version :: rat
  TaskProgress_currentFocusId :: "string option"
  TaskProgress_lastObservedTaskEventSequence :: rat
  TaskProgress_lastObservedAgentRunEventSequence :: rat
  TaskProgress_items :: "ProgressItem list"
  TaskProgress_updatedAt :: string

datatype AgentRunEventViewKind = AgentRunEventViewKind_message
  | AgentRunEventViewKind_function_call
  | AgentRunEventViewKind_function_result
  | AgentRunEventViewKind_error
  | AgentRunEventViewKind_maintenance

record AgentRunEventView =
  AgentRunEventView_assignmentEventSequence :: rat
  AgentRunEventView_runId :: string
  AgentRunEventView_stepId :: string
  AgentRunEventView_kind :: AgentRunEventViewKind
  AgentRunEventView_summary :: "string option"
  AgentRunEventView_ref :: "string option"
  AgentRunEventView_occurredAt :: string

datatype ContinuationReason = ContinuationReason_waiting | ContinuationReason_reviewing_completion | ContinuationReason_suspended

datatype WaitCondition_child_mode = WaitCondition_child_mode_all | WaitCondition_child_mode_any

datatype WaitCondition =
    WaitCondition_child (WaitCondition_child_asyncIds: "string list") (WaitCondition_child_mode: WaitCondition_child_mode)
  | WaitCondition_parent (WaitCondition_parent_requestId: string)
  | WaitCondition_grant (WaitCondition_grant_asyncId: string)
  | WaitCondition_timer (WaitCondition_timer_wakeAt: string)

record Continuation =
  Continuation_continuationId :: string
  Continuation_taskId :: string
  Continuation_runId :: string
  Continuation_reason :: ContinuationReason
  Continuation_waitCondition :: "WaitCondition option"
  Continuation_awaitedEventIds :: "string list"
  Continuation_previousResponseId :: "string option"
  Continuation_pendingCallId :: "string option"
  Continuation_contractVersion :: rat
  Continuation_workspaceSnapshotRef :: string
  Continuation_contextSnapshotRef :: string

datatype ParentRequestStatus = ParentRequestStatus_pending | ParentRequestStatus_resolved | ParentRequestStatus_cancelled

record AskRequest =
  AskRequest_requestId :: string
  AskRequest_childTaskId :: string
  AskRequest_parentTaskId :: string
  AskRequest_childOwnerAgentId :: string
  AskRequest_parentOwnerAgentId :: string
  AskRequest_contractVersion :: rat
  AskRequest_question :: string
  AskRequest_status :: ParentRequestStatus
  AskRequest_asyncId :: string

record AskAdvice =
  AskAdvice_requestId :: string
  AskAdvice_advice :: string
  AskAdvice_responderAgentId :: string
  AskAdvice_resolvedAt :: string

record EscalationRequest =
  EscalationRequest_requestId :: string
  EscalationRequest_requesterTaskId :: string
  EscalationRequest_authorityTaskId :: "string option"
  EscalationRequest_rootAuthorityRef :: "string option"
  EscalationRequest_contractVersion :: rat
  EscalationRequest_question :: string
  EscalationRequest_proposedOptions :: "string list"
  EscalationRequest_status :: ParentRequestStatus
  EscalationRequest_asyncId :: string

record TaskContractPatch =
  TaskContractPatch_objective :: "string option"
  TaskContractPatch_acceptance :: "string option"
  TaskContractPatch_instructions :: "string option"
  TaskContractPatch_version :: "rat option"

record EscalationDecision =
  EscalationDecision_requestId :: string
  EscalationDecision_authorityRef :: string
  EscalationDecision_decision :: string
  EscalationDecision_contractPatch :: "TaskContractPatch option"
  EscalationDecision_terminate :: bool
  EscalationDecision_resolvedAt :: string

datatype SuspensionSource = SuspensionSource_agent_run_failure
  | SuspensionSource_runtime_failure
  | SuspensionSource_workspace_failure
  | SuspensionSource_resource_unavailable
  | SuspensionSource_built_in_job_failure

datatype SuspensionRecoveryOwner = SuspensionRecoveryOwner_harness | SuspensionRecoveryOwner_operator

datatype SuspensionRecoveryPolicy = SuspensionRecoveryPolicy_automatic | SuspensionRecoveryPolicy_manual

record Suspension =
  Suspension_reason :: string
  Suspension_source :: SuspensionSource
  Suspension_recoveryOwner :: SuspensionRecoveryOwner
  Suspension_recoveryPolicy :: SuspensionRecoveryPolicy
  Suspension_retryCount :: rat
  Suspension_suspendedAt :: string
  Suspension_nextRetryAt :: "string option"

record ToolError =
  ToolError_code :: string
  ToolError_message :: string
  ToolError_retryable :: bool
  ToolError_detailsRef :: "string option"

datatype 'a ToolResult =
    ToolResult_completed (ToolResult_completed_value: 'a)
  | ToolResult_accepted (ToolResult_accepted_asyncId: string) (ToolResult_accepted_operation: string)
  | ToolResult_failed (ToolResult_failed_error: ToolError)

datatype AsyncOperationStatus = AsyncOperationStatus_running
  | AsyncOperationStatus_completed
  | AsyncOperationStatus_failed
  | AsyncOperationStatus_cancelled

record AsyncOperation =
  AsyncOperation_asyncId :: string
  AsyncOperation_ownerTaskId :: string
  AsyncOperation_toolCallId :: "string option"
  AsyncOperation_toolName :: string
  AsyncOperation_status :: AsyncOperationStatus
  AsyncOperation_startedAt :: string
  AsyncOperation_syncDeadline :: "string option"
  AsyncOperation_completedAt :: "string option"
  AsyncOperation_resultRef :: "string option"
  AsyncOperation_errorRef :: "string option"
  AsyncOperation_operationKey :: string

record CompletionCandidate =
  CompletionCandidate_taskId :: string
  CompletionCandidate_candidateVersion :: rat
  CompletionCandidate_ownerJudgement :: string
  CompletionCandidate_outcomeRef :: string
  CompletionCandidate_artifactRefs :: "string list"
  CompletionCandidate_evidenceRefs :: "string list"
  CompletionCandidate_contractVersion :: rat

datatype AcceptanceReviewDecisionDecision = AcceptanceReviewDecisionDecision_accept
  | AcceptanceReviewDecisionDecision_reject
  | AcceptanceReviewDecisionDecision_insufficient_evidence

record AcceptanceReviewDecision =
  AcceptanceReviewDecision_decision :: AcceptanceReviewDecisionDecision
  AcceptanceReviewDecision_rationale :: string
  AcceptanceReviewDecision_unmetAcceptance :: "string list"
  AcceptanceReviewDecision_requiredEvidence :: "string list"
  AcceptanceReviewDecision_evidenceRefs :: "string list"

datatype CompletionReviewJobStatus = CompletionReviewJobStatus_pending
  | CompletionReviewJobStatus_reviewing
  | CompletionReviewJobStatus_completed
  | CompletionReviewJobStatus_needs_operator

record CompletionReviewJob =
  CompletionReviewJob_reviewJobId :: string
  CompletionReviewJob_taskId :: string
  CompletionReviewJob_candidateVersion :: rat
  CompletionReviewJob_candidateSnapshotRef :: string
  CompletionReviewJob_candidateDigest :: string
  CompletionReviewJob_inputSnapshotRef :: string
  CompletionReviewJob_inputDigest :: string
  CompletionReviewJob_contractVersion :: rat
  CompletionReviewJob_reviewerProfileVersion :: string
  CompletionReviewJob_outputSchemaVersion :: string
  CompletionReviewJob_status :: CompletionReviewJobStatus
  CompletionReviewJob_attempt :: rat
  CompletionReviewJob_leaseOwner :: "string option"
  CompletionReviewJob_leaseExpiresAt :: "string option"
  CompletionReviewJob_invocationDeadlineAt :: string
  CompletionReviewJob_lastErrorRef :: "string option"

record CompletionReview =
  CompletionReview_reviewId :: string
  CompletionReview_reviewJobId :: string
  CompletionReview_taskId :: string
  CompletionReview_candidateVersion :: rat
  CompletionReview_reviewerProfileVersion :: string
  CompletionReview_inputDigest :: string
  CompletionReview_decision :: AcceptanceReviewDecision
  CompletionReview_decidedAt :: string

datatype EpisodeStatementEpistemicStatus = EpisodeStatementEpistemicStatus_observed
  | EpisodeStatementEpistemicStatus_owner_asserted
  | EpisodeStatementEpistemicStatus_compiler_inferred

record EpisodeStatement =
  EpisodeStatement_text :: string
  EpisodeStatement_sourceRefs :: "string list"
  EpisodeStatement_epistemicStatus :: EpisodeStatementEpistemicStatus

datatype EvidenceRecordKind = EvidenceRecordKind_agent_run_item
  | EvidenceRecordKind_tool_log
  | EvidenceRecordKind_artifact
  | EvidenceRecordKind_workspace_snapshot
  | EvidenceRecordKind_decision
  | EvidenceRecordKind_review
  | EvidenceRecordKind_egress
  | EvidenceRecordKind_episode

datatype EvidenceRecordRedactionStatus = EvidenceRecordRedactionStatus_none
  | EvidenceRecordRedactionStatus_redacted
  | EvidenceRecordRedactionStatus_encrypted

record EvidenceRecord =
  EvidenceRecord_evidenceId :: string
  EvidenceRecord_kind :: EvidenceRecordKind
  EvidenceRecord_taskId :: "string option"
  EvidenceRecord_contentType :: string
  EvidenceRecord_contentDigest :: string
  EvidenceRecord_byteLength :: rat
  EvidenceRecord_retentionClass :: AgentRunItemRetentionClass
  EvidenceRecord_redactionStatus :: EvidenceRecordRedactionStatus
  EvidenceRecord_createdAt :: string

record EvidenceBlobChunk =
  EvidenceBlobChunk_evidenceId :: string
  EvidenceBlobChunk_chunkIndex :: rat
  EvidenceBlobChunk_content :: "8 word list"

datatype EvidenceQueryRequestParams = EvidenceQueryRequestParams_string string
  | EvidenceQueryRequestParams_number rat
  | EvidenceQueryRequestParams_boolean bool
  | EvidenceQueryRequestParams_null

record EvidenceQueryRequest =
  EvidenceQueryRequest_sql :: string
  EvidenceQueryRequest_params :: "(EvidenceQueryRequestParams list) option"
  EvidenceQueryRequest_maxRows :: "rat option"

record EvidenceQueryResult =
  EvidenceQueryResult_columns :: "string list"
  EvidenceQueryResult_rows :: "(jsval list) list"
  EvidenceQueryResult_truncated :: bool
  EvidenceQueryResult_nextCursor :: "string option"

record TaskEpisodeSituation =
  TaskEpisodeSituation_objective :: string
  TaskEpisodeSituation_acceptance :: string
  TaskEpisodeSituation_instructions :: "string option"
  TaskEpisodeSituation_initialContextSummary :: string

record TaskEpisodeTemporalContext =
  TaskEpisodeTemporalContext_startedAt :: string
  TaskEpisodeTemporalContext_endedAt :: string

record EpisodeTransition =
  EpisodeTransition_at :: string
  EpisodeTransition_eventType :: string
  EpisodeTransition_summary :: string
  EpisodeTransition_sourceRefs :: "string list"

record TaskEpisodeCourse =
  TaskEpisodeCourse_summary :: string
  TaskEpisodeCourse_importantTransitions :: "EpisodeTransition list"
  TaskEpisodeCourse_childEpisodeRefs :: "string list"

datatype TaskEpisodeOutcomeStatus = TaskEpisodeOutcomeStatus_completed | TaskEpisodeOutcomeStatus_cancelled

record TaskEpisodeOutcome =
  TaskEpisodeOutcome_status :: TaskEpisodeOutcomeStatus
  TaskEpisodeOutcome_ownerJudgement :: string
  TaskEpisodeOutcome_acceptanceReviewRef :: "string option"
  TaskEpisodeOutcome_artifactRefs :: "string list"
  TaskEpisodeOutcome_outboundTransactionRefs :: "string list"

record TaskEpisode =
  TaskEpisode_episodeId :: string
  TaskEpisode_taskId :: string
  TaskEpisode_parentTaskId :: "string option"
  TaskEpisode_ownerAgentId :: string
  TaskEpisode_situation :: TaskEpisodeSituation
  TaskEpisode_temporalContext :: TaskEpisodeTemporalContext
  TaskEpisode_course :: TaskEpisodeCourse
  TaskEpisode_outcome :: TaskEpisodeOutcome
  TaskEpisode_surprises :: "EpisodeStatement list"
  TaskEpisode_decisions :: "EpisodeStatement list"
  TaskEpisode_unresolved :: "EpisodeStatement list"
  TaskEpisode_evidenceRefs :: "string list"

datatype EpisodeCompilationJobStatus = EpisodeCompilationJobStatus_pending
  | EpisodeCompilationJobStatus_investigating
  | EpisodeCompilationJobStatus_validating
  | EpisodeCompilationJobStatus_completed
  | EpisodeCompilationJobStatus_needs_operator

record EpisodeCompilationJob =
  EpisodeCompilationJob_jobId :: string
  EpisodeCompilationJob_taskId :: string
  EpisodeCompilationJob_status :: EpisodeCompilationJobStatus
  EpisodeCompilationJob_stepCount :: rat
  EpisodeCompilationJob_inputTokens :: rat
  EpisodeCompilationJob_outputTokens :: rat
  EpisodeCompilationJob_maxSteps :: rat
  EpisodeCompilationJob_inputTokenBudget :: rat
  EpisodeCompilationJob_outputTokenBudget :: rat
  EpisodeCompilationJob_artifactReadByteBudget :: rat
  EpisodeCompilationJob_deadlineAt :: string
  EpisodeCompilationJob_profileVersion :: string
  EpisodeCompilationJob_outputSchemaVersion :: string
  EpisodeCompilationJob_leaseOwner :: "string option"
  EpisodeCompilationJob_leaseExpiresAt :: "string option"
  EpisodeCompilationJob_evidenceRefs :: "string list"
  EpisodeCompilationJob_attempt :: rat
  EpisodeCompilationJob_lastErrorRef :: "string option"

end
