(* ===== verification/Domain_Policy.thy ===== *)
theory Domain_Policy
  imports Js_Values
begin

text \<open>
  The logical types of the design (schemas/domain-types.ts) for egress, grants and security policies, built as those
  of the theory Domain_Types.
\<close>

datatype EgressProtocol = EgressProtocol_dns | EgressProtocol_https | EgressProtocol_tls | EgressProtocol_tcp | EgressProtocol_udp

datatype EgressMailboxEvent =
    EgressMailboxEvent_EgressBlocked
      (EgressMailboxEvent_EgressBlocked_eventId: string)
      (EgressMailboxEvent_EgressBlocked_workspaceId: string)
      (EgressMailboxEvent_EgressBlocked_taskId: string)
      (EgressMailboxEvent_EgressBlocked_challengeId: string)
      (EgressMailboxEvent_EgressBlocked_protocol: EgressProtocol)
      (EgressMailboxEvent_EgressBlocked_destinationRef: string)
      (EgressMailboxEvent_EgressBlocked_requestSummaryRef: "string option")
      (EgressMailboxEvent_EgressBlocked_reasonCodes: "string list")
      (EgressMailboxEvent_EgressBlocked_grantEligible: bool)
      (EgressMailboxEvent_EgressBlocked_challengeExpiresAt: string)
  | EgressMailboxEvent_PolicyGrantReady
      (EgressMailboxEvent_PolicyGrantReady_eventId: string)
      (EgressMailboxEvent_PolicyGrantReady_workspaceId: string)
      (EgressMailboxEvent_PolicyGrantReady_taskId: string)
      (EgressMailboxEvent_PolicyGrantReady_requestId: string)
      (EgressMailboxEvent_PolicyGrantReady_asyncId: string)
      (EgressMailboxEvent_PolicyGrantReady_challengeId: string)
      (EgressMailboxEvent_PolicyGrantReady_grantId: string)
      (EgressMailboxEvent_PolicyGrantReady_policyVersion: rat)
      (EgressMailboxEvent_PolicyGrantReady_expiresAt: string)
      (EgressMailboxEvent_PolicyGrantReady_retryOriginalCommand: unit)

record EgressRequestBinding =
  EgressRequestBinding_protocol :: EgressProtocol
  EgressRequestBinding_scheme :: string
  EgressRequestBinding_fqdn :: "string option"
  EgressRequestBinding_resolvedIp :: "string option"
  EgressRequestBinding_port :: rat
  EgressRequestBinding_method :: "string option"
  EgressRequestBinding_normalizedPathQuery :: "string option"
  EgressRequestBinding_policyHeadersDigest :: "string option"
  EgressRequestBinding_bodyDigest :: "string option"
  EgressRequestBinding_bodySize :: "rat option"
  EgressRequestBinding_requestedCredentialScope :: "string option"
  EgressRequestBinding_dnsSnapshotRef :: "string option"
  EgressRequestBinding_baselinePolicyVersion :: rat
  EgressRequestBinding_canonicalRequestDigest :: string

datatype EgressAttemptDecision = EgressAttemptDecision_allow | EgressAttemptDecision_block

record EgressAttempt =
  EgressAttempt_attemptId :: string
  EgressAttempt_workspaceId :: string
  EgressAttempt_taskId :: string
  EgressAttempt_agentId :: string
  EgressAttempt_originTaskId :: string
  EgressAttempt_delegationChainDigest :: string
  EgressAttempt_processRef :: string
  EgressAttempt_binding :: EgressRequestBinding
  EgressAttempt_dataClassification :: "string list"
  EgressAttempt_decision :: EgressAttemptDecision
  EgressAttempt_policyRefs :: "string list"
  EgressAttempt_createdAt :: string

record EgressCaptureRange =
  EgressCaptureRange_start :: rat
  EgressCaptureRange_endExclusive :: rat
  EgressCaptureRange_digest :: string

datatype EgressCaptureCoverageStatus = EgressCaptureCoverageStatus_complete
  | EgressCaptureCoverageStatus_partial
  | EgressCaptureCoverageStatus_unavailable
  | EgressCaptureCoverageStatus_incomplete

record EgressCaptureCoverage =
  EgressCaptureCoverage_status :: EgressCaptureCoverageStatus
  EgressCaptureCoverage_totalBytes :: "rat option"
  EgressCaptureCoverage_capturedRanges :: "EgressCaptureRange list"
  EgressCaptureCoverage_redactedRanges :: "EgressCaptureRange list"
  EgressCaptureCoverage_truncated :: bool
  EgressCaptureCoverage_limitationReason :: "string option"
  EgressCaptureCoverage_classification :: "string list"
  EgressCaptureCoverage_encryptedBlobRef :: "string option"
  EgressCaptureCoverage_keyRef :: "string option"

datatype EgressCaptureManifestCompletionStatus = EgressCaptureManifestCompletionStatus_request_committed
  | EgressCaptureManifestCompletionStatus_response_committed
  | EgressCaptureManifestCompletionStatus_connection_failed
  | EgressCaptureManifestCompletionStatus_incomplete

record EgressCaptureManifest =
  EgressCaptureManifest_captureManifestId :: string
  EgressCaptureManifest_attemptId :: string
  EgressCaptureManifest_request :: EgressCaptureCoverage
  EgressCaptureManifest_response :: "EgressCaptureCoverage option"
  EgressCaptureManifest_completionStatus :: EgressCaptureManifestCompletionStatus
  EgressCaptureManifest_retentionExpiresAt :: string
  EgressCaptureManifest_pinnedUntilRef :: "string option"
  EgressCaptureManifest_createdAt :: string
  EgressCaptureManifest_updatedAt :: string

record EgressRuleDecision =
  EgressRuleDecision_ruleDecisionId :: string
  EgressRuleDecision_attemptId :: string
  EgressRuleDecision_decision :: EgressAttemptDecision
  EgressRuleDecision_policyVersion :: rat
  EgressRuleDecision_matchedRuleRefs :: "string list"
  EgressRuleDecision_reasonCodes :: "string list"
  EgressRuleDecision_evaluatedAt :: string

datatype PolicyRevisionDecisionDecision = PolicyRevisionDecisionDecision_update
  | PolicyRevisionDecisionDecision_no_change
  | PolicyRevisionDecisionDecision_require_authority

record PolicyRevisionDecision =
  PolicyRevisionDecision_decision :: PolicyRevisionDecisionDecision
  PolicyRevisionDecision_rationale :: string
  PolicyRevisionDecision_evidenceRefs :: "string list"

record EgressChallenge =
  EgressChallenge_challengeId :: string
  EgressChallenge_workspaceId :: string
  EgressChallenge_taskId :: string
  EgressChallenge_originTaskId :: string
  EgressChallenge_delegationChainDigest :: string
  EgressChallenge_contractVersion :: rat
  EgressChallenge_binding :: EgressRequestBinding
  EgressChallenge_destinationRef :: string
  EgressChallenge_requestSummaryRef :: "string option"
  EgressChallenge_reasonCodes :: "string list"
  EgressChallenge_grantEligible :: bool
  EgressChallenge_autoGrantEligible :: bool
  EgressChallenge_requiredAuthorityRef :: "string option"
  EgressChallenge_createdAt :: string
  EgressChallenge_expiresAt :: string

record ChallengeObservation =
  ChallengeObservation_challengeId :: string
  ChallengeObservation_attemptId :: string
  ChallengeObservation_observedAt :: string

datatype GrantRequestStatus = GrantRequestStatus_pending
  | GrantRequestStatus_evaluating
  | GrantRequestStatus_waiting_authority
  | GrantRequestStatus_completed
  | GrantRequestStatus_denied
  | GrantRequestStatus_cancelled

record GrantRequest =
  GrantRequest_requestId :: string
  GrantRequest_workspaceId :: string
  GrantRequest_taskId :: string
  GrantRequest_originTaskId :: string
  GrantRequest_delegationChainDigest :: string
  GrantRequest_challengeId :: string
  GrantRequest_asyncId :: string
  GrantRequest_justification :: string
  GrantRequest_evidenceRefs :: "string list"
  GrantRequest_operationKey :: string
  GrantRequest_status :: GrantRequestStatus
  GrantRequest_createdAt :: string

datatype GrantEvaluationJobStatus = GrantEvaluationJobStatus_pending
  | GrantEvaluationJobStatus_evaluating
  | GrantEvaluationJobStatus_completed
  | GrantEvaluationJobStatus_cancelled
  | GrantEvaluationJobStatus_needs_operator

record GrantEvaluationJob =
  GrantEvaluationJob_jobId :: string
  GrantEvaluationJob_grantRequestId :: string
  GrantEvaluationJob_inputSnapshotRef :: string
  GrantEvaluationJob_inputDigest :: string
  GrantEvaluationJob_profileVersion :: string
  GrantEvaluationJob_outputSchemaVersion :: string
  GrantEvaluationJob_status :: GrantEvaluationJobStatus
  GrantEvaluationJob_attempt :: rat
  GrantEvaluationJob_leaseOwner :: "string option"
  GrantEvaluationJob_leaseExpiresAt :: "string option"
  GrantEvaluationJob_invocationDeadlineAt :: string
  GrantEvaluationJob_lastErrorRef :: "string option"

datatype GrantDecisionDecision = GrantDecisionDecision_grant | GrantDecisionDecision_deny | GrantDecisionDecision_require_authority

record GrantDecision =
  GrantDecision_decision :: GrantDecisionDecision
  GrantDecision_rationale :: string
  GrantDecision_question :: "string option"
  GrantDecision_evidenceRefs :: "string list"

record GrantDecisionRecord =
  GrantDecisionRecord_decisionId :: string
  GrantDecisionRecord_grantRequestId :: string
  GrantDecisionRecord_evaluationJobId :: string
  GrantDecisionRecord_inputDigest :: string
  GrantDecisionRecord_profileVersion :: string
  GrantDecisionRecord_outputSchemaVersion :: string
  GrantDecisionRecord_decision :: GrantDecision
  GrantDecisionRecord_decidedAt :: string

datatype GrantAuthorityRequestStatus = GrantAuthorityRequestStatus_pending
  | GrantAuthorityRequestStatus_approved
  | GrantAuthorityRequestStatus_denied
  | GrantAuthorityRequestStatus_expired
  | GrantAuthorityRequestStatus_cancelled

record GrantAuthorityRequest =
  GrantAuthorityRequest_authorityRequestId :: string
  GrantAuthorityRequest_grantRequestId :: string
  GrantAuthorityRequest_grantDecisionId :: string
  GrantAuthorityRequest_challengeId :: string
  GrantAuthorityRequest_bindingDigest :: string
  GrantAuthorityRequest_authorityRef :: string
  GrantAuthorityRequest_status :: GrantAuthorityRequestStatus
  GrantAuthorityRequest_createdAt :: string
  GrantAuthorityRequest_expiresAt :: string

datatype GrantAuthorityDecisionDecision = GrantAuthorityDecisionDecision_approve | GrantAuthorityDecisionDecision_deny

record GrantAuthorityDecision =
  GrantAuthorityDecision_authorityDecisionId :: string
  GrantAuthorityDecision_authorityRequestId :: string
  GrantAuthorityDecision_responderPrincipal :: string
  GrantAuthorityDecision_decision :: GrantAuthorityDecisionDecision
  GrantAuthorityDecision_rationale :: string
  GrantAuthorityDecision_decidedAt :: string

datatype PolicyGrantStatus = PolicyGrantStatus_pending_activation | PolicyGrantStatus_active | PolicyGrantStatus_revoked

record PolicyGrant =
  PolicyGrant_grantId :: string
  PolicyGrant_workspaceId :: string
  PolicyGrant_sourceTaskId :: string
  PolicyGrant_originTaskId :: string
  PolicyGrant_delegationChainDigest :: string
  PolicyGrant_contractVersion :: rat
  PolicyGrant_sourceChallengeId :: string
  PolicyGrant_sourceGrantRequestId :: string
  PolicyGrant_sourceGrantDecisionId :: string
  PolicyGrant_sourceAuthorityDecisionId :: "string option"
  PolicyGrant_bindingDigest :: string
  PolicyGrant_protocol :: EgressProtocol
  PolicyGrant_resolvedIp :: "string option"
  PolicyGrant_port :: rat
  PolicyGrant_credentialScope :: "string option"
  PolicyGrant_maxUses :: unit
  PolicyGrant_connectionLimit :: rat
  PolicyGrant_byteLimit :: "rat option"
  PolicyGrant_policyVersion :: rat
  PolicyGrant_status :: PolicyGrantStatus
  PolicyGrant_useCount :: rat
  PolicyGrant_createdAt :: string
  PolicyGrant_expiresAt :: string
  PolicyGrant_revokedAt :: "string option"

datatype EgressReviewJobSelectionReason = EgressReviewJobSelectionReason_high_risk
  | EgressReviewJobSelectionReason_anomaly
  | EgressReviewJobSelectionReason_random_sample
  | EgressReviewJobSelectionReason_incident_replay

datatype EgressReviewJobStatus = EgressReviewJobStatus_pending
  | EgressReviewJobStatus_reviewing
  | EgressReviewJobStatus_completed
  | EgressReviewJobStatus_needs_operator

record EgressReviewJob =
  EgressReviewJob_reviewJobId :: string
  EgressReviewJob_watermark :: string
  EgressReviewJob_selectionReason :: EgressReviewJobSelectionReason
  EgressReviewJob_inputSnapshotRef :: string
  EgressReviewJob_inputDigest :: string
  EgressReviewJob_profileVersion :: string
  EgressReviewJob_outputSchemaVersion :: string
  EgressReviewJob_status :: EgressReviewJobStatus
  EgressReviewJob_attempt :: rat
  EgressReviewJob_leaseOwner :: "string option"
  EgressReviewJob_leaseExpiresAt :: "string option"
  EgressReviewJob_reviewDeadlineAt :: string
  EgressReviewJob_capturePinRef :: string
  EgressReviewJob_lastErrorRef :: "string option"
  EgressReviewJob_createdAt :: string

datatype EgressFindingVerdict = EgressFindingVerdict_benign
  | EgressFindingVerdict_policy_bypass
  | EgressFindingVerdict_suspicious
  | EgressFindingVerdict_insufficient_evidence

datatype EgressFindingSeverity = EgressFindingSeverity_low
  | EgressFindingSeverity_medium
  | EgressFindingSeverity_high
  | EgressFindingSeverity_critical

record EgressFinding =
  EgressFinding_findingId :: string
  EgressFinding_reviewJobId :: string
  EgressFinding_attemptIds :: "string list"
  EgressFinding_verdict :: EgressFindingVerdict
  EgressFinding_severity :: EgressFindingSeverity
  EgressFinding_rationale :: string
  EgressFinding_evidenceRefs :: "string list"
  EgressFinding_createdAt :: string

datatype PolicyRevisionStatus = PolicyRevisionStatus_pending_activation
  | PolicyRevisionStatus_active
  | PolicyRevisionStatus_superseded
  | PolicyRevisionStatus_cancelled

record PolicyRevision =
  PolicyRevision_revisionId :: string
  PolicyRevision_workspaceId :: "string option"
  PolicyRevision_targetPolicyKey :: string
  PolicyRevision_sourceProposalId :: string
  PolicyRevision_sourceAuthorityDecisionId :: "string option"
  PolicyRevision_basePolicyVersion :: rat
  PolicyRevision_previousPolicyVersion :: rat
  PolicyRevision_newPolicyVersion :: rat
  PolicyRevision_targetPolicyRef :: string
  PolicyRevision_targetPolicyDigest :: string
  PolicyRevision_promptProfileVersion :: string
  PolicyRevision_regressionEvidenceRefs :: "string list"
  PolicyRevision_approvedBy :: string
  PolicyRevision_status :: PolicyRevisionStatus
  PolicyRevision_activationAckRef :: "string option"
  PolicyRevision_createdAt :: string
  PolicyRevision_activatedAt :: "string option"

datatype PolicyRevisionJobStatus = PolicyRevisionJobStatus_pending
  | PolicyRevisionJobStatus_reviewing
  | PolicyRevisionJobStatus_completed
  | PolicyRevisionJobStatus_cancelled
  | PolicyRevisionJobStatus_needs_operator

record PolicyRevisionJob =
  PolicyRevisionJob_jobId :: string
  PolicyRevisionJob_workspaceId :: "string option"
  PolicyRevisionJob_targetPolicyKey :: string
  PolicyRevisionJob_inputSnapshotRef :: string
  PolicyRevisionJob_inputDigest :: string
  PolicyRevisionJob_candidatePolicyRef :: "string option"
  PolicyRevisionJob_candidatePolicyDigest :: "string option"
  PolicyRevisionJob_basePolicyVersion :: "rat option"
  PolicyRevisionJob_candidateFixedAt :: "string option"
  PolicyRevisionJob_profileVersion :: string
  PolicyRevisionJob_outputSchemaVersion :: string
  PolicyRevisionJob_status :: PolicyRevisionJobStatus
  PolicyRevisionJob_attempt :: rat
  PolicyRevisionJob_leaseOwner :: "string option"
  PolicyRevisionJob_leaseExpiresAt :: "string option"
  PolicyRevisionJob_invocationDeadlineAt :: string
  PolicyRevisionJob_lastErrorRef :: "string option"

datatype PolicyRevisionProposalApplicationStatus = PolicyRevisionProposalApplicationStatus_pending
  | PolicyRevisionProposalApplicationStatus_waiting_authority
  | PolicyRevisionProposalApplicationStatus_ready
  | PolicyRevisionProposalApplicationStatus_stale
  | PolicyRevisionProposalApplicationStatus_applied
  | PolicyRevisionProposalApplicationStatus_denied
  | PolicyRevisionProposalApplicationStatus_expired

record PolicyRevisionProposal =
  PolicyRevisionProposal_proposalId :: string
  PolicyRevisionProposal_jobId :: string
  PolicyRevisionProposal_workspaceId :: "string option"
  PolicyRevisionProposal_targetPolicyKey :: string
  PolicyRevisionProposal_candidatePolicyRef :: "string option"
  PolicyRevisionProposal_candidatePolicyDigest :: "string option"
  PolicyRevisionProposal_basePolicyVersion :: rat
  PolicyRevisionProposal_regressionEvidenceRefs :: "string list"
  PolicyRevisionProposal_decision :: PolicyRevisionDecision
  PolicyRevisionProposal_applicationStatus :: PolicyRevisionProposalApplicationStatus
  PolicyRevisionProposal_createdAt :: string

record PolicyRevisionJobFinding =
  PolicyRevisionJobFinding_jobId :: string
  PolicyRevisionJobFinding_findingId :: string

record PolicyRevisionAuthorityRequest =
  PolicyRevisionAuthorityRequest_authorityRequestId :: string
  PolicyRevisionAuthorityRequest_proposalId :: string
  PolicyRevisionAuthorityRequest_candidatePolicyDigest :: string
  PolicyRevisionAuthorityRequest_workspaceId :: "string option"
  PolicyRevisionAuthorityRequest_targetPolicyKey :: string
  PolicyRevisionAuthorityRequest_basePolicyVersion :: rat
  PolicyRevisionAuthorityRequest_authorityRef :: string
  PolicyRevisionAuthorityRequest_status :: GrantAuthorityRequestStatus
  PolicyRevisionAuthorityRequest_createdAt :: string
  PolicyRevisionAuthorityRequest_expiresAt :: string

record PolicyRevisionAuthorityDecision =
  PolicyRevisionAuthorityDecision_authorityDecisionId :: string
  PolicyRevisionAuthorityDecision_authorityRequestId :: string
  PolicyRevisionAuthorityDecision_responderPrincipal :: string
  PolicyRevisionAuthorityDecision_decision :: GrantAuthorityDecisionDecision
  PolicyRevisionAuthorityDecision_rationale :: string
  PolicyRevisionAuthorityDecision_decidedAt :: string

record DnsResolution =
  DnsResolution_resolutionId :: string
  DnsResolution_workspaceId :: string
  DnsResolution_taskId :: string
  DnsResolution_fqdn :: string
  DnsResolution_resolvedIps :: "string list"
  DnsResolution_ttlSeconds :: rat
  DnsResolution_observedAt :: string

datatype OutboundTransactionStatus = OutboundTransactionStatus_intent_committed
  | OutboundTransactionStatus_forwarded
  | OutboundTransactionStatus_completed
  | OutboundTransactionStatus_failed
  | OutboundTransactionStatus_outcome_unknown

record OutboundTransaction =
  OutboundTransaction_transactionId :: string
  OutboundTransaction_attemptId :: string
  OutboundTransaction_workspaceId :: string
  OutboundTransaction_taskId :: string
  OutboundTransaction_grantId :: "string option"
  OutboundTransaction_requestBindingDigest :: string
  OutboundTransaction_outerRequestDigest :: string
  OutboundTransaction_responseDigest :: "string option"
  OutboundTransaction_status :: OutboundTransactionStatus
  OutboundTransaction_startedAt :: string
  OutboundTransaction_completedAt :: "string option"

datatype WorkspaceSecurityPolicyBindingStatus = WorkspaceSecurityPolicyBindingStatus_active
  | WorkspaceSecurityPolicyBindingStatus_frozen
  | WorkspaceSecurityPolicyBindingStatus_retired

record WorkspaceSecurityPolicyBinding =
  WorkspaceSecurityPolicyBinding_workspaceId :: string
  WorkspaceSecurityPolicyBinding_profileRef :: string
  WorkspaceSecurityPolicyBinding_baselinePolicyVersion :: rat
  WorkspaceSecurityPolicyBinding_pendingRevisionId :: "string option"
  WorkspaceSecurityPolicyBinding_pendingPolicyVersion :: "rat option"
  WorkspaceSecurityPolicyBinding_status :: WorkspaceSecurityPolicyBindingStatus
  WorkspaceSecurityPolicyBinding_version :: rat
  WorkspaceSecurityPolicyBinding_updatedAt :: string

record GlobalSecurityPolicyBinding =
  GlobalSecurityPolicyBinding_targetPolicyKey :: string
  GlobalSecurityPolicyBinding_profileRef :: string
  GlobalSecurityPolicyBinding_activePolicyVersion :: rat
  GlobalSecurityPolicyBinding_pendingRevisionId :: "string option"
  GlobalSecurityPolicyBinding_pendingPolicyVersion :: "rat option"
  GlobalSecurityPolicyBinding_version :: rat
  GlobalSecurityPolicyBinding_updatedAt :: string

end
