(* ===== verification/Domain_Machines.thy ===== *)
theory Domain_Machines
  imports Domain_Types Domain_Policy Tabletop_Props
begin

text \<open>
  The state machines of scripts/validate-tabletop-scenarios.mjs and the statuses of schemas/domain-types.ts: which
  statuses the machine of a type's entities reaches.
\<close>

text \<open>The literal of a status.\<close>

fun TaskStatus_text :: "TaskStatus \<Rightarrow> string" where
  "TaskStatus_text TaskStatus_ready = ''ready''"
| "TaskStatus_text TaskStatus_running = ''running''"
| "TaskStatus_text TaskStatus_waiting = ''waiting''"
| "TaskStatus_text TaskStatus_suspended = ''suspended''"
| "TaskStatus_text TaskStatus_reviewing_completion = ''reviewing_completion''"
| "TaskStatus_text TaskStatus_completed = ''completed''"
| "TaskStatus_text TaskStatus_cancelled = ''cancelled''"

fun PolicyGrantStatus_text :: "PolicyGrantStatus \<Rightarrow> string" where
  "PolicyGrantStatus_text PolicyGrantStatus_pending_activation = ''pending_activation''"
| "PolicyGrantStatus_text PolicyGrantStatus_active = ''active''"
| "PolicyGrantStatus_text PolicyGrantStatus_revoked = ''revoked''"

fun PolicyRevisionStatus_text :: "PolicyRevisionStatus \<Rightarrow> string" where
  "PolicyRevisionStatus_text PolicyRevisionStatus_pending_activation = ''pending_activation''"
| "PolicyRevisionStatus_text PolicyRevisionStatus_active = ''active''"
| "PolicyRevisionStatus_text PolicyRevisionStatus_superseded = ''superseded''"
| "PolicyRevisionStatus_text PolicyRevisionStatus_cancelled = ''cancelled''"

fun AsyncOperationStatus_text :: "AsyncOperationStatus \<Rightarrow> string" where
  "AsyncOperationStatus_text AsyncOperationStatus_running = ''running''"
| "AsyncOperationStatus_text AsyncOperationStatus_completed = ''completed''"
| "AsyncOperationStatus_text AsyncOperationStatus_failed = ''failed''"
| "AsyncOperationStatus_text AsyncOperationStatus_cancelled = ''cancelled''"

text \<open>Each state a machine reaches is a status of its type.\<close>

definition statuses_of :: "string \<Rightarrow> string set" where
  "statuses_of kind = (
     if kind = ''task'' then range TaskStatus_text - {TaskStatus_text TaskStatus_cancelled}
     else if kind = ''policy-grant'' then range PolicyGrantStatus_text
     else if kind = ''policy-revision'' then range PolicyRevisionStatus_text - {PolicyRevisionStatus_text PolicyRevisionStatus_cancelled}
     else if kind = ''async-operation'' then range AsyncOperationStatus_text
     else UNIV)"

lemma arrow_split:
  assumes "f @ ''->'' @ s = u @ ''->'' @ v" "CHR ''>'' \<notin> set u" "CHR ''>'' \<notin> set v"
  shows "s = v"
proof -
  have none: "filter (\<lambda>c. c = CHR ''>'') u = []" "filter (\<lambda>c. c = CHR ''>'') v = []" using assms(2,3) by (auto simp: filter_empty_conv)
  have "length (filter (\<lambda>c. c = CHR ''>'') (f @ ''->'' @ s)) = 1" unfolding assms(1) by (simp add: none)
  then have "CHR ''>'' \<notin> set f" by (auto simp: filter_empty_conv)
  then have "dropWhile (\<lambda>c. c \<noteq> CHR ''>'') (f @ ''->'' @ s) = CHR ''>'' # s" by (subst dropWhile_append2) auto
  moreover have "dropWhile (\<lambda>c. c \<noteq> CHR ''>'') (u @ ''->'' @ v) = CHR ''>'' # v" using assms(2) by (subst dropWhile_append2) auto
  ultimately show ?thesis using assms(1) by simp
qed

text \<open>The target of a transition as it is written.\<close>

definition target_of :: "string \<Rightarrow> string" where
  "target_of transition = drop 1 (dropWhile (\<lambda>c. c \<noteq> CHR ''>'') transition)"

definition plain_arrow :: "string \<Rightarrow> bool" where
  "plain_arrow transition \<longleftrightarrow> (let u = takeWhile (\<lambda>c. c \<noteq> CHR ''-'') transition in
     transition = u @ ''->'' @ target_of transition \<and> CHR ''>'' \<notin> set u \<and> CHR ''>'' \<notin> set (target_of transition))"

lemma arrows_plain: "list_all (\<lambda>(kind, ts). list_all plain_arrow ts) ALLOWED_TRANSITIONS"
  by code_simp

lemma plain_target:
  assumes "plain_arrow (transition_text f t)"
  shows "js_string t = target_of (transition_text f t)"
proof -
  define u where "u = takeWhile (\<lambda>c. c \<noteq> CHR ''-'') (transition_text f t)"
  have "js_string f @ ''->'' @ js_string t = u @ ''->'' @ target_of (transition_text f t)" "CHR ''>'' \<notin> set u" "CHR ''>'' \<notin> set (target_of (transition_text f t))"
    using assms unfolding plain_arrow_def Let_def u_def [symmetric] by (simp_all add: transition_text_def)
  then show ?thesis by (rule arrow_split)
qed

definition targets :: "string \<Rightarrow> string set" where
  "targets kind = target_of ` set (case map_of ALLOWED_TRANSITIONS kind of None \<Rightarrow> [] | Some ts \<Rightarrow> ts)"

lemma legal_target:
  assumes "legal (JStr kind) f t" "kind \<in> set (map fst ALLOWED_TRANSITIONS)"
  shows "js_string t \<in> targets kind"
proof -
  from assms(2) obtain ts where ts: "map_of ALLOWED_TRANSITIONS kind = Some ts" by (metis map_of_eq_None_iff option.exhaust set_map)
  then have "transition_text f t \<in> set ts" using assms(1) by (simp add: legal_def allowed_for_kind_def)
  moreover have "list_all plain_arrow ts" using arrows_plain map_of_SomeD [OF ts] by (auto simp: list_all_iff)
  ultimately show ?thesis using plain_target [of f t] ts by (auto simp: targets_def list_all_iff)
qed

text \<open>What the machines reach: every status but that of a cancelled Task or revision.\<close>

lemma status_ranges:
  "range TaskStatus_text = {''ready'', ''running'', ''waiting'', ''suspended'', ''reviewing_completion'', ''completed'', ''cancelled''}"
  "range PolicyGrantStatus_text = {''pending_activation'', ''active'', ''revoked''}"
  "range PolicyRevisionStatus_text = {''pending_activation'', ''active'', ''superseded'', ''cancelled''}"
  "range AsyncOperationStatus_text = {''running'', ''completed'', ''failed'', ''cancelled''}"
proof -
  have U: "(UNIV :: TaskStatus set) = {TaskStatus_ready, TaskStatus_running, TaskStatus_waiting, TaskStatus_suspended, TaskStatus_reviewing_completion, TaskStatus_completed, TaskStatus_cancelled}"
    "(UNIV :: PolicyGrantStatus set) = {PolicyGrantStatus_pending_activation, PolicyGrantStatus_active, PolicyGrantStatus_revoked}"
    "(UNIV :: PolicyRevisionStatus set) = {PolicyRevisionStatus_pending_activation, PolicyRevisionStatus_active, PolicyRevisionStatus_superseded, PolicyRevisionStatus_cancelled}"
    "(UNIV :: AsyncOperationStatus set) = {AsyncOperationStatus_running, AsyncOperationStatus_completed, AsyncOperationStatus_failed, AsyncOperationStatus_cancelled}"
    using TaskStatus.exhaust PolicyGrantStatus.exhaust PolicyRevisionStatus.exhaust AsyncOperationStatus.exhaust by blast+
  show "range TaskStatus_text = {''ready'', ''running'', ''waiting'', ''suspended'', ''reviewing_completion'', ''completed'', ''cancelled''}"
    "range PolicyGrantStatus_text = {''pending_activation'', ''active'', ''revoked''}"
    "range PolicyRevisionStatus_text = {''pending_activation'', ''active'', ''superseded'', ''cancelled''}"
    "range AsyncOperationStatus_text = {''running'', ''completed'', ''failed'', ''cancelled''}"
    unfolding U by simp_all
qed

lemma target_sets:
  "targets ''task'' = {''ready'', ''running'', ''waiting'', ''suspended'', ''reviewing_completion'', ''completed''}"
  "targets ''policy-grant'' = {''pending_activation'', ''active'', ''revoked''}"
  "targets ''policy-revision'' = {''pending_activation'', ''active'', ''superseded''}"
  "targets ''async-operation'' = {''running'', ''completed'', ''failed'', ''cancelled''}"
  "targets ''episode-job'' = {''running'', ''completed''}"
  by (auto simp: targets_def ALLOWED_TRANSITIONS_def target_of_def)

text \<open>What the machines reach: every status but that of a cancelled Task or revision.\<close>

lemma targets_are_statuses: "kind \<in> {''task'', ''policy-grant'', ''policy-revision'', ''async-operation''} \<Longrightarrow> targets kind = statuses_of kind"
  by (auto simp: statuses_of_def target_sets status_ranges)

lemma legal_status:
  assumes "legal (JStr kind) f t" "kind \<in> {''task'', ''policy-grant'', ''policy-revision'', ''async-operation''}"
  shows "js_string t \<in> statuses_of kind"
proof -
  have "kind \<in> set (map fst ALLOWED_TRANSITIONS)" using assms(2) by (auto simp: ALLOWED_TRANSITIONS_def)
  from legal_target [OF assms(1) this] targets_are_statuses [OF assms(2)] show ?thesis by simp
qed

lemma path_statuses:
  assumes "path s ms s'"
  shows "\<forall>(k, from_state, to_state) \<in> set ms. \<forall>kind \<in> {''task'', ''policy-grant'', ''policy-revision'', ''async-operation''}.
     k = JStr kind \<longrightarrow> js_string to_state \<in> statuses_of kind"
proof (intro ballI, clarify)
  fix k f t kind assume "(JStr kind, f, t) \<in> set ms" "kind \<in> {''task'', ''policy-grant'', ''policy-revision'', ''async-operation''}"
  then show "js_string t \<in> statuses_of kind" using legal_status path_legal [OF assms] by force
qed

end
