(* ===== verification/Tabletop_Theorems.thy ===== *)
theory Tabletop_Theorems
  imports Tabletop_Demo Domain_Machines
begin

text \<open>
  The properties of scripts/validate-tabletop-scenarios.mjs, each with documents at which it applies.
\<close>






text \<open>C23: The schema check ends: for a schema without references its result does not depend on the depth once that
  exceeds the weight of the schema, and it never runs out of stack.\<close>

theorem schema_check_returns:
  assumes "regex_calm b" "ref_free schema" "weight schema < n" "n \<le> m"
  shows "validate m b v schema baseFile location quiet = validate n b v schema baseFile location quiet
     \<and> snd (validate n b v schema baseFile location quiet) \<noteq> Inl stack_overflow"
proof -
  have "calm (validate n b v schema baseFile location quiet)"
    using assms(1) by (rule validate_calm) (use assms(2,3) in \<open>simp add: small_def\<close>)
  then have calm: "snd (validate n b v schema baseFile location quiet) \<noteq> Inl stack_overflow" unfolding calm_def .
  from validate_deeper [OF calm assms(4)] calm show ?thesis by (rule conjI)
qed

theorem schema_check_returns_witness:
  "validate 50 (demo_bench []) (JObj []) demo_schema [] ''$'' False = validate 20 (demo_bench []) (JObj []) demo_schema [] ''$'' False
   \<and> snd (validate 20 (demo_bench []) (JObj []) demo_schema [] ''$'' False) \<noteq> Inl stack_overflow"
  by (rule schema_check_returns) (simp_all add: demo_schema_def regex_calm_def demo_bench_def stack_overflow_def)

end
