(* ===== verification/Migrate.thy ===== *)
theory Migrate
  imports Publication Json_Schema
begin

text \<open>
  The migration of the operations data (scripts/task/migrate-operations.mjs): the manifest of the files to move,
  their copy and verification, and the quarantine of the source repository.  A buffer is the list of its bytes.
  The order of \<open>localeCompare\<close> is the field \<open>mg_le\<close> of the request.
\<close>

section \<open>Constants and helpers\<close>

definition BASELINE_REF :: string where
  "BASELINE_REF = ''d030db5dc2974056387616d047197823b94602ce''"

definition MIGRATED_TASK :: string where
  "MIGRATED_TASK = ''TASK-0033''"

definition MANIFEST_PATH :: string where
  "MANIFEST_PATH = ''tasks/TASK-0033-unify-work-repository/BOOTSTRAP_MANIFEST.json''"

definition in_baseline :: "string \<Rightarrow> bool" where
  "in_baseline file \<longleftrightarrow> file \<in> {''backlog.yaml'', ''viewer/index.html''} \<or> list_ex (starts_with file) [''tasks/'', ''wiki/'', ''lap30/'']"

text \<open>A buffer is truthy even when it is empty, so the error is always what the process wrote to stderr.\<close>

definition runGit_status :: "string \<Rightarrow> string list \<Rightarrow> bool \<Rightarrow> (int option \<times> string) io" where
  "runGit_status rootdir argv allowFailure = bindI (spawn ''git'' argv rootdir []) (\<lambda>(status, out, err).
     if status \<noteq> Some 0 \<and> \<not> allowFailure then Throw (Err (js_trim err) []) else Ret (status, out))"

definition runGit :: "string \<Rightarrow> string list \<Rightarrow> string io" where
  "runGit rootdir argv = bindI (runGit_status rootdir argv False) (\<lambda>(status, out). Ret out)"

definition runGit_text :: "string \<Rightarrow> string list \<Rightarrow> string io" where
  "runGit_text rootdir argv = bindI (runGit rootdir argv) (\<lambda>out. Ret (js_trim out))"

definition sourceFiles :: "string \<Rightarrow> string \<Rightarrow> string list io" where
  "sourceFiles source ref = bindI (runGit source [''ls-tree'', ''-r'', ''--name-only'', ''-z'', ref]) (\<lambda>out.
     Ret (filter in_baseline (filter (\<lambda>f. f \<noteq> []) (split_char nul out))))"

definition readRefFile :: "string \<Rightarrow> string \<Rightarrow> string \<Rightarrow> string io" where
  "readRefFile source ref file = runGit source [''show'', ref @ '':'' @ file]"

text \<open>The files below a directory; a symbolic link is refused.\<close>

primrec visit_files :: "nat \<Rightarrow> string \<Rightarrow> string \<Rightarrow> string list io" where
  "visit_files 0 rootdir absolute = Throw stack_error"
| "visit_files (Suc n) rootdir absolute = bindI (read_dir absolute) (\<lambda>entries.
     bindI (map_I (\<lambda>(name, kind). let target = path_join absolute name in
       case kind of
         LinkEntry \<Rightarrow> Throw (Err ''Migration refuses symlink'' [JStr (path_relative rootdir target)])
       | DirEntry \<Rightarrow> visit_files n rootdir target
       | FileEntry \<Rightarrow> Ret [path_relative rootdir target]
       | OtherEntry \<Rightarrow> Ret []) entries) (\<lambda>files. Ret (concat files)))"

definition listFiles :: "host \<Rightarrow> string \<Rightarrow> jsval \<Rightarrow> string list io" where
  "listFiles h rootdir relative =
     bindI (liftI (resolveInside rootdir relative ''overlay path'')) (\<lambda>start.
     bindI (exists_path start) (\<lambda>there.
     bindI (throw_ifI (\<not> there) (Err ''Missing overlay path'' [relative])) (\<lambda>_.
     bindI (visit_files (h_stack h) rootdir start) (\<lambda>files. Ret (sort files)))))"

definition taskDirFor :: "jsval \<Rightarrow> string \<Rightarrow> jsval res" where
  "taskDirFor backlog taskId =
     bindR (backlog_tasks backlog) (\<lambda>tasks.
     bindR (filter_R (\<lambda>task. js_field task ''id'' = JStr taskId) tasks) (\<lambda>found.
     case found of [task] \<Rightarrow> Inr (js_field task ''task_dir'') | _ \<Rightarrow> Inl (Err ''Expected exactly one in source backlog'' [JStr taskId])))"

definition assertOverlay :: "jsval \<Rightarrow> jsval \<Rightarrow> unit res" where
  "assertOverlay backlogAtRef currentBacklog =
     bindR (backlog_tasks backlogAtRef) (\<lambda>baseline.
     bindR (backlog_tasks currentBacklog) (\<lambda>current.
     bindR (throw_if (length baseline \<noteq> 32) (Err ''REF-2 must contain 32 tasks'' [JNum (of_nat (length baseline))])) (\<lambda>_.
     bindR (throw_if (length current \<noteq> 33) (Err ''Current source must contain 32 historical tasks plus'' [JStr MIGRATED_TASK])) (\<lambda>_.
     bindR (throw_if (\<not> deepEqual (JArr (take 32 current)) (JArr baseline)) (Err ''Historical backlog entries differ from REF-2; migration is append-only'' [])) (\<lambda>_.
     throw_if (case item current 32 of None \<Rightarrow> True | Some t \<Rightarrow> js_opt t ''id'' \<noteq> JStr MIGRATED_TASK)
       (Err ''must be the only backlog overlay'' [JStr MIGRATED_TASK]))))))"

section \<open>The manifest\<close>

record migration =
  mg_source :: string
  mg_target :: string
  mg_ref :: string
  mg_le :: "string \<Rightarrow> string \<Rightarrow> bool"

record entry =
  en_file :: string
  en_origin :: string
  en_content :: string

text \<open>A stable sort by a comparison of keys.\<close>

fun insert_by :: "(string \<Rightarrow> string \<Rightarrow> bool) \<Rightarrow> entry \<Rightarrow> entry list \<Rightarrow> entry list" where
  "insert_by le x [] = [x]"
| "insert_by le x (y # ys) = (if le (en_file x) (en_file y) then x # y # ys else y # insert_by le x ys)"

definition sort_entries :: "(string \<Rightarrow> string \<Rightarrow> bool) \<Rightarrow> entry list \<Rightarrow> entry list" where
  "sort_entries le xs = foldr (insert_by le) xs []"

definition entry_record :: "host \<Rightarrow> entry \<Rightarrow> jsval" where
  "entry_record h e = JObj [(''file'', JStr (en_file e)), (''origin'', JStr (en_origin e)),
     (''bytes'', JNum (of_nat (length (en_content e)))), (''sha256'', JStr (h_sha256 h (en_content e)))]"

definition count_under :: "string \<Rightarrow> entry list \<Rightarrow> jsval" where
  "count_under p entries = JNum (of_nat (length (filter (\<lambda>e. starts_with (en_file e) p) entries)))"

definition category_counts :: "jsval \<Rightarrow> entry list \<Rightarrow> jsval" where
  "category_counts baselineBacklog entries = JObj [
     (''historical_tasks'', JNum (of_nat (length (arr_items (js_field baselineBacklog ''tasks''))))), (''current_tasks'', JNum 1),
     (''task_files'', count_under ''tasks/'' entries), (''wiki_files'', count_under ''wiki/'' entries), (''lap30_files'', count_under ''lap30/'' entries)]"

definition manifest_body :: "host \<Rightarrow> migration \<Rightarrow> string \<Rightarrow> jsval \<Rightarrow> string \<Rightarrow> entry list \<Rightarrow> (string \<times> jsval) list" where
  "manifest_body h m tree baselineBacklog projectBytes entries = [(''version'', JNum 1), (''task_id'', JStr MIGRATED_TASK),
     (''source_ref'', JStr (mg_ref m)), (''source_tree'', JStr tree), (''target_repository'', JStr (path_basename (mg_target m))),
     (''project_sha256'', JStr (h_sha256 h projectBytes)), (''category_counts'', category_counts baselineBacklog entries),
     (''entries'', JArr (map (entry_record h) entries))]"

definition bootstrap_digest :: "host \<Rightarrow> (string \<times> jsval) list \<Rightarrow> string" where
  "bootstrap_digest h body = h_sha256 h (h_json_text h (JObj body) @ [newline])"

definition project_bytes :: "host \<Rightarrow> string \<Rightarrow> string io" where
  "project_bytes h target = (let file = path_join target ''project.yaml'' in
     bindI (exists_path file) (\<lambda>there. read_file (if there then file else path_join (h_repo_root h) ''project.yaml'')))"

definition duplicate_files :: "string list \<Rightarrow> string list" where
  "duplicate_files files = map snd (filter (\<lambda>(i, f). f \<in> set (take i files)) (enumerate 0 files))"

definition collect_entries :: "migration \<Rightarrow> string list \<Rightarrow> string list \<Rightarrow> entry list io" where
  "collect_entries m baselinePaths overlayPaths =
     bindI (map_I (\<lambda>file. bindI (readRefFile (mg_source m) (mg_ref m) file) (\<lambda>content.
       Ret \<lparr>en_file = file, en_origin = ''REF-2'', en_content = content\<rparr>)) baselinePaths) (\<lambda>baseline.
     bindI (map_I (\<lambda>file. bindI (bindI (liftI (resolveInside (mg_source m) (JStr file) ''path'')) read_file) (\<lambda>content.
       Ret \<lparr>en_file = file, en_origin = (if file = ''backlog.yaml'' then ''TASK-0033-overlay'' else ''TASK-0033-evidence''), en_content = content\<rparr>)) overlayPaths) (\<lambda>overlay.
     Ret (sort_entries (mg_le m) (baseline @ overlay))))"

definition buildManifest :: "host \<Rightarrow> migration \<Rightarrow> (entry list \<times> string \<times> (string \<times> jsval) list) io" where
  "buildManifest h m = (let source = mg_source m in
     bindI (runGit_text source [''rev-parse'', mg_ref m @ ''^{commit}'']) (\<lambda>resolvedRef.
     bindI (throw_ifI (resolvedRef \<noteq> mg_ref m) (Err ''Source ref mismatch'' [JStr (mg_ref m), JStr resolvedRef])) (\<lambda>_.
     bindI (readRefFile source (mg_ref m) ''backlog.yaml'') (\<lambda>baselineBytes.
     bindI (liftI (h_yaml h baselineBytes)) (\<lambda>baselineBacklog.
     bindI (read_file (path_join source ''backlog.yaml'')) (\<lambda>currentBytes.
     bindI (liftI (h_yaml h currentBytes)) (\<lambda>currentBacklog.
     bindI (liftI (assertOverlay baselineBacklog currentBacklog)) (\<lambda>_.
     bindI (liftI (taskDirFor currentBacklog MIGRATED_TASK)) (\<lambda>taskDir.
     bindI (sourceFiles source (mg_ref m)) (\<lambda>files.
     bindI (listFiles h source taskDir) (\<lambda>overlay.
     bindI (collect_entries m (filter (\<lambda>f. f \<noteq> ''backlog.yaml'') files) (''backlog.yaml'' # overlay)) (\<lambda>entries.
     bindI (throw_ifI (duplicate_files (map en_file entries) \<noteq> []) (Err ''Duplicate migration paths'' (map JStr (duplicate_files (map en_file entries))))) (\<lambda>_.
     bindI (project_bytes h (mg_target m)) (\<lambda>projectBytes.
     bindI (runGit_text source [''rev-parse'', mg_ref m @ ''^{tree}'']) (\<lambda>tree.
     let body = manifest_body h m tree baselineBacklog projectBytes entries in
     Ret (entries, projectBytes, body @ [(''manifest_sha256'', JStr (bootstrap_digest h body))]))))))))))))))))"

section \<open>The copy and its verification\<close>

definition writeEntry :: "host \<Rightarrow> string \<Rightarrow> entry \<Rightarrow> unit io" where
  "writeEntry h target e =
     bindI (liftI (resolveInside target (JStr (en_file e)) ''migration target'')) (\<lambda>output.
     bindI (make_dir (path_dirname output) True) (\<lambda>_.
     bindI (exists_path output) (\<lambda>there.
     bindI (if \<not> there then Ret () else bindI (read_file output) (\<lambda>content.
       throw_ifI (h_sha256 h content \<noteq> h_sha256 h (en_content e)) (Err ''Refusing to overwrite non-identical target'' [JStr (en_file e)]))) (\<lambda>_.
     bindI (exists_path output) (\<lambda>there.
     if there then Ret () else write_file output (en_content e))))))"

definition read_target :: "string \<Rightarrow> jsval \<Rightarrow> string io" where
  "read_target target file = bindI (liftI (resolveInside target file ''manifest entry'')) read_file"

definition read_commit :: "string \<Rightarrow> jsval \<Rightarrow> jsval \<Rightarrow> string io" where
  "read_commit target commit file = runGit target [''show'', js_string commit @ '':'' @ js_string file]"

text \<open>One entry: its message, if any.  An entry that is \<open>null\<close> throws again in the handler.\<close>

definition verify_entry :: "host \<Rightarrow> (jsval \<Rightarrow> string io) \<Rightarrow> jsval \<Rightarrow> js_error list io" where
  "verify_entry h readEntry e =
     bindI (tryI (bindI (liftI (js_get e ''file'')) readEntry)) (\<lambda>r. case r of
       Inl _ \<Rightarrow> bindI (liftI (js_get e ''file'')) (\<lambda>file. Ret [Err ''missing'' [file]])
     | Inr content \<Rightarrow>
         if \<not> js_seq (JNum (of_nat (length content))) (js_field e ''bytes'') \<or> \<not> js_seq (JStr (h_sha256 h content)) (js_field e ''sha256'')
         then Ret [Err ''digest mismatch'' [js_field e ''file'']] else Ret [])"

definition verify_project :: "host \<Rightarrow> (jsval \<Rightarrow> string io) \<Rightarrow> jsval \<Rightarrow> js_error list io" where
  "verify_project h readEntry manifest =
     bindI (tryI (readEntry (JStr ''project.yaml''))) (\<lambda>r. case r of
       Inl _ \<Rightarrow> Ret [Err ''missing project.yaml'' []]
     | Inr content \<Rightarrow> Ret (if js_seq (JStr (h_sha256 h content)) (js_field manifest ''project_sha256'') then [] else [Err ''project.yaml digest mismatch'' []]))"

definition self_digest_errors :: "host \<Rightarrow> jsval \<Rightarrow> js_error list" where
  "self_digest_errors h manifest = (let body = filter (\<lambda>e. fst e \<noteq> ''manifest_sha256'') (js_entries manifest) in
     if js_seq (JStr (bootstrap_digest h body)) (js_field manifest ''manifest_sha256'') then [] else [Err ''manifest self-digest mismatch'' []])"

definition count_errors :: "jsval \<Rightarrow> js_error list" where
  "count_errors manifest = (let counts = js_field manifest ''category_counts'' in
     if \<not> js_seq (js_opt counts ''historical_tasks'') (JNum 32) \<or> \<not> js_seq (js_opt counts ''current_tasks'') (JNum 1)
     then [Err ''task count mismatch'' []] else [])"

definition verify :: "host \<Rightarrow> (jsval \<Rightarrow> string io) \<Rightarrow> jsval \<Rightarrow> unit io" where
  "verify h readEntry manifest =
     bindI (liftI (js_get manifest ''manifest_sha256'')) (\<lambda>_.
     bindI (liftI (js_iter (js_field manifest ''entries''))) (\<lambda>entries.
     bindI (map_I (verify_entry h readEntry) entries) (\<lambda>errors.
     bindI (verify_project h readEntry manifest) (\<lambda>project.
     let all = self_digest_errors h manifest @ concat errors @ project @ count_errors manifest in
     throw_ifI (all \<noteq> []) (Err ''Bootstrap verification failed'' (map error_value all))))))"

end
