(* ===== verification/Quarantine.thy ===== *)
theory Quarantine
  imports Migrate
begin

text \<open>
  The quarantine of the source repository and the command line of scripts/task/migrate-operations.mjs.
\<close>

section \<open>Freezing and unfreezing\<close>

record quarantine =
  qu_marker :: string
  qu_pending :: string
  qu_git :: string

definition quarantinePaths :: "host \<Rightarrow> string \<Rightarrow> string \<Rightarrow> quarantine io" where
  "quarantinePaths h source target =
     bindI (runGit_text target [''rev-parse'', ''--git-common-dir'']) (\<lambda>common.
     let targetCommon = path_resolve target common; key = take 16 (h_sha256 h (path_resolve (h_cwd h) source)) in
     Ret \<lparr>qu_marker = path_join source ''.agent-harness-evidence-quarantine.json'',
       qu_pending = path_join source ''.agent-harness-evidence-quarantine.pending.json'',
       qu_git = path_join (path_join targetCommon ''agent-harness-quarantine'') (key @ ''.git'')\<rparr>)"

text \<open>\<open>fs.statSync(p).isDirectory()\<close>\<close>

definition stat_directory :: "string \<Rightarrow> bool io" where
  "stat_directory p = Op (IsDir p) (\<lambda>r. case r of RBool x \<Rightarrow> Ret x | RErr code \<Rightarrow> Throw (sys_error code) | _ \<Rightarrow> Throw type_error)"

definition registered_worktree :: "host \<Rightarrow> string list \<Rightarrow> string option io" where
  "registered_worktree h worktrees = (case worktrees of
     [w] \<Rightarrow> bindI (real_path (path_resolve (h_cwd h) (drop 9 w))) (\<lambda>p. Ret (Some p))
   | _ \<Rightarrow> Ret None)"

text \<open>The state of the source the freeze insists on; the result is its head.\<close>

definition check_source :: "host \<Rightarrow> string \<Rightarrow> string \<Rightarrow> jsval \<Rightarrow> string io" where
  "check_source h source gitDir expectedHead =
     bindI (if gitDir \<noteq> path_join source ''.git'' then Ret False else stat_directory gitDir) (\<lambda>standalone.
     bindI (throw_ifI (\<not> standalone) (Err ''Quarantine requires a standalone .git directory'' [])) (\<lambda>_.
     bindI (runGit source [''worktree'', ''list'', ''--porcelain'']) (\<lambda>out.
     let worktrees = filter (\<lambda>l. starts_with l ''worktree '') (split_char newline out);
         bad = Err ''Quarantine requires exactly the source main worktree'' [] in
     bindI (registered_worktree h worktrees) (\<lambda>registered.
     bindI (throw_ifI (length worktrees \<noteq> 1) bad) (\<lambda>_.
     bindI (real_path source) (\<lambda>real.
     bindI (throw_ifI (registered \<noteq> Some real) bad) (\<lambda>_.
     bindI (runGit_text source [''status'', ''--porcelain'']) (\<lambda>status.
     bindI (throw_ifI (status \<noteq> []) (Err ''Quarantine requires a clean source repository'' [])) (\<lambda>_.
     bindI (runGit_text source [''rev-parse'', ''HEAD'']) (\<lambda>head.
     bindI (throw_ifI (\<not> truthy expectedHead \<or> expectedHead \<noteq> JStr head) (Err ''Source HEAD mismatch'' [expectedHead, JStr head])) (\<lambda>_.
     Ret head)))))))))))"

definition read_legacy :: "host \<Rightarrow> string \<Rightarrow> jsval io" where
  "read_legacy h oldMarker = bindI (exists_path oldMarker) (\<lambda>there.
     if there then bindI (read_file oldMarker) (\<lambda>text. liftI (h_json h text)) else Ret JNull)"

definition freeze_state :: "host \<Rightarrow> string \<Rightarrow> string \<Rightarrow> string \<Rightarrow> string \<Rightarrow> jsval \<Rightarrow> jsval \<Rightarrow> string \<Rightarrow> jsval" where
  "freeze_state h source target ref head legacy priorHooks quarantine = JObj [(''version'', JNum 2),
     (''authority'', JStr (path_resolve (h_cwd h) target)), (''source'', JStr (path_resolve (h_cwd h) source)), (''source_ref'', JStr ref),
     (''expected_head'', JStr head), (''quarantine'', JStr quarantine),
     (''prior_hooks_path'', coalesce (js_opt legacy ''prior_hooks_path'') priorHooks),
     (''legacy_frozen_hooks_path'', coalesce (js_opt legacy ''frozen_hooks_path'') JNull)]"

text \<open>The move: the state is on disk before the repository moves, and becomes the marker after it.\<close>

definition move_repository :: "host \<Rightarrow> quarantine \<Rightarrow> string \<Rightarrow> jsval \<Rightarrow> unit io" where
  "move_repository h q gitDir state =
     bindI (exists_path (qu_git q)) (\<lambda>there.
     bindI (throw_ifI there (Err ''Quarantine destination already exists'' [JStr (qu_git q)])) (\<lambda>_.
     bindI (make_dir (path_dirname (qu_git q)) True) (\<lambda>_.
     bindI (writeFileAtomic h (qu_pending q) (h_json_text h state @ [newline])) (\<lambda>_.
     bindI (catchI (rename_file gitDir (qu_git q)) (\<lambda>e. bindI (remove (qu_pending q)) (\<lambda>_. Throw e))) (\<lambda>_.
     bindI (rename_file (qu_pending q) (qu_marker q)) (\<lambda>_.
     print_out (qu_marker q @ [newline])))))))"

definition freezeSource :: "host \<Rightarrow> string \<Rightarrow> string \<Rightarrow> string \<Rightarrow> jsval \<Rightarrow> unit io" where
  "freezeSource h source target ref expectedHead =
     bindI (quarantinePaths h source target) (\<lambda>q.
     bindI (exists_path (qu_marker q)) (\<lambda>marked.
     bindI (if marked then Ret True else exists_path (qu_pending q)) (\<lambda>frozen.
     bindI (throw_ifI frozen (Err ''Source repository is already quarantined'' [])) (\<lambda>_.
     bindI (runGit_text source [''rev-parse'', ''--git-dir'']) (\<lambda>gitDirValue.
     let gitDir = path_resolve source gitDirValue in
     bindI (check_source h source gitDir expectedHead) (\<lambda>head.
     bindI (read_legacy h (path_join gitDir ''agent-harness-evidence-frozen'')) (\<lambda>legacy.
     bindI (throw_ifI (truthy legacy \<and> (js_field legacy ''authority'' \<noteq> JStr (path_resolve (h_cwd h) target) \<or> js_field legacy ''source_ref'' \<noteq> JStr ref))
       (Err ''Legacy freeze authority or source ref mismatch'' [])) (\<lambda>_.
     bindI (runGit_status source [''config'', ''--local'', ''--get'', ''core.hooksPath''] True) (\<lambda>(status, out).
     move_repository h q gitDir
       (freeze_state h source target ref head legacy (if status = Some 0 then JStr (js_trim out) else JNull) (qu_git q)))))))))))"

text \<open>\<open>s.replace(p, r)\<close>: the first occurrence; \<open>r\<close> holds no dollar sign.\<close>

fun replace_first :: "string \<Rightarrow> string \<Rightarrow> string \<Rightarrow> string" where
  "replace_first p r [] = (if p = [] then r else [])"
| "replace_first p r (c # s) = (if starts_with (c # s) p then r @ drop (length p) (c # s) else c # replace_first p r s)"

definition restore_hooks :: "string \<Rightarrow> jsval \<Rightarrow> unit io" where
  "restore_hooks source prior =
     (if truthy prior then bindI (liftI (case prior of JStr p \<Rightarrow> Inr p | _ \<Rightarrow> Inl type_error)) (\<lambda>p.
        bindI (runGit source [''config'', ''--local'', ''core.hooksPath'', p]) (\<lambda>_. Ret ()))
      else bindI (runGit_status source [''config'', ''--local'', ''--unset-all'', ''core.hooksPath''] True) (\<lambda>_. Ret ()))"

definition remove_legacy_hooks :: "string \<Rightarrow> quarantine \<Rightarrow> jsval \<Rightarrow> unit io" where
  "remove_legacy_hooks source q hooks =
     (if truthy hooks then bindI (liftI (case hooks of JStr p \<Rightarrow> Inr p | _ \<Rightarrow> Inl type_error)) (\<lambda>p.
        remove (replace_first (qu_git q) (path_join source ''.git'') p))
      else Ret ())"

text \<open>The part of \<open>unfreezeSource\<close> that brings the repository back.\<close>

definition bring_back :: "string \<Rightarrow> quarantine \<Rightarrow> jsval \<Rightarrow> unit io" where
  "bring_back source q state = (let sourceGit = path_join source ''.git'' in
     bindI (exists_path sourceGit) (\<lambda>here.
     bindI (if here then exists_path (qu_git q) else Ret False) (\<lambda>both.
     bindI (throw_ifI both (Err ''Both source and quarantined Git metadata exist; refusing ambiguous recovery'' [])) (\<lambda>_.
     bindI (exists_path sourceGit) (\<lambda>here.
     if here then Ret () else
       bindI (runGit_text source [''--git-dir'', qu_git q, ''rev-parse'', ''HEAD'']) (\<lambda>head.
       bindI (throw_ifI (js_field state ''expected_head'' \<noteq> JStr head) (Err ''Quarantined source HEAD mismatch'' [])) (\<lambda>_.
       rename_file (qu_git q) sourceGit)))))))"

definition unfreezeSource :: "host \<Rightarrow> string \<Rightarrow> string \<Rightarrow> unit io" where
  "unfreezeSource h source target =
     bindI (quarantinePaths h source target) (\<lambda>q.
     bindI (exists_path (qu_marker q)) (\<lambda>marked.
     let stateFile = (if marked then qu_marker q else qu_pending q) in
     bindI (exists_path stateFile) (\<lambda>there.
     bindI (throw_ifI (\<not> there) (Err ''Source repository is not quarantined'' [])) (\<lambda>_.
     bindI (read_file stateFile) (\<lambda>text.
     bindI (liftI (h_json h text)) (\<lambda>state.
     bindI (liftI (js_get state ''authority'')) (\<lambda>authority.
     bindI (throw_ifI (authority \<noteq> JStr (path_resolve (h_cwd h) target) \<or> js_field state ''source'' \<noteq> JStr (path_resolve (h_cwd h) source)
         \<or> js_field state ''quarantine'' \<noteq> JStr (qu_git q)) (Err ''Quarantine marker mismatch'' [])) (\<lambda>_.
     bindI (bring_back source q state) (\<lambda>_.
     bindI (runGit_text source [''rev-parse'', ''HEAD'']) (\<lambda>head.
     bindI (throw_ifI (js_field state ''expected_head'' \<noteq> JStr head) (Err ''Restored source HEAD mismatch'' [])) (\<lambda>_.
     bindI (restore_hooks source (js_field state ''prior_hooks_path'')) (\<lambda>_.
     bindI (remove (path_join (path_join source ''.git'') ''agent-harness-evidence-frozen'')) (\<lambda>_.
     bindI (remove_legacy_hooks source q (js_field state ''legacy_frozen_hooks_path'')) (\<lambda>_.
     remove stateFile))))))))))))))"

section \<open>The command\<close>

definition apply_manifest :: "host \<Rightarrow> migration \<Rightarrow> args \<Rightarrow> entry list \<Rightarrow> string \<Rightarrow> (string \<times> jsval) list \<Rightarrow> unit io" where
  "apply_manifest h m args entries projectBytes manifest = (let target = mg_target m; projectFile = path_join target ''project.yaml'' in
     bindI (exists_path projectFile) (\<lambda>there.
     bindI (if \<not> there then Ret () else bindI (read_file projectFile) (\<lambda>content.
       throw_ifI (h_sha256 h content \<noteq> h_sha256 h projectBytes) (Err ''Refusing to overwrite non-identical target: project.yaml'' []))) (\<lambda>_.
     bindI (exists_path projectFile) (\<lambda>there.
     bindI (if there then Ret () else write_file projectFile projectBytes) (\<lambda>_.
     bindI (each_I (writeEntry h target) entries) (\<lambda>_.
     bindI (liftI (resolveInside target (JStr (arg_or args ''manifest'' MANIFEST_PATH)) ''manifest'')) (\<lambda>manifestFile.
     bindI (make_dir (path_dirname manifestFile) True) (\<lambda>_.
     bindI (writeFileAtomic h manifestFile (h_json_pretty h (JObj manifest) @ [newline])) (\<lambda>_.
     verify h (read_target target) (JObj manifest))))))))))"

definition verify_mode :: "host \<Rightarrow> migration \<Rightarrow> args \<Rightarrow> jsval io" where
  "verify_mode h m args = (let target = mg_target m; handover = path_join target ''tasks/TASK-0033-unify-work-repository/HANDOVER.md'';
       name = arg_or args ''manifest'' MANIFEST_PATH in
     bindI (exists_path handover) (\<lambda>there.
     bindI (if there then read_frontmatter h handover else Ret (JObj [])) (\<lambda>binding.
     bindI (liftI (js_get binding ''bootstrap_evidence_commit'')) (\<lambda>commit.
     if hex_string 40 (str_or_empty commit) \<and> hex_string 64 (str_or_empty (js_field binding ''bootstrap_evidence_digest'')) then
       bindI (runGit target [''merge-base'', ''--is-ancestor'', js_string commit, ''main'']) (\<lambda>_.
       bindI (read_commit target commit (JStr name)) (\<lambda>text.
       bindI (liftI (h_json h text)) (\<lambda>manifest.
       bindI (liftI (js_get manifest ''manifest_sha256'')) (\<lambda>digest.
       bindI (throw_ifI (\<not> js_seq digest (js_field binding ''bootstrap_evidence_digest'')) (Err ''HANDOVER bootstrap digest does not match the bound manifest'' [])) (\<lambda>_.
       bindI (verify h (read_commit target commit) manifest) (\<lambda>_. Ret manifest))))))
     else
       bindI (liftI (resolveInside target (JStr name) ''manifest'')) (\<lambda>file.
       bindI (read_file file) (\<lambda>text.
       bindI (liftI (h_json h text)) (\<lambda>manifest.
       bindI (verify h (read_target target) manifest) (\<lambda>_. Ret manifest))))))))"

definition migrate_operations :: "host \<Rightarrow> (string \<Rightarrow> string \<Rightarrow> bool) \<Rightarrow> string list \<Rightarrow> unit io" where
  "migrate_operations h le argv =
     bindI (liftI (parseArgs argv)) (\<lambda>args.
     let mode = arg_or args ''mode'' ''plan'' in
     bindI (throw_ifI (\<not> truthy (arg args ''source'') \<and> mode \<noteq> ''verify'') (Err ''--source is required outside verify mode'' [])) (\<lambda>_.
     let m = \<lparr>mg_source = path_resolve (h_cwd h) (arg_or args ''source'' (h_repo_root h)), mg_target = path_resolve (h_cwd h) (arg_or args ''target'' (h_repo_root h)),
         mg_ref = arg_or args ''source_ref'' BASELINE_REF, mg_le = le\<rparr> in
     bindI (throw_ifI (mg_ref m \<noteq> BASELINE_REF \<and> arg args ''fixture'' \<noteq> JStr ''true'') (Err ''Production migration requires REF-2'' [JStr BASELINE_REF])) (\<lambda>_.
     bindI (throw_ifI (mode \<notin> set [''plan'', ''apply'', ''verify'', ''freeze'', ''unfreeze'']) (Err ''--mode must be plan, apply, verify, freeze, or unfreeze'' [])) (\<lambda>_.
     if mode = ''freeze'' then freezeSource h (mg_source m) (mg_target m) (mg_ref m) (arg args ''expected_head'')
     else if mode = ''unfreeze'' then unfreezeSource h (mg_source m) (mg_target m)
     else if mode = ''verify'' then
       bindI (verify_mode h m args) (\<lambda>manifest. print_out (js_string (js_field manifest ''manifest_sha256'') @ [newline]))
     else bindI (buildManifest h m) (\<lambda>(entries, projectBytes, manifest).
       bindI (if mode = ''apply'' then apply_manifest h m args entries projectBytes manifest else Ret ()) (\<lambda>_.
       print_out (h_json_pretty h (JObj manifest) @ [newline])))))))"

end
