(* ===== verification/Migrate_Props.thy ===== *)
theory Migrate_Props
  imports Quarantine Task_Tools_Props
begin

text \<open>
  What the migration guarantees: the manifest it builds verifies, the copy overwrites nothing, and the quarantine
  leaves the state of the source on disk before the repository moves.
\<close>

section \<open>The manifest verifies\<close>

lemma buildManifest_ok:
  assumes "runs (buildManifest h m) es (Inr (entries, projectBytes, manifest))"
  obtains tree backlog where "manifest = manifest_body h m tree backlog projectBytes entries
      @ [(''manifest_sha256'', JStr (bootstrap_digest h (manifest_body h m tree backlog projectBytes entries)))]"
    and "length (arr_items (js_field backlog ''tasks'')) = 32"
proof -
  from assms obtain tree backlog current where b: "manifest = manifest_body h m tree backlog projectBytes entries
      @ [(''manifest_sha256'', JStr (bootstrap_digest h (manifest_body h m tree backlog projectBytes entries)))]"
    "assertOverlay backlog current = Inr ()"
    unfolding buildManifest_def Let_def by - (elim ok_elims, rule that, (assumption | simp)+)
  from b(2) obtain baseline where l: "backlog_tasks backlog = Inr baseline" "length baseline = 32"
    unfolding assertOverlay_def by (auto simp: bindR_Inr_iff split: if_splits)
  then have "arr_items (js_field backlog ''tasks'') = baseline"
    unfolding backlog_tasks_def js_array_def by (auto simp: bindR_Inr_iff split: jsval.splits if_splits)
  then show ?thesis using that b(1) l(2) by simp
qed

text \<open>A reader that answers with the bytes that were collected.\<close>

definition serves :: "(jsval \<Rightarrow> string io) \<Rightarrow> string \<Rightarrow> string \<Rightarrow> bool" where
  "serves readEntry file content \<longleftrightarrow> (\<forall>es out. runs (readEntry (JStr file)) es out \<longrightarrow> out = Inr content)"

lemma verify_entry_served:
  assumes "serves readEntry (en_file e) (en_content e)" "runs (verify_entry h readEntry (entry_record h e)) es out"
  shows "out = Inr []"
proof -
  have named_file: "js_get (entry_record h e) ''file'' = Inr (JStr (en_file e))" by (simp add: entry_record_def)
  from assms(2) show ?thesis
    unfolding verify_entry_def named_file
  proof (cases rule: runs_bind_cases)
    case (goes e1 e2 r)
    then have "runs (readEntry (JStr (en_file e))) e1 r" by (auto simp: liftI_def elim!: runs_tryI)
    then have "r = Inr (en_content e)" using assms(1) by (simp add: serves_def)
    then show ?thesis using goes(3) by (simp add: entry_record_def)
  qed (auto elim: runs_tryI)
qed

lemma verify_entries_served:
  assumes "\<forall>e \<in> set entries. serves readEntry (en_file e) (en_content e)"
    "runs (map_I (verify_entry h readEntry) (map (entry_record h) entries)) es out"
  shows "\<exists>errors. out = Inr errors \<and> concat errors = []"
  using assms
proof (induction entries arbitrary: es out)
  case (Cons e entries)
  have served: "out1 = Inr []" if "runs (verify_entry h readEntry (entry_record h e)) e1 out1" for e1 out1
    using verify_entry_served [OF _ that] Cons.prems(1) by simp
  from Cons.prems(2) [unfolded list.map map_I.simps(2)] show ?case
  proof (cases rule: runs_bind_cases)
    case (fails e')
    then show ?thesis using served by fastforce
  next
    case (goes e1 e2 x)
    from goes(3) show ?thesis
    proof (cases rule: runs_bind_cases)
      case (fails e')
      then show ?thesis using Cons.IH Cons.prems(1) by fastforce
    next
      case (goes e3 e4 ys)
      then show ?thesis using Cons.IH [of e3 "Inr ys"] Cons.prems(1) served [OF \<open>runs (verify_entry _ _ _) _ _\<close>] by auto
    qed
  qed
qed simp

text \<open>A project file and entries that are served make the verification pass.\<close>

lemma verify_project_served:
  assumes "serves readEntry ''project.yaml'' projectBytes" "js_field manifest ''project_sha256'' = JStr (h_sha256 h projectBytes)"
    "runs (verify_project h readEntry manifest) es out"
  shows "out = Inr []"
  using assms(3) unfolding verify_project_def
proof (cases rule: runs_bind_cases)
  case (goes e1 e2 r)
  then have "runs (readEntry (JStr ''project.yaml'')) e1 r" by (auto elim!: runs_tryI)
  then have "r = Inr projectBytes" using assms(1) by (simp add: serves_def)
  then show ?thesis using goes(3) assms(2) by simp
qed (auto elim: runs_tryI)

lemma built_manifest_self: "self_digest_errors h (JObj (manifest_body h m tree backlog projectBytes entries
      @ [(''manifest_sha256'', JStr (bootstrap_digest h (manifest_body h m tree backlog projectBytes entries)))])) = []"
  by (simp add: self_digest_errors_def manifest_body_def)

lemma built_manifest_verified:
  assumes "runs (buildManifest h m) es (Inr (entries, projectBytes, manifest))"
    and served: "\<forall>e \<in> set entries. serves readEntry (en_file e) (en_content e)" "serves readEntry ''project.yaml'' projectBytes"
    and "runs (verify h readEntry (JObj manifest)) es' out"
  shows "out = Inr ()"
proof -
  obtain tree backlog where m: "manifest = manifest_body h m tree backlog projectBytes entries
      @ [(''manifest_sha256'', JStr (bootstrap_digest h (manifest_body h m tree backlog projectBytes entries)))]"
    "length (arr_items (js_field backlog ''tasks'')) = 32" by (rule buildManifest_ok [OF assms(1)])
  note self = built_manifest_self [of h m tree backlog projectBytes entries, folded m(1)]
  have counts: "count_errors (JObj manifest) = []" unfolding count_errors_def m(1) by (simp add: manifest_body_def category_counts_def m(2))
  have entries: "js_field (JObj manifest) ''entries'' = JArr (map (entry_record h) entries)" unfolding m(1) by (simp add: manifest_body_def)
  have project: "js_field (JObj manifest) ''project_sha256'' = JStr (h_sha256 h projectBytes)" unfolding m(1) by (simp add: manifest_body_def)
  from assms(4) have "runs (bindI (map_I (verify_entry h readEntry) (map (entry_record h) entries)) (\<lambda>errors.
     bindI (verify_project h readEntry (JObj manifest)) (\<lambda>project.
     let all = concat errors @ project in throw_ifI (all \<noteq> []) (Err ''Bootstrap verification failed'' (map error_value all))))) es' out"
    unfolding verify_def Let_def entries self counts by (simp add: liftI_def)
  then show ?thesis
  proof (cases rule: runs_bind_cases)
    case (fails e)
    then show ?thesis using verify_entries_served [OF served(1)] by blast
  next
    case (goes e1 e2 errors)
    then have errors: "concat errors = []" using verify_entries_served [OF served(1)] by blast
    from goes(3) show ?thesis
    proof (cases rule: runs_bind_cases)
      case (fails e)
      then show ?thesis using verify_project_served [OF served(2) project] by blast
    next
      case (goes e3 e4 p)
      then have "p = []" using verify_project_served [OF served(2) project] by blast
      then show ?thesis using goes(3) errors by simp
    qed
  qed
qed

section \<open>The copy\<close>

text \<open>Every file that is written was asked for just before and is not there.\<close>

definition only_new :: "string \<Rightarrow> event list \<Rightarrow> bool" where
  "only_new target es \<longleftrightarrow> (\<forall>pre p c r post. es = pre @ (WriteFile p c, r) # post \<longrightarrow>
     pre \<noteq> [] \<and> fst (last pre) = Exists p \<and> snd (last pre) \<noteq> RBool True \<and> (\<exists>rel label. resolveInside target rel label = Inr p))"

lemma only_new_append: "only_new target es \<Longrightarrow> only_new target es' \<Longrightarrow> only_new target (es @ es')"
  unfolding only_new_def
proof (intro allI impI)
  fix pre p c r post
  assume es: "\<forall>pre p c r post. es = pre @ (WriteFile p c, r) # post \<longrightarrow>
     pre \<noteq> [] \<and> fst (last pre) = Exists p \<and> snd (last pre) \<noteq> RBool True \<and> (\<exists>rel label. resolveInside target rel label = Inr p)"
    and es': "\<forall>pre p c r post. es' = pre @ (WriteFile p c, r) # post \<longrightarrow>
     pre \<noteq> [] \<and> fst (last pre) = Exists p \<and> snd (last pre) \<noteq> RBool True \<and> (\<exists>rel label. resolveInside target rel label = Inr p)"
    and "es @ es' = pre @ (WriteFile p c, r) # post"
  then consider us where "es = pre @ us" "us @ es' = (WriteFile p c, r) # post" | us where "es @ us = pre" "es' = us @ (WriteFile p c, r) # post"
    by (auto simp: append_eq_append_conv2)
  then show "pre \<noteq> [] \<and> fst (last pre) = Exists p \<and> snd (last pre) \<noteq> RBool True \<and> (\<exists>rel label. resolveInside target rel label = Inr p)"
  proof cases
    case 1
    show ?thesis
    proof (cases us)
      case Nil
      then show ?thesis using 1 es' [THEN spec, of "[]"] by simp
    next
      case (Cons u us')
      then show ?thesis using 1 es [THEN spec, of pre] by simp
    qed
  next
    case 2
    then have "us \<noteq> [] \<and> fst (last us) = Exists p \<and> snd (last us) \<noteq> RBool True \<and> (\<exists>rel label. resolveInside target rel label = Inr p)"
      using es' by blast
    then show ?thesis using 2(1) by auto
  qed
qed

definition no_write :: "op \<Rightarrow> bool" where
  "no_write p \<longleftrightarrow> (\<forall>q c. p \<noteq> WriteFile q c)"

lemma only_new_quiet: "\<forall>e \<in> set es. no_write (fst e) \<Longrightarrow> only_new target es"
  unfolding only_new_def no_write_def by fastforce

text \<open>A program all of whose runs copy that way.\<close>

definition copies :: "string \<Rightarrow> 'a io \<Rightarrow> bool" where
  "copies target m \<longleftrightarrow> (\<forall>es out. runs m es out \<longrightarrow> only_new target es)"

lemma copies_quiet: "only no_write m \<Longrightarrow> copies target m"
  unfolding copies_def using only_runs [of no_write m] only_new_quiet by blast

lemma copies_bind: "copies target m \<Longrightarrow> (\<And>es x. runs m es (Inr x) \<Longrightarrow> copies target (f x)) \<Longrightarrow> copies target (bindI m f)"
  unfolding copies_def by (blast elim: runs_bind_cases intro: only_new_append)

lemma write_event: "runs (write_file p c) es out \<Longrightarrow> \<exists>w. es = [(WriteFile p c, w)]"
  unfolding write_file_def runs_Op_iff by (elim exE conjE) (rename_tac r es', case_tac r, auto simp: unit_response_def)

lemma copies_new:
  assumes "resolveInside target rel label = Inr p"
  shows "copies target (bindI (exists_path p) (\<lambda>there. if there then Ret () else write_file p c))"
  unfolding copies_def
proof (intro allI impI)
  fix es out assume r: "runs (bindI (exists_path p) (\<lambda>there. if there then Ret () else write_file p c)) es out"
  then obtain x where x: "es = [(Exists p, x)] \<or> (x \<noteq> RBool True \<and> (\<exists>w. es = [(Exists p, x), (WriteFile p c, w)]))"
    by (auto simp: runs_bindI exists_runs dest!: write_event split: if_splits)
  then show "only_new target es" unfolding only_new_def using assms by (auto simp: append_eq_Cons_conv intro!: exI [of _ rel] exI [of _ label])
qed

lemma copies_each: "(\<And>x. x \<in> set xs \<Longrightarrow> copies target (f x)) \<Longrightarrow> copies target (each_I f xs)"
proof (induction xs)
  case Nil
  then show ?case by (simp add: copies_def only_new_def)
next
  case (Cons x xs)
  then show ?case unfolding each_I.simps by (intro copies_bind) simp_all
qed

lemma writeEntry_new: "copies target (writeEntry h target e)"
proof (cases "resolveInside target (JStr (en_file e)) ''migration target''")
  case (Inl x)
  then show ?thesis by (simp add: writeEntry_def liftI_def copies_def only_new_def)
next
  case (Inr dest)
  have "copies target (make_dir d True)" "copies target (exists_path p)"
    "copies target (if b then Ret () else bindI (read_file p) (\<lambda>content. throw_ifI (x content) y))" for d p b x y
    by (intro copies_quiet only_rules only_files; simp add: no_write_def)+
  then show ?thesis
    unfolding writeEntry_def by (simp add: Inr liftI_def, intro copies_bind copies_new [OF Inr])
qed

lemma copies_are_new: "copies target (each_I (writeEntry h target) entries)"
  by (intro copies_each writeEntry_new)

section \<open>The quarantine\<close>

text \<open>Before the move the script only reads and asks git.\<close>

definition asks :: "op \<Rightarrow> bool" where
  "asks p \<longleftrightarrow> (case p of Spawn cmd args dir env \<Rightarrow> cmd = ''git'' \<and> hd args \<in> {''rev-parse'', ''worktree'', ''status'', ''config''}
     | Exists q \<Rightarrow> True | ReadFile q \<Rightarrow> True | IsDir q \<Rightarrow> True | Realpath q \<Rightarrow> True | _ \<Rightarrow> False)"

lemma asks_simps [simp]: "asks (Spawn cmd args dir env) \<longleftrightarrow> cmd = ''git'' \<and> hd args \<in> {''rev-parse'', ''worktree'', ''status'', ''config''}"
  "asks (Exists q)" "asks (ReadFile q)" "asks (IsDir q)" "asks (Realpath q)"
  by (simp_all add: asks_def)

lemma only_runGit: "P (Spawn ''git'' args dir []) \<Longrightarrow> only P (runGit_status dir args allow)" "P (Spawn ''git'' args dir []) \<Longrightarrow> only P (runGit dir args)"
  "P (Spawn ''git'' args dir []) \<Longrightarrow> only P (runGit_text dir args)"
  unfolding runGit_text_def runGit_def runGit_status_def by (intro only_rules only_spawn only_prod; simp)+

lemma only_stat: "P (IsDir p) \<Longrightarrow> only P (stat_directory p)"
  unfolding stat_directory_def by (intro only_Op) (auto split: resp.splits)

lemma asks_paths: "only asks (quarantinePaths h source target)"
  unfolding quarantinePaths_def Let_def by (intro only_rules only_runGit) simp_all

lemma asks_source: "only asks (check_source h source gitDir expectedHead)"
  unfolding check_source_def Let_def registered_worktree_def
  by (intro only_rules only_runGit only_stat only_files; (intro asks_simps(2-))?)
    (auto split: list.splits intro!: only_rules only_files)

lemma asks_legacy: "only asks (read_legacy h p)"
  unfolding read_legacy_def by (intro only_rules only_files) simp_all

text \<open>The move, up to every point at which it can stop: the state \<open>st\<close> is at \<open>qu_pending\<close> before the repository
  is renamed, and when that fails it is removed again.\<close>

inductive moved :: "host \<Rightarrow> quarantine \<Rightarrow> string \<Rightarrow> string \<Rightarrow> event list \<Rightarrow> js_error + unit \<Rightarrow> bool" for h :: host and q :: quarantine and gitDir :: string and st :: string where
  refused: "\<forall>e \<in> set es. (\<exists>p. fst e = Exists p) \<or> (\<exists>p b. fst e = Mkdir p b) \<Longrightarrow> moved h q gitDir st es (Inl e)"
| unwritten: "\<forall>e \<in> set es. (\<exists>p. fst e = Exists p) \<or> (\<exists>p b. fst e = Mkdir p b) \<Longrightarrow> runs (writeFileAtomic h (qu_pending q) st) ws (Inl e)
    \<Longrightarrow> moved h q gitDir st (es @ ws) (Inl e)"
| unmoved: "\<forall>e \<in> set es. (\<exists>p. fst e = Exists p) \<or> (\<exists>p b. fst e = Mkdir p b) \<Longrightarrow> runs (writeFileAtomic h (qu_pending q) st) ws (Inr ())
    \<Longrightarrow> r \<noteq> ROk \<Longrightarrow> moved h q gitDir st (es @ ws @ [(Rename gitDir (qu_git q), r), (Rm (qu_pending q), u)]) (Inl e)"
| unmarked: "\<forall>e \<in> set es. (\<exists>p. fst e = Exists p) \<or> (\<exists>p b. fst e = Mkdir p b) \<Longrightarrow> runs (writeFileAtomic h (qu_pending q) st) ws (Inr ())
    \<Longrightarrow> r \<noteq> ROk \<Longrightarrow> moved h q gitDir st (es @ ws @ [(Rename gitDir (qu_git q), ROk), (Rename (qu_pending q) (qu_marker q), r)]) (Inl e)"
| frozen: "\<forall>e \<in> set es. (\<exists>p. fst e = Exists p) \<or> (\<exists>p b. fst e = Mkdir p b) \<Longrightarrow> runs (writeFileAtomic h (qu_pending q) st) ws (Inr ())
    \<Longrightarrow> moved h q gitDir st (es @ ws @ [(Rename gitDir (qu_git q), ROk), (Rename (qu_pending q) (qu_marker q), ROk), (Stdout (qu_marker q @ [newline]), r)]) (Inr ())"

lemma unit_event: "runs (Op p unit_response) es out \<Longrightarrow> \<exists>r. es = [(p, r)] \<and> (r = ROk \<longleftrightarrow> out = Inr ())"
  unfolding runs_Op_iff by (elim exE conjE) (rename_tac r es', case_tac r, auto simp: unit_response_def)

lemmas file_events = unit_event [of "Mkdir p b" for p b, folded make_dir_def] unit_event [of "Rename p q" for p q, folded rename_file_def]
  unit_event [of "Rm p" for p, folded remove_def]

lemma move_repository_moved:
  assumes "runs (move_repository h q gitDir state) es out"
  shows "moved h q gitDir (h_json_text h state @ [newline]) es out"
  using assms unfolding move_repository_def
proof (cases rule: runs_bind_cases)
  case (fails e)
  then show ?thesis by (auto simp: exists_runs)
next
  case (goes e1 e2 there)
  then obtain x where e1: "e1 = [(Exists (qu_git q), x)]" by (auto simp: exists_runs)
  show ?thesis
  proof (cases there)
    case True
    then have "out = Inl (Err ''Quarantine destination already exists'' [JStr (qu_git q)])" "e2 = []" using goes(3) by (simp_all add: throw_ifI_def)
    then show ?thesis using goes(1) e1 by (simp add: moved.refused)
  next
    case False
    with goes(3) have r: "runs (bindI (make_dir (path_dirname (qu_git q)) True) (\<lambda>_.
     bindI (writeFileAtomic h (qu_pending q) (h_json_text h state @ [newline])) (\<lambda>_.
     bindI (catchI (rename_file gitDir (qu_git q)) (\<lambda>e. bindI (remove (qu_pending q)) (\<lambda>_. Throw e))) (\<lambda>_.
     bindI (rename_file (qu_pending q) (qu_marker q)) (\<lambda>_.
     print_out (qu_marker q @ [newline])))))) e2 out" by (simp add: throw_ifI_def)
    note es = goes(1)
    from r show ?thesis
    proof (cases rule: runs_bind_cases)
      case (fails e)
      then obtain y where "e2 = [(Mkdir (path_dirname (qu_git q)) True, y)]" by (auto dest!: file_events)
      then show ?thesis using es e1 fails(2) by (auto intro!: moved.refused)
    next
      case (goes f1 f2 u)
      then obtain y where f1: "f1 = [(Mkdir (path_dirname (qu_git q)) True, y)]" by (auto dest!: file_events)
      let ?pre = "e1 @ f1"
      have pre: "\<forall>e \<in> set ?pre. (\<exists>p. fst e = Exists p) \<or> (\<exists>p b. fst e = Mkdir p b)" using e1 f1 by auto
      have es': "es = ?pre @ f2" using es goes(1) by simp
      from goes(3) show ?thesis
      proof (cases rule: runs_bind_cases)
        case (fails e)
        then show ?thesis using moved.unwritten [OF pre] es' by simp
      next
        case (goes ws g2 v)
        note ws = goes(2)
        from goes(3) show ?thesis
        proof (cases rule: runs_bind_cases)
          case (fails e)
          from fails(1) obtain w1 w2 e' where w: "g2 = w1 @ w2" "runs (rename_file gitDir (qu_git q)) w1 (Inl e')"
            "runs (bindI (remove (qu_pending q)) (\<lambda>_. Throw e' :: unit io)) w2 (Inl e)" by (rule runs_catch_failed)
          from w(2) obtain r where "w1 = [(Rename gitDir (qu_git q), r)]" "r \<noteq> ROk" by (auto dest!: file_events)
          moreover from w(3) obtain u where "w2 = [(Rm (qu_pending q), u)]" by (auto simp: runs_bindI dest!: file_events)
          ultimately show ?thesis using moved.unmoved [OF pre] ws es' goes(1) w(1) fails(2) by simp
        next
          case (goes h1 h2 z)
          from goes(2) have "runs (rename_file gitDir (qu_git q)) h1 (Inr z)" by (rule runs_catch_rethrow) simp
          then have h1: "h1 = [(Rename gitDir (qu_git q), ROk)]" by (simp add: file_runs_ok)
          from goes(3) show ?thesis
          proof (cases rule: runs_bind_cases)
            case (fails e)
            then obtain r where "h2 = [(Rename (qu_pending q) (qu_marker q), r)]" "r \<noteq> ROk" by (auto dest!: file_events)
            then show ?thesis using moved.unmarked [OF pre] ws es' \<open>f2 = ws @ g2\<close> goes(1) h1 fails(2) by simp
          next
            case (goes i1 i2 z')
            then have "i1 = [(Rename (qu_pending q) (qu_marker q), ROk)]" by (simp add: file_runs_ok)
            moreover from goes(3) obtain r where "i2 = [(Stdout (qu_marker q @ [newline]), r)]" "out = Inr ()" by (auto simp: print_out_def)
            ultimately show ?thesis using moved.frozen [OF pre] ws es' \<open>f2 = ws @ g2\<close> \<open>g2 = h1 @ h2\<close> goes(1) h1 by simp
          qed
        qed
      qed
    qed
  qed
qed

text \<open>The whole freeze: what is asked before the move found the source clean, standalone and at the expected head,
  which the state records.\<close>

lemma runGit_text_answered: "runs (runGit_text dir args) es (Inr x) \<Longrightarrow> answered (Spawn ''git'' args dir []) x es"
  unfolding runGit_text_def runGit_def runGit_status_def case_prod_beta by (auto simp: ok_runs split: if_splits)

lemma check_source_ok:
  assumes "runs (check_source h source gitDir expectedHead) es (Inr head)"
  shows "gitDir = path_join source ''.git''" "expectedHead = JStr head"
    "answered (Spawn ''git'' [''status'', ''--porcelain''] source []) [] es" "answered (head_op source) head es"
proof -
  from assms obtain e1 e2 e3 e4 e5 e6 standalone status where c: "es = e1 @ e2 @ e3 @ e4 @ e5 @ e6"
    "runs (if gitDir \<noteq> path_join source ''.git'' then Ret False else stat_directory gitDir) e1 (Inr standalone)" "standalone"
    "runs (runGit_text source [''status'', ''--porcelain'']) e5 (Inr status)" "status = []"
    "runs (runGit_text source [''rev-parse'', ''HEAD'']) e6 (Inr head)" "expectedHead = JStr head"
    unfolding check_source_def Let_def by - (elim ok_elims, rule that, (assumption | simp)+)
  show "gitDir = path_join source ''.git''" using c(2,3) by (auto split: if_splits)
  show "expectedHead = JStr head" by (rule c)
  show "answered (Spawn ''git'' [''status'', ''--porcelain''] source []) [] es" "answered (head_op source) head es"
    using runGit_text_answered [OF c(4)] runGit_text_answered [OF c(6)] by (simp_all add: c(1,5) head_op_def)
qed

definition freeze_moved :: "host \<Rightarrow> string \<Rightarrow> event list \<Rightarrow> js_error + unit \<Rightarrow> bool" where
  "freeze_moved h source es out \<longleftrightarrow> (\<exists>pre post q head state.
     es = pre @ post \<and> (\<forall>e \<in> set pre. asks (fst e))
   \<and> answered (Spawn ''git'' [''status'', ''--porcelain''] source []) [] pre \<and> answered (head_op source) head pre
   \<and> js_field state ''expected_head'' = JStr head \<and> js_field state ''quarantine'' = JStr (qu_git q)
   \<and> moved h q (path_join source ''.git'') (h_json_text h state @ [newline]) post out)"

lemma asks_freeze: "only asks m \<Longrightarrow> runs m es out \<Longrightarrow> \<forall>e \<in> set es. asks (fst e)"
  using only_runs [of asks] by blast

lemma freezeSource_moved:
  assumes "runs (freezeSource h source target ref expectedHead) es out"
  shows "(\<forall>e \<in> set es. asks (fst e)) \<and> (\<exists>e. out = Inl e) \<or> freeze_moved h source es out"
  using assms unfolding freezeSource_def Let_def
proof (cases rule: runs_bind_cases)
  case (fails e)
  then show ?thesis using asks_freeze [OF asks_paths] by blast
next
  case (goes p1 p2 q)
  let ?exp = "\<lambda>gitDir. bindI (check_source h source gitDir expectedHead) (\<lambda>head.
     bindI (read_legacy h (path_join gitDir ''agent-harness-evidence-frozen'')) (\<lambda>legacy.
     bindI (throw_ifI (truthy legacy \<and> (js_field legacy ''authority'' \<noteq> JStr (path_resolve (h_cwd h) target) \<or> js_field legacy ''source_ref'' \<noteq> JStr ref))
       (Err ''Legacy freeze authority or source ref mismatch'' [])) (\<lambda>_.
     bindI (runGit_status source [''config'', ''--local'', ''--get'', ''core.hooksPath''] True) (\<lambda>(status, out).
     move_repository h q gitDir
       (freeze_state h source target ref head legacy (if status = Some 0 then JStr (js_trim out) else JNull) (qu_git q))))))"
  let ?first = "bindI (exists_path (qu_marker q)) (\<lambda>marked.
     bindI (if marked then Ret True else exists_path (qu_pending q)) (\<lambda>frozen.
     bindI (throw_ifI frozen (Err ''Source repository is already quarantined'' [])) (\<lambda>_.
     runGit_text source [''rev-parse'', ''--git-dir''])))"
  have first: "only asks ?first" by (intro only_rules only_files only_runGit) simp_all
  have a1: "\<forall>e \<in> set p1. asks (fst e)" using asks_freeze [OF asks_paths goes(2)] .
  from goes(3) have "runs (bindI ?first (\<lambda>gitDirValue. ?exp (path_resolve source gitDirValue))) p2 out" by (simp add: bindI_assoc)
  then show ?thesis
  proof (cases rule: runs_bind_cases)
    case (fails e)
    then show ?thesis using goes(1) a1 asks_freeze [OF first] by auto
  next
    case (goes f1 f2 gd)
    have a2: "\<forall>e \<in> set f1. asks (fst e)" using asks_freeze [OF first goes(2)] .
    let ?dir = "path_resolve source gd"
    from goes(3) show ?thesis
    proof (cases rule: runs_bind_cases)
      case (fails e)
      then show ?thesis using \<open>es = p1 @ p2\<close> goes(1) a1 a2 asks_freeze [OF asks_source fails(1)] by auto
    next
      case (goes g1 g2 head)
      note src = check_source_ok [OF goes(2)] and a3 = asks_freeze [OF asks_source goes(2)]
      have legacy: "only asks (read_legacy h (path_join ?dir ''agent-harness-evidence-frozen''))" by (rule asks_legacy)
      from goes(3) show ?thesis
      proof (cases rule: runs_bind_cases)
        case (fails e)
        then show ?thesis using \<open>es = p1 @ p2\<close> \<open>p2 = f1 @ f2\<close> goes(1) a1 a2 a3 asks_freeze [OF legacy fails(1)] by auto
      next
        case (goes h1 h2 legacyValue)
        have a4: "\<forall>e \<in> set h1. asks (fst e)" using asks_freeze [OF legacy goes(2)] .
        note es = \<open>es = p1 @ p2\<close> \<open>p2 = f1 @ f2\<close> \<open>f2 = g1 @ g2\<close> goes(1)
        have config: "only asks (runGit_status source [''config'', ''--local'', ''--get'', ''core.hooksPath''] True)" by (intro only_runGit) simp
        from goes(3) show ?thesis
        proof (cases rule: runs_bind_cases)
          case (fails e)
          then show ?thesis using es a1 a2 a3 a4 by (auto split: if_splits)
        next
          case (goes i1 i2 u)
          from goes(3) show ?thesis
          proof (cases rule: runs_bind_cases)
            case (fails e)
            then show ?thesis using es \<open>h2 = i1 @ i2\<close> goes(2) a1 a2 a3 a4 asks_freeze [OF config fails(1)] by auto
          next
            case (goes j1 j2 so)
            let ?state = "freeze_state h source target ref head legacyValue (if fst so = Some 0 then JStr (js_trim (snd so)) else JNull) (qu_git q)"
            have i1: "i1 = []" using \<open>runs (throw_ifI _ _) i1 _\<close> by simp
            have "moved h q ?dir (h_json_text h ?state @ [newline]) j2 out"
              using goes(3) by (intro move_repository_moved) (simp add: case_prod_beta)
            moreover have "es = (p1 @ f1 @ g1 @ h1 @ j1) @ j2" using es \<open>h2 = i1 @ i2\<close> i1 goes(1) by simp
            moreover have "\<forall>e \<in> set (p1 @ f1 @ g1 @ h1 @ j1). asks (fst e)" using a1 a2 a3 a4 asks_freeze [OF config goes(2)] by auto
            moreover have "js_field ?state ''expected_head'' = JStr head" "js_field ?state ''quarantine'' = JStr (qu_git q)" by (simp_all add: freeze_state_def)
            ultimately have "freeze_moved h source es out"
              unfolding freeze_moved_def src(1) using src(3,4)
              by (intro exI [of _ "p1 @ f1 @ g1 @ h1 @ j1"] exI [of _ j2] exI [of _ q] exI [of _ head] exI [of _ ?state]) simp
            then show ?thesis ..
          qed
        qed
      qed
    qed
  qed
qed

end
