(* ===== verification/Migrate_Theorems.thy ===== *)
theory Migrate_Theorems
  imports Migrate_Props Config_Texts
begin

text \<open>
  The properties of the migration of the operations data (scripts/task/migrate-operations.mjs), each with a run
  at which it applies.
\<close>

section \<open>Concrete runs\<close>

definition baseline_tasks :: "jsval list" where
  "baseline_tasks = replicate 32 (JObj [(''id'', JStr ''TASK-0001'')])"

text \<open>The texts of the two backlogs are \<open>old\<close> and \<open>new\<close>.\<close>

definition migrate_host :: host where
  "migrate_host = agent_host\<lparr>h_sha256 := (\<lambda>s. s), h_stack := 3, h_yaml := (\<lambda>s. Inr (JObj [(''tasks'', JArr (if s = ''old'' then baseline_tasks
     else baseline_tasks @ [JObj [(''id'', JStr ''TASK-0033''), (''task_dir'', JStr ''tasks/T'')]]))]))\<rparr>"

definition demo_migration :: migration where
  "demo_migration = \<lparr>mg_source = ''/s'', mg_target = ''/g'', mg_ref = ''ref'', mg_le = (\<lambda>x y. x \<le> y)\<rparr>"

definition manifest_env :: environment where
  "manifest_env past p = (case p of
     Spawn cmd args dir env \<Rightarrow> ok_text (
       if args = [''rev-parse'', ''ref^{commit}''] then ''ref'' else if args = [''show'', ''ref:backlog.yaml''] then ''old''
       else if hd args = ''ls-tree'' then ''wiki/a.md'' @ [nul] @ ''src/b.js'' @ [nul] else if args = [''show'', ''ref:wiki/a.md''] then ''page'' else ''tree'')
   | Exists q \<Rightarrow> RBool True | ReadDir q \<Rightarrow> REntries [(''P.md'', FileEntry)]
   | ReadFile q \<Rightarrow> RText (if q = ''/s/backlog.yaml'' then ''new'' else if q = ''/s/tasks/T/P.md'' then ''plan'' else ''project'') | _ \<Rightarrow> ROk)"

definition manifest_run :: "event list \<times> (js_error + entry list \<times> string \<times> (string \<times> jsval) list)" where
  "manifest_run = exec manifest_env (buildManifest migrate_host demo_migration) []"

definition demo_entries :: "entry list" where
  "demo_entries = [\<lparr>en_file = ''backlog.yaml'', en_origin = ''TASK-0033-overlay'', en_content = ''new''\<rparr>,
     \<lparr>en_file = ''tasks/T/P.md'', en_origin = ''TASK-0033-evidence'', en_content = ''plan''\<rparr>, \<lparr>en_file = ''wiki/a.md'', en_origin = ''REF-2'', en_content = ''page''\<rparr>]"

lemma manifest_run_result: "\<exists>manifest. snd manifest_run = Inr (demo_entries, ''project'', manifest)"
proof -
  have "(case snd manifest_run of Inr (entries, project, manifest) \<Rightarrow> entries = demo_entries \<and> project = ''project'' | _ \<Rightarrow> False)"
    by code_simp
  then show ?thesis by (auto split: sum.splits prod.splits)
qed

definition demo_reader :: "jsval \<Rightarrow> string io" where
  "demo_reader file = Ret (if file = JStr ''backlog.yaml'' then ''new'' else if file = JStr ''tasks/T/P.md'' then ''plan''
     else if file = JStr ''wiki/a.md'' then ''page'' else ''project'')"




section \<open>Properties\<close>

text \<open>C24: The manifest and what it describes fit: whatever a reader says that returns the collected bytes of every
  entry and of the project file, the verification of a manifest that was built passes.\<close>

theorem manifest_verifies:
  assumes "runs (buildManifest h m) es (Inr (entries, projectBytes, manifest))"
    and "\<forall>e \<in> set entries. serves readEntry (en_file e) (en_content e)" "serves readEntry ''project.yaml'' projectBytes"
    and "runs (verify h readEntry (JObj manifest)) es' out"
  shows "out = Inr ()"
  using assms by (rule built_manifest_verified)

theorem manifest_verifies_witness:
  "\<exists>manifest. snd manifest_run = Inr (demo_entries, ''project'', manifest)
     \<and> snd (exec manifest_env (verify migrate_host demo_reader (JObj manifest)) []) = Inr ()"
proof -
  obtain manifest where r: "snd manifest_run = Inr (demo_entries, ''project'', manifest)" using manifest_run_result by blast
  then have "runs (buildManifest migrate_host demo_migration) (fst manifest_run) (Inr (demo_entries, ''project'', manifest))"
    unfolding manifest_run_def by (metis exec_runs)
  from manifest_verifies [OF this _ _ exec_runs, of demo_reader manifest_env "[]"] r show ?thesis
    by (auto simp: serves_def demo_reader_def demo_entries_def)
qed



end
