(* ===== verification/Doc_Tools.thy ===== *)
theory Doc_Tools
  imports Migrate
begin

text \<open>
  The documentation tools: the list of the documentation files with its globs (scripts/list-docs.mjs), the runs of
  textlint over it (lint-docs.mjs), the runner of all documentation lints (run-doc-lints.mjs) and the data of the
  tabletop viewer (build-tabletop-viewer-data.mjs).  A glob and a path are compared by their UTF-16 code units,
  which are decoded from the bytes of valid UTF-8.
\<close>

section \<open>Code units\<close>

fun code_points :: "int list \<Rightarrow> int list" where
  "code_points (a # b # c # d # s) = (
     if a < 128 then a # code_points (b # c # d # s)
     else if a < 224 then ((a - 192) * 64 + (b - 128)) # code_points (c # d # s)
     else if a < 240 then ((a - 224) * 4096 + (b - 128) * 64 + (c - 128)) # code_points (d # s)
     else ((a - 240) * 262144 + (b - 128) * 4096 + (c - 128) * 64 + (d - 128)) # code_points s)"
| "code_points [a, b, c] = (if a < 128 then a # code_points [b, c] else if a < 224 then ((a - 192) * 64 + (b - 128)) # code_points [c]
     else [(a - 224) * 4096 + (b - 128) * 64 + (c - 128)])"
| "code_points [a, b] = (if a < 128 then a # code_points [b] else [(a - 192) * 64 + (b - 128)])"
| "code_points [a] = [a]"
| "code_points [] = []"

definition point_units :: "int \<Rightarrow> int list" where
  "point_units c = (if c < 65536 then [c] else [55296 + (c - 65536) div 1024, 56320 + (c - 65536) mod 1024])"

definition utf16_of :: "string \<Rightarrow> int list" where
  "utf16_of s = concat (map point_units (code_points (map of_char s)))"

section \<open>Globs\<close>

text \<open>The pieces of the expression: \<open>(?:.*/)?\<close>, \<open>.*\<close>, \<open>[^/]*\<close>, \<open>[^/]\<close> and literals, between \<open>^\<close> and \<open>$\<close>.\<close>

datatype glob_token = AnyDirs | AnyChars | AnyName | OneChar | Literal "int list"

abbreviation star :: "int list" where
  "star \<equiv> [42]"

abbreviation slash :: int where
  "slash \<equiv> 47"

fun glob_tokens :: "int list list \<Rightarrow> glob_token list" where
  "glob_tokens [] = []"
| "glob_tokens (c # g) = (
     if c = star \<and> take 1 g = [star] then
       (if take 1 (drop 1 g) = [[slash]] then AnyDirs # glob_tokens (drop 2 g) else AnyChars # glob_tokens (drop 1 g))
     else if c = star then AnyName # glob_tokens g
     else if c = [63] then OneChar # glob_tokens g
     else Literal c # glob_tokens g)"

text \<open>A glob that is an array is read item by item, as a text is by its units.\<close>

definition globToRegExp :: "jsval \<Rightarrow> glob_token list res" where
  "globToRegExp glob = (case glob of
     JStr g \<Rightarrow> Inr (glob_tokens (map (\<lambda>u. [u]) (utf16_of g)))
   | JArr xs \<Rightarrow> bindR (map_R (\<lambda>x. case x of JStr s \<Rightarrow> Inr (utf16_of s) | _ \<Rightarrow> Inl type_error) xs) (\<lambda>g. Inr (glob_tokens g))
   | JUndef \<Rightarrow> Inl type_error | JNull \<Rightarrow> Inl type_error | _ \<Rightarrow> Inr [])"

text \<open>The characters \<open>.\<close> does not match.\<close>

definition line_end :: "int \<Rightarrow> bool" where
  "line_end u \<longleftrightarrow> u \<in> {10, 13, 8232, 8233}"

fun tokens_match :: "glob_token list \<Rightarrow> int list \<Rightarrow> bool" where
  "tokens_match [] s = (s = [])"
| "tokens_match (Literal c # ts) s = (take (length c) s = c \<and> tokens_match ts (drop (length c) s))"
| "tokens_match (OneChar # ts) s = (s \<noteq> [] \<and> hd s \<noteq> slash \<and> tokens_match ts (tl s))"
| "tokens_match (AnyName # ts) s = list_ex (\<lambda>k. tokens_match ts (drop k s)) [0..<Suc (length (takeWhile (\<lambda>u. u \<noteq> slash) s))]"
| "tokens_match (AnyChars # ts) s = list_ex (\<lambda>k. tokens_match ts (drop k s)) [0..<Suc (length (takeWhile (\<lambda>u. \<not> line_end u) s))]"
| "tokens_match (AnyDirs # ts) s = (tokens_match ts s
     \<or> list_ex (\<lambda>k. s ! k = slash \<and> tokens_match ts (drop (Suc k) s)) [0..<length (takeWhile (\<lambda>u. \<not> line_end u) s)])"

section \<open>The documentation files\<close>

definition is_japanese :: "string \<Rightarrow> bool" where
  "is_japanese content = list_ex (\<lambda>u. 12353 \<le> u \<and> u \<le> 12435 \<or> 12449 \<le> u \<and> u \<le> 12534 \<or> 19968 \<le> u \<and> u \<le> 40879) (utf16_of content)"

primrec filter_I :: "('a \<Rightarrow> bool io) \<Rightarrow> 'a list \<Rightarrow> 'a list io" where
  "filter_I P [] = Ret []"
| "filter_I P (x # xs) = bindI (P x) (\<lambda>yes. bindI (filter_I P xs) (\<lambda>ys. Ret (if yes then x # ys else ys)))"

definition list_files :: "string \<Rightarrow> string list io" where
  "list_files rootdir = bindI (spawn ''git'' [''ls-files'', ''-z'', ''--cached'', ''--others'', ''--exclude-standard'', ''--'', ''*.md''] rootdir [])
     (\<lambda>(status, out, err). if status \<noteq> Some 0 then Throw (Err ''Command failed'' []) else Ret (filter (\<lambda>f. f \<noteq> []) (split_char nul out)))"

definition documentation_scope :: "host \<Rightarrow> string \<Rightarrow> jsval io" where
  "documentation_scope h rootdir =
     bindI (read_file (path_join rootdir ''docs/glossary.yml'')) (\<lambda>text.
     bindI (liftI (h_yaml h text)) (\<lambda>glossary. liftI (js_get glossary ''scope'')))"

definition documentationFiles :: "host \<Rightarrow> string \<Rightarrow> string list io" where
  "documentationFiles h rootdir =
     bindI (documentation_scope h rootdir) (\<lambda>scope.
     bindI (liftI (bindR (js_get scope ''sources'') (\<lambda>v. bindR (items_of v) (map_R globToRegExp)))) (\<lambda>sourcePatterns.
     bindI (liftI (bindR (items_of (js_field scope ''excludes'')) (map_R globToRegExp))) (\<lambda>excludePatterns.
     bindI (list_files rootdir) (\<lambda>files.
     let candidates = filter (\<lambda>f. list_ex (\<lambda>p. tokens_match p (utf16_of f)) sourcePatterns
       \<and> \<not> list_ex (\<lambda>p. tokens_match p (utf16_of f)) excludePatterns) files in
     bindI (filter_I (\<lambda>f. if js_field scope ''language'' \<noteq> JStr ''japanese'' then Ret True
       else bindI (read_file (path_join rootdir f)) (\<lambda>content. Ret (is_japanese content))) candidates) (\<lambda>kept.
     Ret (sort kept))))))"

definition list_docs :: "host \<Rightarrow> string \<Rightarrow> string list \<Rightarrow> unit io" where
  "list_docs h rootdir argv = bindI (documentationFiles h rootdir) (\<lambda>files.
     print_out ((if ''--json'' \<in> set argv then h_json_text h (JArr (map JStr files)) else join_char newline files) @ [newline]))"

section \<open>Textlint\<close>

fun batches :: "nat \<Rightarrow> 'a list \<Rightarrow> 'a list list" where
  "batches n [] = []"
| "batches n (x # xs) = (if n = 0 then [x # xs] else take n (x # xs) # batches n (drop n (x # xs)))"

definition lint_batch :: "host \<Rightarrow> string \<Rightarrow> string \<Rightarrow> string list \<Rightarrow> string list \<Rightarrow> int option io" where
  "lint_batch h rootdir textlintBin forwardedArgs files =
     bindI (spawn (h_node h) ([textlintBin, ''--config'', ''.textlintrc.json'', ''--rulesdir'', ''scripts''] @ files @ forwardedArgs) rootdir [])
       (\<lambda>(status, _). Ret status)"

text \<open>The exit status of the script: that of the first batch that fails.\<close>

primrec lint_batches :: "(string list \<Rightarrow> int option io) \<Rightarrow> string list list \<Rightarrow> int io" where
  "lint_batches lint [] = Ret 0"
| "lint_batches lint (files # rest) = bindI (lint files) (\<lambda>status.
     if status \<noteq> Some 0 then Ret (case status of None \<Rightarrow> 1 | Some code \<Rightarrow> code) else lint_batches lint rest)"

definition lint_docs :: "host \<Rightarrow> string \<Rightarrow> string \<Rightarrow> string list \<Rightarrow> int io" where
  "lint_docs h rootdir textlintBin forwardedArgs = bindI (documentationFiles h rootdir) (\<lambda>markdownFiles.
     lint_batches (lint_batch h rootdir textlintBin forwardedArgs) (batches 40 markdownFiles))"

section \<open>All documentation lints\<close>

record lint_command =
  lc_command :: string
  lc_args :: "string list"
  lc_usesUvCache :: bool

definition buildDocLintCommands :: "string \<Rightarrow> string \<Rightarrow> lint_command list" where
  "buildDocLintCommands uv pnpm = [
     \<lparr>lc_command = uv, lc_args = [''run'', ''--project'', ''memory'', ''python'', ''scripts/validate-terminology.py''], lc_usesUvCache = True\<rparr>,
     \<lparr>lc_command = pnpm, lc_args = [''lint:docs''], lc_usesUvCache = False\<rparr>,
     \<lparr>lc_command = ''git'', lc_args = [''diff'', ''--check''], lc_usesUvCache = False\<rparr>]"

text \<open>One command: whether it failed.  A command that does not start is reported.\<close>

definition lint_op :: "string \<Rightarrow> string \<Rightarrow> lint_command \<Rightarrow> op" where
  "lint_op cwd uvCacheDir c = Spawn (lc_command c) (lc_args c) cwd (if lc_usesUvCache c then [(''UV_CACHE_DIR'', uvCacheDir)] else [])"

definition run_lint :: "string \<Rightarrow> string \<Rightarrow> lint_command \<Rightarrow> bool io" where
  "run_lint cwd uvCacheDir c = Op (lint_op cwd uvCacheDir c) (\<lambda>r. case r of
     RProc status _ _ \<Rightarrow> Ret (status \<noteq> Some 0)
   | _ \<Rightarrow> bindI (print_err (''doc lint command failed to start'' @ [newline])) (\<lambda>_. Ret True))"

primrec run_lints :: "string \<Rightarrow> string \<Rightarrow> lint_command list \<Rightarrow> bool \<Rightarrow> bool io" where
  "run_lints cwd uvCacheDir [] failed = Ret failed"
| "run_lints cwd uvCacheDir (c # cs) failed = bindI (run_lint cwd uvCacheDir c) (\<lambda>f. run_lints cwd uvCacheDir cs (failed \<or> f))"

text \<open>\<open>env.X ?? d\<close>\<close>

definition env_or :: "(string \<Rightarrow> string option) \<Rightarrow> string \<Rightarrow> string \<Rightarrow> string" where
  "env_or env key d = (case env key of None \<Rightarrow> d | Some v \<Rightarrow> v)"

definition runDocLints :: "string \<Rightarrow> (string \<Rightarrow> string option) \<Rightarrow> int io" where
  "runDocLints cwd env =
     bindI (run_lints cwd (env_or env ''UV_CACHE_DIR'' (path_join (path_join cwd ''.build'') ''uv-cache''))
       (buildDocLintCommands (env_or env ''UV'' ''uv'') (env_or env ''PNPM'' ''pnpm'')) False) (\<lambda>failed.
     Ret (if failed then 1 else 0))"

section \<open>The data of the tabletop viewer\<close>

definition viewer_files :: "string list" where
  "viewer_files = [
     ''executable-scenarios.json'', ''executable-scenario-002.json'', ''executable-scenario-004-incident.json'',
     ''domain-payloads-canonical.json'', ''domain-payloads-001.json'', ''domain-payloads-002.json'', ''domain-payloads-003.json'',
     ''domain-payloads-004.json'', ''domain-payloads-004-incident.json'', ''domain-payloads-fixes.json'', ''domain-payloads-task-events.json'',
     ''sequence-requirements.json'']"

definition viewer_data :: "host \<Rightarrow> jsval list \<Rightarrow> string" where
  "viewer_data h documents = ''// Generated by scripts/build-tabletop-viewer-data.mjs'' @ [newline]
     @ ''window.TABLETOP_EMBEDDED='' @ h_json_text h (JArr documents) @ '';'' @ [newline]"

definition build_viewer_data :: "host \<Rightarrow> string \<Rightarrow> unit io" where
  "build_viewer_data h rootdir = (let base = path_join rootdir ''examples/e2e-tabletop'' in
     bindI (map_I (\<lambda>name. bindI (read_file (path_join base name)) (\<lambda>text. bindI (liftI (h_json h text)) (\<lambda>d. Ret (JArr [JStr name, d])))) viewer_files) (\<lambda>documents.
     bindI (write_file (path_join base ''viewer-data.js'') (viewer_data h documents)) (\<lambda>_.
     print_out (''Wrote viewer-data.js with '' @ nat_string (length documents) @ '' documents'' @ [newline]))))"

end
