(* ===== verification/Glossary.thy ===== *)
theory Glossary
  imports Work_Agent Json_Schema
begin

text \<open>
  The glossary rule of textlint (scripts/kakesu-glossary.js): the expressions it builds from the glossary, their
  matches in a text, and the fixes it reports.  Positions count bytes; the code's count UTF-16 code units, which
  orders the same positions the same way.  An empty pattern, which the glossary has not, matches at every byte.
\<close>

section \<open>Expressions\<close>

text \<open>\<open>[A-Za-z0-9_-]\<close>, the class of the look-arounds.\<close>

definition name_char :: "char \<Rightarrow> bool" where
  "name_char c \<longleftrightarrow> word_char c \<or> c = CHR ''-''"

text \<open>An expression: an escaped pattern, between look-arounds where it starts and ends with a word character.\<close>

record expression =
  ex_pattern :: string
  ex_left :: bool
  ex_right :: bool

definition expressionFor :: "jsval \<Rightarrow> expression res" where
  "expressionFor pattern = (case pattern of
     JStr p \<Rightarrow> Inr \<lparr>ex_pattern = p, ex_left = (p \<noteq> [] \<and> word_char (hd p)), ex_right = (p \<noteq> [] \<and> word_char (last p))\<rparr>
   | _ \<Rightarrow> Inl type_error)"

definition match_at :: "expression \<Rightarrow> string \<Rightarrow> nat \<Rightarrow> bool" where
  "match_at e s i \<longleftrightarrow> (let stop = i + length (ex_pattern e) in
     starts_with (drop i s) (ex_pattern e)
   \<and> (ex_left e \<longrightarrow> i = 0 \<or> \<not> name_char (s ! (i - 1)))
   \<and> (ex_right e \<longrightarrow> stop \<ge> length s \<or> \<not> name_char (s ! stop)))"

text \<open>\<open>source.matchAll(expression)\<close>: the positions, each search starting where the last match ended.\<close>

function matches_from :: "expression \<Rightarrow> string \<Rightarrow> nat \<Rightarrow> nat list" where
  "matches_from e s i = (if i > length s then []
     else if match_at e s i then i # matches_from e s (i + max 1 (length (ex_pattern e)))
     else matches_from e s (i + 1))"
  by pat_completeness auto
termination by (relation "measure (\<lambda>(e, s, i). length s + 1 - i)") auto

declare matches_from.simps [simp del]

definition matchAll :: "expression \<Rightarrow> string \<Rightarrow> nat list" where
  "matchAll e s = matches_from e s 0"

section \<open>Rules\<close>

record glossary_rule =
  gr_formal :: string
  gr_expression :: expression
  gr_replacement :: "string option"

text \<open>\<open>Object.entries(v || {})\<close>\<close>

definition entries_or_none :: "jsval \<Rightarrow> (string \<times> jsval) list" where
  "entries_or_none v = (if truthy v then js_entries v else [])"

text \<open>The rules of one entry: its patterns and the replacement itself, which is to be recognised as correct.\<close>

definition replacement_patterns :: "string \<Rightarrow> jsval \<Rightarrow> jsval list res" where
  "replacement_patterns formalName rule =
     bindR (js_get rule ''match'') (\<lambda>m.
     bindR (if truthy m then js_iter m else Inr [JStr formalName]) (\<lambda>patterns.
     Inr (uniq (patterns @ [js_field rule ''to'']))))"

definition rules_for :: "string \<times> jsval \<Rightarrow> glossary_rule list res" where
  "rules_for entry = (case entry of (formalName, rule) \<Rightarrow>
     bindR (replacement_patterns formalName rule) (\<lambda>patterns.
     bindR (map_R expressionFor patterns) (\<lambda>expressions.
     case js_field rule ''to'' of
       JStr replacement \<Rightarrow> Inr (map (\<lambda>e. \<lparr>gr_formal = formalName, gr_expression = e, gr_replacement = Some replacement\<rparr>) expressions)
     | _ \<Rightarrow> Inl type_error)))"

definition has_replacement :: "string \<times> jsval \<Rightarrow> bool" where
  "has_replacement entry = is_string (js_field (snd entry) ''to'')"

text \<open>Longer patterns first; the sort is stable.\<close>

definition by_length :: "glossary_rule list \<Rightarrow> glossary_rule list" where
  "by_length rules = sort_key (\<lambda>r. - int (utf16_length (ex_pattern (gr_expression r)))) rules"

definition replacementRules :: "jsval \<Rightarrow> glossary_rule list res" where
  "replacementRules rules =
     bindR (js_get rules ''replacements'') (\<lambda>replacements.
     bindR (each_R (\<lambda>(_, rule). bindR (js_get rule ''to'') (\<lambda>_. Inr ())) (entries_or_none (js_field rules ''preserved''))) (\<lambda>_.
     bindR (map_R rules_for (entries_or_none replacements @ filter has_replacement (entries_or_none (js_field rules ''preserved'')))) (\<lambda>rs.
     Inr (by_length (concat rs)))))"

definition identifiers_for :: "string \<times> jsval \<Rightarrow> (string \<times> glossary_rule) list res" where
  "identifiers_for entry = (case entry of (formalName, rule) \<Rightarrow>
     bindR (js_get rule ''match'') (\<lambda>m.
     bindR (if truthy m then items_of m else Inr []) (\<lambda>patterns.
     bindR (map_R expressionFor patterns) (\<lambda>expressions.
     Inr (map (\<lambda>e. (ex_pattern e, \<lparr>gr_formal = formalName, gr_expression = e, gr_replacement = None\<rparr>)) expressions)))))"

text \<open>\<open>[...new Map(entries).values()]\<close>: the place of the first entry of a key, the value of the last.\<close>

definition map_values :: "('k \<times> 'v) list \<Rightarrow> 'v list" where
  "map_values entries = List.map_filter (\<lambda>k. map_of (rev entries) k) (uniq (map fst entries))"

definition identifierRules :: "jsval \<Rightarrow> glossary_rule list res" where
  "identifierRules rules =
     bindR (js_get rules ''identifiers'') (\<lambda>identifiers.
     bindR (map_R identifiers_for (entries_or_none identifiers)) (\<lambda>es. Inr (map_values (concat es))))"

definition glossary_rules :: "jsval \<Rightarrow> (glossary_rule list \<times> glossary_rule list) res" where
  "glossary_rules glossary =
     bindR (js_get glossary ''rules'') (\<lambda>rules.
     bindR (replacementRules rules) (\<lambda>replacements.
     bindR (identifierRules rules) (\<lambda>identifiers. Inr (replacements, identifiers))))"

section \<open>The reporter\<close>

text \<open>A report: the text of the match, what replaces it, the name the message gives, and the range.\<close>

record glossary_report =
  rp_match :: string
  rp_fix :: string
  rp_formal :: string
  rp_index :: nat

type_synonym ranges = "(nat \<times> nat) list"

definition overlaps :: "ranges \<Rightarrow> nat \<Rightarrow> nat \<Rightarrow> bool" where
  "overlaps occupied start stop = list_ex (\<lambda>(occupiedStart, occupiedEnd). start < occupiedEnd \<and> stop > occupiedStart) occupied"

text \<open>What a match of a rule is reported with: nothing when it is the replacement; without a replacement, the match
  in backticks.\<close>

definition fix_of :: "glossary_rule \<Rightarrow> string option" where
  "fix_of rule = (let p = ex_pattern (gr_expression rule) in case gr_replacement rule of
     None \<Rightarrow> Some (CHR ''`'' # p @ ''`'')
   | Some replacement \<Rightarrow> if p = replacement then None else Some replacement)"

definition mark_match :: "glossary_rule \<Rightarrow> nat \<Rightarrow> ranges \<times> glossary_report list \<Rightarrow> ranges \<times> glossary_report list" where
  "mark_match rule i st = (case st of (occupied, reports) \<Rightarrow>
     let p = ex_pattern (gr_expression rule); stop = i + length p in
     if overlaps occupied i stop then st
     else (occupied @ [(i, stop)], reports @ (case fix_of rule of None \<Rightarrow> []
       | Some r \<Rightarrow> [\<lparr>rp_match = p, rp_fix = r, rp_formal = gr_formal rule, rp_index = i\<rparr>])))"

definition mark_rule :: "string \<Rightarrow> glossary_rule \<Rightarrow> ranges \<times> glossary_report list \<Rightarrow> ranges \<times> glossary_report list" where
  "mark_rule source rule st = fold (mark_match rule) (matchAll (gr_expression rule) source) st"

definition check_text :: "glossary_rule list \<Rightarrow> glossary_rule list \<Rightarrow> string \<Rightarrow> ranges \<times> glossary_report list" where
  "check_text replacements identifiers source = fold (mark_rule source) (replacements @ identifiers) ([], [])"

text \<open>A node of the document: its value and its ancestors, each with whether it is a link and with its address.\<close>

record text_node =
  nd_value :: string
  nd_ancestors :: "(bool \<times> string option) list"

text \<open>\<open>/^[A-Za-z][A-Za-z0-9+.-]*:\/\//\<close>\<close>

definition scheme_char :: "char \<Rightarrow> bool" where
  "scheme_char c \<longleftrightarrow> alnum c \<or> c \<in> set ''+.-''"

definition has_scheme :: "string \<Rightarrow> bool" where
  "has_scheme s \<longleftrightarrow> s \<noteq> [] \<and> alnum (hd s) \<and> \<not> is_digit (hd s) \<and> starts_with (dropWhile scheme_char s) ''://''"

definition isLinkDestination :: "text_node \<Rightarrow> bool" where
  "isLinkDestination node = (case List.find fst (nd_ancestors node) of
     None \<Rightarrow> False
   | Some (_, url) \<Rightarrow> url = Some (nd_value node) \<or> has_scheme (nd_value node))"

definition reporter :: "glossary_rule list \<Rightarrow> glossary_rule list \<Rightarrow> text_node \<Rightarrow> string \<Rightarrow> glossary_report list" where
  "reporter replacements identifiers node source =
     (if isLinkDestination node then [] else snd (check_text replacements identifiers source))"

section \<open>Matches\<close>

lemma matches_are_matches: "i \<in> set (matches_from e s k) \<Longrightarrow> match_at e s i \<and> i \<le> length s"
proof (induction e s k rule: matches_from.induct)
  case (1 e s k)
  have "\<not> k > length s" using 1(3) by (auto simp: matches_from.simps [of e s k])
  show ?case
  proof (cases "match_at e s k")
    case True
    then have "matches_from e s k = k # matches_from e s (k + max 1 (length (ex_pattern e)))"
      using \<open>\<not> k > length s\<close> by (subst matches_from.simps) simp
    then consider "i = k" | "i \<in> set (matches_from e s (k + max 1 (length (ex_pattern e))))" using 1(3) by auto
    then show ?thesis using True 1(1) \<open>\<not> k > length s\<close> by cases auto
  next
    case False
    then have "matches_from e s k = matches_from e s (k + 1)" using \<open>\<not> k > length s\<close> by (subst matches_from.simps) simp
    then show ?thesis using False 1(2,3) \<open>\<not> k > length s\<close> by auto
  qed
qed

text \<open>No match is missed: one that is not listed starts inside a listed one.\<close>

lemma matches_complete:
  assumes "match_at e s j" "k \<le> j" "j \<le> length s"
  shows "\<exists>i \<in> set (matches_from e s k). i \<le> j \<and> j < i + max 1 (length (ex_pattern e))"
  using assms
proof (induction e s k rule: matches_from.induct)
  case (1 e s k)
  let ?l = "max 1 (length (ex_pattern e))"
  show ?case
  proof (cases "match_at e s k")
    case True
    then have m: "matches_from e s k = k # matches_from e s (k + ?l)" using 1(4,5) by (subst matches_from.simps) simp
    show ?thesis
    proof (cases "j < k + ?l")
      case True
      then show ?thesis using 1(4) unfolding m by simp
    next
      case False
      have "\<exists>i \<in> set (matches_from e s (k + ?l)). i \<le> j \<and> j < i + ?l"
        by (rule 1(1)) (use \<open>match_at e s k\<close> False 1(3-5) in auto)
      then show ?thesis unfolding m by simp
    qed
  next
    case False
    then have m: "matches_from e s k = matches_from e s (k + 1)" using 1(4,5) by (subst matches_from.simps) simp
    have "k + 1 \<le> j" using False 1(3,4) by (cases "k = j") auto
    show ?thesis unfolding m by (rule 1(2)) (use False \<open>k + 1 \<le> j\<close> 1(3-5) in auto)
  qed
qed

section \<open>Ranges\<close>

definition apart :: "nat \<times> nat \<Rightarrow> nat \<times> nat \<Rightarrow> bool" where
  "apart r q \<longleftrightarrow> snd r \<le> fst q \<or> snd q \<le> fst r"

lemma overlaps_apart: "overlaps occupied i j \<longleftrightarrow> \<not> list_all (\<lambda>r. apart r (i, j)) occupied"
  by (force simp: overlaps_def apart_def list_ex_iff list_all_iff not_le)

text \<open>The range of a report.\<close>

definition report_range :: "glossary_report \<Rightarrow> nat \<times> nat" where
  "report_range r = (rp_index r, rp_index r + length (rp_match r))"

text \<open>What a report says is so: it marks a match of a rule, and the fix is the rule's.\<close>

definition reports_rule :: "glossary_rule list \<Rightarrow> string \<Rightarrow> glossary_report \<Rightarrow> bool" where
  "reports_rule rules source r \<longleftrightarrow> (\<exists>rule \<in> set rules. rp_match r = ex_pattern (gr_expression rule) \<and> match_at (gr_expression rule) source (rp_index r)
     \<and> fix_of rule = Some (rp_fix r) \<and> rp_formal r = gr_formal rule)"

text \<open>An occupied range is reported, or holds a replacement.\<close>

definition settled :: "glossary_rule list \<Rightarrow> string \<Rightarrow> glossary_report list \<Rightarrow> nat \<times> nat \<Rightarrow> bool" where
  "settled rules source reports q \<longleftrightarrow> q \<in> report_range ` set reports
     \<or> (\<exists>rule \<in> set rules. gr_replacement rule = Some (ex_pattern (gr_expression rule)) \<and> match_at (gr_expression rule) source (fst q)
          \<and> snd q = fst q + length (ex_pattern (gr_expression rule)))"

definition scanned :: "glossary_rule list \<Rightarrow> string \<Rightarrow> ranges \<times> glossary_report list \<Rightarrow> bool" where
  "scanned rules source st \<longleftrightarrow> (case st of (occupied, reports) \<Rightarrow>
     sorted_wrt apart occupied \<and> subseq (map report_range reports) occupied \<and> list_all (reports_rule rules source) reports
   \<and> list_all (settled rules source reports) occupied)"

lemma mark_match_scanned:
  assumes "scanned rules source st" "rule \<in> set rules" "match_at (gr_expression rule) source i"
  shows "scanned rules source (mark_match rule i st)"
proof -
  obtain occupied reports where st: "st = (occupied, reports)" by (cases st)
  let ?p = "ex_pattern (gr_expression rule)" and ?stop = "i + length (ex_pattern (gr_expression rule))"
  note inv = assms(1) [unfolded scanned_def st prod.case]
  show ?thesis
  proof (cases "overlaps occupied i ?stop")
    case True
    then show ?thesis using assms(1) by (simp add: mark_match_def st)
  next
    case False
    then have apart: "\<forall>r \<in> set occupied. apart r (i, ?stop)" by (simp add: overlaps_apart list_all_iff)
    show ?thesis
    proof (cases "fix_of rule")
      case None
      then have "gr_replacement rule = Some ?p" by (auto simp: fix_of_def Let_def split: option.splits if_splits)
      then have "settled rules source reports (i, ?stop)" using assms(2,3) by (auto simp: settled_def)
      moreover have "subseq (map report_range reports) (occupied @ [(i, ?stop)])" using inv subseq_order.trans subseq_append' by blast
      ultimately show ?thesis using inv apart False None unfolding scanned_def by (simp add: mark_match_def st sorted_wrt_append)
    next
      case (Some r)
      let ?r = "\<lparr>rp_match = ?p, rp_fix = r, rp_formal = gr_formal rule, rp_index = i\<rparr>"
      have new: "reports_rule rules source ?r" using assms(2,3) Some by (auto simp: reports_rule_def)
      have range: "report_range ?r = (i, ?stop)" by (simp add: report_range_def)
      have settled: "settled rules source (reports @ [?r]) q" if "settled rules source reports q" for q using that by (auto simp: settled_def)
      have new_settled: "settled rules source (reports @ [?r]) (i, ?stop)" by (simp add: settled_def report_range_def)
      have m: "mark_match rule i st = (occupied @ [(i, ?stop)], reports @ [?r])" using False Some by (simp add: mark_match_def st Let_def)
      show ?thesis unfolding m scanned_def prod.case
        using inv apart range new new_settled settled by (auto simp: sorted_wrt_append list_all_iff)
    qed
  qed
qed

lemma fold_induct: "P st \<Longrightarrow> (\<And>x st. x \<in> set xs \<Longrightarrow> P st \<Longrightarrow> P (f x st)) \<Longrightarrow> P (fold f xs st)"
  by (induction xs arbitrary: st) auto

lemma mark_rule_scanned: "scanned rules source st \<Longrightarrow> rule \<in> set rules \<Longrightarrow> scanned rules source (mark_rule source rule st)"
  unfolding mark_rule_def matchAll_def
  by (rule fold_induct) (use mark_match_scanned matches_are_matches in blast)+

lemma check_text_scanned: "scanned (replacements @ identifiers) source (check_text replacements identifiers source)"
proof -
  have "scanned (replacements @ identifiers) source ([], [])" by (simp add: scanned_def)
  then show ?thesis unfolding check_text_def by (rule fold_induct) (rule mark_rule_scanned)
qed

text \<open>Every match of every rule is looked at: afterwards its range is occupied, at least in part.\<close>

lemma mark_match_grows: "set (fst st) \<subseteq> set (fst (mark_match rule i st))"
  by (auto simp: mark_match_def Let_def split: prod.splits)

lemma mark_rule_grows: "set (fst st) \<subseteq> set (fst (mark_rule source rule st))"
  unfolding mark_rule_def
  by (rule fold_induct [where P = "\<lambda>st'. set (fst st) \<subseteq> set (fst st')"]) (use mark_match_grows in \<open>blast+\<close>)

lemma overlaps_mono: "overlaps occupied i j \<Longrightarrow> set occupied \<subseteq> set occupied' \<Longrightarrow> overlaps occupied' i j"
  by (fastforce simp: overlaps_def list_ex_iff)

lemma mark_match_covers:
  assumes "ex_pattern (gr_expression rule) \<noteq> []"
  shows "overlaps (fst (mark_match rule i st)) i (i + length (ex_pattern (gr_expression rule)))"
  using assms by (auto simp: mark_match_def Let_def overlaps_def list_ex_iff split: prod.splits)

lemma fold_covers:
  assumes "x \<in> set xs" "\<And>st. P (f x st)" "\<And>y st. P st \<Longrightarrow> P (f y st)"
  shows "P (fold f xs st)"
  using assms(1)
proof (induction xs arbitrary: st)
  case (Cons y xs)
  have keep: "P st \<Longrightarrow> P (fold f xs st)" for st using assms(3) by (induction xs arbitrary: st) auto
  show ?case
  proof (cases "y = x")
    case True
    then show ?thesis using keep [OF assms(2)] by simp
  next
    case False
    then show ?thesis using Cons by simp
  qed
qed simp

lemma check_text_covers:
  assumes "rule \<in> set (replacements @ identifiers)" "ex_pattern (gr_expression rule) \<noteq> []" "i \<in> set (matchAll (gr_expression rule) source)"
  shows "overlaps (fst (check_text replacements identifiers source)) i (i + length (ex_pattern (gr_expression rule)))"
proof -
  have one: "overlaps (fst (mark_rule source rule st)) i (i + length (ex_pattern (gr_expression rule)))" for st
    unfolding mark_rule_def
    by (rule fold_covers [OF assms(3), of "\<lambda>st. overlaps (fst st) i (i + length (ex_pattern (gr_expression rule)))"])
      (rule mark_match_covers [OF assms(2)], rule overlaps_mono [OF _ mark_match_grows])
  show ?thesis unfolding check_text_def
    by (rule fold_covers [OF assms(1), of "\<lambda>st. overlaps (fst st) i (i + length (ex_pattern (gr_expression rule)))"])
      (rule one, rule overlaps_mono [OF _ mark_rule_grows])
qed

end
