(* ===== verification/Doc_Props.thy ===== *)
theory Doc_Props
  imports Doc_Tools Glossary Task_Tools_Props
begin

text \<open>
  What the documentation tools guarantee: the language of a glob, the files that are listed, and the lints that run.
\<close>

section \<open>The language of a glob\<close>

text \<open>The words a piece stands for.\<close>

fun piece_word :: "glob_token \<Rightarrow> int list \<Rightarrow> bool" where
  "piece_word (Literal c) w = (w = c)"
| "piece_word OneChar w = (\<exists>u. w = [u] \<and> u \<noteq> slash)"
| "piece_word AnyName w = (slash \<notin> set w)"
| "piece_word AnyChars w = (\<forall>u \<in> set w. \<not> line_end u)"
| "piece_word AnyDirs w = (w = [] \<or> (\<exists>v. w = v @ [slash] \<and> (\<forall>u \<in> set v. \<not> line_end u)))"

text \<open>A glob matches the texts that fall into words of its pieces.\<close>

definition glob_language :: "glob_token list \<Rightarrow> int list \<Rightarrow> bool" where
  "glob_language ts s \<longleftrightarrow> (\<exists>ws. list_all2 piece_word ts ws \<and> s = concat ws)"

lemma glob_language_simps [simp]: "glob_language [] s \<longleftrightarrow> s = []"
  "glob_language (t # ts) s \<longleftrightarrow> (\<exists>w r. s = w @ r \<and> piece_word t w \<and> glob_language ts r)"
proof -
  show "glob_language (t # ts) s \<longleftrightarrow> (\<exists>w r. s = w @ r \<and> piece_word t w \<and> glob_language ts r)"
  proof
    show "glob_language (t # ts) s \<Longrightarrow> \<exists>w r. s = w @ r \<and> piece_word t w \<and> glob_language ts r"
      unfolding glob_language_def list_all2_Cons1 by (elim exE conjE) (rule exI, rule exI, auto)
    assume "\<exists>w r. s = w @ r \<and> piece_word t w \<and> glob_language ts r"
    then obtain w ws where "s = w @ concat ws" "piece_word t w" "list_all2 piece_word ts ws" unfolding glob_language_def by auto
    then show "glob_language (t # ts) s" unfolding glob_language_def by (intro exI [of _ "w # ws"]) simp
  qed
qed (simp add: glob_language_def)

lemma prefix_run: "(\<exists>k \<le> length (takeWhile P s). Q (drop k s)) \<longleftrightarrow> (\<exists>w r. s = w @ r \<and> (\<forall>u \<in> set w. P u) \<and> Q r)"
proof
  assume "\<exists>k \<le> length (takeWhile P s). Q (drop k s)"
  then obtain k where k: "k \<le> length (takeWhile P s)" "Q (drop k s)" by blast
  then have "take k s = take k (takeWhile P s)" by (metis append_eq_conv_conj length_take min.absorb2 take_append take_take takeWhile_dropWhile_id takeWhile_eq_take)
  then have "\<forall>u \<in> set (take k s). P u" by (metis in_set_takeD set_takeWhileD)
  then show "\<exists>w r. s = w @ r \<and> (\<forall>u \<in> set w. P u) \<and> Q r" using k(2) by (intro exI [of _ "take k s"] exI [of _ "drop k s"]) simp
next
  assume "\<exists>w r. s = w @ r \<and> (\<forall>u \<in> set w. P u) \<and> Q r"
  then obtain w r where "s = w @ r" "\<forall>u \<in> set w. P u" "Q r" by blast
  then show "\<exists>k \<le> length (takeWhile P s). Q (drop k s)" by (intro exI [of _ "length w"]) (simp add: takeWhile_append2)
qed

lemma upto_run: "list_ex R [0..<Suc n] \<longleftrightarrow> (\<exists>k \<le> n. R k)"
  by (auto simp: list_ex_iff less_Suc_eq_le simp del: upt_Suc)

lemma dirs_run: "list_ex (\<lambda>k. s ! k = c \<and> Q (drop (Suc k) s)) [0..<length (takeWhile P s)]
    \<longleftrightarrow> (\<exists>v r. s = v @ c # r \<and> (\<forall>u \<in> set v. P u) \<and> P c \<and> Q r)"
proof
  assume "list_ex (\<lambda>k. s ! k = c \<and> Q (drop (Suc k) s)) [0..<length (takeWhile P s)]"
  then obtain k where k: "k < length (takeWhile P s)" "s ! k = c" "Q (drop (Suc k) s)" by (auto simp: list_ex_iff)
  have l: "k < length s" using k(1) length_takeWhile_le [of P s] by linarith
  have at: "P (s ! j)" if "j \<le> k" for j using k(1) that by (metis nth_mem order_le_less_trans set_takeWhileD takeWhile_nth)
  have "s = take k s @ c # drop (Suc k) s" using id_take_nth_drop [OF l] k(2) by simp
  moreover have "\<forall>u \<in> set (take k s). P u" using at l by (auto simp: in_set_conv_nth)
  ultimately show "\<exists>v r. s = v @ c # r \<and> (\<forall>u \<in> set v. P u) \<and> P c \<and> Q r" using at [of k] k(2,3) by blast
next
  assume "\<exists>v r. s = v @ c # r \<and> (\<forall>u \<in> set v. P u) \<and> P c \<and> Q r"
  then obtain v r where "s = v @ c # r" "\<forall>u \<in> set v. P u" "P c" "Q r" by blast
  then show "list_ex (\<lambda>k. s ! k = c \<and> Q (drop (Suc k) s)) [0..<length (takeWhile P s)]"
    by (auto simp: list_ex_iff takeWhile_append2 nth_append intro!: bexI [of _ "length v"])
qed

lemma tokens_match_language: "tokens_match ts s \<longleftrightarrow> glob_language ts s"
proof (induction ts arbitrary: s)
  case (Cons t ts)
  show ?case
  proof (cases t)
    case AnyDirs
    have slash: "\<not> line_end slash" by (simp add: line_end_def)
    have "tokens_match (t # ts) s \<longleftrightarrow> glob_language ts s \<or> (\<exists>v r. s = v @ slash # r \<and> (\<forall>u \<in> set v. \<not> line_end u) \<and> \<not> line_end slash \<and> glob_language ts r)"
      unfolding AnyDirs tokens_match.simps dirs_run Cons.IH by (rule refl)
    also have "\<dots> \<longleftrightarrow> (\<exists>w r. s = w @ r \<and> (w = [] \<or> (\<exists>v. w = v @ [slash] \<and> (\<forall>u \<in> set v. \<not> line_end u))) \<and> glob_language ts r)" (is "?a \<longleftrightarrow> ?b")
    proof
      assume ?a
      then consider "glob_language ts s" | v r where "s = (v @ [slash]) @ r" "\<forall>u \<in> set v. \<not> line_end u" "glob_language ts r" by auto
      then show ?b
      proof cases
        case 1
        then show ?thesis by (intro exI [of _ "[]"] exI [of _ s]) simp
      next
        case (2 v r)
        then show ?thesis by blast
      qed
    next
      assume ?b
      then obtain w r where "s = w @ r" "w = [] \<or> (\<exists>v. w = v @ [slash] \<and> (\<forall>u \<in> set v. \<not> line_end u))" "glob_language ts r" by blast
      then consider "glob_language ts s" | v where "s = v @ slash # r" "\<forall>u \<in> set v. \<not> line_end u" "glob_language ts r" by auto
      then show ?a using slash by cases blast+
    qed
    finally show ?thesis unfolding AnyDirs by simp
  next
    case AnyChars
    show ?thesis unfolding AnyChars tokens_match.simps upto_run prefix_run Cons.IH by simp
  next
    case AnyName
    show ?thesis unfolding AnyName tokens_match.simps upto_run prefix_run Cons.IH by (simp, metis)
  next
    case OneChar
    have "glob_language (OneChar # ts) s \<longleftrightarrow> (\<exists>u r. s = u # r \<and> u \<noteq> slash \<and> glob_language ts r)" by (simp, metis append_Cons append_Nil)
    then show ?thesis unfolding OneChar by (cases s) (auto simp: Cons.IH)
  next
    case (Literal c)
    show ?thesis unfolding Literal by (auto simp: Cons.IH) (metis append_take_drop_id)
  qed
qed simp

section \<open>The documentation files\<close>

definition listed_by_git :: "string \<Rightarrow> string \<Rightarrow> event list \<Rightarrow> bool" where
  "listed_by_git rootdir file es \<longleftrightarrow> (\<exists>out err. (Spawn ''git'' [''ls-files'', ''-z'', ''--cached'', ''--others'', ''--exclude-standard'', ''--'', ''*.md''] rootdir [],
     RProc (Some 0) out err) \<in> set es \<and> file \<in> set (split_char nul out))"

text \<open>A file is in the scope of the documentation.\<close>

definition in_scope :: "jsval \<Rightarrow> string \<Rightarrow> bool" where
  "in_scope scope file \<longleftrightarrow> (\<exists>sources excludes. map_R globToRegExp (arr_items (js_field scope ''sources'')) = Inr sources
     \<and> map_R globToRegExp (arr_items (js_field scope ''excludes'')) = Inr excludes
     \<and> list_ex (\<lambda>p. glob_language p (utf16_of file)) sources \<and> list_all (\<lambda>p. \<not> glob_language p (utf16_of file)) excludes)"

lemma filter_I_ok: "runs (filter_I P xs) es (Inr ys) \<Longrightarrow> y \<in> set ys \<Longrightarrow> y \<in> set xs \<and> (\<exists>es1. set es1 \<subseteq> set es \<and> runs (P y) es1 (Inr True))"
proof (induction xs arbitrary: es ys)
  case (Cons x xs)
  from Cons.prems(1) obtain e1 e2 yes zs where r: "es = e1 @ e2" "runs (P x) e1 (Inr yes)" "runs (filter_I P xs) e2 (Inr zs)"
    "ys = (if yes then x # zs else zs)" by (auto simp: ok_runs)
  show ?case
  proof (cases "y \<in> set zs")
    case True
    from Cons.IH [OF r(3) this] show ?thesis using r(1) by auto
  next
    case False
    then have "y = x" "yes" using Cons.prems(2) r(4) by (auto split: if_splits)
    then show ?thesis using r(1,2) by auto
  qed
qed simp

lemma list_files_ok: "runs (list_files rootdir) es (Inr files) \<Longrightarrow> file \<in> set files \<Longrightarrow> listed_by_git rootdir file es"
  unfolding list_files_def listed_by_git_def by (auto simp: ok_runs split: if_splits)

text \<open>What a listed file is: the scope is that of the glossary that was read, git listed the file, it is in scope,
  and where the scope is Japanese its text has Japanese letters.\<close>

definition documents :: "host \<Rightarrow> string \<Rightarrow> string \<Rightarrow> event list \<Rightarrow> bool" where
  "documents h rootdir file es \<longleftrightarrow> (\<exists>glossary scope t. (ReadFile (path_join rootdir ''docs/glossary.yml''), RText t) \<in> set es
     \<and> h_yaml h t = Inr glossary \<and> scope = js_field glossary ''scope'' \<and> listed_by_git rootdir file es \<and> in_scope scope file
     \<and> (js_field scope ''language'' = JStr ''japanese'' \<longrightarrow>
          (\<exists>content. (ReadFile (path_join rootdir file), RText content) \<in> set es \<and> is_japanese content)))"

lemma items_of_arr: "items_of v = Inr xs \<Longrightarrow> xs = arr_items v"
  by (auto simp: items_of_def split: if_splits)

lemma documentationFiles_ok:
  assumes "runs (documentationFiles h rootdir) es (Inr files)" "file \<in> set files"
  shows "documents h rootdir file es"
proof -
  from assms(1) obtain e1 e2 e3 scope sources excludes listed kept where r: "es = e1 @ e2 @ e3"
    "runs (documentation_scope h rootdir) e1 (Inr scope)"
    "bindR (js_get scope ''sources'') (\<lambda>v. bindR (items_of v) (map_R globToRegExp)) = Inr sources"
    "bindR (items_of (js_field scope ''excludes'')) (map_R globToRegExp) = Inr excludes"
    "runs (list_files rootdir) e2 (Inr listed)"
    "runs (filter_I (\<lambda>f. if js_field scope ''language'' \<noteq> JStr ''japanese'' then Ret True
       else bindI (read_file (path_join rootdir f)) (\<lambda>content. Ret (is_japanese content)))
       (filter (\<lambda>f. list_ex (\<lambda>p. tokens_match p (utf16_of f)) sources \<and> \<not> list_ex (\<lambda>p. tokens_match p (utf16_of f)) excludes) listed)) e3 (Inr kept)"
    "files = sort kept"
    unfolding documentationFiles_def Let_def by - (elim ok_elims, rule that, (assumption | simp)+)
  from r(2) obtain t glossary where g: "(ReadFile (path_join rootdir ''docs/glossary.yml''), RText t) \<in> set e1"
    "h_yaml h t = Inr glossary" "scope = js_field glossary ''scope''"
    unfolding documentation_scope_def by (auto simp: ok_runs dest!: sym [of "Inr _"])
  have "file \<in> set kept" using assms(2) r(7) by simp
  from filter_I_ok [OF r(6) this] obtain es1 where f: "file \<in> set listed" "list_ex (\<lambda>p. tokens_match p (utf16_of file)) sources"
    "\<not> list_ex (\<lambda>p. tokens_match p (utf16_of file)) excludes" "set es1 \<subseteq> set e3"
    "runs (if js_field scope ''language'' \<noteq> JStr ''japanese'' then Ret True
       else bindI (read_file (path_join rootdir file)) (\<lambda>content. Ret (is_japanese content))) es1 (Inr True)" by auto
  have "in_scope scope file"
    unfolding in_scope_def using r(3,4) f(2,3)
    by (auto simp: bindR_Inr_iff tokens_match_language list_ex_iff list_all_iff dest!: items_of_arr)
  moreover have "listed_by_git rootdir file es" using list_files_ok [OF r(5) f(1)] r(1) by (auto simp: listed_by_git_def)
  moreover have "js_field scope ''language'' = JStr ''japanese'' \<longrightarrow> (\<exists>content. (ReadFile (path_join rootdir file), RText content) \<in> set es \<and> is_japanese content)"
  proof
    assume "js_field scope ''language'' = JStr ''japanese''"
    then obtain content where "es1 = [(ReadFile (path_join rootdir file), RText content)]" "is_japanese content" using f(5) by (auto simp: ok_runs)
    then show "\<exists>content. (ReadFile (path_join rootdir file), RText content) \<in> set es \<and> is_japanese content" using f(4) r(1) by auto
  qed
  ultimately show ?thesis unfolding documents_def using g r(1) by auto
qed

section \<open>The lints\<close>

lemma run_lint_runs: "runs (run_lint cwd cache c) es out \<longleftrightarrow>
     (\<exists>status t u. es = [(lint_op cwd cache c, RProc status t u)] \<and> out = Inr (status \<noteq> Some 0))
   \<or> (\<exists>r w. (\<forall>status t u. r \<noteq> RProc status t u) \<and> out = Inr True
        \<and> es = [(lint_op cwd cache c, r), (Stderr (''doc lint command failed to start'' @ [newline]), w)])"
  (is "?l \<longleftrightarrow> ?r")
proof
  show "?l \<Longrightarrow> ?r" unfolding run_lint_def runs_Op_iff
    by (elim exE conjE) (rename_tac r es', case_tac r, auto simp: print_err_def)
  show "?r \<Longrightarrow> ?l" unfolding run_lint_def runs_Op_iff
    by (elim disjE exE conjE) (simp, rename_tac r w, case_tac r, auto simp: print_err_def)
qed

definition succeeded :: "event list \<Rightarrow> op \<Rightarrow> bool" where
  "succeeded es p \<longleftrightarrow> (\<exists>t u. (p, RProc (Some 0) t u) \<in> set es)"

lemma run_lints_runs:
  assumes "runs (run_lints cwd cache cs failed) es out"
  shows "filter (\<lambda>p. case p of Stderr t \<Rightarrow> False | _ \<Rightarrow> True) (map fst es) = map (lint_op cwd cache) cs
    \<and> (\<exists>f. out = Inr f \<and> (\<not> f \<longrightarrow> \<not> failed \<and> list_all (succeeded es) (map (lint_op cwd cache) cs)))"
  using assms
proof (induction cs arbitrary: failed es)
  case (Cons c cs)
  from Cons.prems obtain e1 e2 f where r: "es = e1 @ e2" "runs (run_lint cwd cache c) e1 (Inr f)" "runs (run_lints cwd cache cs (failed \<or> f)) e2 out"
    unfolding run_lints.simps by (cases rule: runs_bind_cases) (auto simp: run_lint_runs)
  from r(2) have "filter (\<lambda>p. case p of Stderr t \<Rightarrow> False | _ \<Rightarrow> True) (map fst e1) = [lint_op cwd cache c]" "\<not> f \<longrightarrow> succeeded e1 (lint_op cwd cache c)"
    by (auto simp: run_lint_runs lint_op_def succeeded_def)
  then show ?case using Cons.IH [OF r(3)] unfolding r(1) by (fastforce simp: succeeded_def list_all_iff)
qed simp

lemma batches_concat: "n \<noteq> 0 \<Longrightarrow> concat (batches n xs) = xs"
  by (induction n xs rule: batches.induct) auto

end
