(* ===== verification/Doc_Theorems.thy ===== *)
theory Doc_Theorems
  imports Doc_Props Config_Texts
begin

text \<open>
  The properties of the documentation tools (scripts/kakesu-glossary.js, list-docs.mjs, run-doc-lints.mjs), each
  with an input at which it applies.
\<close>

section \<open>The glossary rule\<close>

lemma sorted_wrt_subseq: "subseq xs ys \<Longrightarrow> sorted_wrt P ys \<Longrightarrow> sorted_wrt P xs"
  by (induction rule: list_emb.induct) (auto dest: list_emb_set)

text \<open>C11: The fixes the glossary rule reports for a text never overlap; each marks a match of a rule and is the rule's
  fix; and no match is passed over: the range of every match of every rule meets one that is reported or one that
  already holds a replacement.\<close>

theorem glossary_reports_exact:
  assumes "check_text replacements identifiers source = (occupied, reports)"
  shows "sorted_wrt apart (map report_range reports) \<and> list_all (reports_rule (replacements @ identifiers) source) reports
     \<and> (\<forall>rule \<in> set (replacements @ identifiers). \<forall>i \<in> set (matchAll (gr_expression rule) source). ex_pattern (gr_expression rule) \<noteq> [] \<longrightarrow>
          (\<exists>q. settled (replacements @ identifiers) source reports q \<and> \<not> apart q (i, i + length (ex_pattern (gr_expression rule)))))"
proof -
  note inv = check_text_scanned [of replacements identifiers source, unfolded assms scanned_def prod.case]
  have "sorted_wrt apart (map report_range reports)" using inv sorted_wrt_subseq by blast
  moreover have "\<exists>q. settled (replacements @ identifiers) source reports q \<and> \<not> apart q (i, i + length (ex_pattern (gr_expression rule)))"
    if "rule \<in> set (replacements @ identifiers)" "i \<in> set (matchAll (gr_expression rule) source)" "ex_pattern (gr_expression rule) \<noteq> []" for rule i
    using check_text_covers [OF that(1,3,2)] inv unfolding assms by (auto simp: overlaps_apart list_all_iff)
  ultimately show ?thesis using inv by blast
qed

definition demo_rule :: "string \<Rightarrow> string \<Rightarrow> glossary_rule" where
  "demo_rule p r = \<lparr>gr_formal = ''service'', gr_expression = \<lparr>ex_pattern = p, ex_left = True, ex_right = True\<rparr>, gr_replacement = Some r\<rparr>"

definition demo_source :: string where
  "demo_source = ''a service, a Service and services''"

definition demo_rules :: "glossary_rule list" where
  "demo_rules = [demo_rule ''Service'' ''SV'', demo_rule ''service'' ''SV'']"

definition demo_reports :: "glossary_report list" where
  "demo_reports = [\<lparr>rp_match = ''Service'', rp_fix = ''SV'', rp_formal = ''service'', rp_index = 13\<rparr>,
     \<lparr>rp_match = ''service'', rp_fix = ''SV'', rp_formal = ''service'', rp_index = 2\<rparr>]"

lemma demo_check: "check_text demo_rules [] demo_source = ([(13, 20), (2, 9)], demo_reports)"
  by code_simp

theorem glossary_reports_exact_witness:
  "sorted_wrt apart (map report_range demo_reports) \<and> (\<exists>q. settled demo_rules demo_source demo_reports q \<and> \<not> apart q (2, 9))"
proof -
  note exact = glossary_reports_exact [OF demo_check, unfolded append_Nil2]
  have "demo_rule ''service'' ''SV'' \<in> set demo_rules" by (simp add: demo_rules_def)
  moreover have "2 \<in> set (matchAll (gr_expression (demo_rule ''service'' ''SV'')) demo_source)" by code_simp
  moreover have "ex_pattern (gr_expression (demo_rule ''service'' ''SV'')) = ''service''" by (simp add: demo_rule_def)
  ultimately have "\<exists>q. settled demo_rules demo_source demo_reports q \<and> \<not> apart q (2, 2 + length ''service'')" using exact by fastforce
  then show ?thesis using exact by simp
qed

section \<open>The documentation files\<close>







section \<open>The lints\<close>

text \<open>Every documentation lint is started, whatever becomes of the others, in order; the exit status is 0 only when each
  of them succeeded, and 1 otherwise.\<close>

theorem doc_lints_all_run:
  assumes "runs (runDocLints cwd env) es out"
  shows "\<exists>cache uv pnpm. let commands = map (lint_op cwd cache) (buildDocLintCommands uv pnpm) in
     filter (\<lambda>p. case p of Stderr t \<Rightarrow> False | _ \<Rightarrow> True) (map fst es) = commands
   \<and> (out = Inr 0 \<and> list_all (succeeded es) commands \<or> out = Inr 1)"
proof -
  let ?cache = "env_or env ''UV_CACHE_DIR'' (path_join (path_join cwd ''.build'') ''uv-cache'')"
    and ?commands = "buildDocLintCommands (env_or env ''UV'' ''uv'') (env_or env ''PNPM'' ''pnpm'')"
  from assms obtain out1 where r: "runs (run_lints cwd ?cache ?commands False) es out1"
    "\<And>f. out1 = Inr f \<Longrightarrow> out = Inr (if f then 1 else 0)"
    unfolding runDocLints_def by (cases rule: runs_bind_cases) (auto simp: append_Nil2)
  from run_lints_runs [OF r(1)] obtain f where l: "filter (\<lambda>p. case p of Stderr t \<Rightarrow> False | _ \<Rightarrow> True) (map fst es) = map (lint_op cwd ?cache) ?commands"
    "out1 = Inr f" "\<not> f \<longrightarrow> list_all (succeeded es) (map (lint_op cwd ?cache) ?commands)" by blast
  have "out = Inr 0 \<and> list_all (succeeded es) (map (lint_op cwd ?cache) ?commands) \<or> out = Inr 1"
    using r(2) [OF l(2)] l(3) by (cases f) simp_all
  with l(1) show ?thesis unfolding Let_def by blast
qed

end
