(* ===== verification/Spec2Isabelle.thy ===== *)
theory Spec2Isabelle
  imports Demo Lifecycle_Theorems Agent_Theorems Explorer Tabletop_Theorems Migrate_Theorems Doc_Theorems
begin

text \<open>
  \<^bold>\<open>What is verified.\<close>  The Agent harness of kakesu: the JavaScript that lets several people and agents work on one
  repository whose main worktree holds the evidence of every Task (backlog, plans, results, Wiki) and whose Task
  worktrees hold the product.  Its scripts (src/scripts/task) decide who may change which file, when a Task may pass
  from one status to the next, and what is committed, merged and pushed.  Beside them the development models the
  validator of the design's tabletop scenarios, the logical types of the design, the documentation tools and the
  glossary rule.

  \<^bold>\<open>The parts and how they interact.\<close>  A lifecycle command takes the work repository lock, changes files, runs the gates,
  commits, publishes and releases the lock.  The launchers of child agents do the same around a process they start.
  The gates are readers: \<open>checkTask\<close> for one Task, validate-work for the repository, which calls \<open>checkTask\<close> for every
  Task and compares the stored Wiki index with a fresh one.  A commit runs the hook, which checks once more what was
  staged; the launcher passes its rules, its file list and its digest to the hook in the environment of the commit.

  \<^item> src/scripts/task/lib.mjs: the theories Lib (arguments, ids, front matter, templates, \<open>git worktree list\<close>), Paths
    (Node's POSIX paths and \<open>resolveInside\<close>), Scope (\<open>isMainManagedPath\<close> and the three rule grammars), Host (\<open>git\<close>,
    \<open>run\<close>, \<open>output\<close>, YAML and JSON files, \<open>writeFileAtomic\<close>, \<open>changedFiles\<close>, the digest), Lock (\<open>acquireWorkRepoLock\<close>);
    Lock_Race has the interleavings of any number of its processes as an inductive step relation, Lock_Live its progress
  \<^item> src/scripts/task/check-task.mjs: Safety_Contract (plans and completions of Tasks that change no product) and
    Check_Task (every other block, in the order of the script)
  \<^item> src/scripts/task/unified-lifecycle.mjs: Evidence (\<open>evidenceCommit\<close>), Candidate (\<open>candidateCommit\<close>), Completion
    (\<open>completionGate\<close>), Publication (\<open>taskPr\<close>, \<open>scopeCheck\<close>, \<open>postMerge\<close>, \<open>syncMain\<close>), Task_Start (\<open>taskStart\<close>, sparse
    worktrees, the command line)
  \<^item> src/scripts/task/work-pre-commit.mjs: Commit_Hook;  validate-work.mjs: Validate_Work with the cycle search in
    Dependencies;  wiki-index.mjs: Wiki_Index
  \<^item> src/scripts/task/agent-routing.mjs: Routing (contracts, DEV selection, fixed routes, delegation), Routing_Config (the
    readers of the configuration, the adapter) and Work_Agent (launch evidence, doctor);  run-work-agent.mjs: Work_Agent;
    run-explorer-agent.mjs: Routing and Explorer;  run-work-config-sync.mjs: Config_Sync;  create-task.mjs, worktree.mjs,
    init-work.mjs: Task_Tools
  \<^item> src/scripts/task/migrate-operations.mjs: Migrate (manifest, copy, verification), Quarantine (freeze, unfreeze)
  \<^item> src/scripts/validate-tabletop-scenarios.mjs: Json_Schema (the schema validator), Tabletop (envelope, sequence
    invariants, state machines), Tabletop_Mutations (\<open>--mutation\<close>), Tabletop_Main (payloads, incident rules, sequence requirements, the script)
  \<^item> src/schemas/domain-types.ts: Domain_Types and Domain_Policy;  Domain_Machines relates its statuses to the machines
  \<^item> src/scripts/kakesu-glossary.js: Glossary;  list-docs.mjs, lint-docs.mjs, run-doc-lints.mjs and
    build-tabletop-viewer-data.mjs: Doc_Tools

  Prelude, Js_Values, Patterns, View and Io are the language: results, strings, the values of YAML and JSON documents
  with JavaScript's operators, regular expressions, what a reader sees, and programs with effects.

  \<^bold>\<open>How code becomes definitions.\<close>  A definition has its function's name where HOL allows it; the blocks of a long
  function are definitions of their own, composed in its order.
  \<^item> A pure function that throws returns \<open>js_error + 'a\<close>.  An error is \<open>Err message values\<close>: the fixed text of the message and
    the values its template inserts.  A checker that pushes messages and may throw is a list of messages with such a result.
  \<^item> A program that starts processes or touches files is a tree (\<open>'a io\<close>): it returns, throws, or asks an operation and
    continues with the response.  \<open>runs m events outcome\<close> holds of every sequence of operations and responses the program
    can produce; responses are unconstrained, so a theorem over \<open>runs\<close> holds whatever git, the file system and the
    children answer, failures at every point included.  \<open>exec\<close> runs a program against a given environment; the witnesses
    use it.
  \<^item> A gate that only reads takes a \<open>view\<close>, the answers of the file system and of git as functions.
  \<^item> A string is the list of the bytes of its UTF-8 encoding.  Equality, prefixes and splitting at ASCII characters are
    JavaScript's; lengths that count UTF-16 units are computed as such; \<open>sort\<close> orders bytes, which differs from UTF-16 order
    only between characters beyond U+FFFF and those from U+E000 up.  An object is the list of its own properties, a
    number a rational; the scripts compute no value that could be NaN or lose precision where it is kept as a number.
  \<^item> The environment of a child process is the list of variables the code adds to its own.

  \<^bold>\<open>Parameters.\<close>  What is not in the repository is an argument: the \<open>host\<close> record has the YAML and JSON parsers and
  printers, SHA-256, \<open>Date.parse\<close>, the current date in a time zone (\<open>Intl\<close>), the JSON Schema check of ajv, the process id, the working
  directory and the depth of the call stack; the \<open>bench\<close> of the tabletop validator has its parsed documents, regular
  expressions, \<open>Date.parse\<close> and \<open>net.isIP\<close>.  git, gh, codex, make, uv and pnpm are commands of the runs.  A theorem that needs
  something of them states it as a hypothesis, and its witness has a concrete instance.

  \<^bold>\<open>Interfaces.\<close>  \<open>scope_rules\<close> (Scope) is the contract of a rule grammar, interpreted on the grammars of the lifecycle, of the
  hook, of the child check and of the main-managed paths.  \<open>locked_transaction\<close> (Transaction) is a writer of the work repository: an entry
  that does not write, a preparation that reads, a block that keeps the lock.  It gives the shape of every run, that writes happen
  under the lock, and that the lock is released; it is interpreted on \<open>evidenceCommit\<close>, \<open>candidateCommit\<close>, \<open>completionGate\<close>, the launcher, the
  configuration synchronisation, the worktree command and the Wiki index.  \<open>launching\<close> (Work_Agent_Props) is a property of operations
  that starting a process and printing have; a launcher does nothing else under the lock.

  \<^bold>\<open>The groups of theorems.\<close>  A theory X_Props has the lemmas of X, X_Demo and X_Runs concrete inputs (Config_Files and Config_Texts those of the launchers), X_Theorems the
  properties with their witnesses; the properties of the gates, of the lock and of the pure functions are below.
  \<^item> Publication is gated: C1, C3, C16, C19, C26, C28, C29 say what was checked before the one commit of a command; C33, C34 and
    C37 what the scope check, the synchronisation and the hook let through
  \<^item> Exclusion: C2 and C30 (writes under the lock), C4 and C5 (who holds it, and the race of its takeover), C40 (progress)
  \<^item> Failure: C17, C18, C21, C27, C31, C32 and C36 say what is undone or kept for a recovery, C25 what is lost
  \<^item> The gates: C6, C7, C8, C10 and C38 say what holds of an accepted Task or repository, C35 that a new Task is acceptable
  \<^item> Functions and their specifications: C9, C11, C12, C14, C15, C24
  \<^item> The tabletop validator: C13, C20, C22 and C23, the last on the depth of its recursion
  \<^item> Termination: C23 and C39, the dependency search

  \<^bold>\<open>Bounds and fuel.\<close>  The three pushes of \<open>push_loop\<close> are the code's own bound, and the definition's measure.  \<open>h_stack\<close> and \<open>tb_stack\<close>
  are the depth of the call stack: \<open>markdownFiles\<close> (and the walks of the migration and of the validator) and the schema validator throw JavaScript's stack overflow when
  it is used up, as the process does; C23 shows that a schema without references needs no more depth than its size.  \<open>strip\<close> and
  \<open>space_splits\<close> take the length of the text as fuel, and consume a byte with every step.  The dependency search is a total
  function, its measure the ids not yet finished (C39).

  \<^bold>\<open>Not modelled.\<close>  The Go, Rust and Python parts of the repository (the development models its JavaScript and TypeScript); the test
  suites; build-backlog-viewer.mjs, an HTML page whose percentages are IEEE arithmetic (its escaping function is in Lib);
  \<open>assertBootstrapBinding\<close> of unified-lifecycle.mjs, which nothing calls; the printing of a command's result as JSON by the
  lifecycle command line; the catch blocks that print an error and set the exit status of a script.
\<close>

section \<open>The evidence transaction\<close>



lemma demo_node: "h_node (demo_host p) \<noteq> ''git''"
  by (simp add: demo_host_def)


text \<open>C2: A run of \<open>evidenceCommit\<close> changes the repository or its remote only while it holds the
  work repository lock, and a run that changed anything ends with the removal of the lock.\<close>

theorem evidence_writes_under_lock:
  assumes "runs (evidenceCommit h q) es out" and "\<exists>e \<in> set es. git_write (fst e)"
  shows "\<exists>lock r. guarded lock False es \<and> last es = (Rm lock, r)"
  using assms by (rule evidence_guarded)

theorem evidence_writes_under_lock_witness:
  "\<exists>lock r. guarded lock False (fst demo_run) \<and> last (fst demo_run) = (Rm lock, r)"
  by (rule evidence_writes_under_lock [OF demo_run_runs]) (use demo_run_writes(1) in \<open>simp add: list_ex_iff\<close>)

text \<open>C3: \<open>evidenceCommit\<close> pushes at most three times, never when it was told not to, and reports a
  publication only after a push that succeeded, with the number of retries before it.\<close>

theorem evidence_push_bound:
  assumes "runs (evidenceCommit h q) es out" "h_node h \<noteq> ''git''"
  shows "pushes q es \<le> (if rq_push q then 3 else 0)
    \<and> (\<forall>res. out = Inr res \<longrightarrow> er_pushed res \<longrightarrow> (\<exists>k. er_retries res = Some k \<and> pushes q es = k + 1)
         \<and> (\<exists>p t u. push_op q p \<and> (p, RProc (Some 0) t u) \<in> set es))"
  using evidence_pushes [OF assms] by blast

theorem evidence_push_bound_witness:
  "pushes demo_request (fst demo_run) \<le> 3 \<and> (\<exists>res. snd demo_run = Inr res \<and> er_pushed res)"
  using evidence_push_bound [OF demo_run_runs demo_node] demo_run_result by (auto split: if_splits)

text \<open>C4: As long as no process that ever created the lock directory has ended, the interleaved
  processes never hold the lock together.\<close>

theorem lock_mutual_exclusion:
  assumes "lock_reach g s" "setting_ok g" "\<forall>c \<in> lk_created s. lk_phase s c \<noteq> Gone"
    and "lk_phase s p = Critical" "lk_phase s q = Critical"
  shows "p = q"
  using assms by (rule holders_unique)

theorem lock_mutual_exclusion_witness:
  "\<exists>s. lock_reach demo_setting s \<and> lk_phase s 0 = Critical \<and> (\<forall>p. lk_phase s p = Critical \<longrightarrow> p = 0)"
proof -
  obtain s where s: "run_schedule demo_setting (take 6 race_schedule) no_lock = Some s" "lk_phase s 0 = Critical"
    "lk_created s = {0}"
    using single_run [OF demo_setting_ok] by (auto simp: demo_setting_def)
  have r: "lock_reach demo_setting s" by (rule run_schedule_reach [OF s(1) reach_init])
  have c: "\<forall>c \<in> lk_created s. lk_phase s c \<noteq> Gone" using s(2,3) by simp
  have "\<forall>p. lk_phase s p = Critical \<longrightarrow> p = 0"
    using lock_mutual_exclusion [OF r demo_setting_ok c _ s(2)] by blast
  then show ?thesis using r s(2) by blast
qed

text \<open>C5: The takeover of a lock whose owner has ended is not atomic: processes that follow the
  program, none of which crashes, reach a state in which two of them hold the lock.\<close>

theorem lock_takeover_race:
  assumes "setting_ok g" "st_main g" "\<not> st_clean g"
  shows "\<exists>s. lock_reach g s \<and> lk_phase s 1 = Critical \<and> lk_phase s 2 = Critical"
  using race_run [OF assms] run_schedule_reach reach_init by blast

theorem lock_takeover_race_witness:
  "\<exists>s. lock_reach demo_setting s \<and> lk_phase s 1 = Critical \<and> lk_phase s 2 = Critical"
  by (rule lock_takeover_race [OF demo_setting_ok]) (simp_all add: demo_setting_def)

section \<open>The Task gate\<close>

text \<open>C6: A product Task that \<open>checkTask\<close> accepts as done, and that is not a Task completed under the
  former rules, has QA's pass by the assigned QA agent, a complete HANDOVER with a full candidate
  hash, and exactly one two-parent merge on the main branch's first-parent line whose second
  parent is that candidate (or that merge is pending), and a review that passed and audited the
  candidate and its checks.\<close>

theorem done_product_task:
  assumes "checkTask v rootdir backlog taskId ''full'' = []" and "taskById backlog taskId = Inr task"
    and "js_field task ''status'' = JStr ''done''" and "change_class_of task \<noteq> JStr ''safety_contract''"
    and "\<not> committedLegacyCompletionBinding v rootdir taskId"
  shows "\<exists>dir. resolveInside rootdir (js_field task ''task_dir'') (js_string taskId @ '' task_dir'') = Inr dir
     \<and> finished_product v rootdir task dir \<and> audited_review v task dir"
proof -
  from assms(1) obtain c where c: "clean (preflight v rootdir backlog taskId ''full'') c"
    "clean (qa_gate v rootdir c) ()" "clean (done_gate v rootdir c) ()"
    unfolding checkTask_Nil by blast
  note p = preflight_clean [OF c(1)]
  have t: "tc_task c = task" "\<not> tc_safety c" "tc_phase c = JStr ''done''"
    using p(2,4,5) assms(2,3,4) by (auto simp: effective_phase_def)
  have l: "\<not> tc_legacy c" using check_legacy_clean(1) [OF p(10)] assms(5) by blast
  show ?thesis
    using done_gate_finished [OF c(3) _ t(2) l] qa_gate_audited [OF c(2) _ t(2) l] p(3) t assms(3) by auto
qed

lemma demo_task_by_id: "taskById (demo_backlog status cls) (JStr ''TASK-0001'') = Inr (demo_task status cls)"
  by (simp add: taskById_def demo_backlog_def demo_task_def strs_def)

lemma demo_task_fields: "js_field (demo_task status cls) ''status'' = JStr status"
  "change_class_of (demo_task status cls) = JStr cls"
  "\<not> truthy (js_field (demo_task status cls) ''bootstrap_exception'')"
  by (simp_all add: demo_task_def strs_def change_class_of_def)

lemma demo_not_legacy: "\<not> committedLegacyCompletionBinding (demo_view ''product'') ''/r'' (JStr ''TASK-0001'')"
  by code_simp

theorem done_product_task_witness:
  "\<exists>dir. finished_product (demo_view ''product'') ''/r'' (demo_task ''done'' ''product'') dir
     \<and> audited_review (demo_view ''product'') (demo_task ''done'' ''product'') dir"
  using done_product_task [OF demo_checks(1) demo_task_by_id _ _ demo_not_legacy] demo_task_fields by simp blast

text \<open>C7: A Task that \<open>checkTask\<close> accepts in or after development, bootstrap apart, has an approved plan
  and QA plan by the assigned agents and main agent, a valid selection of the DEV profile, all
  five assignees, a DEV agent that neither reviews nor tests, and in \<open>dev\<close> and \<open>qa\<close> a branch and a
  worktree named after the Task.\<close>

theorem dev_task_is_approved:
  assumes "checkTask v rootdir backlog taskId ''full'' = []" and "taskById backlog taskId = Inr task"
    and "effective_phase task \<in> {JStr ''dev'', JStr ''qa'', JStr ''done''}"
    and "\<not> truthy (js_field task ''bootstrap_exception'')"
  shows "\<exists>dir plan qaPlan. resolveInside rootdir (js_field task ''task_dir'') (js_string taskId @ '' task_dir'') = Inr dir
     \<and> parseFrontmatter v (path_join dir ''PLAN.md'') = Inr plan
     \<and> parseFrontmatter v (path_join dir ''QA_PLAN.md'') = Inr qaPlan
     \<and> approved_documents task plan qaPlan
     \<and> (effective_phase task \<noteq> JStr ''done'' \<longrightarrow>
          task_slug_path ''task/'' (js_string taskId) (str_or_empty (js_field task ''branch''))
        \<and> task_slug_path ''worktrees/'' (js_string taskId) (str_or_empty (js_field task ''worktree'')))"
proof -
  from assms(1) obtain c where c: "clean (preflight v rootdir backlog taskId ''full'') c" "clean (dev_gate v rootdir c) ()"
    unfolding checkTask_Nil by blast
  note p = preflight_clean [OF c(1)]
  have t: "tc_task c = task" "tc_phase c = effective_phase task" using p(2,5) assms(2) by auto
  have ph: "tc_phase c \<in> {JStr ''dev'', JStr ''qa'', JStr ''done''}" using assms(3) t(2) by simp
  have b: "check_branch v rootdir task taskId = []" if "effective_phase task \<noteq> JStr ''done''"
    by (rule dev_gate_clean [OF c(2) ph]) (use dev_gate_body_Nil(4) t p(1) assms(3,4) that in auto)
  show ?thesis
    using dev_gate_approved [OF c(2) ph] branch_and_worktree_clean(1,2) [OF b] p(3) t(1) assms(4) by auto
qed

theorem dev_task_is_approved_witness:
  "\<exists>plan qaPlan. approved_documents (demo_task ''dev'' ''product'') plan qaPlan
     \<and> task_slug_path ''task/'' ''TASK-0001'' (str_or_empty (js_field (demo_task ''dev'' ''product'') ''branch''))"
proof -
  have e: "effective_phase (demo_task ''dev'' ''product'') = JStr ''dev''"
    by (simp add: effective_phase_def demo_task_fields)
  show ?thesis
    using dev_task_is_approved [OF demo_checks(2) demo_task_by_id _ demo_task_fields(3)] e by auto
qed

text \<open>C8: A current change cannot introduce legacy completion fields: when the working documents of
  a product Task bind a completion the old way, \<open>checkTask\<close> without errors means that the
  committed documents already did.\<close>

theorem legacy_not_introduced:
  assumes "checkTask v rootdir backlog taskId ''full'' = []" and "taskById backlog taskId = Inr task"
    and "resolveInside rootdir (js_field task ''task_dir'') (js_string taskId @ '' task_dir'') = Inr dir"
    and "change_class_of task \<noteq> JStr ''safety_contract''" and "working_legacy v dir task = Inr True"
  shows "committedLegacyCompletionBinding v rootdir taskId"
proof -
  from assms(1) obtain c where c: "clean (preflight v rootdir backlog taskId ''full'') c" unfolding checkTask_Nil by blast
  note p = preflight_clean [OF c]
  have t: "tc_task c = task" "tc_dir c = dir" "\<not> tc_safety c" using p(2-4) assms(2-4) by auto
  have "vw_exists v (path_join dir f)" if "f \<in> set REQUIRED_TASK_FILES" for f
    using p(9) that t(2) unfolding check_required_file_clean by auto
  then have "list_all (\<lambda>f. vw_exists v (path_join dir f)) [''REVIEW_RESULT.md'', ''QA_RESULT.md'', ''HANDOVER.md'']"
    by (simp add: REQUIRED_TASK_FILES_def)
  then show ?thesis using check_legacy_clean(2) [OF p(10)] t assms(5) by simp
qed

theorem legacy_not_introduced_witness:
  "committedLegacyCompletionBinding demo_legacy_view ''/r'' (JStr ''TASK-0001'')"
proof -
  have "resolveInside ''/r'' (js_field (demo_task ''plan'' ''product'') ''task_dir'') (js_string (JStr ''TASK-0001'') @ '' task_dir'') = Inr ''/r/t''"
    by code_simp
  from legacy_not_introduced [OF demo_legacy_check demo_task_by_id this _ demo_legacy_working] show ?thesis
    by (simp add: demo_task_fields)
qed

text \<open>The preflight reports exactly the first part of what the full check reports.\<close>

theorem preflight_prefix:
  "prefix (checkTask v rootdir backlog taskId ''preflight'') (checkTask v rootdir backlog taskId ''full'')"
proof -
  have "preflight v rootdir backlog taskId ''preflight'' = preflight v rootdir backlog taskId ''full''"
    by (simp add: preflight_def check_header_def)
  then show ?thesis unfolding checkTask_def by (simp add: prefix_run_chk_bindC)
qed



section \<open>Paths and scopes\<close>

text \<open>The rules \<open>allowedFor\<close> returns keep evidence in the main-managed area: every file that
  passes the gate of an evidence action is main-managed, so no evidence commit contains product
  files, unless the backlog the run read puts the Task's directory outside \<open>tasks/\<close>.\<close>

theorem evidence_scope_is_managed:
  assumes "runs (allowedFor h rootdir action taskId) es (Inr rules)"
    and "outside lifecycle_covers rules files = []" and "f \<in> set files"
  shows "isMainManagedPath f \<or> (\<exists>backlog task dir. runs (taskContext h rootdir taskId) es (Inr (backlog, task, dir))
     \<and> \<not> starts_with (js_string dir) ''tasks/'')"
proof (rule disjCI)
  assume no: "\<not> (\<exists>backlog task dir. runs (taskContext h rootdir taskId) es (Inr (backlog, task, dir))
     \<and> \<not> starts_with (js_string dir) ''tasks/'')"
  have "\<forall>r \<in> set rules. managed_rule r"
    using assms(1) other_rules_managed no unfolding allowedFor_def
    by (auto simp: runs_bindI dest!: task_action_rules_managed [OF sym] split: if_splits)
  then show "isMainManagedPath f" using managed_rule_gate assms(2,3) by blast
qed

definition demo_rules_run :: "event list \<times> (js_error + string list)" where
  "demo_rules_run = exec demo_env (allowedFor (demo_host 1) ''/r'' ''wiki'' JUndef) []"

theorem evidence_scope_is_managed_witness:
  "isMainManagedPath ''wiki/index.json'' \<or> (\<exists>backlog task dir.
     runs (taskContext (demo_host 1) ''/r'' JUndef) [] (Inr (backlog, task, dir)) \<and> \<not> starts_with (js_string dir) ''tasks/'')"
proof -
  have "demo_rules_run = ([], Inr WIKI_RULES)" by code_simp
  then have r: "runs (allowedFor (demo_host 1) ''/r'' ''wiki'' JUndef) [] (Inr WIKI_RULES)"
    using exec_runs [of "allowedFor (demo_host 1) ''/r'' ''wiki'' JUndef" demo_env "[]"] unfolding demo_rules_run_def by simp
  have g: "outside lifecycle_covers WIKI_RULES [''wiki/index.json''] = []" by code_simp
  show ?thesis by (rule evidence_scope_is_managed [OF r g]) simp
qed

text \<open>C12: A path that \<open>resolveInside\<close> returns lies at or below the root, segment by segment, with
  no empty, \<open>.\<close> or \<open>..\<close> segment left in it.\<close>

theorem resolveInside_contained:
  assumes "resolveInside rootdir v label = Inr p"
  shows "prefix (path_segs rootdir) (path_segs p) \<and> clean_segs (path_segs p) \<and> p = abs_path (path_segs p)"
  using resolveInside_inside [OF assms] by blast

theorem resolveInside_contained_witness: "prefix [''r''] (path_segs ''/r/b'')"
proof -
  have "resolveInside ''/r'' (JStr ''a/../b'') ''path'' = Inr ''/r/b''" by code_simp
  from resolveInside_contained [OF this] have "prefix (path_segs ''/r'') (path_segs ''/r/b'')" by blast
  moreover have "path_segs ''/r'' = [''r'']" by code_simp
  ultimately show ?thesis by simp
qed

text \<open>Every relative path of proper segments is accepted and resolves to the root extended by
  its segments, when the root is not \<open>/\<close> itself.\<close>

theorem resolveInside_complete:
  assumes "clean_segs rel" "rel \<noteq> []" "path_segs rootdir \<noteq> []"
  shows "resolveInside rootdir (JStr (slash_join rel)) label = Inr (abs_path (path_segs rootdir @ rel))"
  using assms by (rule resolveInside_plain)

theorem resolveInside_complete_witness:
  "resolveInside ''/r'' (JStr (slash_join [''a'', ''b''])) ''path'' = Inr (abs_path (path_segs ''/r'' @ [''a'', ''b'']))"
  by (rule resolveInside_complete) code_simp+

text \<open>A repository file path of a plan is a string of proper segments joined by single slashes:
  it is relative, it has no \<open>..\<close>, and it is its own normal form.\<close>

theorem repository_file_path:
  assumes "isRepositoryFilePath v"
  shows "\<exists>s. v = JStr s \<and> clean_segs (slash_split s) \<and> s = slash_join (slash_split s)"
  using assms by (rule isRepositoryFilePath_segs)

theorem repository_file_path_witness:
  "\<exists>s. JStr ''docs/a.md'' = JStr s \<and> clean_segs (slash_split s) \<and> s = slash_join (slash_split s)"
  by (rule repository_file_path) code_simp

section \<open>Routing\<close>

text \<open>C15: \<open>validateDevSelection\<close> accepts a plan exactly when it names a profile with a reason, has
  risk signals for Sol and none for Luna, and records no promotion or one sound promotion from
  Luna to Sol.\<close>

theorem dev_selection_exact: "validateDevSelection plan = Inr p \<longleftrightarrow> dev_selection_ok plan p"
  by (rule validateDevSelection_iff)

text \<open>The fixed route of a role admits no override: the arguments pass exactly when profile,
  model and effort are each absent or the contract's own value.\<close>

theorem no_route_override:
  "assertFixedOverrides c args = Inr u \<longleftrightarrow>
     override_ok (arg args ''profile'') (profile c) \<and> override_ok (arg args ''model'') (model c)
     \<and> override_ok (coalesce (arg args ''effort'') (arg args ''model_reasoning_effort'')) (effort c)"
  by (rule assertFixedOverrides_iff)

text \<open>The only delegation chain that is accepted is the root calling one Explorer, so an Explorer
  never spawns another agent.\<close>

theorem delegation_is_direct:
  assumes "validateDelegation chain questions threads = Inr b"
  shows "chain = JArr [JStr ''root'', JStr ''explorer'']"
  using assms by (rule validateDelegation_chain)

theorem delegation_is_direct_witness:
  "\<exists>chain b. validateDelegation chain [JStr ''q''] (JNum 1) = Inr b \<and> chain = JArr [JStr ''root'', JStr ''explorer'']"
proof -
  have "is_ok (validateDelegation (JArr [JStr ''root'', JStr ''explorer'']) [JStr ''q''] (JNum 1))" by code_simp
  then obtain b where b: "validateDelegation (JArr [JStr ''root'', JStr ''explorer'']) [JStr ''q''] (JNum 1) = Inr b"
    unfolding is_ok_iff by blast
  show ?thesis using b delegation_is_direct [OF b] by blast
qed

text \<open>The Explorer's command line holds supported options only and exactly one valid question.\<close>

theorem explorer_arguments:
  assumes "parseExplorerArgs argv = Inr args"
  shows "set (map fst args) \<subseteq> set SUPPORTED_ARGS
    \<and> (\<exists>q. map_of args ''question'' = Some q \<and> validateExplorerQuestion (JStr q) = Inr q)"
  using parseExplorerArgs_Inr [OF assms] by blast

theorem explorer_arguments_witness:
  "set (map fst [(''question'', ''Why?'')]) \<subseteq> set SUPPORTED_ARGS"
proof -
  have "parseExplorerArgs [''--question'', ''Why?''] = Inr [(''question'', ''Why?'')]" by code_simp
  from explorer_arguments [OF this] show ?thesis by blast
qed

text \<open>The outcome of a child agent is accepted exactly when it succeeded, made no commit, staged
  nothing, and changed something, all of it inside the allowed paths.\<close>

theorem child_outcome_exact:
  "validateChildOutcome ex bh ah staged changed allowed = Inr fs \<longleftrightarrow>
     ex = 0 \<and> bh = ah \<and> staged = [] \<and> changed \<noteq> [] \<and> fs = changed \<and> outside child_covers allowed changed = []"
  by (rule validateChildOutcome_Inr)

section \<open>Documents, arguments and templates\<close>

text \<open>A version 2 safety contract plan without errors declares distinct repository files: the planned
  ones inside the contract's directories, the generated ones among the generated documents.\<close>

theorem safety_plan_declares_files:
  assumes "validateSafetyContractPlan plan changeClass = Inr pc" and "pc_version pc = JNum 2" and "pc_errors pc = []"
  shows "changeClass = JStr ''safety_contract'' \<and> distinct (pc_planned pc @ pc_generated pc)
    \<and> (\<forall>c \<in> set (pc_planned pc). isRepositoryFilePath c \<and> safety_contract_path (js_string c))
    \<and> (\<forall>c \<in> set (pc_generated pc). isRepositoryFilePath c \<and> js_string c \<in> set SAFETY_CONTRACT_GENERATED_PATHS)
    \<and> js_field plan ''safety_contract_planned_paths'' = JArr (pc_planned pc)
    \<and> js_field plan ''safety_contract_generated_paths'' = JArr (pc_generated pc)"
  using validateSafetyContractPlan_v2 [OF assms] by blast

theorem safety_plan_declares_files_witness: "distinct [JStr ''AGENTS.md''] \<and> isRepositoryFilePath (JStr ''AGENTS.md'')"
proof -
  let ?pc = "contract_result [] (JNum 2) [JStr ''AGENTS.md''] []"
  have "validateSafetyContractPlan (demo_plan ''safety_contract'') (JStr ''safety_contract'') = Inr ?pc" by code_simp
  from safety_plan_declares_files [OF this] show ?thesis by simp
qed

text \<open>Printing options and parsing them again gives the options back, the last value of a
  repeated option winning.\<close>

theorem parseArgs_round_trip:
  assumes "\<forall>(k, v) \<in> set kvs. CHR ''-'' \<notin> set k \<and> arg_value v"
  shows "\<exists>m. parseArgs (render_args kvs) = Inr m \<and> map_of m = map_of (rev kvs)"
  using parse_args_from_render [OF assms, of "[]"] unfolding parseArgs_def by simp

theorem parseArgs_round_trip_witness:
  "\<exists>m. parseArgs (render_args [(''work_root'', ''/r''), (''task'', ''T'')]) = Inr m \<and> map_of m ''task'' = Some ''T''"
  using parseArgs_round_trip [of "[(''work_root'', ''/r''), (''task'', ''T'')]"]
  by (fastforce simp: arg_value_def)

text \<open>\<open>replaceTemplate\<close> replaces the holes of a template and nothing else: on the text of a list
  of literals without braces and of holes it is the substitution, and a hole without a value throws.\<close>

theorem replaceTemplate_substitutes:
  assumes "\<forall>p \<in> set ps. template_piece p"
  shows "replaceTemplate vals (unparse ps) = expand vals ps"
  using assms by (rule replaceTemplate_unparse)

theorem replaceTemplate_substitutes_witness:
  "replaceTemplate [(''TITLE'', ''x'')] (unparse [Lit ''a '', Hole ''TITLE'', Hole ''DATE''])
     = expand [(''TITLE'', ''x'')] [Lit ''a '', Hole ''TITLE'', Hole ''DATE'']"
  by (rule replaceTemplate_substitutes) code_simp

text \<open>Escaped text contains none of the characters HTML gives a meaning to other than the
  ampersands of its entities, and unescaping it gives the value's text back.\<close>

theorem escapeHtml_safe:
  "unescape_html (escapeHtml v) = js_string v
    \<and> set (escapeHtml v) \<inter> {CHR ''<'', CHR ''>'', CHR 0x22, CHR 0x27} = {}"
  using unescape_escapeHtml html_char_safe unfolding escapeHtml_map by fastforce

text \<open>The front matter of a written document reads back: its body is the shortest text up to a
  closing fence.\<close>

theorem frontmatter_round_trip:
  assumes "\<forall>u v. b = u @ v \<longrightarrow> v \<noteq> [] \<longrightarrow>
    \<not> starts_with (v @ [newline] @ fence @ [newline] @ rest) ([newline] @ fence @ [newline])"
  shows "frontmatter_body (fence @ [newline] @ b @ [newline] @ fence @ [newline] @ rest) = Some b"
  using assms by (rule frontmatter_body_write)

theorem frontmatter_round_trip_witness:
  "frontmatter_body (fence @ [newline] @ ''a'' @ [newline] @ fence @ [newline] @ ''text'') = Some ''a''"
  by (rule frontmatter_round_trip) (auto simp: newline_def Cons_eq_append_conv)

text \<open>\<open>taskById\<close> returns a Task of the backlog with the id asked for.\<close>

theorem taskById_sound:
  assumes "taskById backlog taskId = Inr t"
  shows "\<exists>ts. js_field backlog ''tasks'' = JArr ts \<and> t \<in> set ts \<and> js_field t ''id'' = taskId"
  using assms by (rule taskById_Inr)

theorem taskById_sound_witness:
  "\<exists>ts. js_field (demo_backlog ''dev'' ''product'') ''tasks'' = JArr ts \<and> demo_task ''dev'' ''product'' \<in> set ts
     \<and> js_field (demo_task ''dev'' ''product'') ''id'' = JStr ''TASK-0001''"
  by (rule taskById_sound [OF demo_task_by_id])

end
